(* ===== verification/ApimPrelude.thy ===== *)
theory ApimPrelude
  imports Complex_Main "HOL-Library.Word" "HOL-Library.Sublist"
begin

text \<open>
  Shared vocabulary of the development: Go strings as byte lists and the functions of the
  \<open>strings\<close> package the emulator uses, Go's \<open>time\<close> values as nanoseconds, the association
  of error values with sums, and the collections of facts the component theories use.

  A Go \<open>string\<close> is an immutable byte sequence, which is what Isabelle's \<open>string\<close> (a list of
  8-bit \<open>char\<close>) is.  \<open>strings.ToLower\<close>, \<open>ToUpper\<close>, \<open>EqualFold\<close> and \<open>TrimSpace\<close> are modelled on
  the ASCII range, the fast path of the Go library; bytes above 127 are left alone.
\<close>

named_theorems go_string_simps \<open>rewriting of the string functions\<close>
named_theorems apim_inv \<open>operations preserve the component invariants\<close>

type_synonym ('e, 'a) result = "'e + 'a"

abbreviation Err :: "'e \<Rightarrow> ('e, 'a) result" where "Err \<equiv> Inl"
abbreviation Ok :: "'a \<Rightarrow> ('e, 'a) result" where "Ok \<equiv> Inr"

definition bind_result :: "('e, 'a) result \<Rightarrow> ('a \<Rightarrow> ('e, 'b) result) \<Rightarrow> ('e, 'b) result" where
  "bind_result r f = (case r of Inl e \<Rightarrow> Inl e | Inr a \<Rightarrow> f a)"

lemma bind_result_simps [simp]:
  "bind_result (Inl e) f = Inl e"
  "bind_result (Inr a) f = f a"
  by (simp_all add: bind_result_def)

lemma bind_result_Inr_iff [simp]:
  "bind_result r f = Inr b \<longleftrightarrow> (\<exists>a. r = Inr a \<and> f a = Inr b)"
  by (cases r) auto

lemma bind_result_Inl_iff:
  "bind_result r f = Inl e \<longleftrightarrow> r = Inl e \<or> (\<exists>a. r = Inr a \<and> f a = Inl e)"
  by (cases r) auto

lemma bind_result_assoc:
  "bind_result (bind_result r f) g = bind_result r (\<lambda>a. bind_result (f a) g)"
  by (cases r) auto

section \<open>Bytes and ASCII case\<close>

definition lower_char :: "char \<Rightarrow> char" where
  "lower_char c =
     (if 65 \<le> (of_char c :: nat) \<and> (of_char c :: nat) \<le> 90
      then char_of (of_char c + 32 :: nat) else c)"

definition upper_char :: "char \<Rightarrow> char" where
  "upper_char c =
     (if 97 \<le> (of_char c :: nat) \<and> (of_char c :: nat) \<le> 122
      then char_of (of_char c - 32 :: nat) else c)"

text \<open>Evaluation of the two on a literal, bit by bit.\<close>

lemma lower_char_Char [simp]:
  "lower_char (Char b0 b1 b2 b3 b4 b5 b6 b7) =
     (if \<not> b7 \<and> b6 \<and> \<not> b5 \<and> (b0 \<or> b1 \<or> b2 \<or> b3 \<or> b4) \<and> \<not> (b4 \<and> b3 \<and> (b2 \<or> b1 \<and> b0))
      then Char b0 b1 b2 b3 b4 True b6 b7 else Char b0 b1 b2 b3 b4 b5 b6 b7)"
  by (cases b0; cases b1; cases b2; cases b3; cases b4; cases b5; cases b6; cases b7;
      simp add: lower_char_def char_of_def of_char_def bit_0)

lemma upper_char_Char [simp]:
  "upper_char (Char b0 b1 b2 b3 b4 b5 b6 b7) =
     (if \<not> b7 \<and> b6 \<and> b5 \<and> (b0 \<or> b1 \<or> b2 \<or> b3 \<or> b4) \<and> \<not> (b4 \<and> b3 \<and> (b2 \<or> b1 \<and> b0))
      then Char b0 b1 b2 b3 b4 False b6 b7 else Char b0 b1 b2 b3 b4 b5 b6 b7)"
  by (cases b0; cases b1; cases b2; cases b3; cases b4; cases b5; cases b6; cases b7;
      simp add: upper_char_def char_of_def of_char_def bit_0)

lemma lower_char_idem [simp]: "lower_char (lower_char c) = lower_char c"
  by (cases c) simp

lemma lower_upper_char [simp]: "lower_char (upper_char c) = lower_char c"
  by (cases c) simp

lemma lower_char_slash [simp]: "lower_char c = CHR ''/'' \<longleftrightarrow> c = CHR ''/''"
  by (cases c) (auto split: if_splits)

lemma lower_char_star [simp]: "lower_char c = CHR ''*'' \<longleftrightarrow> c = CHR ''*''"
  by (cases c) (auto split: if_splits)

definition to_lower :: "string \<Rightarrow> string" where
  "to_lower = map lower_char"

definition to_upper :: "string \<Rightarrow> string" where
  "to_upper = map upper_char"

definition equal_fold :: "string \<Rightarrow> string \<Rightarrow> bool" where
  "equal_fold a b \<longleftrightarrow> to_lower a = to_lower b"

lemma to_lower_simps [simp]:
  "to_lower [] = []"
  "to_lower (c # s) = lower_char c # to_lower s"
  "to_lower (s @ t) = to_lower s @ to_lower t"
  by (simp_all add: to_lower_def)

lemma to_upper_simps [simp]:
  "to_upper [] = []"
  "to_upper (c # s) = upper_char c # to_upper s"
  "to_upper (s @ t) = to_upper s @ to_upper t"
  by (simp_all add: to_upper_def)

lemma to_lower_idem [simp]: "to_lower (to_lower s) = to_lower s"
  by (induction s) auto

lemma to_lower_upper [simp]: "to_lower (to_upper s) = to_lower s"
  by (induction s) auto

lemma length_to_lower [simp]: "length (to_lower s) = length s"
  by (simp add: to_lower_def)

lemma to_lower_Nil_iff [simp]: "to_lower s = [] \<longleftrightarrow> s = []"
  by (cases s) auto

lemma equal_fold_refl [simp]: "equal_fold s s"
  by (simp add: equal_fold_def)

lemma equal_fold_sym: "equal_fold s t \<longleftrightarrow> equal_fold t s"
  by (auto simp: equal_fold_def)

lemma equal_fold_trans: "equal_fold s t \<Longrightarrow> equal_fold t u \<Longrightarrow> equal_fold s u"
  by (simp add: equal_fold_def)

lemma equal_fold_lower [simp]:
  "equal_fold (to_lower s) t \<longleftrightarrow> equal_fold s t"
  "equal_fold s (to_lower t) \<longleftrightarrow> equal_fold s t"
  by (simp_all add: equal_fold_def)

section \<open>The strings package\<close>

definition has_prefix :: "string \<Rightarrow> string \<Rightarrow> bool" where
  "has_prefix s p \<longleftrightarrow> take (length p) s = p"

definition has_suffix :: "string \<Rightarrow> string \<Rightarrow> bool" where
  "has_suffix s p \<longleftrightarrow> length p \<le> length s \<and> drop (length s - length p) s = p"

definition trim_prefix :: "string \<Rightarrow> string \<Rightarrow> string" where
  "trim_prefix s p = (if has_prefix s p then drop (length p) s else s)"

definition trim_suffix :: "string \<Rightarrow> string \<Rightarrow> string" where
  "trim_suffix s p = (if has_suffix s p then take (length s - length p) s else s)"

text \<open>\<open>strings.Index\<close>: \<open>None\<close> is Go's \<open>-1\<close>.\<close>

fun index_of :: "string \<Rightarrow> string \<Rightarrow> nat option" where
  "index_of [] sub = (if sub = [] then Some 0 else None)"
| "index_of (c # s) sub =
     (if has_prefix (c # s) sub then Some 0 else map_option Suc (index_of s sub))"

definition contains :: "string \<Rightarrow> string \<Rightarrow> bool" where
  "contains s sub \<longleftrightarrow> index_of s sub \<noteq> None"

text \<open>\<open>strings.LastIndex\<close> for a one-byte needle.\<close>

fun last_index_char :: "string \<Rightarrow> char \<Rightarrow> nat option" where
  "last_index_char [] c = None"
| "last_index_char (x # s) c =
     (case last_index_char s c of Some i \<Rightarrow> Some (Suc i) | None \<Rightarrow> if x = c then Some 0 else None)"

text \<open>\<open>strings.Split\<close> with a one-byte separator: never the empty list.\<close>

fun split_char :: "char \<Rightarrow> string \<Rightarrow> string list" where
  "split_char sep [] = [[]]"
| "split_char sep (c # s) =
     (if c = sep then [] # split_char sep s
      else (case split_char sep s of [] \<Rightarrow> [[c]] | w # ws \<Rightarrow> (c # w) # ws))"

fun join_with :: "string \<Rightarrow> string list \<Rightarrow> string" where
  "join_with sep [] = []"
| "join_with sep [w] = w"
| "join_with sep (w # v # ws) = w @ sep @ join_with sep (v # ws)"

definition trim_left_char :: "char \<Rightarrow> string \<Rightarrow> string" where
  "trim_left_char c s = dropWhile (\<lambda>x. x = c) s"

definition trim_right_char :: "char \<Rightarrow> string \<Rightarrow> string" where
  "trim_right_char c s = rev (dropWhile (\<lambda>x. x = c) (rev s))"

definition trim_char :: "char \<Rightarrow> string \<Rightarrow> string" where
  "trim_char c s = trim_right_char c (trim_left_char c s)"

text \<open>ASCII white space: tab, line feed, vertical tab, form feed, carriage return, space.\<close>

definition is_space :: "char \<Rightarrow> bool" where
  "is_space c \<longleftrightarrow> (of_char c :: nat) \<in> {9, 10, 11, 12, 13, 32}"

definition trim_space :: "string \<Rightarrow> string" where
  "trim_space s = rev (dropWhile is_space (rev (dropWhile is_space s)))"

lemma is_space_Char [simp]:
  "is_space (Char b0 b1 b2 b3 b4 b5 b6 b7) \<longleftrightarrow>
     \<not> b7 \<and> \<not> b6 \<and> \<not> b4 \<and>
     (b5 \<and> \<not> b3 \<and> \<not> b2 \<and> \<not> b1 \<and> \<not> b0
      \<or> \<not> b5 \<and> b3 \<and> (b0 \<or> b1 \<or> b2) \<and> \<not> (b2 \<and> b1))"
  by (cases b0; cases b1; cases b2; cases b3; cases b4; cases b5; cases b6; cases b7;
      simp add: is_space_def of_char_def)

lemma has_prefix_iff: "has_prefix s p \<longleftrightarrow> (\<exists>t. s = p @ t)"
  unfolding has_prefix_def by (metis append_eq_conv_conj)

lemma has_prefix_simps [simp]:
  "has_prefix s []"
  "has_prefix [] (c # p) \<longleftrightarrow> False"
  "has_prefix (x # s) (c # p) \<longleftrightarrow> x = c \<and> has_prefix s p"
  by (auto simp: has_prefix_def)

lemma has_prefix_self_append [simp]: "has_prefix (p @ t) p"
  by (simp add: has_prefix_def)

lemma has_prefix_trans: "has_prefix s t \<Longrightarrow> has_prefix t u \<Longrightarrow> has_prefix s u"
  by (auto simp: has_prefix_iff)

lemma has_prefix_append_same [simp]: "has_prefix (p @ s) (p @ q) \<longleftrightarrow> has_prefix s q"
  by (auto simp: has_prefix_iff)

lemma has_suffix_iff: "has_suffix s p \<longleftrightarrow> (\<exists>t. s = t @ p)"
proof
  assume "has_suffix s p"
  then have "s = take (length s - length p) s @ p"
    unfolding has_suffix_def by (metis append_take_drop_id)
  then show "\<exists>t. s = t @ p" by blast
qed (auto simp: has_suffix_def)

lemma has_suffix_Nil [simp]: "has_suffix s []"
  by (simp add: has_suffix_def)

lemma has_suffix_self_append [simp]: "has_suffix (t @ p) p"
  by (auto simp: has_suffix_iff)

lemma has_prefix_lower: "has_prefix s p \<Longrightarrow> has_prefix (to_lower s) (to_lower p)"
  by (auto simp: has_prefix_iff)

lemma trim_prefix_append [simp]: "trim_prefix (p @ s) p = s"
  by (simp add: trim_prefix_def)

lemma index_of_Some: "index_of s sub = Some i \<Longrightarrow> \<exists>t. s = take i s @ sub @ t"
proof (induction s arbitrary: i)
  case (Cons c s)
  then show ?case
    by (auto simp: has_prefix_iff split: if_splits)
qed (auto split: if_splits)

lemma index_of_SomeD:
  "index_of s sub = Some i \<Longrightarrow>
     i + length sub \<le> length s \<and> s = take i s @ sub @ drop (i + length sub) s"
proof (induction s arbitrary: i)
  case (Cons c s)
  show ?case
  proof (cases "has_prefix (c # s) sub")
    case True
    then obtain t where t: "c # s = sub @ t" by (auto simp: has_prefix_iff)
    from True Cons.prems have "i = 0" by simp
    then show ?thesis by (simp only: t) simp
  next
    case False
    with Cons show ?thesis by auto
  qed
qed (auto split: if_splits)

lemma index_of_least: "s = a @ sub @ b \<Longrightarrow> \<exists>i \<le> length a. index_of s sub = Some i"
proof (induction s arbitrary: a)
  case (Cons c s)
  show ?case
  proof (cases a)
    case Nil
    with Cons.prems have "has_prefix (c # s) sub" by (simp add: has_prefix_iff)
    then show ?thesis by simp
  next
    case (Cons x a')
    with Cons.prems have "s = a' @ sub @ b" by simp
    with Cons.IH obtain i where "i \<le> length a'" "index_of s sub = Some i" by blast
    with Cons show ?thesis by auto
  qed
qed auto

lemma contains_iff: "contains s sub \<longleftrightarrow> (\<exists>a b. s = a @ sub @ b)"
proof
  assume "contains s sub"
  then obtain i where "index_of s sub = Some i" unfolding contains_def by auto
  from index_of_Some [OF this] show "\<exists>a b. s = a @ sub @ b" by blast
next
  assume "\<exists>a b. s = a @ sub @ b"
  then obtain a b where "s = a @ sub @ b" by blast
  from index_of_least [OF this] show "contains s sub" unfolding contains_def by auto
qed

lemma index_of_None: "index_of s sub = None \<longleftrightarrow> (\<forall>a b. s \<noteq> a @ sub @ b)"
  using contains_iff [of s sub] unfolding contains_def by auto

lemma split_char_not_Nil [simp]: "split_char sep s \<noteq> []"
  by (induction s) (auto split: list.splits)

lemma join_split [simp]: "join_with [sep] (split_char sep s) = s"
proof (induction s)
  case (Cons c s)
  then obtain w ws where "split_char sep s = w # ws" by (cases "split_char sep s") auto
  with Cons show ?case by (cases ws) auto
qed simp

lemma split_char_clean: "w \<in> set (split_char sep s) \<Longrightarrow> sep \<notin> set w"
  by (induction s arbitrary: w) (auto split: list.splits if_splits)

lemma sep_free_eq:
  "sep \<notin> set v \<Longrightarrow> sep \<notin> set w \<Longrightarrow> v @ sep # x = w @ sep # y \<longleftrightarrow> v = w \<and> x = y"
proof (induction v arbitrary: w)
  case Nil
  then show ?case by (cases w) auto
next
  case (Cons c v)
  then show ?case by (cases w) auto
qed

lemma split_char_append:
  "sep \<notin> set w \<Longrightarrow> split_char sep (w @ sep # s) = w # split_char sep s"
  by (induction w) auto

lemma split_char_single: "sep \<notin> set w \<Longrightarrow> split_char sep w = [w]"
  by (induction w) auto

lemma split_join:
  "ws \<noteq> [] \<Longrightarrow> \<forall>w \<in> set ws. sep \<notin> set w \<Longrightarrow> split_char sep (join_with [sep] ws) = ws"
proof (induction ws)
  case (Cons w ws)
  then have w: "sep \<notin> set w" and IH: "ws \<noteq> [] \<Longrightarrow> split_char sep (join_with [sep] ws) = ws"
    by auto
  show ?case
  proof (cases ws)
    case Nil
    with w show ?thesis by (simp add: split_char_single)
  next
    case (Cons v vs)
    then have "join_with [sep] (w # ws) = w @ sep # join_with [sep] ws" by simp
    with w Cons IH show ?thesis by (simp only: split_char_append list.distinct simp_thms)
  qed
qed simp

text \<open>
  The \<open>splitPath\<close> of the gateway and the \<open>split\<close> of the management handler: outer slashes are
  trimmed and the rest is cut at slashes, the empty path having no segments.
\<close>

definition split_path :: "string \<Rightarrow> string list" where
  "split_path path =
     (let value = trim_char (CHR ''/'') path in if value = [] then [] else split_char (CHR ''/'') value)"

lemma trim_left_char_id: "s = [] \<or> hd s \<noteq> c \<Longrightarrow> trim_left_char c s = s"
  by (cases s) (auto simp: trim_left_char_def)

lemma trim_right_char_id: "s = [] \<or> last s \<noteq> c \<Longrightarrow> trim_right_char c s = s"
  by (cases s rule: rev_cases) (auto simp: trim_right_char_def)

lemma trim_right_char_append_single [simp]: "trim_right_char c (s @ [c]) = trim_right_char c s"
  by (simp add: trim_right_char_def)

lemma trim_right_char_last: "trim_right_char c x = [] \<or> last (trim_right_char c x) \<noteq> c"
proof (cases "dropWhile (\<lambda>y. y = c) (rev x)")
  case Nil
  then show ?thesis by (simp add: trim_right_char_def)
next
  case (Cons a as)
  then have "a \<noteq> c" using hd_dropWhile [of "\<lambda>y. y = c" "rev x"] by simp
  then show ?thesis using Cons by (simp add: trim_right_char_def)
qed

lemma last_not_sep: "c \<notin> set s \<Longrightarrow> s \<noteq> [] \<Longrightarrow> last s \<noteq> c"
  using last_in_set [of s] by auto

lemma split_path_no_slash: "w \<in> set (split_path p) \<Longrightarrow> CHR ''/'' \<notin> set w"
  by (auto simp: split_path_def Let_def dest: split_char_clean split: if_splits)

section \<open>JSON documents\<close>

text \<open>
  A decoded JSON value, Go's \<open>any\<close> after \<open>json.Unmarshal\<close>: objects are \<open>map[string]any\<close>, here
  association lists whose order carries no meaning and whose first entry for a key counts;
  numbers are \<open>float64\<close>, here the rational they stand for.
\<close>

datatype json =
    JNull
  | JBool bool
  | JNum rat
  | JStr string
  | JArr "json list"
  | JObj "(string \<times> json) list"

definition jget :: "string \<Rightarrow> json \<Rightarrow> json option" where
  "jget k j = (case j of JObj kvs \<Rightarrow> map_of kvs k | _ \<Rightarrow> None)"

definition jset :: "string \<Rightarrow> json \<Rightarrow> (string \<times> json) list \<Rightarrow> (string \<times> json) list" where
  "jset k v kvs = (k, v) # filter (\<lambda>(k', _). k' \<noteq> k) kvs"

lemma map_of_jset [simp]: "map_of (jset k v kvs) = (map_of kvs)(k \<mapsto> v)"
proof
  fix x show "map_of (jset k v kvs) x = ((map_of kvs)(k \<mapsto> v)) x"
    by (induction kvs) (auto simp: jset_def)
qed

section \<open>Times and durations\<close>

text \<open>
  A \<open>time.Time\<close> is the integer count of nanoseconds from the Unix epoch; Go's zero time is
  1 January of year 1.  A \<open>time.Duration\<close> is an \<open>int64\<close> count of nanoseconds; \<open>Time.Sub\<close>
  saturates at the ends of that range, as the library documents.
\<close>

type_synonym time = int
type_synonym duration = int

definition nanos_per_second :: int where "nanos_per_second = 1000000000"

definition seconds :: "int \<Rightarrow> duration" where "seconds n = n * nanos_per_second"

text \<open>Signed 64-bit wrap-around, for a product such as \<open>time.Duration(n) * time.Second\<close>.\<close>

definition int64_wrap :: "int \<Rightarrow> int" where
  "int64_wrap n = (n + 2 ^ 63) mod 2 ^ 64 - 2 ^ 63"

lemma int64_wrap_id: "- (2 ^ 63) \<le> n \<Longrightarrow> n < 2 ^ 63 \<Longrightarrow> int64_wrap n = n"
  by (simp add: int64_wrap_def)

definition minute :: duration where "minute = seconds 60"

definition zero_time :: time where "zero_time = seconds (-62135596800)"

definition min_duration :: duration where "min_duration = - (2 ^ 63)"

definition max_duration :: duration where "max_duration = 2 ^ 63 - 1"

definition time_sub :: "time \<Rightarrow> time \<Rightarrow> duration" where
  "time_sub a b = max min_duration (min max_duration (a - b))"

definition time_after :: "time \<Rightarrow> time \<Rightarrow> bool" where
  "time_after a b \<longleftrightarrow> b < a"

lemma time_sub_exact:
  "min_duration \<le> a - b \<Longrightarrow> a - b \<le> max_duration \<Longrightarrow> time_sub a b = a - b"
  by (simp add: time_sub_def)

text \<open>Go's integer division and remainder truncate towards zero.\<close>

definition go_div :: "int \<Rightarrow> int \<Rightarrow> int" where
  "go_div a b = (let q = \<bar>a\<bar> div \<bar>b\<bar> in if (a < 0) = (b < 0) then q else - q)"

definition go_mod :: "int \<Rightarrow> int \<Rightarrow> int" where
  "go_mod a b = a - go_div a b * b"

end
