(* ===== verification/Clock.thy ===== *)
theory Clock
  imports ApimPrelude
begin

text \<open>
  The controllable clock of \<open>internal/clock/clock.go\<close>.  The struct keeps an offset, a frozen
  flag and a pinned time, all \<open>int64\<close> seconds, here 64-bit words (so additions wrap as the
  Go ones do).  The wall clock \<open>realNow\<close> is read at most once per operation, so an operation
  takes the reading as its argument.  The abstract clock of the second half says what the
  operations promise; a simulation shows that the struct implements it.
\<close>

type_synonym int64 = "64 word"

record clock =
  clk_offset :: int64
  clk_frozen :: bool
  clk_frozen_at :: int64

definition new_clock :: clock where
  "new_clock = \<lparr>clk_offset = 0, clk_frozen = False, clk_frozen_at = 0\<rparr>"

definition clock_now :: "clock \<Rightarrow> int64 \<Rightarrow> int64" where
  "clock_now c host = (if clk_frozen c then clk_frozen_at c else host + clk_offset c)"

definition clock_advance :: "int64 \<Rightarrow> clock \<Rightarrow> clock" where
  "clock_advance secs c =
     (if clk_frozen c then c\<lparr>clk_frozen_at := clk_frozen_at c + secs\<rparr>
      else c\<lparr>clk_offset := clk_offset c + secs\<rparr>)"

definition clock_set_offset :: "int64 \<Rightarrow> clock \<Rightarrow> clock" where
  "clock_set_offset secs c = c\<lparr>clk_offset := secs, clk_frozen := False\<rparr>"

definition clock_freeze :: "int64 \<Rightarrow> clock \<Rightarrow> clock" where
  "clock_freeze host c =
     (if \<not> clk_frozen c
      then c\<lparr>clk_frozen_at := host + clk_offset c, clk_frozen := True\<rparr>
      else c)"

definition clock_unfreeze :: "int64 \<Rightarrow> clock \<Rightarrow> clock" where
  "clock_unfreeze host c =
     (if clk_frozen c
      then c\<lparr>clk_offset := clk_frozen_at c - host, clk_frozen := False\<rparr>
      else c)"

definition clock_state :: "clock \<Rightarrow> int64 \<Rightarrow> int64 \<times> bool \<times> int64" where
  "clock_state c host =
     (if clk_frozen c then (clk_frozen_at c - host, True, clk_frozen_at c)
      else (clk_offset c, False, host + clk_offset c))"

lemmas clock_defs =
  clock_now_def clock_advance_def clock_set_offset_def clock_freeze_def clock_unfreeze_def
  clock_state_def

section \<open>The abstract clock\<close>

text \<open>
  What a caller may rely on: the controlled time runs with the wall clock while the clock is
  not frozen and stands still while it is; \<open>Advance\<close> adds to it in either mode; \<open>Freeze\<close> and
  \<open>Unfreeze\<close> never move it.  The abstract state is the last wall reading, the controlled time
  at that reading, and the mode.
\<close>

datatype clock_op = Advance int64 | SetOffset int64 | Freeze | Unfreeze

fun clock_step :: "clock \<Rightarrow> int64 \<times> clock_op \<Rightarrow> clock" where
  "clock_step c (host, Advance s) = clock_advance s c"
| "clock_step c (host, SetOffset s) = clock_set_offset s c"
| "clock_step c (host, Freeze) = clock_freeze host c"
| "clock_step c (host, Unfreeze) = clock_unfreeze host c"

definition clock_run :: "clock \<Rightarrow> (int64 \<times> clock_op) list \<Rightarrow> clock" where
  "clock_run = foldl clock_step"

record aclock =
  ac_wall :: int64
  ac_time :: int64
  ac_stopped :: bool

definition aclock_tick :: "int64 \<Rightarrow> aclock \<Rightarrow> aclock" where
  "aclock_tick host a =
     a\<lparr>ac_wall := host,
       ac_time := (if ac_stopped a then ac_time a else ac_time a + (host - ac_wall a))\<rparr>"

fun aclock_step :: "aclock \<Rightarrow> int64 \<times> clock_op \<Rightarrow> aclock" where
  "aclock_step a (host, Advance s) = (let b = aclock_tick host a in b\<lparr>ac_time := ac_time b + s\<rparr>)"
| "aclock_step a (host, SetOffset s) =
     (aclock_tick host a)\<lparr>ac_time := host + s, ac_stopped := False\<rparr>"
| "aclock_step a (host, Freeze) = (aclock_tick host a)\<lparr>ac_stopped := True\<rparr>"
| "aclock_step a (host, Unfreeze) = (aclock_tick host a)\<lparr>ac_stopped := False\<rparr>"

definition aclock_run :: "aclock \<Rightarrow> (int64 \<times> clock_op) list \<Rightarrow> aclock" where
  "aclock_run = foldl aclock_step"

definition clock_abs :: "int64 \<Rightarrow> clock \<Rightarrow> aclock" where
  "clock_abs host c = \<lparr>ac_wall = host, ac_time = clock_now c host, ac_stopped = clk_frozen c\<rparr>"

lemma clock_abs_tick: "aclock_tick host (clock_abs real0 c) = clock_abs host c"
  by (simp add: aclock_tick_def clock_abs_def clock_now_def)

lemma clock_step_sim: "aclock_step (clock_abs real0 c) (host, e) = clock_abs host (clock_step c (host, e))"
  by (cases e)
     (auto simp: clock_abs_tick Let_def, auto simp: clock_abs_def clock_defs algebra_simps)

lemma clock_run_sim:
  "aclock_run (clock_abs real0 c) es =
     clock_abs (if es = [] then real0 else fst (last es)) (clock_run c es)"
proof (induction es arbitrary: real0 c)
  case Nil
  then show ?case by (simp add: aclock_run_def clock_run_def)
next
  case (Cons e es)
  obtain host f where e: "e = (host, f)" by (cases e)
  have "aclock_run (clock_abs real0 c) (e # es) = aclock_run (clock_abs host (clock_step c e)) es"
    by (simp add: aclock_run_def e clock_step_sim)
  also have "\<dots> = clock_abs (if es = [] then host else fst (last es)) (clock_run (clock_step c e) es)"
    by (rule Cons.IH)
  finally show ?case by (simp add: clock_run_def e)
qed

text \<open>
  C40. The clock refines the abstract clock: after any timestamped run of Advance, SetOffset,
  Freeze and Unfreeze, what \<open>Now\<close> reads at any later wall time is the abstract controlled time,
  which stands still exactly while frozen and never jumps at Freeze or Unfreeze.
\<close>

theorem clock_refines_abstract:
  "clock_now (clock_run c es) host =
     ac_time (aclock_tick host (aclock_run (clock_abs real0 c) es))"
  by (simp only: clock_run_sim clock_abs_tick) (simp add: clock_abs_def)

lemma clock_state_consistent:
  "clock_state c host = (off, fr, t) \<Longrightarrow> t = clock_now c host \<and> host + off = t \<and> fr = clk_frozen c"
  by (auto simp: clock_defs split: if_splits)

end
