(* ===== verification/Rbac.thy ===== *)
theory Rbac
  imports ApimPrelude
begin

text \<open>
  The role evaluation of \<open>internal/rbac/rbac.go\<close>: role definitions with wildcard actions and
  subtracting \<open>notActions\<close>, assignments at a scope, inheritance down the resource-ID prefix and
  the deny-by-default decision.  The matcher is shown to be the declarative wildcard relation
  \<open>glob\<close>, scope inheritance to be the prefix order on path segments, and the decision to be
  exactly "some covering assignment grants it".
\<close>

record permission =
  perm_actions :: "string list"
  perm_not_actions :: "string list"

record role_definition =
  rd_name :: string
  rd_role_name :: string
  rd_description :: string
  rd_type :: string
  rd_permissions :: "permission list"

record 'doc assignment =
  as_name :: string
  as_scope :: string
  as_principal_id :: string
  as_principal_type :: string
  as_role_definition_id :: string
  as_document :: 'doc
  as_etag :: string

definition assignment_id :: "('doc, 'm) assignment_scheme \<Rightarrow> string" where
  "assignment_id a =
     as_scope a @ ''/providers/Microsoft.Authorization/roleAssignments/'' @ as_name a"

section \<open>Action matching\<close>

text \<open>
  The loop of \<open>matches\<close> over \<open>segments[1:]\<close>: an empty segment is skipped, the last one must be
  a suffix of what is left, any other is searched for and consumed.
\<close>

fun match_segments :: "string list \<Rightarrow> string \<Rightarrow> bool" where
  "match_segments [] remainder = True"
| "match_segments [segment] remainder = (segment = [] \<or> has_suffix remainder segment)"
| "match_segments (segment # s2 # rest) remainder =
     (if segment = [] then match_segments (s2 # rest) remainder
      else (case index_of remainder segment of
              None \<Rightarrow> False
            | Some index \<Rightarrow> match_segments (s2 # rest) (drop (index + length segment) remainder)))"

definition rbac_matches :: "string \<Rightarrow> string \<Rightarrow> bool" where
  "rbac_matches pattern0 action0 =
     (let pattern = to_lower pattern0; action = to_lower action0 in
      if \<not> contains pattern ''*'' then pattern = action
      else (case split_char (CHR ''*'') pattern of
              [] \<Rightarrow> False
            | segment0 # segments \<Rightarrow>
                if \<not> has_prefix action segment0 then False
                else match_segments segments (drop (length segment0) action)))"

definition role_allows :: "role_definition \<Rightarrow> string \<Rightarrow> bool" where
  "role_allows d action =
     (let granted = list_ex (\<lambda>p. list_ex (\<lambda>pattern. rbac_matches pattern action) (perm_actions p))
                      (rd_permissions d)
      in if \<not> granted then False
         else \<not> list_ex (\<lambda>p. list_ex (\<lambda>pattern. rbac_matches pattern action) (perm_not_actions p))
                  (rd_permissions d))"

section \<open>Scopes and the decision\<close>

definition scope_norm :: "string \<Rightarrow> string" where
  "scope_norm s = to_lower (trim_right_char (CHR ''/'') s)"

definition scope_covers :: "string \<Rightarrow> string \<Rightarrow> bool" where
  "scope_covers assigned0 target0 =
     (let assigned = scope_norm assigned0; target = scope_norm target0 in
      if assigned = [] \<or> assigned = target then assigned = target
      else has_prefix target (assigned @ ''/''))"

record decision =
  dec_allowed :: bool
  dec_role :: string

definition role_definition_name :: "string \<Rightarrow> string" where
  "role_definition_name i =
     (case last_index_char i (CHR ''/'') of Some index \<Rightarrow> drop (index + 1) i | None \<Rightarrow> i)"

fun rbac_authorize ::
  "string \<Rightarrow> string \<Rightarrow> string \<Rightarrow> 'doc assignment list \<Rightarrow> (string \<rightharpoonup> role_definition) \<Rightarrow> decision" where
  "rbac_authorize pid action scope [] definitions = \<lparr>dec_allowed = False, dec_role = []\<rparr>"
| "rbac_authorize pid action scope (a # rest) definitions =
     (if \<not> equal_fold (as_principal_id a) pid then
        rbac_authorize pid action scope rest definitions
      else if \<not> scope_covers (as_scope a) scope then
        rbac_authorize pid action scope rest definitions
      else (case definitions (to_lower (role_definition_name (as_role_definition_id a))) of
              None \<Rightarrow> rbac_authorize pid action scope rest definitions
            | Some d \<Rightarrow>
                if role_allows d action then \<lparr>dec_allowed = True, dec_role = rd_role_name d\<rparr>
                else rbac_authorize pid action scope rest definitions))"

section \<open>The matcher is the wildcard relation\<close>

text \<open>The specification: \<open>*\<close> stands for any run of characters, everything else for itself.\<close>

fun glob :: "string \<Rightarrow> string \<Rightarrow> bool" where
  "glob [] a \<longleftrightarrow> a = []"
| "glob (c # p) a \<longleftrightarrow>
     (if c = CHR ''*'' then (\<exists>k \<le> length a. glob p (drop k a))
      else (case a of [] \<Rightarrow> False | x # a' \<Rightarrow> x = c \<and> glob p a'))"

text \<open>The same relation by segments: each segment in turn, after any gap.\<close>

fun seg_glob :: "string list \<Rightarrow> string \<Rightarrow> bool" where
  "seg_glob [] t \<longleftrightarrow> t = []"
| "seg_glob (s # ss) t \<longleftrightarrow> (\<exists>u v. t = u @ s @ v \<and> seg_glob ss v)"

lemma glob_literal: "CHR ''*'' \<notin> set w \<Longrightarrow> glob (w @ p) a \<longleftrightarrow> (\<exists>t. a = w @ t \<and> glob p t)"
proof (induction w arbitrary: a)
  case (Cons c w)
  then show ?case by (cases a) auto
qed simp

lemma glob_star: "glob (CHR ''*'' # p) a \<longleftrightarrow> (\<exists>u t. a = u @ t \<and> glob p t)"
proof
  assume "glob (CHR ''*'' # p) a"
  then obtain k where "glob p (drop k a)" by auto
  then show "\<exists>u t. a = u @ t \<and> glob p t"
    by (intro exI [of _ "take k a"] exI [of _ "drop k a"]) simp
next
  assume "\<exists>u t. a = u @ t \<and> glob p t"
  then obtain u t where "a = u @ t" "glob p t" by blast
  then show "glob (CHR ''*'' # p) a" by (simp add: exI [of _ "length u"])
qed

lemma glob_segments:
  "\<forall>w \<in> set (s # ss). CHR ''*'' \<notin> set w \<Longrightarrow>
     glob (join_with ''*'' (s # ss)) a \<longleftrightarrow> (\<exists>t. a = s @ t \<and> seg_glob ss t)"
proof (induction ss arbitrary: s a)
  case Nil
  then show ?case using glob_literal [of s "[]" a] by simp
next
  case (Cons s2 ss)
  let ?p = "join_with ''*'' (s2 # ss)"
  from Cons.prems have s: "CHR ''*'' \<notin> set s" and rest: "\<forall>w \<in> set (s2 # ss). CHR ''*'' \<notin> set w"
    by auto
  have IH: "\<And>t. glob ?p t \<longleftrightarrow> (\<exists>v. t = s2 @ v \<and> seg_glob ss v)"
    using Cons.IH rest by blast
  have "glob (join_with ''*'' (s # s2 # ss)) a \<longleftrightarrow> (\<exists>t. a = s @ t \<and> glob (CHR ''*'' # ?p) t)"
    using glob_literal [OF s, of "CHR ''*'' # ?p" a] by simp
  also have "\<dots> \<longleftrightarrow> (\<exists>t. a = s @ t \<and> (\<exists>u v. t = u @ s2 @ v \<and> seg_glob ss v))"
    unfolding glob_star IH by blast
  finally show ?case by simp
qed

declare seg_glob.simps(2) [simp del]

lemma seg_globI: "t = u @ s @ v \<Longrightarrow> seg_glob ss v \<Longrightarrow> seg_glob (s # ss) t"
  by (auto simp: seg_glob.simps)

lemma seg_globE:
  assumes "seg_glob (s # ss) t"
  obtains u v where "t = u @ s @ v" and "seg_glob ss v"
  using assms by (auto simp: seg_glob.simps)

text \<open>A longer remainder never hurts, so the leftmost occurrence is as good as any.\<close>

lemma seg_glob_mono: "ss \<noteq> [] \<Longrightarrow> seg_glob ss v \<Longrightarrow> seg_glob ss (w @ v)"
proof (cases ss)
  case (Cons s rest)
  assume "seg_glob ss v"
  with Cons obtain u x where "v = u @ s @ x" "seg_glob rest x" by (auto elim: seg_globE)
  then have "seg_glob (s # rest) (w @ v)" by (intro seg_globI [of _ "w @ u" _ x]) simp_all
  with Cons show ?thesis by simp
qed simp

lemma match_segments_seg_glob:
  "ss \<noteq> [] \<Longrightarrow> match_segments ss r \<longleftrightarrow> seg_glob ss r"
proof (induction ss r rule: match_segments.induct)
  case (2 segment r)
  then show ?case by (auto simp: has_suffix_iff seg_glob.simps)
next
  case (3 segment s2 rest r)
  show ?case
  proof (cases "segment = []")
    case True
    have "seg_glob (segment # s2 # rest) r \<longleftrightarrow> seg_glob (s2 # rest) r"
      using True seg_glob_mono [of "s2 # rest"] by (auto elim: seg_globE intro: seg_globI [of _ "[]"])
    with True 3 show ?thesis by simp
  next
    case nonempty: False
    show ?thesis
    proof (cases "index_of r segment")
      case None
      then have "\<not> seg_glob (segment # s2 # rest) r"
        unfolding index_of_None by (blast elim: seg_globE)
      with None nonempty show ?thesis by simp
    next
      case (Some i)
      define t where "t = drop (i + length segment) r"
      from index_of_SomeD [OF Some] have t: "r = take i r @ segment @ t" and i: "i \<le> length r"
        by (simp_all add: t_def)
      have "seg_glob (segment # s2 # rest) r \<longleftrightarrow> seg_glob (s2 # rest) t"
      proof
        assume "seg_glob (s2 # rest) t"
        with t show "seg_glob (segment # s2 # rest) r" by (rule seg_globI)
      next
        assume "seg_glob (segment # s2 # rest) r"
        then obtain u v where uv: "r = u @ segment @ v" "seg_glob (s2 # rest) v"
          by (rule seg_globE)
        from index_of_least [OF uv(1)] Some have "i \<le> length u" by auto
        then have "t = drop (i + length segment) (u @ segment) @ v"
          unfolding t_def uv(1) by simp
        with uv(2) seg_glob_mono show "seg_glob (s2 # rest) t" by simp
      qed
      with 3 Some nonempty t_def show ?thesis by simp
    qed
  qed
qed simp

lemma rbac_matches_glob: "rbac_matches pattern action \<longleftrightarrow> glob (to_lower pattern) (to_lower action)"
proof (cases "contains (to_lower pattern) ''*''")
  case False
  then have "CHR ''*'' \<notin> set (to_lower pattern)"
    unfolding contains_iff by (metis append_Cons append_Nil split_list)
  then show ?thesis
    using False glob_literal [of "to_lower pattern" "[]" "to_lower action"]
    by (auto simp: rbac_matches_def Let_def)
next
  case True
  let ?p = "to_lower pattern" and ?a = "to_lower action"
  obtain s ss where split: "split_char (CHR ''*'') ?p = s # ss"
    by (cases "split_char (CHR ''*'') ?p") auto
  have p: "?p = join_with ''*'' (s # ss)" using join_split [of "CHR ''*''" ?p] split by simp
  have ss: "ss \<noteq> []"
  proof
    assume "ss = []"
    with p have "?p = s" by simp
    with split_char_clean [of s "CHR ''*''" ?p] split True show False
      by (auto simp: contains_iff)
  qed
  have clean: "\<forall>w \<in> set (s # ss). CHR ''*'' \<notin> set w"
    using split_char_clean split by metis
  have "glob ?p ?a \<longleftrightarrow> (\<exists>t. ?a = s @ t \<and> seg_glob ss t)"
    unfolding p by (rule glob_segments [OF clean])
  also have "\<dots> \<longleftrightarrow> has_prefix ?a s \<and> seg_glob ss (drop (length s) ?a)"
    by (auto simp: has_prefix_iff)
  finally show ?thesis
    using True ss by (simp add: rbac_matches_def Let_def split match_segments_seg_glob)
qed


text \<open>
  C36. The action matcher of \<open>rbac.go\<close>, which searches greedily from the left, decides exactly
  the declarative wildcard relation on the lower-cased strings: \<open>*\<close> is any run of characters,
  every other character itself.
\<close>

theorem rbac_matches_is_glob: "rbac_matches pattern action \<longleftrightarrow> glob (to_lower pattern) (to_lower action)"
  by (rule rbac_matches_glob)

section \<open>Scope inheritance is the prefix order on path segments\<close>

lemma split_char_append_sep:
  "split_char sep (s @ sep # t) = split_char sep s @ split_char sep t"
proof (induction s)
  case (Cons c s)
  then show ?case by (cases "split_char sep s") auto
qed simp

lemma prefix_split_iff:
  "has_prefix t (s @ ''/'') \<longleftrightarrow>
     (\<exists>rest. rest \<noteq> [] \<and> split_char (CHR ''/'') t = split_char (CHR ''/'') s @ rest)"
proof
  assume "has_prefix t (s @ ''/'')"
  then obtain u where "t = s @ CHR ''/'' # u" by (auto simp: has_prefix_iff)
  then have "split_char (CHR ''/'') t = split_char (CHR ''/'') s @ split_char (CHR ''/'') u"
    by (simp add: split_char_append_sep)
  moreover have "split_char (CHR ''/'') u \<noteq> []" by simp
  ultimately show "\<exists>rest. rest \<noteq> [] \<and> split_char (CHR ''/'') t = split_char (CHR ''/'') s @ rest"
    by blast
next
  assume "\<exists>rest. rest \<noteq> [] \<and> split_char (CHR ''/'') t = split_char (CHR ''/'') s @ rest"
  then obtain rest where rest: "rest \<noteq> []" and eq: "split_char (CHR ''/'') t = split_char (CHR ''/'') s @ rest"
    by blast
  have join_append: "join_with ''/'' (xs @ ys) = join_with ''/'' xs @ ''/'' @ join_with ''/'' ys"
    if "xs \<noteq> []" "ys \<noteq> []" for xs ys
    using that
  proof (induction xs rule: induct_list012)
    case (2 x)
    then show ?case by (cases ys) auto
  qed auto
  have "t = join_with ''/'' (split_char (CHR ''/'') s @ rest)"
    using join_split [of "CHR ''/''" t] eq by simp
  also have "\<dots> = s @ ''/'' @ join_with ''/'' rest"
    using join_append [of "split_char (CHR ''/'') s" rest] rest by simp
  finally show "has_prefix t (s @ ''/'')" by (auto simp: has_prefix_iff)
qed

lemma scope_covers_segs:
  "scope_covers a t \<longleftrightarrow>
     scope_norm a = scope_norm t \<or>
     scope_norm a \<noteq> [] \<and>
     (\<exists>rest. split_char (CHR ''/'') (scope_norm t) = split_char (CHR ''/'') (scope_norm a) @ rest)"
proof -
  have same: "s = t" if "split_char (CHR ''/'') t = split_char (CHR ''/'') s" for s t
    using join_split [of "CHR ''/''"] that by metis
  show ?thesis
    by (auto simp: scope_covers_def Let_def prefix_split_iff)
       (metis append_Nil2 same)+
qed

text \<open>
  An assignment's scope covers a target exactly when its path segments, trailing slashes and
  case aside, are an initial part of the target's: inheritance stops at segment boundaries, so
  \<open>/service/prod\<close> never covers \<open>/service/prod-canary\<close>.  The empty scope covers only itself.
\<close>

theorem scope_covers_segments:
  "scope_covers a t \<longleftrightarrow>
     scope_norm a = scope_norm t \<or>
     scope_norm a \<noteq> [] \<and>
     (\<exists>rest. split_char (CHR ''/'') (scope_norm t) = split_char (CHR ''/'') (scope_norm a) @ rest)"
  by (rule scope_covers_segs)

lemma scope_covers_refl: "scope_covers s s"
  by (simp add: scope_covers_def)

lemma scope_covers_trans: "scope_covers a b \<Longrightarrow> scope_covers b c \<Longrightarrow> scope_covers a c"
  unfolding scope_covers_segs by (metis append_assoc)

section \<open>The decision\<close>

definition grants :: "string \<Rightarrow> string \<Rightarrow> string \<Rightarrow> (string \<rightharpoonup> role_definition) \<Rightarrow> 'doc assignment \<Rightarrow> bool" where
  "grants pid action scope definitions a \<longleftrightarrow>
     equal_fold (as_principal_id a) pid \<and> scope_covers (as_scope a) scope \<and>
     (\<exists>d. definitions (to_lower (role_definition_name (as_role_definition_id a))) = Some d \<and>
          role_allows d action)"

lemma authorize_grants:
  "dec_allowed (rbac_authorize pid action scope assignments definitions) \<longleftrightarrow>
     (\<exists>a. a \<in> set assignments \<and> grants pid action scope definitions a)"
proof (induction pid action scope assignments definitions rule: rbac_authorize.induct)
  case (2 pid action scope a rest definitions)
  then show ?case by (auto simp: grants_def split: option.splits)
qed simp

text \<open>
  C35. Deny by default: an action is allowed exactly when some assignment of the list that names the
  principal and covers the scope refers to a known definition that permits the action.  The order
  of the assignments does not change the answer, and a further assignment never revokes one.
\<close>

theorem rbac_authorize_iff:
  "dec_allowed (rbac_authorize pid action scope assignments definitions) \<longleftrightarrow>
     (\<exists>a. a \<in> set assignments \<and> grants pid action scope definitions a)"
  by (rule authorize_grants)

lemma rbac_authorize_role:
  "dec_allowed (rbac_authorize pid action scope assignments definitions) \<Longrightarrow>
     \<exists>a d. a \<in> set assignments \<and> grants pid action scope definitions a \<and>
           definitions (to_lower (role_definition_name (as_role_definition_id a))) = Some d \<and>
           dec_role (rbac_authorize pid action scope assignments definitions) = rd_role_name d"
proof (induction pid action scope assignments definitions rule: rbac_authorize.induct)
  case (2 pid action scope a rest definitions)
  then show ?case by (auto simp: grants_def split: option.splits if_splits)
qed simp

end
