(* ===== verification/RbacRoles.thy ===== *)
theory RbacRoles
  imports Rbac
begin

text \<open>
  The built-in role table of \<open>internal/rbac/builtin.go\<close> and the translation of a request into
  an ARM action, with what the roles mean for the actions the emulator can ask about.
\<close>

definition service_contributor_id :: string where
  "service_contributor_id = ''312a565d-c81f-4fd8-895a-4e21e48d571c''"
definition service_reader_id :: string where
  "service_reader_id = ''71522526-b88f-4d52-b57f-d31fc3546d0d''"
definition service_operator_id :: string where
  "service_operator_id = ''e022efe7-f5ba-4159-bbe4-b44f577e9b61''"
definition workspace_contributor_id :: string where
  "workspace_contributor_id = ''0c34c906-8d99-4cb7-8df9-b5d5b0e4a5f1''"
definition workspace_reader_id :: string where
  "workspace_reader_id = ''ef579e47-3bd6-4f3e-a5d2-b8b3ecad3ab5''"
definition workspace_api_developer_id :: string where
  "workspace_api_developer_id = ''9565a273-41b9-4368-97d2-aeb0c976a9b3''"
definition workspace_api_product_id :: string where
  "workspace_api_product_id = ''d59a3e9c-6d52-4a5a-aeed-6bf3cf0e31da''"
definition reader_id :: string where
  "reader_id = ''acdd72a7-3385-48ef-bd42-f606fba81ae7''"
definition contributor_id :: string where
  "contributor_id = ''b24988ac-6180-42a0-ab88-20f7382dd24c''"
definition owner_id :: string where
  "owner_id = ''8e3af657-a8ff-443c-a75c-2fe8c4bcb635''"

definition built_in_role :: "string \<Rightarrow> string \<Rightarrow> string \<Rightarrow> string list \<Rightarrow> string list \<Rightarrow> role_definition" where
  "built_in_role name role_name description actions not_actions =
     \<lparr>rd_name = name, rd_role_name = role_name, rd_description = description,
      rd_type = ''BuiltInRole'',
      rd_permissions = [\<lparr>perm_actions = actions, perm_not_actions = not_actions\<rparr>]\<rparr>"

definition owner_role :: role_definition where
  "owner_role = built_in_role owner_id ''Owner'' ''Grants full access to manage all resources.'' [''*''] []"

definition contributor_role :: role_definition where
  "contributor_role = built_in_role contributor_id ''Contributor''
     ''Grants full access to manage all resources, but does not allow assigning roles.'' [''*'']
     [''Microsoft.Authorization/*/Delete'', ''Microsoft.Authorization/*/Write'',
      ''Microsoft.Authorization/elevateAccess/Action'']"

definition reader_role :: role_definition where
  "reader_role = built_in_role reader_id ''Reader''
     ''View all resources, but does not allow you to make any changes.'' [''*/read''] []"

definition service_contributor_role :: role_definition where
  "service_contributor_role = built_in_role service_contributor_id
     ''API Management Service Contributor'' ''Can manage service and the APIs.''
     [''Microsoft.ApiManagement/service/*'', ''Microsoft.Authorization/*/read'',
      ''Microsoft.Resources/subscriptions/resourceGroups/read''] []"

definition service_reader_role :: role_definition where
  "service_reader_role = built_in_role service_reader_id
     ''API Management Service Reader Role'' ''Read-only access to service and APIs.''
     [''Microsoft.ApiManagement/service/*/read'', ''Microsoft.ApiManagement/service/read'']
     [''Microsoft.ApiManagement/service/*/listSecrets/action'']"

definition service_operator_role :: role_definition where
  "service_operator_role = built_in_role service_operator_id
     ''API Management Service Operator Role'' ''Can manage service but not the APIs.''
     [''Microsoft.ApiManagement/service/*/read'', ''Microsoft.ApiManagement/service/read'',
      ''Microsoft.ApiManagement/service/write'']
     [''Microsoft.ApiManagement/service/apis/write'', ''Microsoft.ApiManagement/service/apis/delete'',
      ''Microsoft.ApiManagement/service/apis/*/write'', ''Microsoft.ApiManagement/service/apis/*/delete'']"

definition workspace_contributor_role :: role_definition where
  "workspace_contributor_role = built_in_role workspace_contributor_id
     ''API Management Workspace Contributor''
     ''Can manage the workspace and view, but not modify, its parent service.''
     [''Microsoft.ApiManagement/service/workspaces/*'', ''Microsoft.ApiManagement/service/read''] []"

definition workspace_reader_role :: role_definition where
  "workspace_reader_role = built_in_role workspace_reader_id
     ''API Management Workspace Reader'' ''Read-only access to the workspace.''
     [''Microsoft.ApiManagement/service/workspaces/*/read'',
      ''Microsoft.ApiManagement/service/workspaces/read'']
     [''Microsoft.ApiManagement/service/workspaces/*/listSecrets/action'']"

definition workspace_api_developer_role :: role_definition where
  "workspace_api_developer_role = built_in_role workspace_api_developer_id
     ''API Management Workspace API Developer''
     ''Can manage APIs in the workspace, but not products or subscriptions.''
     [''Microsoft.ApiManagement/service/workspaces/*/read'',
      ''Microsoft.ApiManagement/service/workspaces/apis/*'', ''Microsoft.ApiManagement/service/read''] []"

definition workspace_api_product_role :: role_definition where
  "workspace_api_product_role = built_in_role workspace_api_product_id
     ''API Management Workspace API Product Manager''
     ''Can manage products and subscriptions in the workspace, but not APIs.''
     [''Microsoft.ApiManagement/service/workspaces/*/read'',
      ''Microsoft.ApiManagement/service/workspaces/products/*'',
      ''Microsoft.ApiManagement/service/workspaces/subscriptions/*'',
      ''Microsoft.ApiManagement/service/read''] []"

definition built_in_roles :: "string \<rightharpoonup> role_definition" where
  "built_in_roles = map_of (map (\<lambda>r. (to_lower (rd_name r), r))
     [owner_role, contributor_role, reader_role, service_contributor_role, service_reader_role,
      service_operator_role, workspace_contributor_role, workspace_reader_role,
      workspace_api_developer_role, workspace_api_product_role])"

text \<open>\<open>ActionFor\<close>: every other segment is a resource type, the ones between are instance names.\<close>

fun type_segments :: "string list \<Rightarrow> string list" where
  "type_segments [] = []"
| "type_segments [t] = [t]"
| "type_segments (t # name # rest) = t # type_segments rest"

definition action_verb :: "string \<Rightarrow> string" where
  "action_verb m =
     (let u = to_upper m in
      if u = ''PUT'' \<or> u = ''PATCH'' \<or> u = ''POST'' then ''write''
      else if u = ''DELETE'' then ''delete'' else ''read'')"

definition action_for :: "string \<Rightarrow> string list \<Rightarrow> string" where
  "action_for m segments =
     ''Microsoft.ApiManagement/'' @ join_with ''/'' (type_segments segments) @ ''/'' @ action_verb m"

section \<open>What the roles permit\<close>

lemma matches_any: "rbac_matches ''*'' action"
  by (auto simp: rbac_matches_glob intro: exI [of _ "length action"])

lemma matches_star_literal:
  "CHR ''*'' \<notin> set (to_lower w) \<Longrightarrow> rbac_matches (CHR ''*'' # w) action \<longleftrightarrow> has_suffix (to_lower action) (to_lower w)"
proof -
  assume "CHR ''*'' \<notin> set (to_lower w)"
  then have "glob (to_lower w) a \<longleftrightarrow> a = to_lower w" for a
    using glob_literal [of "to_lower w" "[]" a] by simp
  then show ?thesis
    by (simp add: rbac_matches_glob glob_star has_suffix_iff del: glob.simps)
qed

lemma matches_literal_prefix:
  assumes "rbac_matches (w @ p) action" and "CHR ''*'' \<notin> set (to_lower w)"
  shows "has_prefix (to_lower action) (to_lower w)"
  using assms glob_literal [of "to_lower w" "to_lower p" "to_lower action"]
  by (auto simp: rbac_matches_glob has_prefix_iff)

lemma owner_allows: "role_allows owner_role action"
  by (simp add: role_allows_def owner_role_def built_in_role_def matches_any)

lemma to_lower_action_for:
  "to_lower (action_for m segments) =
     ''microsoft.apimanagement/'' @ to_lower (join_with ''/'' (type_segments segments)) @ ''/'' @ action_verb m"
  by (simp add: action_for_def action_verb_def Let_def)

lemma has_suffix_slash_clean:
  assumes "CHR ''/'' \<notin> set v" "CHR ''/'' \<notin> set w"
  shows "has_suffix (x @ CHR ''/'' # v) (CHR ''/'' # w) \<longleftrightarrow> v = w"
proof
  assume "has_suffix (x @ CHR ''/'' # v) (CHR ''/'' # w)"
  then obtain y where eq: "x @ CHR ''/'' # v = y @ CHR ''/'' # w" by (auto simp: has_suffix_iff)
  then have "rev v @ CHR ''/'' # rev x = rev w @ CHR ''/'' # rev y"
    by (metis append.assoc append_Cons append_Nil rev.simps(2) rev_append)
  with assms have "rev v = rev w" by (simp add: sep_free_eq)
  then show "v = w" by simp
qed (auto simp: has_suffix_iff)

text \<open>
  The Reader role permits exactly the requests whose method is not a writing one, whatever
  resource the path names: the action \<open>ActionFor\<close> builds ends in \<open>/read\<close> then and only then.
\<close>

theorem reader_allows_only_reads:
  "role_allows reader_role (action_for m segments) \<longleftrightarrow>
     to_upper m \<notin> {''PUT'', ''PATCH'', ''POST'', ''DELETE''}"
proof -
  have verb: "CHR ''/'' \<notin> set (action_verb m)" by (simp add: action_verb_def Let_def)
  have "role_allows reader_role (action_for m segments) \<longleftrightarrow>
          has_suffix (to_lower (action_for m segments)) ''/read''"
    using matches_star_literal [of "''/read''"]
    by (simp add: role_allows_def reader_role_def built_in_role_def)
  also have "\<dots> \<longleftrightarrow> action_verb m = ''read''"
    using has_suffix_slash_clean [OF verb, of "''read''"
        "''microsoft.apimanagement/'' @ to_lower (join_with ''/'' (type_segments segments))"]
    by (simp add: to_lower_action_for)
  also have "\<dots> \<longleftrightarrow> to_upper m \<notin> {''PUT'', ''PATCH'', ''POST'', ''DELETE''}"
    by (simp add: action_verb_def Let_def)
  finally show ?thesis .
qed

text \<open>
  The Contributor's \<open>notActions\<close> name another provider, and \<open>ActionFor\<close> always writes
  \<open>Microsoft.ApiManagement\<close>, so they never remove anything the emulator asks about.
\<close>

lemma contributor_allows_every_action: "role_allows contributor_role (action_for m segments)"
proof -
  have no: "\<not> rbac_matches (''Microsoft.Authorization/'' @ p) (action_for m segments)" for p
  proof
    assume "rbac_matches (''Microsoft.Authorization/'' @ p) (action_for m segments)"
    from matches_literal_prefix [OF this] show False by (simp add: to_lower_action_for)
  qed
  show ?thesis
    using no [of "''*/Delete''"] no [of "''*/Write''"] no [of "''elevateAccess/Action''"]
    by (simp add: role_allows_def contributor_role_def built_in_role_def matches_any)
qed

end
