(* ===== verification/RbacArm.thy ===== *)
theory RbacArm
  imports RbacRoles "HOL-Library.List_Lexorder" "HOL-Library.Char_ord"
begin

text \<open>
  Role enforcement on the management plane: \<open>internal/arm/authorize.go\<close> (the check made before a
  request is routed), \<open>internal/arm/authorization.go\<close> (the Microsoft.Authorization routes) and the
  role-assignment rows of \<open>internal/store/store.go\<close>.  A request body arrives decoded; SQLite I/O
  failures are not modelled.
\<close>

type_synonym document = "(string \<times> json) list"
type_synonym role_assignment = "document assignment"

datatype arm_reply =
    ArmError int string string string \<comment> \<open>status, code, message, target\<close>
  | ArmResource int document string \<comment> \<open>status, body, ETag\<close>
  | ArmJson int document
  | ArmEmpty int

fun arm_status :: "arm_reply \<Rightarrow> int" where
  "arm_status (ArmError s _ _ _) = s"
| "arm_status (ArmResource s _ _) = s"
| "arm_status (ArmJson s _) = s"
| "arm_status (ArmEmpty s) = s"

record arm_config =
  enforce_rbac :: bool
  rbac_owner :: string

section \<open>The rows of role assignments\<close>

text \<open>\<open>UpsertRoleAssignment\<close>: a row with the same id keeps its scope and name.\<close>

fun upsert_role_assignment :: "role_assignment \<Rightarrow> role_assignment list \<Rightarrow> role_assignment list" where
  "upsert_role_assignment v [] = [v]"
| "upsert_role_assignment v (a # rest) =
     (if assignment_id a = assignment_id v
      then a\<lparr>as_principal_id := as_principal_id v, as_principal_type := as_principal_type v,
             as_role_definition_id := as_role_definition_id v, as_document := as_document v,
             as_etag := as_etag v\<rparr> # rest
      else a # upsert_role_assignment v rest)"

definition get_role_assignment :: "string \<Rightarrow> role_assignment list \<Rightarrow> role_assignment option" where
  "get_role_assignment i rows = find (\<lambda>a. equal_fold (assignment_id a) i) rows"

definition list_role_assignments :: "role_assignment list \<Rightarrow> role_assignment list" where
  "list_role_assignments rows = sort_key assignment_id rows"

definition delete_role_assignment :: "string \<Rightarrow> role_assignment list \<Rightarrow> role_assignment list option" where
  "delete_role_assignment i rows =
     (let kept = filter (\<lambda>a. \<not> equal_fold (assignment_id a) i) rows in
      if length kept = length rows then None else Some kept)"

section \<open>The check before routing\<close>

fun find_provider :: "string \<Rightarrow> string list \<Rightarrow> string list option" where
  "find_provider ns (p # q # rest) =
     (if equal_fold p ''providers'' \<and> equal_fold q ns then Some rest
      else find_provider ns (q # rest))"
| "find_provider ns _ = None"

definition scope_and_action :: "string \<Rightarrow> string \<Rightarrow> string \<times> string" where
  "scope_and_action m path =
     (let parts = split_path path in
      case find_provider ''Microsoft.ApiManagement'' parts of
        None \<Rightarrow> ([], [])
      | Some [] \<Rightarrow> ([], [])
      | Some segments \<Rightarrow> (''/'' @ join_with ''/'' parts, action_for m segments))"

definition quoted :: "string \<Rightarrow> string" where
  "quoted s = CHR 0x27 # s @ [CHR 0x27]"

text \<open>\<open>None\<close>: the request may proceed; \<open>Some\<close>: the refusal that was written.\<close>

definition arm_authorize ::
  "arm_config \<Rightarrow> string option \<Rightarrow> string \<Rightarrow> string \<Rightarrow> role_assignment list \<Rightarrow> arm_reply option" where
  "arm_authorize cfg principal_id m path rows =
     (if \<not> enforce_rbac cfg then None
      else case principal_id of
        None \<Rightarrow> Some (ArmError 403 ''AuthorizationFailed''
          ''RBAC enforcement is enabled but the request carried no principal.'' path)
      | Some pid \<Rightarrow>
          if pid = [] then Some (ArmError 403 ''AuthorizationFailed''
            ''RBAC enforcement is enabled but the request carried no principal.'' path)
          else let (scope, action) = scope_and_action m path in
            if scope = [] then None
            else if rbac_owner cfg \<noteq> [] \<and> equal_fold pid (rbac_owner cfg) then None
            else if dec_allowed (rbac_authorize pid action scope (list_role_assignments rows) built_in_roles)
            then None
            else Some (ArmError 403 ''AuthorizationFailed''
              (''The client '' @ quoted pid @ '' with object id '' @ quoted pid
               @ '' does not have authorization to perform action '' @ quoted action
               @ '' over scope '' @ quoted scope @ '' or the scope is invalid.'') scope))"

section \<open>The Microsoft.Authorization routes\<close>

record authorization_route =
  ar_scope :: string
  ar_resource :: string
  ar_name :: string

fun parse_authorization_parts :: "string list \<Rightarrow> string list \<Rightarrow> authorization_route option" where
  "parse_authorization_parts seen (p # q # tail) =
     (if equal_fold p ''providers'' \<and> equal_fold q ''Microsoft.Authorization''
      then (case tail of
              [] \<Rightarrow> None
            | resource # names \<Rightarrow>
                let scope = ''/'' @ join_with ''/'' seen in
                if scope = ''/'' then None
                else Some \<lparr>ar_scope = scope, ar_resource = resource,
                           ar_name = (case names of [] \<Rightarrow> [] | name # _ \<Rightarrow> name)\<rparr>)
      else parse_authorization_parts (seen @ [p]) (q # tail))"
| "parse_authorization_parts seen _ = None"

definition parse_authorization :: "string \<Rightarrow> authorization_route option" where
  "parse_authorization path = parse_authorization_parts [] (split_path path)"

record assignment_body =
  ab_role_definition_id :: string
  ab_principal_id :: string
  ab_principal_type :: string

definition clean_resource_document :: "document \<Rightarrow> document" where
  "clean_resource_document d = filter (\<lambda>(k, _). k \<notin> {''id'', ''name'', ''type'', ''etag''}) d"

definition doc_properties :: "document \<Rightarrow> document" where
  "doc_properties d = (case map_of d ''properties'' of Some (JObj kvs) \<Rightarrow> kvs | _ \<Rightarrow> [])"

definition role_assignment_wire :: "role_assignment \<Rightarrow> document" where
  "role_assignment_wire v =
     (let result = jset ''type'' (JStr ''Microsoft.Authorization/roleAssignments'')
                    (jset ''name'' (JStr (as_name v))
                      (jset ''id'' (JStr (assignment_id v)) (as_document v)));
          properties = jset ''principalType'' (JStr (as_principal_type v))
                        (jset ''principalId'' (JStr (as_principal_id v))
                          (jset ''roleDefinitionId'' (JStr (as_role_definition_id v))
                            (jset ''scope'' (JStr (as_scope v)) (doc_properties result))))
      in jset ''properties'' (JObj properties) result)"

definition role_definition_wire :: "role_definition \<Rightarrow> document" where
  "role_definition_wire v =
     [(''id'', JStr (''/providers/Microsoft.Authorization/roleDefinitions/'' @ rd_name v)),
      (''name'', JStr (rd_name v)),
      (''type'', JStr ''Microsoft.Authorization/roleDefinitions''),
      (''properties'', JObj
        [(''roleName'', JStr (rd_role_name v)), (''description'', JStr (rd_description v)),
         (''type'', JStr (rd_type v)),
         (''permissions'', JArr (map (\<lambda>p. JObj
            [(''actions'', JArr (map JStr (perm_actions p))),
             (''notActions'', JArr (map JStr (perm_not_actions p))),
             (''dataActions'', JArr []), (''notDataActions'', JArr [])]) (rd_permissions v))),
         (''assignableScopes'', JArr [JStr ''/''])])]"

definition built_in_role_names :: "string list" where
  "built_in_role_names = sort (map to_lower
     [owner_id, contributor_id, reader_id, service_contributor_id, service_reader_id,
      service_operator_id, workspace_contributor_id, workspace_reader_id,
      workspace_api_developer_id, workspace_api_product_id])"

definition role_definitions :: "string \<Rightarrow> authorization_route \<Rightarrow> arm_reply" where
  "role_definitions m rt =
     (if m \<noteq> ''GET'' then ArmError 405 ''MethodNotAllowed'' ''The HTTP method is not allowed for this resource.'' []
      else if ar_name rt \<noteq> [] then
        (case built_in_roles (to_lower (ar_name rt)) of
           None \<Rightarrow> ArmError 404 ''ResourceNotFound'' ''The role definition was not found.'' (ar_name rt)
         | Some role \<Rightarrow> ArmJson 200 (role_definition_wire role))
      else ArmJson 200
        [(''value'', JArr (map (\<lambda>n. JObj (case built_in_roles n of Some r \<Rightarrow> role_definition_wire r | None \<Rightarrow> []))
                             built_in_role_names))])"

definition role_assignment_collection ::
  "string \<Rightarrow> authorization_route \<Rightarrow> role_assignment list \<Rightarrow> arm_reply" where
  "role_assignment_collection m rt rows =
     (if m \<noteq> ''GET'' then ArmError 405 ''MethodNotAllowed'' ''The HTTP method is not allowed for this resource.'' []
      else ArmJson 200
        [(''value'', JArr (map (\<lambda>a. JObj (role_assignment_wire a))
           (filter (\<lambda>a. scope_covers (as_scope a) (ar_scope rt) \<or> scope_covers (ar_scope rt) (as_scope a))
              (list_role_assignments rows))))])"

definition role_assignment_resource ::
  "string \<Rightarrow> authorization_route \<Rightarrow> (string, assignment_body \<times> document) result \<Rightarrow> string \<Rightarrow>
   role_assignment list \<Rightarrow> arm_reply \<times> role_assignment list" where
  "role_assignment_resource m rt decoded etag rows =
     (let value = \<lparr>as_name = ar_name rt, as_scope = ar_scope rt, as_principal_id = [],
                   as_principal_type = [], as_role_definition_id = [], as_document = [], as_etag = []\<rparr>;
          vid = assignment_id value in
      if m = ''GET'' \<or> m = ''HEAD'' then
        (case get_role_assignment vid rows of
           None \<Rightarrow> (ArmError 404 ''ResourceNotFound'' ''The resource was not found.'' vid, rows)
         | Some got \<Rightarrow> (ArmResource 200 (role_assignment_wire got) (as_etag got), rows))
      else if m = ''PUT'' then
        (case decoded of
           Inl e \<Rightarrow> (ArmError 400 ''InvalidRequestContent'' e [], rows)
         | Inr (body, doc) \<Rightarrow>
             if ab_role_definition_id body = [] \<or> ab_principal_id body = [] then
               (ArmError 400 ''InvalidRoleAssignmentRequest''
                  ''properties.roleDefinitionId and properties.principalId are required.'' ''properties'', rows)
             else if built_in_roles (to_lower (role_definition_name (ab_role_definition_id body))) = None then
               (ArmError 400 ''RoleDefinitionDoesNotExist''
                  ''The specified role definition does not exist.'' ''properties.roleDefinitionId'', rows)
             else let value' = value\<lparr>as_role_definition_id := ab_role_definition_id body,
                                as_principal_id := ab_principal_id body,
                                as_principal_type :=
                                  (if ab_principal_type body = [] then ''User'' else ab_principal_type body),
                                as_document := clean_resource_document doc, as_etag := etag\<rparr>;
                      status = (if get_role_assignment vid rows = None then 201 else 200)
                  in (ArmResource status (role_assignment_wire value') etag,
                      upsert_role_assignment value' rows))
      else if m = ''DELETE'' then
        (case delete_role_assignment vid rows of
           None \<Rightarrow> (ArmEmpty 204, rows)
         | Some kept \<Rightarrow> (ArmEmpty 200, kept))
      else (ArmError 405 ''MethodNotAllowed'' ''The HTTP method is not allowed for this resource.'' [], rows))"

definition arm_authorization ::
  "string \<Rightarrow> authorization_route \<Rightarrow> string \<Rightarrow> (string, assignment_body \<times> document) result \<Rightarrow> string \<Rightarrow>
   role_assignment list \<Rightarrow> arm_reply \<times> role_assignment list" where
  "arm_authorization m rt path decoded etag rows =
     (if equal_fold (ar_resource rt) ''roleDefinitions'' then (role_definitions m rt, rows)
      else if equal_fold (ar_resource rt) ''roleAssignments'' then
        (if ar_name rt = [] then (role_assignment_collection m rt rows, rows)
         else role_assignment_resource m rt decoded etag rows)
      else (ArmError 404 ''ResourceNotFound''
              ''The requested Microsoft.Authorization resource is not implemented.'' path, rows))"

text \<open>
  The Microsoft.Authorization branch of \<open>Handler.ServeHTTP\<close>: \<open>None\<close> when the path is not an
  authorization path and the request goes on to the APIM routes.
\<close>

definition authorization_versions :: "string list" where
  "authorization_versions =
     [''2015-07-01'', ''2018-01-01-preview'', ''2020-04-01-preview'',
      ''2020-08-01-preview'', ''2020-10-01-preview'', ''2022-04-01'']"

definition serve_authorization ::
  "arm_config \<Rightarrow> string option \<Rightarrow> string \<Rightarrow> string \<Rightarrow> string \<Rightarrow>
   (string, assignment_body \<times> document) result \<Rightarrow> string \<Rightarrow> role_assignment list \<Rightarrow>
   (arm_reply \<times> role_assignment list) option" where
  "serve_authorization cfg principal_id m path version decoded etag rows =
     (case parse_authorization path of
        None \<Rightarrow> None
      | Some rt \<Rightarrow> Some
          (if version \<notin> set authorization_versions then
             (ArmError 400 ''InvalidApiVersionParameter''
                ''The api-version query parameter is invalid or unsupported.'' ''api-version'', rows)
           else case arm_authorize cfg principal_id m (ar_scope rt) rows of
             Some refusal \<Rightarrow> (refusal, rows)
           | None \<Rightarrow> arm_authorization m rt path decoded etag rows))"


section \<open>What enforcement promises, and where it does not reach\<close>

lemma set_list_role_assignments [simp]: "set (list_role_assignments rows) = set rows"
  by (simp add: list_role_assignments_def)

text \<open>
  C33. With enforcement on, a request for an APIM resource proceeds exactly when the caller is the
  configured owner or some stored assignment of theirs, made at the resource or above it, has a
  role permitting the action built from the path; the refusal is a 403.
\<close>

theorem arm_authorize_resource:
  assumes "enforce_rbac cfg" and "pid \<noteq> []"
    and "find_provider ''Microsoft.ApiManagement'' (split_path path) = Some (seg # segs)"
  shows "(arm_authorize cfg (Some pid) m path rows = None \<longleftrightarrow>
            rbac_owner cfg \<noteq> [] \<and> equal_fold pid (rbac_owner cfg) \<or>
            (\<exists>a \<in> set rows. grants pid (action_for m (seg # segs))
                (''/'' @ join_with ''/'' (split_path path)) built_in_roles a)) \<and>
         (\<forall>r. arm_authorize cfg (Some pid) m path rows = Some r \<longrightarrow> arm_status r = 403)"
  using assms
  by (auto simp: arm_authorize_def scope_and_action_def authorize_grants Bex_def)

lemma upsert_new:
  "\<forall>a \<in> set rows. assignment_id a \<noteq> assignment_id v \<Longrightarrow> upsert_role_assignment v rows = rows @ [v]"
  by (induction rows) auto

lemma upsert_keeps_ids:
  "assignment_id ` set (upsert_role_assignment v rows) = insert (assignment_id v) (assignment_id ` set rows)"
  by (induction rows) (auto simp: assignment_id_def)

lemma owner_known: "built_in_roles (to_lower owner_id) = Some owner_role"
  by (simp add: built_in_roles_def owner_role_def built_in_role_def)

lemma owner_named: "owner_id \<noteq> []"
  by (simp add: owner_id_def)

lemma put_role_assignment:
  assumes "built_in_roles (to_lower (role_definition_name role)) = Some r" and "role \<noteq> []" and "pid \<noteq> []"
    and "v = \<lparr>as_name = ar_name rt, as_scope = ar_scope rt, as_principal_id = pid,
             as_principal_type = (if ptype = [] then ''User'' else ptype),
             as_role_definition_id = role, as_document = clean_resource_document doc, as_etag = etag\<rparr>"
    and "upsert_role_assignment v rows = rows'"
  shows "\<exists>reply. role_assignment_resource ''PUT'' rt
             (Inr (\<lparr>ab_role_definition_id = role, ab_principal_id = pid, ab_principal_type = ptype\<rparr>, doc))
             etag rows = (reply, rows') \<and> arm_status reply \<in> {200, 201}"
  using assms(1,2,3) unfolding assms(5) [symmetric] assms(4)
  by (simp add: role_assignment_resource_def Let_def)

lemma arm_authorize_allowed:
  assumes "\<And>action. dec_allowed (rbac_authorize pid action (''/'' @ join_with ''/'' (split_path path))
             (list_role_assignments rows) built_in_roles)"
    and "pid \<noteq> []"
  shows "arm_authorize cfg (Some pid) m path rows = None"
  using assms(2) assms(1) [of "action_for m (the (find_provider ''Microsoft.ApiManagement'' (split_path path)))"]
  by (cases "find_provider ''Microsoft.ApiManagement'' (split_path path)")
    (auto simp: arm_authorize_def scope_and_action_def Let_def split: list.splits)

text \<open>A scope above every path that starts with its segments.\<close>

lemma subscription_covers:
  assumes "split_path path = ''subscriptions'' # s # rest" and "s \<noteq> []"
  shows "scope_covers (''/subscriptions/'' @ s) (''/'' @ join_with ''/'' (split_path path))"
proof -
  have s: "CHR ''/'' \<notin> set s" using split_path_no_slash [of s path] assms(1) by simp
  have "last (''/subscriptions/'' @ s) = last s" using assms(2) by simp
  then have last: "last (''/subscriptions/'' @ s) \<noteq> CHR ''/''"
    using last_not_sep [OF s assms(2)] by simp
  have na: "scope_norm (''/subscriptions/'' @ s) = to_lower (''/subscriptions/'' @ s)"
    unfolding scope_norm_def by (subst trim_right_char_id) (use last in auto)
  show ?thesis
  proof (cases rest)
    case Nil
    then show ?thesis using assms by (simp add: scope_covers_refl)
  next
    case (Cons r rs)
    have "split_path path \<noteq> []" using assms by simp
    then have pn: "trim_char (CHR ''/'') path = join_with ''/'' (split_path path)"
      by (simp add: split_path_def Let_def split: if_splits)
    have "join_with ''/'' (split_path path) = [] \<or> last (join_with ''/'' (split_path path)) \<noteq> CHR ''/''"
      unfolding pn [symmetric] trim_char_def by (rule trim_right_char_last)
    then have "trim_right_char (CHR ''/'') (''/'' @ join_with ''/'' (split_path path)) =
        ''/'' @ join_with ''/'' (split_path path)"
      using assms(1) by (intro trim_right_char_id) (auto simp: assms(1))
    then have nt: "scope_norm (''/'' @ join_with ''/'' (split_path path)) =
        to_lower (''/subscriptions/'' @ s) @ ''/'' @ to_lower (join_with ''/'' (r # rs))"
      unfolding scope_norm_def by (simp add: assms(1) Cons)
    show ?thesis
      using na nt by (simp add: scope_covers_def Let_def)
  qed
qed

text \<open>
  C12. Role assignments outside an APIM resource escape enforcement: \<open>ServeHTTP\<close> passes \<open>authorize\<close>
  the bare scope, and a subscription scope names no APIM provider, so there is nothing to check.
  Whoever holds any principal id can PUT themselves Owner of a subscription, with no role and
  without being the configured owner, and from then on every request below it is let through.
\<close>

theorem subscription_self_grant:
  assumes "split_path path =
      [''subscriptions'', s, ''providers'', ''Microsoft.Authorization'', ''roleAssignments'', name]"
    and "version \<in> set authorization_versions"
    and "pid \<noteq> []" and "s \<noteq> []" and "name \<noteq> []"
    and "decoded = Inr (\<lparr>ab_role_definition_id = owner_id, ab_principal_id = pid,
                         ab_principal_type = ptype\<rparr>, doc)"
    and "\<forall>a \<in> set rows. assignment_id a \<noteq>
           ''/subscriptions/'' @ s @ ''/providers/Microsoft.Authorization/roleAssignments/'' @ name"
  shows "\<exists>reply rows'. serve_authorization cfg (Some pid) ''PUT'' path version decoded etag rows = Some (reply, rows') \<and>
           arm_status reply \<in> {200, 201} \<and>
           (\<forall>m path' rest. split_path path' = ''subscriptions'' # s # rest \<longrightarrow>
              arm_authorize cfg (Some pid) m path' rows' = None)"
proof -
  let ?rt = "\<lparr>ar_scope = ''/subscriptions/'' @ s, ar_resource = ''roleAssignments'', ar_name = name\<rparr>"
  let ?v = "\<lparr>as_name = name, as_scope = ''/subscriptions/'' @ s, as_principal_id = pid,
       as_principal_type = (if ptype = [] then ''User'' else ptype),
       as_role_definition_id = owner_id, as_document = clean_resource_document doc, as_etag = etag\<rparr>"
  have slash: "CHR ''/'' \<notin> set s" using split_path_no_slash [of s path] assms(1) by simp
  have rt: "parse_authorization path = Some ?rt"
    by (simp add: parse_authorization_def assms(1) equal_fold_def)
  have "trim_char (CHR ''/'') (''/subscriptions/'' @ s) = ''subscriptions/'' @ s"
    using slash assms(4) by (simp add: trim_char_def trim_left_char_def trim_right_char_id)
      (subst trim_right_char_id; auto simp: last_append dest: last_in_set)
  then have "split_path (''/subscriptions/'' @ s) = [''subscriptions'', s]"
    using split_char_append [of "CHR ''/''" "''subscriptions''" s] slash
    by (simp add: split_path_def Let_def split_char_single)
  then have not_checked: "arm_authorize cfg (Some pid) ''PUT'' (''/subscriptions/'' @ s) rows = None"
    using assms(3) by (simp add: arm_authorize_def scope_and_action_def equal_fold_def)
  have known: "built_in_roles (to_lower (role_definition_name owner_id)) = Some owner_role"
    using owner_known by (simp add: role_definition_name_def owner_id_def)
  have new: "upsert_role_assignment ?v rows = rows @ [?v]"
    using assms(7) by (intro upsert_new) (simp add: assignment_id_def)
  obtain reply where reply: "role_assignment_resource ''PUT'' ?rt decoded etag rows = (reply, rows @ [?v])"
      "arm_status reply \<in> {200, 201}"
    using put_role_assignment [of owner_id owner_role pid ?v ?rt ptype doc etag rows "rows @ [?v]"]
      known owner_named assms(3) new unfolding assms(6) by auto
  have routed: "arm_authorization ''PUT'' ?rt path decoded etag rows = (reply, rows @ [?v])"
    unfolding arm_authorization_def using assms(5) reply(1) by (simp add: equal_fold_def)
  have serve: "serve_authorization cfg (Some pid) ''PUT'' path version decoded etag rows =
      Some (reply, rows @ [?v])"
    unfolding serve_authorization_def rt option.case
    using assms(2) not_checked routed by simp
  have "arm_authorize cfg (Some pid) m path' (rows @ [?v]) = None"
    if "split_path path' = ''subscriptions'' # s # rest" for m path' rest
  proof -
    from subscription_covers [OF that assms(4)]
    have g: "grants pid action (''/'' @ join_with ''/'' (split_path path')) built_in_roles ?v" for action
      using known by (simp add: grants_def owner_allows)
    have "dec_allowed (rbac_authorize pid action (''/'' @ join_with ''/'' (split_path path'))
        (list_role_assignments (rows @ [?v])) built_in_roles)" for action
      unfolding authorize_grants by (intro exI [of _ ?v] conjI g) simp
    then show ?thesis by (rule arm_authorize_allowed) (rule assms(3))
  qed
  with serve reply(2) show ?thesis by blast
qed

theorem subscription_self_grant_witness:
  "\<exists>reply rows'. serve_authorization \<lparr>enforce_rbac = True, rbac_owner = ''boss''\<rparr> (Some ''eve'') ''PUT''
       ''/subscriptions/s1/providers/Microsoft.Authorization/roleAssignments/g1'' ''2022-04-01''
       (Inr (\<lparr>ab_role_definition_id = owner_id, ab_principal_id = ''eve'', ab_principal_type = []\<rparr>, []))
       ''e1'' [] = Some (reply, rows') \<and> arm_status reply \<in> {200, 201}"
proof -
  have p: "split_path ''/subscriptions/s1/providers/Microsoft.Authorization/roleAssignments/g1'' =
      [''subscriptions'', ''s1'', ''providers'', ''Microsoft.Authorization'', ''roleAssignments'', ''g1'']"
    by (simp add: split_path_def trim_char_def trim_left_char_def trim_right_char_def)
  show ?thesis
    using subscription_self_grant [OF p, of "''2022-04-01''" "''eve''"
        "Inr (\<lparr>ab_role_definition_id = owner_id, ab_principal_id = ''eve'', ab_principal_type = []\<rparr>, [])"
        "[]" "[]" "[]" "\<lparr>enforce_rbac = True, rbac_owner = ''boss''\<rparr>" "''e1''"]
    by (simp add: authorization_versions_def) blast
qed

theorem arm_authorize_resource_witness:
  "arm_authorize \<lparr>enforce_rbac = True, rbac_owner = ''boss''\<rparr> (Some ''eve'') ''PUT''
     ''/subscriptions/s1/resourceGroups/g/providers/Microsoft.ApiManagement/service/svc'' [] \<noteq> None"
proof -
  have p: "find_provider ''Microsoft.ApiManagement'' (split_path
      ''/subscriptions/s1/resourceGroups/g/providers/Microsoft.ApiManagement/service/svc'') =
      Some (''service'' # [''svc''])"
    by (simp add: split_path_def trim_char_def trim_left_char_def trim_right_char_def equal_fold_def)
  show ?thesis
    using arm_authorize_resource [OF _ _ p, of "\<lparr>enforce_rbac = True, rbac_owner = ''boss''\<rparr>" "''eve''" "''PUT''" "[]"]
    by (simp add: equal_fold_def)
qed

end
