(* ===== verification/Conditional.thy ===== *)
theory Conditional
  imports ApimPrelude
begin

text \<open>
  Conditional requests of the management plane, \<open>internal/arm/conditional.go\<close>: the \<open>If-Match\<close>
  and \<open>If-None-Match\<close> headers are parsed into entity tags, PATCH and DELETE of most resources
  must carry \<open>If-Match\<close>, and a write proceeds only when the tags match the resource as a probe
  GET finds it.  Routing (\<open>Handler.routeRequest\<close>) is an argument: a function from the state and
  a request to the recorded response and the state after it.
\<close>

type_synonym http_headers = "string \<rightharpoonup> string list"

record http_request =
  rq_method :: string
  rq_path :: string
  rq_headers :: http_headers

datatype arm_body =
    ErrorBody string string string \<comment> \<open>code, message, target\<close>
  | RawBody string

record http_reply =
  rp_code :: int
  rp_headers :: http_headers
  rp_body :: arm_body

definition header_values :: "http_headers \<Rightarrow> string \<Rightarrow> string list" where
  "header_values h k = (case h k of None \<Rightarrow> [] | Some vs \<Rightarrow> vs)"

definition header_get :: "http_headers \<Rightarrow> string \<Rightarrow> string" where
  "header_get h k = (case header_values h k of [] \<Rightarrow> [] | v # _ \<Rightarrow> v)"

definition header_del :: "http_headers \<Rightarrow> string \<Rightarrow> http_headers" where
  "header_del h k = h(k := None)"

text \<open>\<open>writeError\<close> on a fresh response writer.\<close>

definition write_error :: "int \<Rightarrow> string \<Rightarrow> string \<Rightarrow> string \<Rightarrow> http_reply" where
  "write_error status code message target =
     \<lparr>rp_code = status,
      rp_headers = [''X-Ms-Error-Code'' \<mapsto> [code], ''Content-Type'' \<mapsto> [''application/json; charset=utf-8'']],
      rp_body = ErrorBody code message target\<rparr>"

definition precondition_failed :: "string \<Rightarrow> http_reply" where
  "precondition_failed target = write_error 412 ''PreconditionFailed''
     ''The condition specified using HTTP conditional header(s) is not met.'' target"

section \<open>Entity tags\<close>

definition valid_entity_tag :: "string \<Rightarrow> bool" where
  "valid_entity_tag value =
     (let v = trim_prefix value ''W/'' in
      if length v < 2 \<or> hd v \<noteq> CHR 0x22 \<or> last v \<noteq> CHR 0x22 then False
      else (\<forall>c \<in> set (butlast (tl v)).
              \<not> (c = CHR 0x22 \<or> (of_char c :: nat) < 33 \<or> (of_char c :: nat) = 127)))"

text \<open>
  The tags, whether the header is present, and whether it is valid.  \<open>collect_tags\<close> is the body
  of the two nested loops, \<open>None\<close> its early return.
\<close>

fun collect_tags :: "string list \<Rightarrow> string list option" where
  "collect_tags [] = Some []"
| "collect_tags (t # ts) =
     (let tag = trim_space t in
      if tag \<noteq> ''*'' \<and> \<not> valid_entity_tag tag then None
      else map_option (\<lambda>rest. tag # rest) (collect_tags ts))"

definition entity_tags :: "string list \<Rightarrow> string list \<times> bool \<times> bool" where
  "entity_tags values =
     (if values = [] then ([], False, True)
      else (case collect_tags (concat (map (split_char (CHR '','')) values)) of
              None \<Rightarrow> ([], True, False)
            | Some result \<Rightarrow> (result, True, result \<noteq> [])))"

fun strong_tag_match :: "string list \<Rightarrow> string \<Rightarrow> bool \<Rightarrow> bool" where
  "strong_tag_match [] current present = False"
| "strong_tag_match (c # cs) current present =
     (if c = ''*'' then present
      else if present \<and> \<not> has_prefix c ''W/'' \<and> c = current then True
      else strong_tag_match cs current present)"

fun weak_tag_match :: "string list \<Rightarrow> string \<Rightarrow> bool \<Rightarrow> bool" where
  "weak_tag_match [] current present = False"
| "weak_tag_match (c # cs) current present =
     (if c = ''*'' then present
      else if present \<and> trim_prefix c ''W/'' = trim_prefix current ''W/'' then True
      else weak_tag_match cs current present)"

definition one_of :: "string \<Rightarrow> string list \<Rightarrow> bool" where
  "one_of value candidates = list_ex (\<lambda>candidate. value = candidate) candidates"

definition requires_if_match :: "string list \<Rightarrow> string \<Rightarrow> bool" where
  "requires_if_match tail m =
     (if length tail = 2 \<and> equal_fold (tail ! 0) ''tenant'' then m = ''PUT'' \<or> m = ''PATCH''
      else if m \<noteq> ''PATCH'' \<and> m \<noteq> ''DELETE'' then False
      else if length tail = 2 then
        (if m = ''PATCH'' then one_of (tail ! 0)
           [''policyRestrictions'', ''apis'', ''apiVersionSets'', ''namedValues'', ''backends'',
            ''caches'', ''identityProviders'', ''openidConnectProviders'', ''authorizationServers'',
            ''documentations'', ''gateways'', ''tags'', ''groups'', ''users'', ''loggers'',
            ''diagnostics'', ''products'', ''subscriptions'']
         else one_of (tail ! 0)
           [''apis'', ''apiVersionSets'', ''namedValues'', ''backends'', ''caches'',
            ''identityProviders'', ''openidConnectProviders'', ''authorizationServers'',
            ''documentations'', ''certificates'', ''gateways'', ''tags'', ''groups'', ''users'',
            ''policyFragments'', ''loggers'', ''diagnostics'', ''products'', ''subscriptions''])
      else if length tail \<noteq> 4 then False
      else let child = to_lower (tail ! 2) in
        if equal_fold (tail ! 0) ''gateways'' then
          m = ''DELETE'' \<and> one_of child [''hostnameconfigurations'', ''certificateauthorities'']
        else if \<not> equal_fold (tail ! 0) ''apis'' then False
        else if m = ''PATCH'' then one_of child [''operations'', ''releases'', ''diagnostics'']
        else one_of child [''operations'', ''schemas'', ''releases'', ''diagnostics''])"

section \<open>The handler\<close>

text \<open>
  \<open>Some reply\<close>: the request was answered here (Go's \<open>true\<close>); \<open>None\<close>: it goes on to routing.
  GET and HEAD are routed once and their recorded answer replayed.
\<close>

definition handle_conditional ::
  "('st \<Rightarrow> http_request \<Rightarrow> http_reply \<times> 'st) \<Rightarrow> string list \<Rightarrow> 'st \<Rightarrow> http_request \<Rightarrow>
   http_reply option \<times> 'st" where
  "handle_conditional route tail st r =
     (let (if_match, has_if_match, valid_if_match) = entity_tags (header_values (rq_headers r) ''If-Match'');
          (if_none, has_if_none, valid_if_none) = entity_tags (header_values (rq_headers r) ''If-None-Match'')
      in
      if \<not> valid_if_match \<or> \<not> valid_if_none then
        (Some (write_error 400 ''InvalidHeaderValue''
           ''A conditional request header contains an invalid entity tag.'' []), st)
      else if requires_if_match tail (rq_method r) \<and> \<not> has_if_match then
        (Some (write_error 400 ''MissingRequiredHeader''
           ''The If-Match header is required for this operation.'' ''If-Match''), st)
      else if \<not> has_if_match \<and> \<not> has_if_none then (None, st)
      else if rq_method r = ''GET'' \<or> rq_method r = ''HEAD'' then
        (let (response, st') = route st r;
             etag = header_get (rp_headers response) ''Etag'';
             ok = 200 \<le> rp_code response \<and> rp_code response < 300
         in
         if rp_code response = 404 \<and> has_if_match then (Some (precondition_failed (rq_path r)), st')
         else if ok \<and> has_if_match \<and> \<not> strong_tag_match if_match etag True
         then (Some (precondition_failed (rq_path r)), st')
         else if ok \<and> has_if_none \<and> weak_tag_match if_none etag True
         then (Some \<lparr>rp_code = 304, rp_headers = header_del (rp_headers response) ''Content-Type'',
                     rp_body = RawBody []\<rparr>, st')
         else (Some response, st'))
      else if rq_method r = ''PUT'' \<or> rq_method r = ''PATCH'' \<or> rq_method r = ''DELETE'' then
        (let (probe, st') = route st (r\<lparr>rq_method := ''GET'',
               rq_headers := header_del (header_del (rq_headers r) ''If-Match'') ''If-None-Match''\<rparr>);
             present = (200 \<le> rp_code probe \<and> rp_code probe < 300);
             etag = header_get (rp_headers probe) ''Etag''
         in
         if has_if_match \<and> \<not> strong_tag_match if_match etag present
         then (Some (precondition_failed (rq_path r)), st')
         else if has_if_none \<and> weak_tag_match if_none etag present
         then (Some (precondition_failed (rq_path r)), st')
         else (None, st'))
      else (None, st))"

text \<open>The end of \<open>Handler.ServeHTTP\<close>: the conditional handler first, then routing.\<close>

definition serve_conditional ::
  "('st \<Rightarrow> http_request \<Rightarrow> http_reply \<times> 'st) \<Rightarrow> string list \<Rightarrow> 'st \<Rightarrow> http_request \<Rightarrow> http_reply \<times> 'st" where
  "serve_conditional route tail st r =
     (case handle_conditional route tail st r of
        (Some reply, st') \<Rightarrow> (reply, st')
      | (None, st') \<Rightarrow> route st' r)"

section \<open>Lemmas\<close>

lemma strong_tag_match_iff:
  "strong_tag_match cs current present \<longleftrightarrow>
     present \<and> (\<exists>c \<in> set cs. c = ''*'' \<or> c = current \<and> \<not> has_prefix c ''W/'')"
  by (induction cs) auto

lemma weak_tag_match_iff:
  "weak_tag_match cs current present \<longleftrightarrow>
     present \<and> (\<exists>c \<in> set cs. c = ''*'' \<or> trim_prefix c ''W/'' = trim_prefix current ''W/'')"
  by (induction cs) auto

lemma collect_tags_Some_iff:
  "collect_tags ts = Some tags \<longleftrightarrow>
     tags = map trim_space ts \<and> (\<forall>t \<in> set tags. t = ''*'' \<or> valid_entity_tag t)"
  by (induction ts arbitrary: tags) (auto simp: Let_def)

lemma entity_tags_valid:
  "entity_tags vs = (tags, True, True) \<Longrightarrow> \<forall>t \<in> set tags. t = ''*'' \<or> valid_entity_tag t"
  by (auto simp: entity_tags_def collect_tags_Some_iff split: if_splits option.splits)

lemma entity_tags_present: "fst (snd (entity_tags vs)) \<longleftrightarrow> vs \<noteq> []"
  by (auto simp: entity_tags_def split: option.splits)

lemma entity_tags_invalid_empty: "\<not> snd (snd (entity_tags vs)) \<Longrightarrow> fst (entity_tags vs) = []"
  by (auto simp: entity_tags_def split: option.splits)

text \<open>The resource as the probe of a write finds it.\<close>

definition probe_request :: "http_request \<Rightarrow> http_request" where
  "probe_request r = r\<lparr>rq_method := ''GET'',
     rq_headers := header_del (header_del (rq_headers r) ''If-Match'') ''If-None-Match''\<rparr>"

definition probe_found :: "http_reply \<Rightarrow> bool" where
  "probe_found p \<longleftrightarrow> 200 \<le> rp_code p \<and> rp_code p < 300"

definition probe_etag :: "http_reply \<Rightarrow> string" where
  "probe_etag p = header_get (rp_headers p) ''Etag''"

lemmas conditional_simps =
  handle_conditional_def strong_tag_match_iff weak_tag_match_iff probe_request_def probe_found_def
  probe_etag_def Let_def

text \<open>
  C28. No lost update: a write that carries \<open>If-Match\<close> gets past the conditional handler only when
  the resource, as a GET sees it now, exists and the header names \<open>*\<close> or exactly its current
  entity tag; a weak tag never authorises it, and a refusal leaves only the effect of the probe.
\<close>

theorem conditional_write_no_lost_update:
  assumes "rq_method r \<in> {''PUT'', ''PATCH'', ''DELETE''}"
    and "header_values (rq_headers r) ''If-Match'' \<noteq> []"
    and "handle_conditional route tail st r = (None, st')"
  shows "\<exists>probe tags. route st (probe_request r) = (probe, st') \<and>
           entity_tags (header_values (rq_headers r) ''If-Match'') = (tags, True, True) \<and>
           probe_found probe \<and>
           (''*'' \<in> set tags \<or> probe_etag probe \<in> set tags \<and> \<not> has_prefix (probe_etag probe) ''W/'')"
proof -
  obtain tags b v where t: "entity_tags (header_values (rq_headers r) ''If-Match'') = (tags, b, v)"
    by (metis prod_cases3)
  obtain nt nb nv where n: "entity_tags (header_values (rq_headers r) ''If-None-Match'') = (nt, nb, nv)"
    by (metis prod_cases3)
  obtain probe st1 where p: "route st (probe_request r) = (probe, st1)" by fastforce
  have b: "b" using entity_tags_present [of "header_values (rq_headers r) ''If-Match''"] assms(2) t by simp
  show ?thesis
    using assms(1,3) t n p b
    by (auto simp: conditional_simps split: if_splits)
qed

text \<open>
  A PATCH or DELETE of a resource that requires an entity tag never reaches routing without
  an \<open>If-Match\<close> header: the answer is a 400 and the state is untouched.
\<close>

theorem unconditional_write_refused:
  assumes "requires_if_match tail (rq_method r)" and "header_values (rq_headers r) ''If-Match'' = []"
  shows "\<exists>reply. serve_conditional route tail st r = (reply, st) \<and> rp_code reply = 400"
  using assms
  by (cases "entity_tags (header_values (rq_headers r) ''If-None-Match'')")
    (auto simp: serve_conditional_def conditional_simps entity_tags_def write_error_def)

text \<open>
  Create-only writes: with \<open>If-None-Match: *\<close> alone a PUT proceeds exactly when the probe
  does not find the resource, and is answered 412 otherwise.
\<close>

theorem create_only_put:
  assumes "rq_method r = ''PUT''" and "\<not> requires_if_match tail ''PUT''"
    and "header_values (rq_headers r) ''If-Match'' = []"
    and "header_values (rq_headers r) ''If-None-Match'' = [''*'']"
    and "route st (probe_request r) = (probe, st')"
  shows "handle_conditional route tail st r =
           (if probe_found probe then Some (precondition_failed (rq_path r)) else None, st')"
proof -
  have tags: "entity_tags [''*''] = ([''*''], True, True)"
    by (simp add: entity_tags_def trim_space_def)
  show ?thesis
    using assms
    by (auto simp: conditional_simps tags entity_tags_def [of "[]"])
qed

text \<open>
  The header is never demanded below a workspace: the handler runs while the tail still begins
  with \<open>workspaces\<close>, which no branch of \<open>requiresIfMatch\<close> names, so a PATCH or DELETE of a workspace's
  API without either header goes straight to routing, while the same write on the service's own
  API is a 400.
\<close>

theorem workspace_write_unchecked:
  "requires_if_match (''workspaces'' # ws # rest) m = False \<and>
   (requires_if_match [''apis'', name] m \<longleftrightarrow> m = ''PATCH'' \<or> m = ''DELETE'')"
  by (auto simp: requires_if_match_def equal_fold_def one_of_def)

section \<open>Witnesses\<close>

text \<open>A store of one resource: GET answers it with its tag, any other method replaces it.\<close>

definition demo_route :: "string \<Rightarrow> http_request \<Rightarrow> http_reply \<times> string" where
  "demo_route st r =
     (if rq_method r = ''GET''
      then (\<lparr>rp_code = (if st = [] then 404 else 200), rp_headers = [''Etag'' \<mapsto> [st]],
             rp_body = RawBody []\<rparr>, st)
      else (\<lparr>rp_code = 200, rp_headers = Map.empty, rp_body = RawBody []\<rparr>, ''v2''))"

abbreviation demo_request :: "string \<Rightarrow> http_headers \<Rightarrow> http_request" where
  "demo_request m h \<equiv> \<lparr>rq_method = m, rq_path = ''/p'', rq_headers = h\<rparr>"

lemma demo_write_proceeds:
  "handle_conditional demo_route [''apis'', ''a''] (CHR 0x22 # ''v'' @ [CHR 0x22])
     (demo_request ''PATCH'' [''If-Match'' \<mapsto> [CHR 0x22 # ''v'' @ [CHR 0x22]]])
   = (None, CHR 0x22 # ''v'' @ [CHR 0x22])"
  by (simp add: handle_conditional_def header_values_def entity_tags_def trim_space_def
      valid_entity_tag_def trim_prefix_def demo_route_def requires_if_match_def one_of_def
      equal_fold_def header_get_def header_del_def)

theorem conditional_write_no_lost_update_witness:
  "\<exists>probe tags. demo_route (CHR 0x22 # ''v'' @ [CHR 0x22])
       (probe_request (demo_request ''PATCH'' [''If-Match'' \<mapsto> [CHR 0x22 # ''v'' @ [CHR 0x22]]]))
       = (probe, CHR 0x22 # ''v'' @ [CHR 0x22]) \<and> tags \<noteq> [] \<and> probe_found probe"
proof -
  let ?r = "demo_request ''PATCH'' [''If-Match'' \<mapsto> [CHR 0x22 # ''v'' @ [CHR 0x22]]]"
  from conditional_write_no_lost_update [OF _ _ demo_write_proceeds]
  obtain probe tags where "demo_route (CHR 0x22 # ''v'' @ [CHR 0x22]) (probe_request ?r) = (probe, CHR 0x22 # ''v'' @ [CHR 0x22])"
    "probe_found probe" "''*'' \<in> set tags \<or> probe_etag probe \<in> set tags"
    by (auto simp: header_values_def)
  then show ?thesis by (intro exI [of _ probe] exI [of _ tags]) auto
qed

theorem unconditional_write_refused_witness:
  "\<exists>reply. serve_conditional demo_route [''apis'', ''a''] ''v1'' (demo_request ''DELETE'' Map.empty) = (reply, ''v1'')
     \<and> rp_code reply = 400"
  by (rule unconditional_write_refused)
    (simp_all add: requires_if_match_def one_of_def equal_fold_def header_values_def)

theorem create_only_put_witness:
  "handle_conditional demo_route [''apis'', ''a''] [] (demo_request ''PUT'' [''If-None-Match'' \<mapsto> [''*'']]) = (None, [])
   \<and> fst (handle_conditional demo_route [''apis'', ''a''] ''v1''
        (demo_request ''PUT'' [''If-None-Match'' \<mapsto> [''*'']])) \<noteq> None"
  using create_only_put [of "demo_request ''PUT'' [''If-None-Match'' \<mapsto> [''*'']]" "[''apis'', ''a'']" demo_route "[]"]
    create_only_put [of "demo_request ''PUT'' [''If-None-Match'' \<mapsto> [''*'']]" "[''apis'', ''a'']" demo_route "''v1''"]
  by (simp add: requires_if_match_def one_of_def equal_fold_def header_values_def demo_route_def
      probe_request_def probe_found_def)

end
