(* ===== verification/FilterLex.thy ===== *)
theory FilterLex
  imports ApimPrelude
begin

text \<open>
  The tokens of the OData \<open>$filter\<close> option, \<open>lexFilter\<close> of \<open>internal/arm/collection.go\<close>, and the
  numbers \<open>strconv\<close> reads.  A number is a rational: rounding to \<open>float64\<close>, hexadecimal floats and
  the words for infinity and not-a-number are left out.  An \<open>fmt.Errorf\<close> message is a constructor
  of \<open>filter_error\<close> with its arguments; \<open>FPanic\<close> is an index out of range and \<open>FFuel\<close> an exhausted
  recursion bound, neither of which is reachable (shown where the parser is).
\<close>

datatype filter_error =
    UnterminatedString nat
  | UnexpectedToken string
  | MissingParen
  | ExpectedField string
  | ExpectedOperator string
  | LiteralRequired
  | UnsupportedFunction string
  | TwoArguments string
  | FieldAndLiteral string
  | LambdaVariable string
  | LambdaExpression string
  | LambdaParen string
  | ExpectedValue string
  | UnsupportedField string
  | UnsupportedOperator string string
  | UnsupportedFieldFunction string string
  | FPanic
  | FFuel

datatype token_kind =
    filterEOF | filterIdentifier | filterString | filterNumber | filterLeftParen
  | filterRightParen | filterComma | filterColon

record filter_token =
  tok_kind :: token_kind
  tok_text :: string

abbreviation token :: "token_kind \<Rightarrow> string \<Rightarrow> filter_token" where
  "token k t \<equiv> \<lparr>tok_kind = k, tok_text = t\<rparr>"

section \<open>Numbers\<close>

definition is_digit :: "char \<Rightarrow> bool" where
  "is_digit c \<longleftrightarrow> 48 \<le> (of_char c :: nat) \<and> (of_char c :: nat) \<le> 57"

definition digit_value :: "char \<Rightarrow> nat" where
  "digit_value c = of_char c - 48"

definition digits_value :: "string \<Rightarrow> nat" where
  "digits_value ds = foldl (\<lambda>n c. 10 * n + digit_value c) 0 ds"

text \<open>\<open>strconv.ParseInt(s, 10, bits)\<close>: an optional sign, then digits only, in range.\<close>

definition split_sign :: "string \<Rightarrow> bool \<times> string" where
  "split_sign s = (case s of [] \<Rightarrow> (False, [])
     | c # cs \<Rightarrow> if c = CHR ''-'' then (True, cs) else if c = CHR ''+'' then (False, cs) else (False, s))"

definition parse_int :: "nat \<Rightarrow> string \<Rightarrow> int option" where
  "parse_int bits s =
     (let (neg, ds) = split_sign s in
      if ds = [] \<or> \<not> list_all is_digit ds then None
      else let n = int (digits_value ds); v = (if neg then - n else n) in
        if v < - (2 ^ (bits - 1)) \<or> v \<ge> 2 ^ (bits - 1) then None else Some v)"

text \<open>\<open>strconv.Itoa\<close> on a natural number.\<close>

fun itoa :: "nat \<Rightarrow> string" where
  "itoa n = (if n < 10 then [char_of (48 + n)] else itoa (n div 10) @ [char_of (48 + n mod 10)])"

declare itoa.simps [simp del]

text \<open>\<open>strconv.ParseFloat\<close>: sign, digits with at most one point, optional decimal exponent.\<close>

definition parse_exponent :: "string \<Rightarrow> int option" where
  "parse_exponent s =
     (let (neg, ds) = split_sign s in
      if ds = [] \<or> \<not> list_all is_digit ds then None
      else Some (if neg then - int (digits_value ds) else int (digits_value ds)))"

definition rat_power10 :: "int \<Rightarrow> rat" where
  "rat_power10 e = (if e \<ge> 0 then 10 ^ nat e else inverse (10 ^ nat (- e)))"

definition parse_float :: "string \<Rightarrow> rat option" where
  "parse_float s =
     (let (neg, body) = split_sign s;
          whole = takeWhile is_digit body;
          rest = dropWhile is_digit body;
          frac = (case rest of [] \<Rightarrow> [] | c # cs \<Rightarrow> if c = CHR ''.'' then takeWhile is_digit cs else []);
          rest' = (case rest of [] \<Rightarrow> [] | c # cs \<Rightarrow> if c = CHR ''.'' then dropWhile is_digit cs else rest);
          mant = of_nat (digits_value (whole @ frac)) * rat_power10 (- int (length frac))
      in
      if whole = [] \<and> frac = [] then None
      else (case rest' of
              [] \<Rightarrow> Some (if neg then - mant else mant)
            | c # cs \<Rightarrow>
                if lower_char c = CHR ''e'' then
                  map_option (\<lambda>e. (if neg then - mant else mant) * rat_power10 e) (parse_exponent cs)
                else None))"

section \<open>The lexer\<close>

text \<open>\<open>unicode.IsSpace\<close> of one byte read as a rune: Latin-1 has two further spaces.\<close>

definition is_space_latin1 :: "char \<Rightarrow> bool" where
  "is_space_latin1 c \<longleftrightarrow> is_space c \<or> (of_char c :: nat) = 133 \<or> (of_char c :: nat) = 160"

definition is_word_char :: "char \<Rightarrow> bool" where
  "is_word_char c \<longleftrightarrow> \<not> is_space_latin1 c \<and> c \<notin> set ''(),:''"

text \<open>The inner loop of a string literal, after its opening quote: a doubled quote is a quote.\<close>

fun lex_quoted :: "string \<Rightarrow> (string \<times> string) option" where
  "lex_quoted [] = None"
| "lex_quoted [c] = (if c = CHR 0x27 then Some ([], []) else None)"
| "lex_quoted (c # d # s) =
     (if c \<noteq> CHR 0x27 then map_option (\<lambda>(v, r). (c # v, r)) (lex_quoted (d # s))
      else if d = CHR 0x27 then map_option (\<lambda>(v, r). (CHR 0x27 # v, r)) (lex_quoted s)
      else Some ([], d # s))"

lemma lex_quoted_shorter: "lex_quoted s = Some (v, r) \<Longrightarrow> length r < length s"
  by (induction s arbitrary: v rule: lex_quoted.induct) (fastforce split: if_splits)+

text \<open>The offset is the index into the source, reported for an unterminated string.\<close>

function lex_filter :: "nat \<Rightarrow> string \<Rightarrow> (filter_error, filter_token list) result" where
  "lex_filter i [] = Ok [token filterEOF []]"
| "lex_filter i (c # s) =
     (if is_space_latin1 c then lex_filter (Suc i) s
      else if c = CHR ''('' then bind_result (lex_filter (Suc i) s) (\<lambda>ts. Ok (token filterLeftParen ''('' # ts))
      else if c = CHR '')'' then bind_result (lex_filter (Suc i) s) (\<lambda>ts. Ok (token filterRightParen '')'' # ts))
      else if c = CHR '','' then bind_result (lex_filter (Suc i) s) (\<lambda>ts. Ok (token filterComma '','' # ts))
      else if c = CHR '':'' then bind_result (lex_filter (Suc i) s) (\<lambda>ts. Ok (token filterColon '':'' # ts))
      else if c = CHR 0x27 then
        (case lex_quoted s of
           None \<Rightarrow> Err (UnterminatedString i)
         | Some (v, r) \<Rightarrow>
             bind_result (lex_filter (Suc i + (length s - length r)) r) (\<lambda>ts. Ok (token filterString v # ts)))
      else let text = takeWhile is_word_char (c # s) in
        bind_result (lex_filter (i + length text) (dropWhile is_word_char (c # s)))
          (\<lambda>ts. Ok (token (if parse_float text = None then filterIdentifier else filterNumber) text # ts)))"
  by pat_completeness auto

lemma word_char_start:
  "\<not> is_space_latin1 c \<Longrightarrow> c \<noteq> CHR ''('' \<Longrightarrow> c \<noteq> CHR '')'' \<Longrightarrow> c \<noteq> CHR '','' \<Longrightarrow> c \<noteq> CHR '':'' \<Longrightarrow> is_word_char c"
  by (simp add: is_word_char_def)

lemma length_dropWhile_word: "length (dropWhile P s) \<le> length s"
  by (rule length_dropWhile_le)

termination lex_filter
  by (relation "measure (\<lambda>(i, s). length s)")
    (auto simp: word_char_start length_dropWhile_word le_imp_less_Suc dest: lex_quoted_shorter)

declare lex_filter.simps(2) [simp del]

text \<open>
  A token stream: it ends with the end-of-input token and has no other, and its identifiers are
  not empty.
\<close>

definition token_stream :: "filter_token list \<Rightarrow> bool" where
  "token_stream ts \<longleftrightarrow> ts \<noteq> [] \<and> tok_kind (last ts) = filterEOF \<and>
     (\<forall>t \<in> set (butlast ts). tok_kind t \<noteq> filterEOF) \<and>
     (\<forall>t \<in> set ts. tok_kind t = filterIdentifier \<longrightarrow> tok_text t \<noteq> [])"

lemma token_stream_ConsI:
  "tok_kind t \<noteq> filterEOF \<Longrightarrow> (tok_kind t = filterIdentifier \<Longrightarrow> tok_text t \<noteq> []) \<Longrightarrow>
     token_stream ts \<Longrightarrow> token_stream (t # ts)"
  by (auto simp: token_stream_def)

lemma token_stream_tl: "token_stream (t # ts) \<Longrightarrow> tok_kind t \<noteq> filterEOF \<Longrightarrow> token_stream ts"
  by (cases ts) (auto simp: token_stream_def)

lemma lex_filter_stream: "lex_filter i s = Ok ts \<Longrightarrow> token_stream ts"
proof (induction i s arbitrary: ts rule: lex_filter.induct)
  case (1 i)
  then show ?case by (auto simp: token_stream_def)
next
  case (2 i c s)
  then show ?case
    by (subst (asm) lex_filter.simps(2))
      (auto simp: Let_def word_char_start intro!: token_stream_ConsI split: if_splits option.splits)
qed

lemma lex_filter_error: "lex_filter i s \<noteq> Err FPanic \<and> lex_filter i s \<noteq> Err FFuel"
proof (induction i s rule: lex_filter.induct)
  case (2 i c s)
  then show ?case
    by (subst (1 2) lex_filter.simps(2))
      (simp add: bind_result_Inl_iff Let_def split: option.splits)
qed simp

text \<open>Decimal numbers print and read back.\<close>

lemma digit_char:
  assumes "d < 10"
  shows "is_digit (char_of (48 + d))" "digit_value (char_of (48 + d)) = d"
  using assms by (simp_all add: is_digit_def digit_value_def)

lemma digits_value_snoc: "digits_value (ds @ [c]) = 10 * digits_value ds + digit_value c"
  by (simp add: digits_value_def)

lemma itoa_digits: "list_all is_digit (itoa n) \<and> itoa n \<noteq> [] \<and> digits_value (itoa n) = n"
proof (induction n rule: itoa.induct)
  case (1 n)
  show ?case
  proof (cases "n < 10")
    case True
    then show ?thesis
      by (subst (1 2 3) itoa.simps) (simp add: digit_char digits_value_def)
  next
    case False
    then show ?thesis
      using 1 by (subst (1 2 3) itoa.simps) (simp add: digit_char digits_value_snoc)
  qed
qed

lemma digit_not_sign: "is_digit c \<Longrightarrow> c \<noteq> CHR ''-'' \<and> c \<noteq> CHR ''+''"
  by (auto simp: is_digit_def)

lemma parse_int_itoa: "n < 2 ^ (bits - 1) \<Longrightarrow> parse_int bits (itoa n) = Some (int n)"
proof -
  assume n: "n < 2 ^ (bits - 1)"
  have d: "list_all is_digit (itoa n)" "itoa n \<noteq> []" "digits_value (itoa n) = n"
    using itoa_digits by blast+
  then have "split_sign (itoa n) = (False, itoa n)"
    using digit_not_sign by (cases "itoa n") (auto simp: split_sign_def)
  moreover have "int n < 2 ^ (bits - 1)" using n by (metis of_nat_less_iff of_nat_numeral of_nat_power)
  moreover have "\<not> int n < - (2 ^ (bits - 1))"
    by (metis neg_le_0_iff_le not_less of_nat_0_le_iff order_trans zero_le_numeral zero_le_power)
  ultimately show ?thesis using d by (simp add: parse_int_def Let_def)
qed

end
