(* ===== verification/ODataFilter.thy ===== *)
theory ODataFilter
  imports FilterLex "HOL-Library.List_Lexorder" "HOL-Library.Char_ord"
begin

text \<open>
  The OData \<open>$filter\<close> option of the management collections, \<open>internal/arm/collection.go\<close>: the audited
  fields of each collection, the recursive-descent parser and the evaluation of a filter on a
  resource.  The closures the Go parser builds are the constructors of \<open>fexpr\<close>, and \<open>eval_filter\<close>
  is their application.  The parser's methods are mutually recursive over a bound that
  \<open>parse_filter\<close> chooses large enough; \<open>p.contract\<close>, which the lambda parser clears and restores,
  is an argument.
\<close>

type_synonym resource = "(string \<times> json) list"

record field_rule =
  fr_operators :: "string list"
  fr_functions :: "string list"

type_synonym filter_contract = "(string \<times> field_rule) list"

section \<open>The audited fields\<close>

definition full_filter_rule :: field_rule where
  "full_filter_rule =
     \<lparr>fr_operators = [''eq'', ''ne'', ''gt'', ''ge'', ''lt'', ''le''],
      fr_functions = [''contains'', ''startswith'', ''endswith'', ''substringof'']\<rparr>"

definition comparison_rule :: "string list \<Rightarrow> field_rule" where
  "comparison_rule operators = \<lparr>fr_operators = operators, fr_functions = []\<rparr>"

text \<open>The restricted entries are written last, so they win over the full ones.\<close>

definition make_filter_contract :: "string list \<Rightarrow> (string \<times> field_rule) list \<Rightarrow> filter_contract" where
  "make_filter_contract names restricted =
     map (\<lambda>(f, r). (to_lower f, r)) restricted @ map (\<lambda>f. (to_lower f, full_filter_rule)) names"

definition all_operators :: "string list" where
  "all_operators = [''eq'', ''ne'', ''gt'', ''ge'', ''lt'', ''le'']"

definition collection_filter_contracts :: "(string \<times> filter_contract) list" where
  "collection_filter_contracts =
    [(''apis'', make_filter_contract [''name'', ''displayName'', ''description'', ''serviceUrl'', ''path'']
        [(''isCurrent'', comparison_rule [''eq'', ''ne''])]),
     (''apis/diagnostics'', make_filter_contract [''name''] []),
     (''apis/operations'', make_filter_contract
        [''name'', ''displayName'', ''method'', ''description'', ''urlTemplate''] []),
     (''apis/releases'', make_filter_contract [''notes''] []),
     (''apis/revisions'', make_filter_contract [''apiRevision''] []),
     (''apis/schemas'', make_filter_contract [''contentType''] []),
     (''apis/tags'', make_filter_contract [''name'', ''displayName''] []),
     (''apis/operations/tags'', make_filter_contract [''name'', ''displayName''] []),
     (''apiVersionSets'', []),
     (''backends'', make_filter_contract [''name'', ''title'', ''url''] []),
     (''caches'', make_filter_contract [''name'', ''description'', ''region''] []),
     (''identityProviders'', []),
     (''openidConnectProviders'', make_filter_contract [''name'', ''displayName''] []),
     (''authorizationServers'', make_filter_contract [''name'', ''displayName''] []),
     (''documentations'', make_filter_contract []
        [(''name'', \<lparr>fr_operators = [''eq''], fr_functions = [''contains'']\<rparr>)]),
     (''certificates'', make_filter_contract [''name'', ''subject'', ''thumbprint'']
        [(''expirationDate'', comparison_rule all_operators)]),
     (''diagnostics'', make_filter_contract [''name''] []),
     (''groups'', make_filter_contract [''name'', ''displayName'', ''description'']
        [(''externalId'', comparison_rule [''eq''])]),
     (''groups/users'', make_filter_contract [''name'', ''firstName'', ''lastName'', ''email'', ''note'']
        [(''registrationDate'', comparison_rule all_operators)]),
     (''loggers'', make_filter_contract [''name'', ''description'', ''resourceId'']
        [(''loggerType'', comparison_rule [''eq''])]),
     (''namedValues'', make_filter_contract [''displayName'']
        [(''tags'', \<lparr>fr_operators = all_operators,
           fr_functions = [''contains'', ''startswith'', ''endswith'', ''substringof'', ''any'', ''all'']\<rparr>)]),
     (''policyFragments'', make_filter_contract [''name'', ''description'', ''value''] []),
     (''products'', make_filter_contract [''name'', ''displayName'', ''description'', ''terms'']
        [(''state'', comparison_rule [''eq''])]),
     (''products/apis'', make_filter_contract
        [''name'', ''displayName'', ''description'', ''serviceUrl'', ''path''] []),
     (''products/groups'', make_filter_contract []
        [(''name'', comparison_rule all_operators), (''displayName'', comparison_rule [''eq'', ''ne'']),
         (''description'', comparison_rule [''eq'', ''ne''])]),
     (''products/tags'', make_filter_contract [''name'', ''displayName''] []),
     (''subscriptions'', make_filter_contract
        [''name'', ''displayName'', ''stateComment'', ''ownerId'', ''scope'', ''userId'', ''productId'']
        [(''state'', comparison_rule [''eq''])]),
     (''tags'', make_filter_contract [''name'', ''displayName''] []),
     (''users'', make_filter_contract [''name'', ''firstName'', ''lastName'', ''email'', ''note'']
        [(''state'', comparison_rule [''eq'']), (''registrationDate'', comparison_rule all_operators)]),
     (''users/groups'', make_filter_contract [''name'', ''displayName'', ''description''] [])]"

definition collection_filter_key :: "string list \<Rightarrow> string" where
  "collection_filter_key tail =
     (if length tail = 1 then tail ! 0
      else if length tail = 3 then tail ! 0 @ ''/'' @ tail ! 2
      else if length tail = 5 then tail ! 0 @ ''/'' @ tail ! 2 @ ''/'' @ tail ! 4
      else [])"

section \<open>The parser\<close>

datatype operand = OLit json | OField string

datatype fexpr =
    FAll \<comment> \<open>the blank filter\<close>
  | FOr fexpr fexpr
  | FAnd fexpr fexpr
  | FCompare string string operand
  | FFunction string operand operand
  | FLambda string string fexpr

fun operand_field :: "operand \<Rightarrow> string" where
  "operand_field (OField f) = f"
| "operand_field (OLit _) = []"

definition current :: "filter_token list \<Rightarrow> filter_token" where
  "current ts = (case ts of [] \<Rightarrow> token filterEOF [] | t # _ \<Rightarrow> t)"

text \<open>\<open>p.index++; p.current = p.tokens[p.index]\<close>: past the last token Go panics.\<close>

definition advance :: "filter_token list \<Rightarrow> (filter_error, filter_token list) result" where
  "advance ts = (case ts of _ # t # rest \<Rightarrow> Ok (t # rest) | _ \<Rightarrow> Err FPanic)"

definition keyword :: "string \<Rightarrow> filter_token list \<Rightarrow> bool" where
  "keyword value ts \<longleftrightarrow> tok_kind (current ts) = filterIdentifier \<and> equal_fold (tok_text (current ts)) value"

text \<open>An error replaced by the caller's own; a panic is not an error and goes through.\<close>

definition replace_error :: "filter_error \<Rightarrow> filter_error \<Rightarrow> filter_error" where
  "replace_error mine e = (if e = FPanic \<or> e = FFuel then e else mine)"

definition validate_field ::
  "filter_contract option \<Rightarrow> string \<Rightarrow> string \<Rightarrow> string \<Rightarrow> filter_error option" where
  "validate_field contract field operator func =
     (case contract of
        None \<Rightarrow> None
      | Some c \<Rightarrow>
          (case map_of c (to_lower field) of
             None \<Rightarrow> Some (UnsupportedField field)
           | Some rule \<Rightarrow>
               if operator \<noteq> [] \<and> operator \<notin> set (fr_operators rule) then Some (UnsupportedOperator operator field)
               else if func \<noteq> [] \<and> func \<notin> set (fr_functions rule) then Some (UnsupportedFieldFunction func field)
               else None))"

type_synonym filter_parse = "(filter_error, fexpr \<times> filter_token list) result"

definition parse_operand :: "filter_token list \<Rightarrow> (filter_error, operand \<times> filter_token list) result" where
  "parse_operand ts =
     (let t = current ts in
      case tok_kind t of
        filterString \<Rightarrow> bind_result (advance ts) (\<lambda>ts. Ok (OLit (JStr (tok_text t)), ts))
      | filterNumber \<Rightarrow> bind_result (advance ts) (\<lambda>ts.
          Ok (OLit (JNum (case parse_float (tok_text t) of Some q \<Rightarrow> q | None \<Rightarrow> 0)), ts))
      | filterIdentifier \<Rightarrow> bind_result (advance ts) (\<lambda>ts.
          let low = to_lower (tok_text t) in
          Ok (if low = ''true'' then OLit (JBool True)
              else if low = ''false'' then OLit (JBool False)
              else if low = ''null'' then OLit JNull
              else OField (tok_text t), ts))
      | _ \<Rightarrow> Err (ExpectedValue (tok_text t)))"

text \<open>\<open>parseFunction\<close> after the test for a lambda; the current token is the opening parenthesis.\<close>

definition parse_string_function ::
  "filter_contract option \<Rightarrow> string \<Rightarrow> filter_token list \<Rightarrow> (filter_error, fexpr \<times> filter_token list) result" where
  "parse_string_function contract name ts =
     (if name \<notin> {''contains'', ''startswith'', ''endswith'', ''substringof''} then Err (UnsupportedFunction name)
      else bind_result (advance ts) (\<lambda>ts.
        case parse_operand ts of
          Inl e \<Rightarrow> Err (replace_error (TwoArguments name) e)
        | Inr (first, ts) \<Rightarrow>
            if tok_kind (current ts) \<noteq> filterComma then Err (TwoArguments name)
            else bind_result (advance ts) (\<lambda>ts.
              case parse_operand ts of
                Inl e \<Rightarrow> Err (replace_error (TwoArguments name) e)
              | Inr (second, ts) \<Rightarrow>
                  if tok_kind (current ts) \<noteq> filterRightParen then Err (TwoArguments name)
                  else bind_result (advance ts) (\<lambda>ts.
                    let field = (if operand_field first = [] then operand_field second else operand_field first) in
                    if contract = None then Ok (FFunction name first second, ts)
                    else if operand_field first \<noteq> [] \<and> operand_field second \<noteq> [] then Err (FieldAndLiteral name)
                    else if field = [] then Err (FieldAndLiteral name)
                    else (case validate_field contract field [] name of
                            Some e \<Rightarrow> Err e
                          | None \<Rightarrow> Ok (FFunction name first second, ts))))))"

definition parse_comparison ::
  "filter_contract option \<Rightarrow> string \<Rightarrow> filter_token list \<Rightarrow> (filter_error, fexpr \<times> filter_token list) result" where
  "parse_comparison contract name ts =
     (let operator = to_lower (tok_text (current ts)) in
      if tok_kind (current ts) \<noteq> filterIdentifier \<or> operator \<notin> {''eq'', ''ne'', ''gt'', ''ge'', ''lt'', ''le''}
      then Err (ExpectedOperator name)
      else bind_result (advance ts) (\<lambda>ts. bind_result (parse_operand ts) (\<lambda>(right, ts).
        if contract \<noteq> None \<and> operand_field right \<noteq> [] then Err LiteralRequired
        else (case validate_field contract name operator [] of
                Some e \<Rightarrow> Err e
              | None \<Rightarrow> Ok (FCompare name operator right, ts)))))"

text \<open>
  The loop shared by \<open>parseOr\<close> and \<open>parseAnd\<close>, which differ in the keyword and in the parser of
  their operands; an iteration consumes a token, so the length of the input bounds it.
\<close>

type_synonym sub_parser = "filter_contract option \<Rightarrow> filter_token list \<Rightarrow> filter_parse"

fun chain_loop ::
  "nat \<Rightarrow> string \<Rightarrow> (fexpr \<Rightarrow> fexpr \<Rightarrow> fexpr) \<Rightarrow> (filter_token list \<Rightarrow> filter_parse) \<Rightarrow> fexpr \<Rightarrow>
   filter_token list \<Rightarrow> filter_parse" where
  "chain_loop 0 kw join sub left ts = Err FFuel"
| "chain_loop (Suc n) kw join sub left ts =
     (if keyword kw ts then
        bind_result (advance ts) (\<lambda>ts. bind_result (sub ts) (\<lambda>(right, ts).
          chain_loop n kw join sub (join left right) ts))
      else Ok (left, ts))"

definition parse_and :: "sub_parser \<Rightarrow> sub_parser" where
  "parse_and primary c ts =
     bind_result (primary c ts) (\<lambda>(left, ts). chain_loop (Suc (length ts)) ''and'' FAnd (primary c) left ts)"

definition parse_or :: "sub_parser \<Rightarrow> sub_parser" where
  "parse_or primary c ts =
     bind_result (parse_and primary c ts) (\<lambda>(left, ts).
       chain_loop (Suc (length ts)) ''or'' FOr (parse_and primary c) left ts)"

text \<open>\<open>parseCollectionLambda\<close>: the body is parsed without a contract.\<close>

definition parse_lambda ::
  "sub_parser \<Rightarrow> filter_contract option \<Rightarrow> string \<Rightarrow> filter_token list \<Rightarrow> filter_parse" where
  "parse_lambda inner c name ts =
     bind_result (advance ts) (\<lambda>ts.
       if tok_kind (current ts) \<noteq> filterIdentifier then Err (LambdaVariable name)
       else let var = tok_text (current ts) in
         bind_result (advance ts) (\<lambda>ts.
           if tok_kind (current ts) \<noteq> filterColon then Err (LambdaExpression name)
           else bind_result (advance ts) (\<lambda>ts. bind_result (inner None ts) (\<lambda>(body, ts).
             if tok_kind (current ts) \<noteq> filterRightParen then Err (LambdaParen name)
             else bind_result (advance ts) (\<lambda>ts.
               case validate_field c ''tags'' [] (trim_prefix name ''tags/'') of
                 Some e \<Rightarrow> Err e
               | None \<Rightarrow> Ok (FLambda name var body, ts))))))"

definition parse_function ::
  "sub_parser \<Rightarrow> filter_contract option \<Rightarrow> string \<Rightarrow> filter_token list \<Rightarrow> filter_parse" where
  "parse_function inner c name ts =
     (let name = to_lower name in
      if name = ''tags/any'' \<or> name = ''tags/all'' then parse_lambda inner c name ts
      else parse_string_function c name ts)"

text \<open>\<open>parsePrimary\<close>; \<open>inner\<close> is \<open>parseOr\<close>, called below a parenthesis or a lambda.\<close>

definition primary_body :: "sub_parser \<Rightarrow> sub_parser" where
  "primary_body inner c ts =
     (if tok_kind (current ts) = filterLeftParen then
        bind_result (advance ts) (\<lambda>ts.
          case inner c ts of
            Inl e \<Rightarrow> Err (replace_error MissingParen e)
          | Inr (result, ts) \<Rightarrow>
              if tok_kind (current ts) \<noteq> filterRightParen then Err MissingParen
              else bind_result (advance ts) (\<lambda>ts. Ok (result, ts)))
      else if tok_kind (current ts) \<noteq> filterIdentifier then Err (ExpectedField (tok_text (current ts)))
      else let name = tok_text (current ts) in
        bind_result (advance ts) (\<lambda>ts.
          if tok_kind (current ts) = filterLeftParen then parse_function inner c name ts
          else parse_comparison c name ts))"

text \<open>The nesting of parentheses and lambdas is bounded by the number of tokens.\<close>

primrec parse_primary :: "nat \<Rightarrow> sub_parser" where
  "parse_primary 0 = (\<lambda>c ts. Err FFuel)"
| "parse_primary (Suc n) = primary_body (parse_or (parse_primary n))"

definition parse_filter_with_contract ::
  "string \<Rightarrow> filter_contract option \<Rightarrow> (filter_error, fexpr) result" where
  "parse_filter_with_contract source contract =
     (if trim_space source = [] then Ok FAll
      else bind_result (lex_filter 0 source) (\<lambda>ts.
        bind_result (parse_or (parse_primary (length ts)) contract ts) (\<lambda>(result, ts).
          if tok_kind (current ts) \<noteq> filterEOF then Err (UnexpectedToken (tok_text (current ts)))
          else Ok result)))"

definition parse_filter_for_route :: "string \<Rightarrow> string list \<Rightarrow> (filter_error, fexpr) result" where
  "parse_filter_for_route source tail =
     parse_filter_with_contract source (map_of collection_filter_contracts (collection_filter_key tail))"

section \<open>Evaluation\<close>

datatype eval_error =
    NoField string
  | NullOperator string
  | IncompatibleTypes
  | BooleanOperator
  | UnsupportedType
  | StringArguments string

definition case_insensitive_value :: "resource \<Rightarrow> string \<Rightarrow> json option" where
  "case_insensitive_value obj name = map_option snd (find (\<lambda>(k, _). equal_fold k name) obj)"

text \<open>The loop of \<open>fieldOperand\<close>; only the first segment may be found under \<open>properties\<close>.\<close>

fun walk_field :: "bool \<Rightarrow> json \<Rightarrow> string list \<Rightarrow> json option" where
  "walk_field first cur [] = Some cur"
| "walk_field first cur (p # ps) =
     (case cur of
        JObj obj \<Rightarrow>
          (case case_insensitive_value obj p of
             Some v \<Rightarrow> walk_field False v ps
           | None \<Rightarrow>
               if first then
                 (case map_of obj ''properties'' of
                    Some (JObj props) \<Rightarrow>
                      (case case_insensitive_value props p of
                         Some v \<Rightarrow> walk_field False v ps
                       | None \<Rightarrow> None)
                  | _ \<Rightarrow> None)
               else None)
      | _ \<Rightarrow> None)"

definition field_value :: "string \<Rightarrow> resource \<Rightarrow> (eval_error, json) result" where
  "field_value name r =
     (case walk_field True (JObj r) (split_char (CHR ''/'') name) of
        Some v \<Rightarrow> Ok v
      | None \<Rightarrow> Err (NoField name))"

fun eval_operand :: "operand \<Rightarrow> resource \<Rightarrow> (eval_error, json) result" where
  "eval_operand (OLit v) r = Ok v"
| "eval_operand (OField f) r = field_value f r"

definition string_compare :: "string \<Rightarrow> string \<Rightarrow> int" where
  "string_compare a b = (if a = b then 0 else if a < b then -1 else 1)"

definition compare_filter_values :: "json \<Rightarrow> json \<Rightarrow> string \<Rightarrow> (eval_error, bool) result" where
  "compare_filter_values left right operator =
     (if left = JNull \<or> right = JNull then
        (let same = (left = JNull \<and> right = JNull) in
         if operator = ''eq'' then Ok same
         else if operator = ''ne'' then Ok (\<not> same)
         else Err (NullOperator operator))
      else bind_result
        (case left of
           JStr a \<Rightarrow> (case right of JStr b \<Rightarrow> Ok (string_compare a b) | _ \<Rightarrow> Err IncompatibleTypes)
         | JNum a \<Rightarrow> (case right of JNum b \<Rightarrow> Ok (if a < b then -1 else if a > b then 1 else 0)
                      | _ \<Rightarrow> Err IncompatibleTypes)
         | JBool a \<Rightarrow> (case right of
              JBool b \<Rightarrow> if operator = ''eq'' \<or> operator = ''ne'' then Ok (if a \<noteq> b then 1 else 0) else Err BooleanOperator
            | _ \<Rightarrow> Err BooleanOperator)
         | _ \<Rightarrow> Err UnsupportedType)
        (\<lambda>comparison :: int. Ok
           (if operator = ''eq'' then comparison = 0
            else if operator = ''ne'' then comparison \<noteq> 0
            else if operator = ''gt'' then comparison > 0
            else if operator = ''ge'' then comparison \<ge> 0
            else if operator = ''lt'' then comparison < 0
            else comparison \<le> 0)))"

definition apply_function :: "string \<Rightarrow> json \<Rightarrow> json \<Rightarrow> (eval_error, bool) result" where
  "apply_function name left right =
     (case (left, right) of
        (JStr a, JStr b) \<Rightarrow> Ok
          (if name = ''contains'' then contains a b
           else if name = ''startswith'' then has_prefix a b
           else if name = ''endswith'' then has_suffix a b
           else contains b a)
      | _ \<Rightarrow> Err (StringArguments name))"

fun lambda_items :: "bool \<Rightarrow> (json \<Rightarrow> (eval_error, bool) result) \<Rightarrow> json list \<Rightarrow> (eval_error, bool) result" where
  "lambda_items every pred [] = Ok every"
| "lambda_items every pred (item # items) =
     bind_result (pred item) (\<lambda>result.
       if \<not> every \<and> result then Ok True
       else if every \<and> \<not> result then Ok False
       else lambda_items every pred items)"

primrec eval_filter :: "fexpr \<Rightarrow> resource \<Rightarrow> (eval_error, bool) result" where
  "eval_filter FAll = (\<lambda>r. Ok True)"
| "eval_filter (FOr a b) = (\<lambda>r. bind_result (eval_filter a r) (\<lambda>m. if m then Ok m else eval_filter b r))"
| "eval_filter (FAnd a b) = (\<lambda>r. bind_result (eval_filter a r) (\<lambda>m. if \<not> m then Ok m else eval_filter b r))"
| "eval_filter (FCompare name operator right) = (\<lambda>r.
     bind_result (field_value name r) (\<lambda>l. bind_result (eval_operand right r) (\<lambda>v.
       compare_filter_values l v operator)))"
| "eval_filter (FFunction name first second) = (\<lambda>r.
     bind_result (eval_operand first r) (\<lambda>l. bind_result (eval_operand second r) (\<lambda>v.
       apply_function name l v)))"
| "eval_filter (FLambda name var body) = (\<lambda>r.
     bind_result (field_value ''tags'' r) (\<lambda>v.
       case v of
         JArr items \<Rightarrow> lambda_items (equal_fold name ''tags/all'') (\<lambda>item. eval_filter body [(var, item)]) items
       | _ \<Rightarrow> Ok (equal_fold name ''tags/all'')))"

section \<open>What the parser promises\<close>

text \<open>
  A parse is good when it does not panic and, if it succeeds, the result satisfies \<open>Q\<close> and a
  stream shorter than \<open>N\<close> is left.
\<close>

definition good :: "('a \<Rightarrow> bool) \<Rightarrow> nat \<Rightarrow> (filter_error, 'a \<times> filter_token list) result \<Rightarrow> bool" where
  "good Q N r \<longleftrightarrow> (case r of
     Inl e \<Rightarrow> e \<noteq> FPanic \<and> e \<noteq> FFuel
   | Inr (x, rest) \<Rightarrow> Q x \<and> token_stream rest \<and> length rest < N)"

lemma good_Err [simp]: "good Q N (Inl e) \<longleftrightarrow> e \<noteq> FPanic \<and> e \<noteq> FFuel"
  by (simp add: good_def)

lemma good_Ok [simp]: "good Q N (Inr (x, rest)) \<longleftrightarrow> Q x \<and> token_stream rest \<and> length rest < N"
  by (simp add: good_def)

lemma good_bind:
  assumes "good Q N r"
    and "\<And>x rest. Q x \<Longrightarrow> token_stream rest \<Longrightarrow> length rest < N \<Longrightarrow> good R M (f (x, rest))"
  shows "good R M (bind_result r f)"
proof (cases r)
  case (Inl e)
  with assms(1) show ?thesis by simp
next
  case (Inr p)
  obtain x rest where "p = (x, rest)" by (cases p)
  with Inr assms show ?thesis by simp
qed

lemma good_weaken: "good Q N r \<Longrightarrow> (\<And>x. Q x \<Longrightarrow> Q' x) \<Longrightarrow> N \<le> N' \<Longrightarrow> good Q' N' r"
  by (auto simp: good_def split: sum.splits)

lemma current_stream: "token_stream ts \<Longrightarrow> \<exists>t rest. ts = t # rest"
  by (cases ts) (auto simp: token_stream_def)

lemma good_advance:
  assumes "token_stream ts" and "tok_kind (current ts) \<noteq> filterEOF"
    and "\<And>rest. token_stream rest \<Longrightarrow> Suc (length rest) = length ts \<Longrightarrow> good R M (f rest)"
  shows "good R M (bind_result (advance ts) f)"
proof -
  from current_stream [OF assms(1)] obtain t rest where ts: "ts = t # rest" by blast
  with assms(1,2) have st: "token_stream rest" using token_stream_tl by (simp add: current_def)
  then obtain u us where "rest = u # us" using current_stream by blast
  with st assms(3) [of rest] show ?thesis by (simp add: ts advance_def)
qed

lemma identifier_text:
  assumes "token_stream ts" and "tok_kind (current ts) = filterIdentifier"
  shows "tok_text (current ts) \<noteq> []"
  using current_stream [OF assms(1)] assms by (auto simp: token_stream_def current_def)

lemma replace_error_good [simp]:
  "mine \<noteq> FPanic \<Longrightarrow> mine \<noteq> FFuel \<Longrightarrow> (replace_error mine e = FPanic \<longleftrightarrow> e = FPanic)"
  "mine \<noteq> FPanic \<Longrightarrow> mine \<noteq> FFuel \<Longrightarrow> (replace_error mine e = FFuel \<longleftrightarrow> e = FFuel)"
  by (auto simp: replace_error_def)

text \<open>The operands the parser makes, and the filters a contract admits.\<close>

definition named_operand :: "operand \<Rightarrow> bool" where
  "named_operand v \<longleftrightarrow> v \<noteq> OField []"

primrec audited :: "filter_contract \<Rightarrow> fexpr \<Rightarrow> bool" where
  "audited c FAll = True"
| "audited c (FOr a b) = (audited c a \<and> audited c b)"
| "audited c (FAnd a b) = (audited c a \<and> audited c b)"
| "audited c (FCompare name operator right) =
     ((\<exists>v. right = OLit v) \<and> validate_field (Some c) name operator [] = None)"
| "audited c (FFunction name first second) =
     (\<exists>f v. (first = OField f \<and> second = OLit v \<or> first = OLit v \<and> second = OField f) \<and>
            validate_field (Some c) f [] name = None)"
| "audited c (FLambda name var body) =
     (validate_field (Some c) ''tags'' [] (trim_prefix name ''tags/'') = None)"

definition audited_by :: "filter_contract option \<Rightarrow> fexpr \<Rightarrow> bool" where
  "audited_by c e = (case c of None \<Rightarrow> True | Some c \<Rightarrow> audited c e)"

lemma audited_by_simps [simp]:
  "audited_by None e"
  "audited_by (Some c) e = audited c e"
  "audited_by c' (FOr a b) \<longleftrightarrow> audited_by c' a \<and> audited_by c' b"
  "audited_by c' (FAnd a b) \<longleftrightarrow> audited_by c' a \<and> audited_by c' b"
  by (auto simp: audited_by_def split: option.splits)

lemma literal_operand: "named_operand v \<Longrightarrow> operand_field v = [] \<Longrightarrow> \<exists>l. v = OLit l"
  by (cases v) (auto simp: named_operand_def)

lemma field_operand: "operand_field v \<noteq> [] \<Longrightarrow> v = OField (operand_field v)"
  by (cases v) auto

lemma parse_operand_good: "token_stream ts \<Longrightarrow> good named_operand (length ts) (parse_operand ts)"
  using identifier_text [of ts]
  by (auto simp: parse_operand_def Let_def named_operand_def split: token_kind.splits intro!: good_advance)

lemma validate_field_proper [simp]:
  "validate_field c f opr g \<noteq> Some FPanic" "validate_field c f opr g \<noteq> Some FFuel"
  by (auto simp: validate_field_def split: option.splits)

lemma validate_field_error: "validate_field c f opr g = Some e \<Longrightarrow> e \<noteq> FPanic \<and> e \<noteq> FFuel"
  by (metis validate_field_proper)

lemma parse_comparison_good:
  assumes "token_stream ts"
  shows "good (audited_by c) (length ts) (parse_comparison c name ts)"
  unfolding parse_comparison_def Let_def
  using assms
  by (auto intro!: good_advance good_bind [OF parse_operand_good] dest: literal_operand
      simp: audited_by_def split: option.splits)

lemma function_audited:
  "named_operand a \<Longrightarrow> operand_field a = [] \<Longrightarrow> operand_field b \<noteq> [] \<Longrightarrow>
     validate_field (Some c) (operand_field b) [] name = None \<Longrightarrow> audited c (FFunction name a b)"
  "named_operand b \<Longrightarrow> operand_field a \<noteq> [] \<Longrightarrow> operand_field b = [] \<Longrightarrow>
     validate_field (Some c) (operand_field a) [] name = None \<Longrightarrow> audited c (FFunction name a b)"
  by (cases a; cases b; auto simp: named_operand_def)+

lemma good_validated:
  assumes "validate_field c f opr g = None \<Longrightarrow> Q x" and "token_stream rest" and "length rest < N"
  shows "good Q N (case validate_field c f opr g of None \<Rightarrow> Ok (x, rest) | Some e \<Rightarrow> Err e)"
  using assms by (auto dest: validate_field_error split: option.splits)

lemma parse_string_function_good:
  assumes "token_stream ts" and "tok_kind (current ts) = filterLeftParen"
  shows "good (audited_by c) (length ts) (parse_string_function c name ts)"
proof -
  have step: "good R M (case parse_operand ts of
        Inl e \<Rightarrow> Err (replace_error (TwoArguments nm) e) | Inr p \<Rightarrow> f p)"
    if "token_stream ts" and "\<And>v rest. named_operand v \<Longrightarrow> token_stream rest \<Longrightarrow> length rest < length ts \<Longrightarrow>
          good R M (f (v, rest))" for R :: "fexpr \<Rightarrow> bool" and M f ts nm
    using parse_operand_good [OF that(1)] that(2) by (cases "parse_operand ts") (auto simp: good_def)
  show ?thesis
    unfolding parse_string_function_def Let_def
    using assms
    by (auto intro!: good_advance step good_validated simp: function_audited simp del: audited.simps)
qed

definition sub_good :: "nat \<Rightarrow> sub_parser \<Rightarrow> bool" where
  "sub_good n P \<longleftrightarrow> (\<forall>c ts. token_stream ts \<longrightarrow> length ts \<le> n \<longrightarrow> good (audited_by c) (length ts) (P c ts))"

lemma chain_loop_good:
  assumes "\<And>ts. token_stream ts \<Longrightarrow> length ts < n \<Longrightarrow> good Q (length ts) (sub ts)"
    and "\<And>a b. Q a \<Longrightarrow> Q b \<Longrightarrow> Q (join a b)"
  shows "token_stream ts \<Longrightarrow> length ts < n \<Longrightarrow> n \<le> N \<Longrightarrow> Q left \<Longrightarrow> length ts < m \<Longrightarrow>
           good Q N (chain_loop m kw join sub left ts)"
proof (induction m arbitrary: left ts)
  case (Suc m)
  show ?case
  proof (cases "keyword kw ts")
    case True
    then have "tok_kind (current ts) \<noteq> filterEOF" by (simp add: keyword_def)
    with Suc.prems True show ?thesis
      by (auto intro!: good_advance good_bind [OF assms(1)] Suc.IH assms(2))
  next
    case False
    with Suc.prems show ?thesis by simp
  qed
qed simp

lemma chain_good:
  assumes "sub_good n P" and "token_stream ts" and "length ts < N" and "N \<le> n" and "audited_by c left"
    and "\<And>a b. audited_by c a \<Longrightarrow> audited_by c b \<Longrightarrow> audited_by c (join a b)"
  shows "good (audited_by c) N (chain_loop (Suc (length ts)) kw join (P c) left ts)"
  using assms(1,4)
  by (intro chain_loop_good [of N] assms(2,3,5,6)) (auto simp: sub_good_def)

lemma parse_and_good:
  assumes "sub_good n P"
  shows "sub_good n (parse_and P)"
proof -
  have P: "good (audited_by c) (length ts) (P c ts)" if "token_stream ts" "length ts \<le> n" for c ts
    using assms that by (simp add: sub_good_def)
  show ?thesis
    unfolding sub_good_def parse_and_def
    by (auto intro!: good_bind [OF P] chain_good [OF assms] simp del: chain_loop.simps)
qed

lemma parse_or_good:
  assumes "sub_good n P"
  shows "sub_good n (parse_or P)"
proof -
  have P: "good (audited_by c) (length ts) (parse_and P c ts)" if "token_stream ts" "length ts \<le> n" for c ts
    using parse_and_good [OF assms] that by (simp add: sub_good_def)
  show ?thesis
    unfolding sub_good_def parse_or_def
    by (auto intro!: good_bind [OF P] chain_good [OF parse_and_good [OF assms]] simp del: chain_loop.simps)
qed

lemma parse_lambda_good:
  assumes "sub_good n P" and "token_stream ts" and "length ts \<le> Suc n"
    and "tok_kind (current ts) = filterLeftParen"
  shows "good (audited_by c) (length ts) (parse_lambda P c name ts)"
proof -
  have P: "good (audited_by None) (length ts) (P None ts)" if "token_stream ts" "length ts \<le> n" for ts
    using assms(1) that by (simp add: sub_good_def)
  show ?thesis
    unfolding parse_lambda_def Let_def
    using assms(2-)
    by (auto intro!: good_advance good_bind [OF P] simp: audited_by_def split: option.splits)
qed

lemma primary_good:
  assumes "sub_good n P"
  shows "sub_good (Suc n) (primary_body P)"
proof -
  have paren: "good (audited_by c) M (case P c ts of
      Inl e \<Rightarrow> Err (replace_error MissingParen e) | Inr p \<Rightarrow> f p)"
    if "token_stream ts" "length ts \<le> n"
      "\<And>e rest. audited_by c e \<Longrightarrow> token_stream rest \<Longrightarrow> length rest < length ts \<Longrightarrow>
          good (audited_by c) M (f (e, rest))" for c M f ts
  proof -
    have "good (audited_by c) (length ts) (P c ts)" using assms that(1,2) by (simp add: sub_good_def)
    then show ?thesis using that(3) by (cases "P c ts") (auto simp: good_def)
  qed
  have func: "good (audited_by c) (length ts) (parse_function P c name ts)"
    if "token_stream ts" "length ts \<le> Suc n" "tok_kind (current ts) = filterLeftParen" for c ts name
    using parse_lambda_good [OF assms that] parse_string_function_good [OF that(1,3)]
    by (simp add: parse_function_def Let_def)
  show ?thesis
    unfolding sub_good_def primary_body_def Let_def
    by (auto intro!: good_advance paren good_weaken [OF func] good_weaken [OF parse_comparison_good])
qed

lemma parse_primary_good: "sub_good n (parse_primary n)"
proof (induction n)
  case 0
  then show ?case by (auto simp: sub_good_def token_stream_def)
next
  case (Suc n)
  then show ?case by (simp add: primary_good parse_or_good)
qed

lemma parse_filter_good:
  assumes "parse_filter_with_contract source contract = r"
  shows "r \<noteq> Err FPanic \<and> r \<noteq> Err FFuel \<and> (\<forall>e. r = Ok e \<longrightarrow> audited_by contract e)"
proof (cases "trim_space source = []")
  case True
  with assms show ?thesis by (auto simp: parse_filter_with_contract_def audited_by_def split: option.splits)
next
  case False
  show ?thesis
  proof (cases "lex_filter 0 source")
    case (Inl e)
    then show ?thesis
      using assms False lex_filter_error [of 0 source] by (auto simp: parse_filter_with_contract_def)
  next
    case (Inr ts)
    then have "good (audited_by contract) (length ts) (parse_or (parse_primary (length ts)) contract ts)"
      using parse_or_good [OF parse_primary_good] lex_filter_stream by (auto simp: sub_good_def)
    then show ?thesis
      using assms False Inr
      by (cases "parse_or (parse_primary (length ts)) contract ts")
        (auto simp: parse_filter_with_contract_def good_def split: prod.splits if_splits)
  qed
qed

section \<open>Filters read audited fields only\<close>

definition agree_on :: "filter_contract \<Rightarrow> resource \<Rightarrow> resource \<Rightarrow> bool" where
  "agree_on c r r' \<longleftrightarrow> (\<forall>f. map_of c (to_lower f) \<noteq> None \<longrightarrow> field_value f r = field_value f r')"

lemma validated_field: "validate_field (Some c) f opr g = None \<Longrightarrow> map_of c (to_lower f) \<noteq> None"
  by (auto simp: validate_field_def split: option.splits)

lemma audited_eval: "audited c e \<Longrightarrow> agree_on c r r' \<Longrightarrow> eval_filter e r = eval_filter e r'"
proof (induction e)
  case (FLambda name var body)
  then have "field_value ''tags'' r = field_value ''tags'' r'"
    using validated_field [of c "''tags''"] by (auto simp: agree_on_def)
  then show ?case by simp
qed (auto simp: agree_on_def dest: validated_field cong: if_cong)

text \<open>
  C26. The filter of an audited collection cannot observe anything but the audited fields: two
  resources that agree on them are both kept, both dropped or both refused with the same error,
  whatever the filter says.  So a filter on named values, say, reveals nothing of a secret value.
\<close>

theorem filter_reads_only_audited:
  assumes "parse_filter_for_route source tail = Ok e"
    and "map_of collection_filter_contracts (collection_filter_key tail) = Some c"
    and "agree_on c r r'"
  shows "eval_filter e r = eval_filter e r'"
proof -
  have "audited c e"
    using parse_filter_good [OF assms(1) [unfolded parse_filter_for_route_def]] assms(2) by simp
  then show ?thesis using assms(3) by (rule audited_eval)
qed

text \<open>
  C38. Whatever a client sends as \<open>$filter\<close>, the parser answers with a filter or an error of its
  own: it never indexes past the tokens and its recursion never exceeds the bound.
\<close>

theorem filter_parser_total:
  "parse_filter_for_route source tail \<noteq> Err FPanic \<and> parse_filter_for_route source tail \<noteq> Err FFuel"
  using parse_filter_good [OF refl, of source "map_of collection_filter_contracts (collection_filter_key tail)"]
  by (simp add: parse_filter_for_route_def)

section \<open>Printing and parsing\<close>

fun operand_tokens :: "operand \<Rightarrow> filter_token list" where
  "operand_tokens (OField f) = [token filterIdentifier f]"
| "operand_tokens (OLit (JStr s)) = [token filterString s]"
| "operand_tokens (OLit (JBool b)) = [token filterIdentifier (if b then ''true'' else ''false'')]"
| "operand_tokens (OLit (JNum q)) = [token filterNumber (itoa (nat \<lfloor>q\<rfloor>))]"
| "operand_tokens (OLit _) = [token filterIdentifier ''null'']"

fun printable_operand :: "operand \<Rightarrow> bool" where
  "printable_operand (OField f) \<longleftrightarrow> f \<noteq> [] \<and> to_lower f \<notin> {''true'', ''false'', ''null''}"
| "printable_operand (OLit (JNum q)) \<longleftrightarrow> q = of_nat (nat \<lfloor>q\<rfloor>)"
| "printable_operand (OLit (JArr _)) \<longleftrightarrow> False"
| "printable_operand (OLit (JObj _)) \<longleftrightarrow> False"
| "printable_operand (OLit _) \<longleftrightarrow> True"

abbreviation lparen :: filter_token where "lparen \<equiv> token filterLeftParen ''(''"
abbreviation rparen :: filter_token where "rparen \<equiv> token filterRightParen '')''"
abbreviation word :: "string \<Rightarrow> filter_token" where "word w \<equiv> token filterIdentifier w"

text \<open>The tokens of a filter; as an operand of \<open>and\<close> or \<open>or\<close> a compound is put in parentheses.\<close>

primrec compound :: "fexpr \<Rightarrow> bool" where
  "compound FAll = False"
| "compound (FOr a b) = True"
| "compound (FAnd a b) = True"
| "compound (FCompare f p v) = False"
| "compound (FFunction f a b) = False"
| "compound (FLambda n v b) = False"

definition in_parens :: "bool \<Rightarrow> filter_token list \<Rightarrow> filter_token list" where
  "in_parens b ts = (if b then lparen # ts @ [rparen] else ts)"

primrec filter_tokens :: "fexpr \<Rightarrow> filter_token list" where
  "filter_tokens FAll = []"
| "filter_tokens (FOr a b) = in_parens (compound a) (filter_tokens a) @ word ''or'' # in_parens (compound b) (filter_tokens b)"
| "filter_tokens (FAnd a b) = in_parens (compound a) (filter_tokens a) @ word ''and'' # in_parens (compound b) (filter_tokens b)"
| "filter_tokens (FCompare f p v) = word f # word p # operand_tokens v"
| "filter_tokens (FFunction f a b) = word f # lparen # operand_tokens a @ token filterComma '','' # operand_tokens b @ [rparen]"
| "filter_tokens (FLambda n v b) = word n # lparen # word v # token filterColon '':'' # filter_tokens b @ [rparen]"

primrec printable :: "fexpr \<Rightarrow> bool" where
  "printable FAll = False"
| "printable (FOr a b) \<longleftrightarrow> printable a \<and> printable b"
| "printable (FAnd a b) \<longleftrightarrow> printable a \<and> printable b"
| "printable (FCompare f p v) \<longleftrightarrow> p \<in> set all_operators \<and> printable_operand v"
| "printable (FFunction f a b) \<longleftrightarrow>
     f \<in> {''contains'', ''startswith'', ''endswith'', ''substringof''} \<and> printable_operand a \<and> printable_operand b"
| "printable (FLambda n v b) \<longleftrightarrow> n \<in> {''tags/any'', ''tags/all''} \<and> printable b"

primrec nesting :: "fexpr \<Rightarrow> nat" where
  "nesting FAll = 1"
| "nesting (FOr a b) = Suc (max (nesting a) (nesting b))"
| "nesting (FAnd a b) = Suc (max (nesting a) (nesting b))"
| "nesting (FCompare f p v) = 1"
| "nesting (FFunction f a b) = 1"
| "nesting (FLambda n v b) = Suc (nesting b)"

lemma parse_float_itoa: "parse_float (itoa n) = Some (of_nat n)"
proof -
  have d: "list_all is_digit (itoa n)" "itoa n \<noteq> []" "digits_value (itoa n) = n"
    using itoa_digits by blast+
  then have "split_sign (itoa n) = (False, itoa n)"
    using digit_not_sign by (cases "itoa n") (auto simp: split_sign_def)
  moreover have w: "takeWhile is_digit (itoa n) = itoa n" "dropWhile is_digit (itoa n) = []"
    using d(1) by (simp_all add: list_all_iff)
  ultimately show ?thesis using d by (simp add: parse_float_def rat_power10_def Let_def w)
qed

lemma advance_Cons [simp]: "rest \<noteq> [] \<Longrightarrow> advance (t # rest) = Ok rest"
  by (cases rest) (auto simp: advance_def)

lemma current_Cons [simp]: "current (t # rest) = t"
  by (simp add: current_def)

lemma parse_operand_tokens:
  assumes "printable_operand v" and "rest \<noteq> []"
  shows "parse_operand (operand_tokens v @ rest) = Ok (v, rest)"
proof (cases v)
  case (OField f)
  with assms show ?thesis by (simp add: parse_operand_def)
next
  case (OLit j)
  with assms show ?thesis by (cases j) (auto simp: parse_operand_def parse_float_itoa)
qed

lemma parse_comparison_tokens:
  assumes "p \<in> set all_operators" and "printable_operand v" and "audited_by c (FCompare f p v)" and "rest \<noteq> []"
  shows "parse_comparison c f (word p # operand_tokens v @ rest) = Ok (FCompare f p v, rest)"
proof -
  have "to_lower p = p" using assms(1) by (auto simp: all_operators_def)
  moreover have "operand_tokens v @ rest \<noteq> []" using assms(4) by simp
  moreover have "validate_field c f p [] = None" "c = None \<or> operand_field v = []"
    using assms(3) by (auto simp: audited_by_def validate_field_def split: option.splits)
  ultimately show ?thesis
    using assms(1) by (simp add: parse_comparison_def Let_def parse_operand_tokens assms(2,4) all_operators_def)
qed

lemma parse_function_tokens:
  assumes "f \<in> {''contains'', ''startswith'', ''endswith'', ''substringof''}"
    and "printable_operand a" and "printable_operand b" and "audited_by c (FFunction f a b)" and "rest \<noteq> []"
  shows "parse_function inner c f (lparen # operand_tokens a @ token filterComma '','' # operand_tokens b @ rparen # rest)
     = Ok (FFunction f a b, rest)"
proof -
  have low: "to_lower f = f" "f \<noteq> ''tags/any''" "f \<noteq> ''tags/all''" using assms(1) by auto
  have v: "c = None \<or> (operand_field a = [] \<or> operand_field b = []) \<and>
      (if operand_field a = [] then operand_field b else operand_field a) \<noteq> [] \<and>
      validate_field c (if operand_field a = [] then operand_field b else operand_field a) [] f = None"
    using assms(2-4) by (auto simp: audited_by_def split: option.splits)
  have "operand_tokens b @ rparen # rest \<noteq> []" "operand_tokens a @ token filterComma '','' # operand_tokens b @ rparen # rest \<noteq> []"
    by simp_all
  then show ?thesis
    using v assms(1)
    by (auto simp: parse_function_def parse_string_function_def low Let_def parse_operand_tokens assms(2,3,5))
qed

lemma chain_loop_stop:
  "\<not> keyword kw ts \<Longrightarrow> chain_loop (Suc n) kw join sub left ts = Ok (left, ts)"
  by simp

abbreviation no_keyword :: "filter_token list \<Rightarrow> bool" where
  "no_keyword ts \<equiv> \<not> keyword ''or'' ts \<and> \<not> keyword ''and'' ts"

text \<open>What an operand of \<open>and\<close> or \<open>or\<close> must satisfy, and what follows for the two connectives.\<close>

definition reads_back :: "nat \<Rightarrow> filter_contract option \<Rightarrow> fexpr \<Rightarrow> bool" where
  "reads_back n c e \<longleftrightarrow> (\<forall>rest. rest \<noteq> [] \<longrightarrow>
     parse_primary n c (in_parens (compound e) (filter_tokens e) @ rest) = Ok (e, rest))"

lemma keyword_word [simp]: "keyword kw (word w # ts) \<longleftrightarrow> equal_fold w kw"
  by (simp add: keyword_def)

lemma keyword_Cons_other [simp]: "k \<noteq> filterIdentifier \<Longrightarrow> \<not> keyword kw (token k t # ts)"
  by (simp add: keyword_def)

lemma printable_tokens: "printable e \<Longrightarrow> filter_tokens e \<noteq> []"
  by (cases e) auto

lemma parse_or_primary:
  assumes "reads_back n c e" and "\<not> compound e" and "rest \<noteq> []" and "no_keyword rest"
  shows "parse_or (parse_primary n) c (filter_tokens e @ rest) = Ok (e, rest)"
  using assms by (simp add: reads_back_def in_parens_def parse_or_def parse_and_def)

lemma parse_or_FOr:
  assumes "reads_back n c a" and "reads_back n c b" and "rest \<noteq> []" and "no_keyword rest"
  shows "parse_or (parse_primary n) c (filter_tokens (FOr a b) @ rest) = Ok (FOr a b, rest)"
  using assms
  by (cases "length (in_parens (compound b) (filter_tokens b) @ rest)")
    (simp_all add: reads_back_def parse_or_def parse_and_def equal_fold_def)

lemma parse_or_FAnd:
  assumes "reads_back n c a" and "reads_back n c b" and "rest \<noteq> []" and "no_keyword rest"
  shows "parse_or (parse_primary n) c (filter_tokens (FAnd a b) @ rest) = Ok (FAnd a b, rest)"
  using assms
  by (cases "length (in_parens (compound b) (filter_tokens b) @ rest)")
    (simp_all add: reads_back_def parse_or_def parse_and_def equal_fold_def)

lemma parse_lambda_tokens:
  assumes "n \<in> {''tags/any'', ''tags/all''}" and "audited_by c (FLambda n v b)" and "rest \<noteq> []"
    and "inner None (filter_tokens b @ rparen # rest) = Ok (b, rparen # rest)"
  shows "parse_function inner c n (lparen # word v # token filterColon '':'' # filter_tokens b @ rparen # rest) =
     Ok (FLambda n v b, rest)"
proof -
  have low: "to_lower n = n" using assms(1) by auto
  have "validate_field c ''tags'' [] (trim_prefix n ''tags/'') = None"
    using assms(2) by (auto simp: audited_by_def validate_field_def split: option.splits)
  then show ?thesis
    using assms by (auto simp: parse_function_def parse_lambda_def low Let_def)
qed

lemma reads_back_compound:
  assumes "compound e" and "\<And>rest. rest \<noteq> [] \<Longrightarrow> no_keyword rest \<Longrightarrow>
      parse_or (parse_primary n) c (filter_tokens e @ rest) = Ok (e, rest)"
  shows "reads_back (Suc n) c e"
  using assms by (auto simp: reads_back_def in_parens_def primary_body_def)

lemma printed_parses:
  "printable e \<Longrightarrow> audited_by c e \<Longrightarrow> nesting e \<le> n \<Longrightarrow>
     reads_back n c e \<and> (\<forall>rest. rest \<noteq> [] \<longrightarrow> no_keyword rest \<longrightarrow>
       parse_or (parse_primary n) c (filter_tokens e @ rest) = Ok (e, rest))"
proof (induction e arbitrary: c n)
  case FAll
  then show ?case by simp
next
  case (FOr a b)
  then obtain m where n: "n = Suc m" by (cases n) auto
  with FOr have r: "reads_back m c a" "reads_back m c b" "reads_back n c a" "reads_back n c b" by simp_all
  have "reads_back (Suc m) c (FOr a b)" by (rule reads_back_compound [OF _ parse_or_FOr [OF r(1,2)]]) simp_all
  then show ?case unfolding n using parse_or_FOr [OF r(3,4)] n by blast
next
  case (FAnd a b)
  then obtain m where n: "n = Suc m" by (cases n) auto
  with FAnd have r: "reads_back m c a" "reads_back m c b" "reads_back n c a" "reads_back n c b" by simp_all
  have "reads_back (Suc m) c (FAnd a b)" by (rule reads_back_compound [OF _ parse_or_FAnd [OF r(1,2)]]) simp_all
  then show ?case unfolding n using parse_or_FAnd [OF r(3,4)] n by blast
next
  case (FCompare f p v)
  then obtain m where n: "n = Suc m" by (cases n) auto
  have "reads_back n c (FCompare f p v)"
    using FCompare parse_comparison_tokens [of p v c f]
    by (simp add: n reads_back_def in_parens_def primary_body_def)
  then show ?case using parse_or_primary by (metis compound.simps(4))
next
  case (FFunction f a b)
  then obtain m where n: "n = Suc m" by (cases n) auto
  have "reads_back n c (FFunction f a b)"
    using FFunction parse_function_tokens [of f a b c _ "parse_or (parse_primary m)"]
    by (simp add: n reads_back_def in_parens_def primary_body_def)
  then show ?case using parse_or_primary by (metis compound.simps(5))
next
  case (FLambda nm v b)
  then obtain m where n: "n = Suc m" by (cases n) auto
  have body: "parse_or (parse_primary m) None (filter_tokens b @ rparen # rest) = Ok (b, rparen # rest)" for rest
    using FLambda n by simp
  have "reads_back n c (FLambda nm v b)"
    using FLambda.prems parse_lambda_tokens [of nm c v b _ "parse_or (parse_primary m)"] body
    by (simp add: n reads_back_def in_parens_def primary_body_def)
  then show ?case using parse_or_primary by (metis compound.simps(6))
qed

lemma nesting_tokens: "printable e \<Longrightarrow> nesting e \<le> length (filter_tokens e)"
  by (induction e) (auto simp: in_parens_def)

text \<open>
  C37. Printing a filter and parsing the tokens gives the filter back: precedence, parentheses,
  functions, lambdas and literals included, under any contract that admits it and with the
  nesting bound the program of \<open>parse_filter_with_contract\<close> uses.
\<close>

theorem filter_roundtrip:
  assumes "printable e" and "audited_by contract e" and "ts = filter_tokens e @ [token filterEOF []]"
  shows "parse_or (parse_primary (length ts)) contract ts = Ok (e, [token filterEOF []])"
proof -
  have "nesting e \<le> length ts" using nesting_tokens [OF assms(1)] by (simp add: assms(3))
  then have "parse_or (parse_primary (length ts)) contract (filter_tokens e @ [token filterEOF []]) =
      Ok (e, [token filterEOF []])"
    using printed_parses [OF assms(1,2)] by simp
  then show ?thesis by (simp only: assms(3))
qed

section \<open>Witnesses\<close>

definition demo_named_value :: "string \<Rightarrow> resource" where
  "demo_named_value secret =
     [(''name'', JStr ''n1''),
      (''properties'', JObj [(''displayName'', JStr ''n1''), (''value'', JStr secret)])]"

lemma demo_filter_parses:
  "parse_filter_for_route ''displayName eq true'' [''namedValues''] =
     Ok (FCompare ''displayName'' ''eq'' (OLit (JBool True)))"
  by code_simp

theorem filter_reads_only_audited_witness:
  "eval_filter (FCompare ''displayName'' ''eq'' (OLit (JBool True))) (demo_named_value ''s1'') =
   eval_filter (FCompare ''displayName'' ''eq'' (OLit (JBool True))) (demo_named_value ''s2'')"
proof -
  let ?c = "[(''tags'', \<lparr>fr_operators = all_operators, fr_functions = [''contains'', ''startswith'',
      ''endswith'', ''substringof'', ''any'', ''all'']\<rparr>), (''displayname'', full_filter_rule)]"
  have c: "map_of collection_filter_contracts (collection_filter_key [''namedValues'']) = Some ?c"
    by (simp add: collection_filter_contracts_def collection_filter_key_def make_filter_contract_def)
  have walk: "to_lower f = ''displayname'' \<or> to_lower f = ''tags'' \<Longrightarrow> CHR ''/'' \<notin> set f" for f
  proof -
    assume "to_lower f = ''displayname'' \<or> to_lower f = ''tags''"
    then have "CHR ''/'' \<notin> set (to_lower f)" by auto
    then show "CHR ''/'' \<notin> set f" by (force simp: to_lower_def)
  qed
  have "agree_on ?c (demo_named_value ''s1'') (demo_named_value ''s2'')"
    by (auto simp: agree_on_def field_value_def split_char_single [OF walk] demo_named_value_def
        case_insensitive_value_def equal_fold_def split: if_splits)
  from filter_reads_only_audited [OF demo_filter_parses c this] show ?thesis .
qed

theorem filter_roundtrip_witness:
  "\<exists>e. parse_or (parse_primary 14) None
     (map (\<lambda>w. token filterIdentifier w) [''a'', ''eq'', ''null'', ''or''] @ lparen #
      map (\<lambda>w. token filterIdentifier w) [''b'', ''ne'', ''true'', ''and'', ''c'', ''lt'', ''d''] @
      [rparen, token filterEOF []]) = Ok (e, [token filterEOF []]) \<and> nesting e = 3"
proof -
  let ?e = "FOr (FCompare ''a'' ''eq'' (OLit JNull))
      (FAnd (FCompare ''b'' ''ne'' (OLit (JBool True))) (FCompare ''c'' ''lt'' (OField ''d'')))"
  have "printable ?e" "audited_by None ?e" by (simp_all add: all_operators_def)
  from filter_roundtrip [OF this refl]
  show ?thesis by (intro exI [of _ ?e]) (simp add: in_parens_def eval_nat_numeral del: parse_primary.simps)
qed

end
