(* ===== verification/Collections.thy ===== *)
theory Collections
  imports ODataFilter
begin

text \<open>
  The collection endpoints of the management plane, the rest of \<open>internal/arm/collection.go\<close>: the
  query options a collection accepts, its selectors, ordering and paging, composed by
  \<open>writeCollectionResponseWithHandler\<close>.  \<open>url.Values\<close> is an association list.  The store queries of
  the selectors are the fields of \<open>collection_store\<close>, with rows already in wire form; the text of
  a next link is \<open>link\<close> applied to the query it carries (\<open>net/url\<close> prints it).
\<close>

type_synonym query = "(string \<times> string list) list"

record collection_route =
  cr_subscription_id :: string
  cr_resource_group :: string
  cr_service_name :: string
  cr_tail :: "string list"

record collection_store =
  cs_resource_tags :: "string \<Rightarrow> (string \<times> json) list" \<comment> \<open>name and wire form\<close>
  cs_tags_by_scope :: "string \<Rightarrow> string \<Rightarrow> json list"
  cs_get_api :: "string \<Rightarrow> string option" \<comment> \<open>the API's version set id\<close>
  cs_version_set :: "string \<Rightarrow> json option"
  cs_product_groups :: "string \<Rightarrow> json list"
  cs_user_groups :: "string \<Rightarrow> json list"

datatype collection_error =
    OptionUnsupported string
  | SelectorUnsupported string
  | SelectorScope
  | SelectorBoolean string
  | FilterSyntax filter_error
  | CannotFilter
  | FilterEvaluation eval_error
  | SelectorFailed
  | OrderOnce
  | OrderField
  | OrderDirection
  | IntegerOnce string
  | IntegerRange string int int

definition query_values :: "query \<Rightarrow> string \<Rightarrow> string list option" where
  "query_values q name = map_of q name"

definition query_get :: "query \<Rightarrow> string \<Rightarrow> string" where
  "query_get q name = (case map_of q name of Some (v # _) \<Rightarrow> v | _ \<Rightarrow> [])"

definition query_set :: "query \<Rightarrow> string \<Rightarrow> string \<Rightarrow> query" where
  "query_set q name v = (name, [v]) # filter (\<lambda>(n, _). n \<noteq> name) q"

definition collection_one_of :: "string \<Rightarrow> string list \<Rightarrow> bool" where
  "collection_one_of v candidates = list_ex (\<lambda>c. v = c) candidates"

section \<open>Options, selectors and order\<close>

definition policy_fragment_collection :: "collection_route \<Rightarrow> bool" where
  "policy_fragment_collection rt \<longleftrightarrow>
     cr_service_name rt \<noteq> [] \<and> length (cr_tail rt) = 1 \<and> equal_fold (cr_tail rt ! 0) ''policyFragments''"

fun unsupported_collection_option :: "query \<Rightarrow> collection_route \<Rightarrow> string" where
  "unsupported_collection_option [] rt = []"
| "unsupported_collection_option ((name, _) # q) rt =
     (if \<not> has_prefix name ''$'' then unsupported_collection_option q rt
      else if cr_tail rt = [] then name
      else if collection_one_of name [''$filter'', ''$top'', ''$skip''] then unsupported_collection_option q rt
      else if name = ''$orderby'' \<and> policy_fragment_collection rt then unsupported_collection_option q rt
      else name)"

definition collection_selectors :: "(string \<times> string list) list" where
  "collection_selectors =
     [(''apis'', [''tags'', ''expandApiVersionSet'']),
      (''apis/operations'', [''tags'']),
      (''certificates'', [''isKeyVaultRefreshFailed'']),
      (''namedValues'', [''isKeyVaultRefreshFailed'']),
      (''products'', [''expandGroups'', ''tags'']),
      (''tags'', [''scope'']),
      (''users'', [''expandGroups''])]"

definition allowed_selectors :: "collection_route \<Rightarrow> string list" where
  "allowed_selectors rt =
     (case map_of collection_selectors (collection_filter_key (cr_tail rt)) of Some names \<Rightarrow> names | None \<Rightarrow> [])"

fun validate_selectors :: "string list \<Rightarrow> query \<Rightarrow> collection_error option" where
  "validate_selectors allowed [] = None"
| "validate_selectors allowed ((name, vs) # q) =
     (if \<not> collection_one_of name
           [''tags'', ''scope'', ''expandGroups'', ''expandApiVersionSet'', ''isKeyVaultRefreshFailed'']
      then validate_selectors allowed q
      else if name \<notin> set allowed then Some (SelectorUnsupported name)
      else if name = ''scope'' \<and> (length vs \<noteq> 1 \<or>
                \<not> collection_one_of (to_lower (hd vs)) [''apis'', ''operations'', ''products''])
      then Some SelectorScope
      else if collection_one_of name [''expandGroups'', ''expandApiVersionSet'', ''isKeyVaultRefreshFailed'']
              \<and> (length vs \<noteq> 1 \<or> \<not> collection_one_of (to_lower (hd vs)) [''true'', ''false''])
      then Some (SelectorBoolean name)
      else validate_selectors allowed q)"

definition validate_collection_selectors :: "query \<Rightarrow> collection_route \<Rightarrow> collection_error option" where
  "validate_collection_selectors q rt = validate_selectors (allowed_selectors rt) q"

text \<open>\<open>strings.Fields\<close>\<close>

function words_of :: "string \<Rightarrow> string list" where
  "words_of s =
     (let t = dropWhile is_space s in
      if t = [] then [] else takeWhile (\<lambda>c. \<not> is_space c) t # words_of (dropWhile (\<lambda>c. \<not> is_space c) t))"
  by pat_completeness auto

termination words_of
proof (relation "measure length")
  fix s t :: string
  assume t: "t = dropWhile is_space s" and ne: "t \<noteq> []"
  obtain c r where c: "t = c # r" using ne by (cases t) auto
  have "\<not> is_space (hd t)" unfolding t by (rule hd_dropWhile) (use ne t in simp)
  then have "\<not> is_space c" by (simp add: c)
  then have "length (dropWhile (\<lambda>c. \<not> is_space c) t) < length t"
    by (simp add: c le_imp_less_Suc length_dropWhile_le)
  also have "length t \<le> length s" unfolding t by (rule length_dropWhile_le)
  finally show "(dropWhile (\<lambda>c. \<not> is_space c) t, s) \<in> measure length" by simp
qed simp

declare words_of.simps [simp del]

text \<open>\<open>0\<close>: no ordering; \<open>1\<close>: ascending; \<open>-1\<close>: descending.\<close>

definition parse_collection_order :: "query \<Rightarrow> collection_route \<Rightarrow> (collection_error, int) result" where
  "parse_collection_order q rt =
     (case query_values q ''$orderby'' of
        None \<Rightarrow> Ok 0
      | Some vs \<Rightarrow>
          if \<not> policy_fragment_collection rt \<or> length vs \<noteq> 1 then Err OrderOnce
          else let parts = words_of (hd vs) in
            if parts = [] \<or> length parts > 2 \<or> \<not> equal_fold (parts ! 0) ''name'' then Err OrderField
            else if length parts = 1 \<or> equal_fold (parts ! 1) ''asc'' then Ok 1
            else if equal_fold (parts ! 1) ''desc'' then Ok (-1)
            else Err OrderDirection)"

definition collection_integer ::
  "query \<Rightarrow> string \<Rightarrow> int \<Rightarrow> int \<Rightarrow> (collection_error, int) result" where
  "collection_integer q name minimum maximum =
     (case query_values q name of
        None \<Rightarrow> Ok (-1)
      | Some vs \<Rightarrow>
          if length vs \<noteq> 1 then Err (IntegerOnce name)
          else (case parse_int 32 (hd vs) of
                  None \<Rightarrow> Err (IntegerRange name minimum maximum)
                | Some parsed \<Rightarrow>
                    if parsed < minimum \<or> parsed > maximum then Err (IntegerRange name minimum maximum)
                    else Ok parsed))"

section \<open>Selectors that consult the store\<close>

fun object_fields :: "json \<Rightarrow> resource option" where
  "object_fields (JObj kvs) = Some kvs"
| "object_fields _ = None"

definition resource_id :: "resource \<Rightarrow> string" where
  "resource_id r = (case map_of r ''id'' of Some (JStr s) \<Rightarrow> s | _ \<Rightarrow> [])"

definition resource_properties :: "resource \<Rightarrow> resource" where
  "resource_properties r = (case map_of r ''properties'' of Some (JObj p) \<Rightarrow> p | _ \<Rightarrow> [])"

definition set_property :: "string \<Rightarrow> json \<Rightarrow> resource \<Rightarrow> resource" where
  "set_property k v r = jset ''properties'' (JObj (jset k v (resource_properties r))) r"

text \<open>A loop over the resources of a collection; \<open>Err\<close> for a value that is not an object.\<close>

fun each_resource ::
  "(resource \<Rightarrow> (collection_error, resource) result) \<Rightarrow> json list \<Rightarrow> (collection_error, json list) result" where
  "each_resource f [] = Ok []"
| "each_resource f (v # vs) =
     (case object_fields v of
        None \<Rightarrow> Err SelectorFailed
      | Some r \<Rightarrow> bind_result (f r) (\<lambda>r. bind_result (each_resource f vs) (\<lambda>rest. Ok (JObj r # rest))))"

definition expand_resource_tags :: "collection_store \<Rightarrow> json list \<Rightarrow> (collection_error, json list) result" where
  "expand_resource_tags st =
     each_resource (\<lambda>r. Ok (set_property ''tags'' (JArr (map snd (cs_resource_tags st (resource_id r)))) r))"

definition expand_product_groups :: "collection_store \<Rightarrow> json list \<Rightarrow> (collection_error, json list) result" where
  "expand_product_groups st =
     each_resource (\<lambda>r. Ok (set_property ''groups'' (JArr (cs_product_groups st (resource_id r))) r))"

definition expand_user_groups :: "collection_store \<Rightarrow> json list \<Rightarrow> (collection_error, json list) result" where
  "expand_user_groups st =
     each_resource (\<lambda>r. Ok (set_property ''groups'' (JArr (cs_user_groups st (resource_id r))) r))"

definition expand_version_sets :: "collection_store \<Rightarrow> json list \<Rightarrow> (collection_error, json list) result" where
  "expand_version_sets st =
     each_resource (\<lambda>r.
       case cs_get_api st (resource_id r) of
         None \<Rightarrow> Err SelectorFailed
       | Some vsid \<Rightarrow>
           if vsid = [] then Ok r
           else (case cs_version_set st vsid of
                   Some wire \<Rightarrow> Ok (set_property ''apiVersionSet'' wire r)
                 | None \<Rightarrow> Ok r))"

fun filter_products_by_tag ::
  "collection_store \<Rightarrow> string \<Rightarrow> json list \<Rightarrow> (collection_error, json list) result" where
  "filter_products_by_tag st want [] = Ok []"
| "filter_products_by_tag st want (v # vs) =
     (case object_fields v of
        None \<Rightarrow> Err SelectorFailed
      | Some r \<Rightarrow> bind_result (filter_products_by_tag st want vs) (\<lambda>rest.
          Ok (if list_ex (\<lambda>(n, _). equal_fold n want) (cs_resource_tags st (resource_id r))
              then v # rest else rest)))"

definition key_vault_refresh_failed :: "resource \<Rightarrow> bool" where
  "key_vault_refresh_failed properties =
     (case jget ''keyVault'' (JObj properties) of
        Some kv \<Rightarrow>
          (case jget ''lastStatus'' kv of
             Some status \<Rightarrow>
               (case jget ''code'' status of
                  Some (JStr code) \<Rightarrow> code \<noteq> [] \<and> \<not> equal_fold code ''Success''
                | _ \<Rightarrow> False)
           | None \<Rightarrow> False)
      | None \<Rightarrow> False)"

definition project_refresh_failed :: "json list \<Rightarrow> (collection_error, json list) result" where
  "project_refresh_failed =
     each_resource (\<lambda>r.
       let p = resource_properties r in
       if map_of p ''isKeyVaultRefreshFailed'' \<noteq> None then Ok (jset ''properties'' (JObj p) r)
       else Ok (set_property ''isKeyVaultRefreshFailed'' (JBool (key_vault_refresh_failed p)) r))"

definition selector_service_id :: "collection_route \<Rightarrow> string" where
  "selector_service_id rt =
     (if cr_subscription_id rt \<noteq> [] \<or> cr_resource_group rt \<noteq> []
      then ''/subscriptions/'' @ cr_subscription_id rt @ ''/resourceGroups/'' @ cr_resource_group rt
           @ ''/providers/Microsoft.ApiManagement/service/'' @ cr_service_name rt
      else cr_service_name rt)"

text \<open>\<open>step\<close> runs one selector of \<open>applyCollectionSelectors\<close> when its condition holds.\<close>

definition selector_step ::
  "bool \<Rightarrow> (json list \<Rightarrow> (collection_error, json list) result) \<Rightarrow>
   (collection_error, json list) result \<Rightarrow> (collection_error, json list) result" where
  "selector_step cond f r = (if cond then bind_result r f else r)"

definition apply_collection_selectors ::
  "collection_store \<Rightarrow> json list \<Rightarrow> query \<Rightarrow> collection_route \<Rightarrow> (collection_error, json list) result" where
  "apply_collection_selectors st vs q rt =
     (let key = collection_filter_key (cr_tail rt);
          r0 = selector_step (key = ''products'' \<and> query_get q ''tags'' \<noteq> [])
                 (filter_products_by_tag st (query_get q ''tags'')) (Ok vs);
          r1 = selector_step (key = ''tags'' \<and> query_get q ''scope'' \<noteq> [])
                 (\<lambda>_. Ok (cs_tags_by_scope st (selector_service_id rt) (query_get q ''scope''))) r0;
          r2 = selector_step (key = ''apis'' \<and> query_get q ''expandApiVersionSet'' = ''true'')
                 (expand_version_sets st) r1;
          r3 = selector_step (key = ''apis'' \<and> query_get q ''tags'' \<noteq> []) (expand_resource_tags st) r2;
          r4 = selector_step (key = ''apis/operations'' \<and> query_get q ''tags'' \<noteq> []) (expand_resource_tags st) r3;
          r5 = selector_step (key = ''products'' \<and> query_get q ''expandGroups'' = ''true'')
                 (expand_product_groups st) r4;
          r6 = selector_step (key = ''users'' \<and> query_get q ''expandGroups'' = ''true'')
                 (expand_user_groups st) r5
      in selector_step ((key = ''namedValues'' \<or> key = ''certificates'') \<and>
                        query_get q ''isKeyVaultRefreshFailed'' = ''true'') project_refresh_failed r6)"

section \<open>Filtering, ordering and paging\<close>

fun filter_values :: "fexpr \<Rightarrow> json list \<Rightarrow> (collection_error, json list) result" where
  "filter_values e [] = Ok []"
| "filter_values e (v # vs) =
     (case object_fields v of
        None \<Rightarrow> Err CannotFilter
      | Some r \<Rightarrow>
          (case eval_filter e r of
             Inl err \<Rightarrow> Err (FilterEvaluation err)
           | Inr matches \<Rightarrow>
               bind_result (filter_values e vs) (\<lambda>rest. Ok (if matches then v # rest else rest))))"

text \<open>\<open>fmt.Sprint\<close> of a resource's name, which is a string (or absent).\<close>

definition name_text :: "json \<Rightarrow> string" where
  "name_text v =
     (case object_fields v of
        None \<Rightarrow> ''<nil>''
      | Some r \<Rightarrow> (case case_insensitive_value r ''name'' of Some (JStr s) \<Rightarrow> s | _ \<Rightarrow> ''<nil>''))"

text \<open>\<open>sort.SliceStable\<close> in either direction: equal names keep their order.\<close>

definition order_values :: "int \<Rightarrow> json list \<Rightarrow> json list" where
  "order_values order vs =
     (if order = 0 then vs
      else if order > 0 then sort_key name_text vs
      else rev (sort_key name_text (rev vs)))"

definition max_int32 :: int where "max_int32 = 2147483647"

text \<open>The bounds of the page in a list of \<open>n\<close> values: \<open>filtered[skip:end]\<close>.\<close>

definition page_bounds :: "query \<Rightarrow> nat \<Rightarrow> (collection_error, nat \<times> nat) result" where
  "page_bounds q n =
     bind_result (collection_integer q ''$skip'' 0 max_int32) (\<lambda>skip.
     bind_result (collection_integer q ''$top'' 1 max_int32) (\<lambda>top.
       let skip = min (if skip < 0 then 0 else nat skip) n;
           end' = (if top \<ge> 0 \<and> top < int (n - skip) then skip + nat top else n)
       in Ok (skip, end')))"

text \<open>The values of the page and the query of the next link, absent on the last page.\<close>

definition collection_page :: "query \<Rightarrow> json list \<Rightarrow> (collection_error, json list \<times> query option) result" where
  "collection_page q filtered =
     bind_result (page_bounds q (length filtered)) (\<lambda>(skip, end').
       Ok (drop skip (take end' filtered),
           if end' < length filtered then Some (query_set q ''$skip'' (itoa end')) else None))"

definition collections_without_count :: "string list" where
  "collections_without_count = [''settings'', ''policyrestrictions'']"

datatype collection_reply =
    CopyRecorded \<comment> \<open>the recorded response unchanged\<close>
  | CollectionRefused collection_error \<comment> \<open>400 InvalidQueryParameterValue\<close>
  | CollectionPage resource

definition collection_document ::
  "(query \<Rightarrow> string) \<Rightarrow> collection_route \<Rightarrow> resource \<Rightarrow> nat \<Rightarrow> json list \<Rightarrow> query option \<Rightarrow> resource" where
  "collection_document link rt doc n page next_query =
     (let doc = jset ''count'' (JNum (of_nat n)) (jset ''value'' (JArr page) doc);
          doc = jset ''nextLink'' (JStr (case next_query of None \<Rightarrow> [] | Some q \<Rightarrow> link q)) doc
      in if to_lower (collection_filter_key (cr_tail rt)) \<in> set collections_without_count
         then filter (\<lambda>(k, _). k \<noteq> ''count'') doc else doc)"

text \<open>
  \<open>writeCollectionResponseWithHandler\<close>: the recorded status and the decoded body of the
  response, \<open>None\<close> when it is not a JSON object.
\<close>

definition write_collection_response ::
  "(query \<Rightarrow> string) \<Rightarrow> collection_store option \<Rightarrow> int \<Rightarrow> resource option \<Rightarrow> query \<Rightarrow> collection_route \<Rightarrow>
   collection_reply" where
  "write_collection_response link handler code body q rt =
     (if code < 200 \<or> code \<ge> 300 then CopyRecorded
      else case body of None \<Rightarrow> CopyRecorded
      | Some doc \<Rightarrow>
      (case map_of doc ''value'' of
         Some (JArr vs) \<Rightarrow>
           if unsupported_collection_option q rt \<noteq> [] then
             CollectionRefused (OptionUnsupported (unsupported_collection_option q rt))
           else (case validate_collection_selectors q rt of
             Some e \<Rightarrow> CollectionRefused e
           | None \<Rightarrow>
             (case parse_filter_for_route (query_get q ''$filter'') (cr_tail rt) of
                Inl e \<Rightarrow> CollectionRefused (FilterSyntax e)
              | Inr flt \<Rightarrow>
                (case bind_result (filter_values flt vs) (\<lambda>filtered.
                      bind_result (case handler of None \<Rightarrow> Ok filtered
                                   | Some st \<Rightarrow> apply_collection_selectors st filtered q rt) (\<lambda>filtered.
                      bind_result (parse_collection_order q rt) (\<lambda>order.
                        let ordered = order_values order filtered in
                        bind_result (collection_page q ordered) (\<lambda>(page, next_query).
                          Ok (collection_document link rt doc (length ordered) page next_query))))) of
                   Inl e \<Rightarrow> CollectionRefused e
                 | Inr doc' \<Rightarrow> CollectionPage doc')))
       | _ \<Rightarrow> CopyRecorded))"

section \<open>Paging is complete\<close>

text \<open>A client that follows next links; the bound is the number of requests it may make.\<close>

fun follow_pages :: "nat \<Rightarrow> query \<Rightarrow> json list \<Rightarrow> json list option" where
  "follow_pages 0 q filtered = None"
| "follow_pages (Suc n) q filtered =
     (case collection_page q filtered of
        Inl _ \<Rightarrow> None
      | Inr (page, None) \<Rightarrow> Some page
      | Inr (page, Some q') \<Rightarrow> map_option (\<lambda>rest. page @ rest) (follow_pages n q' filtered))"

lemma query_set_other: "k \<noteq> name \<Longrightarrow> query_values (query_set q name v) k = query_values q k"
  by (induction q) (auto simp: query_values_def query_set_def)

lemma query_set_same: "query_values (query_set q name v) name = Some [v]"
  by (simp add: query_values_def query_set_def)

lemma skip_of_next:
  assumes "int n \<le> max_int32"
  shows "collection_integer (query_set q ''$skip'' (itoa n)) ''$skip'' 0 max_int32 = Ok (int n)"
proof -
  have "n < 2 ^ (32 - 1)" using assms by (simp add: max_int32_def)
  then have "parse_int 32 (itoa n) = Some (int n)" by (rule parse_int_itoa)
  then show ?thesis using assms by (simp add: collection_integer_def query_set_same)
qed

lemma top_of_next:
  "collection_integer (query_set q ''$skip'' v) ''$top'' lo hi = collection_integer q ''$top'' lo hi"
  by (simp add: collection_integer_def query_set_other)

lemma collection_integer_range:
  "collection_integer q name lo hi = Ok n \<Longrightarrow> n = -1 \<or> lo \<le> n \<and> n \<le> hi"
  by (auto simp: collection_integer_def split: option.splits if_splits)

lemma drop_take_drop:
  assumes "k \<le> e" and "e \<le> length xs"
  shows "drop k (take e xs) @ drop e xs = drop k xs"
proof -
  have "drop k (take e xs @ drop e xs) = drop k (take e xs) @ drop e xs"
    unfolding drop_append using assms by simp
  then show ?thesis by simp
qed

lemma follow_pages_from:
  assumes "collection_integer q ''$top'' 1 max_int32 = Ok tp" and "int (length xs) \<le> max_int32"
    and "collection_integer q ''$skip'' 0 max_int32 = Ok skip"
    and "length xs - nat skip < n"
  shows "follow_pages n q xs = Some (drop (nat skip) xs)"
  using assms
proof (induction n arbitrary: q skip)
  case (Suc n)
  define k where "k = min (nat skip) (length xs)"
  define e where "e = (if tp \<ge> 0 \<and> tp < int (length xs - k) then k + nat tp else length xs)"
  have skip: "(if skip < 0 then 0 else nat skip) = nat skip" by simp
  have bounds: "page_bounds q (length xs) = Ok (k, e)"
    using Suc.prems(1,3) by (simp only: page_bounds_def bind_result_simps Let_def skip k_def e_def)
  show ?case
  proof (cases "e < length xs")
    case False
    then have "drop k (take e xs) = drop (nat skip) xs" by (auto simp: k_def min_def)
    then show ?thesis using bounds False by (simp add: collection_page_def)
  next
    case True
    then have t: "tp \<ge> 0" "tp < int (length xs - k)" "e = k + nat tp" by (auto simp: e_def split: if_splits)
    then have tp1: "tp \<ge> 1" using collection_integer_range [OF Suc.prems(1)] by auto
    have k: "k = nat skip" "nat skip < length xs" using t(1,2) by (auto simp: k_def)
    let ?q = "query_set q ''$skip'' (itoa e)"
    have next_skip: "collection_integer ?q ''$skip'' 0 max_int32 = Ok (int e)"
      by (rule skip_of_next) (use Suc.prems(2) True in linarith)
    have "length xs - nat (int e) < n" using Suc.prems(4) tp1 k t(3) True by linarith
    moreover have "collection_integer ?q ''$top'' 1 max_int32 = Ok tp"
      using Suc.prems(1) by (simp only: top_of_next)
    ultimately have IH: "follow_pages n ?q xs = Some (drop e xs)"
      using Suc.IH [OF _ Suc.prems(2) next_skip] by simp
    have cat: "drop k (take e xs) @ drop e xs = drop k xs"
      by (rule drop_take_drop) (use t(3) True in linarith)+
    have "collection_page q xs = Ok (drop k (take e xs), Some ?q)"
      using True by (simp add: collection_page_def bounds)
    then show ?thesis using IH cat k(1) by simp
  qed
qed simp

text \<open>
  C31. Paging loses and repeats nothing: whatever valid page size a client asks for, the pages it
  gets by following the next links are, in order, exactly the filtered collection, and the last
  page is reached within as many requests as there are resources, plus one.
\<close>

theorem paging_complete:
  assumes "collection_integer q ''$top'' 1 max_int32 = Ok tp"
    and "query_values q ''$skip'' = None" and "int (length filtered) \<le> max_int32"
  shows "follow_pages (Suc (length filtered)) q filtered = Some filtered"
proof -
  have "collection_integer q ''$skip'' 0 max_int32 = Ok (-1)"
    using assms(2) by (simp add: collection_integer_def)
  from follow_pages_from [OF assms(1,3) this, of "Suc (length filtered)"] show ?thesis
    by (simp del: follow_pages.simps)
qed

theorem paging_complete_witness:
  "follow_pages 4 [(''$top'', [''2''])] [JStr ''a'', JStr ''b'', JStr ''c''] = Some [JStr ''a'', JStr ''b'', JStr ''c'']"
proof -
  have "collection_integer [(''$top'', [''2''])] ''$top'' 1 max_int32 = Ok 2" by code_simp
  from paging_complete [OF this, of "[JStr ''a'', JStr ''b'', JStr ''c'']"]
  show ?thesis by (simp add: query_values_def max_int32_def eval_nat_numeral)
qed

text \<open>
  The \<open>scope\<close> selector of the tag collection throws the filter away: whatever \<open>$filter\<close> the
  parser and the evaluation accept, the reply to a request for one whole page holds every tag of the
  scope, and \<open>$filter\<close> only decides whether the request is refused.
\<close>

theorem tag_scope_ignores_filter:
  assumes "cr_tail rt = [''tags'']" and "query_get q ''scope'' \<noteq> []"
    and "200 \<le> code" and "code < 300" and "map_of doc ''value'' = Some (JArr vs)"
    and "unsupported_collection_option q rt = []" and "validate_collection_selectors q rt = None"
    and "parse_filter_for_route (query_get q ''$filter'') [''tags''] = Ok e" and "filter_values e vs = Ok kept"
    and "query_values q ''$orderby'' = None" and "query_values q ''$skip'' = None" and "query_values q ''$top'' = None"
    and "every = cs_tags_by_scope st (selector_service_id rt) (query_get q ''scope'')"
  shows "write_collection_response link (Some st) code (Some doc) q rt =
     CollectionPage (collection_document link rt doc (length every) every None)"
  using assms
  by (simp add: write_collection_response_def apply_collection_selectors_def collection_filter_key_def
      selector_step_def parse_collection_order_def order_values_def collection_page_def page_bounds_def
      collection_integer_def)

definition demo_tag_store :: collection_store where
  "demo_tag_store =
     \<lparr>cs_resource_tags = (\<lambda>_. []), cs_tags_by_scope = (\<lambda>_ _. [JObj [(''name'', JStr ''a'')], JObj [(''name'', JStr ''b'')]]),
      cs_get_api = (\<lambda>_. None), cs_version_set = (\<lambda>_. None), cs_product_groups = (\<lambda>_. []), cs_user_groups = (\<lambda>_. [])\<rparr>"

definition demo_tag_query :: query where
  "demo_tag_query = [(''scope'', [''apis'']), (''$filter'', [CHR 0x6E # ''ame eq '' @ [CHR 0x27] @ ''a'' @ [CHR 0x27]])]"

definition demo_tag_route :: collection_route where
  "demo_tag_route = \<lparr>cr_subscription_id = ''s'', cr_resource_group = ''g'', cr_service_name = ''x'', cr_tail = [''tags'']\<rparr>"

theorem tag_scope_ignores_filter_witness:
  "write_collection_response (\<lambda>_. []) (Some demo_tag_store) 200
     (Some [(''value'', JArr [JObj [(''name'', JStr ''a'')]])]) demo_tag_query demo_tag_route =
   CollectionPage (collection_document (\<lambda>_. []) demo_tag_route [(''value'', JArr [JObj [(''name'', JStr ''a'')]])]
     2 [JObj [(''name'', JStr ''a'')], JObj [(''name'', JStr ''b'')]] None)"
proof -
  let ?vs = "[JObj [(''name'', JStr ''a'')]]"
  have parses: "parse_filter_for_route (query_get demo_tag_query ''$filter'') [''tags''] =
      Ok (FCompare ''name'' ''eq'' (OLit (JStr ''a'')))"
    by code_simp
  have keeps: "filter_values (FCompare ''name'' ''eq'' (OLit (JStr ''a''))) ?vs = Ok ?vs"
    by code_simp
  have refuses: "unsupported_collection_option demo_tag_query demo_tag_route = []"
      "validate_collection_selectors demo_tag_query demo_tag_route = None"
    by code_simp+
  from tag_scope_ignores_filter [OF _ _ _ _ _ refuses parses keeps _ _ _ refl,
      where code = 200 and doc = "[(''value'', JArr ?vs)]" and st = demo_tag_store and link = "\<lambda>_. []"]
  show ?thesis
    by (simp add: demo_tag_route_def demo_tag_query_def demo_tag_store_def query_get_def query_values_def eval_nat_numeral)
qed

end
