(* ===== verification/Http.thy ===== *)
theory Http
  imports FilterLex
begin

text \<open>
  What the gateway uses of \<open>net/http\<close> and \<open>net/url\<close>: headers under canonical keys, parsed query
  values, requests and responses with bodies that can be read and replaced.  A header map and the
  values of a query are association lists with distinct keys; the order of the keys is the order in
  which a loop over the Go map happens to visit them.
\<close>

section \<open>Headers\<close>

type_synonym headers = "(string \<times> string list) list"

text \<open>The bytes of a header field name, and \<open>textproto.CanonicalMIMEHeaderKey\<close>.\<close>

definition is_token_char :: "char \<Rightarrow> bool" where
  "is_token_char c \<longleftrightarrow>
     is_digit c \<or> (97 \<le> (of_char c :: nat) \<and> (of_char c :: nat) \<le> 122)
     \<or> (65 \<le> (of_char c :: nat) \<and> (of_char c :: nat) \<le> 90)
     \<or> (of_char c :: nat) \<in> {33, 35, 36, 37, 38, 39, 42, 43, 45, 46, 94, 95, 96, 124, 126}"

fun canonical_from :: "bool \<Rightarrow> string \<Rightarrow> string" where
  "canonical_from upper [] = []"
| "canonical_from upper (c # cs) =
     (if upper then upper_char c else lower_char c) # canonical_from (c = CHR ''-'') cs"

definition canonical_key :: "string \<Rightarrow> string" where
  "canonical_key k = (if list_all is_token_char k then canonical_from True k else k)"

definition header_values_of :: "headers \<Rightarrow> string \<Rightarrow> string list" where
  "header_values_of h k = (case map_of h (canonical_key k) of Some vs \<Rightarrow> vs | None \<Rightarrow> [])"

definition header_get_of :: "headers \<Rightarrow> string \<Rightarrow> string" where
  "header_get_of h k = (case header_values_of h k of v # _ \<Rightarrow> v | [] \<Rightarrow> [])"

definition drop_key :: "string \<Rightarrow> (string \<times> 'v) list \<Rightarrow> (string \<times> 'v) list" where
  "drop_key k kvs = filter (\<lambda>(n, _). n \<noteq> k) kvs"

definition header_remove :: "string \<Rightarrow> headers \<Rightarrow> headers" where
  "header_remove k h = drop_key (canonical_key k) h"

definition header_put :: "string \<Rightarrow> string \<Rightarrow> headers \<Rightarrow> headers" where
  "header_put k v h = (canonical_key k, [v]) # drop_key (canonical_key k) h"

definition header_add :: "string \<Rightarrow> string \<Rightarrow> headers \<Rightarrow> headers" where
  "header_add k v h = (canonical_key k, header_values_of h k @ [v]) # drop_key (canonical_key k) h"

lemma map_of_drop_key [simp]: "map_of (drop_key k kvs) n = (if n = k then None else map_of kvs n)"
  by (induction kvs) (auto simp: drop_key_def)

lemma header_values_put [simp]:
  "header_values_of (header_put k v h) n = (if canonical_key n = canonical_key k then [v] else header_values_of h n)"
  by (simp add: header_values_of_def header_put_def)

lemma header_values_remove [simp]:
  "header_values_of (header_remove k h) n = (if canonical_key n = canonical_key k then [] else header_values_of h n)"
  by (simp add: header_values_of_def header_remove_def)

lemma header_values_add [simp]:
  "header_values_of (header_add k v h) n =
     (if canonical_key n = canonical_key k then header_values_of h n @ [v] else header_values_of h n)"
  by (simp add: header_values_of_def header_add_def)

lemma header_get_put [simp]:
  "header_get_of (header_put k v h) n = (if canonical_key n = canonical_key k then v else header_get_of h n)"
  by (simp add: header_get_of_def)

lemma header_get_remove [simp]:
  "header_get_of (header_remove k h) n = (if canonical_key n = canonical_key k then [] else header_get_of h n)"
  by (simp add: header_get_of_def)

section \<open>Query values\<close>

type_synonym url_values = "(string \<times> string list) list"

definition values_get :: "url_values \<Rightarrow> string \<Rightarrow> string" where
  "values_get q k = (case map_of q k of Some (v # _) \<Rightarrow> v | _ \<Rightarrow> [])"

definition values_has :: "url_values \<Rightarrow> string \<Rightarrow> bool" where
  "values_has q k \<longleftrightarrow> map_of q k \<noteq> None"

definition values_set :: "string \<Rightarrow> string \<Rightarrow> url_values \<Rightarrow> url_values" where
  "values_set k v q = (k, [v]) # drop_key k q"

definition values_del :: "string \<Rightarrow> url_values \<Rightarrow> url_values" where
  "values_del k q = drop_key k q"

lemma values_get_set [simp]: "values_get (values_set k v q) n = (if n = k then v else values_get q n)"
  by (simp add: values_get_def values_set_def)

lemma values_has_set [simp]: "values_has (values_set k v q) n \<longleftrightarrow> n = k \<or> values_has q n"
  by (auto simp: values_has_def values_set_def)

lemma values_get_del [simp]: "values_get (values_del k q) n = (if n = k then [] else values_get q n)"
  by (simp add: values_get_def values_del_def)

lemma values_has_del [simp]: "values_has (values_del k q) n \<longleftrightarrow> n \<noteq> k \<and> values_has q n"
  by (auto simp: values_has_def values_del_def)

section \<open>Requests and responses\<close>

text \<open>
  A body still to be read: its bytes, or \<open>None\<close> when reading it fails.  \<open>gr_get_body\<close> is the
  \<open>GetBody\<close> function if there is one, whose copy never fails.  \<open>gr_certificates\<close> holds the peer's
  certificates of a TLS connection.
\<close>

record gateway_request =
  gr_method :: string
  gr_scheme :: string
  gr_host :: string
  gr_query :: url_values
  gr_headers :: headers
  gr_body :: "string option"
  gr_get_body :: "string option"
  gr_content_length :: int
  gr_remote_addr :: string
  gr_certificates :: "string list option"

record gateway_response =
  gs_status :: int
  gs_headers :: headers
  gs_body :: "string option"

text \<open>\<open>io.ReadAll\<close> on a body.\<close>

definition read_body :: "string option \<Rightarrow> (string, string) result" where
  "read_body b = (case b of Some v \<Rightarrow> Ok v | None \<Rightarrow> Err ''unexpected EOF'')"

text \<open>The assignment of a new body that \<open>set-body\<close> and the transformations make.\<close>

definition request_with_body :: "string \<Rightarrow> gateway_request \<Rightarrow> gateway_request" where
  "request_with_body b r =
     r\<lparr>gr_body := Some b, gr_get_body := Some b, gr_content_length := int (length b)\<rparr>"

text \<open>
  \<open>strings.ReplaceAll\<close>; an empty pattern matches before every byte and at the end (Go matches at
  every rune, which is the same for ASCII).
\<close>

function replace_nonempty :: "string \<Rightarrow> string \<Rightarrow> string \<Rightarrow> string" where
  "replace_nonempty pat to [] = []"
| "replace_nonempty pat to (c # cs) =
     (if pat \<noteq> [] \<and> has_prefix (c # cs) pat then to @ replace_nonempty pat to (drop (length pat) (c # cs))
      else c # replace_nonempty pat to cs)"
  by pat_completeness auto

termination replace_nonempty
  by (relation "measure (\<lambda>(_, _, s). length s)") (auto simp: neq_Nil_conv)

definition replace_all :: "string \<Rightarrow> string \<Rightarrow> string \<Rightarrow> string" where
  "replace_all s pat to =
     (if pat = [] then concat (map (\<lambda>c. to @ [c]) s) @ to else replace_nonempty pat to s)"

lemma replace_nonempty_absent:
  "pat \<noteq> [] \<Longrightarrow> \<not> contains s pat \<Longrightarrow> replace_nonempty pat to s = s"
proof (induction s)
  case (Cons c cs)
  have "\<not> has_prefix (c # cs) pat" using Cons.prems(2) unfolding contains_iff has_prefix_iff by (metis append_Nil)
  moreover have "\<not> contains cs pat"
    using Cons.prems(2) unfolding contains_iff by (metis append_Cons)
  ultimately show ?case using Cons.IH [OF Cons.prems(1)] by simp
qed simp

lemma replace_all_absent: "pat \<noteq> [] \<Longrightarrow> \<not> contains s pat \<Longrightarrow> replace_all s pat to = s"
  by (simp add: replace_all_def replace_nonempty_absent)

end
