(* ===== verification/PolicyTree.thy ===== *)
theory PolicyTree
  imports FilterLex "HOL-Library.List_Lexorder" "HOL-Library.Char_ord"
begin

text \<open>
  The policy document as a tree, \<open>internal/policy/policy.go\<close> lines 383 to 489 and 3442 to 3461: the
  element tree built from the tokens of \<open>encoding/xml\<close>, the expansion of \<open>include-fragment\<close>
  elements and the search for repeated keyless limits, with \<open>writeNodeXML\<close>.  The tokenizer is the
  standard library's: a document is the token list it yields, and \<open>parse_xml\<close> (from a fragment's
  text to its root) is an argument of the expansion.
\<close>

type_synonym attrs = "(string \<times> string) list"

datatype node = Node (node_name: string) (node_attrs: attrs) (node_text: string) (node_children: "node list")

text \<open>A missing attribute reads as the empty string, as in a Go map.\<close>

definition attr :: "string \<Rightarrow> node \<Rightarrow> string" where
  "attr k n = (case map_of (node_attrs n) k of Some v \<Rightarrow> v | None \<Rightarrow> [])"

definition child_text :: "string \<Rightarrow> node \<Rightarrow> string" where
  "child_text name n =
     (case find (\<lambda>c. node_name c = name) (node_children n) of
        Some c \<Rightarrow> trim_space (node_text c)
      | None \<Rightarrow> [])"

fun child_texts :: "string \<Rightarrow> node list \<Rightarrow> (string, string list) result" where
  "child_texts want [] = Ok []"
| "child_texts want (c # cs) =
     (if node_name c \<noteq> want then Err (node_name c)
      else bind_result (child_texts want cs) (\<lambda>vs.
        Ok (if trim_space (node_text c) = [] then vs else trim_space (node_text c) # vs)))"

section \<open>From tokens to the tree\<close>

datatype xml_token =
    StartElement string attrs
  | EndElement string
  | CharData string
  | OtherToken \<comment> \<open>comments, directives and processing instructions\<close>

text \<open>
  The loop of \<open>UnmarshalXML\<close> after its start element: \<open>Some\<close> the text, the children and the
  tokens left; \<open>None\<close> when the tokens run out.  The recursive call of \<open>DecodeElement\<close> consumes a
  whole child; the bound is the number of tokens.
\<close>

fun unmarshal_content ::
  "nat \<Rightarrow> string \<Rightarrow> xml_token list \<Rightarrow> (string \<times> node list \<times> xml_token list) option" where
  "unmarshal_content 0 name ts = None"
| "unmarshal_content (Suc n) name [] = None"
| "unmarshal_content (Suc n) name (StartElement child as # ts) =
     (case unmarshal_content n child ts of
        None \<Rightarrow> None
      | Some (text, kids, ts') \<Rightarrow>
          map_option (\<lambda>(t, ks, rest). (t, Node child as text kids # ks, rest)) (unmarshal_content n name ts'))"
| "unmarshal_content (Suc n) name (CharData s # ts) =
     map_option (\<lambda>(t, ks, rest). (s @ t, ks, rest)) (unmarshal_content n name ts)"
| "unmarshal_content (Suc n) name (EndElement e # ts) =
     (if e = name then Some ([], [], ts) else unmarshal_content n name ts)"
| "unmarshal_content (Suc n) name (OtherToken # ts) = unmarshal_content n name ts"

definition unmarshal_xml :: "xml_token list \<Rightarrow> node option" where
  "unmarshal_xml ts =
     (case dropWhile (\<lambda>t. case t of StartElement _ _ \<Rightarrow> False | _ \<Rightarrow> True) ts of
        StartElement name as # rest \<Rightarrow>
          map_option (\<lambda>(t, ks, _). Node name as t ks) (unmarshal_content (Suc (length rest)) name rest)
      | _ \<Rightarrow> None)"

text \<open>The tokens of a tree, text first, as \<open>writeNodeXML\<close> emits it.\<close>

fun node_tokens :: "node \<Rightarrow> xml_token list" where
  "node_tokens (Node name as text kids) =
     StartElement name as # CharData text # concat (map node_tokens kids) @ [EndElement name]"

lemma size_child: "c \<in> set (node_children n) \<Longrightarrow> size c < size n"
  by (cases n) (auto dest: size_list_estimation' [OF _ le_refl, of _ _ size])

lemma unmarshal_content_more:
  "unmarshal_content n name ts = Some r \<Longrightarrow> unmarshal_content (Suc n) name ts = Some r"
proof (induction n name ts arbitrary: r rule: unmarshal_content.induct)
  case (3 n name child ats ts)
  then show ?case by (auto split: option.splits prod.splits)
qed (auto split: if_splits)

lemma unmarshal_content_tokens:
  "length (concat (map node_tokens kids)) < n \<Longrightarrow>
   unmarshal_content n name (concat (map node_tokens kids) @ EndElement name # rest) = Some ([], kids, rest)"
proof (induction "length (concat (map node_tokens kids))" arbitrary: kids n name rest rule: less_induct)
  case less
  obtain m where n: "n = Suc m" using less.prems by (cases n) auto
  show ?case
  proof (cases kids)
    case Nil
    then show ?thesis by (simp add: n)
  next
    case (Cons k ks)
    obtain kn ka kt kk where k: "k = Node kn ka kt kk" by (cases k)
    let ?inner = "concat (map node_tokens kk)"
    let ?rest = "concat (map node_tokens ks) @ EndElement name # rest"
    obtain m' where m: "m = Suc m'" using less.prems by (cases m) (auto simp: n Cons k)
    have inner: "unmarshal_content m' kn (?inner @ EndElement kn # ?rest) = Some ([], kk, ?rest)"
      by (rule less.hyps) (use less.prems Cons k n m in simp_all)
    have outer: "unmarshal_content m name ?rest = Some ([], ks, rest)"
      by (rule less.hyps) (use less.prems Cons k n m in simp_all)
    show ?thesis using inner outer by (simp add: Cons k n m)
  qed
qed

text \<open>
  Building the tree from the tokens of a tree gives it back, for every element, attribute,
  text and nesting: nothing of a policy document is lost between the tokenizer and the compiler.
\<close>

theorem unmarshal_roundtrip: "unmarshal_xml (node_tokens n) = Some n"
proof (cases n)
  case (Node name ats body kids)
  have "unmarshal_content (Suc (length (concat (map node_tokens kids)))) name
      (concat (map node_tokens kids) @ EndElement name # []) = Some ([], kids, [])"
    by (rule unmarshal_content_tokens) simp
  then have "unmarshal_content (Suc (Suc (length (concat (map node_tokens kids)))))  name
      (CharData body # concat (map node_tokens kids) @ [EndElement name]) = Some (body, kids, [])"
    by simp
  moreover have "unmarshal_content (Suc k) nm ts = Some r \<Longrightarrow> unmarshal_content (Suc (Suc k)) nm ts = Some r" for k nm ts r
    by (rule unmarshal_content_more)
  ultimately show ?thesis by (simp add: unmarshal_xml_def Node)
qed

section \<open>Fragments\<close>

datatype fragment_error =
    FragmentMissing string
  | FragmentCycle string
  | FragmentSyntax string
  | FragmentRoot string

text \<open>The checks made before a fragment is expanded: its id and its root, or the error.\<close>

definition open_fragment ::
  "(string \<Rightarrow> node option) \<Rightarrow> (string \<times> string) list \<Rightarrow> string list \<Rightarrow> node \<Rightarrow>
   (fragment_error, string \<times> node) result" where
  "open_fragment parse fragments stack item =
     (let shown = attr ''fragment-id'' item; fid = to_lower shown in
      case map_of fragments fid of
        None \<Rightarrow> Err (FragmentMissing shown)
      | Some value \<Rightarrow>
          if fid = [] then Err (FragmentMissing shown)
          else if fid \<in> set stack then Err (FragmentCycle shown)
          else (case parse value of
                  None \<Rightarrow> Err (FragmentSyntax shown)
                | Some fragment \<Rightarrow>
                    if node_name fragment \<noteq> ''fragment'' then Err (FragmentRoot shown)
                    else Ok (fid, fragment)))"

lemma open_fragment_Ok_iff:
  "open_fragment parse fragments stack item = Ok (fid, fragment) \<longleftrightarrow>
     fid = to_lower (attr ''fragment-id'' item) \<and> fid \<noteq> [] \<and> fid \<notin> set stack \<and>
     (\<exists>v. map_of fragments fid = Some v \<and> parse v = Some fragment) \<and> node_name fragment = ''fragment''"
  by (auto simp: open_fragment_def Let_def split: option.splits)

text \<open>
  \<open>expandNodes\<close>: the stack of open fragment ids is a Go map changed in place; each entry is
  removed when its fragment has been expanded, so the recursive calls see it as a list.
\<close>

function expand_nodes ::
  "(string \<Rightarrow> node option) \<Rightarrow> (string \<times> string) list \<Rightarrow> string list \<Rightarrow> node list \<Rightarrow>
   (fragment_error, node list) result" where
  "expand_nodes parse fragments stack [] = Ok []"
| "expand_nodes parse fragments stack (item # rest) =
     (if node_name item = ''include-fragment'' then
        (case open_fragment parse fragments stack item of
           Inl e \<Rightarrow> Err e
         | Inr (fid, fragment) \<Rightarrow>
             bind_result (expand_nodes parse fragments (fid # stack) (node_children fragment)) (\<lambda>kids.
               bind_result (expand_nodes parse fragments stack rest) (\<lambda>others. Ok (kids @ others))))
      else bind_result (expand_nodes parse fragments stack (node_children item))
             (\<lambda>kids. bind_result (expand_nodes parse fragments stack rest)
               (\<lambda>others. Ok (Node (node_name item) (node_attrs item) (node_text item) kids # others))))"
  by pat_completeness auto

text \<open>
  It ends because a fragment is opened at most once along any path: the ids not yet open decrease
  with each inclusion, and between inclusions the elements get smaller.
\<close>

lemma open_fragments_decrease:
  assumes "open_fragment parse fragments stack item = Ok (fid, fragment)"
  shows "card (set (map fst fragments) - insert fid (set stack)) < card (set (map fst fragments) - set stack)"
proof (rule psubset_card_mono)
  from assms obtain v where v: "map_of fragments fid = Some v" and notin: "fid \<notin> set stack"
    by (auto simp: open_fragment_Ok_iff)
  from v have "fid \<in> set (map fst fragments)" by (force dest: map_of_SomeD)
  with notin show "set (map fst fragments) - insert fid (set stack) \<subset> set (map fst fragments) - set stack"
    by blast
qed simp

lemma size_children: "size_list size (node_children n) \<le> size n + k"
  by (cases n) simp

termination expand_nodes
  by (relation "measures [\<lambda>(p, fr, st, ns). card (set (map fst fr) - set st), \<lambda>(p, fr, st, ns). size_list size ns]")
    (auto dest: open_fragments_decrease simp: less_Suc_eq_le size_children simp flip: set_map)

fun include_free :: "node \<Rightarrow> bool" where
  "include_free (Node name ats body kids) \<longleftrightarrow> name \<noteq> ''include-fragment'' \<and> (\<forall>k \<in> set kids. include_free k)"

lemma include_free_node:
  "include_free n \<longleftrightarrow> node_name n \<noteq> ''include-fragment'' \<and> (\<forall>k \<in> set (node_children n). include_free k)"
  by (cases n) simp

text \<open>The ids a list of elements includes, at any depth.\<close>

fun included :: "node \<Rightarrow> string set" where
  "included (Node name ats body kids) =
     (if name = ''include-fragment'' then {to_lower (attr ''fragment-id'' (Node name ats body kids))}
      else (\<Union>k \<in> set kids. included k))"

lemma included_node:
  "included n = (if node_name n = ''include-fragment'' then {to_lower (attr ''fragment-id'' n)}
                 else (\<Union>k \<in> set (node_children n). included k))"
  by (cases n) simp

lemma expand_nodes_free:
  "expand_nodes parse fragments stack ns = Ok ns' \<Longrightarrow> \<forall>n \<in> set ns'. include_free n"
proof (induction parse fragments stack ns arbitrary: ns' rule: expand_nodes.induct)
  case (2 parse fragments stack item rest)
  show ?case
  proof (cases "node_name item = ''include-fragment''")
    case True
    with "2.prems" obtain fid fr kids others where
      o: "open_fragment parse fragments stack item = Ok (fid, fr)"
         "expand_nodes parse fragments (fid # stack) (node_children fr) = Ok kids"
         "expand_nodes parse fragments stack rest = Ok others" "ns' = kids @ others"
      by (auto split: sum.splits)
    from "2.IH"(1) [OF True o(1) refl o(2)] "2.IH"(2) [OF True o(1) refl o(3)] o(4) show ?thesis by auto
  next
    case False
    with "2.prems" obtain kids others where
      o: "expand_nodes parse fragments stack (node_children item) = Ok kids"
         "expand_nodes parse fragments stack rest = Ok others"
         "ns' = Node (node_name item) (node_attrs item) (node_text item) kids # others"
      by auto
    from "2.IH"(3) [OF False o(1)] "2.IH"(4) [OF False o(2)] o(3) False show ?thesis by auto
  qed
qed simp

lemma expand_nodes_id: "\<forall>n \<in> set ns. include_free n \<Longrightarrow> expand_nodes parse fragments stack ns = Ok ns"
proof (induction parse fragments stack ns rule: expand_nodes.induct)
  case (2 parse fragments stack item rest)
  have "Node (node_name item) (node_attrs item) (node_text item) (node_children item) = item"
    by (cases item) simp
  with 2 show ?case by (simp add: include_free_node [of item])
qed simp

text \<open>
  What expansion returns has no \<open>include-fragment\<close> left at any depth, so the compiler never
  meets one, and expanding it again changes nothing, whatever the fragments.
\<close>

theorem expansion_complete:
  assumes "expand_nodes parse fragments stack ns = Ok ns'"
  shows "(\<forall>n \<in> set ns'. include_free n) \<and> expand_nodes parse' fragments' stack' ns' = Ok ns'"
  using expand_nodes_free [OF assms] expand_nodes_id by blast

text \<open>
  A library of fragments that is closed and acyclic: every fragment parses, has the right root
  and includes only fragments of the library with a smaller rank.
\<close>

definition acyclic_library :: "(string \<Rightarrow> node option) \<Rightarrow> (string \<times> string) list \<Rightarrow> (string \<Rightarrow> nat) \<Rightarrow> bool" where
  "acyclic_library parse fragments rank \<longleftrightarrow>
     (\<forall>fid v. map_of fragments fid = Some v \<longrightarrow>
        (\<exists>fr. parse v = Some fr \<and> node_name fr = ''fragment'' \<and>
           (\<forall>k \<in> set (node_children fr). \<forall>g \<in> included k.
              g \<noteq> [] \<and> map_of fragments g \<noteq> None \<and> rank g < rank fid)))"

lemma expand_acyclic:
  assumes "acyclic_library parse fragments rank"
    and "\<forall>n \<in> set ns. \<forall>g \<in> included n. g \<noteq> [] \<and> map_of fragments g \<noteq> None \<and> (\<forall>s \<in> set stack. rank g < rank s)"
  shows "\<exists>ns'. expand_nodes parse fragments stack ns = Ok ns'"
  using assms
proof (induction parse fragments stack ns rule: expand_nodes.induct)
  case (2 parse fragments stack item rest)
  from "2.prems" have rest: "\<forall>n \<in> set rest. \<forall>g \<in> included n.
      g \<noteq> [] \<and> map_of fragments g \<noteq> None \<and> (\<forall>s \<in> set stack. rank g < rank s)" by simp
  show ?case
  proof (cases "node_name item = ''include-fragment''")
    case False
    then have kids: "\<forall>n \<in> set (node_children item). \<forall>g \<in> included n.
        g \<noteq> [] \<and> map_of fragments g \<noteq> None \<and> (\<forall>s \<in> set stack. rank g < rank s)"
      using "2.prems"(2) by (auto simp: included_node [of item])
    from "2.IH"(3) [OF False "2.prems"(1) kids] "2.IH"(4) [OF False "2.prems"(1) rest] False
    show ?thesis by auto
  next
    case True
    let ?fid = "to_lower (attr ''fragment-id'' item)"
    have "included item = {?fid}" using True by (simp add: included_node [of item])
    then obtain v where v: "map_of fragments ?fid = Some v" and fid: "?fid \<noteq> []"
        "\<forall>s \<in> set stack. rank ?fid < rank s"
      using "2.prems"(2) by auto
    then have notin: "?fid \<notin> set stack" by auto
    obtain fr where fr: "parse v = Some fr" "node_name fr = ''fragment''"
        "\<forall>k \<in> set (node_children fr). \<forall>g \<in> included k. g \<noteq> [] \<and> map_of fragments g \<noteq> None \<and> rank g < rank ?fid"
      using "2.prems"(1) v unfolding acyclic_library_def by blast
    then have kids: "\<forall>n \<in> set (node_children fr). \<forall>g \<in> included n.
        g \<noteq> [] \<and> map_of fragments g \<noteq> None \<and> (\<forall>s \<in> set (?fid # stack). rank g < rank s)"
      using fid(2) by fastforce
    have o: "open_fragment parse fragments stack item = Ok (?fid, fr)"
      using v fid(1) notin fr(1,2) by (simp add: open_fragment_Ok_iff)
    from "2.IH"(1) [OF True o refl "2.prems"(1) kids] "2.IH"(2) [OF True o refl "2.prems"(1) rest] True o
    show ?thesis by auto
  qed
qed simp

text \<open>
  C39. Over a closed acyclic library expansion always succeeds: the cycle and missing-fragment
  errors are reported only for documents that have such a fault.
\<close>

theorem expansion_succeeds:
  assumes "acyclic_library parse fragments rank"
    and "\<forall>n \<in> set ns. \<forall>g \<in> included n. g \<noteq> [] \<and> map_of fragments g \<noteq> None"
  shows "\<exists>ns'. expand_nodes parse fragments [] ns = Ok ns'"
  using expand_acyclic [OF assms(1), of ns "[]"] assms(2) by simp

section \<open>Keyless limits and printing\<close>

text \<open>The counts \<open>repeatedKeylessLimit\<close> makes in its walk of the document.\<close>

fun count_named :: "string \<Rightarrow> node list \<Rightarrow> nat" where
  "count_named name [] = 0"
| "count_named name (Node nm ats body kids # rest) =
     (if nm = name then 1 else 0) + count_named name kids + count_named name rest"

definition repeated_keyless_limit :: "node \<Rightarrow> string" where
  "repeated_keyless_limit doc =
     (if count_named ''quota'' (node_children doc) > 1 then ''quota''
      else if count_named ''rate-limit'' (node_children doc) > 1 then ''rate-limit''
      else [])"

fun write_attrs :: "string list \<Rightarrow> attrs \<Rightarrow> string" where
  "write_attrs [] ats = []"
| "write_attrs (k # ks) ats =
     '' '' @ k @ ''='' @ [CHR 0x22] @ (case map_of ats k of Some v \<Rightarrow> v | None \<Rightarrow> []) @ [CHR 0x22] @ write_attrs ks ats"

fun write_node_xml :: "node \<Rightarrow> string" where
  "write_node_xml (Node name ats body kids) =
     ''<'' @ name @ write_attrs (sort (remdups (map fst ats))) ats @
     (if body = [] \<and> kids = [] then ''/>''
      else ''>'' @ body @ concat (map write_node_xml kids) @ ''</'' @ name @ ''>'')"

text \<open>
  \<open>writeNodeXML\<close>, which \<open>cross-domain\<close> uses to reproduce its content, escapes nothing: an
  element whose decoded text is markup prints like the element holding that markup, so the document
  served is not the one the policy holds.
\<close>

theorem write_node_xml_not_injective:
  "write_node_xml (Node ''a'' [] ''<b/>'' []) = write_node_xml (Node ''a'' [] [] [Node ''b'' [] [] []])"
  by simp

section \<open>Witnesses\<close>

definition demo_parse :: "string \<Rightarrow> node option" where
  "demo_parse v = (if v = ''x'' then Some (Node ''fragment'' [] [] [Node ''base'' [] [] []]) else None)"

theorem expansion_complete_witness:
  "\<exists>ns'. expand_nodes demo_parse [(''f'', ''x'')] [] [Node ''include-fragment'' [(''fragment-id'', ''F'')] [] []] = Ok ns'
     \<and> (\<forall>n \<in> set ns'. include_free n)"
proof -
  have "expand_nodes demo_parse [(''f'', ''x'')] [] [Node ''include-fragment'' [(''fragment-id'', ''F'')] [] []]
      = Ok [Node ''base'' [] [] []]"
    by (simp add: demo_parse_def attr_def open_fragment_def)
  from this expansion_complete [OF this] show ?thesis by blast
qed

theorem expansion_succeeds_witness:
  "\<exists>ns'. expand_nodes demo_parse [(''f'', ''x'')] [] [Node ''include-fragment'' [(''fragment-id'', ''F'')] [] []] = Ok ns'"
proof (rule expansion_succeeds)
  show "acyclic_library demo_parse [(''f'', ''x'')] (\<lambda>_. 0)"
    by (auto simp: acyclic_library_def demo_parse_def split: if_splits)
qed (auto simp: attr_def)

end
