(* ===== verification/GoParse.thy ===== *)
theory GoParse
  imports FilterLex
begin

text \<open>
  The number readers of the Go library the policy compiler calls: \<open>fmt.Sscanf\<close> with the verb
  \<open>%d\<close>, \<open>strconv.Atoi\<close>, \<open>strconv.ParseBool\<close> and \<open>time.ParseDuration\<close>.  A fracs of a unit is
  truncated exactly; Go computes it in \<open>float64\<close>.
\<close>

text \<open>\<open>Sscanf(s, "%d", &x)\<close> into an \<open>int\<close> or \<open>int64\<close>: leading blanks, a sign, the longest run of
  digits; what follows is ignored.\<close>

definition sscanf_int :: "string \<Rightarrow> int option" where
  "sscanf_int s =
     (let t = dropWhile (\<lambda>c. is_space c \<and> c \<noteq> CHR 0x0A) s;
          (neg, u) = split_sign t;
          ds = takeWhile is_digit u;
          n = int (digits_value ds); v = (if neg then - n else n)
      in if ds = [] \<or> v < - (2 ^ 63) \<or> v \<ge> 2 ^ 63 then None else Some v)"

definition atoi :: "string \<Rightarrow> int option" where
  "atoi s = parse_int 64 s"

definition parse_bool :: "string \<Rightarrow> bool option" where
  "parse_bool s =
     (if s \<in> {''1'', ''t'', ''T'', ''true'', ''TRUE'', ''True''} then Some True
      else if s \<in> {''0'', ''f'', ''F'', ''false'', ''FALSE'', ''False''} then Some False
      else None)"

definition duration_units :: "(string \<times> int) list" where
  "duration_units =
     [(''ns'', 1), (''us'', 1000), ([CHR 0xC2, CHR 0xB5, CHR ''s''], 1000),
      ([CHR 0xCE, CHR 0xBC, CHR ''s''], 1000), (''ms'', 1000000), (''s'', 1000000000),
      (''m'', 60000000000), (''h'', 3600000000000)]"

text \<open>The loop of \<open>ParseDuration\<close> over number-and-unit pairs, with the sum so far.\<close>

function duration_parts :: "int \<Rightarrow> string \<Rightarrow> int option" where
  "duration_parts d s =
     (if s = [] then Some d
      else let whole = takeWhile is_digit s;
               rest = dropWhile is_digit s;
               dotted = (rest \<noteq> [] \<and> hd rest = CHR ''.'');
               fracs = (if dotted then takeWhile is_digit (tl rest) else []);
               rest' = (if dotted then dropWhile is_digit (tl rest) else rest);
               unit = takeWhile (\<lambda>c. c \<noteq> CHR ''.'' \<and> \<not> is_digit c) rest';
               more = dropWhile (\<lambda>c. c \<noteq> CHR ''.'' \<and> \<not> is_digit c) rest'
           in
           if whole = [] \<and> fracs = [] then None
           else (case map_of duration_units unit of
                   None \<Rightarrow> None
                 | Some u \<Rightarrow>
                     let v = int (digits_value whole) * u
                             + int (digits_value fracs) * u div 10 ^ length fracs;
                         d' = d + v
                     in if d' > 2 ^ 63 then None else duration_parts d' more))"
  by pat_completeness auto

lemma digits_consumed:
  assumes "whole = takeWhile is_digit s" and "rest = dropWhile is_digit s"
    and "dotted = (rest \<noteq> [] \<and> hd rest = CHR ''.'')"
    and "fracs = (if dotted then takeWhile is_digit (tl rest) else [])"
    and "rest' = (if dotted then dropWhile is_digit (tl rest) else rest)"
    and "\<not> (whole = [] \<and> fracs = [])"
  shows "length rest' < length s"
proof -
  have s: "length s = length whole + length rest"
    using assms(1,2) by (metis length_append takeWhile_dropWhile_id)
  show ?thesis
  proof (cases dotted)
    case True
    then have "rest \<noteq> []" using assms(3) by simp
    moreover have "length rest' \<le> length (tl rest)" unfolding assms(5) using True length_dropWhile_le [of is_digit "tl rest"] by simp
    ultimately show ?thesis using s by (cases rest) auto
  next
    case False
    then show ?thesis using assms(4,5,6) s by simp
  qed
qed

termination duration_parts
proof (relation "measure (\<lambda>(d, s). length s)", goal_cases)
  case (2 d s whole rest dotted fracs rest' unit more u v d')
  have "length more \<le> length rest'" unfolding 2 by (rule length_dropWhile_le)
  also have "length rest' < length s" using 2 by (intro digits_consumed)
  finally show ?case by simp
qed simp

declare duration_parts.simps [simp del]

definition parse_duration :: "string \<Rightarrow> duration option" where
  "parse_duration s =
     (let (neg, u) = split_sign s in
      if u = ''0'' then Some 0
      else if u = [] then None
      else (case duration_parts 0 u of
              None \<Rightarrow> None
            | Some d \<Rightarrow> if neg then Some (- d) else if d > max_duration then None else Some d))"

end
