(* ===== verification/PolicyAction.thy ===== *)
theory PolicyAction
  imports PolicyTree GoParse
begin

text \<open>
  Compiled policies, \<open>internal/policy/policy.go\<close> lines 105 to 283 and \<open>internal/policy/lasterror.go\<close>.
  Go keeps one struct with a kind and the union of all fields; here each kind is a constructor of
  \<open>action_kind\<close> with the fields its compile case sets, and \<open>action_meta\<close> holds the three every
  action carries (\<open>Element\<close>, \<open>PolicyID\<close> and \<open>Scope\<close>).
\<close>

record policy_header =
  ph_name :: string
  ph_value :: string
  ph_action :: string

record value_rule = \<comment> \<open>\<open>HeaderRule\<close> and \<open>ParameterRule\<close>\<close>
  vr_name :: string
  vr_values :: "string list"
  vr_action :: string

record claim_constraint =
  cc_name :: string
  cc_values :: "string list"
  cc_match_any :: bool
  cc_separator :: string

record open_id_config =
  oc_url :: string
  oc_validate_connectivity :: bool

record token_constraints =
  tc_audiences :: "string list"
  tc_issuers :: "string list"
  tc_client_app_ids :: "string list"
  tc_claims :: "claim_constraint list"
  tc_open_id_configs :: "open_id_config list"

record jwt_policy =
  jp_header_name :: string
  jp_query_name :: string
  jp_message :: string
  jp_tenant :: string
  jp_code :: int
  jp_code_expression :: string
  jp_constraints :: token_constraints
  jp_require_expiry :: bool
  jp_clock_skew :: duration
  jp_require_scheme :: string
  jp_require_signed :: string
  jp_output_variable :: string

record send_policy =
  sp_one_way :: bool
  sp_mode :: string
  sp_timeout :: string
  sp_url :: string
  sp_method :: string
  sp_headers :: "policy_header list"
  sp_body :: string
  sp_response_var :: string

record limit_policy =
  lp_key :: string
  lp_calls :: int
  lp_bandwidth :: int
  lp_period :: duration
  lp_status :: int
  lp_retry_after_header :: string
  lp_per_subscription :: bool
  lp_fixed_window :: bool
  lp_anchor :: string
  lp_increment_condition :: string
  lp_increment_count :: string
  lp_increment_deferred :: bool
  lp_scope :: string
  lp_scope_name :: string
  lp_scope_id :: string
  lp_retry_after_variable :: string
  lp_remaining_header :: string
  lp_remaining_variable :: string
  lp_total_header :: string

record llm_config =
  lc_counter_key :: string
  lc_tokens_per_minute :: int
  lc_estimate :: bool
  lc_retry_after_header :: string
  lc_retry_after_variable :: string
  lc_quota :: string
  lc_quota_period :: string
  lc_remaining_quota_header :: string
  lc_remaining_quota_variable :: string
  lc_remaining_header :: string
  lc_remaining_variable :: string
  lc_consumed_header :: string
  lc_consumed_variable :: string
  lc_namespace :: string
  lc_dimensions :: "(string \<times> string) list"

record action_meta =
  am_element :: string
  am_policy_id :: string
  am_scope :: string

datatype leaf_action =
    ASetHeader string string string
  | ASetQueryParameter string string string
  | ASetVariable string string
  | ASetBody string
  | ACheckHeader string "string list" string int bool
  | AValidateJWT jwt_policy
  | AIPFilter "string list" string int string
  | ASetMethod string
  | ACORS string string string string string bool
  | ASendRequest send_policy
  | AGetAuthorizationContext string string string bool
  | ACacheLookup
  | ACacheStore duration
  | AValidateStatus int int string int string
  | AValidateContent int string "string list" int
  | AValidateHeaders "value_rule list" string string int
  | AValidateParameters "value_rule list" string string int
  | AValidateClientCertificate "string list" int
  | ATrace string string string
  | AAuthenticationBasic string string
  | AAuthenticationManagedIdentity string
  | AAuthenticationOAuth2 string string string string
  | AAuthenticationCertificate string
  | AFindReplace string string
  | AJSONToXML string
  | AXMLToJSON
  | AJSONP string
  | ABase
  | ACacheLookupValue string string
  | ACacheStoreValue string string duration
  | ACacheRemoveValue string
  | ASetBackend string string
  | ARewriteURI string
  | AForward
  | AReturnResponse int string string "policy_header list" string
  | ASetStatus string int string
  | ARedirectContentURLs
  | ALLMTokenLimit llm_config int
  | ALLMEmitTokenMetric llm_config
  | AUnsupported string
  | AInvalid string

text \<open>The kinds that hold further actions, and the others.\<close>

datatype action = Action (act_meta: action_meta) (act_kind: action_kind)
and action_kind =
    ALeaf leaf_action
  | ARateLimit limit_policy "action list"
  | ALimitConcurrency string int int string "action list"
  | AChoose "(string \<times> action list) list" "action list"
  | ARetry int duration string "action list"
  | AWait string "action list"

record plan =
  inbound :: "action list"
  backend :: "action list"
  outbound :: "action list"
  on_error :: "action list"

definition empty_plan :: plan where
  "empty_plan = \<lparr>inbound = [], backend = [], outbound = [], on_error = []\<rparr>"

definition no_meta :: action_meta where
  "no_meta = \<lparr>am_element = [], am_policy_id = [], am_scope = []\<rparr>"

text \<open>The actions below an action: its children and the branches of a \<open>choose\<close>.\<close>

fun kind_children :: "action_kind \<Rightarrow> action list" where
  "kind_children (ARateLimit l kids) = kids"
| "kind_children (ALimitConcurrency k c s b kids) = kids"
| "kind_children (ARetry c i cond kids) = kids"
| "kind_children (AWait m kids) = kids"
| "kind_children _ = []"

fun kind_branches :: "action_kind \<Rightarrow> (string \<times> action list) list" where
  "kind_branches (AChoose bs ot) = bs"
| "kind_branches _ = []"

fun kind_otherwise :: "action_kind \<Rightarrow> action list" where
  "kind_otherwise (AChoose bs ot) = ot"
| "kind_otherwise _ = []"

abbreviation sub_actions :: "action \<Rightarrow> action list" where
  "sub_actions a \<equiv> kind_children (act_kind a) @ concat (map snd (kind_branches (act_kind a))) @ kind_otherwise (act_kind a)"

section \<open>Scopes\<close>

definition set_scope :: "string \<Rightarrow> action_meta \<Rightarrow> action_meta" where
  "set_scope s m = (if am_scope m = [] then m\<lparr>am_scope := s\<rparr> else m)"

text \<open>\<open>stampScope\<close>: children and branches, but not \<open>Otherwise\<close>.\<close>

fun stamp_action :: "string \<Rightarrow> action \<Rightarrow> action"
  and stamp_kind :: "string \<Rightarrow> action_kind \<Rightarrow> action_kind" where
  "stamp_action s (Action m k) = Action (set_scope s m) (stamp_kind s k)"
| "stamp_kind s (ARateLimit l kids) = ARateLimit l (map (stamp_action s) kids)"
| "stamp_kind s (ALimitConcurrency k c st b kids) = ALimitConcurrency k c st b (map (stamp_action s) kids)"
| "stamp_kind s (ARetry c i cond kids) = ARetry c i cond (map (stamp_action s) kids)"
| "stamp_kind s (AWait m kids) = AWait m (map (stamp_action s) kids)"
| "stamp_kind s (AChoose bs ot) = AChoose (map (\<lambda>(c, as). (c, map (stamp_action s) as)) bs) ot"
| "stamp_kind s (ALeaf l) = ALeaf l"

definition stamp_scope :: "string \<Rightarrow> plan \<Rightarrow> plan" where
  "stamp_scope s p =
     \<lparr>inbound = map (stamp_action s) (inbound p), backend = map (stamp_action s) (backend p),
      outbound = map (stamp_action s) (outbound p), on_error = map (stamp_action s) (on_error p)\<rparr>"

definition scope_of :: "string \<Rightarrow> string" where
  "scope_of scope_id =
     (let lower = to_lower scope_id in
      if contains lower ''/operations/'' then ''operation''
      else if contains lower ''/products/'' then ''product''
      else if contains lower ''/apis/'' then ''api''
      else ''global'')"

text \<open>\<open>InvalidPlan\<close>: the stand-in for a document that did not compile.\<close>

definition invalid_plan :: "string \<Rightarrow> plan" where
  "invalid_plan message = empty_plan\<lparr>inbound := [Action no_meta (ALeaf (AInvalid message))]\<rparr>"

section \<open>Located errors\<close>

record policy_error =
  pe_message :: string
  pe_element :: string
  pe_policy_id :: string
  pe_section :: string
  pe_scope :: string
  pe_reason :: string

datatype exec_error = PlainError string | LocatedError policy_error

fun error_text :: "exec_error \<Rightarrow> string" where
  "error_text (PlainError m) = m"
| "error_text (LocatedError e) = pe_message e"

definition reason_for :: "string \<Rightarrow> string" where
  "reason_for message =
     (if contains message ''unknown member'' \<or> contains message ''member access on null''
         \<or> contains message ''unknown identifier''
      then ''ExpressionValueEvaluationFailure'' else [])"

definition locate :: "exec_error \<Rightarrow> action_meta \<Rightarrow> string \<Rightarrow> exec_error" where
  "locate e m sec =
     (case e of
        LocatedError pe \<Rightarrow> LocatedError
          (pe\<lparr>pe_section := (if pe_section pe = [] then sec else pe_section pe),
              pe_scope := (if pe_scope pe = [] then am_scope m else pe_scope pe)\<rparr>)
      | PlainError message \<Rightarrow> LocatedError
          \<lparr>pe_message = message, pe_element = am_element m, pe_policy_id = am_policy_id m,
           pe_section = sec, pe_scope = am_scope m, pe_reason = reason_for message\<rparr>)"

end
