(* ===== verification/PolicyCompile.thy ===== *)
theory PolicyCompile
  imports PolicyAction
begin

text \<open>
  The policy compiler, \<open>internal/policy/policy.go\<close> lines 491 to 1735, with the tables of
  \<open>policy_sections.go\<close> and \<open>limit_attributes.go\<close> and the token-governance cases of \<open>llm.go\<close>.
  A compile case is a definition from the element to its kind; \<open>compile_nodes\<close> ties the ones with
  nested policies together.  Two things the compiler calls are arguments (fields of
  \<open>compile_env\<close>): \<open>expression.Parse\<close>, as the message of its error if any, and RFC 3339 dates.
\<close>

record compile_env =
  ce_parse_error :: "string \<Rightarrow> string option"
  ce_rfc3339 :: "string \<Rightarrow> time option"

datatype compile_error =
    CompileError string
  | WrongSection string
  | InvalidExpression string
  | UnsupportedPolicy string
  | InSection string compile_error
  | DuplicateSection string
  | UnknownSection string
  | WrongRoot
  | RepeatedLimit string
  | DocumentSyntax
  | FragmentError fragment_error

type_synonym compiled = "(compile_error, leaf_action) result"

abbreviation unsupported :: "string \<Rightarrow> compiled" where "unsupported name \<equiv> Ok (AUnsupported name)"

section \<open>Sections and attributes\<close>

definition documented_in :: "string list \<Rightarrow> string list \<Rightarrow> (string \<times> string list) list" where
  "documented_in sections names = map (\<lambda>n. (n, sections)) names"

text \<open>The record embedded from \<open>policy_sections.json\<close>, grouped by the sections.\<close>

definition policy_sections :: "(string \<times> string list) list" where
  "policy_sections =
     documented_in [''inbound'']
      [''authentication-basic'', ''authentication-certificate'',
       ''authentication-managed-identity'', ''authentication-oauth2'',
       ''azure-openai-emit-token-metric'', ''azure-openai-token-limit'', ''cache-lookup'',
       ''check-header'', ''cors'', ''cross-domain'', ''get-authorization-context'',
       ''ip-filter'', ''llm-emit-token-metric'', ''llm-semantic-cache-lookup'',
       ''llm-token-limit'', ''proxy'', ''publish-to-dapr'', ''quota'', ''quota-by-key'',
       ''rate-limit'', ''rate-limit-by-key'', ''rewrite-uri'', ''validate-azure-ad-token'',
       ''validate-client-certificate'', ''validate-graphql-request'', ''validate-jwt'',
       ''validate-odata-request'', ''validate-parameters''] @
     documented_in [''inbound'', ''backend'', ''outbound'', ''on-error'']
      [''base'', ''cache-lookup-value'', ''cache-remove-value'', ''cache-store-value'',
       ''choose'', ''emit-metric'', ''find-and-replace'', ''include-fragment'',
       ''limit-concurrency'', ''log-to-eventhub'', ''retry'', ''return-response'',
       ''send-one-way-request'', ''send-request'', ''set-header'', ''set-status'',
       ''set-variable'', ''trace''] @
     documented_in [''outbound'']
      [''cache-store'', ''jsonp'', ''llm-semantic-cache-store''] @
     documented_in [''backend'']
      [''forward-request''] @
     documented_in [''inbound'', ''outbound'', ''on-error'']
      [''invoke-dapr-binding'', ''json-to-xml'', ''mock-response'', ''send-service-bus-message'',
       ''validate-content'', ''xml-to-json''] @
     documented_in [''inbound'', ''outbound'']
      [''llm-content-safety'', ''redirect-content-urls'', ''xsl-transform''] @
     documented_in [''inbound'', ''backend'']
      [''set-backend-service'', ''set-query-parameter''] @
     documented_in [''inbound'', ''backend'', ''outbound'']
      [''set-body'', ''wait''] @
     documented_in [''inbound'', ''on-error'']
      [''set-method''] @
     documented_in [''outbound'', ''on-error'']
      [''validate-headers'', ''validate-status-code'']"

definition documents_section :: "string \<Rightarrow> string \<Rightarrow> bool" where
  "documents_section policy sec =
     (case map_of policy_sections policy of None \<Rightarrow> True | Some allowed \<Rightarrow> sec \<in> set allowed)"

text \<open>The record embedded from \<open>limit_attributes.json\<close>.\<close>

definition limit_attributes :: "((string \<times> string) \<times> string list) list" where
  "limit_attributes =
     [((''quota'', ''attributes''), [''bandwidth'', ''calls'', ''renewal-period'']),
      ((''quota'', ''api''), [''bandwidth'', ''calls'', ''id'', ''name'', ''renewal-period'']),
      ((''quota'', ''operation''), [''bandwidth'', ''calls'', ''id'', ''name'', ''renewal-period'']),
      ((''quota-by-key'', ''attributes''),
         [''bandwidth'', ''calls'', ''counter-key'', ''first-period-start'', ''increment-condition'',
          ''increment-count'', ''renewal-period'']),
      ((''rate-limit'', ''attributes''),
         [''calls'', ''remaining-calls-header-name'', ''remaining-calls-variable-name'',
          ''renewal-period'', ''retry-after-header-name'', ''retry-after-variable-name'',
          ''total-calls-header-name'']),
      ((''rate-limit'', ''api''), [''calls'', ''id'', ''name'', ''renewal-period'']),
      ((''rate-limit'', ''operation''), [''calls'', ''id'', ''name'', ''renewal-period'']),
      ((''rate-limit-by-key'', ''attributes''),
         [''calls'', ''counter-key'', ''increment-condition'', ''increment-count'',
          ''remaining-calls-header-name'', ''remaining-calls-variable-name'', ''renewal-period'',
          ''retry-after-header-name'', ''retry-after-variable-name'', ''total-calls-header-name''])]"

definition limit_allowed :: "string \<Rightarrow> string \<Rightarrow> string list" where
  "limit_allowed policy sec = (case map_of limit_attributes (policy, sec) of Some xs \<Rightarrow> xs | None \<Rightarrow> [])"

definition limit_documents_section :: "string \<Rightarrow> string \<Rightarrow> bool" where
  "limit_documents_section policy sec \<longleftrightarrow> length (limit_allowed policy sec) > 0"

definition undocumented_limit_attribute :: "string \<Rightarrow> string \<Rightarrow> attrs \<Rightarrow> string" where
  "undocumented_limit_attribute policy sec ats =
     (case sort (filter (\<lambda>n. n \<notin> set (limit_allowed policy sec)) (map fst ats)) of
        [] \<Rightarrow> []
      | n # _ \<Rightarrow> n)"

section \<open>Values\<close>

definition is_expression :: "string \<Rightarrow> bool" where
  "is_expression v \<longleftrightarrow> has_prefix (trim_space v) ''@('' \<or> has_prefix (trim_space v) (CHR ''@'' # ''{'')"

definition compile_value :: "compile_env \<Rightarrow> string \<Rightarrow> (compile_error, string) result" where
  "compile_value env v =
     (if \<not> is_expression v then Ok v
      else case ce_parse_error env v of Some m \<Rightarrow> Err (InvalidExpression m) | None \<Rightarrow> Ok v)"

abbreviation with_value ::
  "compile_env \<Rightarrow> string \<Rightarrow> (string \<Rightarrow> (compile_error, 'a) result) \<Rightarrow> (compile_error, 'a) result" where
  "with_value env v f \<equiv> bind_result (compile_value env v) f"

text \<open>Guards in the order of the code: an error, an unsupported element, or the rest.\<close>

definition invalid :: "string \<Rightarrow> (compile_error, 'a) result" where
  "invalid message = Err (CompileError message)"

definition has_children :: "node \<Rightarrow> bool" where
  "has_children item \<longleftrightarrow> node_children item \<noteq> []"

definition first_child :: "node \<Rightarrow> string" where
  "first_child item = (case node_children item of [] \<Rightarrow> [] | c # _ \<Rightarrow> node_name c)"

text \<open>\<open>Sscanf\<close> of an attribute into a variable that has a default.\<close>

definition scan_attr :: "string \<Rightarrow> node \<Rightarrow> int \<Rightarrow> int option" where
  "scan_attr k n dflt = (if attr k n = [] then Some dflt else sscanf_int (attr k n))"

text \<open>
  Loops over child elements stop at an unsupported one: \<open>Inl\<close> its source, \<open>Inr\<close> a result.
\<close>

type_synonym 'a supported = "(compile_error, (string, 'a) result) result"

definition bind_supported :: "'a supported \<Rightarrow> ('a \<Rightarrow> 'b supported) \<Rightarrow> 'b supported" where
  "bind_supported r f = bind_result r (\<lambda>x. case x of Inl bad \<Rightarrow> Ok (Inl bad) | Inr v \<Rightarrow> f v)"

lemma bind_case_Ok [simp]:
  "bind_result r (case_sum f g) = Inr y \<longleftrightarrow>
     (\<exists>b. r = Inr (Inl b) \<and> f b = Inr y) \<or> (\<exists>v. r = Inr (Inr v) \<and> g v = Inr y)"
proof (cases r)
  case (Inr x)
  then show ?thesis by (cases x) auto
qed simp

lemma bind_supported_simps [simp]:
  "bind_supported (Inl e) f = Inl e"
  "bind_supported (Inr (Inl bad)) f = Inr (Inl bad)"
  "bind_supported (Inr (Inr v)) f = f v"
  by (simp_all add: bind_supported_def)

lemma bind_supported_Ok_iff [simp]:
  "bind_supported r f = Inr (Inr b) \<longleftrightarrow> (\<exists>v. r = Inr (Inr v) \<and> f v = Inr (Inr b))"
proof (cases r)
  case (Inr x)
  then show ?thesis by (cases x) auto
qed simp

section \<open>Cases without nested policies\<close>

definition compile_set_header :: "compile_env \<Rightarrow> node \<Rightarrow> compiled" where
  "compile_set_header env item =
     with_value env (child_text ''value'' item) (\<lambda>v.
       Ok (ASetHeader (attr ''name'' item) v (attr ''exists-action'' item)))"

definition compile_set_query_parameter :: "compile_env \<Rightarrow> node \<Rightarrow> compiled" where
  "compile_set_query_parameter env item =
     with_value env (child_text ''value'' item) (\<lambda>v.
       Ok (ASetQueryParameter (attr ''name'' item) v (attr ''exists-action'' item)))"

definition compile_get_authorization_context :: "node \<Rightarrow> compiled" where
  "compile_get_authorization_context item =
     (let var = attr ''context-variable-name'' item in
      if attr ''provider-id'' item = [] \<or> attr ''authorization-id'' item = [] \<or> var = []
      then unsupported (node_name item)
      else Ok (AGetAuthorizationContext (attr ''provider-id'' item) (attr ''authorization-id'' item) var
                 (equal_fold (attr ''ignore-error'' item) ''true'')))"

definition compile_set_variable :: "compile_env \<Rightarrow> node \<Rightarrow> compiled" where
  "compile_set_variable env item =
     with_value env (child_text ''value'' item) (\<lambda>v. Ok (ASetVariable (attr ''name'' item) v))"

definition compile_set_body :: "compile_env \<Rightarrow> node \<Rightarrow> compiled" where
  "compile_set_body env item =
     (let v = trim_space (node_text item);
          v = (if v = [] then child_text ''value'' item else v)
      in with_value env v (\<lambda>v. Ok (ASetBody v)))"

text \<open>The loop of \<open>check-header\<close>: \<open>Inl\<close> an unsupported child, \<open>Inr\<close> the values.\<close>

fun check_header_values ::
  "compile_env \<Rightarrow> node list \<Rightarrow> (string list) supported" where
  "check_header_values env [] = Ok (Inr [])"
| "check_header_values env (c # cs) =
     (if node_name c \<noteq> ''value'' then Ok (Inl (node_name c))
      else with_value env (trim_space (node_text c)) (\<lambda>v.
        bind_supported (check_header_values env cs) (\<lambda>vs. Ok (Inr (v # vs)))))"

definition compile_check_header :: "compile_env \<Rightarrow> node \<Rightarrow> compiled" where
  "compile_check_header env item =
     bind_result (check_header_values env (node_children item)) (\<lambda>r.
       case r of
         Inl bad \<Rightarrow> unsupported (node_name item @ ''/'' @ bad)
       | Inr vs \<Rightarrow>
           (case scan_attr ''failed-check-httpcode'' item 401 of
              None \<Rightarrow> invalid ''invalid check-header status''
            | Some code \<Rightarrow>
                with_value env (attr ''name'' item) (\<lambda>name.
                with_value env (attr ''failed-check-error-message'' item) (\<lambda>message.
                  Ok (ACheckHeader name vs message code (equal_fold (attr ''ignore-case'' item) ''true''))))))"

definition compile_ip_filter :: "node \<Rightarrow> compiled" where
  "compile_ip_filter item =
     (let act = to_lower (attr ''action'' item) in
      if act \<noteq> ''allow'' \<and> act \<noteq> ''forbid'' then invalid ''invalid ip-filter action''
      else (case find (\<lambda>c. node_name c \<noteq> ''address'') (node_children item) of
              Some c \<Rightarrow> unsupported (node_name item @ ''/'' @ node_name c)
            | None \<Rightarrow> Ok (AIPFilter (map (\<lambda>c. trim_space (node_text c)) (node_children item)) act 403
                           (attr ''failed-check-error-message'' item))))"

definition compile_set_method :: "compile_env \<Rightarrow> node \<Rightarrow> compiled" where
  "compile_set_method env item =
     (let v = trim_space (attr ''id'' item);
          v = (if v = [] then trim_space (node_text item) else v)
      in if v = [] then unsupported (node_name item) else with_value env v (\<lambda>v. Ok (ASetMethod v)))"

definition compile_cors :: "compile_env \<Rightarrow> node \<Rightarrow> compiled" where
  "compile_cors env item =
     with_value env (attr ''allowed-origins'' item) (\<lambda>origin.
     with_value env (attr ''allowed-methods'' item) (\<lambda>methods.
     with_value env (attr ''allowed-headers'' item) (\<lambda>headers.
     with_value env (attr ''expose-headers'' item) (\<lambda>expose.
     with_value env (attr ''max-age'' item) (\<lambda>age.
       Ok (ACORS origin methods headers expose age (equal_fold (attr ''allow-credentials'' item) ''true'')))))))"

definition compile_cache_store :: "node \<Rightarrow> compiled" where
  "compile_cache_store item =
     (let v = attr ''duration'' item in
      if v = [] then unsupported (node_name item)
      else (case parse_duration (v @ ''s'') of
              None \<Rightarrow> invalid ''invalid cache-store duration''
            | Some d \<Rightarrow> if d \<le> 0 then invalid ''invalid cache-store duration'' else Ok (ACacheStore d)))"

text \<open>The loop of \<open>validate-status-code\<close> over its ranges, each overwriting the two bounds.\<close>

fun status_ranges :: "string \<Rightarrow> node list \<Rightarrow> int \<Rightarrow> int \<Rightarrow> (int \<times> int) supported" where
  "status_ranges name [] lo hi = Ok (Inr (lo, hi))"
| "status_ranges name (c # cs) lo hi =
     (if node_name c \<noteq> ''status-code-range'' then Ok (Inl (name @ ''/'' @ node_name c))
      else (case scan_attr ''min'' c lo of
              None \<Rightarrow> invalid ''invalid validate-status-code minimum''
            | Some lo' \<Rightarrow>
                (case scan_attr ''max'' c hi of
                   None \<Rightarrow> invalid ''invalid validate-status-code maximum''
                 | Some hi' \<Rightarrow> status_ranges name cs lo' hi')))"

definition compile_validate_status :: "node \<Rightarrow> compiled" where
  "compile_validate_status item =
     bind_result (status_ranges (node_name item) (node_children item) 200 299) (\<lambda>r.
       case r of
         Inl bad \<Rightarrow> unsupported bad
       | Inr (lo, hi) \<Rightarrow>
           if lo < 100 \<or> hi > 599 \<or> lo > hi then invalid ''invalid validate-status-code range''
           else Ok (AValidateStatus lo hi (to_lower (attr ''unspecified-code-action'' item)) 502
                      (attr ''errors-variable-name'' item)))"

fun content_rules :: "string \<Rightarrow> node list \<Rightarrow> (string list) supported" where
  "content_rules name [] = Ok (Inr [])"
| "content_rules name (c # cs) =
     (if node_name c \<noteq> ''content'' \<or> trim_space (attr ''type'' c) = [] then Ok (Inl (name @ ''/'' @ node_name c))
      else if to_lower (attr ''action'' c) \<notin> {[], ''prevent'', ''ignore''}
      then invalid ''invalid validate-content content action''
      else bind_supported (content_rules name cs) (\<lambda>ts.
        Ok (Inr (to_lower (trim_space (attr ''type'' c)) # ts))))"

definition compile_validate_content :: "node \<Rightarrow> compiled" where
  "compile_validate_content item =
     (case scan_attr ''max-size'' item 0 of
        None \<Rightarrow> invalid ''invalid validate-content max-size''
      | Some limit \<Rightarrow>
          if limit < 0 then invalid ''invalid validate-content max-size''
          else let act = to_lower (attr ''size-exceeded-action'' item);
                   act = (if act = [] then ''prevent'' else act)
            in if act \<noteq> ''prevent'' \<and> act \<noteq> ''ignore'' then invalid ''invalid validate-content size action''
               else bind_result (content_rules (node_name item) (node_children item)) (\<lambda>r.
                 case r of Inl bad \<Rightarrow> unsupported bad
                 | Inr ts \<Rightarrow> Ok (AValidateContent limit act ts 400)))"

text \<open>The rules of \<open>validate-headers\<close> and \<open>validate-parameters\<close>, which differ in the element name,
  in the error text and in whether the name is lowered.\<close>

fun value_rules ::
  "string \<Rightarrow> string \<Rightarrow> string \<Rightarrow> (string \<Rightarrow> string) \<Rightarrow> string \<Rightarrow> node list \<Rightarrow>
   (value_rule list) supported" where
  "value_rules name element bad_action spell specified [] = Ok (Inr [])"
| "value_rules name element bad_action spell specified (c # cs) =
     (if node_name c \<noteq> element \<or> trim_space (attr ''name'' c) = [] then Ok (Inl (name @ ''/'' @ node_name c))
      else let act = to_lower (attr ''action'' c);
               act = (if act = [] then specified else act)
        in if act \<noteq> ''prevent'' \<and> act \<noteq> ''ignore'' then invalid bad_action
        else (case find (\<lambda>v. node_name v \<noteq> ''value'') (node_children c) of
                Some v \<Rightarrow> Ok (Inl (name @ ''/'' @ element @ ''/'' @ node_name v))
              | None \<Rightarrow>
                  bind_supported (value_rules name element bad_action spell specified cs) (\<lambda>rules.
                    Ok (Inr (\<lparr>vr_name = spell (trim_space (attr ''name'' c)),
                              vr_values = map (\<lambda>v. trim_space (node_text v)) (node_children c),
                              vr_action = act\<rparr> # rules)))))"

definition default_to :: "string \<Rightarrow> string \<Rightarrow> string" where
  "default_to d v = (if v = [] then d else v)"

definition prevent_or_ignore :: "string \<Rightarrow> bool" where
  "prevent_or_ignore v \<longleftrightarrow> v = ''prevent'' \<or> v = ''ignore''"

definition compile_validate_headers :: "node \<Rightarrow> compiled" where
  "compile_validate_headers item =
     (let specified = default_to ''prevent'' (to_lower (attr ''specified-header-action'' item));
          unspecified = default_to ''ignore'' (to_lower (attr ''unspecified-header-action'' item))
      in if \<not> prevent_or_ignore specified \<or> \<not> prevent_or_ignore unspecified
         then invalid ''invalid validate-headers action''
         else bind_result (value_rules (node_name item) ''header'' ''invalid validate-headers header action''
                to_lower specified (node_children item)) (\<lambda>r.
           case r of Inl bad \<Rightarrow> unsupported bad
           | Inr rules \<Rightarrow> Ok (AValidateHeaders rules specified unspecified 400)))"

definition compile_validate_parameters :: "node \<Rightarrow> compiled" where
  "compile_validate_parameters item =
     (let specified = default_to ''prevent'' (to_lower (attr ''specified-parameter-action'' item));
          unspecified = default_to ''ignore'' (to_lower (attr ''unspecified-parameter-action'' item))
      in if \<not> prevent_or_ignore specified \<or> \<not> prevent_or_ignore unspecified
         then invalid ''invalid validate-parameters action''
         else bind_result (value_rules (node_name item) ''parameter'' ''invalid validate-parameters parameter action''
                (\<lambda>s. s) specified (node_children item)) (\<lambda>r.
           case r of Inl bad \<Rightarrow> unsupported bad
           | Inr rules \<Rightarrow> Ok (AValidateParameters rules specified unspecified 400)))"

fun identity_thumbprints :: "string \<Rightarrow> node list \<Rightarrow> (string, string list) result" where
  "identity_thumbprints name [] = Ok []"
| "identity_thumbprints name (i # rest) =
     (if node_name i \<noteq> ''identity'' \<or> trim_space (attr ''thumbprint'' i) = []
      then Err (name @ ''/identities/'' @ node_name i)
      else bind_result (identity_thumbprints name rest) (\<lambda>ts.
        Ok (to_upper (filter (\<lambda>c. c \<noteq> CHR '':'') (trim_space (attr ''thumbprint'' i))) # ts)))"

fun certificate_thumbprints :: "string \<Rightarrow> node list \<Rightarrow> (string, string list) result" where
  "certificate_thumbprints name [] = Ok []"
| "certificate_thumbprints name (c # cs) =
     (if node_name c \<noteq> ''identities'' then Err (name @ ''/'' @ node_name c)
      else bind_result (identity_thumbprints name (node_children c)) (\<lambda>ts.
        bind_result (certificate_thumbprints name cs) (\<lambda>rest. Ok (ts @ rest))))"

definition compile_validate_certificate :: "node \<Rightarrow> compiled" where
  "compile_validate_certificate item =
     (case certificate_thumbprints (node_name item) (node_children item) of
        Inl bad \<Rightarrow> unsupported bad
      | Inr ts \<Rightarrow> Ok (AValidateClientCertificate ts 403))"

definition compile_trace :: "node \<Rightarrow> compiled" where
  "compile_trace item =
     (case find (\<lambda>c. node_name c \<noteq> ''message'') (node_children item) of
        Some c \<Rightarrow> unsupported (node_name item @ ''/'' @ node_name c)
      | None \<Rightarrow> Ok (ATrace (attr ''source'' item) (attr ''severity'' item)
                     (case node_children item of [] \<Rightarrow> [] | cs \<Rightarrow> trim_space (node_text (last cs)))))"

definition compile_authentication_basic :: "compile_env \<Rightarrow> node \<Rightarrow> compiled" where
  "compile_authentication_basic env item =
     (if attr ''username'' item = [] \<or> attr ''password'' item = [] then unsupported (node_name item)
      else if has_children item then unsupported (node_name item @ ''/'' @ first_child item)
      else with_value env (attr ''username'' item) (\<lambda>u. with_value env (attr ''password'' item) (\<lambda>p.
        Ok (AAuthenticationBasic u p))))"

definition compile_authentication_identity :: "compile_env \<Rightarrow> node \<Rightarrow> compiled" where
  "compile_authentication_identity env item =
     (if attr ''resource'' item = [] then unsupported (node_name item)
      else if has_children item then unsupported (node_name item @ ''/'' @ first_child item)
      else with_value env (attr ''resource'' item) (\<lambda>r. Ok (AAuthenticationManagedIdentity r)))"

definition compile_authentication_oauth2 :: "compile_env \<Rightarrow> node \<Rightarrow> compiled" where
  "compile_authentication_oauth2 env item =
     (if attr ''client-id'' item = [] \<or> attr ''client-secret'' item = [] \<or> attr ''token-endpoint'' item = []
      then unsupported (node_name item)
      else if has_children item then unsupported (node_name item @ ''/'' @ first_child item)
      else with_value env (attr ''client-id'' item) (\<lambda>c.
           with_value env (attr ''client-secret'' item) (\<lambda>s.
           with_value env (attr ''token-endpoint'' item) (\<lambda>e.
           with_value env (attr ''resource'' item) (\<lambda>r. Ok (AAuthenticationOAuth2 c s e r))))))"

definition compile_authentication_certificate :: "compile_env \<Rightarrow> node \<Rightarrow> compiled" where
  "compile_authentication_certificate env item =
     (if attr ''certificate-id'' item = [] then unsupported (node_name item)
      else if has_children item then unsupported (node_name item @ ''/'' @ first_child item)
      else with_value env (attr ''certificate-id'' item) (\<lambda>c. Ok (AAuthenticationCertificate c)))"

definition compile_find_replace :: "compile_env \<Rightarrow> node \<Rightarrow> compiled" where
  "compile_find_replace env item =
     with_value env (attr ''from'' item) (\<lambda>f. with_value env (attr ''to'' item) (\<lambda>t.
       if f = [] then unsupported (node_name item)
       else if has_children item then unsupported (node_name item @ ''/'' @ first_child item)
       else Ok (AFindReplace f t)))"

definition compile_json_to_xml :: "compile_env \<Rightarrow> node \<Rightarrow> compiled" where
  "compile_json_to_xml env item =
     (if has_children item then unsupported (node_name item)
      else with_value env (default_to ''root'' (attr ''root-element-name'' item)) (\<lambda>r. Ok (AJSONToXML r)))"

definition compile_xml_to_json :: "node \<Rightarrow> compiled" where
  "compile_xml_to_json item = (if has_children item then unsupported (node_name item) else Ok AXMLToJSON)"

definition compile_jsonp :: "compile_env \<Rightarrow> node \<Rightarrow> compiled" where
  "compile_jsonp env item =
     (if attr ''callback-parameter-name'' item = [] \<or> has_children item then unsupported (node_name item)
      else with_value env (attr ''callback-parameter-name'' item) (\<lambda>p. Ok (AJSONP p)))"

definition compile_cache_lookup_value :: "compile_env \<Rightarrow> node \<Rightarrow> compiled" where
  "compile_cache_lookup_value env item =
     with_value env (attr ''key'' item) (\<lambda>k. with_value env (attr ''variable-name'' item) (\<lambda>v.
       if k = [] \<or> v = [] \<or> has_children item then unsupported (node_name item)
       else Ok (ACacheLookupValue k v)))"

definition compile_cache_store_value :: "compile_env \<Rightarrow> node \<Rightarrow> compiled" where
  "compile_cache_store_value env item =
     with_value env (attr ''key'' item) (\<lambda>k. with_value env (attr ''value'' item) (\<lambda>v.
       if k = [] \<or> has_children item then unsupported (node_name item)
       else if attr ''duration'' item = [] then Ok (ACacheStoreValue k v (seconds 300))
       else (case atoi (attr ''duration'' item) of
               None \<Rightarrow> invalid ''invalid cache-store-value duration''
             | Some s \<Rightarrow> if s \<le> 0 then invalid ''invalid cache-store-value duration''
                         else Ok (ACacheStoreValue k v (int64_wrap (seconds s))))))"

definition compile_cache_remove_value :: "compile_env \<Rightarrow> node \<Rightarrow> compiled" where
  "compile_cache_remove_value env item =
     with_value env (attr ''key'' item) (\<lambda>k.
       if k = [] \<or> has_children item then unsupported (node_name item) else Ok (ACacheRemoveValue k))"

definition compile_set_backend :: "compile_env \<Rightarrow> node \<Rightarrow> compiled" where
  "compile_set_backend env item =
     (if (attr ''base-url'' item = []) = (attr ''backend-id'' item = []) then unsupported (node_name item)
      else with_value env (attr ''base-url'' item) (\<lambda>v. with_value env (attr ''backend-id'' item) (\<lambda>b.
        Ok (ASetBackend v b))))"

definition compile_rewrite_uri :: "compile_env \<Rightarrow> node \<Rightarrow> compiled" where
  "compile_rewrite_uri env item =
     (if attr ''template'' item = [] then unsupported (node_name item)
      else with_value env (attr ''template'' item) (\<lambda>v. Ok (ARewriteURI v)))"

text \<open>The children of \<open>return-response\<close>, each updating the response so far.\<close>

record response_build =
  rb_status :: int
  rb_reason :: string
  rb_body :: string
  rb_headers :: "policy_header list"

fun return_response_children ::
  "compile_env \<Rightarrow> string \<Rightarrow> node list \<Rightarrow> response_build \<Rightarrow> response_build supported" where
  "return_response_children env name [] r = Ok (Inr r)"
| "return_response_children env name (c # cs) r =
     (if node_name c = ''set-status'' then
        (case sscanf_int (attr ''code'' c) of
           None \<Rightarrow> invalid ''invalid set-status code''
         | Some code \<Rightarrow> return_response_children env name cs (r\<lparr>rb_status := code, rb_reason := attr ''reason'' c\<rparr>))
      else if node_name c = ''set-header'' then
        with_value env (child_text ''value'' c) (\<lambda>v.
          return_response_children env name cs (r\<lparr>rb_headers := rb_headers r @
            [\<lparr>ph_name = attr ''name'' c, ph_value = v, ph_action = attr ''exists-action'' c\<rparr>]\<rparr>))
      else if node_name c = ''set-body'' then
        with_value env (trim_space (node_text c)) (\<lambda>b. return_response_children env name cs (r\<lparr>rb_body := b\<rparr>))
      else Ok (Inl (name @ ''/'' @ node_name c)))"

definition compile_return_response :: "compile_env \<Rightarrow> node \<Rightarrow> compiled" where
  "compile_return_response env item =
     bind_result (return_response_children env (node_name item) (node_children item)
        \<lparr>rb_status = 200, rb_reason = [], rb_body = [], rb_headers = []\<rparr>) (\<lambda>r.
       case r of Inl bad \<Rightarrow> unsupported bad
       | Inr b \<Rightarrow> Ok (AReturnResponse (rb_status b) (rb_reason b) (rb_body b) (rb_headers b) []))"

definition compile_set_status :: "compile_env \<Rightarrow> node \<Rightarrow> compiled" where
  "compile_set_status env item =
     (if has_children item then unsupported (node_name item @ ''/'' @ first_child item)
      else with_value env (attr ''code'' item) (\<lambda>code. with_value env (attr ''reason'' item) (\<lambda>reason.
        if is_expression code then Ok (ASetStatus code 0 reason)
        else (case sscanf_int code of
                None \<Rightarrow> invalid ''invalid set-status code''
              | Some n \<Rightarrow> if n < 100 \<or> n > 599 then invalid ''invalid set-status code''
                          else Ok (ASetStatus [] n reason)))))"

definition content_type_header :: "string \<Rightarrow> policy_header" where
  "content_type_header v = \<lparr>ph_name = ''Content-Type'', ph_value = v, ph_action = ''override''\<rparr>"

definition compile_cross_domain :: "node \<Rightarrow> compiled" where
  "compile_cross_domain item =
     Ok (AReturnResponse 200 [] (concat (map write_node_xml (node_children item)))
           [content_type_header ''text/x-cross-domain-policy''] [])"

definition compile_redirect_urls :: "node \<Rightarrow> compiled" where
  "compile_redirect_urls item =
     (if has_children item then unsupported (node_name item @ ''/'' @ first_child item) else Ok ARedirectContentURLs)"

fun mock_body :: "compile_env \<Rightarrow> string \<Rightarrow> node list \<Rightarrow> string \<Rightarrow> string supported" where
  "mock_body env name [] body = Ok (Inr body)"
| "mock_body env name (c # cs) body =
     (if node_name c = ''example'' then
        with_value env (trim_space (node_text c)) (\<lambda>v. mock_body env name cs v)
      else if node_name c = ''schema'' then Ok (Inl (name @ ''/schema''))
      else Ok (Inl (name @ ''/'' @ node_name c)))"

definition compile_mock_response :: "compile_env \<Rightarrow> node \<Rightarrow> compiled" where
  "compile_mock_response env item =
     bind_result (mock_body env (node_name item) (node_children item) []) (\<lambda>r.
       case r of Inl bad \<Rightarrow> unsupported bad
       | Inr body \<Rightarrow>
           with_value env (attr ''status-code'' item) (\<lambda>code. with_value env (attr ''content-type'' item) (\<lambda>ct.
             let headers = (if ct = [] then [] else [content_type_header ct]) in
             if is_expression code then Ok (AReturnResponse 0 [] body headers code)
             else if code = [] then Ok (AReturnResponse 200 [] body headers [])
             else (case sscanf_int code of
                     None \<Rightarrow> invalid ''invalid mock-response status-code''
                   | Some n \<Rightarrow> if n < 100 \<or> n > 599 then invalid ''invalid mock-response status-code''
                               else Ok (AReturnResponse n [] body headers [])))))"

text \<open>The children of \<open>send-request\<close> and \<open>send-one-way-request\<close>.\<close>

fun send_request_children ::
  "compile_env \<Rightarrow> string \<Rightarrow> node list \<Rightarrow> send_policy \<Rightarrow> send_policy supported" where
  "send_request_children env name [] p = Ok (Inr p)"
| "send_request_children env name (c # cs) p =
     (if node_name c = ''set-url'' then
        with_value env (trim_space (node_text c)) (\<lambda>v. send_request_children env name cs (p\<lparr>sp_url := v\<rparr>))
      else if node_name c = ''set-method'' then
        with_value env (trim_space (node_text c)) (\<lambda>v. send_request_children env name cs (p\<lparr>sp_method := v\<rparr>))
      else if node_name c = ''set-header'' then
        with_value env (child_text ''value'' c) (\<lambda>v. send_request_children env name cs
          (p\<lparr>sp_headers := sp_headers p @
             [\<lparr>ph_name = attr ''name'' c, ph_value = v, ph_action = attr ''exists-action'' c\<rparr>]\<rparr>))
      else if node_name c = ''set-body'' then
        with_value env (if trim_space (node_text c) = [] then child_text ''value'' c else trim_space (node_text c))
          (\<lambda>v. send_request_children env name cs (p\<lparr>sp_body := v\<rparr>))
      else Ok (Inl (name @ ''/'' @ node_name c)))"

definition compile_send_request :: "compile_env \<Rightarrow> node \<Rightarrow> compiled" where
  "compile_send_request env item =
     (let one_way = (node_name item = ''send-one-way-request'') in
      with_value env (if one_way then attr ''mode'' item else []) (\<lambda>mode.
      with_value env (if one_way then attr ''timeout'' item else []) (\<lambda>timeout.
        if mode \<noteq> [] \<and> \<not> is_expression mode \<and> \<not> equal_fold mode ''new'' then unsupported (node_name item)
        else bind_result (send_request_children env (node_name item) (node_children item)
               \<lparr>sp_one_way = one_way, sp_mode = mode, sp_timeout = timeout, sp_url = [], sp_method = ''GET'',
                sp_headers = [], sp_body = [],
                sp_response_var = (if one_way then [] else attr ''response-variable-name'' item)\<rparr>) (\<lambda>r.
          case r of Inl bad \<Rightarrow> unsupported bad
          | Inr p \<Rightarrow> if sp_url p = [] \<or> sp_method p = [] then unsupported (node_name item)
                      else Ok (ASendRequest p)))))"

section \<open>Token validation\<close>

fun required_claims :: "string \<Rightarrow> node list \<Rightarrow> (string, claim_constraint list) result" where
  "required_claims name [] = Ok []"
| "required_claims name (c # cs) =
     (if node_name c \<noteq> ''claim'' then Err (name @ ''/required-claims/'' @ node_name c)
      else let claim = trim_space (attr ''name'' c);
               how = to_lower (trim_space (attr ''match'' c)) in
        if claim = [] then Err (name @ ''/required-claims/claim'')
        else (case child_texts ''value'' (node_children c) of
                Inl bad \<Rightarrow> Err (name @ ''/required-claims/claim/'' @ bad)
              | Inr vs \<Rightarrow>
                  if how \<notin> {[], ''all'', ''any''} then Err (name @ ''/required-claims/claim'')
                  else bind_result (required_claims name cs) (\<lambda>rest.
                    Ok (\<lparr>cc_name = claim, cc_values = vs, cc_match_any = (how = ''any''),
                         cc_separator = attr ''separator'' c\<rparr> # rest))))"

definition optional_text :: "node \<Rightarrow> string list" where
  "optional_text c = (if trim_space (node_text c) = [] then [] else [trim_space (node_text c)])"

definition prefixed :: "string \<Rightarrow> (string, 'a) result \<Rightarrow> (string, 'a) result" where
  "prefixed p r = (case r of Inl bad \<Rightarrow> Err (p @ bad) | Inr v \<Rightarrow> Ok v)"

text \<open>One child of \<open>compileTokenConstraints\<close>, added to the constraints so far.\<close>

definition token_constraint :: "string \<Rightarrow> node \<Rightarrow> token_constraints \<Rightarrow> (string, token_constraints) result" where
  "token_constraint name c t =
     (if node_name c = ''openid-config'' then
        (let url = trim_space (attr ''url'' c); raw = trim_space (attr ''validate-connectivity'' c) in
         if url = [] then Err (name @ ''/openid-config'')
         else (case (if raw = [] then Some True else parse_bool raw) of
                 None \<Rightarrow> Err (name @ ''/openid-config'')
               | Some b \<Rightarrow> Ok (t\<lparr>tc_open_id_configs := tc_open_id_configs t @
                   [\<lparr>oc_url = url, oc_validate_connectivity = b\<rparr>]\<rparr>)))
      else if node_name c = ''audience'' then Ok (t\<lparr>tc_audiences := tc_audiences t @ optional_text c\<rparr>)
      else if node_name c = ''audiences'' then
        bind_result (prefixed (name @ ''/audiences/'') (child_texts ''audience'' (node_children c))) (\<lambda>vs.
          Ok (t\<lparr>tc_audiences := tc_audiences t @ vs\<rparr>))
      else if node_name c = ''issuer'' then Ok (t\<lparr>tc_issuers := tc_issuers t @ optional_text c\<rparr>)
      else if node_name c = ''issuers'' then
        bind_result (prefixed (name @ ''/issuers/'') (child_texts ''issuer'' (node_children c))) (\<lambda>vs.
          Ok (t\<lparr>tc_issuers := tc_issuers t @ vs\<rparr>))
      else if node_name c = ''required-claims'' then
        bind_result (required_claims name (node_children c)) (\<lambda>cl. Ok (t\<lparr>tc_claims := tc_claims t @ cl\<rparr>))
      else if node_name c = ''client-application-ids'' then
        (if name \<noteq> ''validate-azure-ad-token'' then Err (name @ ''/client-application-ids'')
         else bind_result (prefixed (name @ ''/client-application-ids/'')
                (child_texts ''application-id'' (node_children c))) (\<lambda>vs.
           Ok (t\<lparr>tc_client_app_ids := tc_client_app_ids t @ vs\<rparr>)))
      else Err (name @ ''/'' @ node_name c))"

fun token_constraints_of :: "string \<Rightarrow> node list \<Rightarrow> token_constraints \<Rightarrow> (string, token_constraints) result" where
  "token_constraints_of name [] t = Ok t"
| "token_constraints_of name (c # cs) t =
     bind_result (token_constraint name c t) (\<lambda>t. token_constraints_of name cs t)"

definition compile_token_constraints :: "node \<Rightarrow> (string, token_constraints) result" where
  "compile_token_constraints item =
     token_constraints_of (node_name item) (node_children item)
       \<lparr>tc_audiences = [], tc_issuers = [], tc_client_app_ids = [], tc_claims = [], tc_open_id_configs = []\<rparr>"

definition jwt_lifetime :: "node \<Rightarrow> (bool \<times> duration) option" where
  "jwt_lifetime item =
     (let raw = trim_space (attr ''require-expiration-time'' item);
          skew = trim_space (attr ''clock-skew'' item) in
      case (if raw = [] then Some True else parse_bool raw) of
        None \<Rightarrow> None
      | Some required \<Rightarrow>
          (case (if skew = [] then Some 0 else atoi skew) of
             None \<Rightarrow> None
           | Some s \<Rightarrow> if s < 0 then None else Some (required, int64_wrap (seconds s))))"

definition jwt_scheme :: "compile_env \<Rightarrow> node \<Rightarrow> (compile_error, string \<times> string \<times> string) result" where
  "jwt_scheme env item =
     with_value env (attr ''require-scheme'' item) (\<lambda>scheme.
     with_value env (attr ''require-signed-tokens'' item) (\<lambda>signed.
       if signed \<noteq> [] \<and> \<not> is_expression signed \<and> parse_bool (trim_space signed) = None
       then invalid (''invalid '' @ node_name item @ '' require-signed-tokens'')
       else Ok (scheme, signed, trim_space (attr ''output-token-variable-name'' item))))"

definition compile_validate_jwt :: "compile_env \<Rightarrow> node \<Rightarrow> compiled" where
  "compile_validate_jwt env item =
     (case scan_attr ''failed-validation-httpcode'' item 401 of
        None \<Rightarrow> invalid ''invalid validate-jwt status''
      | Some code \<Rightarrow>
          (case compile_token_constraints item of
             Inl source \<Rightarrow> unsupported source
           | Inr t \<Rightarrow>
               (case jwt_lifetime item of
                  None \<Rightarrow> unsupported (node_name item)
                | Some (required, skew) \<Rightarrow>
                    bind_result (jwt_scheme env item) (\<lambda>(scheme, signed, output).
                      Ok (AValidateJWT \<lparr>jp_header_name = [], jp_query_name = [],
                        jp_message = attr ''failed-validation-error-message'' item, jp_tenant = [],
                        jp_code = code, jp_code_expression = [],
                        jp_constraints = t\<lparr>tc_client_app_ids := []\<rparr>, jp_require_expiry = required,
                        jp_clock_skew = skew, jp_require_scheme = scheme, jp_require_signed = signed,
                        jp_output_variable = output\<rparr>)))))"

definition compile_validate_azure_ad :: "compile_env \<Rightarrow> node \<Rightarrow> compiled" where
  "compile_validate_azure_ad env item =
     with_value env (attr ''tenant-id'' item) (\<lambda>tenant.
     with_value env (attr ''header-name'' item) (\<lambda>header.
     with_value env (attr ''query-parameter-name'' item) (\<lambda>query.
     with_value env (attr ''token-value'' item) (\<lambda>tokenv.
     with_value env (attr ''failed-validation-httpcode'' item) (\<lambda>httpcode.
     with_value env (attr ''failed-validation-error-message'' item) (\<lambda>message.
       if trim_space tenant = [] \<or> tokenv \<noteq> [] then unsupported (node_name item)
       else (case compile_token_constraints item of
               Inl source \<Rightarrow> unsupported source
             | Inr t \<Rightarrow>
                 (case jwt_lifetime item of
                    None \<Rightarrow> unsupported (node_name item)
                  | Some (required, skew) \<Rightarrow>
                      bind_result (jwt_scheme env item) (\<lambda>(scheme, signed, output).
                        let p = \<lparr>jp_header_name = header, jp_query_name = query, jp_message = message,
                                 jp_tenant = tenant, jp_code = 401, jp_code_expression = [],
                                 jp_constraints = t, jp_require_expiry = required, jp_clock_skew = skew,
                                 jp_require_scheme = scheme, jp_require_signed = signed,
                                 jp_output_variable = output\<rparr> in
                        if is_expression httpcode then
                          Ok (AValidateJWT (p\<lparr>jp_code_expression := httpcode, jp_code := 0\<rparr>))
                        else if httpcode = [] then Ok (AValidateJWT p)
                        else (case sscanf_int httpcode of
                                None \<Rightarrow> invalid ''invalid validate-azure-ad-token status''
                              | Some code \<Rightarrow> Ok (AValidateJWT (p\<lparr>jp_code := code\<rparr>))))))))))))"

section \<open>Token governance\<close>

definition valid_quota_period :: "string \<Rightarrow> bool" where
  "valid_quota_period p \<longleftrightarrow>
     list_ex (\<lambda>n. equal_fold (trim_space p) n) [''Hourly'', ''Daily'', ''Weekly'', ''Monthly'', ''Yearly'']"

definition compile_llm_config :: "node \<Rightarrow> (compile_error, llm_config) result" where
  "compile_llm_config item =
     (let raw = attr ''tokens-per-minute'' item;
          period = attr ''token-quota-period'' item;
          quota = attr ''token-quota'' item in
      case (if raw = [] then Some 0 else atoi raw) of
        None \<Rightarrow> invalid (''invalid tokens-per-minute '' @ raw)
      | Some tpm \<Rightarrow>
          if period \<noteq> [] \<and> \<not> is_expression period \<and> \<not> valid_quota_period period
          then invalid (''invalid token-quota-period '' @ period)
          else if quota \<noteq> [] \<and> \<not> is_expression quota \<and>
                  (case atoi (trim_space quota) of None \<Rightarrow> True | Some v \<Rightarrow> v \<le> 0)
          then invalid (''invalid token-quota '' @ quota)
          else Ok \<lparr>lc_counter_key = attr ''counter-key'' item, lc_tokens_per_minute = tpm,
                   lc_estimate = equal_fold (attr ''estimate-prompt-tokens'' item) ''true'',
                   lc_retry_after_header = attr ''retry-after-header-name'' item,
                   lc_retry_after_variable = attr ''retry-after-variable-name'' item,
                   lc_quota = quota, lc_quota_period = period,
                   lc_remaining_quota_header = attr ''remaining-quota-tokens-header-name'' item,
                   lc_remaining_quota_variable = attr ''remaining-quota-tokens-variable-name'' item,
                   lc_remaining_header = attr ''remaining-tokens-header-name'' item,
                   lc_remaining_variable = attr ''remaining-tokens-variable-name'' item,
                   lc_consumed_header = attr ''tokens-consumed-header-name'' item,
                   lc_consumed_variable = attr ''tokens-consumed-variable-name'' item,
                   lc_namespace = attr ''namespace'' item, lc_dimensions = []\<rparr>)"

definition compile_llm_token_limit :: "node \<Rightarrow> compiled" where
  "compile_llm_token_limit item =
     bind_result (compile_llm_config item) (\<lambda>c.
       if lc_tokens_per_minute c \<le> 0 \<and> \<not> (lc_quota c \<noteq> [] \<and> lc_quota_period c \<noteq> [])
       then invalid ''llm-token-limit requires tokens-per-minute, or token-quota over a token-quota-period''
       else if (lc_quota c = []) \<noteq> (lc_quota_period c = [])
       then invalid ''llm-token-limit needs token-quota and token-quota-period together''
       else if lc_counter_key c = [] then invalid ''llm-token-limit requires a counter-key''
       else Ok (ALLMTokenLimit c 429))"

fun metric_dimensions :: "string \<Rightarrow> node list \<Rightarrow> ((string \<times> string) list) supported" where
  "metric_dimensions name [] = Ok (Inr [])"
| "metric_dimensions name (c # cs) =
     (if node_name c \<noteq> ''dimension'' then Ok (Inl (name @ ''/'' @ node_name c))
      else if attr ''name'' c = [] then invalid ''llm-emit-token-metric dimension requires a name''
      else bind_supported (metric_dimensions name cs) (\<lambda>ds.
        Ok (Inr ((attr ''name'' c, default_to (attr ''name'' c) (attr ''value'' c)) # ds))))"

definition compile_llm_emit_metric :: "node \<Rightarrow> compiled" where
  "compile_llm_emit_metric item =
     bind_result (compile_llm_config item) (\<lambda>c.
     bind_result (metric_dimensions (node_name item) (node_children item)) (\<lambda>r.
       case r of Inl bad \<Rightarrow> unsupported bad
       | Inr ds \<Rightarrow>
           if length ds > 5 then invalid ''llm-emit-token-metric takes at most 5 dimensions''
           else Ok (ALLMEmitTokenMetric (c\<lparr>lc_dimensions := ds,
                      lc_namespace := default_to ''llm'' (lc_namespace c)\<rparr>))))"

section \<open>Limits\<close>

text \<open>Calls, period and bandwidth; \<open>0\<close> is absent.\<close>

definition parse_limit_budget :: "node \<Rightarrow> string \<Rightarrow> (compile_error, int \<times> duration \<times> int) result" where
  "parse_limit_budget item rt =
     (let calls_raw = attr ''calls'' item; period_raw = attr ''renewal-period'' item;
          band_raw = attr ''bandwidth'' item;
          calls = (if calls_raw = [] then Some 0 else case sscanf_int calls_raw of
                     None \<Rightarrow> None | Some n \<Rightarrow> if n \<le> 0 then None else Some n);
          period = (if period_raw = [] then Some 0 else case parse_duration (period_raw @ ''s'') of
                     None \<Rightarrow> None
                   | Some d \<Rightarrow> if d < 0 \<or> d = 0 \<and> \<not> has_prefix rt ''quota'' then None else Some d);
          band = (if band_raw = [] then Some 0 else case sscanf_int band_raw of
                     None \<Rightarrow> None | Some n \<Rightarrow> if n \<le> 0 then None else Some n)
      in case calls of
           None \<Rightarrow> invalid (''invalid '' @ node_name item @ '' calls'')
         | Some c \<Rightarrow>
             (case period of
                None \<Rightarrow> invalid (''invalid '' @ node_name item @ '' renewal period'')
              | Some p \<Rightarrow>
                  (case band of
                     None \<Rightarrow> invalid (''invalid '' @ node_name item @ '' bandwidth'')
                   | Some b \<Rightarrow>
                       if (rt = ''rate-limit'' \<or> rt = ''rate-limit-by-key'') \<and> p > seconds 300
                       then invalid (''invalid '' @ rt @ '' renewal period'')
                       else if rt = ''quota-by-key'' \<and> p > 0 \<and> p < seconds 300
                       then invalid (''invalid '' @ rt @ '' renewal period'')
                       else Ok (c, p, b))))"

definition nested_limit_policy ::
  "string \<Rightarrow> string \<Rightarrow> string \<Rightarrow> string \<Rightarrow> bool \<Rightarrow> int \<Rightarrow> duration \<Rightarrow> int \<Rightarrow> limit_policy" where
  "nested_limit_policy parent iname name lid per_sub calls period bandwidth =
     \<lparr>lp_key = parent @ ''/'' @ iname @ ''/'' @ (if lid \<noteq> [] then lid else name),
      lp_calls = calls, lp_bandwidth = bandwidth, lp_period = period,
      lp_status = (if has_prefix parent ''quota'' then 403 else 429),
      lp_retry_after_header = [], lp_per_subscription = per_sub,
      lp_fixed_window = has_prefix (takeWhile (\<lambda>c. c \<noteq> CHR ''/'') parent) ''quota'',
      lp_anchor = [], lp_increment_condition = [], lp_increment_count = [],
      lp_increment_deferred = False, lp_scope = iname, lp_scope_name = name, lp_scope_id = lid,
      lp_retry_after_variable = [], lp_remaining_header = [], lp_remaining_variable = [],
      lp_total_header = []\<rparr>"

text \<open>Nested limits; an unsupported element is reported by its path.\<close>

fun compile_nested_limit :: "string \<Rightarrow> duration \<Rightarrow> bool \<Rightarrow> node \<Rightarrow> action supported"
  and compile_nested_limits ::
  "string \<Rightarrow> string \<Rightarrow> duration \<Rightarrow> bool \<Rightarrow> node list \<Rightarrow> (action list) supported" where
  "compile_nested_limit parent parent_period per_sub (Node iname ats body kids) =
     (let item = Node iname ats body [];
          rt = takeWhile (\<lambda>c. c \<noteq> CHR ''/'') parent;
          extra = undocumented_limit_attribute rt iname ats;
          name = trim_space (attr ''name'' item); lid = trim_space (attr ''id'' item)
      in
      if extra \<noteq> [] then Ok (Inl (parent @ ''/'' @ iname @ ''/@'' @ extra))
      else if name = [] \<and> lid = [] then Ok (Inl (parent @ ''/'' @ iname))
      else bind_result (parse_limit_budget item rt) (\<lambda>(calls, period, bandwidth).
        let period = (if period = 0 then parent_period else period) in
        if calls = 0 \<and> bandwidth = 0 then Ok (Inl (parent @ ''/'' @ iname))
        else bind_supported (compile_nested_limits iname (parent @ ''/'' @ iname) period per_sub kids) (\<lambda>children.
          Ok (Inr (Action no_meta (ARateLimit
            (nested_limit_policy parent iname name lid per_sub calls period bandwidth) children))))))"
| "compile_nested_limits iname path period per_sub [] = Ok (Inr [])"
| "compile_nested_limits iname path period per_sub (c # cs) =
     (if iname \<noteq> ''api'' \<or> node_name c \<noteq> ''operation'' then Ok (Inl (path @ ''/'' @ node_name c))
      else bind_supported (compile_nested_limit path period per_sub c) (\<lambda>a.
        bind_supported (compile_nested_limits iname path period per_sub cs) (\<lambda>as. Ok (Inr (a # as)))))"

text \<open>The loop of \<open>compileLimit\<close> over the nested limits.\<close>

fun limit_children ::
  "string \<Rightarrow> duration \<Rightarrow> bool \<Rightarrow> node list \<Rightarrow> (action list) supported" where
  "limit_children name period per_sub [] = Ok (Inr [])"
| "limit_children name period per_sub (c # cs) =
     (if node_name c \<noteq> ''api'' \<and> node_name c \<noteq> ''operation'' \<or> \<not> limit_documents_section name (node_name c)
      then Ok (Inl (name @ ''/'' @ node_name c))
      else bind_supported (compile_nested_limit name period per_sub c) (\<lambda>a.
        bind_supported (limit_children name period per_sub cs) (\<lambda>as. Ok (Inr (a # as)))))"

definition limit_policy_of :: "node \<Rightarrow> string \<Rightarrow> string \<Rightarrow> string \<Rightarrow> int \<Rightarrow> duration \<Rightarrow> int \<Rightarrow> limit_policy" where
  "limit_policy_of item key cond count calls period bandwidth =
     (let name = node_name item;
          per_sub = (name = ''rate-limit'' \<or> name = ''quota'');
          fixed_window = (name = ''quota'' \<or> name = ''quota-by-key'');
          retry = attr ''retry-after-header-name'' item in
      \<lparr>lp_key = key, lp_calls = calls, lp_bandwidth = bandwidth, lp_period = period,
       lp_status = (if fixed_window then 403 else 429),
       lp_retry_after_header = (if retry = [] \<and> per_sub then ''Retry-After'' else retry),
       lp_per_subscription = per_sub, lp_fixed_window = fixed_window,
       lp_anchor = attr ''first-period-start'' item,
       lp_increment_condition = cond, lp_increment_count = count,
       lp_increment_deferred = (is_expression cond \<or> is_expression count),
       lp_scope = [], lp_scope_name = [], lp_scope_id = [],
       lp_retry_after_variable = attr ''retry-after-variable-name'' item,
       lp_remaining_header = attr ''remaining-calls-header-name'' item,
       lp_remaining_variable = attr ''remaining-calls-variable-name'' item,
       lp_total_header = attr ''total-calls-header-name'' item\<rparr>)"

definition compile_limit :: "compile_env \<Rightarrow> node \<Rightarrow> (compile_error, action_kind) result" where
  "compile_limit env item =
     (let name = node_name item;
          extra = undocumented_limit_attribute name ''attributes'' (node_attrs item);
          per_sub = (name = ''rate-limit'' \<or> name = ''quota'');
          fixed_window = (name = ''quota'' \<or> name = ''quota-by-key'');
          anchor = attr ''first-period-start'' item in
      bind_result (parse_limit_budget item name) (\<lambda>(calls, period, bandwidth).
      if extra \<noteq> [] then Ok (ALeaf (AUnsupported (name @ ''/@'' @ extra)))
      else with_value env (if per_sub then name else attr ''counter-key'' item) (\<lambda>key.
      if calls = 0 \<and> bandwidth = 0 \<or> key = [] then Ok (ALeaf (AUnsupported name))
      else if period = 0 \<and> \<not> fixed_window then Ok (ALeaf (AUnsupported name))
      else with_value env (attr ''increment-condition'' item) (\<lambda>cond.
      with_value env (attr ''increment-count'' item) (\<lambda>count.
      if count \<noteq> [] \<and> \<not> is_expression count \<and>
         (case atoi (trim_space count) of None \<Rightarrow> True | Some n \<Rightarrow> n < 0)
      then invalid (''invalid '' @ name @ '' increment-count'')
      else if cond \<noteq> [] \<and> \<not> is_expression cond \<and> parse_bool (trim_space cond) = None
      then invalid (''invalid '' @ name @ '' increment-condition'')
      else if anchor \<noteq> [] \<and> ce_rfc3339 env anchor = None
      then invalid (''invalid '' @ name @ '' first-period-start'')
      else bind_result (limit_children name period per_sub (node_children item)) (\<lambda>r.
        case r of
          Inl bad \<Rightarrow> Ok (ALeaf (AUnsupported bad))
        | Inr children \<Rightarrow> Ok (ARateLimit (limit_policy_of item key cond count calls period bandwidth) children)))))))"

section \<open>Nodes\<close>

text \<open>The cases of \<open>compileNode\<close> whose action holds no further policies, and its default.\<close>

definition compile_leaf :: "compile_env \<Rightarrow> node \<Rightarrow> compiled" where
  "compile_leaf env item =
     (let name = node_name item in
      if name = ''base'' then Ok ABase
      else if name = ''set-header'' then compile_set_header env item
      else if name = ''set-query-parameter'' then compile_set_query_parameter env item
      else if name = ''get-authorization-context'' then compile_get_authorization_context item
      else if name = ''set-variable'' then compile_set_variable env item
      else if name = ''set-body'' then compile_set_body env item
      else if name = ''check-header'' then compile_check_header env item
      else if name = ''validate-jwt'' then compile_validate_jwt env item
      else if name = ''validate-azure-ad-token'' then compile_validate_azure_ad env item
      else if name = ''ip-filter'' then compile_ip_filter item
      else if name = ''set-method'' then compile_set_method env item
      else if name = ''cors'' then compile_cors env item
      else if name = ''send-request'' \<or> name = ''send-one-way-request'' then compile_send_request env item
      else if name = ''llm-token-limit'' \<or> name = ''azure-openai-token-limit'' then compile_llm_token_limit item
      else if name = ''llm-emit-token-metric'' \<or> name = ''azure-openai-emit-token-metric''
      then compile_llm_emit_metric item
      else if name = ''cache-lookup'' then Ok ACacheLookup
      else if name = ''cache-store'' then compile_cache_store item
      else if name = ''validate-status-code'' then compile_validate_status item
      else if name = ''validate-content'' then compile_validate_content item
      else if name = ''validate-headers'' then compile_validate_headers item
      else if name = ''validate-parameters'' then compile_validate_parameters item
      else if name = ''validate-client-certificate'' then compile_validate_certificate item
      else if name = ''trace'' then compile_trace item
      else if name = ''authentication-basic'' then compile_authentication_basic env item
      else if name = ''authentication-managed-identity'' then compile_authentication_identity env item
      else if name = ''authentication-oauth2'' then compile_authentication_oauth2 env item
      else if name = ''authentication-certificate'' then compile_authentication_certificate env item
      else if name = ''find-and-replace'' then compile_find_replace env item
      else if name = ''json-to-xml'' then compile_json_to_xml env item
      else if name = ''xml-to-json'' then compile_xml_to_json item
      else if name = ''jsonp'' then compile_jsonp env item
      else if name = ''cache-lookup-value'' then compile_cache_lookup_value env item
      else if name = ''cache-store-value'' then compile_cache_store_value env item
      else if name = ''cache-remove-value'' then compile_cache_remove_value env item
      else if name = ''set-backend-service'' then compile_set_backend env item
      else if name = ''rewrite-uri'' then compile_rewrite_uri env item
      else if name = ''forward-request'' then Ok AForward
      else if name = ''return-response'' then compile_return_response env item
      else if name = ''set-status'' then compile_set_status env item
      else if name = ''cross-domain'' then compile_cross_domain item
      else if name = ''redirect-content-urls'' then compile_redirect_urls item
      else if name = ''mock-response'' then compile_mock_response env item
      else unsupported name)"

text \<open>The attributes of the four cases with nested policies, checked before the children.\<close>

definition concurrency_head :: "compile_env \<Rightarrow> node \<Rightarrow> (int \<times> string) supported" where
  "concurrency_head env item =
     (case atoi (attr ''max-count'' item) of
        None \<Rightarrow> Ok (Inl (node_name item))
      | Some count \<Rightarrow>
          if count \<le> 0 then Ok (Inl (node_name item))
          else (case find (\<lambda>c. node_name c \<noteq> ''wait'') (node_children item) of
                  Some c \<Rightarrow> Ok (Inl (node_name item @ ''/'' @ node_name c))
                | None \<Rightarrow> with_value env (attr ''key'' item) (\<lambda>key. Ok (Inr (count, key)))))"

definition wait_head :: "node \<Rightarrow> (string, string) result" where
  "wait_head item =
     (let mode = default_to ''all'' (to_lower (trim_space (attr ''for'' item))) in
      if mode \<notin> {''all'', ''any'', ''self''} then Err (node_name item)
      else (case find (\<lambda>c. node_name c \<notin> {''send-request'', ''cache-lookup-value'', ''choose''}) (node_children item) of
              Some c \<Rightarrow> Err (node_name item @ ''/'' @ node_name c)
            | None \<Rightarrow> Ok mode))"

definition retry_head :: "node \<Rightarrow> (compile_error, int \<times> duration) result" where
  "retry_head item =
     (case scan_attr ''count'' item 3 of
        None \<Rightarrow> invalid ''invalid retry count''
      | Some count \<Rightarrow>
          if count < 0 then invalid ''invalid retry count''
          else (case (if attr ''interval'' item = [] then Some 0 else parse_duration (attr ''interval'' item @ ''s'')) of
                  None \<Rightarrow> invalid ''invalid retry interval''
                | Some d \<Rightarrow> if d < 0 then invalid ''invalid retry interval'' else Ok (count, d)))"

definition element_meta :: "node \<Rightarrow> action_meta" where
  "element_meta item =
     \<lparr>am_element = node_name item, am_policy_id = trim_space (attr ''id'' item), am_scope = []\<rparr>"

definition unsupported_source :: "action_kind \<Rightarrow> string option" where
  "unsupported_source k = (case k of ALeaf (AUnsupported src) \<Rightarrow> Some src | _ \<Rightarrow> None)"

fun compile_node :: "compile_env \<Rightarrow> string \<Rightarrow> bool \<Rightarrow> node \<Rightarrow> (compile_error, action_kind) result"
  and compile_nodes :: "compile_env \<Rightarrow> string \<Rightarrow> bool \<Rightarrow> node list \<Rightarrow> (compile_error, action list) result"
  and compile_choose :: "compile_env \<Rightarrow> string \<Rightarrow> bool \<Rightarrow> bool \<Rightarrow> node list \<Rightarrow>
     ((string \<times> action list) list \<times> action list) supported" where
  "compile_node env sec strict (Node name ats body kids) =
     (if \<not> documents_section name sec then Err (WrongSection name)
      else if name \<in> {''rate-limit-by-key'', ''quota-by-key'', ''rate-limit'', ''quota''}
      then compile_limit env (Node name ats body kids)
      else if name = ''limit-concurrency'' then
        bind_result (concurrency_head env (Node name ats body kids)) (\<lambda>r.
          case r of Inl bad \<Rightarrow> Ok (ALeaf (AUnsupported bad))
          | Inr (count, key) \<Rightarrow> bind_result (compile_nodes env sec strict kids) (\<lambda>as.
              Ok (ALimitConcurrency key count 429 ''concurrency limit exceeded'' as)))
      else if name = ''wait'' then
        (case wait_head (Node name ats body kids) of
           Inl bad \<Rightarrow> Ok (ALeaf (AUnsupported bad))
         | Inr mode \<Rightarrow> bind_result (compile_nodes env sec strict kids) (\<lambda>as. Ok (AWait mode as)))
      else if name = ''choose'' then
        bind_result (compile_choose env sec strict False kids) (\<lambda>r.
          case r of Inl bad \<Rightarrow> Ok (ALeaf (AUnsupported (name @ ''/'' @ bad)))
          | Inr (branches, otherwise) \<Rightarrow>
              if branches = [] then invalid ''choose requires at least one when branch''
              else Ok (AChoose branches otherwise))
      else if name = ''retry'' then
        bind_result (retry_head (Node name ats body kids)) (\<lambda>(count, interval).
          bind_result (compile_nodes env sec strict kids) (\<lambda>as.
            Ok (ARetry count interval (attr ''condition'' (Node name ats body kids)) as)))
      else bind_result (compile_leaf env (Node name ats body kids)) (\<lambda>l. Ok (ALeaf l)))"
| "compile_nodes env sec strict [] = Ok []"
| "compile_nodes env sec strict (n # ns) =
     bind_result (compile_node env sec strict n) (\<lambda>k.
       case (if strict then unsupported_source k else None) of
         Some src \<Rightarrow> Err (UnsupportedPolicy src)
       | None \<Rightarrow> bind_result (compile_nodes env sec strict ns) (\<lambda>as. Ok (Action (element_meta n) k # as)))"
| "compile_choose env sec strict seen [] = Ok (Inr ([], []))"
| "compile_choose env sec strict seen (Node name ats body kids # cs) =
     (if name = ''when'' then
        (let cond = trim_space (attr ''condition'' (Node name ats body kids)) in
         if cond = [] then invalid ''choose when requires a condition''
         else bind_result (compile_nodes env sec strict kids) (\<lambda>as.
           bind_supported (compile_choose env sec strict seen cs) (\<lambda>(branches, otherwise).
             Ok (Inr ((cond, as) # branches, otherwise)))))
      else if name = ''otherwise'' then
        (if seen then invalid ''choose has multiple otherwise branches''
         else bind_result (compile_nodes env sec strict kids) (\<lambda>as.
           bind_supported (compile_choose env sec strict True cs) (\<lambda>(branches, otherwise).
             Ok (Inr (branches, as)))))
      else Ok (Inl name))"

section \<open>Documents\<close>

definition plan_section :: "string \<Rightarrow> action list \<Rightarrow> plan \<Rightarrow> plan option" where
  "plan_section name as p =
     (if name = ''inbound'' then Some (p\<lparr>inbound := as\<rparr>)
      else if name = ''backend'' then Some (p\<lparr>backend := as\<rparr>)
      else if name = ''outbound'' then Some (p\<lparr>outbound := as\<rparr>)
      else if name = ''on-error'' then Some (p\<lparr>on_error := as\<rparr>)
      else None)"

text \<open>The loop of \<open>compileRoot\<close>: the section's name is settled before its children are compiled.\<close>

fun compile_sections ::
  "compile_env \<Rightarrow> bool \<Rightarrow> string list \<Rightarrow> node list \<Rightarrow> plan \<Rightarrow> (compile_error, plan) result" where
  "compile_sections env strict seen [] p = Ok p"
| "compile_sections env strict seen (s # ss) p =
     (if node_name s \<in> set seen then Err (DuplicateSection (node_name s))
      else if plan_section (node_name s) [] p = None then Err (UnknownSection (node_name s))
      else (case compile_nodes env (node_name s) strict (node_children s) of
              Inl e \<Rightarrow> Err (InSection (node_name s) e)
            | Inr as \<Rightarrow>
                (case plan_section (node_name s) as p of
                   None \<Rightarrow> Err (UnknownSection (node_name s))
                 | Some p' \<Rightarrow> compile_sections env strict (node_name s # seen) ss p')))"

definition compile_root :: "compile_env \<Rightarrow> bool \<Rightarrow> node \<Rightarrow> (compile_error, plan) result" where
  "compile_root env strict doc =
     (if node_name doc \<noteq> ''policies'' then Err WrongRoot
      else if repeated_keyless_limit doc \<noteq> [] then Err (RepeatedLimit (repeated_keyless_limit doc))
      else compile_sections env strict [] (node_children doc) empty_plan)"

definition compile_policy :: "compile_env \<Rightarrow> bool \<Rightarrow> xml_token list \<Rightarrow> (compile_error, plan) result" where
  "compile_policy env strict ts =
     (case unmarshal_xml ts of None \<Rightarrow> Err DocumentSyntax | Some doc \<Rightarrow> compile_root env strict doc)"

definition validate_fragment :: "xml_token list \<Rightarrow> (compile_error, unit) result" where
  "validate_fragment ts =
     (case unmarshal_xml ts of
        None \<Rightarrow> Err DocumentSyntax
      | Some doc \<Rightarrow> if node_name doc \<noteq> ''fragment'' then Err (FragmentError (FragmentRoot [])) else Ok ())"

definition compile_with_fragments ::
  "compile_env \<Rightarrow> (string \<Rightarrow> node option) \<Rightarrow> (string \<times> string) list \<Rightarrow> bool \<Rightarrow> xml_token list \<Rightarrow>
   (compile_error, plan) result" where
  "compile_with_fragments env parse fragments strict ts =
     (case unmarshal_xml ts of
        None \<Rightarrow> Err DocumentSyntax
      | Some doc \<Rightarrow>
          (case expand_nodes parse fragments [] (node_children doc) of
             Inl e \<Rightarrow> Err (FragmentError e)
           | Inr kids \<Rightarrow> compile_root env strict (Node (node_name doc) (node_attrs doc) (node_text doc) kids)))"

section \<open>What a compiled plan satisfies\<close>

text \<open>A predicate on an action and everything below it.\<close>

fun action_all :: "(action \<Rightarrow> bool) \<Rightarrow> action \<Rightarrow> bool"
  and kind_all :: "(action \<Rightarrow> bool) \<Rightarrow> action_kind \<Rightarrow> bool" where
  "action_all P (Action m k) \<longleftrightarrow> P (Action m k) \<and> kind_all P k"
| "kind_all P (ALeaf l) \<longleftrightarrow> True"
| "kind_all P (ARateLimit l kids) \<longleftrightarrow> (\<forall>a \<in> set kids. action_all P a)"
| "kind_all P (ALimitConcurrency k c st b kids) \<longleftrightarrow> (\<forall>a \<in> set kids. action_all P a)"
| "kind_all P (ARetry c i cond kids) \<longleftrightarrow> (\<forall>a \<in> set kids. action_all P a)"
| "kind_all P (AWait m kids) \<longleftrightarrow> (\<forall>a \<in> set kids. action_all P a)"
| "kind_all P (AChoose bs ot) \<longleftrightarrow>
     (\<forall>b \<in> set bs. \<forall>a \<in> set (snd b). action_all P a) \<and> (\<forall>a \<in> set ot. action_all P a)"

text \<open>A limit the runtime can count: some budget, and a period unless the window is fixed.\<close>

definition sane_limit :: "limit_policy \<Rightarrow> bool" where
  "sane_limit l \<longleftrightarrow> lp_calls l \<ge> 0 \<and> lp_bandwidth l \<ge> 0 \<and> (lp_calls l > 0 \<or> lp_bandwidth l > 0) \<and>
     lp_period l \<ge> 0 \<and> (lp_period l > 0 \<or> lp_fixed_window l) \<and> lp_key l \<noteq> []"

definition supported_kind :: "action_kind \<Rightarrow> bool" where
  "supported_kind k \<longleftrightarrow> (\<forall>src. k \<noteq> ALeaf (AUnsupported src))"

lemma unsupported_source_None [simp]: "unsupported_source k = None \<longleftrightarrow> supported_kind k"
  by (auto simp: unsupported_source_def supported_kind_def split: action_kind.splits leaf_action.splits)

definition sane_kind :: "action_kind \<Rightarrow> bool" where
  "sane_kind k \<longleftrightarrow> (\<forall>l kids. k = ARateLimit l kids \<longrightarrow> sane_limit l)"

definition good_action :: "string \<Rightarrow> bool \<Rightarrow> action \<Rightarrow> bool" where
  "good_action sec strict a \<longleftrightarrow>
     documents_section (am_element (act_meta a)) sec \<and>
     (strict \<longrightarrow> supported_kind (act_kind a)) \<and> sane_kind (act_kind a)"

definition good_plan :: "bool \<Rightarrow> plan \<Rightarrow> bool" where
  "good_plan strict p \<longleftrightarrow>
     (\<forall>a \<in> set (inbound p). action_all (good_action ''inbound'' strict) a) \<and>
     (\<forall>a \<in> set (backend p). action_all (good_action ''backend'' strict) a) \<and>
     (\<forall>a \<in> set (outbound p). action_all (good_action ''outbound'' strict) a) \<and>
     (\<forall>a \<in> set (on_error p). action_all (good_action ''on-error'' strict) a)"

lemma no_element_documented [simp]: "documents_section [] sec"
  by (simp add: documents_section_def policy_sections_def documented_in_def)

lemma parse_limit_budget_nonneg:
  "parse_limit_budget item rt = Ok (c, p, b) \<Longrightarrow> c \<ge> 0 \<and> p \<ge> 0 \<and> b \<ge> 0"
  by (auto simp: parse_limit_budget_def invalid_def Let_def split: option.splits if_splits)

lemma takeWhile_path: "takeWhile (\<lambda>c. c \<noteq> CHR ''/'') (a @ ''/'' @ b) = takeWhile (\<lambda>c. c \<noteq> CHR ''/'') a"
  by (induction a) auto

lemma good_limit_action:
  "sane_limit l \<Longrightarrow> \<forall>a \<in> set kids. action_all (good_action sec strict) a \<Longrightarrow>
     action_all (good_action sec strict) (Action no_meta (ARateLimit l kids))"
  by (simp add: good_action_def no_meta_def supported_kind_def sane_kind_def)

lemma nested_limit_good:
  "compile_nested_limit parent pp ps n = Ok (Inr a) \<Longrightarrow>
     pp \<ge> 0 \<and> (pp > 0 \<or> has_prefix (takeWhile (\<lambda>c. c \<noteq> CHR ''/'') parent) ''quota'') \<Longrightarrow>
     action_all (good_action sec strict) a"
  "compile_nested_limits iname path pp ps ns = Ok (Inr as) \<Longrightarrow>
     pp \<ge> 0 \<and> (pp > 0 \<or> has_prefix (takeWhile (\<lambda>c. c \<noteq> CHR ''/'') path) ''quota'') \<Longrightarrow>
     \<forall>a \<in> set as. action_all (good_action sec strict) a"
proof (induction parent pp ps n and iname path pp ps ns arbitrary: a and as
    rule: compile_nested_limit_compile_nested_limits.induct)
  case (1 parent pp ps iname ats body kids)
  let ?item = "Node iname ats body []"
  let ?rt = "takeWhile (\<lambda>c. c \<noteq> CHR ''/'') parent"
  let ?name = "trim_space (attr ''name'' ?item)" and ?lid = "trim_space (attr ''id'' ?item)"
  from "1.prems"(1) obtain c p b children where
    extra: "undocumented_limit_attribute ?rt iname ats = []" "\<not> (?name = [] \<and> ?lid = [])" and
    budget: "parse_limit_budget ?item ?rt = Ok (c, p, b)" and some: "\<not> (c = 0 \<and> b = 0)" and
    kids: "compile_nested_limits iname (parent @ ''/'' @ iname) (if p = 0 then pp else p) ps kids = Ok (Inr children)" and
    a: "a = Action no_meta (ARateLimit (nested_limit_policy parent iname ?name ?lid ps c (if p = 0 then pp else p) b) children)"
    by (auto simp: Let_def split: if_splits)
  have nn: "c \<ge> 0" "p \<ge> 0" "b \<ge> 0" using parse_limit_budget_nonneg [OF budget] by auto
  have "\<forall>a \<in> set children. action_all (good_action sec strict) a"
    by (rule "1.IH" [OF refl refl refl refl refl _ _ refl _ kids])
      (use extra some "1.prems"(2) nn in \<open>auto simp: takeWhile_path [simplified]\<close>)
  moreover have "sane_limit (nested_limit_policy parent iname ?name ?lid ps c (if p = 0 then pp else p) b)"
    using nn some "1.prems"(2) by (auto simp: sane_limit_def nested_limit_policy_def)
  ultimately show ?case unfolding a by (intro good_limit_action)
next
  case (2 iname path period per_sub)
  then show ?case by simp
next
  case (3 iname path period per_sub c cs)
  then show ?case by (auto split: if_splits)
qed

lemma limit_children_good:
  assumes "pp \<ge> 0 \<and> (pp > 0 \<or> has_prefix (takeWhile (\<lambda>c. c \<noteq> CHR ''/'') name) ''quota'')"
  shows "limit_children name pp ps ns = Ok (Inr as) \<Longrightarrow> \<forall>a \<in> set as. action_all (good_action sec strict) a"
proof (induction ns arbitrary: as)
  case (Cons n ns)
  then obtain v vs where "compile_nested_limit name pp ps n = Ok (Inr v)"
      "limit_children name pp ps ns = Ok (Inr vs)" "as = v # vs"
    by (auto split: if_splits)
  with Cons.IH nested_limit_good(1) [OF _ assms] show ?case by auto
qed simp

lemma if_Ok_iff: "(if b then x else y) = Inr r \<longleftrightarrow> b \<and> x = Inr r \<or> \<not> b \<and> y = Inr r"
  by simp

lemma compile_limit_cases:
  assumes "compile_limit env item = Ok k"
  shows "(\<exists>src. k = ALeaf (AUnsupported src)) \<or>
    (\<exists>c p b key cond count as. k = ARateLimit (limit_policy_of item key cond count c p b) as \<and>
       parse_limit_budget item (node_name item) = Ok (c, p, b) \<and> \<not> (c = 0 \<and> b = 0) \<and> key \<noteq> [] \<and>
       (p = 0 \<longrightarrow> node_name item = ''quota'' \<or> node_name item = ''quota-by-key'') \<and>
       limit_children (node_name item) p (node_name item = ''rate-limit'' \<or> node_name item = ''quota'')
         (node_children item) = Ok (Inr as))"
proof -
  obtain c p b where budget: "parse_limit_budget item (node_name item) = Ok (c, p, b)"
    using assms by (auto simp: compile_limit_def Let_def)
  let ?n = "node_name item"
  let ?rest = "\<lambda>key cond count. bind_result
      (limit_children ?n p (?n = ''rate-limit'' \<or> ?n = ''quota'') (node_children item))
      (\<lambda>r. case r of Inl bad \<Rightarrow> Ok (ALeaf (AUnsupported bad))
        | Inr children \<Rightarrow> Ok (ARateLimit (limit_policy_of item key cond count c p b) children))"
  have "(\<exists>src. k = ALeaf (AUnsupported src)) \<or>
      (\<exists>key cond count. \<not> (c = 0 \<and> b = 0 \<or> key = []) \<and>
         \<not> (p = 0 \<and> \<not> (?n = ''quota'' \<or> ?n = ''quota-by-key'')) \<and> ?rest key cond count = Ok k)"
    using assms unfolding compile_limit_def Let_def invalid_def budget bind_result_simps prod.case
    by (simp only: if_Ok_iff bind_result_Inr_iff sum.inject sum.distinct simp_thms) blast
  then show ?thesis
  proof (elim disjE exE conjE)
    fix key cond count
    assume "\<not> (c = 0 \<and> b = 0 \<or> key = [])"
      and "\<not> (p = 0 \<and> \<not> (?n = ''quota'' \<or> ?n = ''quota-by-key''))"
      and rest: "?rest key cond count = Ok k"
    then show ?thesis
      using budget by (cases "limit_children ?n p (?n = ''rate-limit'' \<or> ?n = ''quota'') (node_children item)")
        (auto split: sum.splits)
  qed blast
qed

lemma compile_limit_good:
  assumes "compile_limit env item = Ok k"
    and "node_name item \<in> {''rate-limit-by-key'', ''quota-by-key'', ''rate-limit'', ''quota''}"
  shows "sane_kind k \<and> kind_all (good_action sec strict) k"
  using compile_limit_cases [OF assms(1)]
proof (elim disjE exE conjE)
  fix src assume "k = ALeaf (AUnsupported src)"
  then show ?thesis by (simp add: sane_kind_def)
next
  fix c p b key cond count as
  assume k: "k = ARateLimit (limit_policy_of item key cond count c p b) as"
    and budget: "parse_limit_budget item (node_name item) = Ok (c, p, b)"
    and some: "\<not> (c = 0 \<and> b = 0)" and key: "key \<noteq> []"
    and period: "p = 0 \<longrightarrow> node_name item = ''quota'' \<or> node_name item = ''quota-by-key''"
    and kids: "limit_children (node_name item) p (node_name item = ''rate-limit'' \<or> node_name item = ''quota'')
         (node_children item) = Ok (Inr as)"
  have nn: "c \<ge> 0" "p \<ge> 0" "b \<ge> 0" using parse_limit_budget_nonneg [OF budget] by auto
  have "p \<ge> 0 \<and> (p > 0 \<or> has_prefix (takeWhile (\<lambda>c. c \<noteq> CHR ''/'') (node_name item)) ''quota'')"
    using period nn by auto
  from limit_children_good [OF this kids]
  show ?thesis
    using nn some key period
    by (auto simp: k sane_kind_def sane_limit_def limit_policy_of_def Let_def)
qed

lemma compile_leaf_sane [simp]: "sane_kind (ALeaf l)" "kind_all P (ALeaf l)"
  by (simp_all add: sane_kind_def)

text \<open>The head of each composite leaves the children to \<open>compile_nodes\<close>.\<close>

lemma compile_node_cases:
  assumes "compile_node env sec strict (Node name ats body kids) = Ok k"
  shows "documents_section name sec \<and>
    ((\<exists>l. k = ALeaf l) \<or>
     name \<in> {''rate-limit-by-key'', ''quota-by-key'', ''rate-limit'', ''quota''} \<and>
       compile_limit env (Node name ats body kids) = Ok k \<or>
     (\<exists>as. compile_nodes env sec strict kids = Ok as \<and>
        ((\<exists>key count st b. k = ALimitConcurrency key count st b as) \<or> (\<exists>mode. k = AWait mode as) \<or>
         (\<exists>c i cond. k = ARetry c i cond as))) \<or>
     (\<exists>bs ot. compile_choose env sec strict False kids = Ok (Inr (bs, ot)) \<and> k = AChoose bs ot))"
proof (cases "documents_section name sec")
  case True
  note k = assms [unfolded compile_node.simps if_Ok_iff]
  show ?thesis
  proof (cases "name \<in> {''limit-concurrency'', ''wait'', ''choose'', ''retry''}")
    case False
    then show ?thesis using k True by auto
  next
    case composite: True
    then consider "name = ''limit-concurrency''" | "name = ''wait''" | "name = ''choose''" | "name = ''retry''"
      by blast
    then show ?thesis
    proof cases
      case 1
      note name = 1
      show ?thesis
      proof (cases "concurrency_head env (Node name ats body kids)")
        case (Inl e)
        then show ?thesis using k True name by simp
      next
        case (Inr x)
        then show ?thesis using k True name by (cases x) auto
      qed
    next
      case 2
      then show ?thesis using k True by (auto split: sum.splits)
    next
      case 3
      note name = 3
      show ?thesis
      proof (cases "compile_choose env sec strict False kids")
        case (Inl e)
        then show ?thesis using k True name by simp
      next
        case (Inr x)
        then show ?thesis using k True name by (cases x) (auto simp: invalid_def split: if_splits)
      qed
    next
      case 4
      then show ?thesis using k True by auto
    qed
  qed
next
  case False
  with assms show ?thesis by simp
qed

definition node_compiles_good :: "compile_env \<Rightarrow> string \<Rightarrow> bool \<Rightarrow> node \<Rightarrow> bool" where
  "node_compiles_good env sec strict n \<longleftrightarrow>
     (\<forall>k. compile_node env sec strict n = Ok k \<longrightarrow>
        documents_section (node_name n) sec \<and> sane_kind k \<and> kind_all (good_action sec strict) k)"

lemma compile_nodes_good_from:
  "\<forall>n \<in> set ns. node_compiles_good env sec strict n \<Longrightarrow> compile_nodes env sec strict ns = Ok as \<Longrightarrow>
     \<forall>a \<in> set as. action_all (good_action sec strict) a"
proof (induction ns arbitrary: as)
  case (Cons n ns)
  from Cons.prems(2) obtain k vs where k: "compile_node env sec strict n = Ok k"
    and none: "(if strict then unsupported_source k else None) = None"
    and vs: "compile_nodes env sec strict ns = Ok vs" and as: "as = Action (element_meta n) k # vs"
    by (auto simp del: unsupported_source_None split: option.splits)
  then have sup: "strict \<Longrightarrow> supported_kind k" by simp
  have "action_all (good_action sec strict) (Action (element_meta n) k)"
    using Cons.prems(1) k sup by (auto simp: node_compiles_good_def good_action_def element_meta_def)
  with Cons.IH [OF _ vs] Cons.prems(1) show ?case by (simp add: as)
qed simp

lemma compile_choose_good_from:
  "\<forall>n \<in> set ns. \<forall>as. compile_nodes env sec strict (node_children n) = Ok as \<longrightarrow>
        (\<forall>a \<in> set as. action_all (good_action sec strict) a) \<Longrightarrow>
     compile_choose env sec strict seen ns = Ok (Inr (bs, ot)) \<Longrightarrow>
     (\<forall>b \<in> set bs. \<forall>a \<in> set (snd b). action_all (good_action sec strict) a) \<and>
     (\<forall>a \<in> set ot. action_all (good_action sec strict) a)"
proof (induction ns arbitrary: seen bs ot)
  case (Cons n ns)
  obtain name ats body kids where n: "n = Node name ats body kids" by (cases n)
  from Cons.prems(2) consider
      (branch) as cond bs' where "compile_nodes env sec strict kids = Ok as"
        "compile_choose env sec strict seen ns = Ok (Inr (bs', ot))" "bs = (cond, as) # bs'"
    | (other) ot' where "compile_nodes env sec strict kids = Ok ot"
        "compile_choose env sec strict True ns = Ok (Inr (bs, ot'))"
    by (auto simp: n invalid_def Let_def split: if_splits)
  then show ?case
  proof cases
    case branch
    with Cons.IH [OF _ branch(2)] Cons.prems(1) n show ?thesis by auto
  next
    case other
    with Cons.IH [OF _ other(2)] Cons.prems(1) n show ?thesis by auto
  qed
qed simp

lemma compiled_good:
  "node_compiles_good env sec strict n \<and> (\<forall>as. compile_nodes env sec strict (node_children n) = Ok as \<longrightarrow>
     (\<forall>a \<in> set as. action_all (good_action sec strict) a))"
proof (induction n)
  case (Node name ats body kids)
  have kids: "\<forall>a \<in> set as. action_all (good_action sec strict) a" if "compile_nodes env sec strict kids = Ok as" for as
    using compile_nodes_good_from [OF _ that] Node by blast
  have "documents_section name sec \<and> sane_kind k \<and> kind_all (good_action sec strict) k"
    if "compile_node env sec strict (Node name ats body kids) = Ok k" for k
    using compile_node_cases [OF that]
  proof (elim conjE disjE exE)
    fix bs ot
    assume "documents_section name sec" "compile_choose env sec strict False kids = Ok (Inr (bs, ot))" "k = AChoose bs ot"
    with compile_choose_good_from [OF _ this(2)] Node show ?thesis by (simp add: sane_kind_def)
  next
    assume "documents_section name sec" "compile_limit env (Node name ats body kids) = Ok k"
      "name \<in> {''rate-limit-by-key'', ''quota-by-key'', ''rate-limit'', ''quota''}"
    with compile_limit_good [OF this(2)] show ?thesis by simp
  qed (auto simp: sane_kind_def dest: kids)
  then show ?case using kids by (auto simp: node_compiles_good_def)
qed

lemma compile_nodes_good:
  "compile_nodes env sec strict ns = Ok as \<Longrightarrow> \<forall>a \<in> set as. action_all (good_action sec strict) a"
  using compile_nodes_good_from compiled_good by blast

lemma plan_section_good:
  "good_plan strict p \<Longrightarrow> \<forall>a \<in> set as. action_all (good_action sec strict) a \<Longrightarrow>
     plan_section sec as p = Some p' \<Longrightarrow> good_plan strict p'"
  by (auto simp: plan_section_def good_plan_def split: if_splits)

lemma compile_sections_good:
  "compile_sections env strict seen ss p = Ok p' \<Longrightarrow> good_plan strict p \<Longrightarrow> good_plan strict p'"
proof (induction ss arbitrary: seen p)
  case (Cons s ss)
  then obtain as p1 where "compile_nodes env (node_name s) strict (node_children s) = Ok as"
      "plan_section (node_name s) as p = Some p1" "compile_sections env strict (node_name s # seen) ss p1 = Ok p'"
    by (auto split: if_splits sum.splits option.splits)
  with Cons.IH Cons.prems(2) plan_section_good compile_nodes_good show ?case by metis
qed simp

lemma compile_root_good: "compile_root env strict doc = Ok p \<Longrightarrow> good_plan strict p"
  by (rule compile_sections_good [of env strict "[]" "node_children doc" empty_plan])
    (auto simp: compile_root_def good_plan_def empty_plan_def split: if_splits)


text \<open>
  The guard of \<open>cache-store-value\<close> on its duration tests the number of seconds before the
  product with a second wraps: a duration of 9300000000 seconds passes as positive and is compiled
  to a negative one, so the stored value has already expired.
\<close>

theorem cache_duration_wraps:
  "\<exists>d. compile_node env ''inbound'' True
       (Node ''cache-store-value'' [(''key'', ''k''), (''duration'', ''9300000000'')] [] []) =
       Ok (ALeaf (ACacheStoreValue ''k'' [] d)) \<and> d < 0"
  by (simp add: documents_section_def policy_sections_def documented_in_def compile_leaf_def
      compile_cache_store_value_def attr_def compile_value_def is_expression_def trim_space_def
      has_children_def atoi_def parse_int_def split_sign_def is_digit_def digits_value_def
      digit_value_def seconds_def nanos_per_second_def int64_wrap_def)

definition demo_env :: compile_env where
  "demo_env = \<lparr>ce_parse_error = (\<lambda>_. None), ce_rfc3339 = (\<lambda>_. None)\<rparr>"

definition demo_document :: "xml_token list" where
  "demo_document = node_tokens (Node ''policies'' [] []
     [Node ''inbound'' [] []
        [Node ''rate-limit'' [(''calls'', ''5''), (''renewal-period'', ''60'')] [] [],
         Node ''choose'' [] [] [Node ''when'' [(''condition'', ''@(true)'')] [] [Node ''base'' [] [] []]]]])"

lemma demo_compiles:
  "case compile_with_fragments demo_env (\<lambda>_. None) [] True demo_document of
     Inl _ \<Rightarrow> False | Inr p \<Rightarrow> length (inbound p) = 2"
  by code_simp


end
