(* ===== verification/PolicyState.thy ===== *)
theory PolicyState
  imports Http PolicyCompile
begin

text \<open>
  The state policies run on, \<open>State\<close> of \<open>internal/policy/policy.go\<close>, and the shape of a policy
  handler: a Go function on \<open>*State\<close> that may fail is a function from the state to a result and the
  state after it, and a failure keeps what was already written.

  The function fields of \<open>State\<close> are the environment \<open>policy_env\<close>; \<open>None\<close> is a nil function.
  Those that reach into the gateway take and return its state, of type \<open>'w\<close>.  The evaluator of
  expressions (\<open>internal/expression\<close>) and what the policies use of \<open>encoding/json\<close>,
  \<open>encoding/xml\<close>, \<open>net\<close> and the JWT decoder are fields as well; objects that expressions handle
  (tokens, documents, credentials) have the type \<open>'o\<close>.
\<close>

section \<open>Values\<close>

datatype 'o expr_value =
    VNull
  | VBool bool
  | VInt int
  | VDouble 'o
  | VString string
  | VObject 'o

text \<open>\<open>Value.AsBool\<close> and the test for an object.\<close>

fun value_bool :: "'o expr_value \<Rightarrow> bool option" where
  "value_bool (VBool b) = Some b"
| "value_bool _ = None"

fun value_is_object :: "'o expr_value \<Rightarrow> bool" where
  "value_is_object (VObject _) = True"
| "value_is_object _ = False"

definition int_text :: "int \<Rightarrow> string" where
  "int_text n = (if n < 0 then CHR ''-'' # itoa (nat (- n)) else itoa (nat n))"

text \<open>\<open>Value.String\<close>; \<open>txt\<close> renders doubles and objects.\<close>

fun value_text :: "('o \<Rightarrow> string) \<Rightarrow> 'o expr_value \<Rightarrow> string" where
  "value_text txt VNull = []"
| "value_text txt (VBool b) = (if b then ''True'' else ''False'')"
| "value_text txt (VInt n) = int_text n"
| "value_text txt (VDouble d) = txt d"
| "value_text txt (VString s) = s"
| "value_text txt (VObject v) = txt v"

section \<open>The state\<close>

record limit_decision =
  ld_exceeded :: bool
  ld_remaining :: int
  ld_retry_after :: duration

text \<open>An increment postponed to the end of the pipeline: what its closure captures.\<close>

record pending_increment =
  pi_policy :: limit_policy
  pi_key :: string

record llm_governance =
  lg_counter_key :: string
  lg_tokens_per_minute :: int
  lg_config :: llm_config
  lg_quota_period :: string
  lg_quota :: int
  lg_emit :: bool
  lg_namespace :: string
  lg_dimensions :: "(string \<times> string) list"

record subscription_context =
  sc_id :: string
  sc_start_date :: string

record named_context = \<comment> \<open>\<open>ApiContext\<close> and \<open>OperationContext\<close>\<close>
  nc_id :: string
  nc_name :: string

record ('o, 'w) policy_state =
  ps_request :: "gateway_request option"
  ps_response :: "gateway_response option"
  ps_backend_url :: string
  ps_backend_id :: string
  ps_backend :: "'o option"
  ps_path :: string
  ps_returned :: bool
  ps_status :: int
  ps_reason :: string
  ps_body :: string
  ps_body_set :: bool
  ps_headers :: headers
  ps_variables :: "string \<rightharpoonup> string"
  ps_objects :: "string \<rightharpoonup> 'o expr_value"
  ps_credentials :: "string \<rightharpoonup> 'o"
  ps_traces :: "(string \<times> string) list"
  ps_releases :: "nat list"
  ps_pending :: "pending_increment list"
  ps_cache_key :: string
  ps_last_error :: "exec_error option"
  ps_api :: "named_context option"
  ps_operation :: "named_context option"
  ps_subscription :: "subscription_context option"
  ps_llm :: "llm_governance option"
  ps_section :: string
  ps_timestamp :: time
  ps_world :: 'w

section \<open>Handlers\<close>

type_synonym ('o, 'w, 'a) handler =
  "('o, 'w) policy_state \<Rightarrow> (exec_error, 'a) result \<times> ('o, 'w) policy_state"

definition done_with :: "'a \<Rightarrow> ('o, 'w, 'a) handler" where
  "done_with x = (\<lambda>s. (Ok x, s))"

definition fail_with :: "string \<Rightarrow> ('o, 'w, 'a) handler" where
  "fail_with message = (\<lambda>s. (Err (PlainError message), s))"

definition and_then :: "('o, 'w, 'a) handler \<Rightarrow> ('a \<Rightarrow> ('o, 'w, 'b) handler) \<Rightarrow> ('o, 'w, 'b) handler" where
  "and_then m f = (\<lambda>s. case m s of (Inl e, s') \<Rightarrow> (Err e, s') | (Inr x, s') \<Rightarrow> f x s')"

definition update :: "(('o, 'w) policy_state \<Rightarrow> ('o, 'w) policy_state) \<Rightarrow> ('o, 'w, unit) handler" where
  "update f = (\<lambda>s. (Ok (), f s))"

text \<open>A handler chosen by reading the state, and one made of a plain result.\<close>

definition reading :: "(('o, 'w) policy_state \<Rightarrow> ('o, 'w, 'a) handler) \<Rightarrow> ('o, 'w, 'a) handler" where
  "reading f = (\<lambda>s. f s s)"

definition result_of :: "(string, 'a) result \<Rightarrow> ('o, 'w, 'a) handler" where
  "result_of r = (case r of Inl message \<Rightarrow> fail_with message | Inr x \<Rightarrow> done_with x)"

text \<open>A call into the gateway.\<close>

definition calling :: "('w \<Rightarrow> 'a \<times> 'w) \<Rightarrow> ('o, 'w, 'a) handler" where
  "calling f = (\<lambda>s. case f (ps_world s) of (x, w) \<Rightarrow> (Ok x, s\<lparr>ps_world := w\<rparr>))"

text \<open>The handler runs on each element, in order; the results are collected.\<close>

fun each_of :: "('a \<Rightarrow> ('o, 'w, 'b) handler) \<Rightarrow> 'a list \<Rightarrow> ('o, 'w, 'b list) handler" where
  "each_of f [] = done_with []"
| "each_of f (x # xs) = and_then (f x) (\<lambda>y. and_then (each_of f xs) (\<lambda>ys. done_with (y # ys)))"

lemma done_with_apply [simp]: "done_with x s = (Ok x, s)"
  by (simp add: done_with_def)

lemma fail_with_apply [simp]: "fail_with m s = (Err (PlainError m), s)"
  by (simp add: fail_with_def)

lemma update_apply [simp]: "update f s = (Ok (), f s)"
  by (simp add: update_def)

lemma reading_apply [simp]: "reading f s = f s s"
  by (simp add: reading_def)

lemma calling_apply [simp]: "calling f s = (Ok (fst (f (ps_world s))), s\<lparr>ps_world := snd (f (ps_world s))\<rparr>)"
  by (simp add: calling_def split: prod.splits)

lemma result_of_simps [simp]: "result_of (Inl m) = fail_with m" "result_of (Inr x) = done_with x"
  by (simp_all add: result_of_def)

lemma and_then_Ok: "m s = (Inr x, s') \<Longrightarrow> and_then m f s = f x s'"
  by (simp add: and_then_def)

lemma and_then_Err: "m s = (Inl e, s') \<Longrightarrow> and_then m f s = (Inl e, s')"
  by (simp add: and_then_def)

lemma and_then_done_with [simp]: "and_then (done_with x) f = f x"
  by (rule ext) (simp add: and_then_def)

lemma and_then_fail_with [simp]: "and_then (fail_with m) f = fail_with m"
  by (rule ext) (simp add: and_then_def)

lemma and_then_update [simp]: "and_then (update g) f s = f () (g s)"
  by (simp add: and_then_def)

lemma and_then_reading [simp]: "and_then (reading h) f s = and_then (h s) f s"
  by (simp add: and_then_def)

lemma and_then_calling [simp]:
  "and_then (calling h) f s = f (fst (h (ps_world s))) (s\<lparr>ps_world := snd (h (ps_world s))\<rparr>)"
  by (simp add: and_then_def)

lemma and_then_assoc: "and_then (and_then m f) g = and_then m (\<lambda>x. and_then (f x) g)"
  by (rule ext) (simp add: and_then_def split: sum.splits prod.splits)

lemma and_then_done [simp]: "and_then m done_with = m"
  by (rule ext) (simp add: and_then_def done_with_def split: sum.splits prod.splits)

lemma and_then_Inr_iff:
  "and_then m f s = (Inr y, s'') \<longleftrightarrow> (\<exists>x s'. m s = (Inr x, s') \<and> f x s' = (Inr y, s''))"
  by (simp add: and_then_def split: sum.splits prod.splits)

lemma and_then_Inl_iff:
  "and_then m f s = (Inl e, s'') \<longleftrightarrow>
     m s = (Inl e, s'') \<or> (\<exists>x s'. m s = (Inr x, s') \<and> f x s' = (Inl e, s''))"
  by (auto simp: and_then_def split: sum.splits prod.splits)

lemma and_then_InrE:
  assumes "and_then m f s = (Inr y, s'')"
  obtains x s' where "m s = (Inr x, s')" "f x s' = (Inr y, s'')"
  using assms unfolding and_then_Inr_iff by blast

section \<open>The environment\<close>

record outgoing_request =
  og_method :: string
  og_url :: string
  og_headers :: headers
  og_body :: string

record ('o, 'w) policy_env =
  pe_eval :: "string \<Rightarrow> ('o, 'w, 'o expr_value) handler"
  pe_object_text :: "'o \<Rightarrow> string"
  pe_jwt_object :: "string \<Rightarrow> 'o"
  pe_jwt_payload :: "string \<Rightarrow> (string \<times> json) list option"
  pe_number_text :: "rat \<Rightarrow> string" \<comment> \<open>\<open>strconv.FormatFloat(x, 'f', -1, 64)\<close>\<close>
  pe_sprint :: "json \<Rightarrow> string" \<comment> \<open>\<open>fmt.Sprint\<close> of a decoded number or object\<close>
  pe_parse_json :: "string \<Rightarrow> (string, json) result"
  pe_print_json :: "json \<Rightarrow> string"
  pe_parse_xml :: "string \<Rightarrow> (string, node) result"
  pe_base64 :: "string \<Rightarrow> string"
  pe_thumbprint :: "string \<Rightarrow> string"
  pe_ip_matches :: "string \<Rightarrow> string \<Rightarrow> bool"
  pe_rfc3339 :: "string \<Rightarrow> time option"
  pe_request_error :: "string \<Rightarrow> string \<Rightarrow> string option" \<comment> \<open>\<open>http.NewRequest\<close>, by method and URL\<close>
  pe_backends :: "string \<rightharpoonup> 'o"
  pe_now :: time
  pe_tracing :: bool
  pe_fetch_credential :: "(string \<Rightarrow> string \<Rightarrow> 'w \<Rightarrow> (string, 'o) result \<times> 'w) option"
  pe_validate_token :: "(string \<Rightarrow> bool) option"
  pe_validate_against :: "(string \<Rightarrow> open_id_config list \<Rightarrow> 'w \<Rightarrow> (string list option) \<times> 'w) option"
  pe_send :: "(outgoing_request \<Rightarrow> 'w \<Rightarrow> (string, int option) result \<times> 'w) option"
  pe_acquire_token :: "(string \<Rightarrow> 'w \<Rightarrow> (string, string) result \<times> 'w) option"
  pe_acquire_oauth2 :: "(string \<Rightarrow> string \<Rightarrow> string \<Rightarrow> string \<Rightarrow> 'w \<Rightarrow> (string, string) result \<times> 'w) option"
  pe_attach_certificate :: "(gateway_request \<Rightarrow> string \<Rightarrow> 'w \<Rightarrow> (string, gateway_request) result \<times> 'w) option"
  pe_value_get :: "(string \<Rightarrow> 'w \<Rightarrow> string option \<times> 'w) option"
  pe_value_set :: "(string \<Rightarrow> string \<Rightarrow> duration \<Rightarrow> 'w \<Rightarrow> 'w) option"
  pe_value_remove :: "(string \<Rightarrow> 'w \<Rightarrow> 'w) option"
  pe_rate_limit :: "(string \<Rightarrow> int \<Rightarrow> duration \<Rightarrow> int \<Rightarrow> 'w \<Rightarrow> limit_decision \<times> 'w) option"
  pe_bandwidth_limit :: "(string \<Rightarrow> int \<Rightarrow> int \<Rightarrow> duration \<Rightarrow> 'w \<Rightarrow> limit_decision \<times> 'w) option"
  pe_acquire_concurrency :: "(string \<Rightarrow> int \<Rightarrow> 'w \<Rightarrow> nat option \<times> 'w) option"
  pe_cache_get :: "(string \<Rightarrow> 'w \<Rightarrow> (int \<times> headers \<times> string) option \<times> 'w) option"
  pe_cache_set :: "(string \<Rightarrow> int \<Rightarrow> headers \<Rightarrow> string \<Rightarrow> duration \<Rightarrow> 'w \<Rightarrow> 'w) option"
  pe_token_limit :: "(string \<Rightarrow> int \<Rightarrow> int \<Rightarrow> 'w \<Rightarrow> (int \<times> int \<times> bool) \<times> 'w) option"
  pe_token_quota :: "(string \<Rightarrow> int \<Rightarrow> string \<Rightarrow> int \<Rightarrow> 'w \<Rightarrow> (int \<times> int \<times> bool) \<times> 'w) option"

section \<open>Evaluation\<close>

text \<open>\<open>evalRaw\<close>, \<open>evalValue\<close> and \<open>evaluateCondition\<close>.\<close>

definition eval_raw :: "('o, 'w) policy_env \<Rightarrow> string \<Rightarrow> ('o, 'w, 'o expr_value) handler" where
  "eval_raw env v = (if \<not> is_expression v then done_with (VString v) else pe_eval env v)"

definition eval_value :: "('o, 'w) policy_env \<Rightarrow> string \<Rightarrow> ('o, 'w, string) handler" where
  "eval_value env v = and_then (eval_raw env v) (\<lambda>x. done_with (value_text (pe_object_text env) x))"

definition evaluate_condition :: "('o, 'w) policy_env \<Rightarrow> string \<Rightarrow> ('o, 'w, bool) handler" where
  "evaluate_condition env c = and_then (pe_eval env c) (\<lambda>x.
     case value_bool x of
       None \<Rightarrow> fail_with ''choose condition must be boolean''
     | Some b \<Rightarrow> done_with b)"

lemma eval_value_literal [simp]: "\<not> is_expression v \<Longrightarrow> eval_value env v = done_with v"
  by (rule ext) (simp add: eval_value_def eval_raw_def)

text \<open>\<open>setVariable\<close>, \<open>setHeader\<close>, the trace.\<close>

definition set_variable :: "string \<Rightarrow> string \<Rightarrow> ('o, 'w, unit) handler" where
  "set_variable name v = update (\<lambda>s. s\<lparr>ps_variables := (ps_variables s)(name \<mapsto> v)\<rparr>)"

definition put_header :: "string \<Rightarrow> string \<Rightarrow> ('o, 'w, unit) handler" where
  "put_header name v = update (\<lambda>s. s\<lparr>ps_headers := header_put name v (ps_headers s)\<rparr>)"

definition add_trace :: "('o, 'w) policy_env \<Rightarrow> string \<Rightarrow> string \<Rightarrow> ('o, 'w, unit) handler" where
  "add_trace env source message =
     (if pe_tracing env then update (\<lambda>s. s\<lparr>ps_traces := ps_traces s @ [(source, message)]\<rparr>) else done_with ())"

definition set_header :: "policy_header \<Rightarrow> headers \<Rightarrow> headers" where
  "set_header h hs =
     (if ph_action h = ''append'' then header_add (ph_name h) (ph_value h) hs
      else if ph_action h = ''skip'' then
        (if header_get_of hs (ph_name h) = [] then header_put (ph_name h) (ph_value h) hs else hs)
      else if ph_action h = ''delete'' then header_remove (ph_name h) hs
      else header_put (ph_name h) (ph_value h) hs)"

text \<open>The answer a policy gives itself: later policies of the section do not run.\<close>

definition answer :: "int \<Rightarrow> string \<Rightarrow> ('o, 'w, unit) handler" where
  "answer code body = update (\<lambda>s. s\<lparr>ps_returned := True, ps_status := code, ps_body := body\<rparr>)"

section \<open>What evaluation leaves alone\<close>

text \<open>
  The part of the state an expression cannot write: everything but the bodies of the request and the
  response, which reading may consume, and the trace.
\<close>

definition request_head :: "gateway_request \<Rightarrow> gateway_request" where
  "request_head r = r\<lparr>gr_body := None, gr_get_body := None, gr_content_length := 0\<rparr>"

definition control :: "('o, 'w) policy_state \<Rightarrow> ('o, 'w) policy_state" where
  "control s = s\<lparr>ps_request := map_option request_head (ps_request s),
      ps_response := map_option (\<lambda>r. r\<lparr>gs_body := None\<rparr>) (ps_response s), ps_traces := []\<rparr>"

definition eval_keeps_control :: "('o, 'w) policy_env \<Rightarrow> bool" where
  "eval_keeps_control env \<longleftrightarrow> (\<forall>e s. control (snd (pe_eval env e s)) = control s)"

lemma request_head_sel [simp]:
  "gr_method (request_head r) = gr_method r" "gr_query (request_head r) = gr_query r"
  "gr_headers (request_head r) = gr_headers r" "gr_remote_addr (request_head r) = gr_remote_addr r"
  "gr_certificates (request_head r) = gr_certificates r" "gr_host (request_head r) = gr_host r"
  by (simp_all add: request_head_def)

lemma control_sel [simp]:
    "ps_request (control s) = map_option request_head (ps_request s)"
    "ps_returned (control s) = ps_returned s"
    "ps_status (control s) = ps_status s"
    "ps_body (control s) = ps_body s"
    "ps_headers (control s) = ps_headers s"
    "ps_variables (control s) = ps_variables s"
    "ps_objects (control s) = ps_objects s"
    "ps_world (control s) = ps_world s"
    "ps_pending (control s) = ps_pending s"
    "ps_section (control s) = ps_section s"
    "ps_subscription (control s) = ps_subscription s"
    "ps_timestamp (control s) = ps_timestamp s"
    "ps_api (control s) = ps_api s"
    "ps_operation (control s) = ps_operation s"
    "ps_releases (control s) = ps_releases s"
    "ps_path (control s) = ps_path s"
    "ps_backend_url (control s) = ps_backend_url s"
  by (simp_all add: control_def)

lemma control_fields:
  assumes "control s = control t"
  shows "map_option request_head (ps_request s) = map_option request_head (ps_request t)"
    "ps_returned s = ps_returned t"
    "ps_status s = ps_status t"
    "ps_body s = ps_body t"
    "ps_headers s = ps_headers t"
    "ps_variables s = ps_variables t"
    "ps_objects s = ps_objects t"
    "ps_world s = ps_world t"
    "ps_pending s = ps_pending t"
    "ps_section s = ps_section t"
    "ps_subscription s = ps_subscription t"
    "ps_timestamp s = ps_timestamp t"
    "ps_api s = ps_api t"
    "ps_operation s = ps_operation t"
    "ps_releases s = ps_releases t"
    "ps_path s = ps_path t"
    "ps_backend_url s = ps_backend_url t"
proof -
  show "map_option request_head (ps_request s) = map_option request_head (ps_request t)"
    using arg_cong [OF assms, of ps_request] by simp
  show "ps_returned s = ps_returned t" using arg_cong [OF assms, of ps_returned] by simp
  show "ps_status s = ps_status t" using arg_cong [OF assms, of ps_status] by simp
  show "ps_body s = ps_body t" using arg_cong [OF assms, of ps_body] by simp
  show "ps_headers s = ps_headers t" using arg_cong [OF assms, of ps_headers] by simp
  show "ps_variables s = ps_variables t" using arg_cong [OF assms, of ps_variables] by simp
  show "ps_objects s = ps_objects t" using arg_cong [OF assms, of ps_objects] by simp
  show "ps_world s = ps_world t" using arg_cong [OF assms, of ps_world] by simp
  show "ps_pending s = ps_pending t" using arg_cong [OF assms, of ps_pending] by simp
  show "ps_section s = ps_section t" using arg_cong [OF assms, of ps_section] by simp
  show "ps_subscription s = ps_subscription t" using arg_cong [OF assms, of ps_subscription] by simp
  show "ps_timestamp s = ps_timestamp t" using arg_cong [OF assms, of ps_timestamp] by simp
  show "ps_api s = ps_api t" using arg_cong [OF assms, of ps_api] by simp
  show "ps_operation s = ps_operation t" using arg_cong [OF assms, of ps_operation] by simp
  show "ps_releases s = ps_releases t" using arg_cong [OF assms, of ps_releases] by simp
  show "ps_path s = ps_path t" using arg_cong [OF assms, of ps_path] by simp
  show "ps_backend_url s = ps_backend_url t" using arg_cong [OF assms, of ps_backend_url] by simp
qed

text \<open>A handler that leaves the control part alone, whatever its result.\<close>

definition keeps :: "('o, 'w, 'a) handler \<Rightarrow> bool" where
  "keeps m \<longleftrightarrow> (\<forall>s. control (snd (m s)) = control s)"

named_theorems keeps_intros

lemma keepsD: "keeps m \<Longrightarrow> m s = (r, s') \<Longrightarrow> control s' = control s"
  unfolding keeps_def by (metis snd_conv)

lemma keeps_done_with [keeps_intros]: "keeps (done_with x)"
  by (simp add: keeps_def)

lemma keeps_fail_with [keeps_intros]: "keeps (fail_with x)"
  by (simp add: keeps_def)

lemma keeps_and_then [keeps_intros]:
  assumes m: "keeps m" and f: "\<And>x. keeps (f x)"
  shows "keeps (and_then m f)"
  unfolding keeps_def
proof
  fix s
  obtain r s1 where ms: "m s = (r, s1)" by fastforce
  have "control s1 = control s" by (rule keepsD [OF m ms])
  moreover have "control (snd (f x s1)) = control s1" for x using f [of x] by (simp add: keeps_def)
  ultimately show "control (snd (and_then m f s)) = control s"
    by (cases r) (simp_all add: and_then_def ms)
qed

lemma keeps_each_of [keeps_intros]: "(\<And>x. keeps (f x)) \<Longrightarrow> keeps (each_of f xs)"
  by (induction xs) (simp_all add: keeps_intros)

lemma keeps_pe_eval [keeps_intros]: "eval_keeps_control env \<Longrightarrow> keeps (pe_eval env v)"
  by (simp add: eval_keeps_control_def keeps_def)

lemma keeps_eval_raw [keeps_intros]: "eval_keeps_control env \<Longrightarrow> keeps (eval_raw env v)"
  by (simp add: eval_raw_def keeps_intros)

lemma keeps_eval_value [keeps_intros]: "eval_keeps_control env \<Longrightarrow> keeps (eval_value env v)"
  by (simp add: eval_value_def keeps_intros)

lemma keeps_evaluate_condition [keeps_intros]: "eval_keeps_control env \<Longrightarrow> keeps (evaluate_condition env v)"
  by (auto simp: evaluate_condition_def intro!: keeps_intros split: option.split)

section \<open>An empty exchange\<close>

text \<open>
  The zero value of \<open>State\<close> around a world, and the environment of a gateway with no service
  attached whose expressions evaluate to their own text: concrete inputs for the theorems.
\<close>

definition blank_state :: "'w \<Rightarrow> ('o, 'w) policy_state" where
  "blank_state w =
     \<lparr>ps_request = None, ps_response = None, ps_backend_url = [], ps_backend_id = [], ps_backend = None, ps_path = [],
      ps_returned = False, ps_status = 0, ps_reason = [], ps_body = [], ps_body_set = False, ps_headers = [],
      ps_variables = Map.empty, ps_objects = Map.empty, ps_credentials = Map.empty, ps_traces = [], ps_releases = [],
      ps_pending = [], ps_cache_key = [], ps_last_error = None, ps_api = None, ps_operation = None,
      ps_subscription = None, ps_llm = None, ps_section = ''inbound'', ps_timestamp = 0, ps_world = w\<rparr>"

definition plain_env :: "(string, 'w) policy_env" where
  "plain_env =
     \<lparr>pe_eval = (\<lambda>e. done_with (VString e)), pe_object_text = id, pe_jwt_object = id, pe_jwt_payload = (\<lambda>_. None),
      pe_number_text = (\<lambda>_. []), pe_sprint = (\<lambda>_. []), pe_parse_json = (\<lambda>_. Err []), pe_print_json = (\<lambda>_. []),
      pe_parse_xml = (\<lambda>_. Err []), pe_base64 = id, pe_thumbprint = id, pe_ip_matches = (=), pe_rfc3339 = (\<lambda>_. None),
      pe_request_error = (\<lambda>_ _. None), pe_backends = Map.empty, pe_now = 0, pe_tracing = False,
      pe_fetch_credential = None, pe_validate_token = None, pe_validate_against = None, pe_send = None,
      pe_acquire_token = None, pe_acquire_oauth2 = None, pe_attach_certificate = None, pe_value_get = None,
      pe_value_set = None, pe_value_remove = None, pe_rate_limit = None, pe_bandwidth_limit = None,
      pe_acquire_concurrency = None, pe_cache_get = None, pe_cache_set = None, pe_token_limit = None,
      pe_token_quota = None\<rparr>"

definition blank_request :: gateway_request where
  "blank_request =
     \<lparr>gr_method = ''GET'', gr_scheme = [], gr_host = ''h'', gr_query = [], gr_headers = [], gr_body = Some [],
      gr_get_body = None, gr_content_length = 0, gr_remote_addr = ''1'', gr_certificates = None\<rparr>"

lemma plain_env_keeps [simp]: "eval_keeps_control plain_env"
  by (simp add: eval_keeps_control_def plain_env_def)

end
