(* ===== verification/PolicyTokens.thy ===== *)
theory PolicyTokens
  imports PolicyState
begin

text \<open>
  Token validation, \<open>applyValidateJWT\<close> of \<open>internal/policy/policy.go\<close> and its helpers: the token is
  taken from the request, its signature is checked by the gateway, its payload is decoded and held
  against the lifetime and the claims the policy demands.  Seconds in a claim are truncated toward
  zero, as Go converts a float that is in range.
\<close>

text \<open>The verb \<open>%q\<close>, for text without quotes, backslashes and control characters.\<close>

definition go_quoted :: "string \<Rightarrow> string" where
  "go_quoted s = CHR 0x22 # s @ [CHR 0x22]"

section \<open>Claims\<close>

function split_string :: "string \<Rightarrow> string \<Rightarrow> string \<Rightarrow> string list" where
  "split_string sep acc [] = [acc]"
| "split_string sep acc (c # cs) =
     (if sep \<noteq> [] \<and> has_prefix (c # cs) sep then acc # split_string sep [] (drop (length sep) (c # cs))
      else split_string sep (acc @ [c]) cs)"
  by pat_completeness auto

termination split_string
  by (relation "measure (\<lambda>(_, _, s). length s)") (auto simp: neq_Nil_conv)

text \<open>\<open>claimStrings\<close> without and with a separator.\<close>

fun claim_texts :: "('o, 'w) policy_env \<Rightarrow> json \<Rightarrow> string list" where
  "claim_texts env JNull = []"
| "claim_texts env (JStr s) = [s]"
| "claim_texts env (JNum q) = [pe_number_text env q]"
| "claim_texts env (JBool b) = [if b then ''true'' else ''false'']"
| "claim_texts env (JArr vs) = concat (map (claim_texts env) vs)"
| "claim_texts env (JObj kvs) = [pe_sprint env (JObj kvs)]"

definition claim_strings :: "('o, 'w) policy_env \<Rightarrow> json option \<Rightarrow> string \<Rightarrow> string list" where
  "claim_strings env v separator =
     (let raw = (case v of None \<Rightarrow> [] | Some v \<Rightarrow> claim_texts env v) in
      if separator = [] then raw
      else concat (map (\<lambda>item. filter (\<lambda>p. p \<noteq> []) (map trim_space (split_string separator [] item))) raw))"

definition contains_any :: "string list \<Rightarrow> string list \<Rightarrow> bool" where
  "contains_any actual allowed = list_ex (\<lambda>have. list_ex (\<lambda>want. have = want) allowed) actual"

definition match_claim_values :: "string list \<Rightarrow> string list \<Rightarrow> bool \<Rightarrow> bool" where
  "match_claim_values actual required match_any =
     (if required = [] then \<not> match_any
      else if match_any then contains_any actual required
      else list_all (\<lambda>want. list_ex (\<lambda>have. have = want) actual) required)"

type_synonym claims = "(string \<times> json) list"

definition enforce_token_constraints ::
  "('o, 'w) policy_env \<Rightarrow> token_constraints \<Rightarrow> claims \<Rightarrow> string list \<Rightarrow> bool" where
  "enforce_token_constraints env tc cl discovered =
     (if tc_audiences tc = [] \<and> tc_issuers tc = [] \<and> tc_client_app_ids tc = [] \<and> tc_claims tc = []
         \<and> discovered = [] then True
      else let allowed_issuers = (if tc_issuers tc = [] then discovered else tc_issuers tc) in
        if allowed_issuers \<noteq> [] \<and> \<not> contains_any (claim_strings env (map_of cl ''iss'') []) allowed_issuers
        then False
        else if tc_audiences tc \<noteq> [] \<and> \<not> contains_any (claim_strings env (map_of cl ''aud'') []) (tc_audiences tc)
        then False
        else if tc_client_app_ids tc \<noteq> [] \<and>
          \<not> contains_any (claim_strings env (map_of cl ''appid'') [] @ claim_strings env (map_of cl ''azp'') [])
              (tc_client_app_ids tc)
        then False
        else list_all (\<lambda>c. match_claim_values (claim_strings env (map_of cl (cc_name c)) (cc_separator c))
                             (cc_values c) (cc_match_any c)) (tc_claims tc))"

definition claim_seconds :: "json option \<Rightarrow> int option" where
  "claim_seconds v =
     (case v of
        Some (JNum q) \<Rightarrow> Some (if q \<ge> 0 then \<lfloor>q\<rfloor> else \<lceil>q\<rceil>)
      | Some (JStr s) \<Rightarrow> parse_int 64 (trim_space s)
      | _ \<Rightarrow> None)"

text \<open>\<open>Time.Unix\<close>\<close>

definition unix_seconds :: "time \<Rightarrow> int" where
  "unix_seconds t = t div nanos_per_second"

text \<open>\<open>tokenIsCurrent\<close>; \<open>now\<close> is the timestamp of the request, or the clock when it has none.\<close>

definition token_is_current :: "bool \<Rightarrow> duration \<Rightarrow> claims \<Rightarrow> time \<Rightarrow> bool" where
  "token_is_current require_expiry skew cl now =
     (case claim_seconds (map_of cl ''exp'') of
        None \<Rightarrow> \<not> require_expiry
      | Some expiry \<Rightarrow>
          if unix_seconds (now - skew) \<ge> expiry then False
          else (case claim_seconds (map_of cl ''nbf'') of
                  Some not_before \<Rightarrow> \<not> unix_seconds (now + skew) < not_before
                | None \<Rightarrow> True))"

definition state_now :: "('o, 'w) policy_env \<Rightarrow> ('o, 'w) policy_state \<Rightarrow> time" where
  "state_now env s = (if ps_timestamp s = zero_time then pe_now env else ps_timestamp s)"

section \<open>The token of a request\<close>

text \<open>The token, and whether it was presented with the scheme the policy requires.\<close>

definition token_from_request :: "gateway_request \<Rightarrow> string \<Rightarrow> string \<Rightarrow> string \<Rightarrow> string \<times> bool" where
  "token_from_request req header_name query_name scheme0 =
     (if query_name \<noteq> [] then (trim_space (values_get (gr_query req) query_name), True)
      else let name = (if header_name = [] then ''Authorization'' else header_name);
               raw = trim_space (header_get_of (gr_headers req) name);
               scheme = trim_space scheme0 in
        if scheme \<noteq> [] then
          (let prefix = scheme @ '' '' in
           if length raw < length prefix \<or> \<not> equal_fold (take (length prefix) raw) prefix then ([], False)
           else (trim_space (drop (length prefix) raw), True))
        else (trim_space (trim_prefix raw ''Bearer ''), True))"

section \<open>The policy\<close>

text \<open>The status: the literal one, or the one an expression gives, which must be a valid code.\<close>

definition evaluated_status ::
  "('o, 'w) policy_env \<Rightarrow> int \<Rightarrow> string \<Rightarrow> string \<Rightarrow> ('o, 'w, int) handler" where
  "evaluated_status env code expr message =
     (if expr = [] then done_with code
      else and_then (eval_value env expr) (\<lambda>v.
        case sscanf_int v of
          None \<Rightarrow> fail_with message
        | Some n \<Rightarrow> if n < 100 \<or> n > 599 then fail_with message else done_with n))"

definition signature_required :: "('o, 'w) policy_env \<Rightarrow> string \<Rightarrow> ('o, 'w, bool) handler" where
  "signature_required env require_signed =
     (if require_signed = [] then done_with True
      else and_then (eval_value env require_signed) (\<lambda>v.
        case parse_bool (trim_space v) of
          None \<Rightarrow> fail_with (''invalid require-signed-tokens '' @ go_quoted v)
        | Some b \<Rightarrow> done_with b))"

text \<open>Whether the signature is accepted, and the issuers discovery names.\<close>

definition check_signature ::
  "('o, 'w) policy_env \<Rightarrow> bool \<Rightarrow> open_id_config list \<Rightarrow> string \<Rightarrow> ('o, 'w, bool \<times> string list) handler" where
  "check_signature env must_be_signed configs tok =
     (if must_be_signed \<and> configs = [] \<and> pe_validate_token env = None
      then fail_with ''validate-jwt requires a configured token validator''
      else if must_be_signed \<and> configs \<noteq> [] \<and> pe_validate_against env = None
      then fail_with ''validate-jwt openid-config requires a configured discovery fetcher''
      else if \<not> must_be_signed then done_with (True, [])
      else if configs \<noteq> [] then
        and_then (calling (the (pe_validate_against env) tok configs)) (\<lambda>r.
          done_with (case r of None \<Rightarrow> (False, []) | Some issuers \<Rightarrow> (True, issuers)))
      else done_with (the (pe_validate_token env) tok, []))"

definition token_accepted ::
  "('o, 'w) policy_env \<Rightarrow> jwt_policy \<Rightarrow> string \<Rightarrow> bool \<Rightarrow> string list \<Rightarrow> time \<Rightarrow> bool" where
  "token_accepted env jp tok signature_ok discovered now =
     (case pe_jwt_payload env tok of
        None \<Rightarrow> False
      | Some cl \<Rightarrow> signature_ok \<and> token_is_current (jp_require_expiry jp) (jp_clock_skew jp) cl now
                 \<and> enforce_token_constraints env (jp_constraints jp) cl discovered)"

definition check_tenant :: "('o, 'w) policy_env \<Rightarrow> string \<Rightarrow> ('o, 'w, unit) handler" where
  "check_tenant env tenant =
     (if tenant = [] then done_with ()
      else and_then (eval_value env tenant) (\<lambda>v.
        if trim_space v = [] then fail_with ''validate-azure-ad-token requires a tenant-id'' else done_with ()))"

text \<open>The end of the handler, once the token is at hand.\<close>

definition validate_token ::
  "('o, 'w) policy_env \<Rightarrow> jwt_policy \<Rightarrow> int \<Rightarrow> string \<Rightarrow> string \<Rightarrow> ('o, 'w, unit) handler" where
  "validate_token env jp code message tok =
     and_then (signature_required env (jp_require_signed jp)) (\<lambda>must_be_signed.
     and_then (check_signature env must_be_signed (tc_open_id_configs (jp_constraints jp)) tok)
       (\<lambda>(signature_ok, discovered). reading (\<lambda>s.
          if \<not> token_accepted env jp tok signature_ok discovered (state_now env s) then answer code message
          else if jp_output_variable jp = [] then done_with ()
          else update (\<lambda>s. s\<lparr>ps_objects := (ps_objects s)(jp_output_variable jp \<mapsto> VObject (pe_jwt_object env tok))\<rparr>))))"

definition apply_validate_jwt :: "('o, 'w) policy_env \<Rightarrow> jwt_policy \<Rightarrow> ('o, 'w, unit) handler" where
  "apply_validate_jwt env jp = reading (\<lambda>s.
     if ps_request s = None then fail_with ''validate-jwt requires a request''
     else
       and_then (check_tenant env (jp_tenant jp)) (\<lambda>_.
       and_then (eval_value env (jp_header_name jp)) (\<lambda>header_name.
       and_then (eval_value env (jp_query_name jp)) (\<lambda>query_name.
       and_then (evaluated_status env (jp_code jp) (jp_code_expression jp) ''invalid validate-azure-ad-token status'') (\<lambda>code.
       and_then (eval_value env (jp_message jp)) (\<lambda>message.
       and_then (eval_value env (jp_require_scheme jp)) (\<lambda>scheme. reading (\<lambda>s.
         case ps_request s of
           None \<Rightarrow> fail_with ''validate-jwt requires a request''
         | Some req \<Rightarrow>
             (case token_from_request req header_name query_name scheme of
                (tok, False) \<Rightarrow> answer code message
              | (tok, True) \<Rightarrow> validate_token env jp code message tok)))))))))"

section \<open>What acceptance means\<close>

lemma contains_any_iff: "contains_any actual allowed \<longleftrightarrow> set actual \<inter> set allowed \<noteq> {}"
  by (auto simp: contains_any_def list_ex_iff)

lemma match_claim_values_iff:
  "match_claim_values actual required match_any \<longleftrightarrow>
     (if match_any then set actual \<inter> set required \<noteq> {} else set required \<subseteq> set actual)"
  by (auto simp: match_claim_values_def contains_any_iff list_ex_iff list_all_iff)

lemma token_from_request_head: "token_from_request (request_head r) = token_from_request r"
  by (intro ext) (simp add: token_from_request_def)

lemma keeps_evaluated_status [keeps_intros]:
  "eval_keeps_control env \<Longrightarrow> keeps (evaluated_status env c e m)"
  by (auto simp: evaluated_status_def intro!: keeps_intros split: option.split)

lemma keeps_signature_required [keeps_intros]:
  "eval_keeps_control env \<Longrightarrow> keeps (signature_required env v)"
  by (auto simp: signature_required_def intro!: keeps_intros split: option.split)

lemma keeps_check_tenant [keeps_intros]: "eval_keeps_control env \<Longrightarrow> keeps (check_tenant env v)"
  by (auto simp: check_tenant_def intro!: keeps_intros)

text \<open>\<open>accepted_by\<close>: the checks a token passed, stated without the handler.\<close>

definition accepted_by ::
  "('o, 'w) policy_env \<Rightarrow> jwt_policy \<Rightarrow> string \<Rightarrow> time \<Rightarrow> bool" where
  "accepted_by env jp tok now \<longleftrightarrow>
     (\<exists>cl discovered. pe_jwt_payload env tok = Some cl
        \<and> token_is_current (jp_require_expiry jp) (jp_clock_skew jp) cl now
        \<and> enforce_token_constraints env (jp_constraints jp) cl discovered
        \<and> (jp_require_signed jp = [] \<longrightarrow>
             (if tc_open_id_configs (jp_constraints jp) = []
              then \<exists>f. pe_validate_token env = Some f \<and> f tok
              else \<exists>f w w'. pe_validate_against env = Some f \<and>
                     f tok (tc_open_id_configs (jp_constraints jp)) w = (Some discovered, w'))))"

lemma check_signature_ok:
  assumes "check_signature env True configs tok s = (Inr (True, discovered), s')"
  shows "if configs = [] then \<exists>f. pe_validate_token env = Some f \<and> f tok
         else \<exists>f w w'. pe_validate_against env = Some f \<and> f tok configs w = (Some discovered, w')"
  using assms
  by (auto simp: check_signature_def split: if_splits option.splits) (metis prod.collapse)+

lemma check_signature_frame:
  "check_signature env b configs tok s = (r, s') \<Longrightarrow> ps_returned s' = ps_returned s \<and> ps_timestamp s' = ps_timestamp s"
  by (auto simp: check_signature_def split: if_splits option.splits)

lemma validate_token_accepted:
  assumes "eval_keeps_control env" and "validate_token env jp code message tok s = (Inr (), s')"
    and "\<not> ps_returned s" and "\<not> ps_returned s'"
  shows "accepted_by env jp tok (state_now env s)"
proof -
  let ?tail = "\<lambda>sig disc s. if \<not> token_accepted env jp tok sig disc (state_now env s) then answer code message
         else if jp_output_variable jp = [] then done_with ()
         else update (\<lambda>s. s\<lparr>ps_objects := (ps_objects s)(jp_output_variable jp \<mapsto> VObject (pe_jwt_object env tok))\<rparr>)"
  obtain b s1 where 1: "signature_required env (jp_require_signed jp) s = (Inr b, s1)"
    and r1: "and_then (check_signature env b (tc_open_id_configs (jp_constraints jp)) tok)
               (\<lambda>(sig, disc). reading (?tail sig disc)) s1 = (Inr (), s')"
    using assms(2) unfolding validate_token_def by (rule and_then_InrE)
  obtain p s2 where p: "check_signature env b (tc_open_id_configs (jp_constraints jp)) tok s1 = (Inr p, s2)"
    and rest: "(case p of (sig, disc) \<Rightarrow> reading (?tail sig disc)) s2 = (Inr (), s')"
    using r1 by (rule and_then_InrE)
  obtain sig disc where pair: "p = (sig, disc)" by (cases p)
  note 2 = p [unfolded pair]
  from rest have 3: "?tail sig disc s2 s2 = (Inr (), s')" by (simp only: pair prod.case reading_apply)
  have "control s1 = control s" by (rule keepsD [OF keeps_signature_required [OF assms(1)] 1])
  with check_signature_frame [OF 2] control_fields(12) [of s1 s] have now: "state_now env s2 = state_now env s"
    by (simp add: state_now_def)
  have ok: "token_accepted env jp tok sig disc (state_now env s2)"
    using 3 assms(4) by (auto simp: answer_def split: if_splits)
  then obtain cl where cl: "pe_jwt_payload env tok = Some cl" and sig: sig
    and rest: "token_is_current (jp_require_expiry jp) (jp_clock_skew jp) cl (state_now env s)"
      "enforce_token_constraints env (jp_constraints jp) cl disc"
    by (auto simp: token_accepted_def now split: option.splits)
  have signed: "if tc_open_id_configs (jp_constraints jp) = [] then \<exists>f. pe_validate_token env = Some f \<and> f tok
        else \<exists>f w w'. pe_validate_against env = Some f \<and>
               f tok (tc_open_id_configs (jp_constraints jp)) w = (Some disc, w')"
    if "jp_require_signed jp = []"
    by (rule check_signature_ok) (use 1 2 sig that in \<open>simp add: signature_required_def\<close>)
  show ?thesis unfolding accepted_by_def
    by (intro exI [of _ cl] exI [of _ disc] conjI impI cl rest) (rule signed)
qed

lemma validate_jwt_sound:
  assumes "eval_keeps_control env" and "apply_validate_jwt env jp s = (Inr (), s')"
    and "\<not> ps_returned s" and "\<not> ps_returned s'"
  shows "\<exists>req header_name query_name scheme tok. ps_request s = Some req
     \<and> token_from_request req header_name query_name scheme = (tok, True)
     \<and> accepted_by env jp tok (state_now env s)"
proof -
  have evs: "\<And>v. keeps (eval_value env v)" using assms(1) by (rule keeps_eval_value)
  have some: "(ps_request s = None) = False" using assms(2) by (auto simp: apply_validate_jwt_def split: if_splits)
  let ?tail = "\<lambda>hn qn code message scheme s. case ps_request s of None \<Rightarrow> fail_with ''validate-jwt requires a request''
         | Some req \<Rightarrow> (case token_from_request req hn qn scheme of
                (tok, False) \<Rightarrow> answer code message
              | (tok, True) \<Rightarrow> validate_token env jp code message tok)"
  from assms(2) have "and_then (check_tenant env (jp_tenant jp)) (\<lambda>_.
       and_then (eval_value env (jp_header_name jp)) (\<lambda>hn.
       and_then (eval_value env (jp_query_name jp)) (\<lambda>qn.
       and_then (evaluated_status env (jp_code jp) (jp_code_expression jp) ''invalid validate-azure-ad-token status'') (\<lambda>code.
       and_then (eval_value env (jp_message jp)) (\<lambda>message.
       and_then (eval_value env (jp_require_scheme jp)) (\<lambda>scheme.
         reading (?tail hn qn code message scheme))))))) s = (Inr (), s')"
    unfolding apply_validate_jwt_def by (simp only: reading_apply some if_False)
  then obtain u s1 hn s2 qn s3 code s4 message s5 scheme s6 where
    steps: "check_tenant env (jp_tenant jp) s = (Inr u, s1)" "eval_value env (jp_header_name jp) s1 = (Inr hn, s2)"
      "eval_value env (jp_query_name jp) s2 = (Inr qn, s3)"
      "evaluated_status env (jp_code jp) (jp_code_expression jp) ''invalid validate-azure-ad-token status'' s3 = (Inr code, s4)"
      "eval_value env (jp_message jp) s4 = (Inr message, s5)"
      "eval_value env (jp_require_scheme jp) s5 = (Inr scheme, s6)"
    and "reading (?tail hn qn code message scheme) s6 = (Inr (), s')"
    by (elim and_then_InrE)
  then have fin: "?tail hn qn code message scheme s6 s6 = (Inr (), s')" by simp
  have c: "control s6 = control s"
    using keepsD [OF keeps_check_tenant [OF assms(1)] steps(1)] keepsD [OF evs steps(2)] keepsD [OF evs steps(3)]
      keepsD [OF keeps_evaluated_status [OF assms(1)] steps(4)] keepsD [OF evs steps(5)] keepsD [OF evs steps(6)]
    by simp
  from fin obtain req tok where req: "ps_request s6 = Some req" "token_from_request req hn qn scheme = (tok, True)"
    and v: "validate_token env jp code message tok s6 = (Inr (), s')"
    using assms(4) by (auto simp: answer_def split: option.splits prod.splits bool.splits)
  have "accepted_by env jp tok (state_now env s6)"
    by (rule validate_token_accepted [OF assms(1) v]) (use control_fields(2) [OF c] assms(3,4) in auto)
  moreover have "state_now env s6 = state_now env s" using control_fields(12) [OF c] by (simp add: state_now_def)
  moreover obtain req0 where "ps_request s = Some req0" "request_head req0 = request_head req"
    using control_fields(1) [OF c] req(1) by (cases "ps_request s") auto
  ultimately show ?thesis using req(2) token_from_request_head by metis
qed


text \<open>An instance: a bearer token the configured validator accepts.\<close>

definition demo_jwt_policy :: jwt_policy where
  "demo_jwt_policy =
     \<lparr>jp_header_name = [], jp_query_name = [], jp_message = ''Unauthorized'', jp_tenant = [], jp_code = 401,
      jp_code_expression = [],
      jp_constraints = \<lparr>tc_audiences = [], tc_issuers = [''me''], tc_client_app_ids = [], tc_claims = [],
        tc_open_id_configs = []\<rparr>,
      jp_require_expiry = True, jp_clock_skew = 0, jp_require_scheme = [], jp_require_signed = [],
      jp_output_variable = []\<rparr>"

definition demo_jwt_env :: "(string, unit) policy_env" where
  "demo_jwt_env = plain_env\<lparr>pe_validate_token := Some (\<lambda>t. t = ''abc''),
     pe_jwt_payload := (\<lambda>t. if t = ''abc'' then Some [(''iss'', JStr ''me''), (''exp'', JNum 9)] else None)\<rparr>"

definition demo_jwt_state :: "(string, unit) policy_state" where
  "demo_jwt_state = (blank_state ())\<lparr>ps_request := Some (blank_request\<lparr>
     gr_headers := header_put ''authorization'' ''Bearer abc'' []\<rparr>)\<rparr>"

lemma demo_jwt_run:
  "isl (fst (apply_validate_jwt demo_jwt_env demo_jwt_policy demo_jwt_state)) = False
     \<and> ps_returned (snd (apply_validate_jwt demo_jwt_env demo_jwt_policy demo_jwt_state)) = False"
  by code_simp


end
