(* ===== verification/LlmUsage.thy ===== *)
theory LlmUsage
  imports FilterLex
begin

text \<open>
  Token accounting of model APIs, \<open>internal/llm/llm.go\<close>: the usage a provider reports and the
  estimate made before it has answered.  Bodies are parsed by \<open>encoding/json\<close>, whose result on the
  body is an argument, \<open>None\<close> for text that is not JSON; words are those of ASCII text.
\<close>

record usage =
  us_prompt :: int
  us_completion :: int
  us_total :: int

definition usage_total :: "usage \<Rightarrow> int" where
  "usage_total u = (if us_total u > 0 then us_total u else int64_wrap (us_prompt u + us_completion u))"

definition usage_empty :: "usage \<Rightarrow> bool" where
  "usage_empty u \<longleftrightarrow> us_prompt u = 0 \<and> us_completion u = 0 \<and> us_total u = 0"

text \<open>
  A field of a struct: the last member whose name matches without regard to case.
\<close>

definition struct_field :: "string \<Rightarrow> (string \<times> json) list \<Rightarrow> json" where
  "struct_field name kvs =
     (case find (\<lambda>(k, _). equal_fold k name) (rev kvs) of Some (_, v) \<Rightarrow> v | None \<Rightarrow> JNull)"

section \<open>Estimates\<close>

text \<open>\<open>unicode.IsPunct\<close> on ASCII\<close>

definition is_punct :: "char \<Rightarrow> bool" where
  "is_punct c \<longleftrightarrow> (of_char c :: nat) \<in>
     {33, 34, 35, 37, 38, 39, 40, 41, 42, 44, 45, 46, 47, 58, 59, 63, 64, 91, 92, 93, 95, 123, 125}"

definition is_separator :: "char \<Rightarrow> bool" where
  "is_separator c \<longleftrightarrow> is_space c \<or> is_punct c"

text \<open>\<open>estimateText\<close>: \<open>n\<close> counts the characters of the word being read.\<close>

fun estimate_words :: "nat \<Rightarrow> string \<Rightarrow> nat" where
  "estimate_words n [] = (n + 3) div 4"
| "estimate_words n (c # cs) =
     (if is_separator c then (n + 3) div 4 + estimate_words 0 cs else estimate_words (Suc n) cs)"

definition estimate_text :: "string \<Rightarrow> nat" where
  "estimate_text t = estimate_words 0 t"

fun estimate_content :: "json \<Rightarrow> nat" where
  "estimate_content (JStr s) = estimate_text s"
| "estimate_content (JArr vs) = sum_list (map estimate_content vs)"
| "estimate_content (JObj kvs) =
     sum_list (map (\<lambda>(k, v). if k = ''text'' \<or> k = ''content'' then estimate_content v else 0) kvs)"
| "estimate_content _ = 0"

text \<open>The content of each message, \<open>None\<close> when the body does not have the shape of a request.\<close>

fun message_contents :: "json list \<Rightarrow> json list option" where
  "message_contents [] = Some []"
| "message_contents (JNull # ms) = map_option (\<lambda>cs. JNull # cs) (message_contents ms)"
| "message_contents (JObj kvs # ms) = map_option (\<lambda>cs. struct_field ''content'' kvs # cs) (message_contents ms)"
| "message_contents (_ # ms) = None"

definition request_contents :: "json \<Rightarrow> (json list \<times> json \<times> json) option" where
  "request_contents j =
     (case j of
        JNull \<Rightarrow> Some ([], JNull, JNull)
      | JObj kvs \<Rightarrow>
          map_option (\<lambda>cs. (cs, struct_field ''prompt'' kvs, struct_field ''input'' kvs))
            (case struct_field ''messages'' kvs of
               JNull \<Rightarrow> Some []
             | JArr ms \<Rightarrow> message_contents ms
             | _ \<Rightarrow> None)
      | _ \<Rightarrow> None)"

definition estimate :: "json option \<Rightarrow> string \<Rightarrow> nat" where
  "estimate parsed body =
     (case parsed of
        None \<Rightarrow> estimate_text body
      | Some j \<Rightarrow>
          (case request_contents j of
             None \<Rightarrow> estimate_text body
           | Some (contents, prompt, inputs) \<Rightarrow>
               sum_list (map (\<lambda>c. estimate_content c + 4) contents)
               + estimate_content prompt + estimate_content inputs))"

text \<open>
  The estimate is an approximation from above of a count of separated words and from below of a
  quarter of the text: a text of \<open>n\<close> characters costs at most \<open>n\<close> tokens.
\<close>

lemma estimate_words_bound: "estimate_words n t \<le> n + length t"
proof (induction n t rule: estimate_words.induct)
  case (1 n)
  then show ?case by simp
next
  case (2 n c cs)
  have "(n + 3) div 4 \<le> Suc n" by simp
  with 2 show ?case by auto
qed

lemma estimate_text_bound: "estimate_text t \<le> length t"
  using estimate_words_bound [of 0 t] by (simp add: estimate_text_def)

section \<open>Reported usage\<close>

text \<open>An integer field; \<open>None\<close> for a value \<open>encoding/json\<close> does not store in an \<open>int\<close>.\<close>

definition int_field :: "string \<Rightarrow> (string \<times> json) list \<Rightarrow> int option" where
  "int_field name kvs =
     (case struct_field name kvs of
        JNull \<Rightarrow> Some 0
      | JNum q \<Rightarrow> if of_int \<lfloor>q\<rfloor> = q \<and> - (2 ^ 63) \<le> \<lfloor>q\<rfloor> \<and> \<lfloor>q\<rfloor> < 2 ^ 63 then Some \<lfloor>q\<rfloor> else None
      | _ \<Rightarrow> None)"

definition usage_of :: "json \<Rightarrow> usage option option" where
  "usage_of j =
     (case j of
        JNull \<Rightarrow> Some None
      | JObj kvs \<Rightarrow>
          (case (int_field ''prompt_tokens'' kvs, int_field ''completion_tokens'' kvs, int_field ''total_tokens'' kvs) of
             (Some p, Some c, Some t) \<Rightarrow> Some (Some \<lparr>us_prompt = p, us_completion = c, us_total = t\<rparr>)
           | _ \<Rightarrow> None)
      | _ \<Rightarrow> None)"

text \<open>\<open>UsageFromBody\<close>: \<open>None\<close> when the body is not JSON of the expected shape or reports nothing.\<close>

definition usage_from_body :: "json option \<Rightarrow> usage option" where
  "usage_from_body parsed =
     (case parsed of
        Some (JObj kvs) \<Rightarrow> (case usage_of (struct_field ''usage'' kvs) of Some (Some u) \<Rightarrow> Some u | _ \<Rightarrow> None)
      | _ \<Rightarrow> None)"

text \<open>
  \<open>UsageFromStream\<close> over the lines of a server-sent-event stream: the last chunk that reports a
  usage wins; \<open>parse\<close> is \<open>json.Unmarshal\<close>.
\<close>

definition stream_line :: "(string \<Rightarrow> json option) \<Rightarrow> string \<Rightarrow> usage option" where
  "stream_line parse l =
     (let line = trim_space l in
      if \<not> has_prefix line ''data:'' then None
      else let payload = trim_space (trim_prefix line ''data:'') in
        if payload = [] \<or> payload = ''[DONE]'' then None else usage_from_body (parse payload))"

fun usage_from_lines :: "(string \<Rightarrow> json option) \<Rightarrow> usage option \<Rightarrow> string list \<Rightarrow> usage option" where
  "usage_from_lines parse found [] = found"
| "usage_from_lines parse found (l # ls) =
     usage_from_lines parse (case stream_line parse l of Some u \<Rightarrow> Some u | None \<Rightarrow> found) ls"

definition is_event_stream :: "string \<Rightarrow> bool" where
  "is_event_stream content_type \<longleftrightarrow> has_prefix (to_lower (trim_space content_type)) ''text/event-stream''"

end
