(* ===== verification/PolicyHandlers.thy ===== *)
theory PolicyHandlers
  imports PolicyTokens LlmUsage
begin

text \<open>
  The policies that hold no others: the handlers \<open>apply...\<close> of \<open>internal/policy/policy.go\<close> and
  \<open>internal/policy/llm.go\<close>, one definition each, and their dispatch \<open>apply_leaf\<close> (the map
  \<open>actionHandlers\<close>).  The URL of a request is represented by its parsed query, which is what the
  handlers read and write of it.
\<close>

section \<open>Bodies\<close>

text \<open>The response if there is one, else the request: its body, and the assignment of a new one.\<close>

definition with_response :: "(gateway_response \<Rightarrow> gateway_response) \<Rightarrow> ('o, 'w, unit) handler" where
  "with_response f = update (\<lambda>s. s\<lparr>ps_response := map_option f (ps_response s)\<rparr>)"

definition with_request :: "(gateway_request \<Rightarrow> gateway_request) \<Rightarrow> ('o, 'w, unit) handler" where
  "with_request f = update (\<lambda>s. s\<lparr>ps_request := map_option f (ps_request s)\<rparr>)"

definition set_request_header :: "string \<Rightarrow> string \<Rightarrow> ('o, 'w, unit) handler" where
  "set_request_header name v = with_request (\<lambda>r. r\<lparr>gr_headers := header_put name v (gr_headers r)\<rparr>)"

text \<open>Read the body, transform it, and write it back with the request's length.\<close>

definition rewrite_body :: "(string \<Rightarrow> string) \<Rightarrow> string \<Rightarrow> ('o, 'w, unit) handler" where
  "rewrite_body f missing = reading (\<lambda>s.
     case ps_response s of
       Some r \<Rightarrow> and_then (result_of (read_body (gs_body r))) (\<lambda>v. with_response (\<lambda>r. r\<lparr>gs_body := Some (f v)\<rparr>))
     | None \<Rightarrow>
         (case ps_request s of
            Some r \<Rightarrow> and_then (result_of (read_body (gr_body r))) (\<lambda>v. with_request (request_with_body (f v)))
          | None \<Rightarrow> fail_with missing))"

section \<open>Headers, query, variables\<close>

definition apply_set_header :: "('o, 'w) policy_env \<Rightarrow> string \<Rightarrow> string \<Rightarrow> string \<Rightarrow> ('o, 'w, unit) handler" where
  "apply_set_header env name v act = and_then (eval_value env v) (\<lambda>v.
     let h = \<lparr>ph_name = name, ph_value = v, ph_action = act\<rparr> in
     reading (\<lambda>s. if ps_response s = None \<and> ps_request s \<noteq> None
       then with_request (\<lambda>r. r\<lparr>gr_headers := set_header h (gr_headers r)\<rparr>)
       else update (\<lambda>s. s\<lparr>ps_headers := set_header h (ps_headers s)\<rparr>)))"

definition query_change :: "string \<Rightarrow> string \<Rightarrow> string \<Rightarrow> url_values \<Rightarrow> url_values" where
  "query_change name v act q =
     (if act = ''delete'' then values_del name q
      else if act = ''skip'' then (if values_has q name then q else values_set name v q)
      else values_set name v q)"

definition apply_set_query_parameter ::
  "('o, 'w) policy_env \<Rightarrow> string \<Rightarrow> string \<Rightarrow> string \<Rightarrow> ('o, 'w, unit) handler" where
  "apply_set_query_parameter env name v act = reading (\<lambda>s.
     if ps_request s = None then fail_with ''set-query-parameter requires a request''
     else and_then (eval_value env v) (\<lambda>v. with_request (\<lambda>r. r\<lparr>gr_query := query_change name v act (gr_query r)\<rparr>)))"

definition apply_get_authorization_context ::
  "('o, 'w) policy_env \<Rightarrow> string \<Rightarrow> string \<Rightarrow> string \<Rightarrow> bool \<Rightarrow> ('o, 'w, unit) handler" where
  "apply_get_authorization_context env provider authorization var ignore_error =
     (case pe_fetch_credential env of
        None \<Rightarrow> fail_with ''get-authorization-context requires a configured credential store''
      | Some fetch \<Rightarrow> and_then (calling (fetch provider authorization)) (\<lambda>r.
          case r of
            Inl e \<Rightarrow> if ignore_error then done_with () else fail_with e
          | Inr credential \<Rightarrow> update (\<lambda>s. s\<lparr>ps_credentials := (ps_credentials s)(var \<mapsto> credential)\<rparr>)))"

definition apply_set_variable :: "('o, 'w) policy_env \<Rightarrow> string \<Rightarrow> string \<Rightarrow> ('o, 'w, unit) handler" where
  "apply_set_variable env name v = and_then (eval_raw env v) (\<lambda>x. update (\<lambda>s.
     s\<lparr>ps_variables := (ps_variables s)(name \<mapsto> value_text (pe_object_text env) x),
       ps_objects := (if value_is_object x then (ps_objects s)(name \<mapsto> x) else (ps_objects s)(name := None))\<rparr>))"

definition apply_set_body :: "('o, 'w) policy_env \<Rightarrow> string \<Rightarrow> ('o, 'w, unit) handler" where
  "apply_set_body env b = and_then (eval_value env b) (\<lambda>v. reading (\<lambda>s.
     if ps_response s = None \<and> ps_request s \<noteq> None then with_request (request_with_body v)
     else update (\<lambda>s. s\<lparr>ps_body := v, ps_body_set := True\<rparr>)))"

definition apply_check_header ::
  "('o, 'w) policy_env \<Rightarrow> string \<Rightarrow> string list \<Rightarrow> string \<Rightarrow> int \<Rightarrow> bool \<Rightarrow> ('o, 'w, unit) handler" where
  "apply_check_header env name vs message code ignore_case = reading (\<lambda>s.
     if ps_request s = None then fail_with ''check-header requires a request''
     else and_then (eval_value env name) (\<lambda>name.
          and_then (each_of (eval_value env) vs) (\<lambda>vs.
          and_then (eval_value env message) (\<lambda>message. reading (\<lambda>s.
            let actual = (case ps_request s of None \<Rightarrow> [] | Some r \<Rightarrow> header_values_of (gr_headers r) name) in
            if list_ex (\<lambda>candidate. list_ex (\<lambda>allowed.
                 if ignore_case then equal_fold candidate allowed else candidate = allowed) vs) actual
            then done_with () else answer code message)))))"

section \<open>Filters and headers of the reply\<close>

text \<open>\<open>net.SplitHostPort\<close> for an address \<open>host:port\<close> or \<open>[host]:port\<close>; \<open>None\<close> when it fails.\<close>

definition split_host_port :: "string \<Rightarrow> string option" where
  "split_host_port a =
     (case last_index_char a (CHR '':'') of
        None \<Rightarrow> None
      | Some i \<Rightarrow>
          let host = take i a; port = drop (Suc i) a in
          if contains port ''['' \<or> contains port '']'' then None
          else if has_prefix host ''['' then
            (if has_suffix host '']'' \<and> \<not> contains (butlast (tl host)) ''['' \<and> \<not> contains (butlast (tl host)) '']''
             then Some (butlast (tl host)) else None)
          else if contains host '':'' \<or> contains host ''['' \<or> contains host '']'' then None
          else Some host)"

definition apply_ip_filter ::
  "('o, 'w) policy_env \<Rightarrow> string list \<Rightarrow> string \<Rightarrow> int \<Rightarrow> string \<Rightarrow> ('o, 'w, unit) handler" where
  "apply_ip_filter env rules act code message = reading (\<lambda>s.
     case ps_request s of
       None \<Rightarrow> fail_with ''ip-filter requires a request''
     | Some r \<Rightarrow>
         let remote = (case split_host_port (gr_remote_addr r) of Some h \<Rightarrow> h | None \<Rightarrow> gr_remote_addr r);
             matched = list_ex (pe_ip_matches env remote) rules
         in if act = ''allow'' \<and> \<not> matched \<or> act = ''forbid'' \<and> matched then answer code message else done_with ())"

definition apply_set_method :: "('o, 'w) policy_env \<Rightarrow> string \<Rightarrow> ('o, 'w, unit) handler" where
  "apply_set_method env v = reading (\<lambda>s.
     if ps_request s = None then fail_with ''set-method requires a request''
     else and_then (eval_value env v) (\<lambda>v. with_request (\<lambda>r. r\<lparr>gr_method := to_upper v\<rparr>)))"

definition put_nonempty :: "string \<Rightarrow> string \<Rightarrow> ('o, 'w, unit) handler" where
  "put_nonempty name v = (if v = [] then done_with () else put_header name v)"

definition apply_cors ::
  "('o, 'w) policy_env \<Rightarrow> string \<Rightarrow> string \<Rightarrow> string \<Rightarrow> string \<Rightarrow> string \<Rightarrow> bool \<Rightarrow> ('o, 'w, unit) handler" where
  "apply_cors env origin methods allow_headers expose age creds = reading (\<lambda>s.
     case ps_request s of
       None \<Rightarrow> fail_with ''cors requires a request''
     | Some r \<Rightarrow>
         if header_get_of (gr_headers r) ''Origin'' = [] then done_with ()
         else and_then (eval_value env origin) (\<lambda>origin.
              and_then (eval_value env methods) (\<lambda>methods.
              and_then (eval_value env allow_headers) (\<lambda>allow_headers.
              and_then (eval_value env expose) (\<lambda>expose.
              and_then (eval_value env age) (\<lambda>age.
              and_then (put_header ''Access-Control-Allow-Origin'' origin) (\<lambda>_.
              and_then (if creds then put_header ''Access-Control-Allow-Credentials'' ''true'' else done_with ()) (\<lambda>_.
              and_then (put_nonempty ''Access-Control-Allow-Methods'' methods) (\<lambda>_.
              and_then (put_nonempty ''Access-Control-Allow-Headers'' allow_headers) (\<lambda>_.
              and_then (put_nonempty ''Access-Control-Expose-Headers'' expose) (\<lambda>_.
              and_then (put_nonempty ''Access-Control-Max-Age'' age) (\<lambda>_.
                if gr_method r = ''OPTIONS''
                then update (\<lambda>s. s\<lparr>ps_returned := True, ps_status := 204\<rparr>) else done_with ()))))))))))))"

section \<open>Requests to other services\<close>

definition evaluated_header :: "('o, 'w) policy_env \<Rightarrow> policy_header \<Rightarrow> ('o, 'w, policy_header) handler" where
  "evaluated_header env h = and_then (eval_value env (ph_value h)) (\<lambda>v. done_with (h\<lparr>ph_value := v\<rparr>))"

definition one_way_checks :: "('o, 'w) policy_env \<Rightarrow> send_policy \<Rightarrow> ('o, 'w, unit) handler" where
  "one_way_checks env p =
     (if \<not> sp_one_way p then done_with ()
      else and_then (eval_value env (sp_mode p)) (\<lambda>mode.
        if mode \<noteq> [] \<and> \<not> equal_fold mode ''new''
        then fail_with ''unsupported policy: <send-one-way-request>''
        else and_then (eval_value env (sp_timeout p)) (\<lambda>_. done_with ())))"

definition apply_send_request :: "('o, 'w) policy_env \<Rightarrow> send_policy \<Rightarrow> ('o, 'w, unit) handler" where
  "apply_send_request env p =
     (case pe_send env of
        None \<Rightarrow> fail_with (if sp_one_way p then ''send-one-way-request requires a configured transport''
                           else ''send-request requires a configured transport'')
      | Some send \<Rightarrow>
          and_then (one_way_checks env p) (\<lambda>_.
          and_then (eval_value env (sp_url p)) (\<lambda>url.
          and_then (eval_value env (sp_method p)) (\<lambda>m.
          and_then (eval_value env (sp_body p)) (\<lambda>body.
            case pe_request_error env (to_upper m) url of
              Some e \<Rightarrow> fail_with e
            | None \<Rightarrow>
                and_then (each_of (evaluated_header env) (sp_headers p)) (\<lambda>hs.
                and_then (calling (send \<lparr>og_method = to_upper m, og_url = url,
                            og_headers = foldl (\<lambda>acc h. set_header h acc) [] hs, og_body = body\<rparr>)) (\<lambda>r.
                  if sp_one_way p then done_with ()
                  else case r of
                    Inl e \<Rightarrow> fail_with e
                  | Inr None \<Rightarrow> done_with ()
                  | Inr (Some code) \<Rightarrow>
                      if sp_response_var p = [] then done_with ()
                      else set_variable (sp_response_var p) (int_text code))))))))"

section \<open>The response cache\<close>

definition apply_cache_lookup :: "('o, 'w) policy_env \<Rightarrow> ('o, 'w, unit) handler" where
  "apply_cache_lookup env =
     (case pe_cache_get env of
        None \<Rightarrow> fail_with ''cache-lookup requires a configured cache''
      | Some get \<Rightarrow> reading (\<lambda>s. and_then (calling (get (ps_cache_key s))) (\<lambda>r.
          case r of
            None \<Rightarrow> done_with ()
          | Some (code, hs, body) \<Rightarrow> and_then (update (\<lambda>s. s\<lparr>ps_headers := hs\<rparr>)) (\<lambda>_. answer code body))))"

definition apply_cache_store :: "('o, 'w) policy_env \<Rightarrow> duration \<Rightarrow> ('o, 'w, unit) handler" where
  "apply_cache_store env d = reading (\<lambda>s.
     case (pe_cache_set env, ps_response s) of
       (Some put, Some r) \<Rightarrow>
         and_then (if ps_body_set s then done_with (ps_body s)
                   else and_then (result_of (read_body (gs_body r))) (\<lambda>v.
                        and_then (with_response (\<lambda>r. r\<lparr>gs_body := Some v\<rparr>)) (\<lambda>_. done_with v)))
           (\<lambda>body. update (\<lambda>s. s\<lparr>ps_world := put (ps_cache_key s) (gs_status r) (gs_headers r) body d (ps_world s)\<rparr>))
     | _ \<Rightarrow> fail_with ''cache-store requires a response and configured cache'')"

section \<open>Validation\<close>

definition apply_validate_status ::
  "int \<Rightarrow> int \<Rightarrow> string \<Rightarrow> int \<Rightarrow> string \<Rightarrow> ('o, 'w, unit) handler" where
  "apply_validate_status lo hi act failed_code var = reading (\<lambda>s.
     case ps_response s of
       None \<Rightarrow> fail_with ''validate-status-code requires a response''
     | Some r \<Rightarrow>
         if \<not> (lo \<le> gs_status r \<and> gs_status r \<le> hi) \<and> act \<noteq> ''ignore'' then
           and_then (answer failed_code ''response status code is outside the configured range'') (\<lambda>_.
             if var = [] then done_with () else set_variable var (int_text (gs_status r)))
         else done_with ())"

definition content_failed :: "int \<Rightarrow> string list \<Rightarrow> headers \<Rightarrow> string \<Rightarrow> bool" where
  "content_failed limit types hs body \<longleftrightarrow>
     limit > 0 \<and> int (length body) > limit \<or>
     types \<noteq> [] \<and> \<not> list_ex (\<lambda>allowed. to_lower (hd (split_char (CHR '';'') (header_get_of hs ''Content-Type''))) = allowed) types"

definition apply_validate_content ::
  "int \<Rightarrow> string \<Rightarrow> string list \<Rightarrow> int \<Rightarrow> ('o, 'w, unit) handler" where
  "apply_validate_content limit act types failed_code = reading (\<lambda>s.
     let verdict = (\<lambda>hs v. if content_failed limit types hs v \<and> act \<noteq> ''ignore''
                           then answer failed_code ''content validation failed'' else done_with ())
     in case ps_response s of
       Some r \<Rightarrow> and_then (result_of (read_body (gs_body r))) (\<lambda>v.
                 and_then (with_response (\<lambda>r. r\<lparr>gs_body := Some v\<rparr>)) (\<lambda>_. verdict (gs_headers r) v))
     | None \<Rightarrow>
         (case ps_request s of
            Some r \<Rightarrow> and_then (result_of (read_body (gr_body r))) (\<lambda>v.
                      and_then (with_request (\<lambda>r. r\<lparr>gr_body := Some v, gr_content_length := int (length v)\<rparr>)) (\<lambda>_.
                        verdict (gr_headers r) v))
          | None \<Rightarrow> fail_with ''validate-content requires a request or response''))"

text \<open>The rules by key; a later rule with the same key replaces an earlier one.\<close>

definition rule_map :: "(string \<Rightarrow> string) \<Rightarrow> value_rule list \<Rightarrow> (string \<times> value_rule) list" where
  "rule_map key rules = foldl (\<lambda>m r. (key (vr_name r), r) # drop_key (key (vr_name r)) m) [] rules"

text \<open>A header or parameter that a rule, or the lack of one, refuses.\<close>

definition value_refused :: "(string \<times> value_rule) list \<Rightarrow> string \<Rightarrow> string \<Rightarrow> string list \<Rightarrow> bool" where
  "value_refused rules unspecified key vs \<longleftrightarrow>
     (case map_of rules key of
        None \<Rightarrow> unspecified = ''prevent''
      | Some rule \<Rightarrow>
          vr_action rule \<noteq> ''ignore'' \<and> vr_values rule \<noteq> [] \<and>
          \<not> list_ex (\<lambda>actual. list_ex (\<lambda>expected. actual = expected) (vr_values rule)) vs)"

definition headers_refused :: "value_rule list \<Rightarrow> string \<Rightarrow> headers \<Rightarrow> bool" where
  "headers_refused rules unspecified hs \<longleftrightarrow>
     (let rm = rule_map to_lower rules in
      list_ex (\<lambda>(name, vs). value_refused rm unspecified (to_lower name) vs) hs \<or>
      list_ex (\<lambda>(_, rule). header_values_of hs (vr_name rule) = [] \<and> vr_action rule = ''prevent'') rm)"

definition apply_validate_headers ::
  "value_rule list \<Rightarrow> string \<Rightarrow> int \<Rightarrow> ('o, 'w, unit) handler" where
  "apply_validate_headers rules unspecified failed_code = reading (\<lambda>s.
     let verdict = (\<lambda>hs. if headers_refused rules unspecified hs
                         then answer failed_code ''header validation failed'' else done_with ())
     in case ps_response s of
       Some r \<Rightarrow> verdict (gs_headers r)
     | None \<Rightarrow> (case ps_request s of
                  Some r \<Rightarrow> verdict (gr_headers r)
                | None \<Rightarrow> fail_with ''validate-headers requires a request or response''))"

definition parameters_refused :: "value_rule list \<Rightarrow> string \<Rightarrow> url_values \<Rightarrow> bool" where
  "parameters_refused rules unspecified q \<longleftrightarrow>
     (let rm = rule_map (\<lambda>n. n) rules in
      list_ex (\<lambda>(name, vs). value_refused rm unspecified name vs) q \<or>
      list_ex (\<lambda>(_, rule). \<not> values_has q (vr_name rule) \<and> vr_action rule = ''prevent'') rm)"

definition apply_validate_parameters ::
  "value_rule list \<Rightarrow> string \<Rightarrow> int \<Rightarrow> ('o, 'w, unit) handler" where
  "apply_validate_parameters rules unspecified failed_code = reading (\<lambda>s.
     case ps_request s of
       None \<Rightarrow> fail_with ''validate-parameters requires a request''
     | Some r \<Rightarrow> if parameters_refused rules unspecified (gr_query r)
                 then answer failed_code ''parameter validation failed'' else done_with ())"

definition apply_validate_certificate ::
  "('o, 'w) policy_env \<Rightarrow> string list \<Rightarrow> int \<Rightarrow> ('o, 'w, unit) handler" where
  "apply_validate_certificate env thumbprints failed_code = reading (\<lambda>s.
     let peers = (case ps_request s of None \<Rightarrow> [] | Some r \<Rightarrow> (case gr_certificates r of None \<Rightarrow> [] | Some cs \<Rightarrow> cs)) in
     if peers = [] then answer failed_code ''client certificate validation failed''
     else if thumbprints \<noteq> [] \<and>
             \<not> list_ex (\<lambda>c. list_ex (\<lambda>expected. to_upper (pe_thumbprint env c) = expected) thumbprints) peers
     then answer failed_code ''client certificate validation failed''
     else done_with ())"

end
