(* ===== verification/PolicyReplies.thy ===== *)
theory PolicyReplies
  imports PolicyHandlers
begin

text \<open>
  The remaining policies without children, of \<open>internal/policy/policy.go\<close> and
  \<open>internal/policy/llm.go\<close>: authentication towards the backend, transformations, the value cache,
  routing, the answers a policy gives, and token governance; \<open>apply_leaf\<close> dispatches on the kind of
  an action.
\<close>

section \<open>Authentication towards the backend\<close>

definition apply_authentication_basic :: "('o, 'w) policy_env \<Rightarrow> string \<Rightarrow> string \<Rightarrow> ('o, 'w, unit) handler" where
  "apply_authentication_basic env user password = reading (\<lambda>s.
     if ps_request s = None then fail_with ''authentication-basic requires a request''
     else and_then (eval_value env user) (\<lambda>u. and_then (eval_value env password) (\<lambda>p.
       set_request_header ''Authorization'' (''Basic '' @ pe_base64 env (u @ '':'' @ p)))))"

definition bearer :: "(string, string) result \<Rightarrow> ('o, 'w, unit) handler" where
  "bearer r = (case r of
     Inl e \<Rightarrow> fail_with e
   | Inr tok \<Rightarrow> set_request_header ''Authorization'' (''Bearer '' @ tok))"

definition apply_authentication_identity :: "('o, 'w) policy_env \<Rightarrow> string \<Rightarrow> ('o, 'w, unit) handler" where
  "apply_authentication_identity env res = reading (\<lambda>s.
     if ps_request s = None then fail_with ''authentication-managed-identity requires a request''
     else case pe_acquire_token env of
       None \<Rightarrow> fail_with ''authentication-managed-identity requires a token provider''
     | Some acquire \<Rightarrow> and_then (eval_value env res) (\<lambda>v. and_then (calling (acquire v)) bearer))"

definition apply_authentication_oauth2 ::
  "('o, 'w) policy_env \<Rightarrow> string \<Rightarrow> string \<Rightarrow> string \<Rightarrow> string \<Rightarrow> ('o, 'w, unit) handler" where
  "apply_authentication_oauth2 env client secret endpoint res = reading (\<lambda>s.
     if ps_request s = None then fail_with ''authentication-oauth2 requires a request''
     else case pe_acquire_oauth2 env of
       None \<Rightarrow> fail_with ''authentication-oauth2 requires a token provider''
     | Some acquire \<Rightarrow>
         and_then (eval_value env client) (\<lambda>c.
         and_then (eval_value env secret) (\<lambda>sec.
         and_then (eval_value env endpoint) (\<lambda>e.
         and_then (eval_value env res) (\<lambda>r. and_then (calling (acquire c sec e r)) bearer)))))"

definition apply_authentication_certificate :: "('o, 'w) policy_env \<Rightarrow> string \<Rightarrow> ('o, 'w, unit) handler" where
  "apply_authentication_certificate env certificate = reading (\<lambda>s.
     if ps_request s = None then fail_with ''authentication-certificate requires a request''
     else case pe_attach_certificate env of
       None \<Rightarrow> fail_with ''authentication-certificate requires a certificate provider''
     | Some attach \<Rightarrow> and_then (eval_value env certificate) (\<lambda>c. reading (\<lambda>s.
         case ps_request s of
           None \<Rightarrow> done_with ()
         | Some r \<Rightarrow> and_then (calling (attach r c)) (\<lambda>x.
             case x of Inl e \<Rightarrow> fail_with e | Inr r' \<Rightarrow> with_request (\<lambda>_. r')))))"

section \<open>Transformations\<close>

definition apply_find_replace :: "('o, 'w) policy_env \<Rightarrow> string \<Rightarrow> string \<Rightarrow> ('o, 'w, unit) handler" where
  "apply_find_replace env pat to = and_then (eval_value env pat) (\<lambda>p. and_then (eval_value env to) (\<lambda>t.
     rewrite_body (\<lambda>v. replace_all v p t) ''find-and-replace requires a request or response''))"

text \<open>\<open>xml.EscapeText\<close>, on a byte; a control character becomes U+FFFD.\<close>

definition escape_char :: "char \<Rightarrow> string" where
  "escape_char c =
     (if c = CHR 0x22 then ''&#34;'' else if c = CHR 0x27 then ''&#39;''
      else if c = CHR ''&'' then ''&amp;'' else if c = CHR ''<'' then ''&lt;'' else if c = CHR ''>'' then ''&gt;''
      else if c = CHR 0x09 then ''&#x9;'' else if c = CHR 0x0A then ''&#xA;'' else if c = CHR 0x0D then ''&#xD;''
      else if (of_char c :: nat) < 32 then [CHR 0xEF, CHR 0xBF, CHR 0xBD] else [c])"

text \<open>\<open>jsonValueXML\<close>; the members of an object in the order of the list.\<close>

fun json_xml :: "('o, 'w) policy_env \<Rightarrow> string \<Rightarrow> json \<Rightarrow> (string, string) result"
  and json_fields_xml :: "('o, 'w) policy_env \<Rightarrow> (string \<times> json) list \<Rightarrow> (string, string) result"
  and json_items_xml :: "('o, 'w) policy_env \<Rightarrow> json list \<Rightarrow> (string, string) result" where
  "json_xml env tag v =
     (if tag = [] then Err ''json-to-xml element name is empty''
      else bind_result
        (case v of
           JObj kvs \<Rightarrow> json_fields_xml env kvs
         | JArr vs \<Rightarrow> json_items_xml env vs
         | JNull \<Rightarrow> Ok []
         | JStr t \<Rightarrow> Ok (concat (map escape_char t))
         | JBool b \<Rightarrow> Ok (if b then ''true'' else ''false'')
         | JNum q \<Rightarrow> Ok (concat (map escape_char (pe_sprint env (JNum q)))))
        (\<lambda>body. Ok (''<'' @ tag @ ''>'' @ body @ ''</'' @ tag @ ''>'')))"
| "json_fields_xml env [] = Ok []"
| "json_fields_xml env ((k, v) # kvs) =
     bind_result (json_xml env k v) (\<lambda>x. bind_result (json_fields_xml env kvs) (\<lambda>xs. Ok (x @ xs)))"
| "json_items_xml env [] = Ok []"
| "json_items_xml env (v # vs) =
     bind_result (json_xml env ''item'' v) (\<lambda>x. bind_result (json_items_xml env vs) (\<lambda>xs. Ok (x @ xs)))"

declare json_xml.simps [simp del]

definition apply_json_to_xml :: "('o, 'w) policy_env \<Rightarrow> string \<Rightarrow> ('o, 'w, unit) handler" where
  "apply_json_to_xml env root_name = reading (\<lambda>s.
     if ps_response s = None then fail_with ''json-to-xml requires a response''
     else and_then (eval_value env root_name) (\<lambda>tag. reading (\<lambda>s.
       case ps_response s of
         None \<Rightarrow> fail_with ''json-to-xml requires a response''
       | Some r \<Rightarrow>
           and_then (result_of (read_body (gs_body r))) (\<lambda>v.
           and_then (result_of (pe_parse_json env v)) (\<lambda>document.
           and_then (result_of (json_xml env tag document)) (\<lambda>x.
             with_response (\<lambda>r. r\<lparr>gs_body := Some x\<rparr>)))))))"

text \<open>\<open>xmlNodeJSON\<close>: a repeated element becomes an array.\<close>

definition add_item :: "string \<Rightarrow> json \<Rightarrow> (string \<times> json) list \<Rightarrow> (string \<times> json) list" where
  "add_item k v acc =
     (case map_of acc k of
        None \<Rightarrow> jset k v acc
      | Some (JArr vs) \<Rightarrow> jset k (JArr (vs @ [v])) acc
      | Some e \<Rightarrow> jset k (JArr [e, v]) acc)"

fun xml_node_json :: "node \<Rightarrow> json"
  and xml_children_json :: "node list \<Rightarrow> (string \<times> json) list \<Rightarrow> (string \<times> json) list" where
  "xml_node_json (Node n ats t kids) =
     (if kids = [] then JStr (trim_space t) else JObj (xml_children_json kids []))"
| "xml_children_json [] acc = acc"
| "xml_children_json (c # cs) acc = xml_children_json cs (add_item (node_name c) (xml_node_json c) acc)"

definition apply_xml_to_json :: "('o, 'w) policy_env \<Rightarrow> ('o, 'w, unit) handler" where
  "apply_xml_to_json env = reading (\<lambda>s.
     case ps_response s of
       None \<Rightarrow> fail_with ''xml-to-json requires a response''
     | Some r \<Rightarrow>
         and_then (result_of (read_body (gs_body r))) (\<lambda>v.
         and_then (result_of (pe_parse_xml env v)) (\<lambda>document.
           with_response (\<lambda>r. r\<lparr>gs_body := Some (pe_print_json env (JObj [(node_name document, xml_node_json document)]))\<rparr>))))"

definition apply_jsonp :: "('o, 'w) policy_env \<Rightarrow> string \<Rightarrow> ('o, 'w, unit) handler" where
  "apply_jsonp env parameter = reading (\<lambda>s.
     case (ps_response s, ps_request s) of
       (Some _, Some q) \<Rightarrow> and_then (eval_value env parameter) (\<lambda>p.
         let callback = values_get (gr_query q) p in
         if callback = [] then done_with ()
         else reading (\<lambda>s. case ps_response s of
           None \<Rightarrow> done_with ()
         | Some r \<Rightarrow> and_then (result_of (read_body (gs_body r))) (\<lambda>v.
             with_response (\<lambda>r. r\<lparr>gs_body := Some (callback @ ''('' @ v @ '');'')\<rparr>))))
     | _ \<Rightarrow> fail_with ''jsonp requires a request and response'')"

text \<open>\<open>requestBaseURL\<close>; the URL of a request the gateway receives carries no host of its own.\<close>

definition request_base_url :: "gateway_request \<Rightarrow> string" where
  "request_base_url r =
     (if gr_scheme r \<noteq> [] then gr_scheme r else if gr_certificates r \<noteq> None then ''https'' else ''http'')
     @ ''://'' @ gr_host r"

definition apply_redirect_urls :: "('o, 'w, unit) handler" where
  "apply_redirect_urls = reading (\<lambda>s.
     case ps_request s of
       None \<Rightarrow> fail_with ''redirect-content-urls requires a request and backend URL''
     | Some r \<Rightarrow>
         if ps_backend_url s = [] then fail_with ''redirect-content-urls requires a request and backend URL''
         else let gateway = request_base_url r; backend = trim_right_char (CHR ''/'') (ps_backend_url s) in
           rewrite_body (\<lambda>v. if ps_response s \<noteq> None then replace_all v backend gateway else replace_all v gateway backend) [])"

section \<open>The value cache\<close>

definition apply_cache_lookup_value :: "('o, 'w) policy_env \<Rightarrow> string \<Rightarrow> string \<Rightarrow> ('o, 'w, unit) handler" where
  "apply_cache_lookup_value env key var =
     (case pe_value_get env of
        None \<Rightarrow> fail_with ''cache-lookup-value requires a cache''
      | Some get \<Rightarrow>
          and_then (eval_value env key) (\<lambda>k.
          and_then (eval_value env var) (\<lambda>name.
            if name = [] then fail_with ''cache-lookup-value requires a variable-name''
            else and_then (calling (get k)) (\<lambda>r.
              case r of None \<Rightarrow> done_with () | Some v \<Rightarrow> set_variable name v))))"

definition apply_cache_store_value ::
  "('o, 'w) policy_env \<Rightarrow> string \<Rightarrow> string \<Rightarrow> duration \<Rightarrow> ('o, 'w, unit) handler" where
  "apply_cache_store_value env key v d =
     (case pe_value_set env of
        None \<Rightarrow> fail_with ''cache-store-value requires a cache''
      | Some put \<Rightarrow> and_then (eval_value env key) (\<lambda>k. and_then (eval_value env v) (\<lambda>x.
          update (\<lambda>s. s\<lparr>ps_world := put k x d (ps_world s)\<rparr>))))"

definition apply_cache_remove_value :: "('o, 'w) policy_env \<Rightarrow> string \<Rightarrow> ('o, 'w, unit) handler" where
  "apply_cache_remove_value env key =
     (case pe_value_remove env of
        None \<Rightarrow> fail_with ''cache-remove-value requires a cache''
      | Some remove \<Rightarrow> and_then (eval_value env key) (\<lambda>k. update (\<lambda>s. s\<lparr>ps_world := remove k (ps_world s)\<rparr>)))"

section \<open>Routing and replies\<close>

definition apply_set_backend :: "('o, 'w) policy_env \<Rightarrow> string \<Rightarrow> string \<Rightarrow> ('o, 'w, unit) handler" where
  "apply_set_backend env url ident = and_then (eval_value env url) (\<lambda>u. and_then (eval_value env ident) (\<lambda>b.
     update (\<lambda>s. s\<lparr>ps_backend_url := u, ps_backend_id := b,
       ps_backend := (case pe_backends env (to_lower b) of Some x \<Rightarrow> Some x | None \<Rightarrow> ps_backend s)\<rparr>)))"

definition apply_rewrite_uri :: "('o, 'w) policy_env \<Rightarrow> string \<Rightarrow> ('o, 'w, unit) handler" where
  "apply_rewrite_uri env template = and_then (eval_value env template) (\<lambda>v. update (\<lambda>s. s\<lparr>ps_path := v\<rparr>))"

fun set_reply_headers :: "('o, 'w) policy_env \<Rightarrow> policy_header list \<Rightarrow> ('o, 'w, unit) handler" where
  "set_reply_headers env [] = done_with ()"
| "set_reply_headers env (h # hs) = and_then (evaluated_header env h) (\<lambda>h.
     and_then (update (\<lambda>s. s\<lparr>ps_headers := set_header h (ps_headers s)\<rparr>)) (\<lambda>_. set_reply_headers env hs))"

definition apply_return_response ::
  "('o, 'w) policy_env \<Rightarrow> int \<Rightarrow> string \<Rightarrow> string \<Rightarrow> policy_header list \<Rightarrow> string \<Rightarrow> ('o, 'w, unit) handler" where
  "apply_return_response env code0 reason body hs code_expr =
     and_then (evaluated_status env code0 code_expr ''invalid mock-response status-code'') (\<lambda>code.
     and_then (eval_value env body) (\<lambda>b.
     and_then (update (\<lambda>s. s\<lparr>ps_returned := True, ps_status := code, ps_reason := reason, ps_body := b\<rparr>)) (\<lambda>_.
       set_reply_headers env hs)))"

definition apply_set_status :: "('o, 'w) policy_env \<Rightarrow> string \<Rightarrow> int \<Rightarrow> string \<Rightarrow> ('o, 'w, unit) handler" where
  "apply_set_status env code_expr code0 reason =
     and_then (evaluated_status env code0 code_expr ''invalid set-status code'') (\<lambda>code.
     and_then (eval_value env reason) (\<lambda>r. update (\<lambda>s. s\<lparr>ps_status := code, ps_reason := r\<rparr>)))"

section \<open>Token governance\<close>

text \<open>\<open>setLLMValue\<close>: a number to a header, to a variable, to both or to neither.\<close>

definition set_llm_value :: "string \<Rightarrow> string \<Rightarrow> string \<Rightarrow> ('o, 'w, unit) handler" where
  "set_llm_value header var v =
     and_then (if header = [] then done_with () else put_header header v) (\<lambda>_.
       if var = [] then done_with () else set_variable var v)"

text \<open>\<open>requestBodyBytes\<close> and \<open>llm.Estimate\<close>: the body is measured and put back.\<close>

definition estimate_prompt :: "('o, 'w) policy_env \<Rightarrow> ('o, 'w, int) handler" where
  "estimate_prompt env = reading (\<lambda>s.
     case ps_request s of
       None \<Rightarrow> done_with 0
     | Some r \<Rightarrow>
         (case gr_body r of
            None \<Rightarrow> done_with 0
          | Some b \<Rightarrow> and_then (with_request (\<lambda>r. r\<lparr>gr_content_length := int (length b)\<rparr>)) (\<lambda>_.
              done_with (int (estimate (case pe_parse_json env b of Inr j \<Rightarrow> Some j | Inl _ \<Rightarrow> None) b)))))"

text \<open>
  \<open>applyTokenQuota\<close>: the tokens left, the wait, whether the request may proceed, and the period
  and quota as evaluated.
\<close>

record quota_answer =
  qa_remaining :: int
  qa_retry_after :: int
  qa_allowed :: bool
  qa_period :: string
  qa_quota :: int

definition apply_token_quota ::
  "('o, 'w) policy_env \<Rightarrow> llm_config \<Rightarrow> string \<Rightarrow> int \<Rightarrow> ('o, 'w, quota_answer) handler" where
  "apply_token_quota env c key est =
     (if lc_quota c = [] then
        done_with \<lparr>qa_remaining = 0, qa_retry_after = 0, qa_allowed = True, qa_period = [], qa_quota = 0\<rparr>
      else and_then (eval_value env (lc_quota c)) (\<lambda>rendered.
        case atoi (trim_space rendered) of
          None \<Rightarrow> fail_with (''invalid token-quota '' @ go_quoted rendered)
        | Some quota \<Rightarrow>
            if quota \<le> 0 then fail_with (''invalid token-quota '' @ go_quoted rendered)
            else and_then (eval_value env (lc_quota_period c)) (\<lambda>period.
              if \<not> valid_quota_period period then fail_with (''invalid token-quota-period '' @ go_quoted period)
              else case pe_token_quota env of
                None \<Rightarrow> fail_with ''llm-token-limit token-quota requires a configured quota counter''
              | Some consult \<Rightarrow> and_then (calling (consult key quota period est)) (\<lambda>(remaining, retry, allowed).
                  done_with \<lparr>qa_remaining = remaining, qa_retry_after = retry, qa_allowed = allowed,
                             qa_period = period, qa_quota = quota\<rparr>))))"

definition blank_config :: llm_config where
  "blank_config =
     \<lparr>lc_counter_key = [], lc_tokens_per_minute = 0, lc_estimate = False, lc_retry_after_header = [],
      lc_retry_after_variable = [], lc_quota = [], lc_quota_period = [], lc_remaining_quota_header = [],
      lc_remaining_quota_variable = [], lc_remaining_header = [], lc_remaining_variable = [],
      lc_consumed_header = [], lc_consumed_variable = [], lc_namespace = [], lc_dimensions = []\<rparr>"

definition blank_governance :: llm_governance where
  "blank_governance =
     \<lparr>lg_counter_key = [], lg_tokens_per_minute = 0, lg_config = blank_config, lg_quota_period = [], lg_quota = 0,
      lg_emit = False, lg_namespace = [], lg_dimensions = []\<rparr>"

definition govern :: "llm_config \<Rightarrow> string \<Rightarrow> quota_answer \<Rightarrow> llm_governance option \<Rightarrow> llm_governance" where
  "govern c key q existing =
     (let g = blank_governance\<lparr>lg_config := c, lg_counter_key := key, lg_tokens_per_minute := lc_tokens_per_minute c,
                lg_quota_period := qa_period q, lg_quota := qa_quota q\<rparr> in
      case existing of
        None \<Rightarrow> g
      | Some old \<Rightarrow> g\<lparr>lg_emit := lg_emit old, lg_namespace := lg_namespace old, lg_dimensions := lg_dimensions old\<rparr>)"

definition apply_llm_token_limit :: "('o, 'w) policy_env \<Rightarrow> llm_config \<Rightarrow> int \<Rightarrow> ('o, 'w, unit) handler" where
  "apply_llm_token_limit env c code =
     (if lc_tokens_per_minute c > 0 \<and> pe_token_limit env = None
      then fail_with ''llm-token-limit requires a configured token counter''
      else if lc_quota c \<noteq> [] \<and> pe_token_quota env = None
      then fail_with ''llm-token-limit token-quota requires a configured quota counter''
      else
        and_then (eval_value env (lc_counter_key c)) (\<lambda>key.
        if key = [] then fail_with ''llm-token-limit counter-key evaluated to empty''
        else
        and_then (if lc_estimate c then estimate_prompt env else done_with 0) (\<lambda>est.
        and_then (if lc_tokens_per_minute c > 0
                  then calling (the (pe_token_limit env) key (lc_tokens_per_minute c) est)
                  else done_with (0, 0, True)) (\<lambda>(remaining, retry, allowed).
        and_then (apply_token_quota env c key est) (\<lambda>q.
        let exhausted = (lc_quota c \<noteq> [] \<and> \<not> qa_allowed q \<and> allowed);
            retry = (if exhausted then qa_retry_after q else retry);
            allowed = (allowed \<and> \<not> exhausted) in
        and_then (if lc_quota c = [] then done_with ()
                  else set_llm_value (lc_remaining_quota_header c) (lc_remaining_quota_variable c) (int_text (qa_remaining q))) (\<lambda>_.
        and_then (update (\<lambda>s. s\<lparr>ps_llm := Some (govern c key q (ps_llm s))\<rparr>)) (\<lambda>_.
        and_then (set_llm_value (lc_remaining_header c) (lc_remaining_variable c) (int_text remaining)) (\<lambda>_.
        if allowed then done_with ()
        else
          and_then (set_llm_value (lc_retry_after_header c) (lc_retry_after_variable c) (int_text retry)) (\<lambda>_.
          and_then (update (\<lambda>s. s\<lparr>ps_returned := True, ps_status := code\<rparr>)) (\<lambda>_.
            put_header ''Retry-After'' (int_text retry)))))))))))"

definition apply_llm_emit_metric :: "('o, 'w) policy_env \<Rightarrow> llm_config \<Rightarrow> ('o, 'w, unit) handler" where
  "apply_llm_emit_metric env c =
     and_then (each_of (\<lambda>(name, v). and_then (eval_value env v) (\<lambda>v. done_with (name, v))) (lc_dimensions c)) (\<lambda>ds.
     update (\<lambda>s. s\<lparr>ps_llm := Some
       ((case ps_llm s of Some g \<Rightarrow> g | None \<Rightarrow> blank_governance)\<lparr>lg_emit := True, lg_namespace := lc_namespace c,
          lg_dimensions := ds\<rparr>)\<rparr>))"

section \<open>Dispatch\<close>

fun apply_leaf :: "('o, 'w) policy_env \<Rightarrow> leaf_action \<Rightarrow> ('o, 'w, unit) handler" where
  "apply_leaf env (ASetHeader name v act) = apply_set_header env name v act"
| "apply_leaf env (ASetQueryParameter name v act) = apply_set_query_parameter env name v act"
| "apply_leaf env (ASetVariable name v) = apply_set_variable env name v"
| "apply_leaf env (ASetBody b) = apply_set_body env b"
| "apply_leaf env (ACheckHeader name vs message code ic) = apply_check_header env name vs message code ic"
| "apply_leaf env (AValidateJWT jp) = apply_validate_jwt env jp"
| "apply_leaf env (AIPFilter rules act code message) = apply_ip_filter env rules act code message"
| "apply_leaf env (ASetMethod v) = apply_set_method env v"
| "apply_leaf env (ACORS origin methods hs expose age creds) = apply_cors env origin methods hs expose age creds"
| "apply_leaf env (ASendRequest p) = apply_send_request env p"
| "apply_leaf env (AGetAuthorizationContext p a var ig) = apply_get_authorization_context env p a var ig"
| "apply_leaf env ACacheLookup = apply_cache_lookup env"
| "apply_leaf env (ACacheStore d) = apply_cache_store env d"
| "apply_leaf env (AValidateStatus lo hi act code var) = apply_validate_status lo hi act code var"
| "apply_leaf env (AValidateContent limit act types code) = apply_validate_content limit act types code"
| "apply_leaf env (AValidateHeaders rules sp unsp code) = apply_validate_headers rules unsp code"
| "apply_leaf env (AValidateParameters rules sp unsp code) = apply_validate_parameters rules unsp code"
| "apply_leaf env (AValidateClientCertificate ts code) = apply_validate_certificate env ts code"
| "apply_leaf env (ATrace source severity message) =
     add_trace env ''policy'' (trim_space (source @ '' '' @ severity @ '' '' @ message))"
| "apply_leaf env (AAuthenticationBasic u p) = apply_authentication_basic env u p"
| "apply_leaf env (AAuthenticationManagedIdentity r) = apply_authentication_identity env r"
| "apply_leaf env (AAuthenticationOAuth2 c s e r) = apply_authentication_oauth2 env c s e r"
| "apply_leaf env (AAuthenticationCertificate c) = apply_authentication_certificate env c"
| "apply_leaf env (AFindReplace f t) = apply_find_replace env f t"
| "apply_leaf env (AJSONToXML r) = apply_json_to_xml env r"
| "apply_leaf env AXMLToJSON = apply_xml_to_json env"
| "apply_leaf env (AJSONP p) = apply_jsonp env p"
| "apply_leaf env ABase = done_with ()"
| "apply_leaf env (ACacheLookupValue k v) = apply_cache_lookup_value env k v"
| "apply_leaf env (ACacheStoreValue k v d) = apply_cache_store_value env k v d"
| "apply_leaf env (ACacheRemoveValue k) = apply_cache_remove_value env k"
| "apply_leaf env (ASetBackend u b) = apply_set_backend env u b"
| "apply_leaf env (ARewriteURI t) = apply_rewrite_uri env t"
| "apply_leaf env AForward = done_with ()"
| "apply_leaf env (AReturnResponse code reason body hs ce) = apply_return_response env code reason body hs ce"
| "apply_leaf env (ASetStatus ce code reason) = apply_set_status env ce code reason"
| "apply_leaf env ARedirectContentURLs = apply_redirect_urls"
| "apply_leaf env (ALLMTokenLimit c code) = apply_llm_token_limit env c code"
| "apply_leaf env (ALLMEmitTokenMetric c) = apply_llm_emit_metric env c"
| "apply_leaf env (AUnsupported src) = fail_with (''unsupported policy: <'' @ src @ ''>'')"
| "apply_leaf env (AInvalid message) = fail_with (''invalid policy document: '' @ message)"

end
