(* ===== verification/PolicyLimits.thy ===== *)
theory PolicyLimits
  imports PolicyReplies
begin

text \<open>
  \<open>rate-limit\<close>, \<open>quota\<close> and their by-key variants, \<open>executeLimit\<close> of \<open>internal/policy/policy.go\<close>:
  which counter a request counts against, by how much, and what the caller is told.  The counters
  are the gateway's, reached through the environment.
\<close>

section \<open>Whether a limit applies, and its window\<close>

definition limit_scope_matches :: "limit_policy \<Rightarrow> ('o, 'w) policy_state \<Rightarrow> bool" where
  "limit_scope_matches l s =
     (case (if lp_scope l = ''api'' then ps_api s else ps_operation s) of
        None \<Rightarrow> False
      | Some c \<Rightarrow> if lp_scope_id l \<noteq> [] then lp_scope_id l = nc_id c else lp_scope_name l = nc_name c)"

definition limit_anchor :: "('o, 'w) policy_env \<Rightarrow> limit_policy \<Rightarrow> ('o, 'w) policy_state \<Rightarrow> time" where
  "limit_anchor env l s =
     (case (if lp_anchor l = [] then None else pe_rfc3339 env (lp_anchor l)) of
        Some t \<Rightarrow> t
      | None \<Rightarrow>
          (case ps_subscription s of
             None \<Rightarrow> 0
           | Some c \<Rightarrow>
               (case (if sc_start_date c = [] then None else pe_rfc3339 env (sc_start_date c)) of
                  Some t \<Rightarrow> t
                | None \<Rightarrow> 0)))"

text \<open>The number of the window since the anchor: division that rounds down, written as Go does.\<close>

definition window_ordinal :: "duration \<Rightarrow> duration \<Rightarrow> int" where
  "window_ordinal elapsed period =
     (if elapsed < 0 \<and> go_mod elapsed period \<noteq> 0 then go_div elapsed period - 1 else go_div elapsed period)"

definition limit_window ::
  "('o, 'w) policy_env \<Rightarrow> limit_policy \<Rightarrow> ('o, 'w) policy_state \<Rightarrow> string \<times> duration" where
  "limit_window env l s =
     (if \<not> lp_fixed_window l \<or> lp_period l \<le> 0 then ([], 0)
      else if ps_timestamp s = zero_time then (''/0'', lp_period l)
      else let anchor = limit_anchor env l s;
               ordinal = window_ordinal (time_sub (ps_timestamp s) anchor) (lp_period l);
               start = anchor + int64_wrap (ordinal * lp_period l)
        in (''/'' @ int_text ordinal, time_sub (start + lp_period l) (ps_timestamp s)))"

definition window_retry_after :: "limit_policy \<Rightarrow> duration \<Rightarrow> duration \<Rightarrow> duration" where
  "window_retry_after l sliding remaining = (if lp_fixed_window l \<and> lp_period l > 0 then remaining else sliding)"

text \<open>The wait in whole seconds, rounded up and at least one.\<close>

definition retry_seconds :: "duration \<Rightarrow> int" where
  "retry_seconds wait = max 1 (- ((- wait) div nanos_per_second))"

definition retry_after_seconds :: "duration \<Rightarrow> string" where
  "retry_after_seconds wait = int_text (retry_seconds wait)"

section \<open>Increments\<close>

definition literal_increment :: "limit_policy \<Rightarrow> int" where
  "literal_increment l =
     (if lp_increment_condition l \<noteq> [] \<and> \<not> equal_fold (trim_space (lp_increment_condition l)) ''true'' then 0
      else if lp_increment_count l = [] then 1
      else (case atoi (trim_space (lp_increment_count l)) of Some n \<Rightarrow> n | None \<Rightarrow> 0))"

definition limit_increment :: "('o, 'w) policy_env \<Rightarrow> limit_policy \<Rightarrow> ('o, 'w, int) handler" where
  "limit_increment env l =
     and_then (if lp_increment_condition l = [] then done_with True
               else and_then (eval_value env (lp_increment_condition l)) (\<lambda>v.
                 done_with (equal_fold (trim_space v) ''true''))) (\<lambda>counted.
     if \<not> counted then done_with 0
     else if lp_increment_count l = [] then done_with 1
     else and_then (eval_value env (lp_increment_count l)) (\<lambda>rendered.
       case atoi (trim_space rendered) of
         None \<Rightarrow> fail_with (''invalid increment-count '' @ go_quoted rendered)
       | Some n \<Rightarrow> if n < 0 then fail_with (''invalid increment-count '' @ go_quoted rendered) else done_with n))"

text \<open>\<open>requestSize\<close>: a body that had to be read is put back, and can then be read again.\<close>

definition request_size :: "('o, 'w, int) handler" where
  "request_size = reading (\<lambda>s.
     case ps_request s of
       None \<Rightarrow> done_with 0
     | Some r \<Rightarrow>
         if gr_content_length r > 0 then done_with (gr_content_length r)
         else (case gr_get_body r of
                 Some v \<Rightarrow> done_with (int (length v))
               | None \<Rightarrow>
                   (case gr_body r of
                      None \<Rightarrow> done_with 0
                    | Some v \<Rightarrow> and_then (with_request (request_with_body v)) (\<lambda>_. done_with (int (length v))))))"

text \<open>The closure \<open>deferredIncrement\<close> builds, and \<open>RunPendingIncrements\<close>.\<close>

definition count_calls :: "('o, 'w) policy_env \<Rightarrow> limit_policy \<Rightarrow> string \<Rightarrow> int \<Rightarrow> ('o, 'w, unit) handler" where
  "count_calls env l key n =
     (case pe_rate_limit env of
        Some limiter \<Rightarrow>
          if lp_calls l > 0 then and_then (calling (limiter key (lp_calls l) (lp_period l) n)) (\<lambda>_. done_with ())
          else done_with ()
      | None \<Rightarrow> done_with ())"

definition count_bytes :: "('o, 'w) policy_env \<Rightarrow> limit_policy \<Rightarrow> string \<Rightarrow> ('o, 'w, unit) handler" where
  "count_bytes env l key =
     (case pe_bandwidth_limit env of
        Some limiter \<Rightarrow>
          if lp_bandwidth l > 0 then and_then request_size (\<lambda>n.
            and_then (calling (limiter key n (lp_bandwidth l) (lp_period l))) (\<lambda>_. done_with ()))
          else done_with ()
      | None \<Rightarrow> done_with ())"

definition recovering ::
  "('o, 'w, 'a) handler \<Rightarrow> (exec_error \<Rightarrow> ('o, 'w, 'b) handler) \<Rightarrow> ('a \<Rightarrow> ('o, 'w, 'b) handler) \<Rightarrow> ('o, 'w, 'b) handler" where
  "recovering m f g = (\<lambda>s. case m s of (Inl e, s') \<Rightarrow> f e s' | (Inr x, s') \<Rightarrow> g x s')"

definition apply_pending :: "('o, 'w) policy_env \<Rightarrow> pending_increment \<Rightarrow> ('o, 'w, unit) handler" where
  "apply_pending env p = recovering (limit_increment env (pi_policy p))
     (\<lambda>e. add_trace env ''rate-limit'' (''postponed increment not applied: '' @ error_text e))
     (\<lambda>n. if n = 0 then done_with ()
       else and_then (count_calls env (pi_policy p) (pi_key p) n) (\<lambda>_. count_bytes env (pi_policy p) (pi_key p)))"

definition run_pending_increments :: "('o, 'w) policy_env \<Rightarrow> ('o, 'w, unit) handler" where
  "run_pending_increments env = reading (\<lambda>s.
     and_then (each_of (apply_pending env) (ps_pending s)) (\<lambda>_. update (\<lambda>s. s\<lparr>ps_pending := []\<rparr>)))"

section \<open>The limit\<close>

definition limit_exceeded :: "limit_policy \<Rightarrow> limit_decision \<Rightarrow> ('o, 'w, unit) handler" where
  "limit_exceeded l d =
     and_then (update (\<lambda>s. s\<lparr>ps_returned := True, ps_status := lp_status l\<rparr>)) (\<lambda>_.
     and_then (if lp_retry_after_header l = [] then done_with ()
               else put_header (lp_retry_after_header l) (retry_after_seconds (ld_retry_after d))) (\<lambda>_.
       if lp_retry_after_variable l = [] then done_with ()
       else set_variable (lp_retry_after_variable l) (retry_after_seconds (ld_retry_after d))))"

definition report_call_counters :: "limit_policy \<Rightarrow> limit_decision \<Rightarrow> ('o, 'w, unit) handler" where
  "report_call_counters l d =
     and_then (if lp_remaining_header l = [] then done_with ()
               else put_header (lp_remaining_header l) (int_text (ld_remaining d))) (\<lambda>_.
     and_then (if lp_remaining_variable l = [] then done_with ()
               else set_variable (lp_remaining_variable l) (int_text (ld_remaining d))) (\<lambda>_.
       if lp_total_header l = [] then done_with () else put_header (lp_total_header l) (int_text (lp_calls l))))"

text \<open>The two counters of a limit; \<open>True\<close> when neither is exceeded.\<close>

definition check_calls ::
  "('o, 'w) policy_env \<Rightarrow> limit_policy \<Rightarrow> string \<Rightarrow> duration \<Rightarrow> int \<Rightarrow> ('o, 'w, bool) handler" where
  "check_calls env l key remaining n =
     (if lp_calls l \<le> 0 then done_with True
      else case pe_rate_limit env of
        None \<Rightarrow> fail_with ''rate-limit requires a configured limiter''
      | Some limiter \<Rightarrow>
          and_then (calling (limiter key (lp_calls l) (lp_period l) n)) (\<lambda>d0.
          let d = d0\<lparr>ld_retry_after := window_retry_after l (ld_retry_after d0) remaining\<rparr> in
          and_then (report_call_counters l d) (\<lambda>_.
            if ld_exceeded d then and_then (limit_exceeded l d) (\<lambda>_. done_with False) else done_with True)))"

definition check_bandwidth ::
  "('o, 'w) policy_env \<Rightarrow> limit_policy \<Rightarrow> string \<Rightarrow> duration \<Rightarrow> int \<Rightarrow> ('o, 'w, bool) handler" where
  "check_bandwidth env l key remaining n =
     (if lp_bandwidth l \<le> 0 then done_with True
      else case pe_bandwidth_limit env of
        None \<Rightarrow> fail_with ''quota bandwidth requires a configured limiter''
      | Some limiter \<Rightarrow>
          and_then (if n > 0 then request_size else done_with 0) (\<lambda>bytes.
          and_then (calling (limiter key bytes (lp_bandwidth l) (lp_period l))) (\<lambda>d.
            if ld_exceeded d
            then and_then (limit_exceeded l (d\<lparr>ld_retry_after := window_retry_after l (ld_retry_after d) remaining\<rparr>))
                   (\<lambda>_. done_with False)
            else done_with True)))"

text \<open>The counter key, \<open>None\<close> when the limit does not apply to the request.\<close>

definition limit_key :: "limit_policy \<Rightarrow> string \<Rightarrow> ('o, 'w) policy_state \<Rightarrow> string option" where
  "limit_key l v s =
     (let key = (case ps_request s of Some r \<Rightarrow> if v = [] then gr_remote_addr r else v | None \<Rightarrow> v) in
      if lp_scope l \<noteq> [] \<and> \<not> limit_scope_matches l s then None
      else if lp_per_subscription l then
        (case ps_subscription s of
           None \<Rightarrow> None
         | Some c \<Rightarrow> if sc_id c = [] then None else Some (sc_id c @ ''/'' @ key))
      else Some key)"

text \<open>\<open>executeLimit\<close> up to its nested limits; \<open>True\<close> when they are to run.\<close>

definition limit_head :: "('o, 'w) policy_env \<Rightarrow> limit_policy \<Rightarrow> ('o, 'w, bool) handler" where
  "limit_head env l = and_then (eval_value env (lp_key l)) (\<lambda>v. reading (\<lambda>s.
     case limit_key l v s of
       None \<Rightarrow> done_with False
     | Some key0 \<Rightarrow>
         let (suffix, remaining) = limit_window env l s;
             key = key0 @ suffix;
             n = (if lp_increment_deferred l then 0 else literal_increment l) in
         and_then (if lp_increment_deferred l
                   then update (\<lambda>s. s\<lparr>ps_pending := ps_pending s @ [\<lparr>pi_policy = l, pi_key = key\<rparr>]\<rparr>)
                   else done_with ()) (\<lambda>_.
         and_then (check_calls env l key remaining n) (\<lambda>go_on.
           if go_on then check_bandwidth env l key remaining n else done_with False))))"

section \<open>Fixed windows\<close>

lemma go_div_mod:
  assumes "0 < p"
  shows "go_div e p * p + go_mod e p = e" and "\<bar>go_mod e p\<bar> < p"
    and "e \<ge> 0 \<Longrightarrow> go_mod e p \<ge> 0" and "e \<le> 0 \<Longrightarrow> go_mod e p \<le> 0"
proof -
  show "go_div e p * p + go_mod e p = e" by (simp add: go_mod_def)
  have m: "go_mod e p = sgn e * (\<bar>e\<bar> mod p)"
  proof -
    have "\<bar>e\<bar> = \<bar>e\<bar> div p * p + \<bar>e\<bar> mod p" by simp
    then have "sgn e * \<bar>e\<bar> = sgn e * (\<bar>e\<bar> div p * p) + sgn e * (\<bar>e\<bar> mod p)"
      by (metis distrib_left)
    moreover have "sgn e * \<bar>e\<bar> = e" by (simp add: sgn_mult_abs)
    moreover have "go_div e p = sgn e * (\<bar>e\<bar> div p)" using assms by (auto simp: go_div_def sgn_if)
    ultimately show ?thesis by (simp add: go_mod_def algebra_simps)
  qed
  have b: "0 \<le> \<bar>e\<bar> mod p" "\<bar>e\<bar> mod p < p" using assms by simp_all
  show "\<bar>go_mod e p\<bar> < p" unfolding m using b by (simp add: abs_mult abs_sgn_eq assms)
  show "e \<ge> 0 \<Longrightarrow> go_mod e p \<ge> 0" unfolding m using b(1) by (simp add: sgn_if)
  show "e \<le> 0 \<Longrightarrow> go_mod e p \<le> 0" unfolding m using b(1) by (cases "e = 0") (simp_all add: sgn_if)
qed

text \<open>The window number is the quotient rounded down.\<close>

lemma window_ordinal_div:
  assumes "0 < p"
  shows "window_ordinal e p = e div p"
proof -
  note d = go_div_mod [OF assms, of e]
  have "window_ordinal e p * p \<le> e \<and> e < window_ordinal e p * p + p"
    unfolding window_ordinal_def using d by (auto simp: left_diff_distrib)
  then have "e div p = window_ordinal e p"
    by (intro int_div_pos_eq [of e p _ "e - p * window_ordinal e p"]) (simp_all add: algebra_simps)
  then show ?thesis by simp
qed

lemma limit_window_bounds:
  assumes "lp_fixed_window l" and "0 < lp_period l" and "lp_period l \<le> 2 ^ 62"
    and "ps_timestamp s \<noteq> zero_time" and "\<bar>ps_timestamp s - limit_anchor env l s\<bar> \<le> 2 ^ 62"
    and "k = (ps_timestamp s - limit_anchor env l s) div lp_period l"
  shows "limit_window env l s = (''/'' @ int_text k, limit_anchor env l s + (k + 1) * lp_period l - ps_timestamp s)"
    and "limit_anchor env l s + k * lp_period l \<le> ps_timestamp s"
    and "ps_timestamp s < limit_anchor env l s + (k + 1) * lp_period l"
proof -
  define P e where "P = lp_period l" and "e = ps_timestamp s - limit_anchor env l s"
  have k: "k = e div P" and P: "0 < P" "P \<le> 2 ^ 62" and e: "\<bar>e\<bar> \<le> 2 ^ 62"
    using assms by (simp_all add: P_def e_def)
  have qr: "k * P + e mod P = e" by (simp add: k)
  have rem: "0 \<le> e mod P" "e mod P < P" using P(1) by simp_all
  from qr rem show "limit_anchor env l s + k * lp_period l \<le> ps_timestamp s"
    and "ps_timestamp s < limit_anchor env l s + (k + 1) * lp_period l"
    by (simp_all add: P_def [symmetric] e_def distrib_right)
  have sub: "time_sub (ps_timestamp s) (limit_anchor env l s) = e"
    unfolding e_def by (rule time_sub_exact) (use e in \<open>simp_all add: e_def min_duration_def max_duration_def\<close>)
  have wrap: "int64_wrap (k * P) = k * P"
  proof (rule int64_wrap_id)
    have small: "(2::int) ^ 63 = 2 ^ 62 + 2 ^ 62" by simp
    show "- (2 ^ 63) \<le> k * P" "k * P < 2 ^ 63" using qr rem P e unfolding small by linarith+
  qed
  have end_sub: "time_sub (limit_anchor env l s + k * P + P) (ps_timestamp s) = limit_anchor env l s + (k + 1) * P - ps_timestamp s"
  proof -
    have "limit_anchor env l s + k * P + P - ps_timestamp s = P - e mod P"
      using qr by (simp add: e_def)
    moreover have "min_duration \<le> P - e mod P"
      by (rule order_trans [of _ 0]) (use rem in \<open>simp_all add: min_duration_def\<close>)
    moreover have "P - e mod P \<le> max_duration"
      by (rule order_trans [of _ "2 ^ 62"]) (use rem P in \<open>linarith, simp add: max_duration_def\<close>)
    ultimately show ?thesis
      by (subst time_sub_exact) (simp_all add: distrib_right)
  qed
  show "limit_window env l s = (''/'' @ int_text k, limit_anchor env l s + (k + 1) * lp_period l - ps_timestamp s)"
    using assms(1,4) P(1) wrap end_sub
    by (simp add: limit_window_def Let_def sub window_ordinal_div P_def [symmetric] k [symmetric])
qed

lemma retry_seconds_pos: "1 \<le> retry_seconds w"
  by (simp add: retry_seconds_def)

lemma retry_seconds_covers: "w \<le> retry_seconds w * nanos_per_second"
proof -
  have "w \<le> - ((- w) div nanos_per_second) * nanos_per_second"
    by (simp add: nanos_per_second_def)
  moreover have "- ((- w) div nanos_per_second) * nanos_per_second \<le> retry_seconds w * nanos_per_second"
    by (intro mult_right_mono) (simp_all add: retry_seconds_def nanos_per_second_def)
  ultimately show ?thesis by linarith
qed

text \<open>
  A fixed quota window is the window of length \<open>renewal-period\<close> around the request, counted from
  the anchor in either direction: requests share a counter only within one window, the time left is
  positive and at most a period, and a client that waits the advertised whole seconds is past the
  end of the window.
\<close>

theorem quota_window_contains_request:
  assumes "lp_fixed_window l" and "0 < lp_period l" and "lp_period l \<le> 2 ^ 62"
    and "ps_timestamp s \<noteq> zero_time" and "\<bar>ps_timestamp s - limit_anchor env l s\<bar> \<le> 2 ^ 62"
    and "limit_window env l s = (sfx, left)"
  shows "\<exists>k. sfx = ''/'' @ int_text k
     \<and> limit_anchor env l s + k * lp_period l \<le> ps_timestamp s
     \<and> ps_timestamp s + left = limit_anchor env l s + (k + 1) * lp_period l
     \<and> 0 < left \<and> left \<le> lp_period l
     \<and> ps_timestamp s + retry_seconds (window_retry_after l d left) * nanos_per_second
         \<ge> limit_anchor env l s + (k + 1) * lp_period l"
proof -
  let ?k = "(ps_timestamp s - limit_anchor env l s) div lp_period l"
  note b = limit_window_bounds [OF assms(1-5) refl]
  have "window_retry_after l d left = left" using assms(1,2) by (simp add: window_retry_after_def)
  then show ?thesis
    using b assms(6) retry_seconds_covers [of left] by (intro exI [of _ ?k]) (auto simp: distrib_right)
qed

definition blank_limit :: limit_policy where
  "blank_limit =
     \<lparr>lp_key = [], lp_calls = 0, lp_bandwidth = 0, lp_period = 0, lp_status = 429, lp_retry_after_header = [],
      lp_per_subscription = False, lp_fixed_window = False, lp_anchor = [], lp_increment_condition = [],
      lp_increment_count = [], lp_increment_deferred = False, lp_scope = [], lp_scope_name = [], lp_scope_id = [],
      lp_retry_after_variable = [], lp_remaining_header = [], lp_remaining_variable = [], lp_total_header = []\<rparr>"

definition demo_quota :: limit_policy where
  "demo_quota = blank_limit\<lparr>lp_calls := 5, lp_period := 60 * nanos_per_second, lp_fixed_window := True\<rparr>"

theorem quota_window_contains_request_witness:
  "\<exists>k. ''/1'' = ''/'' @ int_text k
     \<and> limit_anchor plain_env demo_quota ((blank_state ())\<lparr>ps_timestamp := 61000000001\<rparr>) + k * lp_period demo_quota \<le> 61000000001
     \<and> 61000000001 + 58999999999
         = limit_anchor plain_env demo_quota ((blank_state ())\<lparr>ps_timestamp := 61000000001\<rparr>) + (k + 1) * lp_period demo_quota
     \<and> 0 < (58999999999::int) \<and> 58999999999 \<le> lp_period demo_quota
     \<and> 61000000001 + retry_seconds (window_retry_after demo_quota 0 58999999999) * nanos_per_second
         \<ge> limit_anchor plain_env demo_quota ((blank_state ())\<lparr>ps_timestamp := 61000000001\<rparr>) + (k + 1) * lp_period demo_quota"
proof -
  let ?s = "(blank_state ())\<lparr>ps_timestamp := 61000000001\<rparr> :: (string, unit) policy_state"
  have "lp_fixed_window demo_quota" "0 < lp_period demo_quota" "lp_period demo_quota \<le> 2 ^ 62"
    and "ps_timestamp ?s \<noteq> zero_time" "\<bar>ps_timestamp ?s - limit_anchor plain_env demo_quota ?s\<bar> \<le> 2 ^ 62"
    and "limit_window plain_env demo_quota ?s = (''/1'', 58999999999)"
    by code_simp+
  from quota_window_contains_request [OF this, of 0] show ?thesis by simp
qed

end
