(* ===== verification/PolicyFrame.thy ===== *)
theory PolicyFrame
  imports PolicyLimits
begin

text \<open>
  What a policy that holds no others can and cannot do.  \<open>quiet R m\<close> says of a handler that it keeps
  the release tokens, the section and the identity of the request, that what it does to the
  gateway stays within the relation \<open>R\<close>, and that its errors carry no location yet.  The locale
  \<open>quiet_services\<close> is the contract of the services under which every handler of \<open>apply_leaf\<close> and
  the counters of \<open>limit_head\<close> are quiet; \<open>GatewayFlow\<close> interprets it on the gateway.
\<close>

section \<open>Quiet handlers\<close>

definition same_exchange :: "('o, 'w) policy_state \<Rightarrow> ('o, 'w) policy_state \<Rightarrow> bool" where
  "same_exchange s t \<longleftrightarrow>
     ps_releases t = ps_releases s \<and> ps_section t = ps_section s \<and> ps_timestamp t = ps_timestamp s
     \<and> ps_subscription t = ps_subscription s \<and> ps_api t = ps_api s \<and> ps_operation t = ps_operation s"

fun unlocated :: "exec_error \<Rightarrow> bool" where
  "unlocated (PlainError m) = True"
| "unlocated (LocatedError e) = False"

definition quiet :: "('w \<Rightarrow> 'w \<Rightarrow> bool) \<Rightarrow> ('o, 'w, 'a) handler \<Rightarrow> bool" where
  "quiet R m \<longleftrightarrow>
     (\<forall>s. same_exchange s (snd (m s)) \<and> R (ps_world s) (ps_world (snd (m s)))
        \<and> (case fst (m s) of Inl e \<Rightarrow> unlocated e | Inr _ \<Rightarrow> True))"

lemma same_exchange_trans: "same_exchange s t \<Longrightarrow> same_exchange t u \<Longrightarrow> same_exchange s u"
  by (simp add: same_exchange_def)

lemma quietD:
  assumes "quiet R m" and "m s = (r, s')"
  shows "same_exchange s s'" and "R (ps_world s) (ps_world s')" and "r = Inl e \<Longrightarrow> unlocated e"
  using assms(1) [unfolded quiet_def, rule_format, of s] by (simp_all add: assms(2))

text \<open>The services whose use \<open>R\<close> has to allow: all but the concurrency limiter.\<close>

definition services_within :: "('w \<Rightarrow> 'w \<Rightarrow> bool) \<Rightarrow> ('o, 'w) policy_env \<Rightarrow> bool" where
  "services_within R env \<longleftrightarrow>
     (\<forall>f a b w. pe_fetch_credential env = Some f \<longrightarrow> R w (snd (f a b w)))
     \<and> (\<forall>f a b w. pe_validate_against env = Some f \<longrightarrow> R w (snd (f a b w)))
     \<and> (\<forall>f a w. pe_send env = Some f \<longrightarrow> R w (snd (f a w)))
     \<and> (\<forall>f a w. pe_acquire_token env = Some f \<longrightarrow> R w (snd (f a w)))
     \<and> (\<forall>f a b c d w. pe_acquire_oauth2 env = Some f \<longrightarrow> R w (snd (f a b c d w)))
     \<and> (\<forall>f a b w. pe_attach_certificate env = Some f \<longrightarrow> R w (snd (f a b w)))
     \<and> (\<forall>f a w. pe_value_get env = Some f \<longrightarrow> R w (snd (f a w)))
     \<and> (\<forall>f a b c w. pe_value_set env = Some f \<longrightarrow> R w (f a b c w))
     \<and> (\<forall>f a w. pe_value_remove env = Some f \<longrightarrow> R w (f a w))
     \<and> (\<forall>f a b c d w. pe_rate_limit env = Some f \<longrightarrow> R w (snd (f a b c d w)))
     \<and> (\<forall>f a b c d w. pe_bandwidth_limit env = Some f \<longrightarrow> R w (snd (f a b c d w)))
     \<and> (\<forall>f a w. pe_cache_get env = Some f \<longrightarrow> R w (snd (f a w)))
     \<and> (\<forall>f a b c d e w. pe_cache_set env = Some f \<longrightarrow> R w (f a b c d e w))
     \<and> (\<forall>f a b c w. pe_token_limit env = Some f \<longrightarrow> R w (snd (f a b c w)))
     \<and> (\<forall>f a b c d w. pe_token_quota env = Some f \<longrightarrow> R w (snd (f a b c d w)))"

named_theorems quiet_intros

section \<open>The contract\<close>

locale quiet_services =
  fixes env :: "('o, 'w) policy_env" and R :: "'w \<Rightarrow> 'w \<Rightarrow> bool"
  assumes R_refl [simp]: "R w w"
    and R_trans: "R w w1 \<Longrightarrow> R w1 w2 \<Longrightarrow> R w w2"
    and quiet_eval: "quiet R (pe_eval env e)"
    and within: "services_within R env"
begin

lemma quiet_done_with [quiet_intros]: "quiet R (done_with x)"
  by (simp add: quiet_def same_exchange_def)

lemma quiet_fail_with [quiet_intros]: "quiet R (fail_with m)"
  by (simp add: quiet_def same_exchange_def)

lemma quiet_update [quiet_intros]:
  "(\<And>s. same_exchange s (f s)) \<Longrightarrow> (\<And>s. R (ps_world s) (ps_world (f s))) \<Longrightarrow> quiet R (update f)"
  by (simp add: quiet_def)

lemma quiet_calling [quiet_intros]: "(\<And>w. R w (snd (f w))) \<Longrightarrow> quiet R (calling f)"
  by (simp add: quiet_def same_exchange_def)

lemma quiet_reading [quiet_intros]: "(\<And>s. quiet R (f s)) \<Longrightarrow> quiet R (reading f)"
  by (simp add: quiet_def)

lemma quiet_and_then [quiet_intros]:
  assumes m: "quiet R m" and f: "\<And>x. quiet R (f x)"
  shows "quiet R (and_then m f)"
  unfolding quiet_def
proof (rule allI)
  fix s
  obtain r s1 where ms: "m s = (r, s1)" by fastforce
  note q = quietD [OF m ms]
  show "same_exchange s (snd (and_then m f s)) \<and> R (ps_world s) (ps_world (snd (and_then m f s)))
        \<and> (case fst (and_then m f s) of Inl e \<Rightarrow> unlocated e | Inr _ \<Rightarrow> True)"
  proof (cases r)
    case (Inl e)
    then show ?thesis using q by (simp add: and_then_def ms)
  next
    case (Inr x)
    obtain r2 s2 where fs: "f x s1 = (r2, s2)" by fastforce
    note q2 = quietD [OF f fs]
    show ?thesis
      using q2(3) same_exchange_trans [OF q(1) q2(1)] R_trans [OF q(2) q2(2)]
      by (simp add: and_then_def ms Inr fs split: sum.split)
  qed
qed

lemma quiet_recovering [quiet_intros]:
  assumes m: "quiet R m" and f: "\<And>e. quiet R (f e)" and g: "\<And>x. quiet R (g x)"
  shows "quiet R (recovering m f g)"
  unfolding quiet_def
proof (rule allI)
  fix s
  obtain r s1 where ms: "m s = (r, s1)" by fastforce
  note q = quietD [OF m ms]
  show "same_exchange s (snd (recovering m f g s)) \<and> R (ps_world s) (ps_world (snd (recovering m f g s)))
        \<and> (case fst (recovering m f g s) of Inl e \<Rightarrow> unlocated e | Inr _ \<Rightarrow> True)"
    using f [unfolded quiet_def, rule_format, of s1] g [unfolded quiet_def, rule_format, of s1]
      same_exchange_trans [OF q(1)] R_trans [OF q(2)]
    by (cases r) (auto simp: recovering_def ms)
qed

lemma quiet_if [quiet_intros]:
  "(b \<Longrightarrow> quiet R m) \<Longrightarrow> (\<not> b \<Longrightarrow> quiet R n) \<Longrightarrow> quiet R (if b then m else n)"
  by simp

lemma quiet_option [quiet_intros]:
  "(x = None \<Longrightarrow> quiet R m) \<Longrightarrow> (\<And>y. x = Some y \<Longrightarrow> quiet R (f y)) \<Longrightarrow> quiet R (case x of None \<Rightarrow> m | Some y \<Rightarrow> f y)"
  by (simp split: option.split)

lemma quiet_prod [quiet_intros]: "(\<And>x y. p = (x, y) \<Longrightarrow> quiet R (f x y)) \<Longrightarrow> quiet R (case p of (x, y) \<Rightarrow> f x y)"
  by (simp split: prod.split)

lemma quiet_bool [quiet_intros]:
  "(b \<Longrightarrow> quiet R m) \<Longrightarrow> (\<not> b \<Longrightarrow> quiet R n) \<Longrightarrow> quiet R (case b of True \<Rightarrow> m | False \<Rightarrow> n)"
  by (simp split: bool.split)

lemma quiet_sum [quiet_intros]:
  "(\<And>e. x = Inl e \<Longrightarrow> quiet R (f e)) \<Longrightarrow> (\<And>y. x = Inr y \<Longrightarrow> quiet R (g y)) \<Longrightarrow>
     quiet R (case x of Inl e \<Rightarrow> f e | Inr y \<Rightarrow> g y)"
  by (simp split: sum.split)

lemma quiet_let [quiet_intros]: "quiet R (f t) \<Longrightarrow> quiet R (let x = t in f x)"
  by simp

lemma quiet_result_of [quiet_intros]: "quiet R (result_of r)"
  by (cases r) (simp_all add: quiet_intros)

lemma quiet_each_of [quiet_intros]: "(\<And>x. quiet R (f x)) \<Longrightarrow> quiet R (each_of f xs)"
  by (induction xs) (simp_all add: quiet_intros)

lemma quiet_eval_raw [quiet_intros]: "quiet R (eval_raw env v)"
  by (simp add: eval_raw_def quiet_intros quiet_eval)

lemma quiet_eval_value [quiet_intros]: "quiet R (eval_value env v)"
  by (simp add: eval_value_def quiet_intros)

lemma quiet_evaluate_condition [quiet_intros]: "quiet R (evaluate_condition env v)"
  unfolding evaluate_condition_def by (intro quiet_intros quiet_eval)

lemma quiet_writes [quiet_intros]:
  "quiet R (set_variable n v)" "quiet R (put_header n v)" "quiet R (answer code body)"
  "quiet R (with_response f)" "quiet R (with_request g)" "quiet R (set_request_header n v)"
  by (simp_all add: set_variable_def put_header_def answer_def with_response_def with_request_def
      set_request_header_def quiet_def same_exchange_def)

lemma quiet_add_trace [quiet_intros]: "quiet R (add_trace env a b)"
  by (simp add: add_trace_def quiet_def same_exchange_def)

section \<open>Every handler is quiet\<close>

lemma quiet_rewrite_body [quiet_intros]: "quiet R (rewrite_body f m)"
  unfolding rewrite_body_def by (intro quiet_intros)

lemma quiet_evaluated_status [quiet_intros]: "quiet R (evaluated_status env c e m)"
  unfolding evaluated_status_def by (intro quiet_intros)

lemma quiet_evaluated_header [quiet_intros]: "quiet R (evaluated_header env h)"
  unfolding evaluated_header_def by (intro quiet_intros)

lemma quiet_set_reply_headers [quiet_intros]: "quiet R (set_reply_headers env hs)"
proof (induction hs)
  case Nil
  show ?case unfolding set_reply_headers.simps by (rule quiet_done_with)
next
  case (Cons h hs)
  show ?case
    unfolding set_reply_headers.simps by (intro quiet_intros Cons.IH) (simp_all add: same_exchange_def)
qed

lemma within_service:
  shows "pe_fetch_credential env = Some f0 \<Longrightarrow> R w (snd (f0 a1 b1 w))"
    "pe_validate_against env = Some f1 \<Longrightarrow> R w (snd (f1 a2 b2 w))"
    "pe_send env = Some f2 \<Longrightarrow> R w (snd (f2 a3 w))"
    "pe_acquire_token env = Some f3 \<Longrightarrow> R w (snd (f3 a4 w))"
    "pe_acquire_oauth2 env = Some f4 \<Longrightarrow> R w (snd (f4 a5 b5 c5 d5 w))"
    "pe_attach_certificate env = Some f5 \<Longrightarrow> R w (snd (f5 a6 b6 w))"
    "pe_value_get env = Some f6 \<Longrightarrow> R w (snd (f6 a7 w))"
    "pe_rate_limit env = Some f7 \<Longrightarrow> R w (snd (f7 a8 b8 c8 d8 w))"
    "pe_bandwidth_limit env = Some f8 \<Longrightarrow> R w (snd (f8 a9 b9 c9 d9 w))"
    "pe_cache_get env = Some f9 \<Longrightarrow> R w (snd (f9 a10 w))"
    "pe_token_limit env = Some f10 \<Longrightarrow> R w (snd (f10 a11 b11 c11 w))"
    "pe_token_quota env = Some f11 \<Longrightarrow> R w (snd (f11 a12 b12 c12 d12 w))"
    "pe_value_set env = Some g0 \<Longrightarrow> R w (g0 a13 b13 c13 w)"
    "pe_value_remove env = Some g1 \<Longrightarrow> R w (g1 a14 w)"
    "pe_cache_set env = Some g2 \<Longrightarrow> R w (g2 a15 b15 c15 d15 e15 w)"
  using within unfolding services_within_def by (auto simp: )

text \<open>What \<open>intro\<close> leaves is an update whose fields are in view, or a service.\<close>

lemmas quiet_side = same_exchange_def within_service

lemma quiet_set_header [quiet_intros]: "quiet R (apply_set_header env n v act)"
  unfolding apply_set_header_def by (intro quiet_intros) (auto simp: quiet_side)

lemma quiet_set_query_parameter [quiet_intros]: "quiet R (apply_set_query_parameter env n v act)"
  unfolding apply_set_query_parameter_def by (intro quiet_intros)

lemma quiet_get_authorization_context [quiet_intros]: "quiet R (apply_get_authorization_context env p a v ig)"
  unfolding apply_get_authorization_context_def by (intro quiet_intros) (auto simp: quiet_side)

lemma quiet_set_variable [quiet_intros]: "quiet R (apply_set_variable env n v)"
  unfolding apply_set_variable_def by (intro quiet_intros) (auto simp: quiet_side)

lemma quiet_set_body [quiet_intros]: "quiet R (apply_set_body env b)"
  unfolding apply_set_body_def by (intro quiet_intros) (auto simp: quiet_side)

lemma quiet_check_header [quiet_intros]: "quiet R (apply_check_header env n vs m code ic)"
  unfolding apply_check_header_def by (intro quiet_intros)

lemma quiet_ip_filter [quiet_intros]: "quiet R (apply_ip_filter env rules act code m)"
  unfolding apply_ip_filter_def by (intro quiet_intros)

lemma quiet_set_method [quiet_intros]: "quiet R (apply_set_method env v)"
  unfolding apply_set_method_def by (intro quiet_intros)

lemma quiet_put_nonempty [quiet_intros]: "quiet R (put_nonempty n v)"
  unfolding put_nonempty_def by (intro quiet_intros)

lemma quiet_cors [quiet_intros]: "quiet R (apply_cors env o1 ms hs ex age cr)"
  unfolding apply_cors_def by (intro quiet_intros) (auto simp: quiet_side)

lemma quiet_one_way [quiet_intros]: "quiet R (one_way_checks env p)"
  unfolding one_way_checks_def by (intro quiet_intros)

lemma quiet_send_request [quiet_intros]: "quiet R (apply_send_request env p)"
  unfolding apply_send_request_def by (intro quiet_intros) (auto simp: quiet_side)

lemma quiet_cache_lookup [quiet_intros]: "quiet R (apply_cache_lookup env)"
  unfolding apply_cache_lookup_def by (intro quiet_intros) (auto simp: quiet_side)

lemma quiet_cache_store [quiet_intros]: "quiet R (apply_cache_store env d)"
  unfolding apply_cache_store_def by (intro quiet_intros) (auto simp: quiet_side)

lemma quiet_validate_status [quiet_intros]: "quiet R (apply_validate_status lo hi act code v)"
  unfolding apply_validate_status_def by (intro quiet_intros)

lemma quiet_validate_content [quiet_intros]: "quiet R (apply_validate_content l act ts code)"
  unfolding apply_validate_content_def Let_def by (intro quiet_intros)

lemma quiet_validate_headers [quiet_intros]: "quiet R (apply_validate_headers rs u code)"
  unfolding apply_validate_headers_def Let_def by (intro quiet_intros)

lemma quiet_validate_parameters [quiet_intros]: "quiet R (apply_validate_parameters rs u code)"
  unfolding apply_validate_parameters_def by (intro quiet_intros)

lemma quiet_validate_certificate [quiet_intros]: "quiet R (apply_validate_certificate env ts code)"
  unfolding apply_validate_certificate_def by (intro quiet_intros)

lemma quiet_authentication_basic [quiet_intros]: "quiet R (apply_authentication_basic env u p)"
  unfolding apply_authentication_basic_def by (intro quiet_intros)

lemma quiet_bearer [quiet_intros]: "quiet R (bearer r)"
  unfolding bearer_def by (intro quiet_intros)

lemma quiet_authentication_identity [quiet_intros]: "quiet R (apply_authentication_identity env r)"
  unfolding apply_authentication_identity_def by (intro quiet_intros) (auto simp: quiet_side)

lemma quiet_authentication_oauth2 [quiet_intros]: "quiet R (apply_authentication_oauth2 env c sec e r)"
  unfolding apply_authentication_oauth2_def by (intro quiet_intros) (auto simp: quiet_side)

lemma quiet_authentication_certificate [quiet_intros]: "quiet R (apply_authentication_certificate env c)"
  unfolding apply_authentication_certificate_def by (intro quiet_intros) (auto simp: quiet_side)

lemma quiet_find_replace [quiet_intros]: "quiet R (apply_find_replace env p t)"
  unfolding apply_find_replace_def by (intro quiet_intros)

lemma quiet_json_to_xml [quiet_intros]: "quiet R (apply_json_to_xml env r)"
  unfolding apply_json_to_xml_def by (intro quiet_intros)

lemma quiet_xml_to_json [quiet_intros]: "quiet R (apply_xml_to_json env)"
  unfolding apply_xml_to_json_def by (intro quiet_intros)

lemma quiet_jsonp [quiet_intros]: "quiet R (apply_jsonp env p)"
  unfolding apply_jsonp_def by (intro quiet_intros)

lemma quiet_redirect_urls [quiet_intros]: "quiet R (apply_redirect_urls)"
  unfolding apply_redirect_urls_def by (intro quiet_intros)

lemma quiet_cache_lookup_value [quiet_intros]: "quiet R (apply_cache_lookup_value env k v)"
  unfolding apply_cache_lookup_value_def by (intro quiet_intros) (auto simp: quiet_side)

lemma quiet_cache_store_value [quiet_intros]: "quiet R (apply_cache_store_value env k v d)"
  unfolding apply_cache_store_value_def by (intro quiet_intros) (auto simp: quiet_side)

lemma quiet_cache_remove_value [quiet_intros]: "quiet R (apply_cache_remove_value env k)"
  unfolding apply_cache_remove_value_def by (intro quiet_intros) (auto simp: quiet_side)

lemma quiet_set_backend [quiet_intros]: "quiet R (apply_set_backend env u b)"
  unfolding apply_set_backend_def by (intro quiet_intros) (auto simp: quiet_side)

lemma quiet_rewrite_uri [quiet_intros]: "quiet R (apply_rewrite_uri env t)"
  unfolding apply_rewrite_uri_def by (intro quiet_intros) (auto simp: quiet_side)

lemma quiet_return_response [quiet_intros]: "quiet R (apply_return_response env code r b hs ce)"
  unfolding apply_return_response_def by (intro quiet_intros) (auto simp: quiet_side)

lemma quiet_set_status [quiet_intros]: "quiet R (apply_set_status env ce code r)"
  unfolding apply_set_status_def by (intro quiet_intros) (auto simp: quiet_side)

lemma quiet_check_tenant [quiet_intros]: "quiet R (check_tenant env v)"
  unfolding check_tenant_def by (intro quiet_intros)

lemma quiet_signature_required [quiet_intros]: "quiet R (signature_required env v)"
  unfolding signature_required_def by (intro quiet_intros)

lemma quiet_check_signature [quiet_intros]: "quiet R (check_signature env x cs tok)"
  unfolding check_signature_def by (intro quiet_intros) (auto simp: quiet_side)

lemma quiet_validate_token [quiet_intros]: "quiet R (validate_token env jp c m tok)"
  unfolding validate_token_def by (intro quiet_intros) (auto simp: quiet_side)

lemma quiet_validate_jwt [quiet_intros]: "quiet R (apply_validate_jwt env jp)"
  unfolding apply_validate_jwt_def by (intro quiet_intros)

lemma quiet_set_llm_value [quiet_intros]: "quiet R (set_llm_value h v x)"
  unfolding set_llm_value_def by (intro quiet_intros)

lemma quiet_estimate_prompt [quiet_intros]: "quiet R (estimate_prompt env)"
  unfolding estimate_prompt_def by (intro quiet_intros)

lemma quiet_token_quota [quiet_intros]: "quiet R (apply_token_quota env c k est)"
  unfolding apply_token_quota_def by (intro quiet_intros) (auto simp: quiet_side)

lemma quiet_llm_token_limit [quiet_intros]: "quiet R (apply_llm_token_limit env c code)"
  unfolding apply_llm_token_limit_def Let_def by (intro quiet_intros) (auto simp: quiet_side)

lemma quiet_llm_emit_metric [quiet_intros]: "quiet R (apply_llm_emit_metric env c)"
  unfolding apply_llm_emit_metric_def by (intro quiet_intros) (auto simp: quiet_side)

lemma quiet_leaf: "quiet R (apply_leaf env l)"
  by (cases l) (simp_all only: apply_leaf.simps quiet_intros)

lemma quiet_request_size [quiet_intros]: "quiet R (request_size)"
  unfolding request_size_def by (intro quiet_intros)

lemma quiet_limit_exceeded [quiet_intros]: "quiet R (limit_exceeded l d)"
  unfolding limit_exceeded_def by (intro quiet_intros) (auto simp: quiet_side)

lemma quiet_call_counters [quiet_intros]: "quiet R (report_call_counters l d)"
  unfolding report_call_counters_def by (intro quiet_intros)

lemma quiet_check_calls [quiet_intros]: "quiet R (check_calls env l k r n)"
  unfolding check_calls_def by (intro quiet_intros) (auto simp: quiet_side)

lemma quiet_check_bandwidth [quiet_intros]: "quiet R (check_bandwidth env l k r n)"
  unfolding check_bandwidth_def by (intro quiet_intros) (auto simp: quiet_side)

lemma quiet_limit_head [quiet_intros]: "quiet R (limit_head env l)"
  unfolding limit_head_def Let_def by (intro quiet_intros) (auto simp: quiet_side)

lemma quiet_limit_increment [quiet_intros]: "quiet R (limit_increment env l)"
  unfolding limit_increment_def by (intro quiet_intros)

lemma quiet_count_calls [quiet_intros]: "quiet R (count_calls env l k n)"
  unfolding count_calls_def by (intro quiet_intros) (auto simp: quiet_side)

lemma quiet_count_bytes [quiet_intros]: "quiet R (count_bytes env l k)"
  unfolding count_bytes_def by (intro quiet_intros) (auto simp: quiet_side)

lemma quiet_apply_pending [quiet_intros]: "quiet R (apply_pending env p)"
  unfolding apply_pending_def by (intro quiet_intros)

lemma quiet_run_pending [quiet_intros]: "quiet R (run_pending_increments env)"
  unfolding run_pending_increments_def by (intro quiet_intros) (simp_all add: quiet_side)

end

end
