(* ===== verification/PolicyRun.thy ===== *)
theory PolicyRun
  imports PolicyFrame "HOL-Library.Multiset"
begin

text \<open>
  \<open>Execute\<close> of \<open>internal/policy/policy.go\<close>: a list of actions runs in order until one fails or
  answers the request; policies that hold others run them through the same loop.  An error leaves
  the loop with the location of the innermost action that raised it.
\<close>

section \<open>Execution\<close>

definition concurrency_key :: "string \<Rightarrow> ('o, 'w) policy_state \<Rightarrow> string" where
  "concurrency_key v s =
     (case ps_request s of Some r \<Rightarrow> if v = [] then gr_remote_addr r else v | None \<Rightarrow> v)"

text \<open>
  \<open>applyLimitConcurrency\<close> up to its children; \<open>True\<close> when they are to run.  A token of the limiter
  is the release function, kept until the exchange ends.
\<close>

definition limit_concurrency_head ::
  "('o, 'w) policy_env \<Rightarrow> string \<Rightarrow> int \<Rightarrow> int \<Rightarrow> string \<Rightarrow> ('o, 'w, bool) handler" where
  "limit_concurrency_head env key calls code body =
     (case pe_acquire_concurrency env of
        None \<Rightarrow> fail_with ''limit-concurrency requires a configured limiter''
      | Some acquire \<Rightarrow> and_then (eval_value env key) (\<lambda>v. reading (\<lambda>s.
          and_then (calling (acquire (concurrency_key v s) calls)) (\<lambda>r.
            case r of
              None \<Rightarrow> and_then (answer code body) (\<lambda>_. done_with False)
            | Some release \<Rightarrow>
                and_then (update (\<lambda>s. s\<lparr>ps_releases := ps_releases s @ [release]\<rparr>)) (\<lambda>_. done_with True)))))"

text \<open>
  \<open>execute\<close> is the loop of \<open>Execute\<close>, \<open>run_one\<close> one round of it, \<open>run_kind\<close> the handler of an action,
  \<open>run_choose\<close> the branches of \<open>choose\<close> still to be tried, \<open>wait_any\<close> the loop of \<open>executeWait\<close>.
\<close>

function execute :: "('o, 'w) policy_env \<Rightarrow> action list \<Rightarrow> ('o, 'w, unit) handler"
  and run_one :: "('o, 'w) policy_env \<Rightarrow> action \<Rightarrow> ('o, 'w, unit) handler"
  and run_kind :: "('o, 'w) policy_env \<Rightarrow> action_kind \<Rightarrow> ('o, 'w, unit) handler"
  and run_choose :: "('o, 'w) policy_env \<Rightarrow> (string \<times> action list) list \<Rightarrow> action list \<Rightarrow> ('o, 'w, unit) handler"
  and wait_any :: "('o, 'w) policy_env \<Rightarrow> action list \<Rightarrow> exec_error option \<Rightarrow> ('o, 'w, unit) handler"
  where
  "execute env [] = done_with ()"
| "execute env (a # as) = (\<lambda>s.
     case run_one env a s of
       (Inl e, s') \<Rightarrow> (Err e, s')
     | (Inr _, s') \<Rightarrow> if ps_returned s' then (Ok (), s') else execute env as s')"
| "run_one env (Action m k) = (\<lambda>s.
     case run_kind env k s of
       (Inl e, s') \<Rightarrow> (Err (locate e m (ps_section s')), s')
     | (Inr _, s') \<Rightarrow> (Ok (), s'))"
| "run_kind env (ALeaf l) = apply_leaf env l"
| "run_kind env (ARateLimit l kids) =
     and_then (limit_head env l) (\<lambda>go_on. if go_on then execute env kids else done_with ())"
| "run_kind env (ALimitConcurrency key calls code body kids) =
     and_then (limit_concurrency_head env key calls code body) (\<lambda>go_on. if go_on then execute env kids else done_with ())"
| "run_kind env (AChoose branches otherwise) = run_choose env branches otherwise"
| "run_kind env (ARetry attempts interval cond kids) = execute env kids"
| "run_kind env (AWait mode kids) = (if mode \<noteq> ''any'' then execute env kids else wait_any env kids None)"
| "run_choose env [] otherwise = execute env otherwise"
| "run_choose env ((c, as) # bs) otherwise =
     and_then (evaluate_condition env c) (\<lambda>matched. if matched then execute env as else run_choose env bs otherwise)"
| "wait_any env [] latest = (case latest of None \<Rightarrow> done_with () | Some e \<Rightarrow> (\<lambda>s. (Err e, s)))"
| "wait_any env (a # as) latest = (\<lambda>s.
     case run_one env a s of
       (Inl e, s') \<Rightarrow> wait_any env as (Some e) s'
     | (Inr _, s') \<Rightarrow> (Ok (), s'))"

  by pat_completeness auto

termination
  by (relation "measure (case_sum (case_sum (\<lambda>(_, as). 2 * size_list size as) (\<lambda>(_, a). 2 * size a))
        (case_sum (\<lambda>(_, k). 2 * size k)
          (case_sum (\<lambda>(_, bs, ot). 2 * (size_list (size_prod (\<lambda>_. 0) (size_list size)) bs + size_list size ot) + 1)
            (\<lambda>(_, as, _). 2 * size_list size as))))") auto

lemma execute_single [simp]: "execute env [a] = run_one env a"
  by (rule ext) (auto simp: split: prod.split sum.split)

lemma execute_app:
  assumes "as \<noteq> [] \<or> \<not> ps_returned s"
  shows "execute env (as @ bs) s =
     (case execute env as s of
        (Inl e, s') \<Rightarrow> (Inl e, s')
      | (Inr _, s') \<Rightarrow> if ps_returned s' then (Inr (), s') else execute env bs s')"
  using assms
proof (induction as arbitrary: s)
  case (Cons a as)
  show ?case
  proof (cases "run_one env a s")
    case (Pair r s1)
    then show ?thesis using Cons.IH [of s1] by (cases r; cases "as = []") (auto split: prod.split sum.split)
  qed
qed simp

section \<open>Where an error happened\<close>

text \<open>An action of a list, at any depth.\<close>

inductive nested_in :: "action \<Rightarrow> action list \<Rightarrow> bool" where
  member: "a \<in> set as \<Longrightarrow> nested_in a as"
| deeper: "b \<in> set as \<Longrightarrow> nested_in a (sub_actions b) \<Longrightarrow> nested_in a as"

lemma nested_in_mono: "nested_in a as \<Longrightarrow> set as \<subseteq> set bs \<Longrightarrow> nested_in a bs"
  by (induction rule: nested_in.induct) (auto intro: nested_in.intros)

text \<open>The actions whose own handler can fail, with no child involved.\<close>

fun can_raise :: "action_kind \<Rightarrow> bool" where
  "can_raise (ARetry c i cond kids) = False"
| "can_raise (AWait mode kids) = False"
| "can_raise (AChoose bs otherwise) = (bs \<noteq> [])"
| "can_raise _ = True"

text \<open>The error names an action of the list that can fail by itself.\<close>

definition names :: "policy_error \<Rightarrow> action \<Rightarrow> bool" where
  "names pe a \<longleftrightarrow> can_raise (act_kind a)
     \<and> pe_element pe = am_element (act_meta a) \<and> pe_policy_id pe = am_policy_id (act_meta a)"

fun blames :: "exec_error \<Rightarrow> action list \<Rightarrow> bool" where
  "blames (PlainError m) as = False"
| "blames (LocatedError pe) as = (\<exists>a. nested_in a as \<and> names pe a)"

lemma names_located [simp]: "names (pe\<lparr>pe_section := sec, pe_scope := sc\<rparr>) a = names pe a"
  by (simp add: names_def)

lemma blames_mono: "blames e as \<Longrightarrow> set as \<subseteq> set bs \<Longrightarrow> blames e bs"
  by (cases e) (auto intro: nested_in_mono)

lemma blames_head: "blames e [a] \<Longrightarrow> blames e (a # as)"
  and blames_tail: "blames e as \<Longrightarrow> blames e (a # as)"
  and blames_right: "blames e bs \<Longrightarrow> blames e (as @ bs)"
  and blames_left: "blames e as \<Longrightarrow> blames e (as @ bs)"
  by (auto elim: blames_mono)

lemma blames_locate: "blames e as \<Longrightarrow> blames (locate e m sec) as"
  by (cases e) (simp_all add: locate_def)

lemma blames_sub: "blames e (sub_actions (Action m' k)) \<Longrightarrow> blames e [Action m k]"
proof (cases e)
  case (LocatedError pe)
  assume "blames e (sub_actions (Action m' k))"
  then obtain a where "nested_in a (sub_actions (Action m k))" "names pe a" by (auto simp: LocatedError)
  then show ?thesis
    unfolding LocatedError blames.simps by (intro exI conjI) (rule nested_in.deeper [of "Action m k"], simp_all)
qed simp

lemma blames_raised: "unlocated e \<Longrightarrow> can_raise k \<Longrightarrow> blames (locate e m sec) [Action m k]"
  by (cases e) (auto simp: locate_def names_def intro!: exI [of _ "Action m k"] nested_in.member)

context quiet_services
begin

lemma quiet_concurrency_error: "limit_concurrency_head env key calls code body s = (Inl e, s') \<Longrightarrow> unlocated e"
  using quiet_eval_value [of key, unfolded quiet_def, rule_format, of s]
  by (auto simp: limit_concurrency_head_def and_then_Inl_iff answer_def split: option.splits)

end

lemma errors_blame:
  shows "quiet_services env R \<Longrightarrow> execute env as s = (Inl e, s') \<Longrightarrow> blames e as"
    and "quiet_services env R \<Longrightarrow> run_one env a s = (Inl e, s') \<Longrightarrow> blames e [a]"
    and "quiet_services env R \<Longrightarrow> run_kind env k s = (Inl e, s')
      \<Longrightarrow> unlocated e \<and> can_raise k \<or> blames e (sub_actions (Action no_meta k))"
    and "quiet_services env R \<Longrightarrow> run_choose env bs ot s = (Inl e, s')
      \<Longrightarrow> unlocated e \<and> bs \<noteq> [] \<or> blames e (concat (map snd bs) @ ot)"
    and "quiet_services env R \<Longrightarrow> wait_any env as latest s = (Inl e, s') \<Longrightarrow> latest = Some e \<or> blames e as"
proof (induction env as and env a and env k and env bs ot and env as latest
    arbitrary: s e s' and s e s' and s e s' and s e s' and s e s'
    rule: execute_run_one_run_kind_run_choose_wait_any.induct)
  case (2 env a as)
  from 2(4) consider "run_one env a s = (Inl e, s')"
    | s1 where "run_one env a s = (Inr (), s1)" "\<not> ps_returned s1" "execute env as s1 = (Inl e, s')"
    by (auto split: prod.splits sum.splits if_splits)
  then show ?case
  proof cases
    case 1
    then show ?thesis by (rule blames_head [OF "2.IH"(1) [OF "2.prems"(1)]])
  next
    case (2 s1)
    show ?thesis by (rule blames_tail [OF "2.IH"(2) [OF 2(1) [symmetric] refl 2(2) "2.prems"(1) 2(3)]])
  qed
next
  case (3 env m k)
  from 3(3) obtain e1 where run: "run_kind env k s = (Inl e1, s')" and e: "e = locate e1 m (ps_section s')"
    by (auto split: prod.splits sum.splits)
  from 3(1) [OF 3(2) run] show ?case
    unfolding e by (elim disjE conjE) (erule (1) blames_raised, rule blames_locate, erule blames_sub)
next
  case (4 env l)
  then show ?case using quietD(3) [OF quiet_services.quiet_leaf [OF 4(1)]] by auto
next
  case (5 env l kids)
  then show ?case
    using quietD(3) [OF quiet_services.quiet_limit_head [OF 5(2)]]
    by (auto simp: and_then_Inl_iff split: if_splits)
next
  case (6 env key calls code body kids)
  then show ?case
    using quiet_services.quiet_concurrency_error [OF 6(2)]
    by (auto simp: and_then_Inl_iff split: if_splits)
next
  case (11 env c as bs ot)
  from 11(4) consider "evaluate_condition env c s = (Inl e, s')"
    | s1 where "execute env as s1 = (Inl e, s')"
    | s1 where "run_choose env bs ot s1 = (Inl e, s')"
    by (auto simp: and_then_Inl_iff split: if_splits)
  then show ?case
  proof cases
    case 1
    then show ?thesis using quietD(3) [OF quiet_services.quiet_evaluate_condition [OF 11(3)]] by auto
  next
    case (2 s1)
    have "blames e as" by (rule "11.IH"(1) [OF refl "11.prems"(1) 2])
    then show ?thesis by (simp add: blames_left)
  next
    case (3 s1)
    have "unlocated e \<and> bs \<noteq> [] \<or> blames e (concat (map snd bs) @ ot)"
      by (rule "11.IH"(2) [of False, OF _ "11.prems"(1) 3]) simp
    then show ?thesis by (auto simp: blames_right)
  qed
next
  case (13 env a as latest)
  from "13.prems"(2) obtain e1 s1 where run: "run_one env a s = (Inl e1, s1)"
    and rest: "wait_any env as (Some e1) s1 = (Inl e, s')"
    by (auto split: prod.splits sum.splits)
  have "Some e1 = Some e \<or> blames e as" by (rule "13.IH"(2) [OF run [symmetric] refl "13.prems"(1) rest])
  moreover have "blames e1 [a]" by (rule "13.IH"(1) [OF "13.prems"(1) run])
  ultimately have "blames e (a # as)" by (metis blames_head blames_tail option.inject)
  then show ?case ..
qed (auto split: if_splits option.splits)

section \<open>Order of execution\<close>

lemma run_choose_pure:
  assumes "\<forall>c \<in> fst ` set bs. pe_eval env c s = (Inr (VBool (holds c)), s)"
  shows "run_choose env bs otherwise s =
     execute env (case find (\<lambda>(c, _). holds c) bs of Some (_, as) \<Rightarrow> as | None \<Rightarrow> otherwise) s"
  using assms
  by (induction bs) (auto simp: evaluate_condition_def and_then_def)

text \<open>The actions fail one after the other, each on the state the one before left.\<close>

inductive all_fail ::
  "('o, 'w) policy_env \<Rightarrow> action list \<Rightarrow> ('o, 'w) policy_state \<Rightarrow> ('o, 'w) policy_state \<Rightarrow> bool" for env where
  none_left: "all_fail env [] s s"
| one_fails: "run_one env a s = (Inl e, s1) \<Longrightarrow> all_fail env as s1 s2 \<Longrightarrow> all_fail env (a # as) s s2"

inductive_cases all_fail_ConsE: "all_fail env (a # as) s s2"
inductive_simps all_fail_Nil [simp]: "all_fail env [] s s2"

lemma wait_any_ok_iff:
  "wait_any env as latest s = (Inr (), s') \<longleftrightarrow>
     all_fail env as s s' \<and> as = [] \<and> latest = None
     \<or> (\<exists>pre a post s1. as = pre @ a # post \<and> all_fail env pre s s1 \<and> run_one env a s1 = (Inr (), s'))"
proof (induction as arbitrary: latest s)
  case Nil
  then show ?case by (auto split: option.split)
next
  case (Cons a as)
  show ?case
  proof (cases "run_one env a s")
    case (Pair r s1)
    show ?thesis
    proof (cases r)
      case (Inr u)
      have "run_one env a s = (Inr (), s1)" using Pair Inr by simp
      then show ?thesis
        by (auto simp: Cons_eq_append_conv elim!: all_fail_ConsE intro: exI [of _ "[]"])
    next
      case (Inl e)
      have run: "run_one env a s = (Inl e, s1)" using Pair Inl by simp
      have "wait_any env (a # as) latest s = (Inr (), s') \<longleftrightarrow>
          (\<exists>pre b post s2. as = pre @ b # post \<and> all_fail env pre s1 s2 \<and> run_one env b s2 = (Inr (), s'))"
        using Cons.IH [of "Some e" s1] by (simp add: run)
      also have "\<dots> \<longleftrightarrow> (\<exists>pre b post s2. a # as = pre @ b # post \<and> all_fail env pre s s2
          \<and> run_one env b s2 = (Inr (), s'))" (is "?l \<longleftrightarrow> ?r")
      proof
        assume ?l
        then obtain pre b post s2 where "as = pre @ b # post" "all_fail env pre s1 s2" "run_one env b s2 = (Inr (), s')"
          by blast
        then show ?r using one_fails [OF run] by (intro exI [of _ "a # pre"]) auto
      next
        assume ?r
        then obtain pre b post s2 where *: "a # as = pre @ b # post" "all_fail env pre s s2"
          "run_one env b s2 = (Inr (), s')" by blast
        from * run obtain list where "pre = a # list" "as = list @ b # post" "all_fail env list s1 s2"
          by (cases pre) (auto elim!: all_fail_ConsE)
        then show ?l using *(3) by blast
      qed
      finally show ?thesis by simp
    qed
  qed
qed

section \<open>Concurrency tokens\<close>

text \<open>
  The contract of a concurrency limiter: it keeps the multiset of tokens it has given out and not
  yet got back, \<open>acquire\<close> adds the token it answers with, and nothing else touches it.
\<close>

locale token_services = quiet_services env R
  for env :: "('o, 'w) policy_env" and R :: "'w \<Rightarrow> 'w \<Rightarrow> bool" +
  fixes outstanding :: "'w \<Rightarrow> nat multiset"
  assumes kept: "R w w' \<Longrightarrow> outstanding w' = outstanding w"
    and taken: "pe_acquire_concurrency env = Some acquire \<Longrightarrow> acquire key n w = (r, w') \<Longrightarrow>
      outstanding w' = outstanding w + (case r of None \<Rightarrow> {#} | Some t \<Rightarrow> {#t#})"

text \<open>The tokens taken between two states are those their release list gained.\<close>

definition takes :: "('w \<Rightarrow> nat multiset) \<Rightarrow> ('o, 'w) policy_state \<Rightarrow> ('o, 'w) policy_state \<Rightarrow> bool" where
  "takes outs s s' \<longleftrightarrow>
     (\<exists>ts. ps_releases s' = ps_releases s @ ts \<and> outs (ps_world s') = outs (ps_world s) + mset ts)"

lemma takes_refl [simp]: "takes outs s s"
  by (simp add: takes_def)

lemma takes_trans: "takes outs s s1 \<Longrightarrow> takes outs s1 s2 \<Longrightarrow> takes outs s s2"
  unfolding takes_def by (elim exE) (rule_tac x = "ts @ tsa" in exI, simp add: ac_simps)

lemma takes_and_then:
  assumes "and_then m f s = (r, s')" and "\<And>r s'. m s = (r, s') \<Longrightarrow> takes outs s s'"
    and "\<And>x s1 r s'. f x s1 = (r, s') \<Longrightarrow> takes outs s1 s'"
  shows "takes outs s s'"
proof (cases "m s")
  case (Pair r1 s1)
  then have 1: "takes outs s s1" by (rule assms(2))
  show ?thesis
  proof (cases r1)
    case (Inl e)
    then show ?thesis using assms(1) Pair 1 by (simp add: and_then_def)
  next
    case (Inr x)
    then have "takes outs s1 s'" using assms(1) Pair by (intro assms(3)) (simp add: and_then_def)
    with 1 show ?thesis by (rule takes_trans)
  qed
qed

context token_services
begin

lemma quiet_takes: "quiet R m \<Longrightarrow> m s = (r, s') \<Longrightarrow> takes outstanding s s'"
  using quietD(1,2) [of R m s r s'] kept by (auto simp: takes_def same_exchange_def)

lemma limit_concurrency_head_takes:
  assumes "limit_concurrency_head env key calls code body s = (r, s')"
  shows "takes outstanding s s'"
proof (cases "pe_acquire_concurrency env")
  case None
  then show ?thesis using assms by (simp add: limit_concurrency_head_def)
next
  case (Some acquire)
  define rest :: "string \<Rightarrow> ('o, 'w, bool) handler" where "rest = (\<lambda>v. reading (\<lambda>s. and_then (calling (acquire (concurrency_key v s) calls)) (\<lambda>r.
      case r of
        None \<Rightarrow> and_then (answer code body) (\<lambda>_. done_with False)
      | Some release \<Rightarrow>
          and_then (update (\<lambda>s. s\<lparr>ps_releases := ps_releases s @ [release]\<rparr>)) (\<lambda>_. done_with True))))"
  have "takes outstanding s1 s2" if "rest v s1 = (r2, s2)" for v s1 r2 s2
  proof -
    obtain a w where acq: "acquire (concurrency_key v s1) calls (ps_world s1) = (a, w)" by fastforce
    have "takes outstanding s1 (s1\<lparr>ps_world := w, ps_releases := ps_releases s1 @ (case a of None \<Rightarrow> [] | Some t \<Rightarrow> [t])\<rparr>)"
      using taken [OF Some acq] by (cases a) (auto simp: takes_def)
    then show ?thesis
      using that by (cases a) (auto simp: rest_def acq answer_def takes_def)
  qed
  then show ?thesis
    using takes_and_then [of "eval_value env key" rest s r s'] quiet_takes [OF quiet_eval_value] assms Some
    by (simp add: limit_concurrency_head_def rest_def)
qed

end

lemma execute_takes:
  shows "token_services env R outs \<Longrightarrow> execute env as s = (r, s') \<Longrightarrow> takes outs s s'"
    and "token_services env R outs \<Longrightarrow> run_one env a s = (r, s') \<Longrightarrow> takes outs s s'"
    and "token_services env R outs \<Longrightarrow> run_kind env k s = (r, s') \<Longrightarrow> takes outs s s'"
    and "token_services env R outs \<Longrightarrow> run_choose env bs ot s = (r, s') \<Longrightarrow> takes outs s s'"
    and "token_services env R outs \<Longrightarrow> wait_any env as latest s = (r, s') \<Longrightarrow> takes outs s s'"
proof (induction env as and env a and env k and env bs ot and env as latest
    arbitrary: s r s' and s r s' and s r s' and s r s' and s r s'
    rule: execute_run_one_run_kind_run_choose_wait_any.induct)
  case (2 env a as)
  obtain r1 s1 where run: "run_one env a s = (r1, s1)" by fastforce
  note head = "2.IH"(1) [OF "2.prems"(1) run]
  show ?case
  proof (cases "s' = s1")
    case False
    then obtain u where "r1 = Inr u" "\<not> ps_returned s1" "execute env as s1 = (r, s')"
      using "2.prems"(2) run by (auto split: sum.splits if_splits)
    then have "takes outs s1 s'" by (intro "2.IH"(2) [OF run [symmetric] _ _ "2.prems"(1)])
    with head show ?thesis by (rule takes_trans)
  qed (use head in simp)
next
  case (3 env m k)
  then show ?case by (auto split: prod.splits sum.splits)
next
  case (4 env l)
  note t = "4.prems"(1)
  show ?case
    by (rule token_services.quiet_takes [OF t quiet_services.quiet_leaf [OF token_services.axioms(1) [OF t]]])
      (use "4.prems"(2) in simp)
next
  case (5 env l kids)
  note t = "5.prems"(1)
  note head = token_services.quiet_takes [OF t quiet_services.quiet_limit_head [OF token_services.axioms(1) [OF t]]]
  show ?case
    by (rule takes_and_then [OF "5.prems"(2) [unfolded run_kind.simps] head])
      (auto split: if_splits intro: "5.IH" [OF _ t])
next
  case (6 env key calls code body kids)
  note t = "6.prems"(1)
  note head = token_services.limit_concurrency_head_takes [OF t]
  show ?case
    by (rule takes_and_then [OF "6.prems"(2) [unfolded run_kind.simps] head])
      (auto split: if_splits intro: "6.IH" [OF _ t])
next
  case (8 env attempts interval cond kids)
  then show ?case by simp
next
  case (9 env mode kids)
  then show ?case by (simp split: if_splits)
next
  case (11 env c as bs otherwise)
  note t = "11.prems"(1)
  note head = token_services.quiet_takes [OF t quiet_services.quiet_evaluate_condition [OF token_services.axioms(1) [OF t]]]
  show ?case
    by (rule takes_and_then [OF "11.prems"(2) [unfolded run_choose.simps] head])
      (auto split: if_splits intro: "11.IH"(1) [of True, OF _ t] "11.IH"(2) [of False, OF _ t])
next
  case (13 env a as latest)
  obtain r1 s1 where run: "run_one env a s = (r1, s1)" by fastforce
  note head = "13.IH"(1) [OF "13.prems"(1) run]
  show ?case
  proof (cases r1)
    case (Inl e)
    then have "takes outs s1 s'"
      using "13.prems"(2) run by (intro "13.IH"(2) [OF run [symmetric] _ "13.prems"(1)]) auto
    with head show ?thesis by (rule takes_trans)
  next
    case (Inr u)
    then show ?thesis using "13.prems"(2) run head by simp
  qed
qed (auto split: option.splits)

section \<open>Properties\<close>

text \<open>
  A list of policies runs in order: running two lists one after the other is running the first
  and then, unless it failed or answered the request, the second on the state it left.
\<close>

theorem execute_append:
  assumes "as \<noteq> [] \<or> \<not> ps_returned s"
  shows "execute env (as @ bs) s =
     (case execute env as s of
        (Inl e, s') \<Rightarrow> (Inl e, s')
      | (Inr _, s') \<Rightarrow> if ps_returned s' then (Inr (), s') else execute env bs s')"
  using assms by (rule execute_app)

definition mock_reply :: action where
  "mock_reply = Action no_meta (ALeaf (AReturnResponse 200 ''OK'' ''body'' [] []))"

theorem execute_append_witness:
  "execute plain_env ([mock_reply] @ [mock_reply]) (blank_state ()) =
     (case execute plain_env [mock_reply] (blank_state ()) of
        (Inl e, s') \<Rightarrow> (Inl e, s')
      | (Inr _, s') \<Rightarrow> if ps_returned s' then (Inr (), s') else execute plain_env [mock_reply] s')"
  by (rule execute_append) simp

text \<open>
  \<open>choose\<close> runs the branch of the first condition that holds, and the otherwise branch when none
  does, provided evaluating the conditions changes nothing.
\<close>

theorem choose_runs_first_match:
  assumes "\<forall>c \<in> fst ` set bs. pe_eval env c s = (Inr (VBool (holds c)), s)"
  shows "run_kind env (AChoose bs otherwise) s =
     execute env (case find (\<lambda>(c, _). holds c) bs of Some (_, as) \<Rightarrow> as | None \<Rightarrow> otherwise) s"
  using run_choose_pure [OF assms] by simp

theorem choose_runs_first_match_witness:
  "run_kind (plain_env\<lparr>pe_eval := (\<lambda>c. done_with (VBool (c = ''@(b)'')))\<rparr>)
       (AChoose [(''@(a)'', []), (''@(b)'', [mock_reply])] []) (blank_state ()) =
     execute (plain_env\<lparr>pe_eval := (\<lambda>c. done_with (VBool (c = ''@(b)'')))\<rparr>)
       (case find (\<lambda>(c, _). c = ''@(b)'') [(''@(a)'', []), (''@(b)'', [mock_reply])] of
          Some (_, as) \<Rightarrow> as | None \<Rightarrow> []) (blank_state ())"
  by (rule choose_runs_first_match) simp

text \<open>
  \<open>wait for="any"\<close> succeeds exactly when a child succeeds on the state left by the failures of
  the children before it, and then it stops there; with no child it succeeds at once.
\<close>

theorem wait_any_first_success:
  "run_kind env (AWait ''any'' kids) s = (Inr (), s') \<longleftrightarrow>
     kids = [] \<and> s' = s
     \<or> (\<exists>pre a post s1. kids = pre @ a # post \<and> all_fail env pre s s1 \<and> execute env [a] s1 = (Inr (), s'))"
proof -
  have "all_fail env kids s s' \<and> kids = [] \<and> None = None \<longleftrightarrow> kids = [] \<and> s' = s"
    by (cases kids) auto
  then show ?thesis using wait_any_ok_iff [of env kids None s s'] by (simp only: execute_single run_kind.simps) simp
qed

text \<open>
  A cached value read into a variable that held an object leaves the object in place: the text of
  the variable is the cached one, and what expressions look up first is still the old object.
\<close>

theorem cached_value_keeps_object:
  assumes "pe_value_get env = Some get" and "\<not> is_expression key" and "\<not> is_expression name" and "name \<noteq> []"
    and "get key (ps_world s) = (Some v, w)"
  shows "apply_cache_lookup_value env key name s
    = (Ok (), s\<lparr>ps_world := w, ps_variables := (ps_variables s)(name \<mapsto> v), ps_objects := ps_objects s\<rparr>)"
  using assms by (simp add: apply_cache_lookup_value_def set_variable_def)

theorem cached_value_keeps_object_witness:
  "apply_cache_lookup_value (plain_env\<lparr>pe_value_get := Some (\<lambda>k w. (Some ''new'', w))\<rparr>) ''k'' ''v''
      ((blank_state ())\<lparr>ps_objects := [''v'' \<mapsto> VObject ''old'']\<rparr>)
    = (Ok (), (blank_state ())\<lparr>ps_objects := [''v'' \<mapsto> VObject ''old''], ps_world := (),
        ps_variables := (ps_variables ((blank_state ())\<lparr>ps_objects := [''v'' \<mapsto> VObject ''old'']\<rparr>))(''v'' \<mapsto> ''new''),
        ps_objects := ps_objects ((blank_state ())\<lparr>ps_objects := [''v'' \<mapsto> VObject ''old'']\<rparr>)\<rparr>)"
  by (rule cached_value_keeps_object) (simp_all, code_simp+)

end
