(* ===== verification/GatewayRuntime.thy ===== *)
theory GatewayRuntime
  imports PolicyRun
begin

text \<open>
  The mutable half of \<open>Runtime\<close> (\<open>internal/gateway/gateway.go\<close>, \<open>internal/gateway/llm.go\<close>): the
  sliding windows of the call and bandwidth limits, the concurrency semaphores, the response and
  value caches, the injected faults, the token counters and the circuit breakers.  Every operation holds its mutex from
  start to end, so it is one step on the record; the reading of \<open>time.Now\<close> is an argument.

  A Go map is a total function where an absent key and the zero value behave the same, a partial
  one otherwise.  Channels are objects in a heap, \<open>gw_channels\<close>, because a release function keeps
  the channel it was made for even after the map points to another.
\<close>

section \<open>The state\<close>

record cache_entry =
  ce_status :: int
  ce_headers :: headers
  ce_body :: string
  ce_expires :: time

record fault =
  fl_status :: int
  fl_delay :: int
  fl_error :: bool
  fl_body :: string
  fl_remaining :: int

record channel =
  ch_capacity :: int
  ch_used :: int

record circuit_state =
  cs_failures :: "time list"
  cs_opened_until :: time

record token_metric =
  tm_namespace :: string
  tm_dimensions :: "(string \<times> string) list"
  tm_prompt :: int
  tm_completion :: int
  tm_total :: int

type_synonym stamps = "(time \<times> int) list"

record 'x gateway =
  gw_now :: time
  gw_rate :: "string \<Rightarrow> time list"
  gw_bandwidth :: "string \<Rightarrow> stamps"
  gw_semaphores :: "string \<rightharpoonup> nat"
  gw_channels :: "channel list"
  gw_tickets :: "(nat \<times> bool) list" \<comment> \<open>channel of a release function, and whether it ran\<close>
  gw_cache :: "string \<rightharpoonup> cache_entry"
  gw_values :: "string \<rightharpoonup> string \<times> time"
  gw_faults :: "string \<rightharpoonup> fault"
  gw_tokens :: "string \<Rightarrow> stamps"
  gw_quotas :: "string \<Rightarrow> int"
  gw_metrics :: "token_metric list"
  gw_breakers :: "string \<Rightarrow> circuit_state"
  gw_outside :: 'x \<comment> \<open>everything beyond this component\<close>

definition new_gateway :: "'x \<Rightarrow> 'x gateway" where
  "new_gateway x =
     \<lparr>gw_now = 0, gw_rate = (\<lambda>_. []), gw_bandwidth = (\<lambda>_. []), gw_semaphores = Map.empty, gw_channels = [],
      gw_tickets = [], gw_cache = Map.empty, gw_values = Map.empty, gw_faults = Map.empty, gw_tokens = (\<lambda>_. []),
      gw_quotas = (\<lambda>_. 0), gw_metrics = [],
      gw_breakers = (\<lambda>_. \<lparr>cs_failures = [], cs_opened_until = zero_time\<rparr>), gw_outside = x\<rparr>"

section \<open>Calls and bandwidth\<close>

definition window_cutoff :: "time \<Rightarrow> duration \<Rightarrow> time" where
  "window_cutoff now period = (if period > 0 then now - period else zero_time)"

text \<open>\<open>rateLimit\<close>; \<open>calls\<close> is positive where a policy reaches it, so \<open>kept\<close> is not empty when it is full.\<close>

definition rate_limit ::
  "string \<Rightarrow> int \<Rightarrow> duration \<Rightarrow> int \<Rightarrow> 'x gateway \<Rightarrow> limit_decision \<times> 'x gateway" where
  "rate_limit key calls period increment g =
     (let now = gw_now g;
          kept = filter (\<lambda>t. time_after t (window_cutoff now period)) (gw_rate g key) in
      if int (length kept) \<ge> calls then
        (\<lparr>ld_exceeded = True, ld_remaining = 0,
          ld_retry_after = (if period > 0 then time_sub (hd kept + period) now else 0)\<rparr>,
         g\<lparr>gw_rate := (gw_rate g)(key := kept)\<rparr>)
      else let stamped = kept @ replicate (nat increment) now in
        (\<lparr>ld_exceeded = False, ld_remaining = max 0 (calls - int (length stamped)), ld_retry_after = 0\<rparr>,
         g\<lparr>gw_rate := (gw_rate g)(key := stamped)\<rparr>))"

text \<open>The byte counts are \<open>int64\<close> and their sums wrap.\<close>

definition sum64 :: "int list \<Rightarrow> int" where
  "sum64 ns = foldl (\<lambda>a n. int64_wrap (a + n)) 0 ns"

definition bandwidth_limit ::
  "string \<Rightarrow> int \<Rightarrow> int \<Rightarrow> duration \<Rightarrow> 'x gateway \<Rightarrow> limit_decision \<times> 'x gateway" where
  "bandwidth_limit key bytes budget period g =
     (let now = gw_now g;
          added = max 0 bytes;
          kept = filter (\<lambda>(t, _). time_after t (window_cutoff now period)) (gw_bandwidth g key) in
      if int64_wrap (sum64 (map snd kept) + added) > budget then
        (\<lparr>ld_exceeded = True, ld_remaining = 0,
          ld_retry_after = (if kept \<noteq> [] \<and> period > 0 then time_sub (fst (hd kept) + period) now else 0)\<rparr>,
         g\<lparr>gw_bandwidth := (gw_bandwidth g)(key := kept)\<rparr>)
      else
        (\<lparr>ld_exceeded = False, ld_remaining = 0, ld_retry_after = 0\<rparr>,
         g\<lparr>gw_bandwidth := (gw_bandwidth g)(key := kept @ [(now, added)])\<rparr>))"

section \<open>Concurrency\<close>

text \<open>
  \<open>acquireConcurrency\<close>: the semaphore of a key is replaced when the limit differs.  A capacity is
  positive where a policy reaches it (\<open>make\<close> panics on a negative one).  The answer is the release
  function, an index of \<open>gw_tickets\<close>.
\<close>

definition semaphore_for :: "string \<Rightarrow> int \<Rightarrow> 'x gateway \<Rightarrow> nat \<times> 'x gateway" where
  "semaphore_for key limit g =
     (case gw_semaphores g key of
        Some c \<Rightarrow>
          if ch_capacity (gw_channels g ! c) = limit then (c, g)
          else (length (gw_channels g),
                g\<lparr>gw_channels := gw_channels g @ [\<lparr>ch_capacity = limit, ch_used = 0\<rparr>],
                  gw_semaphores := (gw_semaphores g)(key \<mapsto> length (gw_channels g))\<rparr>)
      | None \<Rightarrow>
          (length (gw_channels g),
           g\<lparr>gw_channels := gw_channels g @ [\<lparr>ch_capacity = limit, ch_used = 0\<rparr>],
             gw_semaphores := (gw_semaphores g)(key \<mapsto> length (gw_channels g))\<rparr>))"

definition channel_add :: "nat \<Rightarrow> int \<Rightarrow> 'x gateway \<Rightarrow> 'x gateway" where
  "channel_add c n g =
     g\<lparr>gw_channels := (gw_channels g)[c := (gw_channels g ! c)\<lparr>ch_used := ch_used (gw_channels g ! c) + n\<rparr>]\<rparr>"

definition acquire_concurrency :: "string \<Rightarrow> int \<Rightarrow> 'x gateway \<Rightarrow> nat option \<times> 'x gateway" where
  "acquire_concurrency key limit g0 =
     (let (c, g) = semaphore_for key limit g0 in
      if ch_used (gw_channels g ! c) < ch_capacity (gw_channels g ! c)
      then (Some (length (gw_tickets g)), (channel_add c 1 g)\<lparr>gw_tickets := gw_tickets g @ [(c, False)]\<rparr>)
      else (None, g))"

text \<open>Calling a release function; \<open>once\<close> makes later calls do nothing.\<close>

definition release_concurrency :: "nat \<Rightarrow> 'x gateway \<Rightarrow> 'x gateway" where
  "release_concurrency t g =
     (if t < length (gw_tickets g) \<and> \<not> snd (gw_tickets g ! t)
      then (channel_add (fst (gw_tickets g ! t)) (-1) g)
             \<lparr>gw_tickets := (gw_tickets g)[t := (fst (gw_tickets g ! t), True)]\<rparr>
      else g)"

text \<open>The release functions that have not run, as the tokens given out.\<close>

definition open_tickets :: "'x gateway \<Rightarrow> nat list" where
  "open_tickets g = filter (\<lambda>t. \<not> snd (gw_tickets g ! t)) [0..<length (gw_tickets g)]"

section \<open>Caches\<close>

definition cache_get :: "string \<Rightarrow> 'x gateway \<Rightarrow> (int \<times> headers \<times> string) option \<times> 'x gateway" where
  "cache_get key g =
     (case gw_cache g key of
        None \<Rightarrow> (None, g)
      | Some e \<Rightarrow>
          if \<not> time_after (ce_expires e) (gw_now g) then (None, g\<lparr>gw_cache := (gw_cache g)(key := None)\<rparr>)
          else (Some (ce_status e, ce_headers e, ce_body e), g))"

definition cache_set :: "string \<Rightarrow> int \<Rightarrow> headers \<Rightarrow> string \<Rightarrow> duration \<Rightarrow> 'x gateway \<Rightarrow> 'x gateway" where
  "cache_set key status hs body d g =
     g\<lparr>gw_cache := (gw_cache g)(key \<mapsto>
        \<lparr>ce_status = status, ce_headers = hs, ce_body = body, ce_expires = gw_now g + d\<rparr>)\<rparr>"

definition value_cache_get :: "string \<Rightarrow> 'x gateway \<Rightarrow> string option \<times> 'x gateway" where
  "value_cache_get key g =
     (case gw_values g key of
        Some (v, expires) \<Rightarrow>
          if time_after expires (gw_now g) then (Some v, g) else (None, g\<lparr>gw_values := (gw_values g)(key := None)\<rparr>)
      | None \<Rightarrow> (None, g))"

definition value_cache_set :: "string \<Rightarrow> string \<Rightarrow> duration \<Rightarrow> 'x gateway \<Rightarrow> 'x gateway" where
  "value_cache_set key v d g = g\<lparr>gw_values := (gw_values g)(key \<mapsto> (v, gw_now g + d))\<rparr>"

definition value_cache_remove :: "string \<Rightarrow> 'x gateway \<Rightarrow> 'x gateway" where
  "value_cache_remove key g = g\<lparr>gw_values := (gw_values g)(key := None)\<rparr>"

section \<open>Injected faults\<close>

definition fault_key :: "string \<Rightarrow> string \<Rightarrow> string" where
  "fault_key service backend_name = to_lower (trim_space service @ ''/'' @ trim_space backend_name)"

definition set_fault :: "string \<Rightarrow> string \<Rightarrow> fault \<Rightarrow> 'x gateway \<Rightarrow> 'x gateway" where
  "set_fault service backend_name f g =
     (let key = fault_key service backend_name in
      g\<lparr>gw_faults := (gw_faults g)(key :=
         (if fl_status f = 0 \<and> fl_delay f = 0 \<and> \<not> fl_error f \<and> fl_body f = [] then None else Some f))\<rparr>)"

definition take_fault_at :: "string \<Rightarrow> fault \<Rightarrow> 'x gateway \<Rightarrow> fault option \<times> 'x gateway" where
  "take_fault_at key f g =
     (if fl_remaining f > 0 then
        let f' = f\<lparr>fl_remaining := fl_remaining f - 1\<rparr> in
        (Some f', g\<lparr>gw_faults := (gw_faults g)(key := (if fl_remaining f' = 0 then None else Some f'))\<rparr>)
      else (Some f, g))"

definition take_fault :: "string \<Rightarrow> string \<Rightarrow> 'x gateway \<Rightarrow> fault option \<times> 'x gateway" where
  "take_fault service backend_name g =
     (case gw_faults g (fault_key service backend_name) of
        Some f \<Rightarrow> take_fault_at (fault_key service backend_name) f g
      | None \<Rightarrow>
          (case gw_faults g (fault_key service ''*'') of
             Some f \<Rightarrow> take_fault_at (fault_key service ''*'') f g
           | None \<Rightarrow> (None, g)))"

section \<open>Circuit breakers\<close>

record circuit_rule =
  cr_count :: int
  cr_interval :: duration
  cr_trip :: duration
  cr_status_min :: int
  cr_status_max :: int

text \<open>
  \<open>backendCircuitRule\<close> on the backend's document; \<open>parse\<close> is \<open>parseAPIMDuration\<close> on a string that is
  not empty, whose seconds are floats.
\<close>

definition int_number :: "json \<Rightarrow> int" where
  "int_number v = (case v of JNum q \<Rightarrow> (if q \<ge> 0 then \<lfloor>q\<rfloor> else \<lceil>q\<rceil>) | _ \<Rightarrow> 0)"

definition apim_duration :: "(string \<Rightarrow> duration option) \<Rightarrow> json \<Rightarrow> duration \<Rightarrow> duration" where
  "apim_duration parse v fallback =
     (case v of
        JStr t \<Rightarrow> if t = [] then fallback else (case parse t of Some d \<Rightarrow> d | None \<Rightarrow> fallback)
      | _ \<Rightarrow> fallback)"

definition member_of :: "string \<Rightarrow> json \<Rightarrow> json" where
  "member_of k v = (case v of JObj kvs \<Rightarrow> (case map_of kvs k of Some x \<Rightarrow> x | None \<Rightarrow> JNull) | _ \<Rightarrow> JNull)"

definition items_of :: "json \<Rightarrow> json list" where
  "items_of v = (case v of JArr vs \<Rightarrow> vs | _ \<Rightarrow> [])"

definition backend_circuit_rule :: "(string \<Rightarrow> duration option) \<Rightarrow> json \<Rightarrow> circuit_rule option" where
  "backend_circuit_rule parse document =
     (case items_of (member_of ''rules'' (member_of ''circuitBreaker'' (member_of ''properties'' document))) of
        [] \<Rightarrow> None
      | r # _ \<Rightarrow>
          let cond = member_of ''failureCondition'' r;
              (lo, hi) = (case items_of (member_of ''statusCodeRanges'' cond) of
                            JObj kvs # _ \<Rightarrow> (int_number (member_of ''min'' (JObj kvs)), int_number (member_of ''max'' (JObj kvs)))
                          | _ \<Rightarrow> (500, 599));
              rule = \<lparr>cr_count = int_number (member_of ''count'' cond),
                      cr_interval = apim_duration parse (member_of ''interval'' cond) minute,
                      cr_trip = apim_duration parse (member_of ''tripDuration'' r) minute,
                      cr_status_min = lo, cr_status_max = hi\<rparr>
          in if cr_count rule \<le> 0 then None
             else if lo \<le> hi \<and> cr_trip rule \<ge> 0 then Some rule else None)"

text \<open>\<open>circuitOpen\<close> and \<open>recordCircuit\<close> for the breaker of a backend that has a rule.\<close>

definition breaker_open :: "time \<Rightarrow> circuit_state \<Rightarrow> bool \<times> circuit_state" where
  "breaker_open now c =
     (if time_after (cs_opened_until c) now then (True, c)
      else if cs_opened_until c \<noteq> zero_time then (False, \<lparr>cs_failures = [], cs_opened_until = zero_time\<rparr>)
      else (False, c))"

definition breaker_record :: "circuit_rule \<Rightarrow> bool \<Rightarrow> time \<Rightarrow> circuit_state \<Rightarrow> circuit_state" where
  "breaker_record rule failure now c =
     (if \<not> failure then \<lparr>cs_failures = [], cs_opened_until = zero_time\<rparr>
      else let fs = filter (\<lambda>t. time_after t (now - cr_interval rule)) (cs_failures c) @ [now] in
        \<lparr>cs_failures = fs,
         cs_opened_until = (if int (length fs) \<ge> cr_count rule then now + cr_trip rule else cs_opened_until c)\<rparr>)"

definition circuit_failure :: "circuit_rule \<Rightarrow> (string, int) result \<Rightarrow> bool" where
  "circuit_failure rule outcome =
     (case outcome of Inl e \<Rightarrow> True | Inr status \<Rightarrow> cr_status_min rule \<le> status \<and> status \<le> cr_status_max rule)"

definition breaker_key :: "string \<Rightarrow> string \<Rightarrow> string" where
  "breaker_key service backend_name = to_lower (service @ ''/'' @ backend_name)"

definition circuit_open :: "circuit_rule option \<Rightarrow> string \<Rightarrow> 'x gateway \<Rightarrow> bool \<times> 'x gateway" where
  "circuit_open rule key g =
     (case rule of
        None \<Rightarrow> (False, g)
      | Some r \<Rightarrow>
          (case breaker_open (gw_now g) (gw_breakers g key) of
             (is_open, c) \<Rightarrow> (is_open, g\<lparr>gw_breakers := (gw_breakers g)(key := c)\<rparr>)))"

definition record_circuit :: "circuit_rule option \<Rightarrow> string \<Rightarrow> (string, int) result \<Rightarrow> 'x gateway \<Rightarrow> 'x gateway" where
  "record_circuit rule key outcome g =
     (case rule of
        None \<Rightarrow> g
      | Some r \<Rightarrow>
          g\<lparr>gw_breakers := (gw_breakers g)(key :=
              breaker_record r (circuit_failure r outcome) (gw_now g) (gw_breakers g key))\<rparr>)"

end
