(* ===== verification/GatewayConcurrency.thy ===== *)
theory GatewayConcurrency
  imports GatewayRuntime
begin

text \<open>
  The concurrency limiter as a state machine: \<open>served limits g keys\<close> holds of the gateways reached when
  every \<open>acquire\<close> of a key asks for the limit \<open>limits\<close> gives it, with releases and unrelated steps in
  any order; \<open>keys\<close> records, ticket by ticket, the key it was acquired for.
\<close>

section \<open>Open tickets\<close>

definition on_channel :: "'x gateway \<Rightarrow> nat \<Rightarrow> nat list" where
  "on_channel g c = filter (\<lambda>t. fst (gw_tickets g ! t) = c) (open_tickets g)"

definition same_slots :: "'x gateway \<Rightarrow> 'x gateway \<Rightarrow> bool" where
  "same_slots g g' \<longleftrightarrow> gw_channels g' = gw_channels g \<and> gw_semaphores g' = gw_semaphores g
     \<and> gw_tickets g' = gw_tickets g"

lemma same_slots_refl [simp]: "same_slots g g"
  by (simp add: same_slots_def)

lemma same_slots_trans: "same_slots g h \<Longrightarrow> same_slots h k \<Longrightarrow> same_slots g k"
  by (simp add: same_slots_def)

lemma same_slots_open: "same_slots g g' \<Longrightarrow> open_tickets g' = open_tickets g"
  by (simp add: same_slots_def open_tickets_def)

lemma same_slots_on_channel: "same_slots g g' \<Longrightarrow> on_channel g' c = on_channel g c"
  by (simp add: on_channel_def same_slots_open) (simp add: same_slots_def)

lemma open_tickets_iff: "t \<in> set (open_tickets g) \<longleftrightarrow> t < length (gw_tickets g) \<and> \<not> snd (gw_tickets g ! t)"
  by (auto simp: open_tickets_def)

lemma distinct_open [simp]: "distinct (open_tickets g)"
  by (simp add: open_tickets_def)

text \<open>The semaphore of a key changes no ticket.\<close>

lemma semaphore_for_tickets:
  "semaphore_for key n g = (c, g') \<Longrightarrow> gw_tickets g' = gw_tickets g"
  by (auto simp: semaphore_for_def Let_def split: option.splits if_splits)

lemma acquire_some:
  assumes "acquire_concurrency key n g = (Some t, g')"
  obtains c h where "semaphore_for key n g = (c, h)" "ch_used (gw_channels h ! c) < ch_capacity (gw_channels h ! c)"
    "t = length (gw_tickets g)" "g' = (channel_add c 1 h)\<lparr>gw_tickets := gw_tickets g @ [(c, False)]\<rparr>"
  using assms semaphore_for_tickets [of key n g]
  by (auto simp: acquire_concurrency_def split: prod.splits if_splits)

lemma acquire_none:
  assumes "acquire_concurrency key n g = (None, g')"
  obtains c where "semaphore_for key n g = (c, g')"
  using assms by (auto simp: acquire_concurrency_def split: prod.splits if_splits)

lemma open_tickets_snoc:
  "gw_tickets g' = gw_tickets g @ [(c, False)] \<Longrightarrow> open_tickets g' = open_tickets g @ [length (gw_tickets g)]"
  by (auto simp: open_tickets_def nth_append intro!: filter_cong)

lemma on_channel_snoc:
  "gw_tickets g' = gw_tickets g @ [(c, False)] \<Longrightarrow>
     on_channel g' d = on_channel g d @ (if d = c then [length (gw_tickets g)] else [])"
  unfolding on_channel_def
  by (simp add: open_tickets_snoc, intro conjI impI; intro filter_cong)
    (auto simp: nth_append open_tickets_iff)

text \<open>A token of the multiset of open tickets is added by an acquisition and removed by its release.\<close>

lemma acquire_outstanding:
  assumes "acquire_concurrency key n g = (r, g')"
  shows "mset (open_tickets g') = mset (open_tickets g) + (case r of None \<Rightarrow> {#} | Some t \<Rightarrow> {#t#})"
proof (cases r)
  case None
  with assms obtain c where "semaphore_for key n g = (c, g')" by (auto elim: acquire_none)
  then have "open_tickets g' = open_tickets g" by (simp add: open_tickets_def semaphore_for_tickets)
  then show ?thesis by (simp add: None)
next
  case (Some t)
  with assms obtain c h where "t = length (gw_tickets g)"
    "g' = (channel_add c 1 h)\<lparr>gw_tickets := gw_tickets g @ [(c, False)]\<rparr>"
    by (auto elim: acquire_some)
  then show ?thesis using open_tickets_snoc [of g' g c] by (simp add: Some)
qed

lemma release_open:
  assumes "t \<in> set (open_tickets g)"
  shows "open_tickets (release_concurrency t g) = remove1 t (open_tickets g)"
proof -
  have "remove1 t (open_tickets g) = filter (\<lambda>u. u \<noteq> t) (open_tickets g)"
    by (simp add: distinct_remove1_removeAll removeAll_filter_not_eq eq_commute [of _ t])
  also have "\<dots> = open_tickets (release_concurrency t g)"
    using assms
    by (auto simp: open_tickets_def release_concurrency_def open_tickets_iff channel_add_def nth_list_update
        intro!: filter_cong)
  finally show ?thesis by simp
qed

lemma release_outstanding:
  "t \<in> set (open_tickets g) \<Longrightarrow> mset (open_tickets (release_concurrency t g)) = mset (open_tickets g) - {#t#}"
  by (simp add: release_open)

lemma release_closed: "t \<notin> set (open_tickets g) \<Longrightarrow> release_concurrency t g = g"
  by (auto simp: release_concurrency_def open_tickets_iff)

section \<open>Channels count their tickets\<close>

definition slots_sound :: "'x gateway \<Rightarrow> bool" where
  "slots_sound g \<longleftrightarrow>
     (\<forall>key c. gw_semaphores g key = Some c \<longrightarrow> c < length (gw_channels g))
     \<and> (\<forall>t \<in> set (open_tickets g). fst (gw_tickets g ! t) < length (gw_channels g))
     \<and> (\<forall>c < length (gw_channels g). ch_used (gw_channels g ! c) = int (length (on_channel g c))
          \<and> int (length (on_channel g c)) \<le> max 0 (ch_capacity (gw_channels g ! c)))"

lemma slots_sound_same: "slots_sound g \<Longrightarrow> same_slots g g' \<Longrightarrow> slots_sound g'"
  by (simp add: slots_sound_def same_slots_open same_slots_on_channel) (auto simp: same_slots_def)

lemma slots_sound_new: "slots_sound (new_gateway x)"
  by (simp add: slots_sound_def new_gateway_def open_tickets_def)

lemma on_channel_fresh:
  "slots_sound g \<Longrightarrow> length (gw_channels g) \<le> c \<Longrightarrow> on_channel g c = []"
  unfolding slots_sound_def on_channel_def filter_empty_conv by fastforce

lemma slots_sound_semaphore:
  assumes "slots_sound g" and "semaphore_for key n g = (c, g')"
  shows "slots_sound g'" and "c < length (gw_channels g')" and "ch_capacity (gw_channels g' ! c) = n"
    and "gw_semaphores g' key = Some c"
proof -
  have keep: "gw_tickets g' = gw_tickets g" using assms(2) by (rule semaphore_for_tickets)
  have tickets: "open_tickets g' = open_tickets g" "on_channel g' = on_channel g"
    by (simp_all add: open_tickets_def on_channel_def keep fun_eq_iff)
  have idx: "c < length (gw_channels g)" if "gw_semaphores g k = Some c" for k c
    using assms(1) that unfolding slots_sound_def by blast
  have "g' = g \<and> gw_semaphores g key = Some c \<and> ch_capacity (gw_channels g ! c) = n
      \<or> c = length (gw_channels g) \<and> gw_channels g' = gw_channels g @ [\<lparr>ch_capacity = n, ch_used = 0\<rparr>]
        \<and> gw_semaphores g' = (gw_semaphores g)(key \<mapsto> c)"
    using assms(2) by (auto simp: semaphore_for_def split: option.splits if_splits)
  then have "slots_sound g' \<and> c < length (gw_channels g') \<and> ch_capacity (gw_channels g' ! c) = n
      \<and> gw_semaphores g' key = Some c"
  proof (elim disjE conjE)
    assume "g' = g" "gw_semaphores g key = Some c" "ch_capacity (gw_channels g ! c) = n"
    then show "slots_sound g' \<and> c < length (gw_channels g') \<and> ch_capacity (gw_channels g' ! c) = n
        \<and> gw_semaphores g' key = Some c"
      using assms(1) idx by simp
  next
    assume new: "c = length (gw_channels g)" "gw_channels g' = gw_channels g @ [\<lparr>ch_capacity = n, ch_used = 0\<rparr>]"
      "gw_semaphores g' = (gw_semaphores g)(key \<mapsto> c)"
    have "slots_sound g'"
      using assms(1) idx on_channel_fresh [OF assms(1), of c] unfolding slots_sound_def
      by (auto simp: new tickets nth_append keep less_Suc_eq)
    then show "slots_sound g' \<and> c < length (gw_channels g') \<and> ch_capacity (gw_channels g' ! c) = n
        \<and> gw_semaphores g' key = Some c"
      by (simp add: new)
  qed
  then show "slots_sound g'" and "c < length (gw_channels g')" and "ch_capacity (gw_channels g' ! c) = n"
    and "gw_semaphores g' key = Some c"
    by simp_all
qed

lemma slots_sound_acquire:
  assumes "slots_sound g" and "acquire_concurrency key n g = (r, g')"
  shows "slots_sound g'"
proof (cases r)
  case None
  with assms obtain c where "semaphore_for key n g = (c, g')" by (auto elim: acquire_none)
  then show ?thesis by (rule slots_sound_semaphore(1) [OF assms(1)])
next
  case (Some t)
  with assms(2) obtain c h where sem: "semaphore_for key n g = (c, h)"
    and free: "ch_used (gw_channels h ! c) < ch_capacity (gw_channels h ! c)"
    and g': "g' = (channel_add c 1 h)\<lparr>gw_tickets := gw_tickets g @ [(c, False)]\<rparr>"
    by (auto elim: acquire_some)
  note h = slots_sound_semaphore [OF assms(1) sem]
  have tickets: "gw_tickets g' = gw_tickets h @ [(c, False)]"
    using semaphore_for_tickets [OF sem] by (simp add: g')
  have chans: "gw_channels g' = (gw_channels h)[c := (gw_channels h ! c)\<lparr>ch_used := ch_used (gw_channels h ! c) + 1\<rparr>]"
    "gw_semaphores g' = gw_semaphores h"
    by (simp_all add: g' channel_add_def)
  show ?thesis
    using h(1,2) free unfolding slots_sound_def
    by (auto simp: chans tickets open_tickets_snoc [OF tickets] on_channel_snoc [OF tickets] nth_append open_tickets_iff
        nth_list_update)
qed

lemma on_channel_release:
  assumes "t \<in> set (open_tickets g)"
  shows "on_channel (release_concurrency t g) c = remove1 t (on_channel g c)"
proof -
  have "on_channel (release_concurrency t g) c = filter (\<lambda>u. fst (gw_tickets g ! u) = c) (remove1 t (open_tickets g))"
    unfolding on_channel_def release_open [OF assms]
    by (rule filter_cong) (use assms in \<open>auto simp: release_concurrency_def open_tickets_iff nth_list_update\<close>)
  then show ?thesis by (simp add: on_channel_def filter_remove1)
qed

lemma slots_sound_release:
  assumes "slots_sound g"
  shows "slots_sound (release_concurrency t g)"
proof (cases "t \<in> set (open_tickets g)")
  case True
  let ?c = "fst (gw_tickets g ! t)"
  have t: "t \<in> set (on_channel g ?c)" using True by (simp add: on_channel_def)
  have other: "remove1 t (on_channel g c) = on_channel g c" if "c \<noteq> ?c" for c
    using that by (intro remove1_idem) (simp add: on_channel_def)
  have len: "int (length (remove1 t (on_channel g ?c))) = int (length (on_channel g ?c)) - 1"
    using t length_pos_if_in_set [OF t] by (simp add: length_remove1 of_nat_diff Suc_leI)
  have parts: "gw_semaphores (release_concurrency t g) = gw_semaphores g"
    "gw_channels (release_concurrency t g) =
       (gw_channels g)[?c := (gw_channels g ! ?c)\<lparr>ch_used := ch_used (gw_channels g ! ?c) + (-1)\<rparr>]"
    "fst (gw_tickets (release_concurrency t g) ! u) = fst (gw_tickets g ! u)" for u
    using True by (auto simp: release_concurrency_def channel_add_def open_tickets_iff nth_list_update)
  have capacity: "ch_used (gw_channels (release_concurrency t g) ! c) = int (length (remove1 t (on_channel g c)))
      \<and> int (length (remove1 t (on_channel g c))) \<le> max 0 (ch_capacity (gw_channels (release_concurrency t g) ! c))"
    if "c < length (gw_channels g)" for c
  proof (cases "c = ?c")
    case True
    then show ?thesis using assms that len by (auto simp: slots_sound_def parts)
  next
    case False
    then show ?thesis using assms that other [OF False] by (auto simp: slots_sound_def parts)
  qed
  have "\<forall>u \<in> set (open_tickets (release_concurrency t g)). fst (gw_tickets g ! u) < length (gw_channels g)"
    using assms by (auto simp: slots_sound_def release_open [OF True] dest: notin_set_remove1)
  then show ?thesis
    using assms capacity unfolding slots_sound_def
    by (simp add: parts(3) on_channel_release [OF True]) (simp add: parts(1,2))
next
  case False
  then show ?thesis using assms by (simp add: release_closed)
qed

section \<open>Reachable states\<close>

inductive served :: "(string \<Rightarrow> int) \<Rightarrow> 'x gateway \<Rightarrow> string list \<Rightarrow> bool" for limits where
  start: "served limits (new_gateway x) []"
| admitted: "served limits g keys \<Longrightarrow> acquire_concurrency key (limits key) g = (Some t, g') \<Longrightarrow> served limits g' (keys @ [key])"
| refused: "served limits g keys \<Longrightarrow> acquire_concurrency key (limits key) g = (None, g') \<Longrightarrow> served limits g' keys"
| released: "served limits g keys \<Longrightarrow> served limits (release_concurrency t g) keys"
| elsewhere: "served limits g keys \<Longrightarrow> same_slots g g' \<Longrightarrow> served limits g' keys"

text \<open>Every ticket is on the channel its key still points to.\<close>

definition keyed :: "(string \<Rightarrow> int) \<Rightarrow> 'x gateway \<Rightarrow> string list \<Rightarrow> bool" where
  "keyed limits g keys \<longleftrightarrow> slots_sound g \<and> length keys = length (gw_tickets g)
     \<and> (\<forall>key c. gw_semaphores g key = Some c \<longrightarrow> ch_capacity (gw_channels g ! c) = limits key)
     \<and> (\<forall>t < length keys. gw_semaphores g (keys ! t) = Some (fst (gw_tickets g ! t)))"

lemma semaphore_stable:
  assumes "\<forall>key c. gw_semaphores g key = Some c \<longrightarrow> ch_capacity (gw_channels g ! c) = limits key"
    and "semaphore_for key (limits key) g = (c, h)" and "\<forall>key c. gw_semaphores g key = Some c \<longrightarrow> c < length (gw_channels g)"
  shows "\<forall>key c. gw_semaphores h key = Some c \<longrightarrow> ch_capacity (gw_channels h ! c) = limits key"
    and "gw_semaphores g k = Some d \<Longrightarrow> gw_semaphores h k = Some d"
  using assms by (auto simp: semaphore_for_def nth_append split: option.splits if_splits)

lemma keyed_semaphore:
  assumes "keyed limits g keys" and "semaphore_for key (limits key) g = (c, h)"
  shows "keyed limits h keys" and "gw_semaphores h key = Some c"
proof -
  have idx: "\<forall>key c. gw_semaphores g key = Some c \<longrightarrow> c < length (gw_channels g)"
    and cap: "\<forall>key c. gw_semaphores g key = Some c \<longrightarrow> ch_capacity (gw_channels g ! c) = limits key"
    and sound: "slots_sound g"
    using assms(1) by (simp_all add: keyed_def slots_sound_def)
  note st = semaphore_stable [OF cap assms(2) idx]
  show "gw_semaphores h key = Some c" by (rule slots_sound_semaphore(4) [OF sound assms(2)])
  show "keyed limits h keys"
    using assms(1) slots_sound_semaphore(1) [OF sound assms(2)] st semaphore_for_tickets [OF assms(2)]
    by (auto simp: keyed_def)
qed

lemma served_keyed: "served limits g keys \<Longrightarrow> keyed limits g keys"
proof (induction rule: served.induct)
  case (start x)
  then show ?case by (simp add: keyed_def slots_sound_new) (simp add: new_gateway_def)
next
  case (admitted g keys key t g')
  from admitted.hyps(2) obtain c h where sem: "semaphore_for key (limits key) g = (c, h)"
    and g': "g' = (channel_add c 1 h)\<lparr>gw_tickets := gw_tickets g @ [(c, False)]\<rparr>"
    by (auto elim: acquire_some)
  note h = keyed_semaphore [OF admitted.IH sem]
  have tk: "gw_tickets h = gw_tickets g" using sem by (rule semaphore_for_tickets)
  have sound: "slots_sound g'"
    using admitted.IH admitted.hyps(2) by (auto simp: keyed_def intro: slots_sound_acquire)
  have caps: "ch_capacity (gw_channels g' ! d) = ch_capacity (gw_channels h ! d)" for d
    by (cases "c = d"; cases "d < length (gw_channels h)") (simp_all add: g' channel_add_def not_less list_update_beyond)
  show ?case
    using h sound caps unfolding keyed_def
    by (auto simp: g' channel_add_def tk nth_append less_Suc_eq)
next
  case (refused g keys key g')
  then obtain c where "semaphore_for key (limits key) g = (c, g')" by (auto elim: acquire_none)
  with refused.IH show ?case by (rule keyed_semaphore(1))
next
  case (released g keys t)
  have "slots_sound (release_concurrency t g)"
    using released.IH by (simp add: keyed_def slots_sound_release)
  moreover have "length (gw_tickets (release_concurrency t g)) = length (gw_tickets g)"
    "gw_semaphores (release_concurrency t g) = gw_semaphores g"
    "fst (gw_tickets (release_concurrency t g) ! u) = fst (gw_tickets g ! u)" for u
    by (auto simp: release_concurrency_def channel_add_def nth_list_update)
  moreover have "ch_capacity (gw_channels (release_concurrency t g) ! c) = ch_capacity (gw_channels g ! c)" for c
    by (cases "c = fst (gw_tickets g ! t)"; cases "c < length (gw_channels g)")
      (auto simp: release_concurrency_def channel_add_def not_less list_update_beyond)
  ultimately show ?case using released.IH by (simp add: keyed_def)
next
  case (elsewhere g keys g')
  then show ?case by (simp add: keyed_def slots_sound_same [of g]) (simp add: same_slots_def)
qed

section \<open>Properties\<close>

text \<open>
  C11. Concurrency is limited: as long as a key is always used with one limit, no more of its release
  functions are outstanding than the limit, whatever the interleaving of requests; and a release
  function that has not run finds its slot taken, so it never blocks.
\<close>

theorem concurrency_limited:
  assumes "served limits g keys"
  shows "int (length (filter (\<lambda>t. keys ! t = key) (open_tickets g))) \<le> max 0 (limits key)
     \<and> (\<forall>t \<in> set (open_tickets g). 0 < ch_used (gw_channels g ! fst (gw_tickets g ! t)))"
proof -
  have k: "keyed limits g keys" using assms by (rule served_keyed)
  have sound: "slots_sound g" using k by (simp add: keyed_def)
  have count: "ch_used (gw_channels g ! c) = int (length (on_channel g c))"
      "int (length (on_channel g c)) \<le> max 0 (ch_capacity (gw_channels g ! c))" if "c < length (gw_channels g)" for c
    using sound that by (simp_all add: slots_sound_def)
  have "int (length (filter (\<lambda>t. keys ! t = key) (open_tickets g))) \<le> max 0 (limits key)"
  proof (cases "gw_semaphores g key")
    case None
    have "filter (\<lambda>t. keys ! t = key) (open_tickets g) = []"
      using k None by (auto simp: filter_empty_conv keyed_def open_tickets_iff)
    then show ?thesis by simp
  next
    case (Some c)
    have c: "c < length (gw_channels g)" "ch_capacity (gw_channels g ! c) = limits key"
      using k sound Some by (simp_all add: keyed_def slots_sound_def)
    have same: "keys ! t = key \<Longrightarrow> fst (gw_tickets g ! t) = c" if "t \<in> set (open_tickets g)" for t
      using k that Some by (auto simp: keyed_def open_tickets_iff)
    have "length (filter (\<lambda>t. keys ! t = key) (open_tickets g)) \<le> length (on_channel g c)"
      unfolding on_channel_def distinct_card [OF distinct_filter [OF distinct_open], symmetric] using same
      by (intro card_mono) auto
    then show ?thesis using count [OF c(1)] c(2) by simp
  qed
  moreover have "0 < ch_used (gw_channels g ! fst (gw_tickets g ! t))" if "t \<in> set (open_tickets g)" for t
  proof -
    have "t \<in> set (on_channel g (fst (gw_tickets g ! t)))" using that by (simp add: on_channel_def)
    then show ?thesis
      using sound that count(1) [of "fst (gw_tickets g ! t)"] length_pos_if_in_set by (fastforce simp: slots_sound_def)
  qed
  ultimately show ?thesis by blast
qed

definition demo_slots :: "unit gateway" where
  "demo_slots = snd (acquire_concurrency ''k'' 1 (snd (acquire_concurrency ''k'' 1 (new_gateway ()))))"

theorem concurrency_limited_witness:
  "int (length (filter (\<lambda>t. [''k''] ! t = ''k'') (open_tickets demo_slots))) \<le> max 0 1
     \<and> list_all (\<lambda>t. 0 < ch_used (gw_channels demo_slots ! fst (gw_tickets demo_slots ! t))) (open_tickets demo_slots)"
proof -
  let ?a = "acquire_concurrency ''k'' 1 (new_gateway ())"
  have "fst ?a = Some 0" and "fst (acquire_concurrency ''k'' 1 (snd ?a)) = None" by code_simp+
  then have a: "?a = (Some 0, snd ?a)" and b: "acquire_concurrency ''k'' 1 (snd ?a) = (None, demo_slots)"
    by (metis demo_slots_def prod.collapse)+
  have "served (\<lambda>_. 1) (snd ?a) ([] @ [''k''])" by (rule served.admitted [OF served.start a])
  then have "served (\<lambda>_. 1) demo_slots [''k'']" using served.refused [OF _ b] by simp
  from concurrency_limited [OF this, of "''k''"] show ?thesis unfolding list_all_iff by simp
qed

text \<open>
  A \<open>limit-concurrency\<close> of the same key with another limit replaces the semaphore: it is admitted
  whatever is in flight under the old one, and with two limits in turn the key is never refused.
\<close>

theorem concurrency_limit_replaced:
  assumes "gw_semaphores g key = Some c" and "ch_capacity (gw_channels g ! c) \<noteq> n" and "0 < n"
  shows "fst (acquire_concurrency key n g) = Some (length (gw_tickets g))
     \<and> gw_semaphores (snd (acquire_concurrency key n g)) key = Some (length (gw_channels g))"
  using assms by (simp add: acquire_concurrency_def semaphore_for_def channel_add_def)

theorem concurrency_limit_replaced_witness:
  "fst (acquire_concurrency ''k'' 2 demo_slots) = Some (length (gw_tickets demo_slots))
     \<and> gw_semaphores (snd (acquire_concurrency ''k'' 2 demo_slots)) ''k'' = Some (length (gw_channels demo_slots))"
  by (rule concurrency_limit_replaced [of _ _ 0]) code_simp+

end
