(* ===== verification/GatewayLimits.thy ===== *)
theory GatewayLimits
  imports GatewayRuntime
begin

text \<open>
  What the counters of the gateway enforce.  The locale \<open>sliding_budget\<close> is the contract of a limiter
  that logs weighted entries, forgets those before a cutoff and admits an event while its entries
  leaves room; its theorem bounds what any stretch of time between a cutoff and its instant
  admits.  \<open>rateLimit\<close> and \<open>bandwidthLimit\<close> are its interpretations, the second one only as long as
  its 64-bit sums do not wrap.
\<close>

section \<open>Logs\<close>

definition recent :: "time \<Rightarrow> stamps \<Rightarrow> stamps" where
  "recent c l = filter (\<lambda>(t, _). c < t) l"

definition spent :: "stamps \<Rightarrow> int" where
  "spent l = sum_list (map snd l)"

definition nonneg :: "stamps \<Rightarrow> bool" where
  "nonneg l = list_all (\<lambda>(_, n). 0 \<le> n) l"

text \<open>The entries of the window that ends at \<open>u\<close>.\<close>

definition window_at :: "(time \<Rightarrow> time) \<Rightarrow> time \<Rightarrow> stamps \<Rightarrow> stamps" where
  "window_at cutoff u l = filter (\<lambda>(t, _). cutoff u < t \<and> t \<le> u) l"

lemma recent_append [simp]: "recent c (l @ m) = recent c l @ recent c m"
  and recent_single [simp]: "recent c [(t, n)] = (if c < t then [(t, n)] else [])"
  and recent_Nil [simp]: "recent c [] = []"
  by (simp_all add: recent_def)

lemma recent_recent [simp]: "c \<le> d \<Longrightarrow> recent d (recent c l) = recent d l"
  unfolding recent_def filter_filter by (intro filter_cong) auto

lemma spent_append [simp]: "spent (l @ m) = spent l + spent m"
  and spent_single [simp]: "spent [(t, n)] = n"
  and spent_Nil [simp]: "spent [] = 0"
  by (simp_all add: spent_def)

lemma nonneg_append [simp]: "nonneg (l @ m) \<longleftrightarrow> nonneg l \<and> nonneg m"
  and nonneg_single [simp]: "nonneg [(t, n)] \<longleftrightarrow> 0 \<le> n"
  and nonneg_Nil [simp]: "nonneg []"
  by (simp_all add: nonneg_def)

lemma nonneg_recent [intro]: "nonneg l \<Longrightarrow> nonneg (recent c l)"
  by (auto simp: nonneg_def recent_def list_all_iff)

lemma spent_nonneg: "nonneg l \<Longrightarrow> 0 \<le> spent l"
  by (induction l) (auto simp: nonneg_def spent_def)

lemma spent_recent_le: "nonneg l \<Longrightarrow> spent (recent c l) \<le> spent l"
  by (induction l) (auto simp: nonneg_def spent_def recent_def)

lemma spent_recent_mono: "nonneg l \<Longrightarrow> c \<le> d \<Longrightarrow> spent (recent d l) \<le> spent (recent c l)"
  using spent_recent_le [of "recent c l" d] by (simp add: nonneg_recent)

lemma window_at_append [simp]: "window_at cutoff u (l @ m) = window_at cutoff u l @ window_at cutoff u m"
  and window_at_Nil [simp]: "window_at cutoff u [] = []"
  by (simp_all add: window_at_def)

lemma window_at_recent: "(\<And>t n. (t, n) \<in> set l \<Longrightarrow> t \<le> u) \<Longrightarrow> window_at cutoff u l = recent (cutoff u) l"
  unfolding window_at_def recent_def by (intro filter_cong) auto

text \<open>The entries a sequence of timed events is admitted with, and the state after it.\<close>

fun admit_run ::
  "(time \<Rightarrow> 'e \<Rightarrow> 's \<Rightarrow> bool \<times> 's) \<Rightarrow> (time \<Rightarrow> 'e \<Rightarrow> stamps) \<Rightarrow> (time \<times> 'e) list \<Rightarrow> 's \<Rightarrow> stamps \<times> 's" where
  "admit_run admit batch [] s = ([], s)"
| "admit_run admit batch ((now, e) # es) s =
     (case admit now e s of (ok, s1) \<Rightarrow>
      case admit_run admit batch es s1 of (l, s2) \<Rightarrow> ((if ok then batch now e else []) @ l, s2))"

section \<open>The contract of a sliding limiter\<close>

locale sliding_budget =
  fixes entries :: "'s \<Rightarrow> stamps" and admit :: "time \<Rightarrow> 'e \<Rightarrow> 's \<Rightarrow> bool \<times> 's"
    and need :: "'e \<Rightarrow> int" and batch :: "time \<Rightarrow> 'e \<Rightarrow> stamps" and legal :: "'e \<Rightarrow> bool"
    and budget :: int and slack :: int and cutoff :: "time \<Rightarrow> time"
  assumes cutoff_mono: "t \<le> u \<Longrightarrow> cutoff t \<le> cutoff u"
    and batch_nonneg: "legal e \<Longrightarrow> nonneg (batch now e)"
    and batch_time: "(t, n) \<in> set (batch now e) \<Longrightarrow> t = now"
    and batch_cost: "legal e \<Longrightarrow> spent (batch now e) \<le> need e + slack"
    and admit_law: "legal e \<Longrightarrow> nonneg (entries s) \<Longrightarrow> spent (entries s) \<le> budget + slack \<Longrightarrow>
      admit now e s = (ok, s') \<Longrightarrow>
      (ok \<longleftrightarrow> spent (recent (cutoff now) (entries s)) + need e \<le> budget)
      \<and> entries s' = recent (cutoff now) (entries s) @ (if ok then batch now e else [])"
begin

text \<open>\<open>h\<close> is what was admitted so far, up to the time \<open>now\<close>; the log still has its recent part.\<close>

definition tracks :: "time \<Rightarrow> stamps \<Rightarrow> 's \<Rightarrow> bool" where
  "tracks now h s \<longleftrightarrow> nonneg h \<and> nonneg (entries s) \<and> spent (entries s) \<le> budget + slack
     \<and> (\<forall>(t, n) \<in> set h. t \<le> now) \<and> (\<forall>c \<ge> cutoff now. recent c h = recent c (entries s))
     \<and> (\<forall>u. spent (window_at cutoff u h) \<le> budget + slack)"

lemma tracksD:
  assumes "tracks now h s"
  shows "nonneg h" and "nonneg (entries s)" and "spent (entries s) \<le> budget + slack"
    and "(t, n) \<in> set h \<Longrightarrow> t \<le> now" and "cutoff now \<le> c \<Longrightarrow> recent c h = recent c (entries s)"
    and "spent (window_at cutoff u h) \<le> budget + slack"
  using assms unfolding tracks_def by (simp, simp, simp, fast, simp, simp)

lemma tracks_admit:
  assumes tr: "tracks t0 h s" and now: "t0 \<le> now" and e: "legal e" and adm: "admit now e s = (ok, s')"
  shows "tracks now (h @ (if ok then batch now e else [])) s'"
proof -
  let ?kept = "recent (cutoff now) (entries s)"
  define new where "new = (if ok then batch now e else [])"
  note h = tracksD(1-3) [OF tr] and bound = tracksD(6) [OF tr]
  have new: "nonneg new" "\<And>t n. (t, n) \<in> set new \<Longrightarrow> t = now" "ok \<Longrightarrow> spent new \<le> need e + slack" "\<not> ok \<Longrightarrow> new = []"
    using batch_nonneg [OF e] batch_time batch_cost [OF e] by (auto simp: new_def split: if_splits)
  have past: "t \<le> now" if "(t, n) \<in> set h" for t n
    using tracksD(4) [OF tr that] now by (rule order_trans)
  have agree: "recent c h = recent c (entries s)" if "cutoff now \<le> c" for c
    using cutoff_mono [OF now] that by (intro tracksD(5) [OF tr]) (rule order_trans)
  have ok: "ok \<longleftrightarrow> spent ?kept + need e \<le> budget" and entries': "entries s' = ?kept @ new"
    using admit_law [OF e h(2,3) adm] by (simp_all add: new_def)
  have room: "spent ?kept + spent new \<le> budget + slack"
    using ok new(3,4) spent_recent_le [OF h(2), of "cutoff now"] h(3) by (cases ok) auto
  have spans: "spent (window_at cutoff u (h @ new)) \<le> budget + slack" for u
  proof (cases "now \<le> u")
    case True
    have "window_at cutoff u (h @ new) = recent (cutoff u) (h @ new)"
    proof (rule window_at_recent)
      fix t n
      assume "(t, n) \<in> set (h @ new)"
      then have "t \<le> now" by (auto dest: past new(2))
      then show "t \<le> u" using True by simp
    qed
    moreover have "spent (recent (cutoff u) h) \<le> spent ?kept"
      using agree [OF cutoff_mono [OF True]] spent_recent_mono [OF h(2) cutoff_mono [OF True]] by simp
    moreover have "spent (recent (cutoff u) new) \<le> spent new"
      by (rule spent_recent_le [OF new(1)])
    ultimately show ?thesis using room by simp
  next
    case False
    then have "window_at cutoff u new = []" by (auto simp: window_at_def filter_empty_conv dest: new(2))
    then show ?thesis using bound [of u] by simp
  qed
  have "nonneg (h @ new)" and "nonneg (?kept @ new)" and "spent (?kept @ new) \<le> budget + slack"
    using h(1,2) new(1) room by (auto simp: nonneg_recent)
  moreover have "\<forall>(t, n) \<in> set (h @ new). t \<le> now" by (auto dest: past new(2))
  moreover have "\<forall>c \<ge> cutoff now. recent c (h @ new) = recent c (?kept @ new)" by (simp add: agree)
  ultimately show ?thesis
    unfolding tracks_def entries' new_def [symmetric] using spans by blast
qed

lemma tracks_run:
  assumes "tracks t0 h s" and "sorted (t0 # map fst es)" and "\<forall>(_, e) \<in> set es. legal e"
    and "admit_run admit batch es s = (l, s')"
  shows "\<exists>t. tracks t (h @ l) s'"
  using assms
proof (induction es arbitrary: t0 h s l)
  case (Cons x es)
  obtain now e where x: "x = (now, e)" by (cases x)
  obtain ok s1 where adm: "admit now e s = (ok, s1)" by fastforce
  obtain l2 where run: "admit_run admit batch es s1 = (l2, s')"
    and l: "l = (if ok then batch now e else []) @ l2"
    using Cons.prems(4) adm by (auto simp: x split: prod.splits)
  have "tracks now (h @ (if ok then batch now e else [])) s1"
    by (rule tracks_admit [OF Cons.prems(1) _ _ adm]) (use Cons.prems(2,3) in \<open>auto simp: x\<close>)
  from Cons.IH [OF this _ _ run] Cons.prems(2,3) show ?case by (simp add: x l)
qed auto

text \<open>From an empty log, no window admits more than the budget and the slack.\<close>

lemma window_bounded:
  assumes "entries s = []" and "0 \<le> budget + slack" and "sorted (map fst es)" and "\<forall>(_, e) \<in> set es. legal e"
    and "admit_run admit batch es s = (l, s')"
  shows "spent (window_at cutoff u l) \<le> budget + slack"
proof (cases es)
  case Nil
  then show ?thesis using assms by simp
next
  case (Cons x es')
  have "tracks (fst x) [] s" using assms(1,2) by (simp add: tracks_def)
  from tracks_run [OF this _ assms(4,5)] assms(3) obtain t where "tracks t l s'"
    by (auto simp: Cons)
  then show ?thesis by (rule tracksD(6))
qed

end

section \<open>The limiters of the gateway\<close>

lemma window_cutoff_mono: "t \<le> u \<Longrightarrow> window_cutoff t period \<le> window_cutoff u period"
  by (simp add: window_cutoff_def)

definition rate_entries :: "string \<Rightarrow> 'x gateway \<Rightarrow> stamps" where
  "rate_entries key g = map (\<lambda>t. (t, 1)) (gw_rate g key)"

definition rate_admit ::
  "string \<Rightarrow> int \<Rightarrow> duration \<Rightarrow> time \<Rightarrow> int \<Rightarrow> 'x gateway \<Rightarrow> bool \<times> 'x gateway" where
  "rate_admit key calls period now increment g =
     (case rate_limit key calls period increment (g\<lparr>gw_now := now\<rparr>) of (d, g') \<Rightarrow> (\<not> ld_exceeded d, g'))"

definition rate_batch :: "time \<Rightarrow> int \<Rightarrow> stamps" where
  "rate_batch now increment = replicate (nat increment) (now, 1)"

definition bandwidth_admit ::
  "string \<Rightarrow> int \<Rightarrow> duration \<Rightarrow> time \<Rightarrow> int \<Rightarrow> 'x gateway \<Rightarrow> bool \<times> 'x gateway" where
  "bandwidth_admit key budget period now bytes g =
     (case bandwidth_limit key bytes budget period (g\<lparr>gw_now := now\<rparr>) of (d, g') \<Rightarrow> (\<not> ld_exceeded d, g'))"

lemma recent_map_one: "recent c (map (\<lambda>t. (t, n)) ts) = map (\<lambda>t. (t, n)) (filter (\<lambda>t. time_after t c) ts)"
  by (induction ts) (auto simp: recent_def time_after_def)

lemma spent_map_one: "spent (map (\<lambda>t. (t, 1)) ts) = int (length ts)"
  by (induction ts) (simp_all add: spent_def)

lemma spent_rate_batch: "spent (rate_batch now n) = max 0 n"
  by (simp add: rate_batch_def spent_def sum_list_replicate)

interpretation calls: sliding_budget "rate_entries key" "rate_admit key limit period" "\<lambda>_. 1" rate_batch
  "\<lambda>n. n \<le> most" limit "max 0 (most - 1)" "\<lambda>t. window_cutoff t period" for key limit period most
proof unfold_locales
  show "t \<le> u \<Longrightarrow> window_cutoff t period \<le> window_cutoff u period" for t u by (rule window_cutoff_mono)
  show "nonneg (rate_batch now n)" for now n by (simp add: rate_batch_def nonneg_def list_all_iff)
  show "(t, k) \<in> set (rate_batch now n) \<Longrightarrow> t = now" for t k now n by (simp add: rate_batch_def split: if_splits)
  show "n \<le> most \<Longrightarrow> spent (rate_batch now n) \<le> 1 + max 0 (most - 1)" for now n by (simp add: spent_rate_batch)
  show "(ok \<longleftrightarrow> spent (recent (window_cutoff now period) (rate_entries key s)) + 1 \<le> limit)
      \<and> rate_entries key s' = recent (window_cutoff now period) (rate_entries key s) @ (if ok then rate_batch now n else [])"
    if "rate_admit key limit period now n s = (ok, s')" for now n ok and s s' :: "'x gateway"
    using that
    by (auto simp: rate_admit_def rate_limit_def Let_def rate_entries_def recent_map_one spent_map_one rate_batch_def
        split: if_splits)
qed

text \<open>A 64-bit sum of counts is the sum as long as that fits.\<close>

lemma foldl_wrap_exact:
  "0 \<le> a \<Longrightarrow> \<forall>n \<in> set ns. 0 \<le> n \<Longrightarrow> a + sum_list ns < 2 ^ 63 \<Longrightarrow>
     foldl (\<lambda>a n. int64_wrap (a + n)) a ns = a + sum_list ns"
proof (induction ns arbitrary: a)
  case (Cons n ns)
  have "0 \<le> sum_list ns" using Cons.prems(2) by (intro sum_list_nonneg) simp
  moreover have "- (2 ^ 63) \<le> (0::int)" by simp
  ultimately have "int64_wrap (a + n) = a + n"
    using Cons.prems by (intro int64_wrap_id) (simp_all del: power_numeral)
  then show ?case using Cons.IH [of "a + n"] Cons.prems by (simp add: add.assoc)
qed simp

lemma sum64_exact: "nonneg l \<Longrightarrow> spent l < 2 ^ 63 \<Longrightarrow> sum64 (map snd l) = spent l"
  unfolding sum64_def spent_def
  by (subst foldl_wrap_exact) (auto simp: nonneg_def list_all_iff)

definition countable_bytes :: "int \<Rightarrow> int \<Rightarrow> bool" where
  "countable_bytes budget n \<longleftrightarrow> 0 \<le> n \<and> n \<le> 2 ^ 62 \<and> budget < 2 ^ 62"

lemma bandwidth_law:
  assumes n: "countable_bytes budget n" and "nonneg (gw_bandwidth s key)" and "spent (gw_bandwidth s key) \<le> budget"
    and adm: "bandwidth_admit key budget period now n s = (ok, s')"
  shows "(ok \<longleftrightarrow> spent (recent (window_cutoff now period) (gw_bandwidth s key)) + n \<le> budget)
      \<and> gw_bandwidth s' key = recent (window_cutoff now period) (gw_bandwidth s key) @ (if ok then [(now, n)] else [])"
proof -
  let ?kept = "recent (window_cutoff now period) (gw_bandwidth s key)"
  have kept: "filter (\<lambda>(t, _). time_after t (window_cutoff now period)) (gw_bandwidth s key) = ?kept"
    by (simp add: recent_def time_after_def)
  have small: "(2::int) ^ 63 = 2 ^ 62 + 2 ^ 62" by simp
  have nn: "nonneg ?kept" and le: "0 \<le> spent ?kept" "spent ?kept \<le> budget"
    using assms(2,3) spent_recent_le [OF assms(2), of "window_cutoff now period"] spent_nonneg [OF nonneg_recent [OF assms(2)]]
    by (auto simp: nonneg_recent)
  have sum: "sum64 (map snd ?kept) = spent ?kept"
    by (rule sum64_exact [OF nn]) (use le n in \<open>unfold small countable_bytes_def, linarith\<close>)
  have "int64_wrap (spent ?kept + n) = spent ?kept + n"
    by (rule int64_wrap_id) (use le n in \<open>unfold small countable_bytes_def, linarith+\<close>)
  then show ?thesis
    using adm n by (auto simp: bandwidth_admit_def bandwidth_limit_def Let_def kept sum countable_bytes_def split: if_splits)
qed

interpretation bytes: sliding_budget "\<lambda>g. gw_bandwidth g key" "bandwidth_admit key budget period" "\<lambda>n. n"
  "\<lambda>now n. [(now, n)]" "countable_bytes budget" budget 0 "\<lambda>t. window_cutoff t period" for key budget period
proof unfold_locales
  show "t \<le> u \<Longrightarrow> window_cutoff t period \<le> window_cutoff u period" for t u by (rule window_cutoff_mono)
  show "(ok \<longleftrightarrow> spent (recent (window_cutoff now period) (gw_bandwidth s key)) + n \<le> budget)
      \<and> gw_bandwidth s' key = recent (window_cutoff now period) (gw_bandwidth s key) @ (if ok then [(now, n)] else [])"
    if "countable_bytes budget n" "nonneg (gw_bandwidth s key)" "spent (gw_bandwidth s key) \<le> budget + 0"
      "bandwidth_admit key budget period now n s = (ok, s')" for now n ok and s s' :: "'x gateway"
    using that(3) by (intro bandwidth_law [OF that(1,2) _ that(4)]) simp
qed (simp_all add: countable_bytes_def)

section \<open>Properties\<close>

text \<open>
  C9. Rate limits hold: whatever requests arrive, in the order of their times, the calls that one
  counter admits within any window of its period are at most its limit, and with increments of
  up to \<open>most\<close> per request overshoot it by less than one increment.  With no period (an infinite
  quota) the window is all time.
\<close>

theorem rate_limit_bounds_calls:
  assumes "gw_rate g key = []" and "0 < limit" and "sorted (map fst es)" and "\<forall>(_, n) \<in> set es. n \<le> most"
    and "admit_run (rate_admit key limit period) rate_batch es g = (admitted, g')"
  shows "spent (window_at (\<lambda>t. window_cutoff t period) u admitted) \<le> limit + max 0 (most - 1)"
  by (rule calls.window_bounded [OF _ _ assms(3-5)]) (use assms(1,2) in \<open>simp_all add: rate_entries_def\<close>)

theorem rate_limit_bounds_calls_witness:
  "spent (window_at (\<lambda>t. window_cutoff t 10) 13 [(1, 1), (5, 1), (12, 1)]) \<le> 2 + max 0 (1 - 1)"
proof (rule rate_limit_bounds_calls)
  show "gw_rate (new_gateway ()) ''k'' = []" by (simp add: new_gateway_def)
  show "admit_run (rate_admit ''k'' 2 10) rate_batch [(1, 1), (5, 1), (6, 1), (12, 1)] (new_gateway ())
      = ([(1, 1), (5, 1), (12, 1)], snd (admit_run (rate_admit ''k'' 2 10) rate_batch [(1, 1), (5, 1), (6, 1), (12, 1)] (new_gateway ())))"
    by (simp add: rate_admit_def rate_limit_def rate_batch_def window_cutoff_def time_after_def new_gateway_def)
qed simp_all



text \<open>
  Beyond that bound the 64-bit sum wraps: once anything is counted, a request that declares a
  length close enough to the largest one is admitted whatever the budget.
\<close>

theorem bandwidth_limit_wraps:
  assumes "nonneg (gw_bandwidth g key)" and "0 \<le> budget" and "bytes < 2 ^ 63"
    and "spent (gw_bandwidth g key) < 2 ^ 63"
    and "2 ^ 63 \<le> spent (recent (window_cutoff (gw_now g) period) (gw_bandwidth g key)) + bytes"
  shows "\<not> ld_exceeded (fst (bandwidth_limit key bytes budget period g))"
proof -
  let ?kept = "recent (window_cutoff (gw_now g) period) (gw_bandwidth g key)"
  have kept: "filter (\<lambda>(t, _). time_after t (window_cutoff (gw_now g) period)) (gw_bandwidth g key) = ?kept"
    by (simp add: recent_def time_after_def)
  have le: "spent ?kept < 2 ^ 63" using spent_recent_le [OF assms(1), of "window_cutoff (gw_now g) period"] assms(4) by simp
  have sum: "sum64 (map snd ?kept) = spent ?kept"
    by (rule sum64_exact [OF nonneg_recent [OF assms(1)] le])
  have big: "0 \<le> bytes" using le assms(5) by linarith
  have "(spent ?kept + bytes + 2 ^ 63) mod 2 ^ 64 = spent ?kept + bytes + 2 ^ 63 - 2 ^ 64"
    by (subst minus_mod_self2 [symmetric], rule mod_pos_pos_trivial) (use assms(3,5) le in simp_all)
  then have "int64_wrap (spent ?kept + max 0 bytes) < 0"
    using assms(3) le big by (simp add: int64_wrap_def)
  then show ?thesis using assms(2) by (simp add: bandwidth_limit_def Let_def kept sum)
qed

theorem bandwidth_limit_wraps_witness:
  "\<not> ld_exceeded (fst (bandwidth_limit ''k'' 9223372036854775807 100 60
      ((new_gateway ())\<lparr>gw_bandwidth := (\<lambda>_. [(0, 1)])\<rparr>)))"
  by (rule bandwidth_limit_wraps)
    (simp_all add: recent_def window_cutoff_def new_gateway_def spent_def nonneg_def)

text \<open>
  A rate limit and an infinite quota that share a counter key share a window, and the rate limit
  forgets what is older than its own period: the quota then admits whenever the last period held
  fewer calls than its limit, however many there were before.
\<close>

theorem rate_limit_resets_infinite_quota:
  assumes "0 < period"
    and "int (length (filter (\<lambda>t. gw_now g - period < t) (gw_rate g key))) + 1 < quota"
    and "rate_limit key calls period 1 g = (d, g')"
  shows "\<not> ld_exceeded (fst (rate_limit key quota 0 n g'))"
proof -
  have "length (gw_rate g' key) \<le> length (filter (\<lambda>t. gw_now g - period < t) (gw_rate g key)) + 1"
    using assms(1,3) by (auto simp: rate_limit_def Let_def window_cutoff_def time_after_def split: if_splits)
  moreover have "length (filter (\<lambda>t. time_after t (window_cutoff (gw_now g') 0)) (gw_rate g' key)) \<le> length (gw_rate g' key)"
    by (rule length_filter_le)
  ultimately have "int (length (filter (\<lambda>t. time_after t (window_cutoff (gw_now g') 0)) (gw_rate g' key))) < quota"
    using assms(2) by linarith
  then show ?thesis by (simp add: rate_limit_def Let_def)
qed

theorem rate_limit_resets_infinite_quota_witness:
  "\<not> ld_exceeded (fst (rate_limit ''k'' 3 0 1
      (snd (rate_limit ''k'' 9 10 1 ((new_gateway ())\<lparr>gw_now := 100, gw_rate := (\<lambda>_. [1, 2, 3, 4, 5])\<rparr>)))))"
  by (rule rate_limit_resets_infinite_quota [OF _ _ surjective_pairing, of 10]) simp_all

end
