(* ===== verification/Calendar.thy ===== *)
theory Calendar
  imports FilterLex
begin

text \<open>
  The civil calendar behind \<open>time.Date\<close>, \<open>Time.Year\<close> and \<open>Time.Month\<close> in UTC: the proleptic
  Gregorian calendar on days counted from 1 January 1970.  A year runs from \<open>year_start y\<close> to
  \<open>year_start (y + 1)\<close>; the months of a year are numbered from 0.
\<close>

definition leap_year :: "int \<Rightarrow> bool" where
  "leap_year y \<longleftrightarrow> y mod 4 = 0 \<and> (y mod 100 \<noteq> 0 \<or> y mod 400 = 0)"

definition year_start :: "int \<Rightarrow> int" where
  "year_start y = 365 * (y - 1970) + (y - 1) div 4 - (y - 1) div 100 + (y - 1) div 400 - 477"

text \<open>The year of a day: an estimate from the mean length of a year, off by at most one.\<close>

definition year_of :: "int \<Rightarrow> int" where
  "year_of d =
     (let y = 1970 + (400 * d) div 146097 in
      if d < year_start y then y - 1 else if year_start (y + 1) \<le> d then y + 1 else y)"

fun month_start :: "bool \<Rightarrow> nat \<Rightarrow> int" where
  "month_start leap m = [0, 31, 59, 90, 120, 151, 181, 212, 243, 273, 304, 334, 365] ! m + (if leap \<and> 2 \<le> m then 1 else 0)"

definition month_of :: "int \<Rightarrow> nat" where
  "month_of d =
     (let y = year_of d; e = d - year_start y in
      length (takeWhile (\<lambda>m. month_start (leap_year y) m \<le> e) [1..<12]))"

text \<open>The first day of a month, with \<open>time.Date\<close>'s normalization of month 12 (the 13th).\<close>

definition month_date :: "int \<Rightarrow> nat \<Rightarrow> int" where
  "month_date y m = (if m < 12 then year_start y + month_start (leap_year y) m else year_start (y + 1))"

text \<open>\<open>Time.Weekday\<close>, Sunday being 0.\<close>

definition weekday :: "int \<Rightarrow> int" where
  "weekday d = (d + 4) mod 7"

section \<open>A day lies in its year\<close>

lemma div_step:
  assumes "0 < (k::int)"
  shows "y div k = (y - 1) div k + (if y mod k = 0 then 1 else 0)"
proof -
  define q r where "q = (y - 1) div k" and "r = (y - 1) mod k"
  have r: "0 \<le> r" "r < k" and y: "y = k * q + (r + 1)" using assms by (simp_all add: q_def r_def)
  show ?thesis
  proof (cases "r + 1 = k")
    case True
    then have "y = k * (q + 1)" using y by (simp add: algebra_simps)
    then have "y div k = q + 1" "y mod k = 0" using assms by simp_all
    then show ?thesis by (simp add: q_def)
  next
    case False
    then have "y div k = q" "y mod k = r + 1" using r y by simp_all
    then show ?thesis using r(1) by (simp add: q_def)
  qed
qed

lemma year_length: "year_start (y + 1) = year_start y + (if leap_year y then 366 else 365)"
proof -
  have c: "y mod 100 = 0" if "y mod 400 = 0"
    by (rule dvd_imp_mod_0, rule dvd_trans [of _ 400]) (simp, rule mod_0_imp_dvd [OF that])
  have q: "y mod 4 = 0" if "y mod 100 = 0"
    by (rule dvd_imp_mod_0, rule dvd_trans [of _ 100]) (simp, rule mod_0_imp_dvd [OF that])
  have steps: "y div 4 = (y - 1) div 4 + (if y mod 4 = 0 then 1 else 0)"
    "y div 100 = (y - 1) div 100 + (if y mod 100 = 0 then 1 else 0)"
    "y div 400 = (y - 1) div 400 + (if y mod 400 = 0 then 1 else 0)"
    by (rule div_step, simp)+
  have "year_start (y + 1) = 365 * (y + 1 - 1970) + y div 4 - y div 100 + y div 400 - 477"
    by (simp add: year_start_def)
  also have "\<dots> = year_start y + 365 + (if y mod 4 = 0 then 1 else 0) - (if y mod 100 = 0 then 1 else 0)
      + (if y mod 400 = 0 then 1 else 0)"
    unfolding steps year_start_def by (simp only: algebra_simps)
  also have "\<dots> = year_start y + (if leap_year y then 366 else 365)"
    unfolding leap_year_def using c q by (cases "y mod 100 = 0"; cases "y mod 400 = 0"; cases "y mod 4 = 0") simp_all
  finally show ?thesis .
qed

lemma year_start_epoch: "year_start 1970 = 0"
  by (simp add: year_start_def)

lemma div_bounds: "0 < (k::int) \<Longrightarrow> k * (x div k) \<le> x \<and> x < k * (x div k) + k"
  by (metis add_le_cancel_left mult_div_mod_eq pos_mod_bound pos_mod_sign add.right_neutral add_less_cancel_left)

lemma year_estimate:
  assumes "y = 1970 + (400 * d) div 146097"
  shows "year_start (y - 1) \<le> d" and "d < year_start (y + 2)"
proof -
  have y: "146097 * (y - 1970) \<le> 400 * d" "400 * d < 146097 * (y - 1970) + 146097"
    using assms div_bounds [of 146097 "400 * d"] by simp_all
  have low: "365 * (y - 1 - 1970) + p - q + r - 477 \<le> d"
    if "4 * p \<le> y - 1 - 1" "y - 1 - 1 < 100 * q + 100" "400 * r \<le> y - 1 - 1" for p q r
  proof -
    have "400 * (365 * (y - 1 - 1970) + p - q + r - 477) \<le> 400 * d" using that y by (simp add: algebra_simps)
    then show ?thesis by (rule mult_left_le_imp_le) simp
  qed
  have high: "d < 365 * (y + 2 - 1970) + p - q + r - 477"
    if "y + 2 - 1 < 4 * p + 4" "100 * q \<le> y + 2 - 1" "y + 2 - 1 < 400 * r + 400" for p q r
  proof -
    have "400 * d < 400 * (365 * (y + 2 - 1970) + p - q + r - 477)" using that y by (simp add: algebra_simps)
    then show ?thesis by (rule mult_left_less_imp_less) simp
  qed
  show "year_start (y - 1) \<le> d"
    unfolding year_start_def
    by (rule low; rule div_bounds [THEN conjunct1] div_bounds [THEN conjunct2]; rule zero_less_numeral)
  show "d < year_start (y + 2)"
    unfolding year_start_def
    by (rule high; rule div_bounds [THEN conjunct1] div_bounds [THEN conjunct2]; rule zero_less_numeral)
qed

lemma year_of_bounds: "year_start (year_of d) \<le> d" "d < year_start (year_of d + 1)"
  using year_estimate [OF refl, of d] by (auto simp: year_of_def Let_def add.assoc)

section \<open>A day lies in its month\<close>

lemma month_start_mono: "m \<le> n \<Longrightarrow> n \<le> 12 \<Longrightarrow> month_start leap m \<le> month_start leap n"
proof (induction rule: dec_induct)
  case (step n)
  then have "n \<in> set [0..<12]" by simp
  moreover have "list_all (\<lambda>k. month_start leap k \<le> month_start leap (Suc k)) [0..<12]"
    by (cases leap) (simp_all add: upt_rec)
  ultimately have "month_start leap n \<le> month_start leap (Suc n)" by (auto simp only: list_all_iff)
  with step show ?case by simp
qed simp

lemma takeWhile_upt_bounds:
  assumes "P a" and "\<not> P b" and "a \<le> b"
  shows "let m = length (takeWhile P [Suc a..<b]) in P (a + m) \<and> (\<not> P (Suc (a + m))) \<and> a + m < b \<or> a = b"
proof -
  let ?xs = "[Suc a..<b]"
  let ?m = "length (takeWhile P ?xs)"
  have ab: "a < b" using assms by (cases "a = b") auto
  have m: "?m \<le> length ?xs" by (rule length_takeWhile_le)
  have "P (a + ?m)"
  proof (cases ?m)
    case 0
    then show ?thesis using assms(1) by simp
  next
    case (Suc k)
    then have "takeWhile P ?xs ! k \<in> set (takeWhile P ?xs)" by (intro nth_mem) simp
    then have "P (takeWhile P ?xs ! k)" by (rule set_takeWhileD [THEN conjunct2])
    moreover have "takeWhile P ?xs ! k = Suc a + k" using Suc m ab by (simp add: takeWhile_nth)
    ultimately show ?thesis by (simp add: Suc)
  qed
  moreover have "\<not> P (Suc (a + ?m))"
  proof (cases "?m < length ?xs")
    case True
    then have "\<not> P (?xs ! ?m)" by (rule nth_length_takeWhile)
    then show ?thesis using True by (simp add: nth_upt)
  next
    case False
    then have "Suc (a + ?m) = b" using m ab by simp
    then show ?thesis using assms(2) by simp
  qed
  moreover have "a + ?m < b" using m ab by simp
  ultimately show ?thesis by (simp add: Let_def)
qed

lemma month_of_bounds:
  "month_of d < 12" "month_date (year_of d) (month_of d) \<le> d" "d < month_date (year_of d) (Suc (month_of d))"
proof -
  define y e where "y = year_of d" and "e = d - year_start (year_of d)"
  have e: "0 \<le> e" "e < month_start (leap_year y) 12"
    using year_of_bounds [of d] year_length [of "year_of d"] by (auto simp: e_def y_def)
  let ?P = "\<lambda>m. month_start (leap_year y) m \<le> e"
  have month: "month_of d = length (takeWhile ?P [Suc 0..<12])"
    by (simp add: month_of_def Let_def y_def e_def)
  have "?P (month_of d) \<and> \<not> ?P (Suc (month_of d)) \<and> month_of d < 12"
    using takeWhile_upt_bounds [of ?P 0 12] e by (auto simp: month Let_def)
  then have m: "?P (month_of d)" "\<not> ?P (Suc (month_of d))" "month_of d < 12" by blast+
  show "month_of d < 12" by (rule m(3))
  show "month_date (year_of d) (month_of d) \<le> d"
    using m(1,3) by (simp add: month_date_def e_def y_def del: month_start.simps)
  show "d < month_date (year_of d) (Suc (month_of d))"
    using m(2) year_of_bounds(2) [of d] by (auto simp: month_date_def e_def y_def simp del: month_start.simps)
qed

section \<open>Years and months are unique\<close>

lemma year_start_mono: "y \<le> z \<Longrightarrow> year_start y \<le> year_start z"
  by (induction rule: int_ge_induct) (simp_all add: year_length)

lemma year_of_unique:
  assumes "year_start y \<le> d" and "d < year_start (y + 1)"
  shows "year_of d = y"
proof (rule ccontr)
  assume "year_of d \<noteq> y"
  then have "year_of d + 1 \<le> y \<or> y + 1 \<le> year_of d" by linarith
  then show False using year_of_bounds [of d] assms by (auto dest: year_start_mono)
qed

lemma month_date_mono: "m \<le> n \<Longrightarrow> n \<le> 12 \<Longrightarrow> month_date y m \<le> month_date y n"
  using month_start_mono [of m n "leap_year y"] month_start_mono [of m 12 "leap_year y"] year_length [of y]
  by (cases "n = 12") (auto simp: month_date_def simp del: month_start.simps, auto)

lemma month_date_in_year: "m \<le> 12 \<Longrightarrow> year_start y \<le> month_date y m \<and> month_date y m \<le> year_start (y + 1)"
  using month_date_mono [of 0 m y] month_date_mono [of m 12 y] by (simp add: month_date_def)

lemma month_of_unique:
  assumes "m < 12" and "month_date y m \<le> d" and "d < month_date y (Suc m)"
  shows "year_of d = y" and "month_of d = m"
proof -
  show y: "year_of d = y"
    by (rule year_of_unique) (use assms month_date_in_year [of m y] month_date_in_year [of "Suc m" y] in simp_all)
  show "month_of d = m"
  proof (rule ccontr)
    assume "month_of d \<noteq> m"
    then consider "Suc (month_of d) \<le> m" | "Suc m \<le> month_of d" by linarith
    then show False
    proof cases
      case 1
      then have "month_date y (Suc (month_of d)) \<le> month_date y m" using assms(1) by (intro month_date_mono) simp_all
      then show False using month_of_bounds(3) [of d] assms(2) y by simp
    next
      case 2
      then have "month_date y (Suc m) \<le> month_date y (month_of d)"
        using month_of_bounds(1) [of d] by (intro month_date_mono) simp_all
      then show False using month_of_bounds(2) [of d] assms(3) y by simp
    qed
  qed
qed

end
