(* ===== verification/GatewayTokens.thy ===== *)
theory GatewayTokens
  imports GatewayLimits Calendar
begin

text \<open>
  Token governance of model APIs, \<open>internal/gateway/llm.go\<close>: the tokens-per-minute window, the
  quota of a calendar period, and what is charged once the model has answered.  The slice of a
  window is trimmed in place, so a refusal, which does not store the trimmed slice back, leaves
  the old length over the overwritten array; \<open>trimmed_array\<close> is that content.
\<close>

section \<open>Whole seconds\<close>

fun bit_length :: "nat \<Rightarrow> nat" where
  "bit_length n = (if n = 0 then 0 else Suc (bit_length (n div 2)))"

declare bit_length.simps [simp del]

text \<open>
  \<open>int(d.Seconds())\<close> for a non-negative duration: the float next to the seconds and the fraction
  has 53 bits, so a fraction within half its last place of the next second is rounded up to it.
\<close>

definition float_seconds :: "duration \<Rightarrow> int" where
  "float_seconds d =
     (let sec = d div nanos_per_second; left = nanos_per_second - d mod nanos_per_second in
      if left * 2 ^ (54 - bit_length (nat sec)) \<le> nanos_per_second then sec + 1 else sec)"

lemma float_seconds_covers: "d < (float_seconds d + 1) * nanos_per_second"
proof -
  have "d < (d div nanos_per_second + 1) * nanos_per_second"
    by (simp add: nanos_per_second_def)
  also have "\<dots> \<le> (float_seconds d + 1) * nanos_per_second"
    by (rule mult_right_mono) (simp_all add: float_seconds_def nanos_per_second_def Let_def)
  finally show ?thesis .
qed

section \<open>Tokens per minute\<close>

definition token_kept :: "time \<Rightarrow> stamps \<Rightarrow> stamps" where
  "token_kept now w = filter (\<lambda>(t, _). time_after t (now - minute)) w"

definition token_oldest :: "time \<Rightarrow> stamps \<Rightarrow> time" where
  "token_oldest now kept = foldl (\<lambda>old (t, _). if t < old then t else old) now kept"

definition trimmed_array :: "stamps \<Rightarrow> stamps \<Rightarrow> stamps" where
  "trimmed_array kept w = kept @ drop (length kept) w"

text \<open>\<open>tokenLimit\<close>: tokens left, seconds to wait, whether the request may proceed.\<close>

definition token_limit ::
  "string \<Rightarrow> int \<Rightarrow> int \<Rightarrow> 'x gateway \<Rightarrow> (int \<times> int \<times> bool) \<times> 'x gateway" where
  "token_limit key per_minute est g =
     (let now = gw_now g; w = gw_tokens g key; kept = token_kept now w; total = sum64 (map snd kept);
          left = max 0 (int64_wrap (per_minute - total)) in
      if total \<ge> per_minute then
        ((0, float_seconds (time_sub (token_oldest now kept + minute) now) + 1, False),
         g\<lparr>gw_tokens := (gw_tokens g)(key := trimmed_array kept w)\<rparr>)
      else if est > 0 then
        ((max 0 (left - est), 0, True), g\<lparr>gw_tokens := (gw_tokens g)(key := kept @ [(now, est)])\<rparr>)
      else ((left, 0, True), g\<lparr>gw_tokens := (gw_tokens g)(key := kept)\<rparr>))"

definition record_tokens :: "string \<Rightarrow> int \<Rightarrow> 'x gateway \<Rightarrow> 'x gateway" where
  "record_tokens key n g =
     (if n \<le> 0 then g
      else g\<lparr>gw_tokens := (gw_tokens g)(key := token_kept (gw_now g) (gw_tokens g key) @ [(gw_now g, n)])\<rparr>)"

definition tokens_remaining :: "string \<Rightarrow> int \<Rightarrow> 'x gateway \<Rightarrow> int \<times> 'x gateway" where
  "tokens_remaining key per_minute g =
     (let kept = token_kept (gw_now g) (gw_tokens g key) in
      (max 0 (int64_wrap (per_minute - sum64 (map snd kept))), g\<lparr>gw_tokens := (gw_tokens g)(key := kept)\<rparr>))"

section \<open>Quotas of a calendar period\<close>

definition hour_nanos :: int where "hour_nanos = 3600 * nanos_per_second"

definition day_nanos :: int where "day_nanos = 24 * hour_nanos"

text \<open>\<open>tokenQuotaWindow\<close>: the start of the period \<open>now\<close> falls in, and the time left of it.\<close>

definition token_quota_window :: "string \<Rightarrow> time \<Rightarrow> (time \<times> duration) option" where
  "token_quota_window period now =
     (let p = to_lower (trim_space period); d = now div day_nanos;
          between = (\<lambda>a b. Some (a, time_sub b now)) in
      if p = ''hourly'' then
        let start = d * day_nanos + (now mod day_nanos div hour_nanos) * hour_nanos in between start (start + hour_nanos)
      else if p = ''daily'' then between (d * day_nanos) ((d + 1) * day_nanos)
      else if p = ''weekly'' then
        let first = d - (weekday d + 6) mod 7 in between (first * day_nanos) ((first + 7) * day_nanos)
      else if p = ''monthly'' then
        between (month_date (year_of d) (month_of d) * day_nanos) (month_date (year_of d) (Suc (month_of d)) * day_nanos)
      else if p = ''yearly'' then between (year_start (year_of d) * day_nanos) (year_start (year_of d + 1) * day_nanos)
      else None)"

text \<open>\<open>Format(time.RFC3339)\<close> of a UTC time on a whole second.\<close>

definition pad :: "nat \<Rightarrow> int \<Rightarrow> string" where
  "pad w n = (let t = int_text n in replicate (w - length t) (CHR ''0'') @ t)"

definition rfc3339_text :: "time \<Rightarrow> string" where
  "rfc3339_text t =
     (let d = t div day_nanos; s = t mod day_nanos div nanos_per_second; y = year_of d; m = month_of d in
      pad 4 y @ ''-'' @ pad 2 (int m + 1) @ ''-'' @ pad 2 (d - month_date y m + 1) @ ''T''
      @ pad 2 (s div 3600) @ '':'' @ pad 2 (s div 60 mod 60) @ '':'' @ pad 2 (s mod 60) @ ''Z'')"

definition quota_bucket :: "string \<Rightarrow> time \<Rightarrow> string" where
  "quota_bucket key start = key @ ''/'' @ rfc3339_text start"

definition token_quota ::
  "string \<Rightarrow> int \<Rightarrow> string \<Rightarrow> int \<Rightarrow> 'x gateway \<Rightarrow> (int \<times> int \<times> bool) \<times> 'x gateway" where
  "token_quota key quota period est g =
     (case token_quota_window period (gw_now g) of
        None \<Rightarrow> ((0, 0, False), g)
      | Some (start, left) \<Rightarrow>
          let bucket = quota_bucket key start; total = gw_quotas g bucket in
          if total \<ge> quota then ((0, float_seconds left + 1, False), g)
          else let total' = (if est > 0 then int64_wrap (total + est) else total) in
            ((max 0 (int64_wrap (quota - total')), 0, True),
             if est > 0 then g\<lparr>gw_quotas := (gw_quotas g)(bucket := total')\<rparr> else g))"

definition charge_token_quota :: "string \<Rightarrow> string \<Rightarrow> int \<Rightarrow> 'x gateway \<Rightarrow> 'x gateway" where
  "charge_token_quota key period n g =
     (if n \<le> 0 then g
      else case token_quota_window period (gw_now g) of
        None \<Rightarrow> g
      | Some (start, _) \<Rightarrow>
          g\<lparr>gw_quotas := (gw_quotas g)(quota_bucket key start := int64_wrap (gw_quotas g (quota_bucket key start) + n))\<rparr>)"

section \<open>After the answer\<close>

definition emit_token_metric :: "llm_governance \<Rightarrow> usage \<Rightarrow> 'x gateway \<Rightarrow> 'x gateway" where
  "emit_token_metric gov u g =
     g\<lparr>gw_metrics := gw_metrics g @ [\<lparr>tm_namespace = lg_namespace gov, tm_dimensions = lg_dimensions gov,
        tm_prompt = us_prompt u, tm_completion = us_completion u, tm_total = usage_total u\<rparr>]\<rparr>"

definition charge_usage :: "llm_governance \<Rightarrow> usage \<Rightarrow> 'x gateway \<Rightarrow> 'x gateway" where
  "charge_usage gov u g =
     (if lg_counter_key gov = [] then g
      else let g1 = record_tokens (lg_counter_key gov) (usage_total u) g in
        if lg_quota_period gov = [] then g1
        else charge_token_quota (lg_counter_key gov) (lg_quota_period gov) (usage_total u) g1)"

text \<open>\<open>finishLLMAccounting\<close>; the headers are \<open>None\<close> once the response is on its way.\<close>

definition finish_accounting ::
  "llm_governance \<Rightarrow> usage \<Rightarrow> headers option \<Rightarrow> 'x gateway \<Rightarrow> headers option \<times> 'x gateway" where
  "finish_accounting gov u hs g =
     (let g1 = charge_usage gov u g;
          (hs2, g2) = (case hs of
              None \<Rightarrow> (None, g1)
            | Some h \<Rightarrow>
                let h1 = (if lc_consumed_header (lg_config gov) = [] then h
                          else header_put (lc_consumed_header (lg_config gov)) (int_text (usage_total u)) h) in
                if lc_remaining_header (lg_config gov) \<noteq> [] \<and> lg_tokens_per_minute gov > 0 then
                  (case tokens_remaining (lg_counter_key gov) (lg_tokens_per_minute gov) g1 of
                     (n, g') \<Rightarrow> (Some (header_put (lc_remaining_header (lg_config gov)) (int_text n) h1), g'))
                else (Some h1, g1))
      in (hs2, if lg_emit gov then emit_token_metric gov u g2 else g2))"

text \<open>
  \<open>governLLMResponse\<close> of a response that is not streamed, and the function it returns for one that
  is, run when the lines of the body have passed.  \<open>parse\<close> is \<open>json.Unmarshal\<close>.
\<close>

definition govern_response ::
  "(string \<Rightarrow> json option) \<Rightarrow> ('o, 'x gateway) policy_state \<Rightarrow> ('o, 'x gateway) policy_state" where
  "govern_response parse s =
     (case (ps_llm s, ps_response s) of
        (Some gov, Some r) \<Rightarrow>
          if is_event_stream (header_get_of (gs_headers r) ''Content-Type'') then s
          else (case gs_body r of
                  None \<Rightarrow> s
                | Some body \<Rightarrow>
                    (case usage_from_body (parse body) of
                       None \<Rightarrow> s
                     | Some u \<Rightarrow>
                         (case finish_accounting gov u (Some (ps_headers s)) (ps_world s) of
                            (hs, g) \<Rightarrow> s\<lparr>ps_headers := the hs, ps_world := g\<rparr>)))
      | _ \<Rightarrow> s)"

definition finish_stream ::
  "(string \<Rightarrow> json option) \<Rightarrow> string list \<Rightarrow> ('o, 'x gateway) policy_state \<Rightarrow> ('o, 'x gateway) policy_state" where
  "finish_stream parse ls s =
     (case (ps_llm s, ps_response s) of
        (Some gov, Some r) \<Rightarrow>
          if is_event_stream (header_get_of (gs_headers r) ''Content-Type'') then
            (case usage_from_lines parse None ls of
               None \<Rightarrow> s
             | Some u \<Rightarrow> s\<lparr>ps_world := snd (finish_accounting gov u None (ps_world s))\<rparr>)
          else s
      | _ \<Rightarrow> s)"

section \<open>The periods partition time\<close>

text \<open>
  The days of the period a day lies in: from the first, up to but not including the second.
\<close>

definition period_days :: "string \<Rightarrow> int \<Rightarrow> (int \<times> int) option" where
  "period_days p d =
     (if p = ''daily'' then Some (d, d + 1)
      else if p = ''weekly'' then Some (d - (weekday d + 6) mod 7, d - (weekday d + 6) mod 7 + 7)
      else if p = ''monthly'' then Some (month_date (year_of d) (month_of d), month_date (year_of d) (Suc (month_of d)))
      else if p = ''yearly'' then Some (year_start (year_of d), year_start (year_of d + 1))
      else None)"

lemma week_offset: "(weekday d + 6) mod 7 = (d + 3) mod 7"
proof -
  have "(weekday d + 6) mod 7 = (d + 4 + 6) mod 7" unfolding weekday_def by (rule mod_add_left_eq)
  also have "d + 4 + 6 = (d + 3) + 7" by linarith
  finally show ?thesis by (simp only: mod_add_self2)
qed

lemma period_days_contain: "period_days p d = Some (a, b) \<Longrightarrow> a \<le> d \<and> d < b"
  using month_of_bounds(2,3) [of d] year_of_bounds [of d]
  by (auto simp: period_days_def week_offset split: if_splits)

lemma period_days_short:
  assumes "period_days p d = Some (a, b)"
  shows "b - a \<le> 366"
proof -
  have "year_start (year_of d + 1) - year_start (year_of d) \<le> 366" by (simp add: year_length)
  moreover have "month_date (year_of d) (Suc (month_of d)) - month_date (year_of d) (month_of d) \<le> 366"
    using month_date_in_year [of "month_of d" "year_of d"] month_date_in_year [of "Suc (month_of d)" "year_of d"]
      month_of_bounds(1) [of d] year_length [of "year_of d"] by (auto split: if_splits)
  ultimately show ?thesis using assms by (auto simp: period_days_def split: if_splits)
qed

lemma period_days_same:
  assumes "period_days p d = Some (a, b)" and "a \<le> e" and "e < b"
  shows "period_days p e = Some (a, b)"
proof -
  have week: "e - (e + 3) mod 7 = d - (d + 3) mod 7" if "d - (d + 3) mod 7 \<le> e" "e < d - (d + 3) mod 7 + 7"
  proof -
    have "(d + 3) div 7 = (e + 3) div 7"
      using that minus_mod_eq_mult_div [of "d + 3" 7] by (intro int_div_pos_eq [symmetric, of _ _ _ "e - (d - (d + 3) mod 7)"]) auto
    then show ?thesis using minus_mod_eq_mult_div [of "d + 3" 7] minus_mod_eq_mult_div [of "e + 3" 7] by simp
  qed
  have month: "year_of e = year_of d \<and> month_of e = month_of d"
    if "month_date (year_of d) (month_of d) \<le> e" "e < month_date (year_of d) (Suc (month_of d))"
    using month_of_unique [OF month_of_bounds(1) that] by simp
  have year: "year_of e = year_of d" if "year_start (year_of d) \<le> e" "e < year_start (year_of d + 1)"
    using that by (rule year_of_unique)
  show ?thesis
    using assms week month year
    by (auto simp: period_days_def week_offset split: if_splits)
qed

lemma token_quota_window_days:
  "token_quota_window period now =
     (let p = to_lower (trim_space period); d = now div day_nanos in
      if p = ''hourly'' then Some (now div hour_nanos * hour_nanos, time_sub (now div hour_nanos * hour_nanos + hour_nanos) now)
      else map_option (\<lambda>(a, b). (a * day_nanos, time_sub (b * day_nanos) now)) (period_days p d))"
proof -
  have "now div day_nanos * day_nanos + (now mod day_nanos div hour_nanos) * hour_nanos = now div hour_nanos * hour_nanos"
  proof -
    have "now div hour_nanos = (now div day_nanos * 24 * hour_nanos + now mod day_nanos) div hour_nanos"
      by (simp add: day_nanos_def mult.assoc [symmetric] mult.commute)
    also have "\<dots> = now div day_nanos * 24 + now mod day_nanos div hour_nanos"
      by (simp add: hour_nanos_def nanos_per_second_def)
    finally show ?thesis by (simp add: day_nanos_def distrib_right)
  qed
  then show ?thesis by (simp add: token_quota_window_def period_days_def Let_def)
qed

lemma nanos_pos [simp]: "0 < hour_nanos" "0 < day_nanos"
  by (simp_all add: hour_nanos_def day_nanos_def nanos_per_second_def)

lemma floor_bounds:
  "x div hour_nanos * hour_nanos \<le> x" "x < x div hour_nanos * hour_nanos + hour_nanos"
  "x div day_nanos * day_nanos \<le> x" "x < x div day_nanos * day_nanos + day_nanos"
  using div_bounds [of hour_nanos x] div_bounds [of day_nanos x] by (simp_all add: mult.commute)

lemma quota_window_cases:
  assumes "token_quota_window period now = Some (start, left)"
  obtains (hour) n where "to_lower (trim_space period) = ''hourly''" "n = now div hour_nanos" "start = n * hour_nanos"
      "left = (n + 1) * hour_nanos - now"
  | (days) a b where "to_lower (trim_space period) \<noteq> ''hourly''"
      "period_days (to_lower (trim_space period)) (now div day_nanos) = Some (a, b)"
      "start = a * day_nanos" "left = b * day_nanos - now"
proof (cases "to_lower (trim_space period) = ''hourly''")
  case True
  have "0 \<le> now mod hour_nanos" "now mod hour_nanos < hour_nanos" by simp_all
  then have "time_sub (now div hour_nanos * hour_nanos + hour_nanos) now = (now div hour_nanos + 1) * hour_nanos - now"
    by (subst time_sub_exact)
      (simp_all add: minus_mult_div_eq_mod [symmetric] min_duration_def max_duration_def hour_nanos_def
        nanos_per_second_def algebra_simps)
  then show ?thesis using assms True by (intro hour) (auto simp: token_quota_window_days)
next
  case False
  then obtain a b where ab: "period_days (to_lower (trim_space period)) (now div day_nanos) = Some (a, b)"
    and res: "start = a * day_nanos" "left = time_sub (b * day_nanos) now"
    using assms by (auto simp: token_quota_window_days)
  have "now div day_nanos + 1 \<le> b" "b \<le> now div day_nanos + 366"
    using period_days_contain [OF ab] period_days_short [OF ab] by simp_all
  then have "(now div day_nanos + 1) * day_nanos \<le> b * day_nanos" "b * day_nanos \<le> (now div day_nanos + 366) * day_nanos"
    by (simp_all add: mult_right_mono)
  then have "0 \<le> b * day_nanos - now" "b * day_nanos - now \<le> 366 * day_nanos"
    using floor_bounds(3,4) [of now] unfolding distrib_right by linarith+
  then have "left = b * day_nanos - now"
    unfolding res(2) by (intro time_sub_exact)
      (simp_all add: min_duration_def max_duration_def day_nanos_def hour_nanos_def nanos_per_second_def)
  then show ?thesis using False ab res(1) by (intro days)
qed

lemma quota_window_start:
  assumes "token_quota_window period now = Some (start, left)"
  shows "start \<le> now" and "0 < left"
proof -
  from assms have "start \<le> now \<and> 0 < left"
  proof (cases rule: quota_window_cases)
    case (hour n)
    then show ?thesis using floor_bounds(1,2) [of now] unfolding distrib_right by simp
  next
    case (days a b)
    have "a * day_nanos \<le> now div day_nanos * day_nanos" "(now div day_nanos + 1) * day_nanos \<le> b * day_nanos"
      using period_days_contain [OF days(2)] by (simp_all add: mult_right_mono)
    then show ?thesis using floor_bounds(3,4) [of now] unfolding days(3,4) distrib_right by linarith
  qed
  then show "start \<le> now" and "0 < left" by simp_all
qed

lemma quota_window_same:
  assumes "token_quota_window period now = Some (start, left)" and t: "start \<le> t" "t < now + left"
  shows "token_quota_window period t = Some (start, now + left - t)"
  using assms(1)
proof (cases rule: quota_window_cases)
  case (hour n)
  have n: "t div hour_nanos = n"
    using t hour(3,4) by (intro int_div_pos_eq [of _ _ _ "t - n * hour_nanos"]) (simp_all add: algebra_simps)
  obtain s' l' where w: "token_quota_window period t = Some (s', l')"
    using hour(1) by (simp add: token_quota_window_days)
  from w show ?thesis using hour n by (cases rule: quota_window_cases) (simp_all add: w)
next
  case (days a b)
  have "a * day_nanos \<le> t" "t < b * day_nanos" using t days(3,4) by simp_all
  then have "a * day_nanos < (t div day_nanos + 1) * day_nanos" "t div day_nanos * day_nanos < b * day_nanos"
    using floor_bounds(3,4) [of t] unfolding distrib_right by linarith+
  then have "a < t div day_nanos + 1" "t div day_nanos < b"
    by (auto dest: mult_right_less_imp_less simp: less_imp_le)
  then have "a \<le> t div day_nanos" "t div day_nanos < b" by simp_all
  then have pd: "period_days (to_lower (trim_space period)) (t div day_nanos) = Some (a, b)"
    by (rule period_days_same [OF days(2)])
  obtain s' l' where w: "token_quota_window period t = Some (s', l')"
    using days(1) pd by (simp add: token_quota_window_days)
  from w show ?thesis using days pd by (cases rule: quota_window_cases) (simp_all add: w)
qed

section \<open>Properties\<close>

text \<open>
  The periods of a token quota partition time: a moment lies in its period, with a positive time
  left, and every moment up to the end of that time is in the same period; a caller that is told
  to wait the advertised seconds comes back after the end.
\<close>

theorem token_quota_periods:
  assumes "token_quota_window period now = Some (start, left)"
  shows "start \<le> now \<and> 0 < left
     \<and> (\<forall>t. start \<le> t \<and> t < now + left \<longrightarrow> token_quota_window period t = Some (start, now + left - t))
     \<and> (quota \<le> gw_quotas g (quota_bucket key start) \<and> gw_now g = now \<longrightarrow>
          (\<exists>wait. token_quota key quota period est g = ((0, wait, False), g) \<and> now + left < now + wait * nanos_per_second))"
  using quota_window_start [OF assms] quota_window_same [OF assms] float_seconds_covers [of left] assms
  by (auto simp: token_quota_def)

theorem token_quota_periods_witness:
  "token_quota_window ''Monthly'' 1738000000000000000 = Some (1735689600000000000, 368000000000000)
     \<and> (\<exists>wait. token_quota ''k'' 0 ''Monthly'' 0 ((new_gateway ())\<lparr>gw_now := 1736000000000000000\<rparr>)
             = ((0, wait, False), (new_gateway ())\<lparr>gw_now := 1736000000000000000\<rparr>)
           \<and> 1736000000000000000 + 2368000000000000 < 1736000000000000000 + wait * nanos_per_second)"
proof -
  have "token_quota_window ''Monthly'' 1736000000000000000 = Some (1735689600000000000, 2368000000000000)" by code_simp
  note periods = token_quota_periods [OF this, of 0 "(new_gateway ())\<lparr>gw_now := 1736000000000000000\<rparr>" "''k''" 0]
  have "token_quota_window ''Monthly'' 1738000000000000000 = Some (1735689600000000000, 368000000000000)"
    using periods by auto
  then show ?thesis using periods by (simp add: new_gateway_def)
qed

text \<open>
  Two quotas with one counter key count in one bucket whenever their periods begin at the same
  moment, whatever the periods: in January, a monthly quota and a yearly one.
\<close>

theorem quota_periods_share_bucket:
  assumes "month_of (now div day_nanos) = 0" and "gw_now g = now" and "0 < n"
  shows "charge_token_quota key ''Monthly'' n g = charge_token_quota key ''Yearly'' n g"
proof -
  have "to_lower (trim_space ''Monthly'') = ''monthly''" "to_lower (trim_space ''Yearly'') = ''yearly''" by code_simp+
  then show ?thesis using assms
    by (simp add: charge_token_quota_def token_quota_window_def Let_def month_date_def)
qed

theorem quota_periods_share_bucket_witness:
  "charge_token_quota ''k'' ''Monthly'' 3 ((new_gateway ())\<lparr>gw_now := 1736000000000000000\<rparr>)
     = charge_token_quota ''k'' ''Yearly'' 3 ((new_gateway ())\<lparr>gw_now := 1736000000000000000\<rparr>)"
  by (rule quota_periods_share_bucket [of 1736000000000000000]) (code_simp, simp, simp)

text \<open>
  A refusal by the tokens-per-minute limit leaves the newest spends in the window twice, as many
  as had expired at its start: they count double from then on.
\<close>

theorem token_limit_refusal_recounts:
  assumes "gw_tokens g key = expired @ kept" and "\<forall>(t, _) \<in> set expired. t \<le> gw_now g - minute"
    and "\<forall>(t, _) \<in> set kept. gw_now g - minute < t" and "length expired \<le> length kept"
    and "token_limit key per_minute est g = ((left, wait, False), g')"
  shows "gw_tokens g' key = kept @ drop (length kept - length expired) kept"
proof -
  have "filter (\<lambda>(t, _). time_after t (gw_now g - minute)) expired = []"
    using assms(2) by (fastforce simp: filter_empty_conv time_after_def)
  moreover have "filter (\<lambda>(t, _). time_after t (gw_now g - minute)) kept = kept"
    using assms(3) by (fastforce simp: filter_id_conv time_after_def)
  ultimately have "token_kept (gw_now g) (gw_tokens g key) = kept" by (simp add: token_kept_def assms(1))
  then show ?thesis using assms(1,4,5)
    by (auto simp: token_limit_def Let_def trimmed_array_def split: if_splits)
qed

definition demo_tokens :: "unit gateway" where
  "demo_tokens = (new_gateway ())\<lparr>gw_now := 70000000000,
     gw_tokens := (\<lambda>_. [(0, 1), (60000000000, 60), (65000000000, 50)])\<rparr>"

theorem token_limit_refusal_recounts_witness:
  "gw_tokens (snd (token_limit ''k'' 100 0 demo_tokens)) ''k'' = [(60000000000, 60), (65000000000, 50), (65000000000, 50)]"
proof -
  have "fst (token_limit ''k'' 100 0 demo_tokens) = (0, 51, False)" by code_simp
  then have run: "token_limit ''k'' 100 0 demo_tokens = ((0, 51, False), snd (token_limit ''k'' 100 0 demo_tokens))"
    by (metis prod.collapse)
  have "gw_tokens (snd (token_limit ''k'' 100 0 demo_tokens)) ''k''
      = [(60000000000, 60), (65000000000, 50)] @ drop (length [(60000000000 :: int, 60 :: int), (65000000000, 50)] - length [(0 :: int, 1 :: int)])
          [(60000000000, 60), (65000000000, 50)]"
    by (rule token_limit_refusal_recounts [OF _ _ _ _ run])
      (simp_all add: demo_tokens_def minute_def seconds_def nanos_per_second_def)
  then show ?thesis by simp
qed

end
