(* ===== verification/GatewayFlow.thy ===== *)
theory GatewayFlow
  imports GatewayConcurrency GatewayTokens
begin

text \<open>
  One exchange through the gateway: the policies run on the environment that \<open>ServeHTTP\<close> of
  \<open>internal/gateway/gateway.go\<close> binds to its state, section by section, around the call of the
  backend; a failure goes to \<open>on-error\<close>; whatever happened, the postponed increments and the
  release functions run at the end.

  What lies beyond the gateway's own state (the evaluator of expressions, outgoing requests,
  credential services, the backend) are the functions of \<open>outside\<close>.  They change
  \<open>gw_outside\<close> and the time only, and an expression, besides its value, only what reading a body consumes.
\<close>

section \<open>The environment of an exchange\<close>

record body_view =
  bv_request :: "string option"
  bv_get_body :: "string option"
  bv_length :: int
  bv_response :: "string option"

record ('o, 'x) outside =
  ou_eval :: "string \<Rightarrow> ('o, 'x gateway) policy_state \<Rightarrow> (string, 'o expr_value) result \<times> body_view \<times> (string \<times> string) list"
  ou_env :: "('o, 'x gateway) policy_env"
  ou_backend :: "gateway_request \<Rightarrow> string \<Rightarrow> string \<Rightarrow> 'x \<Rightarrow> (string, gateway_response) result \<times> 'x"
  ou_clock :: "'x \<Rightarrow> time" \<comment> \<open>the time when a call has returned\<close>
  ou_client_error :: "string \<Rightarrow> string option" \<comment> \<open>\<open>backendHTTPClient\<close>, by backend id\<close>
  ou_condition :: "string \<Rightarrow> gateway_request \<Rightarrow> (string, gateway_response) result \<Rightarrow> bool" \<comment> \<open>an evaluated condition\<close>
  ou_json :: "string \<Rightarrow> json option"
  ou_lines :: "string \<Rightarrow> string list" \<comment> \<open>\<open>bufio.Scanner\<close>\<close>

definition with_bodies :: "body_view \<Rightarrow> ('o, 'w) policy_state \<Rightarrow> ('o, 'w) policy_state" where
  "with_bodies v s = s\<lparr>
     ps_request := map_option (\<lambda>r. r\<lparr>gr_body := bv_request v, gr_get_body := bv_get_body v,
                                   gr_content_length := bv_length v\<rparr>) (ps_request s),
     ps_response := map_option (\<lambda>r. r\<lparr>gs_body := bv_response v\<rparr>) (ps_response s)\<rparr>"

definition bound_eval ::
  "(string \<Rightarrow> ('o, 'w) policy_state \<Rightarrow> (string, 'o expr_value) result \<times> body_view \<times> (string \<times> string) list)
     \<Rightarrow> string \<Rightarrow> ('o, 'w, 'o expr_value) handler" where
  "bound_eval ev e = (\<lambda>s.
     case ev e s of (r, v, traced) \<Rightarrow>
       ((case r of Inl m \<Rightarrow> Err (PlainError m) | Inr x \<Rightarrow> Ok x), (with_bodies v s)\<lparr>ps_traces := ps_traces s @ traced\<rparr>))"

text \<open>A service outside, called with the gateway's state in hand.\<close>

definition fenced :: "('x gateway \<Rightarrow> 'a \<times> 'x gateway) \<Rightarrow> 'x gateway \<Rightarrow> 'a \<times> 'x gateway" where
  "fenced f g = (case f g of (a, g') \<Rightarrow> (a, g\<lparr>gw_outside := gw_outside g', gw_now := max (gw_now g) (gw_now g')\<rparr>))"

definition gateway_env :: "('o, 'x) outside \<Rightarrow> ('o, 'x gateway) policy_env" where
  "gateway_env ou = (ou_env ou)\<lparr>
     pe_eval := bound_eval (ou_eval ou),
     pe_fetch_credential := map_option (\<lambda>f a b. fenced (f a b)) (pe_fetch_credential (ou_env ou)),
     pe_validate_against := map_option (\<lambda>f a b. fenced (f a b)) (pe_validate_against (ou_env ou)),
     pe_send := map_option (\<lambda>f a. fenced (f a)) (pe_send (ou_env ou)),
     pe_acquire_token := None, pe_acquire_oauth2 := None, pe_attach_certificate := None,
     pe_value_get := Some value_cache_get,
     pe_value_set := Some value_cache_set,
     pe_value_remove := Some value_cache_remove,
     pe_rate_limit := Some rate_limit,
     pe_bandwidth_limit := Some bandwidth_limit,
     pe_acquire_concurrency := Some acquire_concurrency,
     pe_cache_get := Some cache_get,
     pe_cache_set := Some cache_set,
     pe_token_limit := Some token_limit,
     pe_token_quota := Some token_quota\<rparr>"

lemma same_slots_operations:
  "same_slots g (snd (rate_limit k c p i g))" "same_slots g (snd (bandwidth_limit k b bu p g))"
  "same_slots g (snd (cache_get k g))" "same_slots g (cache_set k st hs body d g)"
  "same_slots g (snd (value_cache_get k g))" "same_slots g (value_cache_set k v d g)"
  "same_slots g (value_cache_remove k g)" "same_slots g (snd (token_limit k tpm est g))"
  "same_slots g (snd (token_quota k q p' est g))" "same_slots g (snd (fenced f g))"
  "same_slots g (record_tokens k n g)" "same_slots g (charge_token_quota k p' n g)"
  "same_slots g (snd (tokens_remaining k tpm g))" "same_slots g (snd (take_fault sv bk g))"
  "same_slots g (snd (circuit_open rule k g))" "same_slots g (record_circuit rule k oc g)"
  "same_slots g (emit_token_metric gov u g)" "same_slots g (g\<lparr>gw_outside := x\<rparr>)" "same_slots g (g\<lparr>gw_now := t\<rparr>)"
  by (auto simp: same_slots_def rate_limit_def bandwidth_limit_def cache_get_def cache_set_def value_cache_get_def
      value_cache_set_def value_cache_remove_def token_limit_def token_quota_def fenced_def record_tokens_def
      charge_token_quota_def tokens_remaining_def take_fault_def take_fault_at_def circuit_open_def record_circuit_def
      emit_token_metric_def Let_def split: option.splits prod.splits)

lemma quiet_bound_eval: "(\<And>w. R w w) \<Longrightarrow> quiet R (bound_eval ev e)"
  by (auto simp: quiet_def bound_eval_def same_exchange_def with_bodies_def split: prod.splits sum.splits)

interpretation gw: token_services "gateway_env ou" same_slots "\<lambda>g. mset (open_tickets g)" for ou
proof unfold_locales
  show "quiet same_slots (pe_eval (gateway_env ou) e)" for e
    by (simp add: gateway_env_def quiet_bound_eval)
  show "services_within same_slots (gateway_env ou)"
    by (auto simp: services_within_def gateway_env_def same_slots_operations)
  show "mset (open_tickets w') = mset (open_tickets w)" if "same_slots w w'" for w w' :: "'b gateway"
    by (simp add: same_slots_open [OF that])
  show "mset (open_tickets w') = mset (open_tickets w) + (case r of None \<Rightarrow> {#} | Some t \<Rightarrow> {#t#})"
    if "pe_acquire_concurrency (gateway_env ou) = Some acquire" "acquire key n w = (r, w')" for acquire key n r and w w' :: "'b gateway"
    using that by (intro acquire_outstanding) (simp add: gateway_env_def)
qed (auto intro: same_slots_trans)

section \<open>Replies\<close>

text \<open>
  What the caller receives: a response, whose body is \<open>None\<close> when copying the backend's breaks off,
  or the JSON document of \<open>gatewayError\<close>.
\<close>

datatype reply = Answer int headers "string option" | GatewayError int string string

definition hop_by_hop :: "string \<Rightarrow> bool" where
  "hop_by_hop name \<longleftrightarrow> list_ex (\<lambda>n. name = n)
     [''connection'', ''proxy-connection'', ''keep-alive'', ''proxy-authenticate'', ''proxy-authorization'', ''te'',
      ''trailer'', ''transfer-encoding'', ''upgrade'']"

fun copy_headers :: "headers \<Rightarrow> headers \<Rightarrow> headers" where
  "copy_headers target [] = target"
| "copy_headers target ((name, vs) # source) =
     (if hop_by_hop (to_lower name) then copy_headers target source
      else copy_headers (foldl (\<lambda>t v. header_add name v t) (header_remove name target) vs) source)"

definition policy_reply :: "('o, 'w) policy_state \<Rightarrow> reply" where
  "policy_reply s = Answer (if ps_status s = 0 then 200 else ps_status s) (copy_headers [] (ps_headers s)) (Some (ps_body s))"

definition forwarded_reply :: "gateway_response \<Rightarrow> ('o, 'w) policy_state \<Rightarrow> reply" where
  "forwarded_reply r s =
     Answer (if ps_status s \<noteq> 0 then ps_status s else gs_status r)
       (copy_headers (copy_headers [] (gs_headers r)) (ps_headers s))
       (if ps_body_set s then Some (ps_body s) else gs_body r)"

section \<open>The sections of a plan\<close>

definition set_section :: "string \<Rightarrow> ('o, 'w) policy_state \<Rightarrow> ('o, 'w) policy_state" where
  "set_section name s = s\<lparr>ps_section := name\<rparr>"

text \<open>
  \<open>policyFailure\<close>.  The response of a failure has no body at all (a nil reader): a policy that reads
  it panics in Go, which ends the exchange; here reading it fails.
\<close>

definition failure_response :: gateway_response where
  "failure_response = \<lparr>gs_status = 0, gs_headers = [], gs_body = None\<rparr>"

definition policy_failure ::
  "('o, 'w) policy_env \<Rightarrow> plan \<Rightarrow> exec_error \<Rightarrow> ('o, 'w) policy_state \<Rightarrow> reply \<times> ('o, 'w) policy_state" where
  "policy_failure env p cause s =
     (let s1 = set_section ''on-error'' (s\<lparr>ps_last_error := Some cause, ps_response := Some failure_response\<rparr>) in
      case execute env (on_error p) s1 of
        (Inl e, s2) \<Rightarrow>
          (GatewayError 500 ''PolicyExecutionFailure''
             (error_text cause @ ''; the <on-error> section also failed: '' @ error_text e), s2)
      | (Inr _, s2) \<Rightarrow>
          if ps_returned s2 then (policy_reply s2, s2)
          else (GatewayError 500 ''PolicyExecutionFailure'' (error_text cause), s2))"

text \<open>A section: a failure and an answer end the exchange, otherwise it goes on.\<close>

definition run_section ::
  "('o, 'w) policy_env \<Rightarrow> plan \<Rightarrow> string \<Rightarrow> action list \<Rightarrow>
     (('o, 'w) policy_state \<Rightarrow> reply \<times> ('o, 'w) policy_state) \<Rightarrow> ('o, 'w) policy_state \<Rightarrow> reply \<times> ('o, 'w) policy_state" where
  "run_section env p name as go_on s =
     (case execute env as (set_section name s) of
        (Inl e, s1) \<Rightarrow> policy_failure env p e s1
      | (Inr _, s1) \<Rightarrow> if ps_returned s1 then (policy_reply s1, s1) else go_on s1)"

section \<open>The backend call\<close>

text \<open>\<open>retryConditionMatches\<close>\<close>

definition retry_condition_matches ::
  "('o, 'x) outside \<Rightarrow> string \<Rightarrow> gateway_request \<Rightarrow> (string, gateway_response) result \<Rightarrow> bool" where
  "retry_condition_matches ou condition q outcome =
     (if trim_space condition = [] then (case outcome of Inl e \<Rightarrow> True | Inr r \<Rightarrow> gs_status r \<ge> 500)
      else ou_condition ou condition q outcome)"

text \<open>
  The loop of \<open>forwardWithRetry\<close>; \<open>n\<close> attempts are left after this one.  The wait between attempts is
  not an effect of the model, and the caller does not go away during it.
\<close>

fun forward_attempts ::
  "('o, 'x) outside \<Rightarrow> string \<Rightarrow> gateway_request \<Rightarrow> string \<Rightarrow> string \<Rightarrow> nat \<Rightarrow> 'x
     \<Rightarrow> (string, gateway_response) result \<times> 'x" where
  "forward_attempts ou condition q url path n x =
     (case ou_backend ou q url path x of (outcome, x1) \<Rightarrow>
        (case n of
           0 \<Rightarrow> (outcome, x1)
         | Suc m \<Rightarrow>
             if retry_condition_matches ou condition q outcome then forward_attempts ou condition q url path m x1
             else (outcome, x1)))"

declare forward_attempts.simps [simp del]

definition first_retry :: "action list \<Rightarrow> (nat \<times> string) option" where
  "first_retry as =
     (case find (\<lambda>a. case act_kind a of ARetry _ _ _ _ \<Rightarrow> True | _ \<Rightarrow> False) as of
        Some (Action _ (ARetry n interval condition kids)) \<Rightarrow> Some (nat n, condition)
      | _ \<Rightarrow> None)"

text \<open>A request whose body is read once, ahead of the attempts, when there is a \<open>retry\<close>.\<close>

definition forward_with_retry ::
  "('o, 'x) outside \<Rightarrow> gateway_request \<Rightarrow> string \<Rightarrow> string \<Rightarrow> action list \<Rightarrow> 'x \<Rightarrow> (string, gateway_response) result \<times> 'x" where
  "forward_with_retry ou q url path as x =
     (case first_retry as of
        None \<Rightarrow> ou_backend ou q url path x
      | Some (n, condition) \<Rightarrow>
          (case read_body (gr_body q) of
             Inl e \<Rightarrow> (Err e, x)
           | Inr _ \<Rightarrow> forward_attempts ou condition q url path n x))"

section \<open>The exchange\<close>

record exchange =
  ex_plan :: plan
  ex_service :: string
  ex_rule :: "string \<Rightarrow> circuit_rule option" \<comment> \<open>the circuit breaker rule of a backend\<close>

definition in_gateway :: "('x gateway \<Rightarrow> 'a \<times> 'x gateway) \<Rightarrow> ('o, 'x gateway) policy_state \<Rightarrow> 'a \<times> ('o, 'x gateway) policy_state" where
  "in_gateway f s = (case f (ps_world s) of (a, g) \<Rightarrow> (a, s\<lparr>ps_world := g\<rparr>))"

text \<open>
  The outbound section over a response, and the end of an exchange that was forwarded.  The body of
  the request, which the call consumed, is not tracked beyond it.
\<close>

definition finish_forwarded ::
  "('o, 'x) outside \<Rightarrow> gateway_response \<Rightarrow> ('o, 'x gateway) policy_state \<Rightarrow> reply \<times> ('o, 'x gateway) policy_state" where
  "finish_forwarded ou r s0 =
     (let s1 = govern_response (ou_json ou) s0;
          r1 = (case ps_response s1 of Some r1 \<Rightarrow> r1 | None \<Rightarrow> r);
          passed = (if ps_body_set s1 then [] else case gs_body r1 of Some b \<Rightarrow> ou_lines ou b | None \<Rightarrow> [])
      in (forwarded_reply r1 s1, finish_stream (ou_json ou) passed s1))"

definition inject_fault ::
  "('o, 'x) outside \<Rightarrow> exchange \<Rightarrow> fault \<Rightarrow> ('o, 'x gateway) policy_state \<Rightarrow> reply \<times> ('o, 'x gateway) policy_state" where
  "inject_fault ou ex f s =
     (if fl_error f then policy_failure (gateway_env ou) (ex_plan ex) (PlainError ''injected backend fault'') s
      else let r = \<lparr>gs_status = (if fl_status f = 0 then 503 else fl_status f), gs_headers = [], gs_body = Some (fl_body f)\<rparr> in
        run_section (gateway_env ou) (ex_plan ex) ''outbound'' (outbound (ex_plan ex))
          (\<lambda>s. (forwarded_reply (case ps_response s of Some r \<Rightarrow> r | None \<Rightarrow> r) s, s))
          (s\<lparr>ps_response := Some r\<rparr>))"

definition call_backend ::
  "('o, 'x) outside \<Rightarrow> exchange \<Rightarrow> ('o, 'x gateway) policy_state \<Rightarrow> reply \<times> ('o, 'x gateway) policy_state" where
  "call_backend ou ex s =
     (let env = gateway_env ou; p = ex_plan ex; rule = ex_rule ex (ps_backend_id s);
          key = breaker_key (ex_service ex) (ps_backend_id s) in
      case ou_client_error ou (ps_backend_id s) of
        Some e \<Rightarrow> policy_failure env p (PlainError e) s
      | None \<Rightarrow>
      (case in_gateway (circuit_open rule key) s of
         (True, s1) \<Rightarrow> policy_failure env p (PlainError ''backend circuit breaker is open'') s1
       | (False, s1) \<Rightarrow>
      (case in_gateway (take_fault (ex_service ex) (ps_backend_id s1)) s1 of
         (Some f, s2) \<Rightarrow> inject_fault ou ex f s2
       | (None, s2) \<Rightarrow>
      (case ps_request s2 of
         None \<Rightarrow> policy_failure env p (PlainError ''backend request failed: no request'') s2
       | Some q \<Rightarrow>
      (case forward_with_retry ou q (ps_backend_url s2) (ps_path s2) (backend p) (gw_outside (ps_world s2)) of
         (outcome, x) \<Rightarrow>
           let s3 = s2\<lparr>ps_world := record_circuit rule key (map_sum id gs_status outcome)
                        ((ps_world s2)\<lparr>gw_outside := x, gw_now := max (gw_now (ps_world s2)) (ou_clock ou x)\<rparr>)\<rparr> in
           (case outcome of
              Inl e \<Rightarrow> policy_failure env p (PlainError (''backend request failed: '' @ e)) s3
            | Inr r \<Rightarrow> run_section env p ''outbound'' (outbound p) (finish_forwarded ou r) (s3\<lparr>ps_response := Some r\<rparr>)))))))"

text \<open>The deferred function of \<open>ServeHTTP\<close>.\<close>

definition run_releases :: "('o, 'x gateway) policy_state \<Rightarrow> ('o, 'x gateway) policy_state" where
  "run_releases s = s\<lparr>ps_world := fold release_concurrency (rev (ps_releases s)) (ps_world s)\<rparr>"

definition wind_up :: "('o, 'x gateway) policy_env \<Rightarrow> ('o, 'x gateway) policy_state \<Rightarrow> ('o, 'x gateway) policy_state" where
  "wind_up env s = run_releases (snd (run_pending_increments env s))"

definition serve ::
  "('o, 'x) outside \<Rightarrow> exchange \<Rightarrow> ('o, 'x gateway) policy_state \<Rightarrow> reply \<times> ('o, 'x gateway) policy_state" where
  "serve ou ex s =
     (let env = gateway_env ou; p = ex_plan ex in
      case run_section env p ''inbound'' (inbound p)
             (run_section env p ''backend'' (backend p) (call_backend ou ex)) s of
        (r, s1) \<Rightarrow> (r, wind_up env s1))"

section \<open>Slots\<close>

abbreviation slots :: "'x gateway \<Rightarrow> nat multiset" where
  "slots g \<equiv> mset (open_tickets g)"

lemma takes_same_slots:
  "ps_releases s' = ps_releases s \<Longrightarrow> same_slots (ps_world s) (ps_world s') \<Longrightarrow> takes slots s s'"
  by (simp add: takes_def same_slots_open)

lemma takes_execute: "execute (gateway_env ou) as s = (r, s') \<Longrightarrow> takes slots s s'"
  by (rule execute_takes(1) [OF gw.token_services_axioms])

lemma takes_policy_failure:
  assumes "policy_failure (gateway_env ou) p cause s = (r, s')"
  shows "takes slots s s'"
proof -
  let ?s1 = "set_section ''on-error'' (s\<lparr>ps_last_error := Some cause, ps_response := Some failure_response\<rparr>)"
  obtain x s2 where run: "execute (gateway_env ou) (on_error p) ?s1 = (x, s2)" by fastforce
  have "s' = s2" using assms run by (auto simp: policy_failure_def split: sum.splits if_splits)
  moreover have "takes slots s ?s1" by (rule takes_same_slots) (simp_all add: set_section_def)
  ultimately show ?thesis using takes_execute [OF run] by (auto intro: takes_trans)
qed

lemma takes_run_section:
  assumes "run_section (gateway_env ou) p name as go_on s = (r, s')"
    and "\<And>s1 r s'. go_on s1 = (r, s') \<Longrightarrow> takes slots s1 s'"
  shows "takes slots s s'"
proof -
  obtain x s1 where run: "execute (gateway_env ou) as (set_section name s) = (x, s1)" by fastforce
  have "takes slots s (set_section name s)" by (rule takes_same_slots) (simp_all add: set_section_def)
  then have 1: "takes slots s s1" using takes_execute [OF run] by (rule takes_trans)
  have "takes slots s1 s'"
    using assms(1) run takes_policy_failure [of ou p _ s1 r s'] assms(2) [of s1 r s']
    by (auto simp: run_section_def split: sum.splits if_splits)
  with 1 show ?thesis by (rule takes_trans)
qed

lemma same_slots_finish: "same_slots g (snd (finish_accounting gov u hs g))"
proof -
  have charge: "same_slots g (charge_usage gov u g)" for g :: "'x gateway"
    using same_slots_trans [OF same_slots_operations(11) same_slots_operations(12)]
    by (auto simp: charge_usage_def Let_def same_slots_operations(11))
  have metric: "same_slots g (emit_token_metric gov u h) \<longleftrightarrow> same_slots g h" for g h :: "'x gateway"
    by (simp add: emit_token_metric_def same_slots_def)
  have left: "same_slots g (snd (tokens_remaining k n h)) \<longleftrightarrow> same_slots g h" for g h :: "'x gateway" and k n
    by (simp add: tokens_remaining_def same_slots_def Let_def)
  show ?thesis
    unfolding finish_accounting_def Let_def
    using left [of g "lg_counter_key gov" "lg_tokens_per_minute gov" "charge_usage gov u g"]
    by (auto simp: charge metric split: option.splits prod.splits)
qed

lemma same_slots_finished: "finish_accounting gov u hs g = (h, g') \<Longrightarrow> same_slots g g'"
  using same_slots_finish [of g gov u hs] by simp

lemma takes_govern: "takes slots s (govern_response parse s)"
  by (auto simp: govern_response_def split: option.splits prod.splits intro!: takes_same_slots
      dest: same_slots_finished)

lemma takes_set_response [simp]: "takes outs (s\<lparr>ps_response := r\<rparr>) s' = takes outs s s'"
  by (simp add: takes_def)

lemma takes_finish_stream: "takes slots s (finish_stream parse ls s)"
  by (auto simp: finish_stream_def same_slots_finish split: option.splits intro!: takes_same_slots)

lemma takes_finish_forwarded: "finish_forwarded ou r s = (x, s') \<Longrightarrow> takes slots s s'"
  unfolding finish_forwarded_def Let_def
  by (auto intro: takes_trans [OF takes_govern takes_finish_stream])

lemma takes_in_gateway:
  assumes "in_gateway f s = (a, s')" and "\<And>g. same_slots g (snd (f g))"
  shows "takes slots s s'"
  using assms(1) assms(2) [of "ps_world s"]
  by (auto simp: in_gateway_def split: prod.splits intro!: takes_same_slots)

lemma takes_inject_fault: "inject_fault ou ex f s = (r, s') \<Longrightarrow> takes slots s s'"
  unfolding inject_fault_def Let_def
  by (auto split: if_splits dest!: takes_run_section intro: takes_policy_failure)

lemma takes_call_backend:
  assumes "call_backend ou ex s = (r, s')"
  shows "takes slots s s'"
proof -
  let ?rule = "ex_rule ex (ps_backend_id s)" and ?key = "breaker_key (ex_service ex) (ps_backend_id s)"
  obtain b s1 where opened: "in_gateway (circuit_open ?rule ?key) s = (b, s1)" by fastforce
  obtain f s2 where fault: "in_gateway (take_fault (ex_service ex) (ps_backend_id s1)) s1 = (f, s2)" by fastforce
  note 1 = takes_in_gateway [OF opened same_slots_operations(15)]
  note 2 = takes_trans [OF 1 takes_in_gateway [OF fault same_slots_operations(14)]]
  show ?thesis
  proof (cases "ou_client_error ou (ps_backend_id s)")
    case (Some e)
    then show ?thesis using assms by (auto simp: call_backend_def Let_def intro: takes_policy_failure)
  next
    case no_error: None
    show ?thesis
    proof (cases "b \<or> f \<noteq> None \<or> ps_request s2 = None")
      case True
      have "takes slots s1 s' \<or> takes slots s2 s'"
        using assms True no_error opened fault
        by (auto simp: call_backend_def Let_def split: bool.splits option.splits
            intro: takes_policy_failure takes_inject_fault)
      then show ?thesis using takes_trans [OF 1] takes_trans [OF 2] by blast
    next
      case False
      then obtain q where q: "ps_request s2 = Some q" and no: "\<not> b" "f = None" by auto
      obtain outcome x where sent: "forward_with_retry ou q (ps_backend_url s2) (ps_path s2) (backend (ex_plan ex))
          (gw_outside (ps_world s2)) = (outcome, x)" by fastforce
      define s3 where "s3 = s2\<lparr>ps_world := record_circuit ?rule ?key (map_sum id gs_status outcome)
          ((ps_world s2)\<lparr>gw_outside := x, gw_now := max (gw_now (ps_world s2)) (ou_clock ou x)\<rparr>)\<rparr>"
      have "takes slots s2 s3"
        by (rule takes_same_slots) (auto simp: s3_def record_circuit_def same_slots_def split: option.splits)
      with 2 have 3: "takes slots s s3" by (rule takes_trans)
      have "takes slots s3 s'"
        using assms no_error opened fault no q sent
        by (auto simp: call_backend_def Let_def s3_def split: sum.splits
            intro: takes_policy_failure dest!: takes_run_section [OF _ takes_finish_forwarded])
      with 3 show ?thesis by (rule takes_trans)
    qed
  qed
qed

lemma takes_pending: "takes slots s (snd (run_pending_increments (gateway_env ou) s))"
  using gw.quiet_takes [OF gw.quiet_run_pending] by (metis prod.collapse)

text \<open>Releasing tokens that are outstanding takes them back, in whatever order.\<close>

lemma release_all:
  "slots g = A + mset ts \<Longrightarrow> slots (fold release_concurrency ts g) = A"
proof (induction ts arbitrary: g)
  case (Cons t ts)
  have "t \<in> set (open_tickets g)" using Cons.prems by (metis set_mset_mset mset_subset_eqD mset.simps(2)
      add_mset_add_single union_iff multi_member_this)
  then have "slots (release_concurrency t g) = A + mset ts" using Cons.prems by (simp add: release_outstanding)
  then show ?case using Cons.IH by simp
qed simp

section \<open>Properties\<close>

text \<open>
  C2. No slot leaks: an exchange gives back every concurrency slot it took, however it ends: an
  answer of a policy, a failure in any section, an open circuit, an injected fault, a failed or a
  forwarded call.
\<close>

theorem exchange_returns_slots:
  assumes "ps_releases s = []" and "serve ou ex s = (r, s')"
  shows "slots (ps_world s') = slots (ps_world s)"
proof -
  obtain s1 where run: "run_section (gateway_env ou) (ex_plan ex) ''inbound'' (inbound (ex_plan ex))
      (run_section (gateway_env ou) (ex_plan ex) ''backend'' (backend (ex_plan ex)) (call_backend ou ex)) s = (r, s1)"
    and s': "s' = wind_up (gateway_env ou) s1"
    using assms(2) by (auto simp: serve_def Let_def split: prod.splits)
  have "takes slots s s1"
    by (rule takes_run_section [OF run]) (rule takes_run_section, assumption, rule takes_call_backend)
  then have "takes slots s (snd (run_pending_increments (gateway_env ou) s1))" using takes_pending by (rule takes_trans)
  then show ?thesis
    using assms(1) by (auto simp: s' wind_up_def run_releases_def takes_def intro: release_all)
qed


section \<open>Instances\<close>

text \<open>A backend that answers 200 with the path it was sent, and an evaluator that knows no expression.\<close>

definition echo_outside :: "(string, unit) outside" where
  "echo_outside =
     \<lparr>ou_eval = (\<lambda>e s. (Err (''unknown identifier''), \<lparr>bv_request = None, bv_get_body = None, bv_length = 0, bv_response = None\<rparr>, [])),
      ou_env = plain_env, ou_backend = (\<lambda>q url path x. (Ok \<lparr>gs_status = 200, gs_headers = [], gs_body = Some path\<rparr>, x)),
      ou_clock = (\<lambda>_. 0), ou_client_error = (\<lambda>_. None), ou_condition = (\<lambda>_ _ _. False), ou_json = (\<lambda>_. None),
      ou_lines = (\<lambda>b. [b])\<rparr>"

definition one_slot :: "action list \<Rightarrow> action" where
  "one_slot kids = Action \<lparr>am_element = ''limit-concurrency'', am_policy_id = [], am_scope = ''api''\<rparr>
     (ALimitConcurrency ''k'' 1 429 ''busy'' kids)"

definition set_header_to :: "string \<Rightarrow> action" where
  "set_header_to v = Action \<lparr>am_element = ''set-header'', am_policy_id = ''h1'', am_scope = ''api''\<rparr>
     (ALeaf (ASetHeader ''X'' v ''override''))"

definition demo_exchange :: exchange where
  "demo_exchange = \<lparr>ex_plan = empty_plan\<lparr>inbound := [one_slot [set_header_to ''a'']], outbound := [set_header_to ''@(x)'']\<rparr>,
     ex_service = ''s'', ex_rule = (\<lambda>_. None)\<rparr>"

definition demo_state :: "(string, unit gateway) policy_state" where
  "demo_state = (blank_state (new_gateway ()))\<lparr>ps_request := Some blank_request\<rparr>"

theorem exchange_returns_slots_witness:
  "slots (ps_world (snd (serve echo_outside demo_exchange demo_state))) = slots (ps_world demo_state)
     \<and> length (gw_tickets (ps_world (snd (serve echo_outside demo_exchange demo_state)))) = 1"
proof
  show "slots (ps_world (snd (serve echo_outside demo_exchange demo_state))) = slots (ps_world demo_state)"
    by (rule exchange_returns_slots [OF _ surjective_pairing]) (simp add: demo_state_def blank_state_def)
  show "length (gw_tickets (ps_world (snd (serve echo_outside demo_exchange demo_state)))) = 1"
    by code_simp
qed


section \<open>Authentication\<close>

lemma gateway_env_backend [simp]: "gateway_env (ou\<lparr>ou_backend := b\<rparr>) = gateway_env ou"
  by (simp add: gateway_env_def)

lemma bound_eval_keeps: "control (snd (bound_eval ev e s)) = control s"
proof -
  obtain r v tr where "ev e s = (r, v, tr)" by (metis prod_cases3)
  then show ?thesis
    by (cases "ps_request s"; cases "ps_response s")
      (simp_all add: bound_eval_def control_def with_bodies_def request_head_def)
qed

lemma gateway_env_keeps: "eval_keeps_control (gateway_env ou)"
  by (simp add: eval_keeps_control_def gateway_env_def bound_eval_keeps)

lemma set_section_sel [simp]:
  "ps_request (set_section n s) = ps_request s" "ps_returned (set_section n s) = ps_returned s"
  "ps_headers (set_section n s) = ps_headers s" "ps_releases (set_section n s) = ps_releases s"
  "ps_world (set_section n s) = ps_world s" "state_now env (set_section n s) = state_now env s"
  by (simp_all add: set_section_def state_now_def)

text \<open>A section that never goes on does not depend on what would follow.\<close>

lemma run_section_stops:
  assumes "\<And>s1. execute env as (set_section name s) = (Inr (), s1) \<Longrightarrow> ps_returned s1"
  shows "run_section env p name as f s = run_section env p name as g s"
  using assms by (auto simp: run_section_def split: prod.splits sum.splits)

lemma rejected_token_stops:
  assumes "\<not> ps_returned s"
    and rejected: "\<forall>req hn qn scheme tok. ps_request s = Some req \<and> token_from_request req hn qn scheme = (tok, True)
      \<longrightarrow> \<not> accepted_by env jp tok (state_now env s)"
    and "eval_keeps_control env"
    and run: "execute env (Action m (ALeaf (AValidateJWT jp)) # as) s = (Inr (), s1)"
  shows "ps_returned s1"
proof (rule ccontr)
  assume live: "\<not> ps_returned s1"
  obtain r s2 where jwt: "apply_validate_jwt env jp s = (r, s2)" by fastforce
  then have "r = Inr ()" using run by (cases r) auto
  moreover have "\<not> ps_returned s2" using run jwt live \<open>r = Inr ()\<close> by (auto split: if_splits)
  ultimately show False
    using validate_jwt_sound [OF assms(3) _ assms(1), of jp s2] jwt rejected by blast
qed



section \<open>Failures\<close>

text \<open>
  A \<open>return-response\<close> whose header expression fails has answered before it fails: the failure goes
  to \<open>on-error\<close> with the answer already marked, so an empty \<open>on-error\<close> sends that answer instead of
  reporting the failure.
\<close>

theorem failed_return_response_answers:
  assumes "\<not> is_expression body" and "is_expression (ph_value h)" and "on_error p = []"
    and "\<forall>s. isl (fst (ou_eval ou (ph_value h) s))"
  shows "fst (run_section (gateway_env ou) p name [Action m (ALeaf (AReturnResponse code reason body [h] []))] go_on s)
    = Answer (if code = 0 then 200 else code) (copy_headers [] (ps_headers s)) (Some body)"
proof -
  let ?s = "(set_section name s)\<lparr>ps_returned := True, ps_status := code, ps_reason := reason, ps_body := body\<rparr>"
  obtain x v tr where ev: "ou_eval ou (ph_value h) ?s = (x, v, tr)" by (metis prod_cases3)
  then obtain msg where x: "x = Inl msg" using assms(4) by (metis fst_conv isl_def)
  have "fst (apply_return_response (gateway_env ou) code reason body [h] [] (set_section name s)) = Inl (PlainError msg)"
    and "snd (apply_return_response (gateway_env ou) code reason body [h] [] (set_section name s))
      = (with_bodies v ?s)\<lparr>ps_traces := ps_traces ?s @ tr\<rparr>"
    using assms(1,2) ev x
    by (simp_all add: apply_return_response_def evaluated_status_def evaluated_header_def eval_value_def eval_raw_def
        gateway_env_def bound_eval_def and_then_def)
  then have "apply_return_response (gateway_env ou) code reason body [h] [] (set_section name s)
      = (Inl (PlainError msg), (with_bodies v ?s)\<lparr>ps_traces := ps_traces ?s @ tr\<rparr>)"
    by (simp add: prod_eq_iff)
  then show ?thesis
    using assms(3)
    by (simp add: run_section_def policy_failure_def Let_def policy_reply_def set_section_def with_bodies_def)
qed

theorem failed_return_response_answers_witness:
  "fst (run_section (gateway_env echo_outside) empty_plan ''inbound''
      [Action no_meta (ALeaf (AReturnResponse 200 ''OK'' ''secret'' [\<lparr>ph_name = ''X'', ph_value = ''@(x)'', ph_action = []\<rparr>] []))]
      (\<lambda>s. (policy_reply s, s)) demo_state)
    = Answer (if 200 = (0 :: int) then 200 else 200) (copy_headers [] (ps_headers demo_state)) (Some ''secret'')"
  by (rule failed_return_response_answers) (code_simp, code_simp, simp add: empty_plan_def, simp add: echo_outside_def)

text \<open>
  The gateway binds no token or certificate provider to the policies: \<open>authentication-managed-identity\<close>,
  \<open>authentication-oauth2\<close> and \<open>authentication-certificate\<close> fail on every request.
\<close>

theorem backend_credentials_unavailable:
  "isl (fst (execute (gateway_env ou) [Action m (ALeaf (AAuthenticationManagedIdentity res))] s))
   \<and> isl (fst (execute (gateway_env ou) [Action m (ALeaf (AAuthenticationOAuth2 cl sec url res))] s))
   \<and> isl (fst (execute (gateway_env ou) [Action m (ALeaf (AAuthenticationCertificate c))] s))"
proof -
  have "pe_acquire_token (gateway_env ou) = None" "pe_acquire_oauth2 (gateway_env ou) = None"
    "pe_attach_certificate (gateway_env ou) = None"
    by (simp_all add: gateway_env_def)
  then show ?thesis
    by (auto simp: apply_authentication_identity_def apply_authentication_oauth2_def apply_authentication_certificate_def
        split: prod.splits sum.splits)
qed

end
