(* ===== verification/GatewayCircuit.thy ===== *)
theory GatewayCircuit
  imports GatewayRuntime
begin

text \<open>
  The circuit breaker of a backend over a sequence of requests: each is refused while the circuit is
  open, otherwise it goes to the backend and its outcome is recorded.
\<close>

text \<open>One request at a time, with the outcome the backend would give; the answer is what was recorded.\<close>

definition breaker_step :: "circuit_rule \<Rightarrow> time \<times> bool \<Rightarrow> circuit_state \<Rightarrow> (time \<times> bool) list \<times> circuit_state" where
  "breaker_step rule e c =
     (case breaker_open (fst e) c of
        (True, c1) \<Rightarrow> ([], c1)
      | (False, c1) \<Rightarrow> ([e], breaker_record rule (snd e) (fst e) c1))"

fun breaker_run :: "circuit_rule \<Rightarrow> (time \<times> bool) list \<Rightarrow> circuit_state \<Rightarrow> (time \<times> bool) list \<times> circuit_state" where
  "breaker_run rule [] c = ([], c)"
| "breaker_run rule (e # es) c =
     (case breaker_step rule e c of (h, c1) \<Rightarrow> case breaker_run rule es c1 of (hs, c2) \<Rightarrow> (h @ hs, c2))"

definition closed_breaker :: circuit_state where
  "closed_breaker = \<lparr>cs_failures = [], cs_opened_until = zero_time\<rparr>"

section \<open>What a tripped breaker saw\<close>

text \<open>The last recorded requests all failed, enough of them and close enough together.\<close>

definition tripped_by :: "circuit_rule \<Rightarrow> time list \<Rightarrow> bool" where
  "tripped_by rule fs \<longleftrightarrow> fs \<noteq> [] \<and> cr_count rule \<le> int (length fs)
     \<and> (\<forall>u \<in> set (butlast fs). last fs - cr_interval rule < u)"

definition explained :: "circuit_rule \<Rightarrow> (time \<times> bool) list \<Rightarrow> time \<Rightarrow> circuit_state \<Rightarrow> bool" where
  "explained rule h now c \<longleftrightarrow> sorted (cs_failures c) \<and> (\<forall>u \<in> set (cs_failures c). u \<le> now)
     \<and> (\<exists>pre. h = pre @ map (\<lambda>u. (u, True)) (cs_failures c))
     \<and> (cs_opened_until c = zero_time
        \<or> tripped_by rule (cs_failures c) \<and> cs_opened_until c = last (cs_failures c) + cr_trip rule)"

lemma filter_sorted_suffix:
  "sorted (xs :: time list) \<Longrightarrow> \<exists>ys. xs = ys @ filter (\<lambda>t. c < t) xs"
proof (induction xs)
  case (Cons x xs)
  then obtain ys where ys: "xs = ys @ filter (\<lambda>t. c < t) xs" by auto
  show ?case
  proof (cases "c < x")
    case True
    then have "filter (\<lambda>t. c < t) (x # xs) = x # xs"
      using Cons.prems by (intro filter_True) auto
    then show ?thesis by simp
  next
    case False
    then show ?thesis using ys by (intro exI [of _ "x # ys"]) simp
  qed
qed simp

lemma explained_open:
  assumes "explained rule h t0 c" and "t0 \<le> now" and "breaker_open now c = (b, c1)"
  shows "explained rule h now c1" and "\<not> b \<Longrightarrow> cs_opened_until c1 = zero_time"
  using assms
  by (auto simp: breaker_open_def explained_def split: if_splits intro: order_trans)

lemma explained_record:
  assumes ex: "explained rule h t0 c" and now: "t0 \<le> now" and "cs_opened_until c = zero_time"
  shows "explained rule (h @ [(now, failure)]) now (breaker_record rule failure now c)"
proof (cases failure)
  case True
  let ?kept = "filter (\<lambda>t. time_after t (now - cr_interval rule)) (cs_failures c)"
  have kept: "?kept = filter (\<lambda>t. now - cr_interval rule < t) (cs_failures c)" by (simp add: time_after_def)
  obtain pre where h: "h = pre @ map (\<lambda>u. (u, True)) (cs_failures c)"
    and srt: "sorted (cs_failures c)" and past: "\<forall>u \<in> set (cs_failures c). u \<le> now"
    using ex order_trans [OF _ now] unfolding explained_def by blast
  obtain ys where ys: "cs_failures c = ys @ ?kept" using filter_sorted_suffix [OF srt] kept by metis
  have "h @ [(now, True)] = (pre @ map (\<lambda>u. (u, True)) ys) @ map (\<lambda>u. (u, True)) (?kept @ [now])"
    unfolding h by (subst ys) simp
  moreover have "sorted (?kept @ [now])" using srt past by (auto simp: sorted_append sorted_wrt_filter)
  moreover have "\<forall>u \<in> set (?kept @ [now]). u \<le> now" using past by auto
  moreover have "tripped_by rule (?kept @ [now])" if "cr_count rule \<le> int (length (?kept @ [now]))"
    using that by (auto simp: tripped_by_def kept)
  ultimately show ?thesis
    using True assms(3) unfolding explained_def breaker_record_def by (auto simp: Let_def)
qed (simp add: breaker_record_def explained_def)

lemma explained_run:
  assumes "explained rule h t0 c" and "sorted (t0 # map fst es)" and "breaker_run rule es c = (hs, c')"
  shows "\<exists>t. explained rule (h @ hs) t c'"
  using assms
proof (induction es arbitrary: h t0 c hs)
  case (Cons e es)
  obtain b c1 where op: "breaker_open (fst e) c = (b, c1)" by fastforce
  have le: "t0 \<le> fst e" using Cons.prems(2) by simp
  note ex1 = explained_open [OF Cons.prems(1) le op]
  obtain h2 c2 where step: "breaker_step rule e c = (h2, c2)" by fastforce
  obtain h3 where rest: "breaker_run rule es c2 = (h3, c')" and hs: "hs = h2 @ h3"
    using Cons.prems(3) step by (auto split: prod.splits)
  have "explained rule (h @ h2) (fst e) c2"
    using step explained_record [OF ex1(1) order_refl, of "snd e"] ex1 by (cases b) (auto simp: breaker_step_def op)
  from Cons.IH [OF this _ rest] Cons.prems(2) show ?case by (simp add: hs)
qed auto



end
