(* ===== verification/GatewayPlans.thy ===== *)
theory GatewayPlans
  imports GatewayFlow
begin

text \<open>
  How the documents of a service become the plan a request runs (\<open>internal/gateway/gateway.go\<close>):
  named values are put in, fragments expanded, backends looked up; the plans of product, operation,
  API and service are composed at their \<open><base/>\<close> elements.
\<close>

section \<open>Composition\<close>

definition is_base :: "action \<Rightarrow> bool" where
  "is_base a = (case act_kind a of ALeaf ABase \<Rightarrow> True | _ \<Rightarrow> False)"

fun compose_actions :: "action list \<Rightarrow> action list \<Rightarrow> action list" where
  "compose_actions [] parent = []"
| "compose_actions (a # child) parent =
     (if is_base a then parent @ compose_actions child parent else a # compose_actions child parent)"

definition compose_plan :: "plan \<Rightarrow> plan \<Rightarrow> plan" where
  "compose_plan child parent =
     \<lparr>inbound = compose_actions (inbound child) (inbound parent),
      backend = compose_actions (backend child) (backend parent),
      outbound = compose_actions (outbound child) (outbound parent),
      on_error = compose_actions (on_error child) (on_error parent)\<rparr>"

text \<open>\<open>mergeProductActions\<close>: the loop and the flag it leaves.\<close>

definition merge_product_actions :: "action list \<Rightarrow> action list \<Rightarrow> action list" where
  "merge_product_actions product child =
     compose_actions product child @ (if list_ex is_base product then [] else child)"

definition merge_product_plan :: "plan \<Rightarrow> plan \<Rightarrow> plan" where
  "merge_product_plan product child =
     \<lparr>inbound = merge_product_actions (inbound product) (inbound child),
      backend = merge_product_actions (backend product) (backend child),
      outbound = merge_product_actions (outbound product) (outbound child),
      on_error = merge_product_actions (on_error product) (on_error child)\<rparr>"

lemma compose_actions_append [simp]:
  "compose_actions (as @ bs) parent = compose_actions as parent @ compose_actions bs parent"
  by (induction as) auto

lemma compose_actions_assoc:
  "compose_actions (compose_actions child parent) grand = compose_actions child (compose_actions parent grand)"
  by (induction child) auto

lemma compose_actions_no_base: "list_all (\<lambda>a. \<not> is_base a) child \<Longrightarrow> compose_actions child parent = child"
  by (induction child) auto

lemma compose_actions_base_free:
  "list_all (\<lambda>a. \<not> is_base a) parent \<Longrightarrow> list_all (\<lambda>a. \<not> is_base a) (compose_actions child parent)"
  by (induction child) auto

lemma set_compose_actions: "set (compose_actions child parent) \<subseteq> set child \<union> set parent"
  by (induction child) auto

lemma compose_plan_assoc: "compose_plan (compose_plan c p) g = compose_plan c (compose_plan p g)"
  by (simp add: compose_plan_def compose_actions_assoc)

text \<open>The child's policies all run, whatever the product says: none is dropped.\<close>

lemma merge_keeps_child: "\<exists>pre post. merge_product_actions product child = pre @ child @ post"
proof (cases "list_ex is_base product")
  case True
  then obtain a where "a \<in> set product" "is_base a" by (auto simp: list_ex_iff)
  then obtain xs ys where product: "product = xs @ a # ys" by (meson split_list)
  then have "merge_product_actions product child = compose_actions xs child @ child @ compose_actions ys child"
    using True \<open>is_base a\<close> by (simp add: merge_product_actions_def)
  then show ?thesis by blast
next
  case False
  then show ?thesis by (auto simp: merge_product_actions_def intro: exI [where x = "[]"])
qed

section \<open>Backends\<close>

record backend_row =
  bk_name :: string
  bk_url :: string
  bk_document :: json

text \<open>\<open>resolveBackendReferences\<close>: the top level of each section.\<close>

fun resolve_backends :: "(string \<rightharpoonup> backend_row) \<Rightarrow> action list \<Rightarrow> (string, action list) result" where
  "resolve_backends backends [] = Ok []"
| "resolve_backends backends (a # as) =
     bind_result
       (case act_kind a of
          ALeaf (ASetBackend url bid) \<Rightarrow>
            if bid = [] then Ok a
            else (case backends (to_lower bid) of
                    None \<Rightarrow> Err (''backend '' @ bid @ '' was not found'')
                  | Some b \<Rightarrow> Ok (Action (act_meta a) (ALeaf (ASetBackend (bk_url b) bid))))
        | _ \<Rightarrow> Ok a)
       (\<lambda>a'. bind_result (resolve_backends backends as) (\<lambda>as'. Ok (a' # as')))"

definition resolve_backend_references :: "(string \<rightharpoonup> backend_row) \<Rightarrow> plan \<Rightarrow> (string, plan) result" where
  "resolve_backend_references backends p =
     bind_result (resolve_backends backends (inbound p)) (\<lambda>i.
     bind_result (resolve_backends backends (backend p)) (\<lambda>b.
     bind_result (resolve_backends backends (outbound p)) (\<lambda>ob.
     bind_result (resolve_backends backends (on_error p)) (\<lambda>e.
     Ok \<lparr>inbound = i, backend = b, outbound = ob, on_error = e\<rparr>))))"

text \<open>\<open>backendCertificateIDs\<close> and \<open>validateBackendCertificates\<close>; a member of another type decodes to nothing.\<close>

definition backend_certificate_ids :: "backend_row \<Rightarrow> string list" where
  "backend_certificate_ids b =
     (let ids = items_of (member_of ''certificateIds'' (member_of ''credentials'' (member_of ''properties'' (bk_document b)))) in
      map (\<lambda>v. case v of JStr s \<Rightarrow> s | _ \<Rightarrow> []) ids)"

definition validate_backend_certificates ::
  "(string \<times> backend_row) list \<Rightarrow> (string \<Rightarrow> bool) \<Rightarrow> (string, unit) result" where
  "validate_backend_certificates backends present =
     (case find (\<lambda>(name, cid). \<not> present (to_lower cid))
             (concat (map (\<lambda>(name, b). map (Pair name) (backend_certificate_ids b)) backends)) of
        None \<Rightarrow> Ok ()
      | Some (name, cid) \<Rightarrow> Err (''backend '' @ name @ '' references missing certificate '' @ cid))"

section \<open>Named values\<close>

text \<open>\<open>html.EscapeString\<close>\<close>

definition html_escape :: "string \<Rightarrow> string" where
  "html_escape s = concat (map (\<lambda>c.
     if c = CHR ''&'' then ''&amp;'' else if c = CHR 0x27 then ''&#39;''
     else if c = CHR ''<'' then ''&lt;'' else if c = CHR ''>'' then ''&gt;''
     else if c = CHR 0x22 then ''&#34;'' else [c]) s)"

text \<open>A match of \<open>\{\{([^{}]+)\}\}\<close> at the start: the group, and what follows.\<close>

definition is_brace :: "char \<Rightarrow> bool" where
  "is_brace c \<longleftrightarrow> c = CHR ''{'' \<or> c = CHR ''}''"

definition named_reference :: "string \<Rightarrow> (string \<times> string) option" where
  "named_reference s =
     (if \<not> has_prefix s ''{{'' then None
      else let body = drop 2 s; name = takeWhile (\<lambda>c. \<not> is_brace c) body; rest = dropWhile (\<lambda>c. \<not> is_brace c) body in
        if name \<noteq> [] \<and> has_prefix rest ''}}'' then Some (name, drop 2 rest) else None)"

lemma named_reference_shorter:
  assumes "named_reference s = Some (name, rest)"
  shows "length rest < length s"
proof -
  let ?tail = "dropWhile (\<lambda>c. \<not> is_brace c) (drop 2 s)"
  have "s \<noteq> []" and rest: "rest = drop 2 ?tail"
    using assms by (auto simp: named_reference_def Let_def split: if_splits)
  have "length rest \<le> length ?tail" unfolding rest by simp
  also have "\<dots> \<le> length (drop 2 s)" by (rule length_dropWhile_le)
  also have "\<dots> < length s" using \<open>s \<noteq> []\<close> by simp
  finally show ?thesis .
qed

text \<open>\<open>resolveNamedValues\<close>: the text, and the last reference that has no value.\<close>

function replace_references :: "(string \<rightharpoonup> string) \<Rightarrow> string \<Rightarrow> string \<times> string option" where
  "replace_references values [] = ([], None)"
| "replace_references values (c # cs) =
     (case named_reference (c # cs) of
        None \<Rightarrow> (case replace_references values cs of (out, missing) \<Rightarrow> (c # out, missing))
      | Some (name, rest) \<Rightarrow>
          (case replace_references values rest of (out, missing) \<Rightarrow>
             (case values (to_lower (trim_space name)) of
                Some v \<Rightarrow> (html_escape v @ out, missing)
              | None \<Rightarrow> (''{{'' @ name @ ''}}'' @ out,
                          (case missing of None \<Rightarrow> Some (trim_space name) | Some m \<Rightarrow> Some m)))))"
  by pat_completeness auto

termination
  by (relation "measure (\<lambda>(values, s). length s)") (auto dest: named_reference_shorter)

declare replace_references.simps(2) [simp del]

definition resolve_named_values :: "string \<Rightarrow> (string \<rightharpoonup> string) \<Rightarrow> (string, string) result" where
  "resolve_named_values source values =
     (case replace_references values source of
        (out, None) \<Rightarrow> Ok out
      | (out, Some name) \<Rightarrow> Err (''named value '' @ name @ '' was not found''))"

section \<open>Nested policies\<close>

lemma resolve_backends_keeps:
  "resolve_backends backends as = Ok as' \<Longrightarrow> a \<in> set as \<Longrightarrow> (\<And>l. act_kind a \<noteq> ALeaf l) \<Longrightarrow> a \<in> set as'"
  by (induction as arbitrary: as') (auto split: action_kind.splits)

text \<open>
  Only the top level of a section is resolved: a \<open>choose\<close>, \<open>retry\<close>, \<open>wait\<close> or limit keeps its children
  as they are, so a \<open>set-backend-service\<close> with a \<open>backend-id\<close> inside one is accepted whether or not
  the backend exists, and leaves the request with an empty backend URL.
\<close>

theorem nested_backend_unresolved:
  assumes "resolve_backend_references backends p = Ok p'" and "a \<in> set (inbound p)"
    and "\<And>l. act_kind a \<noteq> ALeaf l" and "\<not> is_expression bid"
  shows "a \<in> set (inbound p') \<and> ps_backend_url (snd (execute env [Action m (ALeaf (ASetBackend [] bid))] s)) = []"
proof -
  obtain i where "resolve_backends backends (inbound p) = Ok i" "inbound p' = i"
    using assms(1) by (auto simp: resolve_backend_references_def)
  then have "a \<in> set (inbound p')" using resolve_backends_keeps assms(2,3) by blast
  moreover have "\<not> is_expression []" by code_simp
  ultimately show ?thesis using assms(4) by (simp add: apply_set_backend_def split: option.splits)
qed

end
