(* ===== verification/GatewayActivate.thy ===== *)
theory GatewayActivate
  imports GatewayPlans "HOL-Library.Char_ord" "HOL-Library.List_Lexorder"
begin

text \<open>
  \<open>activate\<close> of \<open>internal/gateway/gateway.go\<close>: the rows of the store become the snapshot that serves
  requests.  The rows a service lists (named values, backends, certificates, fragments, version
  sets, self-hosted gateways) are fields of its row here.  Arguments are the XML tokens of a
  document, the rendering of compile errors, the compilation of an API's GraphQL, SOAP, gRPC or MCP
  schema, and the loading of the identity graph.
\<close>

section \<open>Rows\<close>

record version_set =
  vs_id :: string
  vs_scheme :: string
  vs_header :: string
  vs_query :: string

record api_row =
  ap_service_id :: string
  ap_name :: string
  ap_path :: string
  ap_service_url :: string
  ap_subscription_required :: bool
  ap_current :: bool
  ap_version :: string
  ap_version_set_id :: string

record operation_row =
  op_api_id :: string
  op_name :: string
  op_method :: string
  op_template :: string

record subscription_row =
  sn_service_id :: string
  sn_name :: string
  sn_scope :: string
  sn_state :: string
  sn_primary :: string
  sn_secondary :: string

record gateway_row =
  gg_name :: string
  gg_hostnames :: "string list"
  gg_apis :: "string list"

record service_row =
  sv_subscription :: string
  sv_resource_group :: string
  sv_name :: string
  sv_document :: json
  sv_version_sets :: "version_set list"
  sv_named_values :: "(string \<times> string) list" \<comment> \<open>display name, value\<close>
  sv_backends :: "backend_row list"
  sv_certificates :: "(string \<times> string) list" \<comment> \<open>id, name\<close>
  sv_fragments :: "(string \<times> string) list"
  sv_gateways :: "gateway_row list"

record policy_row =
  pr_scope :: string
  pr_value :: string

record runtime_data =
  rd_services :: "service_row list"
  rd_apis :: "api_row list"
  rd_operations :: "operation_row list"
  rd_links :: "(string \<times> string) list" \<comment> \<open>product, API\<close>
  rd_subscriptions :: "subscription_row list"
  rd_policies :: "policy_row list"

definition service_id :: "service_row \<Rightarrow> string" where
  "service_id s =
     ''/subscriptions/'' @ sv_subscription s @ ''/resourceGroups/'' @ sv_resource_group s
     @ ''/providers/Microsoft.ApiManagement/service/'' @ sv_name s"

definition api_id :: "api_row \<Rightarrow> string" where
  "api_id a = ap_service_id a @ ''/apis/'' @ ap_name a"

definition operation_id :: "operation_row \<Rightarrow> string" where
  "operation_id o1 = op_api_id o1 @ ''/operations/'' @ op_name o1"

section \<open>Identifiers\<close>

fun before_child :: "string \<Rightarrow> string list \<Rightarrow> string" where
  "before_child scope [] = scope"
| "before_child scope (child # children) =
     (case index_of (to_lower scope) child of Some i \<Rightarrow> take i scope | None \<Rightarrow> before_child scope children)"

definition service_id_from_scope :: "string \<Rightarrow> string" where
  "service_id_from_scope scope = before_child scope [''/apis/'', ''/products/'', ''/subscriptions/'', ''/namedvalues/'']"

fun after_service :: "string list \<Rightarrow> string" where
  "after_service (p # q # parts) = (if equal_fold p ''service'' then q else after_service (q # parts))"
| "after_service _ = []"

definition service_name_from_id :: "string \<Rightarrow> string" where
  "service_name_from_id rid = after_service (split_char (CHR ''/'') (trim_char (CHR ''/'') rid))"

fun last_index_of :: "string \<Rightarrow> string \<Rightarrow> nat option" where
  "last_index_of [] sub = (if sub = [] then Some 0 else None)"
| "last_index_of (c # cs) sub =
     (case last_index_of cs sub of
        Some i \<Rightarrow> Some (Suc i)
      | None \<Rightarrow> if has_prefix (c # cs) sub then Some 0 else None)"

definition logical_api_id :: "string \<Rightarrow> string" where
  "logical_api_id rid = (case last_index_of (to_lower rid) '';rev='' of None \<Rightarrow> rid | Some i \<Rightarrow> take i rid)"

definition is_resolver_scope :: "string \<Rightarrow> bool" where
  "is_resolver_scope scope = contains (to_lower scope) ''/resolvers/''"

text \<open>A map filled by a loop: a later entry of the same key replaces an earlier one.\<close>

definition fill_map :: "('a \<Rightarrow> string) \<Rightarrow> ('a \<Rightarrow> 'b) \<Rightarrow> 'a list \<Rightarrow> string \<rightharpoonup> 'b" where
  "fill_map key val xs = foldl (\<lambda>m x. m(to_lower (key x) \<mapsto> val x)) Map.empty xs"

lemma fill_map_app [simp]: "fill_map key val (xs @ [x]) = (fill_map key val xs)(to_lower (key x) \<mapsto> val x)"
  by (simp add: fill_map_def)

lemma fill_map_Nil [simp]: "fill_map key val [] = Map.empty"
  by (simp add: fill_map_def)

lemma fill_map_SomeD: "fill_map key val xs k = Some v \<Longrightarrow> \<exists>x \<in> set xs. to_lower (key x) = k \<and> v = val x"
  by (induction xs rule: rev_induct) (auto split: if_splits)

lemma fill_map_None: "fill_map key val xs k = None \<longleftrightarrow> (\<forall>x \<in> set xs. to_lower (key x) \<noteq> k)"
  by (induction xs rule: rev_induct) (auto split: if_splits)

definition listed :: "runtime_data \<Rightarrow> (service_row \<Rightarrow> 'a list) \<Rightarrow> string \<Rightarrow> 'a list" where
  "listed d rows sid = (case fill_map service_id rows (rd_services d) (to_lower sid) of Some xs \<Rightarrow> xs | None \<Rightarrow> [])"

section \<open>Policies\<close>

record activation_env =
  av_tokens :: "string \<Rightarrow> xml_token list"
  av_fragment :: "string \<Rightarrow> node option"
  av_compile :: compile_env
  av_error_text :: "compile_error \<Rightarrow> string"
  av_protocol :: "bool \<Rightarrow> api_row \<Rightarrow> (string, string option) result" \<comment> \<open>the protocol an API has a schema of\<close>
  av_identities :: "runtime_data \<Rightarrow> string option"

text \<open>The function that \<open>activate\<close> runs on one document, and the plan of the scope.\<close>

definition document_plan :: "activation_env \<Rightarrow> bool \<Rightarrow> runtime_data \<Rightarrow> policy_row \<Rightarrow> (string, plan) result" where
  "document_plan av strict d item =
     (let sid = service_id_from_scope (pr_scope item) in
      bind_result (resolve_named_values (pr_value item) (fill_map fst snd (listed d sv_named_values sid))) (\<lambda>resolved.
      bind_result
        (case compile_with_fragments (av_compile av) (av_fragment av)
                (map (\<lambda>(n, v). (to_lower n, v)) (listed d sv_fragments sid)) strict (av_tokens av resolved) of
           Inl e \<Rightarrow> Err (av_error_text av e) | Inr p \<Rightarrow> Ok p) (\<lambda>p.
      resolve_backend_references (fill_map bk_name (\<lambda>b. b) (listed d sv_backends sid)) p)))"

definition failure_text :: "string \<Rightarrow> string \<Rightarrow> string" where
  "failure_text scope e = ''compile policy '' @ scope @ '': '' @ e"

definition scope_plan :: "activation_env \<Rightarrow> bool \<Rightarrow> runtime_data \<Rightarrow> policy_row \<Rightarrow> plan" where
  "scope_plan av strict d item =
     stamp_scope (scope_of (pr_scope item))
       (case document_plan av strict d item of
          Inl e \<Rightarrow> invalid_plan (failure_text (pr_scope item) e) | Inr p \<Rightarrow> p)"

definition own_documents :: "runtime_data \<Rightarrow> policy_row list" where
  "own_documents d = filter (\<lambda>item. \<not> is_resolver_scope (pr_scope item)) (rd_policies d)"

definition policy_failures :: "activation_env \<Rightarrow> bool \<Rightarrow> runtime_data \<Rightarrow> (string \<times> string) list" where
  "policy_failures av strict d =
     List.map_filter (\<lambda>item. case document_plan av strict d item of Inl e \<Rightarrow> Some (pr_scope item, e) | Inr _ \<Rightarrow> None)
       (own_documents d)"

definition policy_by_scope :: "activation_env \<Rightarrow> bool \<Rightarrow> runtime_data \<Rightarrow> string \<rightharpoonup> plan" where
  "policy_by_scope av strict d = fill_map pr_scope (scope_plan av strict d) (own_documents d)"

section \<open>Keys\<close>

definition linked_to :: "runtime_data \<Rightarrow> string \<Rightarrow> api_row \<Rightarrow> bool" where
  "linked_to d scope a =
     list_ex (\<lambda>(product, linked). product = scope
        \<and> (equal_fold linked (api_id a) \<or> equal_fold linked (logical_api_id (api_id a)))) (rd_links d)"

definition subscription_allows :: "runtime_data \<Rightarrow> subscription_row \<Rightarrow> api_row \<Rightarrow> bool" where
  "subscription_allows d sub a \<longleftrightarrow>
     equal_fold (sn_scope sub) (api_id a) \<or> equal_fold (sn_scope sub) (logical_api_id (api_id a))
     \<or> equal_fold (sn_scope sub) (ap_service_id a) \<or> linked_to d (sn_scope sub) a"

definition subscription_active :: "subscription_row \<Rightarrow> bool" where
  "subscription_active sub = equal_fold (sn_state sub) ''active''"

text \<open>\<open>keysByAPI\<close>: the set under the lower-cased id of an API.\<close>

definition key_accepted :: "runtime_data \<Rightarrow> string \<Rightarrow> string \<Rightarrow> bool" where
  "key_accepted d rid key =
     list_ex (\<lambda>sub. subscription_active sub \<and> (key = sn_primary sub \<or> key = sn_secondary sub)
        \<and> list_ex (\<lambda>a. to_lower (api_id a) = to_lower rid \<and> subscription_allows d sub a) (rd_apis d))
       (rd_subscriptions d)"

section \<open>Routes\<close>

record route =
  rt_api :: api_row
  rt_version_set :: "version_set option"
  rt_operations :: "operation_row list"
  rt_plan :: plan
  rt_operation_plans :: "string \<rightharpoonup> plan"
  rt_subscription_plans :: "string \<rightharpoonup> plan"
  rt_accepted :: "string \<Rightarrow> bool"
  rt_protocol :: "string option" \<comment> \<open>the name of its protocol's operation\<close>

definition api_plan :: "(string \<rightharpoonup> plan) \<Rightarrow> api_row \<Rightarrow> plan" where
  "api_plan scopes a =
     (case scopes (to_lower (api_id a)) of
        None \<Rightarrow> (case scopes (to_lower (ap_service_id a)) of Some sp \<Rightarrow> sp | None \<Rightarrow> empty_plan)
      | Some p \<Rightarrow> (case scopes (to_lower (ap_service_id a)) of Some sp \<Rightarrow> compose_plan p sp | None \<Rightarrow> p))"

definition operation_plan :: "(string \<rightharpoonup> plan) \<Rightarrow> plan \<Rightarrow> operation_row \<Rightarrow> plan" where
  "operation_plan scopes p o1 =
     (case scopes (to_lower (operation_id o1)) of Some q \<Rightarrow> compose_plan q p | None \<Rightarrow> p)"

text \<open>The loop that fills \<open>subscriptionPlans\<close>.\<close>

definition subscription_plans :: "runtime_data \<Rightarrow> (string \<rightharpoonup> plan) \<Rightarrow> api_row \<Rightarrow> string \<rightharpoonup> plan" where
  "subscription_plans d scopes a =
     foldl (\<lambda>m sub.
        if subscription_active sub \<and> has_prefix (to_lower (sn_scope sub)) (to_lower (ap_service_id a) @ ''/products/'')
           \<and> linked_to d (sn_scope sub) a
        then (case scopes (to_lower (sn_scope sub)) of
                None \<Rightarrow> m | Some p \<Rightarrow> m(to_lower (sn_primary sub) \<mapsto> p, to_lower (sn_secondary sub) \<mapsto> p))
        else m) Map.empty (rd_subscriptions d)"

definition api_operations :: "runtime_data \<Rightarrow> api_row \<Rightarrow> operation_row list" where
  "api_operations d a = filter (\<lambda>o1. to_lower (op_api_id o1) = to_lower (api_id a)) (rd_operations d)"

definition known_service :: "runtime_data \<Rightarrow> string \<Rightarrow> bool" where
  "known_service d name = list_ex (\<lambda>s. to_lower (sv_name s) = to_lower name) (rd_services d)"

definition all_version_sets :: "runtime_data \<Rightarrow> string \<rightharpoonup> version_set" where
  "all_version_sets d = fill_map vs_id (\<lambda>v. v) (concat (map sv_version_sets (rd_services d)))"

definition build_route :: "activation_env \<Rightarrow> bool \<Rightarrow> runtime_data \<Rightarrow> api_row \<Rightarrow> (string, route) result" where
  "build_route av strict d a =
     (if \<not> known_service d (service_name_from_id (ap_service_id a))
      then Err (''API '' @ api_id a @ '' references missing service'')
      else if ap_version_set_id a \<noteq> [] \<and> all_version_sets d (to_lower (ap_version_set_id a)) = None
      then Err (''API '' @ api_id a @ '' references missing version set'')
      else
        let scopes = policy_by_scope av strict d; p = api_plan scopes a; os = api_operations d a in
        bind_result (av_protocol av strict a) (\<lambda>protocol.
        Ok \<lparr>rt_api = a,
            rt_version_set = (if ap_version_set_id a = [] then None else all_version_sets d (to_lower (ap_version_set_id a))),
            rt_operations = os, rt_plan = p,
            rt_operation_plans = fill_map operation_id (operation_plan scopes p) os,
            rt_subscription_plans = subscription_plans d scopes a,
            rt_accepted = key_accepted d (api_id a), rt_protocol = protocol\<rparr>))"

fun build_routes :: "activation_env \<Rightarrow> bool \<Rightarrow> runtime_data \<Rightarrow> api_row list \<Rightarrow> (string, route list) result" where
  "build_routes av strict d [] = Ok []"
| "build_routes av strict d (a # as) =
     (if \<not> ap_current a then build_routes av strict d as
      else bind_result (build_route av strict d a) (\<lambda>r.
           bind_result (build_routes av strict d as) (\<lambda>rs. Ok (r # rs))))"

section \<open>The snapshot\<close>

record self_hosted =
  sh_name :: string
  sh_hostnames :: "string list"
  sh_routes :: "route list"

record service =
  se_name :: string
  se_id :: string
  se_hostnames :: "string list"
  se_certificate_hosts :: "string list"
  se_private :: bool
  se_routes :: "route list"
  se_backends :: "string \<rightharpoonup> backend_row"
  se_gateways :: "self_hosted list"

type_synonym snapshot = "string \<rightharpoonup> service"

text \<open>The custom hostnames of a service's document.\<close>

definition hostname_configurations :: "json \<Rightarrow> json list" where
  "hostname_configurations document =
     filter (\<lambda>v. case v of JObj _ \<Rightarrow> True | _ \<Rightarrow> False)
       (items_of (member_of ''hostnameConfigurations'' document)
        @ items_of (member_of ''hostnameConfigurations'' (member_of ''properties'' document)))"

definition configured_host :: "json \<Rightarrow> string option" where
  "configured_host c =
     (case member_of ''hostName'' c of JStr h \<Rightarrow> if trim_space h = [] then None else Some (to_lower (trim_space h)) | _ \<Rightarrow> None)"

definition custom_hostnames :: "json \<Rightarrow> string list" where
  "custom_hostnames document = List.map_filter configured_host (hostname_configurations document)"

definition client_certificate_hosts :: "json \<Rightarrow> string list" where
  "client_certificate_hosts document =
     List.map_filter configured_host
       (filter (\<lambda>c. member_of ''negotiateClientCertificate'' c = JBool True) (hostname_configurations document))"

definition public_network_access :: "json \<Rightarrow> bool" where
  "public_network_access document =
     (\<not> equal_fold (trim_space (case member_of ''publicNetworkAccess'' (member_of ''properties'' document) of JStr s \<Rightarrow> s | _ \<Rightarrow> []))
        ''disabled'')"

definition attach_gateway :: "route list \<Rightarrow> gateway_row \<Rightarrow> self_hosted" where
  "attach_gateway routes g =
     \<lparr>sh_name = gg_name g, sh_hostnames = map (\<lambda>h. to_lower (trim_space h)) (gg_hostnames g),
      sh_routes = filter (\<lambda>r. list_ex (\<lambda>rid. to_lower (logical_api_id rid) = to_lower (logical_api_id (api_id (rt_api r))))
                                (gg_apis g)) routes\<rparr>"

text \<open>The routes of a service, longest path first; the sort is stable.\<close>

definition service_routes :: "route list \<Rightarrow> string \<Rightarrow> route list" where
  "service_routes routes name =
     sort_key (\<lambda>r. - int (length (ap_path (rt_api r))))
       (filter (\<lambda>r. to_lower (service_name_from_id (ap_service_id (rt_api r))) = to_lower name) routes)"

definition build_service :: "runtime_data \<Rightarrow> route list \<Rightarrow> service_row \<Rightarrow> service" where
  "build_service d routes s =
     (let rs = service_routes routes (sv_name s) in
      \<lparr>se_name = sv_name s, se_id = service_id s, se_hostnames = custom_hostnames (sv_document s),
       se_certificate_hosts = client_certificate_hosts (sv_document s),
       se_private = (\<not> public_network_access (sv_document s)), se_routes = rs,
       se_backends = fill_map bk_name (\<lambda>b. b) (listed d sv_backends (service_id s)),
       se_gateways = map (attach_gateway rs)
         (concat (map sv_gateways (filter (\<lambda>t. to_lower (sv_name t) = to_lower (sv_name s)) (rd_services d))))\<rparr>)"

fun check_certificates :: "service_row list \<Rightarrow> (string, unit) result" where
  "check_certificates [] = Ok ()"
| "check_certificates (s # ss) =
     bind_result
       (validate_backend_certificates (map (\<lambda>b. (to_lower (bk_name b), b)) (sv_backends s))
          (\<lambda>cid. list_ex (\<lambda>(rid, name). cid = to_lower rid \<or> cid = to_lower name) (sv_certificates s)))
       (\<lambda>_. check_certificates ss)"

definition activate ::
  "activation_env \<Rightarrow> bool \<Rightarrow> bool \<Rightarrow> (string \<Rightarrow> bool) \<Rightarrow> runtime_data \<Rightarrow> (string, (string \<times> string) list \<times> snapshot) result" where
  "activate av strict reject_new was_failing d =
     bind_result (check_certificates (rd_services d)) (\<lambda>_.
     bind_result (build_routes av strict d (rd_apis d)) (\<lambda>routes.
       let failures = policy_failures av strict d in
       (case av_identities av d of
          Some e \<Rightarrow> Err e
        | None \<Rightarrow>
            (case find (\<lambda>(scope, e). reject_new \<and> \<not> was_failing (to_lower scope)) failures of
               Some (scope, e) \<Rightarrow> Err (failure_text scope e)
             | None \<Rightarrow> Ok (failures, fill_map sv_name (build_service d routes) (rd_services d))))))"

text \<open>What the runtime keeps: \<open>Activate\<close> and \<open>Restore\<close>.\<close>

record runtime =
  rn_snapshot :: snapshot
  rn_failing :: "string \<Rightarrow> bool"

definition activate_runtime ::
  "activation_env \<Rightarrow> bool \<Rightarrow> bool \<Rightarrow> runtime_data \<Rightarrow> runtime \<Rightarrow> (string, (string \<times> string) list) result \<times> runtime" where
  "activate_runtime av strict reject_new d rn =
     (case activate av strict reject_new (rn_failing rn) d of
        Inl e \<Rightarrow> (Err e, rn)
      | Inr (failures, snap) \<Rightarrow>
          (Ok failures, \<lparr>rn_snapshot = snap, rn_failing = (\<lambda>k. list_ex (\<lambda>(scope, e). to_lower scope = k) failures)\<rparr>))"

end
