(* ===== verification/GatewayRoute.thy ===== *)
theory GatewayRoute
  imports GatewayActivate
begin

text \<open>
  How \<open>ServeHTTP\<close> finds the plan of a request in the snapshot: the host names a service or a
  self-hosted gateway, the path a route, the method and the rest of the path an operation; then the
  subscription key is checked and the product's plan merged in.
\<close>

section \<open>Hosts\<close>

definition host_name :: "string \<Rightarrow> string" where
  "host_name host = to_lower (case split_host_port host of Some h \<Rightarrow> h | None \<Rightarrow> host)"

definition service_from_host :: "string \<Rightarrow> string \<Rightarrow> string" where
  "service_from_host host fallback =
     (let name = (case split_host_port host of Some h \<Rightarrow> h | None \<Rightarrow> host) in
      case find (\<lambda>sfx. has_suffix (to_lower name) sfx) [''.azure-api.localhost'', ''.azure-api.net''] of
        Some sfx \<Rightarrow> take (length name - length sfx) name
      | None \<Rightarrow> fallback)"

text \<open>\<open>names\<close> are the keys of the snapshot in ascending order.\<close>

definition service_for_host :: "(string \<times> service) list \<Rightarrow> string \<Rightarrow> string \<Rightarrow> string \<times> self_hosted option" where
  "service_for_host services host fallback =
     (let h = host_name host in
      case find (\<lambda>(_, s). list_ex (\<lambda>n. n = h) (se_hostnames s)) services of
        Some (_, s) \<Rightarrow> (se_name s, None)
      | None \<Rightarrow>
          (case find (\<lambda>(s, g). list_ex (\<lambda>n. n = h) (sh_hostnames g))
                  (concat (map (\<lambda>(_, s). map (Pair s) (se_gateways s)) services)) of
             Some (s, g) \<Rightarrow> (se_name s, Some g)
           | None \<Rightarrow> (service_from_host host fallback, None)))"

definition requires_client_certificate :: "service \<Rightarrow> gateway_request \<Rightarrow> bool" where
  "requires_client_certificate s q \<longleftrightarrow>
     list_ex (\<lambda>n. n = host_name (gr_host q)) (se_certificate_hosts s)
     \<and> (case gr_certificates q of None \<Rightarrow> True | Some cs \<Rightarrow> cs = [])"

section \<open>Routes\<close>

definition trim_slashes :: "string \<Rightarrow> string" where
  "trim_slashes p = trim_char (CHR ''/'') p"

text \<open>The prefix of a route, and \<open>None\<close> when the version of the request is another one.\<close>

definition route_prefix :: "route \<Rightarrow> gateway_request \<Rightarrow> string option" where
  "route_prefix r q =
     (let pre = trim_slashes (ap_path (rt_api r)); version = ap_version (rt_api r) in
      case rt_version_set r of
        None \<Rightarrow> Some pre
      | Some v \<Rightarrow>
          if vs_scheme v = ''Segment'' then Some (trim_slashes (pre @ ''/'' @ version))
          else if vs_scheme v = ''Header'' then
            (if header_get_of (gr_headers q) (vs_header v) \<noteq> version then None else Some pre)
          else if vs_scheme v = ''Query'' then
            (if values_get (gr_query q) (vs_query v) \<noteq> version then None else Some pre)
          else Some pre)"

definition relative_path :: "string \<Rightarrow> string \<Rightarrow> string option" where
  "relative_path pre clean =
     (if pre = [] then Some (''/'' @ clean)
      else if clean = pre then Some ''/''
      else if has_prefix clean (pre @ ''/'') then Some (''/'' @ trim_prefix clean (pre @ ''/''))
      else None)"

fun match_route :: "route list \<Rightarrow> gateway_request \<Rightarrow> string \<Rightarrow> (route \<times> string) option" where
  "match_route [] q path = None"
| "match_route (r # rs) q path =
     (case route_prefix r q of
        None \<Rightarrow> match_route rs q path
      | Some pre \<Rightarrow>
          (case relative_path pre (trim_prefix path ''/'') of
             Some rel \<Rightarrow> Some (r, rel)
           | None \<Rightarrow> match_route rs q path))"

section \<open>Operations\<close>

definition path_segments :: "string \<Rightarrow> string list" where
  "path_segments path =
     (let v = trim_slashes path in if v = [] then [] else split_char (CHR ''/'') v)"

definition is_parameter :: "string \<Rightarrow> bool" where
  "is_parameter seg \<longleftrightarrow> has_prefix seg ''{'' \<and> has_suffix seg ''}''"

definition parameter_name :: "string \<Rightarrow> string" where
  "parameter_name seg =
     (let name = trim_suffix (trim_prefix seg ''{'') ''}'' in
      case index_of name '':'' of Some i \<Rightarrow> take i name | None \<Rightarrow> name)"

text \<open>The loop of \<open>templateBindings\<close> over both lists of segments.\<close>

fun bind_segments :: "string list \<Rightarrow> string list \<Rightarrow> (string \<rightharpoonup> string) \<Rightarrow> (string \<rightharpoonup> string) option" where
  "bind_segments (w # ws) (g # gs) m =
     (if is_parameter w then
        bind_segments ws gs (if parameter_name w = [] then m else m(parameter_name w \<mapsto> g))
      else if w \<noteq> g then None else bind_segments ws gs m)"
| "bind_segments _ _ m = Some m"

definition template_bindings :: "string \<Rightarrow> string \<Rightarrow> (string \<rightharpoonup> string) option" where
  "template_bindings template path =
     (let want = path_segments template; got = path_segments path in
      if length want \<noteq> length got then None else bind_segments want got Map.empty)"

fun match_operation :: "operation_row list \<Rightarrow> string \<Rightarrow> string \<Rightarrow> (operation_row \<times> (string \<rightharpoonup> string)) option" where
  "match_operation [] m path = None"
| "match_operation (o1 # os) m path =
     (if \<not> equal_fold (op_method o1) m then match_operation os m path
      else (case template_bindings (op_template o1) path of
              Some b \<Rightarrow> Some (o1, b)
            | None \<Rightarrow> match_operation os m path))"

section \<open>Admission\<close>

definition subscription_key :: "gateway_request \<Rightarrow> string" where
  "subscription_key q =
     (let key = header_get_of (gr_headers q) ''Ocp-Apim-Subscription-Key'' in
      if key \<noteq> [] then key else values_get (gr_query q) ''subscription-key'')"

record admitted =
  ad_service :: service
  ad_route :: route
  ad_relative :: string
  ad_bindings :: "string \<rightharpoonup> string"
  ad_plan :: plan

definition missing_key_text :: string where
  "missing_key_text = ''Access denied due to missing subscription key. Make sure to include subscription key when making requests to an API.''"

definition invalid_key_text :: string where
  "invalid_key_text = ''Access denied due to invalid subscription key. Check that the key is active and belongs to the requested API.''"

text \<open>The route's own plan, the operation's, and the product's around it.\<close>

definition active_plan :: "route \<Rightarrow> string \<Rightarrow> string \<Rightarrow> plan" where
  "active_plan r oid key =
     (let p = (case rt_operation_plans r (to_lower oid) of Some p \<Rightarrow> p | None \<Rightarrow> rt_plan r) in
      case rt_subscription_plans r (to_lower key) of Some product \<Rightarrow> merge_product_plan product p | None \<Rightarrow> p)"

definition admit_route :: "service \<Rightarrow> route list \<Rightarrow> gateway_request \<Rightarrow> string \<Rightarrow> (reply, admitted) result" where
  "admit_route s routes q path =
     (case match_route routes q path of
        None \<Rightarrow> Err (GatewayError 404 ''OperationNotFound'' ''Unable to match incoming request to an operation.'')
      | Some (r, relative) \<Rightarrow>
          let found = match_operation (rt_operations r) (gr_method q) relative;
              key = subscription_key q in
          if found = None \<and> rt_protocol r = None
          then Err (GatewayError 404 ''OperationNotFound'' ''Unable to match incoming request to an operation.'')
          else if ap_subscription_required (rt_api r) \<and> \<not> rt_accepted r key
          then Err (GatewayError 401 ''SubscriptionKeyInvalid'' (if key \<noteq> [] then invalid_key_text else missing_key_text))
          else
            let oid = (case found of Some (o1, _) \<Rightarrow> operation_id o1 | None \<Rightarrow> api_id (rt_api r) @ ''/operations/'' @ the (rt_protocol r)) in
            Ok \<lparr>ad_service = s, ad_route = r, ad_relative = relative,
                ad_bindings = (case found of Some (_, b) \<Rightarrow> b | None \<Rightarrow> Map.empty),
                ad_plan = active_plan r oid key\<rparr>)"

definition admit :: "(string \<times> service) list \<Rightarrow> string \<Rightarrow> gateway_request \<Rightarrow> string \<Rightarrow> (reply, admitted) result" where
  "admit services fallback q path =
     (case service_for_host services (gr_host q) fallback of
        (name, gateway) \<Rightarrow>
          (case map_of services (to_lower name) of
             None \<Rightarrow> Err (GatewayError 404 ''ServiceNotFound'' ''API Management service was not found.'')
           | Some s \<Rightarrow>
               if se_private s
               then Err (GatewayError 403 ''PublicNetworkAccessDisabled'' ''Public network access is disabled for this service.'')
               else if requires_client_certificate s q
               then Err (GatewayError 403 ''ClientCertificateRequired''
                      ''This hostname is configured to negotiate a client certificate and the request presented none.'')
               else admit_route s (case gateway of Some g \<Rightarrow> sh_routes g | None \<Rightarrow> se_routes s) q path))"

section \<open>Versions\<close>

text \<open>
  An API without a version in a set versioned by path segment takes every request below its path,
  also those of the versions listed after it: routes are ordered by the path of the API alone.
\<close>

theorem version_segment_shadowed:
  assumes "rt_version_set r = Some v" and "vs_scheme v = ''Segment''" and "ap_version (rt_api r) = []"
    and "trim_slashes (trim_slashes (ap_path (rt_api r)) @ ''/'') = pre" and "pre \<noteq> []"
  shows "match_route (r # others) q (''/'' @ pre @ ''/'' @ version @ rest) = Some (r, ''/'' @ version @ rest)"
proof -
  have "relative_path pre (pre @ CHR ''/'' # version @ rest) = Some (CHR ''/'' # version @ rest)"
    using assms(5) trim_prefix_append [of "pre @ ''/''" "version @ rest"] by (auto simp: relative_path_def has_prefix_iff)
  moreover have "trim_prefix (''/'' @ pre @ ''/'' @ version @ rest) ''/'' = pre @ ''/'' @ version @ rest"
    by (rule trim_prefix_append)
  ultimately show ?thesis using assms by (simp add: route_prefix_def Let_def)
qed

end
