(* ===== verification/GatewayAccess.thy ===== *)
theory GatewayAccess
  imports GatewayRoute
begin

text \<open>
  What activation and admission guarantee together: a request that is admitted runs on a route
  \<open>activate\<close> built, with a key of an active subscription where the API asks for one, and on a plan
  that holds the failure of every document of its scopes that did not compile.
\<close>

section \<open>Where a route comes from\<close>

lemma build_routes_from:
  assumes "build_routes av strict d as = Ok rs" and "r \<in> set rs"
  shows "\<exists>a \<in> set as. ap_current a \<and> build_route av strict d a = Ok r"
  using assms by (induction as arbitrary: rs) (auto split: if_splits)

lemma build_routeD:
  assumes "build_route av strict d a = Ok r"
  shows "rt_api r = a" "rt_accepted r = key_accepted d (api_id a)"
    "rt_plan r = api_plan (policy_by_scope av strict d) a" "rt_operations r = api_operations d a"
    "rt_operation_plans r = fill_map operation_id
       (operation_plan (policy_by_scope av strict d) (rt_plan r)) (rt_operations r)"
    "rt_subscription_plans r = subscription_plans d (policy_by_scope av strict d) a"
  using assms by (auto simp: build_route_def Let_def split: if_splits)

lemma activate_snapshot:
  assumes "activate av strict rj old d = Ok (fs, snap)"
  shows "\<exists>rs. build_routes av strict d (rd_apis d) = Ok rs \<and> snap = fill_map sv_name (build_service d rs) (rd_services d)"
  using assms by (auto simp: activate_def Let_def split: option.splits)

lemma activate_routes:
  assumes "activate av strict rj old d = Ok (fs, snap)" and "snap k = Some s"
    and "r \<in> set (se_routes s) \<or> (\<exists>g \<in> set (se_gateways s). r \<in> set (sh_routes g))"
  shows "\<exists>a \<in> set (rd_apis d). ap_current a \<and> build_route av strict d a = Ok r"
proof -
  obtain rs where rs: "build_routes av strict d (rd_apis d) = Ok rs"
    and snap: "snap = fill_map sv_name (build_service d rs) (rd_services d)"
    using activate_snapshot [OF assms(1)] by blast
  from fill_map_SomeD [OF assms(2) [unfolded snap]] obtain row where "s = build_service d rs row" by blast
  then have "r \<in> set rs"
    using assms(3) by (auto simp: build_service_def Let_def attach_gateway_def service_routes_def)
  with rs show ?thesis by (rule build_routes_from)
qed

lemma match_route_member: "match_route rs q path = Some (r, rel) \<Longrightarrow> r \<in> set rs"
  by (induction rs) (auto split: option.splits)

lemma find_member: "find P xs = Some x \<Longrightarrow> x \<in> set xs"
  by (auto simp: find_Some_iff)

lemma service_for_host_gateway:
  assumes "service_for_host services host fb = (name, Some g)"
  shows "\<exists>k s. (k, s) \<in> set services \<and> se_name s = name \<and> g \<in> set (se_gateways s)"
proof -
  let ?all = "concat (map (\<lambda>(_, s). map (Pair s) (se_gateways s)) services)"
  obtain s where "find (\<lambda>(s, g). list_ex (\<lambda>n. n = host_name host) (sh_hostnames g)) ?all = Some (s, g)" "se_name s = name"
    using assms by (auto simp: service_for_host_def Let_def split: option.splits prod.splits)
  then have "(s, g) \<in> set ?all" "se_name s = name" by (auto dest: find_member)
  then show ?thesis by auto
qed

text \<open>The services of a snapshot, as \<open>ServeHTTP\<close> lists them.\<close>

definition lists_snapshot :: "(string \<times> service) list \<Rightarrow> snapshot \<Rightarrow> bool" where
  "lists_snapshot services snap \<longleftrightarrow> map_of services = snap \<and> distinct (map fst services)"

lemma admit_routeD:
  assumes "admit_route s rs q path = Ok ad"
  shows "ad_route ad \<in> set rs"
    and "ap_subscription_required (rt_api (ad_route ad)) \<Longrightarrow> rt_accepted (ad_route ad) (subscription_key q)"
    and "\<exists>oid. ad_plan ad = active_plan (ad_route ad) oid (subscription_key q)"
proof -
  obtain r rel where r: "match_route rs q path = Some (r, rel)"
    using assms by (auto simp: admit_route_def split: option.splits)
  have ad: "ad_route ad = r" "ap_subscription_required (rt_api r) \<longrightarrow> rt_accepted r (subscription_key q)"
    "\<exists>oid. ad_plan ad = active_plan r oid (subscription_key q)"
    using assms by (auto simp: admit_route_def r Let_def split: if_splits)
  show "ad_route ad \<in> set rs" unfolding ad(1) using r by (rule match_route_member)
  show "ap_subscription_required (rt_api (ad_route ad)) \<Longrightarrow> rt_accepted (ad_route ad) (subscription_key q)"
    using ad(1,2) by simp
  show "\<exists>oid. ad_plan ad = active_plan (ad_route ad) oid (subscription_key q)" using ad(1,3) by simp
qed

lemma admitted_route:
  assumes "activate av strict rj old d = Ok (fs, snap)" and "lists_snapshot services snap"
    and "admit services fb q path = Ok ad"
  shows "\<exists>a \<in> set (rd_apis d). ap_current a \<and> build_route av strict d a = Ok (ad_route ad)"
proof -
  obtain name g where host: "service_for_host services (gr_host q) fb = (name, g)" by fastforce
  obtain s where s: "map_of services (to_lower name) = Some s"
    and ad: "admit_route s (case g of Some g \<Rightarrow> sh_routes g | None \<Rightarrow> se_routes s) q path = Ok ad"
    using assms(3) host by (auto simp: admit_def split: option.splits if_splits)
  have snap: "snap (to_lower name) = Some s" using s assms(2) by (simp add: lists_snapshot_def)
  show ?thesis
  proof (cases g)
    case None
    then show ?thesis using admit_routeD(1) [OF ad] activate_routes [OF assms(1) snap] by simp
  next
    case (Some gw)
    then obtain k t where t: "(k, t) \<in> set services" "gw \<in> set (se_gateways t)"
      using service_for_host_gateway [of services "gr_host q" fb name gw] host by blast
    then have "snap k = Some t" using assms(2) by (auto simp: lists_snapshot_def)
    then show ?thesis
      using admit_routeD(1) [OF ad] activate_routes [OF assms(1), of k t] t(2) Some by auto
  qed
qed

section \<open>Subscription keys\<close>

text \<open>
  C5. Where an API requires a subscription, a request is admitted only with a key of a subscription
  that is active and whose scope is the API, its service, or a product linked to it.
\<close>

theorem subscription_enforced:
  assumes "activate av strict rj old d = Ok (fs, snap)" and "lists_snapshot services snap"
    and "admit services fb q path = Ok ad" and "ap_subscription_required (rt_api (ad_route ad))"
  shows "\<exists>sub \<in> set (rd_subscriptions d). \<exists>a \<in> set (rd_apis d).
     subscription_active sub \<and> subscription_key q \<in> {sn_primary sub, sn_secondary sub}
     \<and> to_lower (api_id a) = to_lower (api_id (rt_api (ad_route ad))) \<and> subscription_allows d sub a"
proof -
  obtain s rs where "admit_route s rs q path = Ok ad"
    using assms(3) by (auto simp: admit_def split: option.splits if_splits prod.splits)
  then have "rt_accepted (ad_route ad) (subscription_key q)" using assms(4) by (rule admit_routeD(2))
  then have "key_accepted d (api_id (rt_api (ad_route ad))) (subscription_key q)"
    using admitted_route [OF assms(1-3)] build_routeD(1,2) by metis
  then show ?thesis unfolding key_accepted_def list_ex_iff by auto
qed

section \<open>Documents that do not compile\<close>

definition holds_failure :: "action list \<Rightarrow> bool" where
  "holds_failure as \<longleftrightarrow> (\<exists>a \<in> set as. \<exists>m. act_kind a = ALeaf (AInvalid m))"

lemma failure_stops: "holds_failure as \<Longrightarrow> execute env as s = (Inr (), s') \<Longrightarrow> ps_returned s'"
proof (induction as arbitrary: s)
  case (Cons a as)
  obtain r s1 where run: "run_one env a s = (r, s1)" by fastforce
  then have r: "r = Inr ()" using Cons.prems(2) by (cases r) auto
  show ?case
  proof (cases "\<exists>m. act_kind a = ALeaf (AInvalid m)")
    case True
    then show ?thesis using run r by (cases a) auto
  next
    case False
    then have "holds_failure as" using Cons.prems(1) by (auto simp: holds_failure_def)
    then show ?thesis using Cons.IH [of s1] Cons.prems(2) run r by (auto split: if_splits)
  qed
qed (simp add: holds_failure_def)

lemma failure_not_forwarded:
  assumes "holds_failure (inbound (ex_plan ex))"
  shows "serve (ou\<lparr>ou_backend := b\<rparr>) ex s = serve ou ex s"
proof -
  have "run_section (gateway_env ou) (ex_plan ex) ''inbound'' (inbound (ex_plan ex)) f s
      = run_section (gateway_env ou) (ex_plan ex) ''inbound'' (inbound (ex_plan ex)) g s" for f g
    by (rule run_section_stops) (rule failure_stops [OF assms])
  then show ?thesis unfolding serve_def Let_def gateway_env_backend by metis
qed

lemma holds_failure_compose: "holds_failure child \<Longrightarrow> holds_failure (compose_actions child parent)"
  by (induction child) (auto simp: holds_failure_def is_base_def split: action_kind.splits leaf_action.splits)

lemma holds_failure_merge: "holds_failure child \<Longrightarrow> holds_failure (merge_product_actions product child)"
  using merge_keeps_child [of product child] by (auto simp: holds_failure_def)

lemma stamped_invalid: "holds_failure (inbound (stamp_scope sc (invalid_plan m)))"
  by (simp add: holds_failure_def stamp_scope_def invalid_plan_def empty_plan_def)

lemma fill_map_unique:
  "distinct (map (\<lambda>x. to_lower (key x)) xs) \<Longrightarrow> x \<in> set xs \<Longrightarrow> fill_map key val xs (to_lower (key x)) = Some (val x)"
  by (induction xs rule: rev_induct) (auto, metis image_eqI)


section \<open>Routing\<close>

text \<open>
  C32. Routing takes the longest path: without API versions, the route of a request is one whose path
  begins the request's at a segment boundary, no route with a longer path does, and the
  rest is what the operation is matched with.
\<close>

theorem longest_path_wins:
  assumes "match_route (service_routes rs name) q path = Some (r, rel)"
    and "\<forall>r \<in> set rs. rt_version_set r = None"
  shows "relative_path (trim_slashes (ap_path (rt_api r))) (trim_prefix path ''/'') = Some rel
     \<and> (\<forall>r' \<in> set (service_routes rs name).
          relative_path (trim_slashes (ap_path (rt_api r'))) (trim_prefix path ''/'') \<noteq> None
            \<longrightarrow> length (ap_path (rt_api r')) \<le> length (ap_path (rt_api r)))"
proof -
  let ?fits = "\<lambda>r. relative_path (trim_slashes (ap_path (rt_api r))) (trim_prefix path ''/'')"
  have first: "?fits r = Some rel \<and> (\<forall>r' \<in> set xs. ?fits r' \<noteq> None \<longrightarrow> length (ap_path (rt_api r')) \<le> length (ap_path (rt_api r)))"
    if "match_route xs q path = Some (r, rel)" "sorted (map (\<lambda>r. - int (length (ap_path (rt_api r)))) xs)"
      "\<forall>r \<in> set xs. rt_version_set r = None" for xs
    using that by (induction xs) (auto simp: route_prefix_def Let_def split: option.splits)
  show ?thesis
    by (rule first [OF assms(1)]) (use assms(2) in \<open>auto simp: service_routes_def\<close>)
qed

section \<open>Documents of a service\<close>

lemma listed_nowhere: "listed d f [] = []" "listed (d\<lparr>rd_services := []\<rparr>) f sid = []"
proof -
  have "fill_map service_id f (rd_services d) [] = None" unfolding fill_map_None by (auto simp: service_id_def)
  then show "listed d f [] = []" by (simp add: listed_def)
qed (simp add: listed_def)

text \<open>
  The document of a service resolves nothing of its service: the id of every service begins with
  \<open>/subscriptions/\<close>, where \<open>serviceIDFromScope\<close> cuts, so its named values, fragments and backends
  are looked up under the empty id and the document compiles as if there were none.
\<close>

theorem service_scope_resolves_nothing:
  assumes "pr_scope item = service_id row"
    and "\<not> contains (to_lower (service_id row)) ''/apis/''" and "\<not> contains (to_lower (service_id row)) ''/products/''"
  shows "service_id_from_scope (pr_scope item) = [] \<and>
     document_plan av strict d item = document_plan av strict (d\<lparr>rd_services := []\<rparr>) item"
proof -
  have "index_of (to_lower (service_id row)) ''/subscriptions/'' = Some 0"
    by (simp add: service_id_def has_prefix_def index_of.simps)
  moreover have "index_of (to_lower (service_id row)) ''/apis/'' = None" "index_of (to_lower (service_id row)) ''/products/'' = None"
    using assms(2,3) by (simp_all add: contains_def)
  ultimately have cut: "service_id_from_scope (pr_scope item) = []"
    by (simp add: service_id_from_scope_def assms(1))
  then show ?thesis by (simp add: document_plan_def Let_def listed_nowhere)
qed

section \<open>Instances\<close>

text \<open>A service with one API of one operation, and a subscription to the API.\<close>

definition demo_api :: api_row where
  "demo_api = \<lparr>ap_service_id = ''/subscriptions/s/resourceGroups/g/providers/Microsoft.ApiManagement/service/apim'',
     ap_name = ''orders'', ap_path = ''orders'', ap_service_url = ''https://b'', ap_subscription_required = True,
     ap_current = True, ap_version = [], ap_version_set_id = []\<rparr>"

definition demo_service :: service_row where
  "demo_service = \<lparr>sv_subscription = ''s'', sv_resource_group = ''g'', sv_name = ''apim'', sv_document = JObj [],
     sv_version_sets = [], sv_named_values = [(''token'', ''t'')], sv_backends = [], sv_certificates = [],
     sv_fragments = [], sv_gateways = []\<rparr>"

definition demo_data :: "policy_row list \<Rightarrow> runtime_data" where
  "demo_data ps = \<lparr>rd_services = [demo_service], rd_apis = [demo_api],
     rd_operations = [\<lparr>op_api_id = api_id demo_api, op_name = ''get'', op_method = ''GET'', op_template = ''/{id}''\<rparr>],
     rd_links = [], rd_subscriptions = [\<lparr>sn_service_id = ap_service_id demo_api, sn_name = ''sub'',
       sn_scope = api_id demo_api, sn_state = ''active'', sn_primary = ''k1'', sn_secondary = ''k2''\<rparr>],
     rd_policies = ps\<rparr>"

definition demo_activation :: activation_env where
  "demo_activation = \<lparr>av_tokens = (\<lambda>_. []), av_fragment = (\<lambda>_. None),
     av_compile = \<lparr>ce_parse_error = (\<lambda>_. None), ce_rfc3339 = (\<lambda>_. None)\<rparr>, av_error_text = (\<lambda>_. ''syntax''),
     av_protocol = (\<lambda>_ _. Ok None), av_identities = (\<lambda>_. None)\<rparr>"

definition demo_route :: "policy_row list \<Rightarrow> route" where
  "demo_route ps = projr (build_route demo_activation True (demo_data ps) demo_api)"

definition demo_snapshot :: "policy_row list \<Rightarrow> snapshot" where
  "demo_snapshot ps = fill_map sv_name (build_service (demo_data ps) [demo_route ps]) [demo_service]"

definition demo_services :: "policy_row list \<Rightarrow> (string \<times> service) list" where
  "demo_services ps = [(''apim'', build_service (demo_data ps) [demo_route ps] demo_service)]"

definition demo_call :: gateway_request where
  "demo_call = blank_request\<lparr>gr_method := ''GET'', gr_host := ''apim.azure-api.net'',
     gr_headers := header_put ''Ocp-Apim-Subscription-Key'' ''k2'' []\<rparr>"

definition demo_admitted :: "policy_row list \<Rightarrow> admitted" where
  "demo_admitted ps = projr (admit (demo_services ps) [] demo_call ''/orders/7'')"

definition broken_document :: policy_row where
  "broken_document = \<lparr>pr_scope = api_id demo_api, pr_value = ''<policies''\<rparr>"

lemma demo_fields [simp]:
  "rd_services (demo_data ps) = [demo_service]" "rd_apis (demo_data ps) = [demo_api]"
  "sv_name demo_service = ''apim''" "sv_backends demo_service = []" "sv_gateways demo_service = []"
  "sv_document demo_service = JObj []" "ap_version_set_id demo_api = []" "ap_current demo_api" "ap_path demo_api = ''orders''"
  "av_protocol demo_activation = (\<lambda>_ _. Ok None)" "av_identities demo_activation = (\<lambda>_. None)"
  by (simp_all add: demo_data_def demo_service_def demo_api_def demo_activation_def)

lemma demo_service_name [simp]: "service_name_from_id (ap_service_id demo_api) = ''apim''"
  by code_simp

lemma demo_builds: "build_route demo_activation True (demo_data ps) demo_api = Ok (demo_route ps)"
  by (simp add: demo_route_def build_route_def known_service_def Let_def)

lemmas demo_built [simp] = build_routeD [OF demo_builds]

lemma demo_no_versions [simp]: "rt_version_set (demo_route ps) = None"
  by (simp add: demo_route_def build_route_def known_service_def Let_def)

lemma demo_activates:
  "activate demo_activation True False (\<lambda>_. False) (demo_data ps)
     = Ok (policy_failures demo_activation True (demo_data ps), demo_snapshot ps)"
proof -
  have "find (\<lambda>(scope, e). False) xs = None" for xs :: "(string \<times> string) list" by (simp add: find_None_iff)
  then show ?thesis
    by (simp add: activate_def validate_backend_certificates_def demo_builds demo_snapshot_def Let_def)
qed

lemma demo_listed: "lists_snapshot (demo_services ps) (demo_snapshot ps)"
  by (simp add: lists_snapshot_def demo_services_def demo_snapshot_def fill_map_def)

lemma demo_routes: "service_routes [demo_route ps] ''apim'' = [demo_route ps]"
  by (simp add: service_routes_def)

lemma demo_matches: "match_route [demo_route ps] demo_call ''/orders/7'' = Some (demo_route ps, ''/7'')"
proof -
  have "relative_path (trim_slashes ''orders'') (trim_prefix ''/orders/7'' ''/'') = Some ''/7''" by code_simp
  then show ?thesis by (simp add: route_prefix_def)
qed

lemma demo_admits: "admit (demo_services ps) [] demo_call ''/orders/7'' = Ok (demo_admitted ps)"
  and demo_admitted_route: "ad_route (demo_admitted ps) = demo_route ps"
proof -
  let ?s = "build_service (demo_data ps) [demo_route ps] demo_service"
  have s: "se_hostnames ?s = []" "se_gateways ?s = []" "se_certificate_hosts ?s = []" "\<not> se_private ?s"
    "se_routes ?s = [demo_route ps]"
    by (simp_all add: build_service_def Let_def demo_routes custom_hostnames_def client_certificate_hosts_def
        hostname_configurations_def member_of_def items_of_def public_network_access_def equal_fold_def trim_space_def
        List.map_filter_def)
  have "service_from_host (gr_host demo_call) [] = ''apim''" by code_simp
  then have host: "service_for_host (demo_services ps) (gr_host demo_call) [] = (''apim'', None)"
    by (simp add: service_for_host_def demo_services_def s)
  have op: "match_operation (api_operations (demo_data ps) demo_api) (gr_method demo_call) ''/7'' \<noteq> None"
    unfolding api_operations_def demo_data_def by code_simp
  have "key_accepted (demo_data ps) (api_id demo_api) (subscription_key demo_call)"
    unfolding key_accepted_def demo_data_def by code_simp
  then obtain ad where ad: "admit_route ?s [demo_route ps] demo_call ''/orders/7'' = Ok ad" "ad_route ad = demo_route ps"
    using op by (auto simp: admit_route_def demo_matches Let_def simp del: match_route.simps)
  then have "admit (demo_services ps) [] demo_call ''/orders/7'' = Ok ad"
    by (simp add: admit_def host) (simp add: demo_services_def s requires_client_certificate_def to_lower_def)
  then show "admit (demo_services ps) [] demo_call ''/orders/7'' = Ok (demo_admitted ps)"
    and "ad_route (demo_admitted ps) = demo_route ps"
    using ad(2) by (simp_all add: demo_admitted_def)
qed

theorem subscription_enforced_witness:
  "\<exists>sub \<in> set (rd_subscriptions (demo_data [])). \<exists>a \<in> set (rd_apis (demo_data [])).
     subscription_active sub \<and> subscription_key demo_call \<in> {sn_primary sub, sn_secondary sub}
     \<and> to_lower (api_id a) = to_lower (api_id (rt_api (ad_route (demo_admitted [])))) \<and> subscription_allows (demo_data []) sub a"
  by (rule subscription_enforced [OF demo_activates demo_listed demo_admits])
    (simp add: demo_admitted_route demo_api_def)


theorem longest_path_wins_witness:
  "relative_path (trim_slashes (ap_path (rt_api (demo_route [])))) (trim_prefix ''/orders/7'' ''/'') = Some ''/7''"
  using longest_path_wins [of "[demo_route []]" "''apim''" demo_call "''/orders/7''" "demo_route []" "''/7''"]
  by (simp add: demo_routes demo_matches del: match_route.simps)

definition service_document :: policy_row where
  "service_document = \<lparr>pr_scope = service_id demo_service, pr_value = ''{{token}}''\<rparr>"

theorem service_scope_resolves_nothing_witness:
  "service_id_from_scope (pr_scope service_document) = []
     \<and> document_plan demo_activation True (demo_data []) service_document = Err ''named value token was not found''"
proof -
  have "pr_scope service_document = service_id demo_service" "\<not> contains (to_lower (service_id demo_service)) ''/apis/''"
    "\<not> contains (to_lower (service_id demo_service)) ''/products/''"
    by (simp add: service_document_def, code_simp, code_simp)
  from service_scope_resolves_nothing [OF this, of demo_activation True "demo_data []"]
  have cut: "service_id_from_scope (pr_scope service_document) = []"
    "document_plan demo_activation True (demo_data []) service_document
      = document_plan demo_activation True ((demo_data [])\<lparr>rd_services := []\<rparr>) service_document"
    by simp_all
  have "resolve_named_values ''{{token}}'' (fill_map fst snd []) = Err ''named value token was not found''"
    by code_simp
  then have "document_plan demo_activation True ((demo_data [])\<lparr>rd_services := []\<rparr>) service_document
      = Err ''named value token was not found''"
    by (simp add: document_plan_def Let_def listed_nowhere(2) service_document_def bind_result_def)
  then show ?thesis by (intro conjI) (rule cut(1), rule trans [OF cut(2)])
qed

end
