(* ===== verification/GoFloat.thy ===== *)
theory GoFloat
  imports FilterLex
begin

text \<open>
  \<open>float64\<close>: a number is its exact rational value, and every operation is the exact one followed by
  rounding to the nearest double, ties to even.  Zero has a sign.  With it, what the program uses of
  \<open>strconv\<close>: \<open>ParseFloat\<close>, and \<open>FormatFloat\<close> with format \<open>G\<close> and the shortest precision.
\<close>

section \<open>Rounding\<close>

datatype double = Num rat | NegZero | PosInf | NegInf | NaN

fun bit_size :: "nat \<Rightarrow> nat" where
  "bit_size n = (if n = 0 then 0 else Suc (bit_size (n div 2)))"

declare bit_size.simps [simp del]

definition rat_power2 :: "int \<Rightarrow> rat" where
  "rat_power2 e = (if e \<ge> 0 then 2 ^ nat e else inverse (2 ^ nat (- e)))"

text \<open>The exponent of the last of 53 bits of a positive rational; subnormals share the least.\<close>

definition last_place :: "rat \<Rightarrow> int" where
  "last_place q =
     (let (n, d) = quotient_of q;
          e = int (bit_size (nat n)) - int (bit_size (nat d)) - 53;
          e' = (if q \<ge> rat_power2 (e + 53) then e + 1 else e)
      in max (- 1074) e')"

definition half_even :: "rat \<Rightarrow> int" where
  "half_even q =
     (let f = \<lfloor>q\<rfloor>; r = q - of_int f in
      if r < 1 / 2 then f else if r > 1 / 2 then f + 1 else if even f then f else f + 1)"

definition round_positive :: "rat \<Rightarrow> double" where
  "round_positive q =
     (let u = rat_power2 (last_place q); v = of_int (half_even (q / u)) * u in
      if v \<ge> rat_power2 1024 then PosInf else Num v)"

fun negate :: "double \<Rightarrow> double" where
  "negate (Num q) = (if q = 0 then NegZero else Num (- q))"
| "negate NegZero = Num 0"
| "negate PosInf = NegInf"
| "negate NegInf = PosInf"
| "negate NaN = NaN"

definition round_double :: "rat \<Rightarrow> double" where
  "round_double q = (if q = 0 then Num 0 else if q > 0 then round_positive q else negate (round_positive (- q)))"

section \<open>Operations\<close>

definition of_int64 :: "int \<Rightarrow> double" where
  "of_int64 n = round_double (of_int n)"

fun finite_value :: "double \<Rightarrow> rat option" where
  "finite_value (Num q) = Some q"
| "finite_value NegZero = Some 0"
| "finite_value _ = None"

fun negative :: "double \<Rightarrow> bool" where
  "negative (Num q) = (q < 0)"
| "negative NegZero = True"
| "negative NegInf = True"
| "negative _ = False"

definition infinity :: "bool \<Rightarrow> double" where
  "infinity neg = (if neg then NegInf else PosInf)"

definition signed_zero :: "bool \<Rightarrow> double" where
  "signed_zero neg = (if neg then NegZero else Num 0)"

definition double_add :: "double \<Rightarrow> double \<Rightarrow> double" where
  "double_add a b =
     (case (finite_value a, finite_value b) of
        (Some p, Some q) \<Rightarrow> if a = NegZero \<and> b = NegZero then NegZero else round_double (p + q)
      | (None, Some _) \<Rightarrow> a
      | (Some _, None) \<Rightarrow> b
      | (None, None) \<Rightarrow> if a = b then a else NaN)"

definition double_sub :: "double \<Rightarrow> double \<Rightarrow> double" where
  "double_sub a b = double_add a (negate b)"

definition double_mul :: "double \<Rightarrow> double \<Rightarrow> double" where
  "double_mul a b =
     (let neg = (negative a \<noteq> negative b) in
      if a = NaN \<or> b = NaN then NaN
      else case (finite_value a, finite_value b) of
        (Some p, Some q) \<Rightarrow> if p * q = 0 then signed_zero neg
                            else if round_double (p * q) = Num 0 then signed_zero neg else round_double (p * q)
      | (Some p, None) \<Rightarrow> if p = 0 then NaN else infinity neg
      | (None, Some q) \<Rightarrow> if q = 0 then NaN else infinity neg
      | (None, None) \<Rightarrow> infinity neg)"

definition double_div :: "double \<Rightarrow> double \<Rightarrow> double" where
  "double_div a b =
     (let neg = (negative a \<noteq> negative b) in
      if a = NaN \<or> b = NaN then NaN
      else case (finite_value a, finite_value b) of
        (Some p, Some q) \<Rightarrow>
          if q = 0 then (if p = 0 then NaN else infinity neg)
          else if p = 0 then signed_zero neg
          else if round_double (p / q) = Num 0 then signed_zero neg else round_double (p / q)
      | (Some p, None) \<Rightarrow> signed_zero neg
      | (None, Some q) \<Rightarrow> infinity neg
      | (None, None) \<Rightarrow> NaN)"

fun double_less :: "double \<Rightarrow> double \<Rightarrow> bool" where
  "double_less NaN b = False"
| "double_less a NaN = False"
| "double_less PosInf b = False"
| "double_less a NegInf = False"
| "double_less NegInf b = True"
| "double_less a PosInf = True"
| "double_less a b = (the (finite_value a) < the (finite_value b))"

fun double_equal :: "double \<Rightarrow> double \<Rightarrow> bool" where
  "double_equal NaN b = False"
| "double_equal a NaN = False"
| "double_equal a b = (a = b \<or> finite_value a \<noteq> None \<and> finite_value a = finite_value b)"

text \<open>
  The conversion \<open>int64(f)\<close> truncates; outside the range Go leaves the result to the machine, which
  answers the least integer on the platforms the emulator is built for.
\<close>

definition truncate :: "rat \<Rightarrow> int" where
  "truncate q = (if q \<ge> 0 then \<lfloor>q\<rfloor> else \<lceil>q\<rceil>)"

definition to_int64 :: "double \<Rightarrow> int" where
  "to_int64 d =
     (case finite_value d of
        None \<Rightarrow> - (2 ^ 63)
      | Some q \<Rightarrow> let n = truncate q in if - (2 ^ 63) \<le> n \<and> n < 2 ^ 63 then n else - (2 ^ 63))"

section \<open>Reading\<close>

text \<open>Underscores are allowed between digits, or between a digit and a base prefix.\<close>

definition is_hex_digit :: "char \<Rightarrow> bool" where
  "is_hex_digit c \<longleftrightarrow> is_digit c \<or> lower_char c \<in> set ''abcdef''"

fun underscores_ok :: "bool \<Rightarrow> bool \<Rightarrow> bool \<Rightarrow> string \<Rightarrow> bool" where
  "underscores_ok hex after_digit after_us [] = (\<not> after_us)"
| "underscores_ok hex after_digit after_us (c # cs) =
     (if is_digit c \<or> hex \<and> is_hex_digit c then underscores_ok hex True False cs
      else if c = CHR ''_'' then after_digit \<and> underscores_ok hex False True cs
      else \<not> after_us \<and> underscores_ok hex False False cs)"

definition hex_value :: "char \<Rightarrow> nat" where
  "hex_value c = (if is_digit c then digit_value c else of_char (lower_char c) - 87)"

definition hex_digits_value :: "string \<Rightarrow> nat" where
  "hex_digits_value ds = foldl (\<lambda>n c. 16 * n + hex_value c) 0 ds"

text \<open>A hexadecimal mantissa and its binary exponent, after the prefix.\<close>

definition parse_hex_float :: "string \<Rightarrow> rat option" where
  "parse_hex_float s =
     (let whole = takeWhile is_hex_digit s; rest = dropWhile is_hex_digit s;
          frac_part = (case rest of c # cs \<Rightarrow> if c = CHR ''.'' then takeWhile is_hex_digit cs else [] | [] \<Rightarrow> []);
          tail_part = (case rest of c # cs \<Rightarrow> if c = CHR ''.'' then dropWhile is_hex_digit cs else rest | [] \<Rightarrow> [])
      in if whole @ frac_part = [] then None
         else case tail_part of
           c # cs \<Rightarrow>
             if lower_char c = CHR ''p''
             then map_option (\<lambda>e. of_nat (hex_digits_value (whole @ frac_part)) * rat_power2 (e - 4 * int (length frac_part)))
                    (parse_exponent cs)
             else None
         | [] \<Rightarrow> None)"

text \<open>\<open>strconv.ParseFloat(s, 64)\<close>; \<open>None\<close> is any error, a value out of range included.\<close>

definition parse_double :: "string \<Rightarrow> double option" where
  "parse_double s =
     (let (neg, body) = split_sign s; low = to_lower body;
          hex = has_prefix low ''0x'';
          digits = filter (\<lambda>c. c \<noteq> CHR ''_'') (if hex then drop 2 body else body);
          signed = (\<lambda>d. if neg then negate d else d)
      in
      if low \<in> {''inf'', ''infinity''} then Some (infinity neg)
      else if low = ''nan'' then (if body = s then Some NaN else None)
      else if \<not> underscores_ok hex hex False (if hex then drop 2 body else body) then None
      else if split_sign digits \<noteq> (False, digits) then None
      else case (if hex then parse_hex_float digits else parse_float digits) of
        None \<Rightarrow> None
      | Some q \<Rightarrow> (let d = round_double q in if d = PosInf then None else Some (signed d)))"

section \<open>Printing\<close>

text \<open>The digits of a positive integer, and the least number of them that reads back as the double.\<close>

definition scaled :: "rat \<Rightarrow> int \<Rightarrow> rat" where
  "scaled q e = q * rat_power10 (- e)"

text \<open>The decimal exponent: \<open>10 ^ e \<le> q < 10 ^ (e + 1)\<close>, from an estimate by the bits.\<close>

fun decimal_exponent :: "nat \<Rightarrow> rat \<Rightarrow> int \<Rightarrow> int" where
  "decimal_exponent 0 q e = e"
| "decimal_exponent (Suc n) q e =
     (if q < rat_power10 e then decimal_exponent n q (e - 1)
      else if q \<ge> rat_power10 (e + 1) then decimal_exponent n q (e + 1)
      else e)"

definition candidates :: "rat \<Rightarrow> int \<Rightarrow> nat \<Rightarrow> int list" where
  "candidates q e p =
     (let x = scaled q (e - int p + 1); f = \<lfloor>x\<rfloor> in
      if x - of_int f \<le> 1 / 2 then [f, f + 1] else [f + 1, f])"

fun shortest_digits :: "nat \<Rightarrow> nat \<Rightarrow> rat \<Rightarrow> int \<Rightarrow> int \<times> nat" where
  "shortest_digits 0 p q e = (half_even (scaled q (e - int p + 1)), p)"
| "shortest_digits (Suc n) p q e =
     (case find (\<lambda>m. round_double (of_int m * rat_power10 (e - int p + 1)) = Num q) (candidates q e p) of
        Some m \<Rightarrow> (m, p)
      | None \<Rightarrow> shortest_digits n (Suc p) q e)"

definition trim_zeros :: "string \<Rightarrow> string" where
  "trim_zeros ds = rev (dropWhile (\<lambda>c. c = CHR ''0'') (rev ds))"

definition two_digits :: "nat \<Rightarrow> string" where
  "two_digits n = (if n < 10 then CHR ''0'' # itoa n else itoa n)"

text \<open>\<open>%E\<close> below \<open>10 ^ -4\<close> and from \<open>10 ^ 6\<close> on, \<open>%f\<close> in between.\<close>

definition layout_digits :: "string \<Rightarrow> int \<Rightarrow> string" where
  "layout_digits ds e =
     (if e < - 4 \<or> e \<ge> 6 then
        (case ds of
           [] \<Rightarrow> []
         | c # cs \<Rightarrow> (if cs = [] then [c] else c # CHR ''.'' # cs)
                       @ ''E'' @ (if e < 0 then ''-'' else ''+'') @ two_digits (nat \<bar>e\<bar>))
      else if e < 0 then ''0.'' @ replicate (nat (- e) - 1) (CHR ''0'') @ ds
      else if int (length ds) \<le> e + 1 then ds @ replicate (nat (e + 1) - length ds) (CHR ''0'')
      else take (nat (e + 1)) ds @ ''.'' @ drop (nat (e + 1)) ds)"

definition format_positive :: "rat \<Rightarrow> string" where
  "format_positive q =
     (let (n, d) = quotient_of q;
          guess = (int (bit_size (nat n)) - int (bit_size (nat d))) * 30103 div 100000;
          e = decimal_exponent 5 q guess;
          (m, p) = shortest_digits 17 1 q e;
          text' = itoa (nat m)
      in layout_digits (trim_zeros text') (e + int (length text') - int p))"

text \<open>\<open>formatDouble\<close>\<close>

fun format_double :: "double \<Rightarrow> string" where
  "format_double NaN = ''NaN''"
| "format_double PosInf = ''Infinity''"
| "format_double NegInf = ''-Infinity''"
| "format_double NegZero = ''-0''"
| "format_double (Num q) =
     (if q = 0 then ''0'' else if q > 0 then format_positive q else CHR ''-'' # format_positive (- q))"

end
