(* ===== verification/ExprLex.thy ===== *)
theory ExprLex
  imports GoFloat
begin

text \<open>
  The lexer of policy expressions, \<open>internal/expression/lex.go\<close>.  A scanner's position is the rest of
  the source; a function that returns an index returns what follows it.  Bytes are read as UTF-8
  where the code reads runes; which runes above 127 are letters and digits is an argument, the tables
  of the \<open>unicode\<close> package.  The texts of errors are constructors with their arguments.
  \<open>LexFuel\<close> is an exhausted recursion bound, which \<open>expression_lexer_total\<close> shows never to occur.
\<close>

datatype lex_error =
    StringOpen | CommentOpen | WrapperOpen | HoleOpen | BraceUnmatched
  | UnicodeEscapeInvalid | EscapeInvalid nat | CharacterUnexpected nat
  | ExponentInvalid | NumberInvalid | WrapperInvalid | InputAfterExpression
  | LexFuel

datatype form = FormBare | FormExpression | FormBlock

datatype expr_kind =
    TokenEOF | TokenIdent | TokenNumber | TokenString | TokenInterpolated
  | TokenTrue | TokenFalse | TokenNull
  | TokenPlus | TokenMinus | TokenStar | TokenSlash | TokenPercent
  | TokenEq | TokenNe | TokenLt | TokenLe | TokenGt | TokenGe | TokenAnd | TokenOr | TokenNot
  | TokenDot | TokenComma | TokenColon | TokenQuestion
  | TokenQuestionDot | TokenQuestionBracket | TokenCoalesce | TokenAssign | TokenArrow
  | TokenInc | TokenDec
  | TokenLParen | TokenRParen | TokenLBracket | TokenRBracket | TokenLBrace | TokenRBrace
  | TokenSemicolon | TokenReturn | TokenIf | TokenElse | TokenVar | TokenNew

text \<open>The values a literal can have.\<close>

datatype literal = LNull | LBool bool | LInt int | LDouble double | LString string

record expr_token =
  xt_kind :: expr_kind
  xt_lexeme :: string
  xt_literal :: literal

definition keyword_kind :: "string \<Rightarrow> expr_kind option" where
  "keyword_kind = map_of
     [(''true'', TokenTrue), (''false'', TokenFalse), (''null'', TokenNull), (''return'', TokenReturn),
      (''if'', TokenIf), (''else'', TokenElse), (''var'', TokenVar), (''new'', TokenNew)]"

section \<open>Runes\<close>

record unicode =
  uc_letter :: "nat \<Rightarrow> bool"
  uc_digit :: "nat \<Rightarrow> bool"

definition continuation :: "nat \<Rightarrow> nat \<Rightarrow> char \<Rightarrow> bool" where
  "continuation lo hi c \<longleftrightarrow> lo \<le> (of_char c :: nat) \<and> (of_char c :: nat) \<le> hi"

text \<open>\<open>utf8.DecodeRuneInString\<close>: the rune, and how many bytes it has after the first.\<close>

definition decode_rune :: "char \<Rightarrow> string \<Rightarrow> nat \<times> nat" where
  "decode_rune c cs =
     (let b = of_char c; bad = (65533, 0); low = (\<lambda>k. of_char (cs ! k) - 128) in
      if b < 128 then (b, 0)
      else if b < 194 \<or> b > 244 then bad
      else if b < 224 then
        (if cs \<noteq> [] \<and> continuation 128 191 (cs ! 0) then ((b - 192) * 64 + low 0, 1) else bad)
      else if b < 240 then
        (if length cs \<ge> 2 \<and> continuation (if b = 224 then 160 else 128) (if b = 237 then 159 else 191) (cs ! 0)
            \<and> continuation 128 191 (cs ! 1)
         then ((b - 224) * 4096 + low 0 * 64 + low 1, 2) else bad)
      else
        (if length cs \<ge> 3 \<and> continuation (if b = 240 then 144 else 128) (if b = 244 then 143 else 191) (cs ! 0)
            \<and> continuation 128 191 (cs ! 1) \<and> continuation 128 191 (cs ! 2)
         then ((b - 240) * 262144 + low 0 * 4096 + low 1 * 64 + low 2, 3) else bad))"

text \<open>\<open>string(rune(n))\<close> for a rune of 16 bits; a surrogate is not a rune.\<close>

definition encode_rune :: "nat \<Rightarrow> string" where
  "encode_rune n =
     (if n < 128 then [char_of n]
      else if n < 2048 then [char_of (192 + n div 64), char_of (128 + n mod 64)]
      else if 55296 \<le> n \<and> n < 57344 then [CHR 0xEF, CHR 0xBF, CHR 0xBD]
      else [char_of (224 + n div 4096), char_of (128 + n div 64 mod 64), char_of (128 + n mod 64)])"

definition is_space_rune :: "nat \<Rightarrow> bool" where
  "is_space_rune r \<longleftrightarrow> 9 \<le> r \<and> r \<le> 13 \<or> 8192 \<le> r \<and> r \<le> 8202
     \<or> r \<in> set [32, 133, 160, 5760, 8232, 8233, 8239, 8287, 12288]"

definition is_letter_rune :: "unicode \<Rightarrow> nat \<Rightarrow> bool" where
  "is_letter_rune uc r \<longleftrightarrow> 65 \<le> r \<and> r \<le> 90 \<or> 97 \<le> r \<and> r \<le> 122 \<or> 128 \<le> r \<and> uc_letter uc r"

definition is_digit_rune :: "unicode \<Rightarrow> nat \<Rightarrow> bool" where
  "is_digit_rune uc r \<longleftrightarrow> 48 \<le> r \<and> r \<le> 57 \<or> 128 \<le> r \<and> uc_digit uc r"

section \<open>Strings and comments\<close>

definition next_byte :: "string \<Rightarrow> char" where
  "next_byte s = (case s of [] \<Rightarrow> CHR 0x00 | c # _ \<Rightarrow> c)"

definition line_break :: "char \<Rightarrow> bool" where
  "line_break c \<longleftrightarrow> c = CHR 0x0A \<or> c = CHR 0x0D"

text \<open>\<open>skipString\<close>, after the opening quote.\<close>

fun skip_string :: "char \<Rightarrow> bool \<Rightarrow> string \<Rightarrow> (lex_error, string) result" where
  "skip_string q verbatim [] = Err StringOpen"
| "skip_string q verbatim (c # cs) =
     (if c = q then
        (if verbatim \<and> next_byte cs = CHR 0x22 then skip_string q verbatim (tl cs) else Ok cs)
      else if \<not> verbatim \<and> c = CHR 0x5C then
        (if cs = [] then Err StringOpen else skip_string q verbatim (tl cs))
      else if \<not> verbatim \<and> line_break c then Err StringOpen
      else skip_string q verbatim cs)"

fun block_comment :: "string \<Rightarrow> (lex_error, string) result" where
  "block_comment (a # b # s) = (if a = CHR ''*'' \<and> b = CHR ''/'' then Ok s else block_comment (b # s))"
| "block_comment _ = Err CommentOpen"

text \<open>\<open>skipComment\<close>: the source itself when there is none.\<close>

definition skip_comment :: "string \<Rightarrow> (lex_error, string) result" where
  "skip_comment s =
     (case tl s of
        c # cs \<Rightarrow>
          if c = CHR ''/'' then Ok (dropWhile (\<lambda>c. c \<noteq> CHR 0x0A) cs)
          else if c = CHR ''*'' then block_comment cs
          else Ok s
      | [] \<Rightarrow> Ok s)"

definition decode_escape :: "string \<Rightarrow> (lex_error, string \<times> nat) result" where
  "decode_escape s =
     (case s of
        [] \<Rightarrow> Err (EscapeInvalid 65533)
      | c # cs \<Rightarrow>
          if c = CHR ''n'' then Ok ([CHR 0x0A], 1)
          else if c = CHR ''r'' then Ok ([CHR 0x0D], 1)
          else if c = CHR ''t'' then Ok ([CHR 0x09], 1)
          else if c = CHR ''0'' then Ok ([CHR 0x00], 1)
          else if c = CHR 0x5C \<or> c = CHR 0x22 \<or> c = CHR 0x27 then Ok ([c], 1)
          else if c = CHR ''u'' then
            (if length s < 5 \<or> \<not> list_all is_hex_digit (take 4 cs) then Err UnicodeEscapeInvalid
             else Ok (encode_rune (hex_digits_value (take 4 cs)), 5))
          else Err (EscapeInvalid (fst (decode_rune c cs))))"

section \<open>Wrappers and interpolation\<close>

text \<open>
  \<open>matchingCloser\<close> and \<open>splitInterpolation\<close> call each other: what follows the closer, and the parts
  of an interpolated string with what follows its closing quote.
\<close>

datatype part = PartText string | PartHole string

definition flush :: "string \<Rightarrow> part list \<Rightarrow> part list" where
  "flush lit ps = (if lit = [] then ps else PartText lit # ps)"

definition consumed :: "string \<Rightarrow> string \<Rightarrow> string" where
  "consumed s rest = take (length s - length rest) s"

fun matching_closer :: "nat \<Rightarrow> char \<Rightarrow> char \<Rightarrow> int \<Rightarrow> string \<Rightarrow> (lex_error, string) result"
and split_interpolation :: "nat \<Rightarrow> string \<Rightarrow> string \<Rightarrow> (lex_error, part list \<times> string) result" where
  "matching_closer 0 l r d s = Err LexFuel"
| "matching_closer (Suc n) l r d s =
     (case s of
        [] \<Rightarrow> Err WrapperOpen
      | c # cs \<Rightarrow>
          if c = l then matching_closer n l r (d + 1) cs
          else if c = r then (if d = 1 then Ok cs else matching_closer n l r (d - 1) cs)
          else if c = CHR 0x22 \<or> c = CHR 0x27 then
            (case skip_string c False cs of Inl e \<Rightarrow> Err e | Inr rest \<Rightarrow> matching_closer n l r d rest)
          else if c = CHR ''$'' \<and> next_byte cs = CHR 0x22 then
            (case split_interpolation n [] (tl cs) of
               Inl e \<Rightarrow> Err e | Inr (ps, rest) \<Rightarrow> matching_closer n l r d rest)
          else if c = CHR ''@'' \<and> next_byte cs = CHR 0x22 then
            (case skip_string (CHR 0x22) True (tl cs) of Inl e \<Rightarrow> Err e | Inr rest \<Rightarrow> matching_closer n l r d rest)
          else if c = CHR ''/'' then
            (case skip_comment s of
               Inl e \<Rightarrow> Err e
             | Inr rest \<Rightarrow> matching_closer n l r d (if rest = s then cs else rest))
          else matching_closer n l r d cs)"
| "split_interpolation 0 lit s = Err LexFuel"
| "split_interpolation (Suc n) lit s =
     (case s of
        [] \<Rightarrow> Err StringOpen
      | c # cs \<Rightarrow>
          if c = CHR 0x22 then Ok (flush lit [], cs)
          else if c = CHR ''{'' then
            (if next_byte cs = CHR ''{'' then split_interpolation n (lit @ ''{'') (tl cs)
             else (case matching_closer n (CHR ''{'') (CHR ''}'') 0 s of
                     Inl e \<Rightarrow> Err (if e = LexFuel then LexFuel else HoleOpen)
                   | Inr rest \<Rightarrow>
                       (case split_interpolation n [] rest of
                          Inl e \<Rightarrow> Err e
                        | Inr (ps, after) \<Rightarrow>
                            Ok (flush lit (PartHole (butlast (consumed cs rest)) # ps), after))))
          else if c = CHR ''}'' then
            (if next_byte cs = CHR ''}'' then split_interpolation n (lit @ ''}'') (tl cs) else Err BraceUnmatched)
          else if c = CHR 0x5C then
            (if cs = [] then Err StringOpen
             else (case decode_escape cs of
                     Inl e \<Rightarrow> Err e
                   | Inr (text', w) \<Rightarrow> split_interpolation n (lit @ text') (drop w cs)))
          else if line_break c then Err StringOpen
          else split_interpolation n (lit @ [c]) cs)"

declare matching_closer.simps(2) [simp del] split_interpolation.simps(2) [simp del]

section \<open>Tokens\<close>

type_synonym scanned = "(lex_error, expr_token \<times> string) result"

definition symbol :: "expr_kind \<Rightarrow> string \<Rightarrow> string \<Rightarrow> scanned" where
  "symbol k lexeme rest = Ok (\<lparr>xt_kind = k, xt_lexeme = lexeme, xt_literal = LNull\<rparr>, rest)"

text \<open>A symbol of one byte, or of two when the second is \<open>d\<close>.\<close>

definition one_or_two :: "char \<Rightarrow> string \<Rightarrow> expr_kind \<Rightarrow> char \<Rightarrow> expr_kind \<Rightarrow> scanned" where
  "one_or_two c cs k1 d k2 = (if next_byte cs = d then symbol k2 [c, d] (tl cs) else symbol k1 [c] cs)"

function ident_part :: "unicode \<Rightarrow> string \<Rightarrow> string \<times> string" where
  "ident_part uc [] = ([], [])"
| "ident_part uc (c # cs) =
     (case decode_rune c cs of
        (r, w) \<Rightarrow>
          if r = 95 \<or> is_letter_rune uc r \<or> is_digit_rune uc r
          then (case ident_part uc (drop w cs) of (name, rest) \<Rightarrow> (c # take w cs @ name, rest))
          else ([], c # cs))"
  by pat_completeness auto

termination by (relation "measure (\<lambda>(uc, s). length s)") auto

definition scan_ident :: "unicode \<Rightarrow> string \<Rightarrow> scanned" where
  "scan_ident uc s =
     (case ident_part uc s of
        (name, rest) \<Rightarrow>
          (case keyword_kind name of
             None \<Rightarrow> symbol TokenIdent name rest
           | Some k \<Rightarrow>
               Ok (\<lparr>xt_kind = k, xt_lexeme = name,
                    xt_literal = (if k = TokenTrue then LBool True else if k = TokenFalse then LBool False else LNull)\<rparr>, rest)))"

text \<open>The exponent of a number: its text, and the error of one without digits.\<close>

definition exponent_part :: "string \<Rightarrow> (lex_error, string) result" where
  "exponent_part s =
     (if next_byte s = CHR ''e'' \<or> next_byte s = CHR ''E'' then
        let signed = (next_byte (tl s) = CHR ''+'' \<or> next_byte (tl s) = CHR ''-'');
            digits = (if signed then drop 2 s else drop 1 s) in
        if \<not> is_digit (next_byte digits) then Err ExponentInvalid
        else Ok (take (if signed then 2 else 1) s @ takeWhile is_digit digits)
      else Ok [])"

definition scan_number :: "string \<Rightarrow> scanned" where
  "scan_number s =
     (let point = (next_byte s = CHR ''.'');
          s1 = (if point then tl s else s);
          whole = takeWhile is_digit s1;
          s2 = dropWhile is_digit s1;
          more_digits = (next_byte s2 = CHR ''.'' \<and> is_digit (next_byte (tl s2)));
          fraction = (if more_digits then CHR ''.'' # takeWhile is_digit (tl s2) else []);
          s3 = (if more_digits then dropWhile is_digit (tl s2) else s2)
      in case exponent_part s3 of
           Inl e \<Rightarrow> Err e
         | Inr ex \<Rightarrow>
             (let lexeme = (if point then ''.'' else []) @ whole @ fraction @ ex; rest = drop (length ex) s3 in
              if point \<or> more_digits \<or> ex \<noteq> [] then
                Ok (\<lparr>xt_kind = TokenNumber, xt_lexeme = lexeme,
                     xt_literal = LDouble (case parse_float lexeme of Some q \<Rightarrow> round_double q | None \<Rightarrow> Num 0)\<rparr>, rest)
              else (case parse_int 64 lexeme of
                      None \<Rightarrow> Err NumberInvalid
                    | Some v \<Rightarrow> Ok (\<lparr>xt_kind = TokenNumber, xt_lexeme = lexeme, xt_literal = LInt v\<rparr>, rest))))"

text \<open>\<open>scanString\<close>, after the opening quote: the body and the rest.\<close>

fun string_body :: "char \<Rightarrow> bool \<Rightarrow> string \<Rightarrow> (lex_error, string \<times> string) result" where
  "string_body q verbatim [] = Err StringOpen"
| "string_body q verbatim (c # cs) =
     (if c = q then
        (if verbatim \<and> next_byte cs = CHR 0x22
         then (case string_body q verbatim (tl cs) of Inl e \<Rightarrow> Err e | Inr (b, rest) \<Rightarrow> Ok (CHR 0x22 # b, rest))
         else Ok ([], cs))
      else if verbatim then (case string_body q verbatim cs of Inl e \<Rightarrow> Err e | Inr (b, rest) \<Rightarrow> Ok (c # b, rest))
      else if line_break c then Err StringOpen
      else if c \<noteq> CHR 0x5C then (case string_body q verbatim cs of Inl e \<Rightarrow> Err e | Inr (b, rest) \<Rightarrow> Ok (c # b, rest))
      else if cs = [] then Err StringOpen
      else (case decode_escape cs of
              Inl e \<Rightarrow> Err e
            | Inr (t, w) \<Rightarrow>
                (case string_body q verbatim (drop w cs) of Inl e \<Rightarrow> Err e | Inr (b, rest) \<Rightarrow> Ok (t @ b, rest))))"

definition scan_string :: "string \<Rightarrow> char \<Rightarrow> bool \<Rightarrow> scanned" where
  "scan_string s q verbatim =
     (case string_body q verbatim (tl s) of
        Inl e \<Rightarrow> Err e
      | Inr (b, rest) \<Rightarrow> Ok (\<lparr>xt_kind = TokenString, xt_lexeme = consumed s rest, xt_literal = LString b\<rparr>, rest))"

definition scan_interpolated :: "string \<Rightarrow> scanned" where
  "scan_interpolated s =
     (case split_interpolation (2 * length s) [] (drop 2 s) of
        Inl e \<Rightarrow> Err e
      | Inr (ps, rest) \<Rightarrow> symbol TokenInterpolated (consumed s rest) rest)"

definition next_token :: "unicode \<Rightarrow> string \<Rightarrow> scanned" where
  "next_token uc s =
     (let c = next_byte s; cs = tl s; (r, w) = decode_rune c cs in
      if c = CHR ''+'' then one_or_two c cs TokenPlus (CHR ''+'') TokenInc
      else if c = CHR ''-'' then one_or_two c cs TokenMinus (CHR ''-'') TokenDec
      else if c = CHR ''*'' then symbol TokenStar ''*'' cs
      else if c = CHR ''/'' then symbol TokenSlash ''/'' cs
      else if c = CHR ''%'' then symbol TokenPercent ''%'' cs
      else if c = CHR ''='' then
        (if next_byte cs = CHR ''='' then symbol TokenEq ''=='' (tl cs)
         else if next_byte cs = CHR ''>'' then symbol TokenArrow ''=>'' (tl cs)
         else symbol TokenAssign ''='' cs)
      else if c = CHR ''!'' then one_or_two c cs TokenNot (CHR ''='') TokenNe
      else if c = CHR ''<'' then one_or_two c cs TokenLt (CHR ''='') TokenLe
      else if c = CHR ''>'' then one_or_two c cs TokenGt (CHR ''='') TokenGe
      else if c = CHR ''&'' then
        (if next_byte cs \<noteq> CHR ''&'' then Err (CharacterUnexpected r) else symbol TokenAnd ''&&'' (tl cs))
      else if c = CHR ''|'' then
        (if next_byte cs \<noteq> CHR ''|'' then Err (CharacterUnexpected r) else symbol TokenOr ''||'' (tl cs))
      else if c = CHR ''.'' then (if is_digit (next_byte cs) then scan_number s else symbol TokenDot ''.'' cs)
      else if c = CHR '','' then symbol TokenComma '','' cs
      else if c = CHR '':'' then symbol TokenColon '':'' cs
      else if c = CHR ''?'' then
        (if next_byte cs = CHR ''.'' then symbol TokenQuestionDot ''?.'' (tl cs)
         else if next_byte cs = CHR ''['' then symbol TokenQuestionBracket ''?['' (tl cs)
         else if next_byte cs = CHR ''?'' then symbol TokenCoalesce ''??'' (tl cs)
         else symbol TokenQuestion ''?'' cs)
      else if c = CHR ''('' then symbol TokenLParen ''('' cs
      else if c = CHR '')'' then symbol TokenRParen '')'' cs
      else if c = CHR ''['' then symbol TokenLBracket ''['' cs
      else if c = CHR '']'' then symbol TokenRBracket '']'' cs
      else if c = CHR ''{'' then symbol TokenLBrace ''{'' cs
      else if c = CHR ''}'' then symbol TokenRBrace ''}'' cs
      else if c = CHR '';'' then symbol TokenSemicolon '';'' cs
      else if c = CHR 0x22 \<or> c = CHR 0x27 then scan_string s c False
      else if c = CHR ''@'' then
        (if next_byte cs = CHR 0x22 then scan_string cs (CHR 0x22) True else Err (CharacterUnexpected r))
      else if c = CHR ''$'' then
        (if next_byte cs = CHR 0x22 then scan_interpolated s else Err (CharacterUnexpected r))
      else if is_digit c then scan_number s
      else if r = 95 \<or> is_letter_rune uc r then scan_ident uc s
      else Err (CharacterUnexpected r))"

lemma block_comment_shorter: "block_comment s = Ok rest \<Longrightarrow> length rest < length s"
  by (induction s rule: block_comment.induct) (auto split: if_splits)

lemma skip_comment_shorter: "skip_comment s = Ok rest \<Longrightarrow> rest \<noteq> s \<Longrightarrow> length rest < length s"
proof -
  assume *: "skip_comment s = Ok rest" "rest \<noteq> s"
  then obtain c cs where s: "tl s = c # cs" by (auto simp: skip_comment_def split: list.splits)
  then have "length cs + 2 = length s" by (cases s) auto
  moreover have "length rest \<le> length cs"
    using * s block_comment_shorter [of cs rest] length_dropWhile_le [of "\<lambda>c. c \<noteq> CHR 0x0A" cs]
    by (auto simp: skip_comment_def split: if_splits)
  ultimately show ?thesis by simp
qed

function skip_space :: "string \<Rightarrow> (lex_error, string) result" where
  "skip_space [] = Ok []"
| "skip_space (c # cs) =
     (case decode_rune c cs of
        (r, w) \<Rightarrow>
          if is_space_rune r then skip_space (drop w cs)
          else if c \<noteq> CHR ''/'' then Ok (c # cs)
          else (case skip_comment (c # cs) of
                  Inl e \<Rightarrow> Err e
                | Inr rest \<Rightarrow> if rest = c # cs then Ok (c # cs) else skip_space rest))"
  by pat_completeness auto

termination by (relation "measure length") (auto dest: skip_comment_shorter)

definition eof_token :: expr_token where
  "eof_token = \<lparr>xt_kind = TokenEOF, xt_lexeme = [], xt_literal = LNull\<rparr>"

fun scan_tokens :: "nat \<Rightarrow> unicode \<Rightarrow> string \<Rightarrow> (lex_error, expr_token list) result" where
  "scan_tokens 0 uc s = Err LexFuel"
| "scan_tokens (Suc n) uc s =
     (case skip_space s of
        Inl e \<Rightarrow> Err e
      | Inr s' \<Rightarrow>
          if s' = [] then Ok [eof_token]
          else (case next_token uc s' of
                  Inl e \<Rightarrow> Err e
                | Inr (t, rest) \<Rightarrow>
                    (case scan_tokens n uc rest of Inl e \<Rightarrow> Err e | Inr ts \<Rightarrow> Ok (t # ts))))"

definition scan :: "unicode \<Rightarrow> string \<Rightarrow> (lex_error, expr_token list) result" where
  "scan uc s = scan_tokens (Suc (length s)) uc s"

text \<open>The inside of a wrapper: \<open>s\<close> begins with \<open>@\<close> and the opener.\<close>

definition unwrap :: "char \<Rightarrow> char \<Rightarrow> string \<Rightarrow> (lex_error, string) result" where
  "unwrap l r s =
     (case matching_closer (2 * length s) l r 0 (tl s) of
        Inl e \<Rightarrow> Err e
      | Inr rest \<Rightarrow>
          if trim_space rest \<noteq> [] then Err InputAfterExpression
          else Ok (butlast (drop 2 (consumed s rest))))"

definition lex :: "unicode \<Rightarrow> string \<Rightarrow> (lex_error, expr_token list \<times> form) result" where
  "lex uc source =
     (let s = trim_space source in
      if has_prefix s ''@('' then
        (case unwrap (CHR ''('') (CHR '')'') s of
           Inl e \<Rightarrow> Err e | Inr inner \<Rightarrow> map_sum (\<lambda>e. e) (\<lambda>ts. (ts, FormExpression)) (scan uc inner))
      else if has_prefix s [CHR ''@'', CHR 0x7B] then
        (case unwrap (CHR ''{'') (CHR ''}'') s of
           Inl e \<Rightarrow> Err e | Inr inner \<Rightarrow> map_sum (\<lambda>e. e) (\<lambda>ts. (ts, FormBlock)) (scan uc inner))
      else if has_prefix s ''@'' then Err WrapperInvalid
      else map_sum (\<lambda>e. e) (\<lambda>ts. (ts, FormBare)) (scan uc s))"

end
