(* ===== verification/ExprScan.thy ===== *)
theory ExprScan
  imports ExprLex
begin

text \<open>
  The lexer of policy expressions returns on every input; it finds the end of a wrapper or of an
  interpolated string from the text inside alone; and a quoted string reads back as the string.
\<close>

section \<open>Progress\<close>

lemma skip_string_shorter: "skip_string q v s = Ok rest \<Longrightarrow> length rest < length s"
  by (induction q v s rule: skip_string.induct) (force split: if_splits)+

lemma closer_shorter:
  "matching_closer n l r d s = Ok rest \<Longrightarrow> length rest < length s"
  "split_interpolation n lit s = Ok (ps, rest') \<Longrightarrow> length rest' < length s"
proof (induction n arbitrary: l r d s rest lit ps rest')
  case (Suc n)
  {
    case 1
    obtain c cs where s: "s = c # cs" using 1 by (auto simp: matching_closer.simps split: list.splits)
    show ?case
      using 1 skip_comment_shorter [of s] unfolding s
      by (auto simp: matching_closer.simps split: if_splits sum.splits prod.splits dest!: Suc.IH skip_string_shorter)
  next
    case 2
    then obtain c cs where s: "s = c # cs" by (auto simp: split_interpolation.simps split: list.splits)
    show ?case
      using 2 unfolding s
      by (auto simp: split_interpolation.simps split: if_splits sum.splits prod.splits dest!: Suc.IH)
  }
qed simp_all

lemma skip_string_error: "skip_string q v s \<noteq> Err LexFuel"
  by (induction q v s rule: skip_string.induct) (auto split: if_splits)

lemma block_comment_error: "block_comment s \<noteq> Err LexFuel"
  by (induction s rule: block_comment.induct) (auto split: if_splits)

lemma skip_comment_error: "skip_comment s \<noteq> Err LexFuel"
  by (auto simp: skip_comment_def block_comment_error split: list.splits)

lemma decode_escape_error: "decode_escape s \<noteq> Err LexFuel"
  by (auto simp: decode_escape_def split: list.splits if_splits)

lemmas no_fuel = skip_string_error block_comment_error skip_comment_error decode_escape_error

lemma closer_fuel:
  "matching_closer n l r d s = Err LexFuel \<Longrightarrow> n \<le> 2 * length s"
  "split_interpolation n lit s = Err LexFuel \<Longrightarrow> n \<le> 2 * length s + 1"
proof (induction n arbitrary: l r d s lit)
  case (Suc n)
  {
    case 1
    then obtain c cs where s: "s = c # cs" by (auto simp: matching_closer.simps split: list.splits)
    show ?case
      using 1 skip_comment_shorter [of s] unfolding s
      by (auto simp: no_fuel matching_closer.simps split: if_splits sum.splits prod.splits
          dest!: Suc.IH skip_string_shorter closer_shorter)
  next
    case 2
    then obtain c cs where s: "s = c # cs" by (auto simp: split_interpolation.simps split: list.splits)
    show ?case
      using 2 unfolding s
      by (auto simp: no_fuel split_interpolation.simps split: if_splits sum.splits prod.splits dest!: Suc.IH closer_shorter)
  }
qed simp_all

lemma unwrap_error: "s \<noteq> [] \<Longrightarrow> unwrap l r s \<noteq> Err LexFuel"
  using closer_fuel(1) [of "2 * length s" l r 0 "tl s"]
  by (cases s) (auto simp: unwrap_def split: sum.splits)

section \<open>Tokens\<close>

lemma symbol_Ok [simp]: "symbol k lexeme rest = Ok (t, r) \<longleftrightarrow> t = \<lparr>xt_kind = k, xt_lexeme = lexeme, xt_literal = LNull\<rparr> \<and> r = rest"
  by (auto simp: symbol_def)

lemma symbol_Err [simp]: "symbol k lexeme rest \<noteq> Err e"
  by (simp add: symbol_def)

lemma ident_part_append: "ident_part uc s = (name, rest) \<Longrightarrow> s = name @ rest"
  by (induction uc s arbitrary: name rule: ident_part.induct)
    (auto split: prod.splits if_splits, (metis append_take_drop_id)+)

lemma string_body_shorter: "string_body q v s = Ok (b, rest) \<Longrightarrow> length rest < length s"
  by (induction q v s arbitrary: b rule: string_body.induct) (force split: if_splits sum.splits prod.splits)+

lemma string_body_error: "string_body q v s \<noteq> Err LexFuel"
  by (induction q v s rule: string_body.induct) (auto simp: no_fuel split: if_splits sum.splits prod.splits)

text \<open>A token takes its text off the source.\<close>

definition takes_text :: "string \<Rightarrow> scanned \<Rightarrow> bool" where
  "takes_text s r \<longleftrightarrow> r \<noteq> Err LexFuel \<and>
     (\<forall>t rest. r = Ok (t, rest) \<longrightarrow>
        xt_kind t \<noteq> TokenEOF \<and> xt_lexeme t \<noteq> [] \<and> length (xt_lexeme t) + length rest \<le> length s)"

lemma takes_text_symbol:
  "lexeme \<noteq> [] \<Longrightarrow> length lexeme + length rest \<le> length s \<Longrightarrow> k \<noteq> TokenEOF \<Longrightarrow> takes_text s (symbol k lexeme rest)"
  by (simp add: takes_text_def)

lemma takes_text_Err [simp]: "takes_text s (Err e) \<longleftrightarrow> e \<noteq> LexFuel"
  by (simp add: takes_text_def)

lemma takes_text_if: "(b \<Longrightarrow> takes_text s x) \<Longrightarrow> (\<not> b \<Longrightarrow> takes_text s y) \<Longrightarrow> takes_text s (if b then x else y)"
  by simp

lemma next_byte_simps [simp]: "next_byte [] = CHR 0x00" "next_byte (c # cs) = c"
  by (simp_all add: next_byte_def)

lemma next_byte_Cons: "next_byte s = d \<Longrightarrow> d \<noteq> CHR 0x00 \<Longrightarrow> \<exists>t. s = d # t"
  by (cases s) auto

lemma takes_text_one_or_two:
  "d \<noteq> CHR 0x00 \<Longrightarrow> k1 \<noteq> TokenEOF \<Longrightarrow> k2 \<noteq> TokenEOF \<Longrightarrow> takes_text (c # cs) (one_or_two c cs k1 d k2)"
  by (cases cs) (auto simp: one_or_two_def takes_text_def)

lemma consumed_append: "consumed (pre @ rest) rest = pre"
  by (simp add: consumed_def)

lemma takes_text_consumed:
  assumes "length rest < length s" and "k \<noteq> TokenEOF"
  shows "takes_text s (Ok (\<lparr>xt_kind = k, xt_lexeme = consumed s rest, xt_literal = v\<rparr>, rest))"
  using assms by (auto simp: takes_text_def consumed_def)

lemma takes_text_string: "takes_text (c # cs) (scan_string (c # cs) q v)"
  by (auto simp: scan_string_def string_body_error split: sum.splits prod.splits
      intro!: takes_text_consumed dest!: string_body_shorter)

lemma takes_text_interpolated: "2 \<le> length s \<Longrightarrow> takes_text s (scan_interpolated s)"
  using closer_fuel(2) [of "2 * length s" "[]" "drop 2 s"]
  by (auto simp: scan_interpolated_def symbol_def split: sum.splits prod.splits
      intro!: takes_text_consumed dest!: closer_shorter)

lemma takes_text_ident:
  assumes "r = 95 \<or> is_letter_rune uc r" and "decode_rune c cs = (r, w)"
  shows "takes_text (c # cs) (scan_ident uc (c # cs))"
proof -
  obtain name rest where id: "ident_part uc (c # cs) = (name, rest)" by fastforce
  then have "name \<noteq> []" using assms by (auto split: prod.splits)
  moreover have "c # cs = name @ rest" using id by (rule ident_part_append)
  then have "length name + length rest = length (c # cs)" by simp
  moreover have "k \<noteq> TokenEOF" if "keyword_kind name = Some k" for k
    using that by (auto simp: keyword_kind_def split: if_splits)
  ultimately show ?thesis
    by (auto simp: scan_ident_def id takes_text_def simp del: ident_part.simps split: option.splits)
qed

lemma digits_rest: "takeWhile P s @ drop (length (takeWhile P s)) s = s"
  by (metis dropWhile_eq_drop takeWhile_dropWhile_id)

lemma take_digits_rest:
  assumes "k < length s"
  shows "(take k s @ takeWhile P (drop k s)) @ drop (length (take k s @ takeWhile P (drop k s))) s = s"
proof -
  have *: "drop (length (take k s @ takeWhile P (drop k s))) s = drop (length (takeWhile P (drop k s))) (drop k s)"
    using assms by (simp add: add.commute)
  show ?thesis unfolding * append_assoc digits_rest by simp
qed

lemma digit_present: "is_digit (next_byte (drop k s)) \<Longrightarrow> k < length s"
  by (cases "k < length s") (auto simp: is_digit_def next_byte_def)

lemma exponent_part_append: "exponent_part s = Ok ex \<Longrightarrow> ex @ drop (length ex) s = s"
  using take_digits_rest [of 1 s is_digit] take_digits_rest [of 2 s is_digit]
    digit_present [of 1 s] digit_present [of 2 s]
  by (simp only: exponent_part_def Let_def split: if_splits) (auto simp: numeral_2_eq_2)

lemma exponent_part_error: "exponent_part s \<noteq> Err LexFuel"
  by (simp add: exponent_part_def Let_def)

lemma append_chain: "a @ s1 = s \<Longrightarrow> w @ s2 = s1 \<Longrightarrow> f @ s3 = s2 \<Longrightarrow> e @ r = s3 \<Longrightarrow> (a @ w @ f @ e) @ r = s"
  by auto

lemma scan_number_text:
  "scan_number s \<noteq> Err LexFuel"
  "scan_number s = Ok (t, rest) \<Longrightarrow> xt_lexeme t @ rest = s \<and> xt_kind t = TokenNumber"
proof -
  show "scan_number s \<noteq> Err LexFuel"
    by (auto simp: scan_number_def Let_def exponent_part_error split: sum.splits option.splits)
  let ?point = "next_byte s = CHR ''.''"
  let ?s1 = "if ?point then tl s else s"
  let ?s2 = "dropWhile is_digit ?s1"
  let ?more = "next_byte ?s2 = CHR ''.'' \<and> is_digit (next_byte (tl ?s2))"
  let ?fraction = "if ?more then CHR ''.'' # takeWhile is_digit (tl ?s2) else []"
  let ?s3 = "if ?more then dropWhile is_digit (tl ?s2) else ?s2"
  assume "scan_number s = Ok (t, rest)"
  then obtain ex where ex: "exponent_part ?s3 = Ok ex"
    and t: "xt_lexeme t = (if ?point then ''.'' else []) @ takeWhile is_digit ?s1 @ ?fraction @ ex"
      "rest = drop (length ex) ?s3" "xt_kind t = TokenNumber"
    unfolding scan_number_def Let_def by (auto split: sum.splits option.splits if_splits)
  have "ex @ rest = ?s3" using exponent_part_append [OF ex] unfolding t(2) .
  moreover have "?fraction @ ?s3 = ?s2"
  proof (cases ?more)
    case True
    then have "?s2 = CHR ''.'' # tl ?s2" by (cases ?s2) auto
    moreover have "?fraction @ ?s3 = CHR ''.'' # tl ?s2" unfolding if_P [OF True] by simp
    ultimately show ?thesis by (rule trans [OF _ sym, rotated])
  next
    case False
    show ?thesis unfolding if_not_P [OF False] by simp
  qed
  moreover have "takeWhile is_digit ?s1 @ ?s2 = ?s1" by simp
  moreover have "(if ?point then ''.'' else []) @ ?s1 = s" by (cases s) auto
  ultimately have "xt_lexeme t @ rest = s" unfolding t(1) by (intro append_chain)
  then show "xt_lexeme t @ rest = s \<and> xt_kind t = TokenNumber" using t(3) by simp
qed

lemma takes_text_number:
  assumes "is_digit c \<or> c = CHR ''.'' \<and> is_digit (next_byte cs)"
  shows "takes_text (c # cs) (scan_number (c # cs))"
proof -
  have "xt_lexeme t \<noteq> []" if "scan_number (c # cs) = Ok (t, rest)" for t rest
    using that assms unfolding scan_number_def Let_def by (auto split: sum.splits option.splits if_splits)
  moreover have "length (xt_lexeme t) + length rest = length (c # cs)" if "scan_number (c # cs) = Ok (t, rest)" for t rest
    using scan_number_text(2) [OF that] length_append [of "xt_lexeme t" rest] by simp
  ultimately show ?thesis
    using scan_number_text by (auto simp: takes_text_def)
qed

lemma next_token_takes: "takes_text (c # cs) (next_token uc (c # cs))"
proof -
  obtain r w where rw: "decode_rune c cs = (r, w)" by fastforce
  have tl: "1 + length (tl cs) = length cs" if "next_byte cs = d" "d \<noteq> CHR 0x00" for d
    using that by (cases cs) auto
  have verbatim: "takes_text (c # cs) (scan_string cs q v)" if "cs \<noteq> []" for q v
    using takes_text_string [of "hd cs" "tl cs" q v] that by (auto simp: takes_text_def)
  show ?thesis
    unfolding next_token_def Let_def next_byte_simps list.sel rw prod.case
    by (intro takes_text_if takes_text_one_or_two takes_text_symbol takes_text_string
        takes_text_interpolated takes_text_ident [OF _ rw] takes_text_number verbatim) (cases cs; simp)+
qed

lemma skip_space_text:
  "skip_space s \<noteq> Err LexFuel"
  "skip_space s = Ok s' \<Longrightarrow> length s' \<le> length s"
proof (induction s rule: skip_space.induct)
  case (2 c cs)
  obtain r w where rw: "decode_rune c cs = (r, w)" by fastforce
  note IH = "2.IH" [OF rw [symmetric]]
  {
    case 1
    show ?case using IH rw by (auto simp: no_fuel split: sum.splits)
  next
    case 2
    then show ?case using IH rw skip_comment_shorter [of "c # cs"]
      by (fastforce split: sum.splits if_splits)
  }
qed auto

text \<open>The tokens of a source end with the only end of file, and their texts are no longer than it.\<close>

definition token_weight :: "expr_token list \<Rightarrow> nat" where
  "token_weight ts = sum_list (map (length \<circ> xt_lexeme) ts)"

definition proper_token :: "expr_token \<Rightarrow> bool" where
  "proper_token t \<longleftrightarrow> xt_kind t \<noteq> TokenEOF \<and> xt_lexeme t \<noteq> []"

lemma token_weight_simps [simp]:
  "token_weight [] = 0"
  "token_weight (t # ts) = length (xt_lexeme t) + token_weight ts"
  "token_weight (ts @ us) = token_weight ts + token_weight us"
  by (simp_all add: token_weight_def)

lemma scan_tokens_stream:
  assumes "scan_tokens n uc s = Ok ts"
  shows "\<exists>us. ts = us @ [eof_token] \<and> list_all proper_token us \<and> token_weight us \<le> length s"
  using assms
proof (induction n arbitrary: s ts)
  case (Suc n)
  then obtain s' where s': "skip_space s = Ok s'" by (auto split: sum.splits)
  then have le: "length s' \<le> length s" by (rule skip_space_text(2))
  show ?case
  proof (cases s')
    case Nil
    then show ?thesis using Suc.prems s' by (auto intro: exI [where x = "[]"])
  next
    case (Cons c cs)
    then obtain t rest us where t: "next_token uc s' = Ok (t, rest)" "scan_tokens n uc rest = Ok us" "ts = t # us"
      using Suc.prems s' by (auto split: sum.splits prod.splits)
    from Suc.IH [OF t(2)] obtain vs where vs: "us = vs @ [eof_token]" "list_all proper_token vs" "token_weight vs \<le> length rest"
      by blast
    have "proper_token t \<and> length (xt_lexeme t) + length rest \<le> length s"
      using next_token_takes [of c cs uc] t(1) le Cons by (auto simp: takes_text_def proper_token_def)
    then show ?thesis
      using t(3) vs by (intro exI [where x = "t # vs"]) auto
  qed
qed simp

lemma scan_tokens_fuel: "scan_tokens n uc s = Err LexFuel \<Longrightarrow> n \<le> length s"
proof (induction n arbitrary: s)
  case (Suc n)
  then obtain s' where s': "skip_space s = Ok s'" by (auto simp: skip_space_text split: sum.splits)
  then have le: "length s' \<le> length s" by (rule skip_space_text(2))
  show ?case
  proof (cases s')
    case (Cons c cs)
    have takes: "takes_text s' (next_token uc s')" unfolding Cons by (rule next_token_takes)
    then obtain t rest where t: "next_token uc s' = Ok (t, rest)" "scan_tokens n uc rest = Err LexFuel"
      using Suc.prems s' Cons by (auto simp: takes_text_def split: sum.splits prod.splits)
    then have "length rest < length s'" using takes by (cases "xt_lexeme t") (auto simp: takes_text_def)
    then show ?thesis using Suc.IH [OF t(2)] le by simp
  qed (use Suc.prems s' in simp)
qed simp

lemma scan_error: "scan uc s \<noteq> Err LexFuel"
  using scan_tokens_fuel [of "Suc (length s)" uc s] by (auto simp: scan_def)

text \<open>
  The lexer of policy expressions is total: on every source it answers with tokens or one of
  its own errors, so the bounds on its recursion suffice.
\<close>

theorem expression_lexer_total: "lex uc source \<noteq> Err LexFuel"
proof -
  have "map_sum (\<lambda>e. e) f (scan uc s) \<noteq> Err LexFuel" for f :: "expr_token list \<Rightarrow> expr_token list \<times> form" and s
    using scan_error [of uc s] by (cases "scan uc s") auto
  moreover have "unwrap l r (trim_space source) \<noteq> Err LexFuel" if "has_prefix (trim_space source) (c # p)" for l r c p
    using that by (intro unwrap_error) auto
  ultimately show ?thesis by (auto simp: lex_def Let_def split: sum.splits)
qed

section \<open>Quoted strings\<close>

definition escaped :: "char \<Rightarrow> string" where
  "escaped c =
     (if c = CHR 0x22 \<or> c = CHR 0x5C then [CHR 0x5C, c]
      else if c = CHR 0x0A then CHR 0x5C # ''n''
      else if c = CHR 0x0D then CHR 0x5C # ''r''
      else [c])"

definition quoted :: "string \<Rightarrow> string" where
  "quoted s = CHR 0x22 # concat (map escaped s) @ [CHR 0x22]"

lemma string_body_escaped:
  "string_body (CHR 0x22) False (concat (map escaped s) @ CHR 0x22 # rest) = Ok (s, rest)"
  by (induction s) (auto simp: escaped_def decode_escape_def line_break_def)

lemma skip_string_escaped:
  "skip_string (CHR 0x22) False (concat (map escaped s) @ CHR 0x22 # rest) = Ok rest"
  by (induction s) (auto simp: escaped_def line_break_def)

lemma scan_quoted:
  "scan uc (quoted s) = Ok [\<lparr>xt_kind = TokenString, xt_lexeme = quoted s, xt_literal = LString s\<rparr>, eof_token]"
proof -
  have "next_token uc (quoted s) = Ok (\<lparr>xt_kind = TokenString, xt_lexeme = quoted s, xt_literal = LString s\<rparr>, [])"
    using string_body_escaped [of s "[]"]
    by (simp add: next_token_def quoted_def scan_string_def consumed_def decode_rune_def Let_def)
  moreover have "skip_space (quoted s) = Ok (quoted s)"
    by (simp add: quoted_def decode_rune_def is_space_rune_def)
  ultimately show ?thesis
    by (simp add: scan_def) (simp add: quoted_def)
qed

text \<open>
  C22. A quoted string, wrapped as an expression, reads back as the string, whatever it contains:
  brackets, braces, quotes, comment openers and \<open>@\<close> inside it disturb neither the wrapper nor the
  token.
\<close>

theorem quoted_string_roundtrip:
  "lex uc (''@('' @ quoted s @ '')'') =
     Ok ([\<lparr>xt_kind = TokenString, xt_lexeme = quoted s, xt_literal = LString s\<rparr>, eof_token], FormExpression)"
proof -
  let ?src = "''@('' @ quoted s @ '')''"
  have trimmed: "trim_space ?src = ?src" by (simp add: trim_space_def)
  have closer: "matching_closer (2 * length ?src) (CHR ''('') (CHR '')'') 0 (tl ?src) = Ok []"
  proof -
    obtain n where n: "2 * length ?src = Suc (Suc (Suc n))" by (auto simp: quoted_def)
    show ?thesis unfolding n using skip_string_escaped [of s "'')''"]
      by (simp add: matching_closer.simps quoted_def)
  qed
  have "unwrap (CHR ''('') (CHR '')'') ?src = Ok (quoted s)"
    unfolding unwrap_def closer by (simp add: consumed_def trim_space_def)
  then show ?thesis unfolding lex_def Let_def trimmed by (simp add: scan_quoted)
qed

section \<open>Interpolated strings\<close>

text \<open>What the splitters find depends on the text up to the closer only.\<close>

lemma skip_string_local:
  "skip_string q v s = Ok rest \<Longrightarrow>
     \<exists>pre. s = pre @ rest \<and> pre \<noteq> [] \<and> (\<forall>t. next_byte rest = next_byte t \<longrightarrow> skip_string q v (pre @ t) = Ok t)"
proof (induction q v s rule: skip_string.induct)
  case (2 q v c cs)
  consider (twice) "c = q" "v" "next_byte cs = CHR 0x22" | (closing) "c = q" "v \<longrightarrow> next_byte cs \<noteq> CHR 0x22"
    | (escape) "c \<noteq> q" "\<not> v" "c = CHR 0x5C" | (other) "c \<noteq> q" "v \<or> c \<noteq> CHR 0x5C" by blast
  then show ?case
  proof cases
    case twice
    then obtain cs' where cs: "cs = CHR 0x22 # cs'" by (auto dest: next_byte_Cons)
    then obtain pre where "cs' = pre @ rest" "\<forall>t. next_byte rest = next_byte t \<longrightarrow> skip_string q v (pre @ t) = Ok t"
      using "2.IH"(1) "2.prems" twice by auto
    then show ?thesis using twice cs by (intro exI [where x = "c # CHR 0x22 # pre"]) simp
  next
    case closing
    then show ?thesis using "2.prems" by (intro exI [where x = "[c]"]) auto
  next
    case escape
    then obtain x cs' where cs: "cs = x # cs'" using "2.prems" by (cases cs) auto
    then obtain pre where "cs' = pre @ rest" "\<forall>t. next_byte rest = next_byte t \<longrightarrow> skip_string q v (pre @ t) = Ok t"
      using "2.IH"(2) "2.prems" escape by auto
    then show ?thesis using escape cs by (intro exI [where x = "c # x # pre"]) simp
  next
    case other
    then obtain pre where "cs = pre @ rest" "\<forall>t. next_byte rest = next_byte t \<longrightarrow> skip_string q v (pre @ t) = Ok t"
      using "2.IH"(3) "2.prems" by (auto split: if_splits)
    then show ?thesis using other "2.prems" by (intro exI [where x = "c # pre"]) (auto split: if_splits)
  qed
qed simp

lemma block_comment_local:
  "block_comment s = Ok rest \<Longrightarrow> \<exists>pre. s = pre @ rest \<and> (\<forall>t. block_comment (pre @ t) = Ok t)"
proof (induction s rule: block_comment.induct)
  case (1 a b s)
  show ?case
  proof (cases "a = CHR ''*'' \<and> b = CHR ''/''")
    case True
    then show ?thesis using 1 by (intro exI [where x = "[a, b]"]) auto
  next
    case False
    then obtain pre where pre: "b # s = pre @ rest" "\<forall>t. block_comment (pre @ t) = Ok t"
      using 1 by (auto split: if_splits)
    then obtain pre' where "pre = b # pre'" using pre by (cases pre) (auto dest: block_comment_shorter spec [where x = "[]"])
    then show ?thesis using False pre by (intro exI [where x = "a # pre"]) auto
  qed
qed auto

lemma skip_comment_local:
  assumes "skip_comment s = Ok rest" and "rest \<noteq> s" and "rest \<noteq> []"
  shows "\<exists>pre. s = pre @ rest \<and> pre \<noteq> [] \<and> (\<forall>t. next_byte rest = next_byte t \<longrightarrow> skip_comment (pre @ t) = Ok t)"
proof -
  obtain a c cs where s: "s = a # c # cs"
    using assms by (cases s) (auto simp: skip_comment_def split: list.splits)
  consider (line) "c = CHR ''/''" "rest = dropWhile (\<lambda>c. c \<noteq> CHR 0x0A) cs" | (block) "c = CHR ''*''" "block_comment cs = Ok rest"
    using assms by (auto simp: skip_comment_def s split: if_splits)
  then show ?thesis
  proof cases
    case line
    have "hd rest = CHR 0x0A" using hd_dropWhile [of "\<lambda>c. c \<noteq> CHR 0x0A" cs] assms(3) line(2) by auto
    then have first: "next_byte rest = CHR 0x0A" using assms(3) by (cases rest) auto
    have "skip_comment ((a # c # takeWhile (\<lambda>c. c \<noteq> CHR 0x0A) cs) @ t) = Ok t" if same: "next_byte rest = next_byte t" for t
    proof -
      obtain t' where t: "t = CHR 0x0A # t'" using same first by (cases t) auto
      have "dropWhile (\<lambda>c. c \<noteq> CHR 0x0A) (takeWhile (\<lambda>c. c \<noteq> CHR 0x0A) cs @ t) = dropWhile (\<lambda>c. c \<noteq> CHR 0x0A) t"
        by (rule dropWhile_append2) (auto dest: set_takeWhileD)
      then show ?thesis using line(1) t by (simp add: skip_comment_def)
    qed
    then show ?thesis
      using line(2) s by (intro exI [where x = "a # c # takeWhile (\<lambda>c. c \<noteq> CHR 0x0A) cs"]) simp
  next
    case block
    then obtain pre where "cs = pre @ rest" "\<forall>t. block_comment (pre @ t) = Ok t" using block_comment_local by blast
    then show ?thesis using s block by (intro exI [where x = "a # c # pre"]) (simp add: skip_comment_def)
  qed
qed

lemma skip_comment_same:
  assumes "skip_comment (a # c # cs) = Ok (a # c # cs)"
  shows "skip_comment (a # c # t) = Ok (a # c # t)"
proof -
  have "dropWhile (\<lambda>c. c \<noteq> CHR 0x0A) cs \<noteq> a # c # cs"
    using length_dropWhile_le [of "\<lambda>c. c \<noteq> CHR 0x0A" cs] by (metis Suc_n_not_le_n le_SucI length_Cons)
  moreover have "block_comment cs \<noteq> Ok (a # c # cs)" using block_comment_shorter [of cs "a # c # cs"] by auto
  ultimately show ?thesis using assms by (auto simp: skip_comment_def split: if_splits)
qed

lemma decode_escape_local:
  "decode_escape s = Ok (u, w) \<Longrightarrow> w \<le> length s \<and> decode_escape (take w s @ t) = Ok (u, w)"
proof (cases s)
  case (Cons c cs)
  assume dec: "decode_escape s = Ok (u, w)"
  show ?thesis
  proof (cases "c = CHR ''u''")
    case True
    then show ?thesis using dec by (auto simp: decode_escape_def Cons split: if_splits)
  next
    case False
    then have "w = 1" using dec by (auto simp: decode_escape_def Cons split: if_splits)
    then show ?thesis using dec False by (auto simp: decode_escape_def Cons split: if_splits)
  qed
qed (simp add: decode_escape_def)

lemma closer_branches:
  obtains (opener) "c = l"
  | (closer) "c \<noteq> l" "c = r"
  | (quote) "c \<noteq> l" "c \<noteq> r" "c = CHR 0x22 \<or> c = CHR 0x27"
  | (dollar) "c \<noteq> l" "c \<noteq> r" "c = CHR ''$''" "next_byte cs = CHR 0x22"
  | (verbatim) "c \<noteq> l" "c \<noteq> r" "c = CHR ''@''" "next_byte cs = CHR 0x22"
  | (slash) "c \<noteq> l" "c \<noteq> r" "c = CHR ''/''"
  | (other) "c \<noteq> l" "c \<noteq> r" "c \<noteq> CHR 0x22" "c \<noteq> CHR 0x27" "c \<noteq> CHR ''/''"
      "\<not> (c = CHR ''$'' \<and> next_byte cs = CHR 0x22)" "\<not> (c = CHR ''@'' \<and> next_byte cs = CHR 0x22)"
  by blast

lemma split_branches:
  obtains (quote) "c = CHR 0x22"
  | (braces) "c = CHR ''{''" "next_byte cs = CHR ''{''"
  | (hole) "c = CHR ''{''" "next_byte cs \<noteq> CHR ''{''"
  | (closing) "c = CHR ''}''"
  | (escape) "c = CHR 0x5C"
  | (other) "c \<noteq> CHR 0x22" "c \<noteq> CHR ''{''" "c \<noteq> CHR ''}''" "c \<noteq> CHR 0x5C"
  by blast

lemma closer_mono:
  "matching_closer n l r d s \<noteq> Err LexFuel \<Longrightarrow> n \<le> m \<Longrightarrow> matching_closer m l r d s = matching_closer n l r d s"
  "split_interpolation n lit s \<noteq> Err LexFuel \<Longrightarrow> n \<le> m \<Longrightarrow> split_interpolation m lit s = split_interpolation n lit s"
proof (induction n arbitrary: m l r d s lit)
  case (Suc n)
  {
    case 1
    then obtain k where m: "m = Suc k" "n \<le> k" by (cases m) auto
    note IH = Suc.IH [OF _ m(2)]
    show ?case
    proof (cases s)
      case (Cons c cs)
      show ?thesis
        using 1 unfolding m(1) Cons
        by (cases rule: closer_branches [where c = c and l = l and r = r and cs = cs])
          (auto simp: matching_closer.simps IH split: sum.splits prod.splits)
    qed (simp add: m(1) matching_closer.simps)
  next
    case 2
    then obtain k where m: "m = Suc k" "n \<le> k" by (cases m) auto
    note IH = Suc.IH [OF _ m(2)]
    show ?case
    proof (cases s)
      case (Cons c cs)
      show ?thesis
        using 2 unfolding m(1) Cons
        by (cases rule: split_branches [where c = c and cs = cs])
          (auto simp: split_interpolation.simps IH split: sum.splits prod.splits)
    qed (simp add: m(1) split_interpolation.simps)
  }
qed simp_all

lemma next_byte_append: "pre \<noteq> [] \<Longrightarrow> next_byte (pre @ t) = next_byte pre"
  by (cases pre) auto

lemma closer_local:
  "matching_closer n l r d s = Ok rest \<Longrightarrow>
     \<exists>pre. s = pre @ rest \<and> pre \<noteq> [] \<and> (\<forall>t. matching_closer n l r d (pre @ t) = Ok t)"
  "split_interpolation n lit s = Ok (ps, rest) \<Longrightarrow>
     \<exists>pre. s = pre @ rest \<and> pre \<noteq> [] \<and> (\<forall>t. split_interpolation n lit (pre @ t) = Ok (ps, t))"
proof (induction n arbitrary: l r d s rest lit ps)
  case (Suc n)
  {
    case 1
    then obtain c cs where s: "s = c # cs" by (auto simp: matching_closer.simps split: list.splits)
    note goal = 1 [unfolded s]
    show ?case
    proof (cases rule: closer_branches [where c = c and l = l and r = r and cs = cs])
      case opener
      then obtain pre where "cs = pre @ rest" "\<forall>t. matching_closer n l r (d + 1) (pre @ t) = Ok t"
        using goal Suc.IH(1) [of l r "d + 1" cs rest] by (auto simp: matching_closer.simps)
      then show ?thesis using s opener by (intro exI [where x = "c # pre"]) (simp add: matching_closer.simps)
    next
      case closer
      then show ?thesis
      proof (cases "d = 1")
        case True
        then show ?thesis using s closer goal by (intro exI [where x = "[c]"]) (simp add: matching_closer.simps)
      next
        case False
        then obtain pre where "cs = pre @ rest" "\<forall>t. matching_closer n l r (d - 1) (pre @ t) = Ok t"
          using closer goal Suc.IH(1) [of l r "d - 1" cs rest] by (auto simp: matching_closer.simps)
        then show ?thesis using s closer False by (intro exI [where x = "c # pre"]) (simp add: matching_closer.simps)
      qed
    next
      case quote
      then obtain mid where mid: "skip_string c False cs = Ok mid" "matching_closer n l r d mid = Ok rest"
        using goal by (auto simp: matching_closer.simps split: sum.splits)
      obtain p1 p2 where "cs = p1 @ mid" "\<forall>t. next_byte mid = next_byte t \<longrightarrow> skip_string c False (p1 @ t) = Ok t"
        "mid = p2 @ rest" "p2 \<noteq> []" "\<forall>t. matching_closer n l r d (p2 @ t) = Ok t"
        using skip_string_local [OF mid(1)] Suc.IH(1) [OF mid(2)] by auto
      then show ?thesis
        using s quote by (intro exI [where x = "c # p1 @ p2"]) (auto simp: matching_closer.simps next_byte_append)
    next
      case dollar
      then obtain cs' where cs: "cs = CHR 0x22 # cs'" by (auto dest: next_byte_Cons)
      then obtain us mid where mid: "split_interpolation n [] cs' = Ok (us, mid)" "matching_closer n l r d mid = Ok rest"
        using goal dollar by (auto simp: matching_closer.simps split: sum.splits)
      obtain p1 p2 where "cs' = p1 @ mid" "\<forall>t. split_interpolation n [] (p1 @ t) = Ok (us, t)"
        "mid = p2 @ rest" "\<forall>t. matching_closer n l r d (p2 @ t) = Ok t"
        using Suc.IH(2) [OF mid(1)] Suc.IH(1) [OF mid(2)] by auto
      then show ?thesis
        using s cs dollar by (intro exI [where x = "c # CHR 0x22 # p1 @ p2"]) (auto simp: matching_closer.simps)
    next
      case verbatim
      then obtain cs' where cs: "cs = CHR 0x22 # cs'" by (auto dest: next_byte_Cons)
      then obtain mid where mid: "skip_string (CHR 0x22) True cs' = Ok mid" "matching_closer n l r d mid = Ok rest"
        using goal verbatim by (auto simp: matching_closer.simps split: sum.splits)
      obtain p1 p2 where "cs' = p1 @ mid" "\<forall>t. next_byte mid = next_byte t \<longrightarrow> skip_string (CHR 0x22) True (p1 @ t) = Ok t"
        "mid = p2 @ rest" "p2 \<noteq> []" "\<forall>t. matching_closer n l r d (p2 @ t) = Ok t"
        using skip_string_local [OF mid(1)] Suc.IH(1) [OF mid(2)] by auto
      then show ?thesis
        using s cs verbatim
        by (intro exI [where x = "c # CHR 0x22 # p1 @ p2"]) (auto simp: matching_closer.simps next_byte_append)
    next
      case slash
      then obtain mid where mid: "skip_comment s = Ok mid" "matching_closer n l r d (if mid = s then cs else mid) = Ok rest"
        using goal s by (auto simp: matching_closer.simps split: sum.splits)
      show ?thesis
      proof (cases "mid = s")
        case True
        then obtain pre where pre: "cs = pre @ rest" "pre \<noteq> []" "\<forall>t. matching_closer n l r d (pre @ t) = Ok t"
          using mid Suc.IH(1) [of l r d cs rest] by auto
        have "skip_comment (c # pre @ t) = Ok (c # pre @ t)" for t
          using skip_comment_same [of c "hd pre" "tl pre @ rest" "tl pre @ t"] mid(1) True pre s by (cases pre) auto
        then show ?thesis
          using s slash pre by (intro exI [where x = "c # pre"]) (auto simp: matching_closer.simps)
      next
        case False
        then have "matching_closer n l r d mid = Ok rest" using mid by simp
        then obtain p2 where p2: "mid = p2 @ rest" "p2 \<noteq> []" "\<forall>t. matching_closer n l r d (p2 @ t) = Ok t"
          using Suc.IH(1) [of l r d mid rest] by auto
        then obtain p1 where p1: "s = p1 @ mid" "p1 \<noteq> []" "\<forall>t. next_byte mid = next_byte t \<longrightarrow> skip_comment (p1 @ t) = Ok t"
          using skip_comment_local [OF mid(1) False] by auto
        then obtain p1' where "p1 = c # p1'" using s by (cases p1) auto
        then show ?thesis
          using s slash p1 p2
          by (intro exI [where x = "p1 @ p2"]) (auto simp: matching_closer.simps next_byte_append)
      qed
    next
      case other
      then obtain pre where "cs = pre @ rest" "pre \<noteq> []" "\<forall>t. matching_closer n l r d (pre @ t) = Ok t"
        using goal Suc.IH(1) [of l r d cs rest] by (auto simp: matching_closer.simps)
      then show ?thesis
        using s other by (intro exI [where x = "c # pre"]) (auto simp: matching_closer.simps next_byte_append)
    qed
  next
    case 2
    then obtain c cs where s: "s = c # cs" by (auto simp: split_interpolation.simps split: list.splits)
    note goal = 2 [unfolded s]
    have step: ?case
      if start: "split_interpolation n lit' (drop k cs) = Ok (ps, rest)"
      and unfolded: "\<And>pre t. drop k cs = pre @ rest \<Longrightarrow> pre \<noteq> [] \<Longrightarrow>
           split_interpolation (Suc n) lit (c # take k cs @ pre @ t) = split_interpolation n lit' (pre @ t)" for lit' k
    proof -
      obtain pre where pre: "drop k cs = pre @ rest" "pre \<noteq> []" "\<forall>t. split_interpolation n lit' (pre @ t) = Ok (ps, t)"
        using Suc.IH(2) [OF start] by blast
      have "s = (c # take k cs @ pre) @ rest" using pre(1) by (simp add: s) (metis append_take_drop_id)
      then show ?thesis using unfolded [OF pre(1,2)] pre by (intro exI [where x = "c # take k cs @ pre"]) auto
    qed
    show ?case
    proof (cases rule: split_branches [where c = c and cs = cs])
      case quote
      then show ?thesis using goal s by (intro exI [where x = "[c]"]) (simp add: split_interpolation.simps)
    next
      case braces
      then obtain cs' where "cs = CHR ''{'' # cs'" by (auto dest: next_byte_Cons)
      then show ?thesis using goal braces by (intro step [of "lit @ ''{''" 1]) (auto simp: split_interpolation.simps)
    next
      case hole
      then obtain mid us where mid: "matching_closer n (CHR ''{'') (CHR ''}'') 0 s = Ok mid"
        "split_interpolation n [] mid = Ok (us, rest)" "ps = flush lit (PartHole (butlast (consumed cs mid)) # us)"
        using goal s by (auto simp: split_interpolation.simps split: sum.splits prod.splits)
      obtain p1 p2 where p: "s = p1 @ mid" "p1 \<noteq> []" "\<forall>t. matching_closer n (CHR ''{'') (CHR ''}'') 0 (p1 @ t) = Ok t"
        "mid = p2 @ rest" "p2 \<noteq> []" "\<forall>t. split_interpolation n [] (p2 @ t) = Ok (us, t)"
        using Suc.IH(1) [OF mid(1)] Suc.IH(2) [OF mid(2)] by auto
      then obtain p1' where p1: "p1 = c # p1'" using s by (cases p1) auto
      have "next_byte (p1' @ p2 @ t) \<noteq> CHR ''{''" for t
        using hole(2) p s p1 by (cases p1') (auto simp: next_byte_append)
      then have "split_interpolation (Suc n) lit ((p1 @ p2) @ t) = Ok (ps, t)" for t
        using hole p p1 mid(3) s by (auto simp: split_interpolation.simps consumed_append)
      then show ?thesis using p by (intro exI [where x = "p1 @ p2"]) auto
    next
      case closing
      then have "next_byte cs = CHR ''}''" using goal by (auto simp: split_interpolation.simps split: if_splits)
      moreover then obtain cs' where "cs = CHR ''}'' # cs'" by (auto dest: next_byte_Cons)
      ultimately show ?thesis
        using goal closing by (intro step [of "lit @ ''}''" 1]) (auto simp: split_interpolation.simps)
    next
      case escape
      then obtain u w where uw: "cs \<noteq> []" "decode_escape cs = Ok (u, w)" "split_interpolation n (lit @ u) (drop w cs) = Ok (ps, rest)"
        using goal by (auto simp: split_interpolation.simps split: sum.splits if_splits)
      have local: "w \<le> length cs" "decode_escape (take w cs @ t) = Ok (u, w)" for t
        using decode_escape_local [OF uw(2)] by auto
      then show ?thesis
        using escape uw by (intro step [of "lit @ u" w]) (auto simp: split_interpolation.simps)
    next
      case other
      then show ?thesis
        using goal by (intro step [of "lit @ [c]" 0]) (auto simp: split_interpolation.simps split: if_splits)
    qed
  }
qed simp_all

text \<open>
  C24. The parser splits an interpolated string where the lexer did: on the text of its token the
  splitter succeeds, ends at the token's last byte, and gives the parts the lexer passed over.
\<close>

theorem interpolation_splits_alike:
  assumes "scan_interpolated s = Ok (t, rest)" and "has_prefix s [CHR ''$'', CHR 0x22]"
  shows "\<exists>ps. split_interpolation (2 * length s) [] (drop 2 s) = Ok (ps, rest)
     \<and> split_interpolation (2 * length (xt_lexeme t)) [] (drop 2 (xt_lexeme t)) = Ok (ps, [])
     \<and> s = xt_lexeme t @ rest"
proof -
  obtain ps where ps: "split_interpolation (2 * length s) [] (drop 2 s) = Ok (ps, rest)"
    and t: "xt_lexeme t = consumed s rest"
    using assms(1) by (auto simp: scan_interpolated_def split: sum.splits)
  obtain b where s: "s = CHR ''$'' # CHR 0x22 # b"
    using assms(2) unfolding has_prefix_iff by (metis Cons_eq_appendI append_Nil)
  then obtain pre where pre: "b = pre @ rest" "\<forall>t. split_interpolation (2 * length s) [] (pre @ t) = Ok (ps, t)"
    using closer_local(2) [OF ps] by auto
  have lexeme: "xt_lexeme t = CHR ''$'' # CHR 0x22 # pre"
    using t s pre(1) consumed_append [of "CHR ''$'' # CHR 0x22 # pre" rest] by simp
  let ?n = "2 * length (xt_lexeme t)"
  have "split_interpolation ?n [] pre \<noteq> Err LexFuel"
    using closer_fuel(2) [of ?n "[]" pre] by (auto simp: lexeme)
  moreover have "?n \<le> 2 * length s" using lexeme s pre(1) by simp
  ultimately have "split_interpolation ?n [] pre = Ok (ps, [])"
    using closer_mono(2) [of ?n "[]" pre] pre(2) by (metis append_Nil2)
  then show ?thesis using ps lexeme s pre(1) by simp
qed

lemma interpolation_splits_alike_witness:
  "\<exists>ps. split_interpolation 10 [] [CHR ''a'', CHR 0x22, CHR ''+''] = Ok (ps, [CHR ''+''])
     \<and> split_interpolation 8 [] [CHR ''a'', CHR 0x22] = Ok (ps, [])"
proof -
  have "scan_interpolated [CHR ''$'', CHR 0x22, CHR ''a'', CHR 0x22, CHR ''+''] =
      Ok (\<lparr>xt_kind = TokenInterpolated, xt_lexeme = [CHR ''$'', CHR 0x22, CHR ''a'', CHR 0x22], xt_literal = LNull\<rparr>, [CHR ''+''])"
    by (simp add: scan_interpolated_def split_interpolation.simps(2) eval_nat_numeral flush_def consumed_def line_break_def)
  from interpolation_splits_alike [OF this] show ?thesis by simp
qed

end
