(* ===== verification/ExprParse.thy ===== *)
theory ExprParse
  imports ExprScan
begin

text \<open>
  The parser of policy expressions, \<open>internal/expression/parse.go\<close>.  The parser's position is the
  list of the remaining tokens; past its end every token is the end of file.  The functions of the
  grammar recurse on a bound, and \<open>ParseFuel\<close> is its exhaustion, which does not occur (theory
  \<open>ExprParseTotal\<close>).
\<close>

section \<open>Expressions and statements\<close>

datatype expr =
    LiteralExpr literal
  | IdentExpr string
  | MemberExpr expr string bool string \<comment> \<open>receiver, name, guarded, type argument\<close>
  | IndexExpr expr expr bool
  | CallExpr expr "expr list" "string list" bool \<comment> \<open>receiver, arguments, their names, guarded\<close>
  | UnaryExpr expr_kind expr
  | BinaryExpr expr_kind expr expr
  | LambdaExpr string expr
  | InterpolationExpr "segment list"
  | NewExpr string "expr list"
  | AnonymousExpr "(string \<times> expr) list"
  | TernaryExpr expr expr expr
  | CoalesceExpr expr expr
  | CastExpr string expr
and segment = TextSegment string | HoleSegment expr

datatype stmt =
    DeclStmt string expr
  | AssignStmt string expr
  | ReturnStmt expr
  | IfStmt expr "stmt list" "stmt list" \<comment> \<open>an absent else is empty\<close>

datatype expr_program = BareProgram expr | BlockProgram "stmt list"

datatype parse_error =
    LexFailure lex_error
  | ExpressionExpected | MemberExpected | TypeNameExpected | FieldNameExpected | LocalNameExpected
  | PunctuationExpected string
  | TokenUnexpected string | HoleInput string
  | TypeUnsupported string | StatementUnsupported string
  | ParameterUndocumented string | NamedArgumentAmong
  | ReturnWithoutValue | BlockWithoutReturn
  | ParseFuel

definition cast_types :: "string list" where
  "cast_types = [''string'', ''int'', ''long'', ''bool'', ''double'', ''JObject'', ''JArray'', ''JValue'', ''JToken'',
     ''Jwt'', ''IResponse'', ''IRequest'', ''Authorization'']"

definition constructor_names :: "string list" where
  "constructor_names = [''Random'', ''Uri'', ''JObject'', ''JProperty'', ''DateTime'', ''DateTimeOffset'', ''Guid'']"

definition documented_parameters :: "string list" where
  "documented_parameters = [''alg'', ''claimName'', ''defaultValue'', ''headerName'', ''input'', ''iv'', ''key'', ''message'',
     ''preserveContent'', ''queryParameterName'', ''result'', ''variableName'']"

text \<open>\<open>checkArgumentNames\<close>: \<open>None\<close> when the names may stand.\<close>

definition check_argument_names :: "string list \<Rightarrow> nat \<Rightarrow> parse_error option" where
  "check_argument_names names n =
     (let named = filter (\<lambda>name. name \<noteq> []) names in
      case find (\<lambda>name. name \<notin> set documented_parameters) named of
        Some name \<Rightarrow> Some (ParameterUndocumented name)
      | None \<Rightarrow> if named \<noteq> [] \<and> n > 1 then Some NamedArgumentAmong else None)"

section \<open>Tokens\<close>

type_synonym tokens = "expr_token list"
type_synonym 'a parsed = "(parse_error, 'a \<times> tokens) result"

definition peek :: "tokens \<Rightarrow> expr_kind" where
  "peek ts = (case ts of [] \<Rightarrow> TokenEOF | t # _ \<Rightarrow> xt_kind t)"

definition peek_at :: "nat \<Rightarrow> tokens \<Rightarrow> expr_kind" where
  "peek_at k ts = peek (drop k ts)"

definition lexeme :: "tokens \<Rightarrow> string" where
  "lexeme ts = (case ts of [] \<Rightarrow> [] | t # _ \<Rightarrow> xt_lexeme t)"

definition take_token :: "tokens \<Rightarrow> tokens" where
  "take_token ts = (if peek ts = TokenEOF then ts else tl ts)"

definition expect :: "expr_kind \<Rightarrow> string \<Rightarrow> tokens \<Rightarrow> (parse_error, tokens) result" where
  "expect k what ts = (if peek ts = k then Ok (take_token ts) else Err (PunctuationExpected what))"

text \<open>\<open>typeArgument\<close>: only where \<open>< identifier > (\<close> follows.\<close>

definition type_argument :: "tokens \<Rightarrow> string \<times> tokens" where
  "type_argument ts =
     (if peek ts = TokenLt \<and> peek_at 1 ts = TokenIdent \<and> peek_at 2 ts = TokenGt \<and> peek_at 3 ts = TokenLParen
      then (lexeme (tl ts), drop 3 ts) else ([], ts))"

text \<open>A name qualified with namespaces: the last part, and the tokens after it.\<close>

fun qualified_name :: "string \<Rightarrow> tokens \<Rightarrow> string \<times> tokens" where
  "qualified_name name (a # b # ts) =
     (if xt_kind a = TokenDot \<and> xt_kind b = TokenIdent then qualified_name (xt_lexeme b) ts else (name, a # b # ts))"
| "qualified_name name ts = (name, ts)"

definition literal_kinds :: "expr_kind list" where
  "literal_kinds = [TokenTrue, TokenFalse, TokenNull, TokenNumber, TokenString]"

section \<open>Grammar of expressions\<close>

text \<open>
  Each function takes the parsers it calls recursively: \<open>sub\<close> for \<open>ternary\<close>, \<open>usub\<close> for \<open>unary\<close>.
  A loop is bounded by the bytes of the tokens that remain, of which every round takes some.
\<close>

type_synonym expr_parser = "tokens \<Rightarrow> expr parsed"

fun argument_loop :: "expr_parser \<Rightarrow> nat \<Rightarrow> expr list \<Rightarrow> string list \<Rightarrow> tokens \<Rightarrow> (expr list \<times> string list) parsed" where
  "argument_loop sub 0 args names ts = Err ParseFuel"
| "argument_loop sub (Suc n) args names ts =
     (let named = (peek ts = TokenIdent \<and> peek_at 1 ts = TokenColon);
          names1 = names @ [if named then lexeme ts else []] in
      bind_result (sub (if named then drop 2 ts else ts)) (\<lambda>(arg, ts1).
        if peek ts1 = TokenComma then argument_loop sub n (args @ [arg]) names1 (take_token ts1)
        else if peek ts1 = TokenRParen then Ok ((args @ [arg], names1), take_token ts1)
        else Err (PunctuationExpected '')'')))"

definition p_arguments :: "expr_parser \<Rightarrow> tokens \<Rightarrow> (expr list \<times> string list) parsed" where
  "p_arguments sub ts =
     (if peek ts = TokenRParen then Ok (([], []), take_token ts)
      else argument_loop sub (Suc (token_weight ts)) [] [] ts)"

fun field_loop :: "expr_parser \<Rightarrow> nat \<Rightarrow> tokens \<Rightarrow> (string \<times> expr) list parsed" where
  "field_loop sub 0 ts = Err ParseFuel"
| "field_loop sub (Suc n) ts =
     (if peek ts = TokenRBrace then Ok ([], ts)
      else if peek ts \<noteq> TokenIdent then Err FieldNameExpected
      else
        bind_result (expect TokenAssign ''='' (take_token ts)) (\<lambda>ts1.
        bind_result (sub ts1) (\<lambda>(v, ts2).
          if peek ts2 = TokenComma then
            bind_result (field_loop sub n (take_token ts2)) (\<lambda>(fs, ts3). Ok ((lexeme ts, v) # fs, ts3))
          else Ok ([(lexeme ts, v)], ts2))))"

definition anonymous_object :: "expr_parser \<Rightarrow> expr_parser" where
  "anonymous_object sub ts =
     bind_result (field_loop sub (Suc (token_weight ts)) (take_token ts)) (\<lambda>(fs, ts1).
     bind_result (expect TokenRBrace ''}'' ts1) (\<lambda>ts2. Ok (AnonymousExpr fs, ts2)))"

definition construction :: "expr_parser \<Rightarrow> expr_parser" where
  "construction sub ts =
     (if peek ts = TokenLBrace then anonymous_object sub ts
      else if peek ts \<noteq> TokenIdent then Err TypeNameExpected
      else
        let (name, ts1) = qualified_name (lexeme ts) (take_token ts) in
        if name \<notin> set constructor_names then Err (TypeUnsupported name)
        else bind_result (expect TokenLParen ''('' ts1) (\<lambda>ts2.
             bind_result (p_arguments sub ts2) (\<lambda>((args, names), ts3).
               case check_argument_names names (length args) of
                 Some e \<Rightarrow> Err e
               | None \<Rightarrow> Ok (NewExpr name args, ts3))))"

definition parse_hole :: "unicode \<Rightarrow> expr_parser \<Rightarrow> string \<Rightarrow> (parse_error, expr) result" where
  "parse_hole uc sub src =
     (case scan uc src of
        Inl e \<Rightarrow> Err (LexFailure e)
      | Inr ts \<Rightarrow>
          bind_result (sub ts) (\<lambda>(e, ts1). if peek ts1 \<noteq> TokenEOF then Err (HoleInput (lexeme ts1)) else Ok e))"

fun interpolation_segments :: "unicode \<Rightarrow> expr_parser \<Rightarrow> part list \<Rightarrow> (parse_error, segment list) result" where
  "interpolation_segments uc sub [] = Ok []"
| "interpolation_segments uc sub (PartText t # ps) =
     bind_result (interpolation_segments uc sub ps) (\<lambda>segs. Ok (TextSegment t # segs))"
| "interpolation_segments uc sub (PartHole src # ps) =
     bind_result (parse_hole uc sub src) (\<lambda>e.
     bind_result (interpolation_segments uc sub ps) (\<lambda>segs. Ok (HoleSegment e # segs)))"

definition interpolation :: "unicode \<Rightarrow> expr_parser \<Rightarrow> string \<Rightarrow> (parse_error, expr) result" where
  "interpolation uc sub text' =
     (case split_interpolation (2 * length text') [] (drop 2 text') of
        Inl e \<Rightarrow> Err (LexFailure e)
      | Inr (parts, _) \<Rightarrow> bind_result (interpolation_segments uc sub parts) (\<lambda>segs. Ok (InterpolationExpr segs)))"

definition p_atom :: "unicode \<Rightarrow> expr_parser \<Rightarrow> expr_parser \<Rightarrow> expr_parser" where
  "p_atom uc sub usub ts =
     (let k = peek ts; ts1 = take_token ts in
      if k \<in> set literal_kinds then Ok (LiteralExpr (xt_literal (hd ts)), ts1)
      else if k = TokenInterpolated then bind_result (interpolation uc sub (lexeme ts)) (\<lambda>e. Ok (e, ts1))
      else if k = TokenNew then construction sub ts1
      else if k = TokenIdent then Ok (IdentExpr (lexeme ts), ts1)
      else if k = TokenLParen then
        (if peek ts1 = TokenIdent \<and> lexeme ts1 \<in> set cast_types \<and> peek_at 1 ts1 = TokenRParen then
           bind_result (usub (drop 2 ts1)) (\<lambda>(x, ts2). Ok (CastExpr (lexeme ts1) x, ts2))
         else
           bind_result (sub ts1) (\<lambda>(e, ts2).
           bind_result (expect TokenRParen '')'' ts2) (\<lambda>ts3. Ok (e, ts3))))
      else if k = TokenEOF then Err ExpressionExpected
      else Err (TokenUnexpected (lexeme ts)))"

fun postfix_loop :: "expr_parser \<Rightarrow> nat \<Rightarrow> expr \<Rightarrow> bool \<Rightarrow> expr_parser" where
  "postfix_loop sub 0 e guarded ts = Err ParseFuel"
| "postfix_loop sub (Suc n) e guarded ts =
     (if peek ts = TokenDot \<or> peek ts = TokenQuestionDot then
        (let g = (guarded \<or> peek ts = TokenQuestionDot); ts1 = take_token ts in
         if peek ts1 \<noteq> TokenIdent then Err MemberExpected
         else (case type_argument (take_token ts1) of
                 (targ, ts2) \<Rightarrow> postfix_loop sub n (MemberExpr e (lexeme ts1) g targ) g ts2))
      else if peek ts = TokenLBracket \<or> peek ts = TokenQuestionBracket then
        (let g = (guarded \<or> peek ts = TokenQuestionBracket) in
         bind_result (sub (take_token ts)) (\<lambda>(key, ts1).
         bind_result (expect TokenRBracket '']'' ts1) (\<lambda>ts2. postfix_loop sub n (IndexExpr e key g) g ts2)))
      else if peek ts = TokenLParen then
        bind_result (p_arguments sub (take_token ts)) (\<lambda>((args, names), ts1).
          postfix_loop sub n (CallExpr e args names guarded) guarded ts1)
      else Ok (e, ts))"

fun unary_loop :: "unicode \<Rightarrow> expr_parser \<Rightarrow> nat \<Rightarrow> expr_parser" where
  "unary_loop uc sub 0 ts = Err ParseFuel"
| "unary_loop uc sub (Suc n) ts =
     (if peek ts = TokenNot \<or> peek ts = TokenPlus \<or> peek ts = TokenMinus then
        bind_result (unary_loop uc sub n (take_token ts)) (\<lambda>(x, ts1). Ok (UnaryExpr (peek ts) x, ts1))
      else bind_result (p_atom uc sub (unary_loop uc sub n) ts) (\<lambda>(e, ts1).
             postfix_loop sub (Suc (token_weight ts1)) e False ts1))"

definition p_unary :: "unicode \<Rightarrow> expr_parser \<Rightarrow> expr_parser" where
  "p_unary uc sub ts = unary_loop uc sub (Suc (token_weight ts)) ts"

text \<open>\<open>binary\<close>: a level of operators over the next level.\<close>

fun binary_loop :: "expr_parser \<Rightarrow> expr_kind list \<Rightarrow> nat \<Rightarrow> expr \<Rightarrow> expr_parser" where
  "binary_loop nxt ops 0 left ts = Err ParseFuel"
| "binary_loop nxt ops (Suc n) left ts =
     (if peek ts \<in> set ops then
        bind_result (nxt (take_token ts)) (\<lambda>(right, ts1). binary_loop nxt ops n (BinaryExpr (peek ts) left right) ts1)
      else Ok (left, ts))"

definition p_binary :: "expr_parser \<Rightarrow> expr_kind list \<Rightarrow> expr_parser" where
  "p_binary nxt ops ts = bind_result (nxt ts) (\<lambda>(left, ts1). binary_loop nxt ops (Suc (token_weight ts1)) left ts1)"

definition p_factor :: "unicode \<Rightarrow> expr_parser \<Rightarrow> expr_parser" where
  "p_factor uc sub = p_binary (p_unary uc sub) [TokenStar, TokenSlash, TokenPercent]"

definition p_term :: "unicode \<Rightarrow> expr_parser \<Rightarrow> expr_parser" where
  "p_term uc sub = p_binary (p_factor uc sub) [TokenPlus, TokenMinus]"

definition p_comparison :: "unicode \<Rightarrow> expr_parser \<Rightarrow> expr_parser" where
  "p_comparison uc sub = p_binary (p_term uc sub) [TokenLt, TokenLe, TokenGt, TokenGe]"

definition p_equality :: "unicode \<Rightarrow> expr_parser \<Rightarrow> expr_parser" where
  "p_equality uc sub = p_binary (p_comparison uc sub) [TokenEq, TokenNe]"

definition p_and :: "unicode \<Rightarrow> expr_parser \<Rightarrow> expr_parser" where
  "p_and uc sub = p_binary (p_equality uc sub) [TokenAnd]"

definition p_or :: "unicode \<Rightarrow> expr_parser \<Rightarrow> expr_parser" where
  "p_or uc sub = p_binary (p_and uc sub) [TokenOr]"

fun coalesce_loop :: "unicode \<Rightarrow> expr_parser \<Rightarrow> nat \<Rightarrow> expr_parser" where
  "coalesce_loop uc sub 0 ts = Err ParseFuel"
| "coalesce_loop uc sub (Suc n) ts =
     bind_result (p_or uc sub ts) (\<lambda>(left, ts1).
       if peek ts1 \<noteq> TokenCoalesce then Ok (left, ts1)
       else bind_result (coalesce_loop uc sub n (take_token ts1)) (\<lambda>(right, ts2). Ok (CoalesceExpr left right, ts2)))"

definition p_coalesce :: "unicode \<Rightarrow> expr_parser \<Rightarrow> expr_parser" where
  "p_coalesce uc sub ts = coalesce_loop uc sub (Suc (token_weight ts)) ts"

text \<open>\<open>ternary\<close>, with \<open>lambda\<close>; the bound is on how deep it calls itself.\<close>

fun p_ternary :: "unicode \<Rightarrow> nat \<Rightarrow> expr_parser" where
  "p_ternary uc 0 ts = Err ParseFuel"
| "p_ternary uc (Suc n) ts =
     (if peek ts = TokenIdent \<and> peek_at 1 ts = TokenArrow then
        bind_result (p_ternary uc n (drop 2 ts)) (\<lambda>(body, ts1). Ok (LambdaExpr (lexeme ts) body, ts1))
      else
        bind_result (p_coalesce uc (p_ternary uc n) ts) (\<lambda>(cond, ts1).
          if peek ts1 \<noteq> TokenQuestion then Ok (cond, ts1)
          else bind_result (p_ternary uc n (take_token ts1)) (\<lambda>(yes, ts2).
               bind_result (expect TokenColon '':'' ts2) (\<lambda>ts3.
               bind_result (p_ternary uc n ts3) (\<lambda>(no, ts4). Ok (TernaryExpr cond yes no, ts4))))))"

declare argument_loop.simps(2) [simp del] field_loop.simps(2) [simp del] postfix_loop.simps(2) [simp del]
  unary_loop.simps(2) [simp del] binary_loop.simps(2) [simp del] coalesce_loop.simps(2) [simp del] p_ternary.simps(2) [simp del]

definition parse_expr :: "unicode \<Rightarrow> expr_parser" where
  "parse_expr uc ts = p_ternary uc (Suc (token_weight ts)) ts"

section \<open>Grammar of statements\<close>

text \<open>\<open>typedLocal\<close>: the tokens after an explicit type that begins a declaration.\<close>

definition typed_local :: "tokens \<Rightarrow> tokens option" where
  "typed_local ts =
     (if peek ts \<noteq> TokenIdent then None
      else
        let ts1 = snd (qualified_name [] (tl ts));
            ts2 = (if peek ts1 = TokenLBracket \<and> peek_at 1 ts1 = TokenRBracket then drop 2 ts1 else ts1) in
        if peek ts2 = TokenIdent \<and> peek_at 1 ts2 = TokenAssign then Some ts2 else None)"

definition finish_stmt :: "unicode \<Rightarrow> (expr \<Rightarrow> stmt) \<Rightarrow> tokens \<Rightarrow> stmt parsed" where
  "finish_stmt uc f ts =
     bind_result (parse_expr uc ts) (\<lambda>(e, ts1). bind_result (expect TokenSemicolon '';'' ts1) (\<lambda>ts2. Ok (f e, ts2)))"

definition var_decl :: "unicode \<Rightarrow> tokens \<Rightarrow> stmt parsed" where
  "var_decl uc ts =
     (if peek ts \<noteq> TokenIdent then Err LocalNameExpected
      else bind_result (expect TokenAssign ''='' (take_token ts)) (\<lambda>ts1. finish_stmt uc (DeclStmt (lexeme ts)) ts1))"

definition return_stmt :: "unicode \<Rightarrow> tokens \<Rightarrow> stmt parsed" where
  "return_stmt uc ts =
     (if peek ts = TokenSemicolon \<or> peek ts = TokenEOF \<or> peek ts = TokenRBrace then Err ReturnWithoutValue
      else finish_stmt uc ReturnStmt ts)"

fun p_statements :: "unicode \<Rightarrow> nat \<Rightarrow> expr_kind \<Rightarrow> tokens \<Rightarrow> stmt list parsed"
and p_statement :: "unicode \<Rightarrow> nat \<Rightarrow> tokens \<Rightarrow> stmt parsed"
and p_if :: "unicode \<Rightarrow> nat \<Rightarrow> tokens \<Rightarrow> stmt parsed"
and p_braced :: "unicode \<Rightarrow> nat \<Rightarrow> tokens \<Rightarrow> stmt list parsed" where
  "p_statements uc 0 k ts = Err ParseFuel"
| "p_statements uc (Suc n) k ts =
     (if peek ts = k \<or> peek ts = TokenEOF then Ok ([], ts)
      else bind_result (p_statement uc n ts) (\<lambda>(s, ts1).
           bind_result (p_statements uc n k ts1) (\<lambda>(ss, ts2). Ok (s # ss, ts2))))"
| "p_statement uc 0 ts = Err ParseFuel"
| "p_statement uc (Suc n) ts =
     (case typed_local ts of
        Some ts1 \<Rightarrow> var_decl uc ts1
      | None \<Rightarrow>
          if peek ts = TokenVar then var_decl uc (take_token ts)
          else if peek ts = TokenIf then p_if uc n (take_token ts)
          else if peek ts = TokenReturn then return_stmt uc (take_token ts)
          else if peek ts = TokenIdent \<and> peek_at 1 ts = TokenAssign then
            finish_stmt uc (AssignStmt (lexeme ts)) (drop 2 ts)
          else Err (StatementUnsupported (lexeme ts)))"
| "p_if uc 0 ts = Err ParseFuel"
| "p_if uc (Suc n) ts =
     bind_result (expect TokenLParen ''('' ts) (\<lambda>ts1.
     bind_result (parse_expr uc ts1) (\<lambda>(cond, ts2).
     bind_result (expect TokenRParen '')'' ts2) (\<lambda>ts3.
     bind_result (p_braced uc n ts3) (\<lambda>(yes, ts4).
       if peek ts4 \<noteq> TokenElse then Ok (IfStmt cond yes [], ts4)
       else
         let ts5 = take_token ts4 in
         if peek ts5 = TokenIf then
           bind_result (p_if uc n (take_token ts5)) (\<lambda>(nested, ts6). Ok (IfStmt cond yes [nested], ts6))
         else bind_result (p_braced uc n ts5) (\<lambda>(no, ts6). Ok (IfStmt cond yes no, ts6))))))"
| "p_braced uc 0 ts = Err ParseFuel"
| "p_braced uc (Suc n) ts =
     bind_result (expect TokenLBrace ''{'' ts) (\<lambda>ts1.
     bind_result (p_statements uc n TokenRBrace ts1) (\<lambda>(body, ts2).
     bind_result (expect TokenRBrace ''}'' ts2) (\<lambda>ts3. Ok (body, ts3))))"

declare p_statements.simps(2) [simp del] p_statement.simps(2) [simp del] p_if.simps(2) [simp del] p_braced.simps(2) [simp del]

text \<open>Every nested call but the one for a single statement takes a token.\<close>

definition statement_fuel :: "tokens \<Rightarrow> nat" where
  "statement_fuel ts = 4 * Suc (token_weight ts)"

text \<open>\<open>alwaysReturns\<close>\<close>

fun always_returns :: "stmt list \<Rightarrow> bool" where
  "always_returns [] = False"
| "always_returns (s # ss) =
     ((case s of
         ReturnStmt e \<Rightarrow> True
       | IfStmt c yes no \<Rightarrow> always_returns yes \<and> always_returns no
       | _ \<Rightarrow> False) \<or> always_returns ss)"

section \<open>Programs\<close>

definition parse :: "unicode \<Rightarrow> string \<Rightarrow> (parse_error, expr_program) result" where
  "parse uc source =
     (case lex uc source of
        Inl e \<Rightarrow> Err (LexFailure e)
      | Inr (ts, form) \<Rightarrow>
          bind_result
            (if form = FormBlock then
               bind_result (p_statements uc (statement_fuel ts) TokenEOF ts) (\<lambda>(body, ts1).
                 if \<not> always_returns body then Err BlockWithoutReturn else Ok (BlockProgram body, ts1))
             else bind_result (parse_expr uc ts) (\<lambda>(e, ts1). Ok (BareProgram e, ts1)))
            (\<lambda>(p, ts1). if peek ts1 \<noteq> TokenEOF then Err (TokenUnexpected (lexeme ts1)) else Ok p))"

end
