(* ===== verification/ExprValue.thy ===== *)
theory ExprValue
  imports ExprParse GoParse Http "HOL-Library.AList"
begin

unbundle bit_operations_syntax

text \<open>
  The values of policy expressions, \<open>internal/expression/value.go\<close>, with strings
  (\<open>stringmembers.go\<close>) and lists (\<open>collections.go\<close>).  The objects of the host (\<open>context\<close> and what
  it leads to) have the type \<open>'h\<close> and act through the functions of the record \<open>host\<close> on a state of
  type \<open>'s\<close>.  A function value is a method bound to its receiver, or a lambda with its scope.  A
  scope is the locals of a statement block, which are shared and change, or a map of its own: the
  blocks are a store, to which scopes point.  Lists have addresses, as \<open>==\<close> compares pointers.
\<close>

section \<open>Values\<close>

datatype 'h val =
    NullV
  | BoolV bool
  | IntV int
  | DoubleV double
  | StringV string
  | ObjectV "'h object"
and 'h object =
    ListObject nat "'h val list" string \<comment> \<open>address, items, what they are\<close>
  | MethodObject "'h val" string
  | LambdaObject string expr "'h scope"
  | HostObject 'h
and 'h scope =
    BlockScope nat
  | FixedScope "(string \<times> 'h val) list"

datatype expr_error =
    IdentifierUnbound string | NotDeclared string
  | MemberOfNull | MemberUnknown string | GenericUnknown string
  | IndexOfNull | NotIndexable | NotCallable
  | ArgumentNames parse_error | LambdaArity | Arity string | Argument string
  | BooleanExpected string | NumberExpected string
  | DivisionByZero | Incomparable
  | CastFailed string
  | SubstringRange int nat
  | PositionExpected string | PositionOutside int nat string
  | PredicateBoolean
  | BlockWithoutValue
  | HostFailure string

text \<open>An evaluation fails, panics, or calls functions too deep for the stack.\<close>

datatype stop = Fails expr_error | Panics | TooDeep

record ('h, 's) estate =
  es_blocks :: "(string \<times> 'h val) list list"
  es_lists :: nat
  es_host :: 's

type_synonym ('h, 's, 'a) run = "('h, 's) estate \<Rightarrow> (stop, 'a) result \<times> ('h, 's) estate"

definition yields :: "'a \<Rightarrow> ('h, 's, 'a) run" where
  "yields x = (\<lambda>s. (Ok x, s))"

definition stops :: "stop \<Rightarrow> ('h, 's, 'a) run" where
  "stops e = (\<lambda>s. (Err e, s))"

abbreviation failing :: "expr_error \<Rightarrow> ('h, 's, 'a) run" where
  "failing e \<equiv> stops (Fails e)"

definition then_run :: "('h, 's, 'a) run \<Rightarrow> ('a \<Rightarrow> ('h, 's, 'b) run) \<Rightarrow> ('h, 's, 'b) run" where
  "then_run m f = (\<lambda>s. case m s of (Inl e, s') \<Rightarrow> (Err e, s') | (Inr x, s') \<Rightarrow> f x s')"

definition on_host :: "('s \<Rightarrow> (stop, 'a) result \<times> 's) \<Rightarrow> ('h, 's, 'a) run" where
  "on_host f = (\<lambda>s. case f (es_host s) of (r, w) \<Rightarrow> (r, s\<lparr>es_host := w\<rparr>))"

text \<open>
  The interfaces an object of the host may implement, and its functions; \<open>ho_text\<close> is its \<open>String\<close>
  method, empty without one, and \<open>ho_equal\<close> the comparison of two of them, \<open>None\<close> a panic.
\<close>

record ('h, 's) host =
  ho_has_member :: "'h \<Rightarrow> bool"
  ho_member :: "'h \<Rightarrow> string \<Rightarrow> 's \<Rightarrow> (stop, 'h val) result \<times> 's"
  ho_has_generic :: "'h \<Rightarrow> bool"
  ho_generic :: "'h \<Rightarrow> string \<Rightarrow> string \<Rightarrow> 's \<Rightarrow> (stop, 'h val) result \<times> 's"
  ho_has_index :: "'h \<Rightarrow> bool"
  ho_index :: "'h \<Rightarrow> 'h val \<Rightarrow> 's \<Rightarrow> (stop, 'h val) result \<times> 's"
  ho_has_call :: "'h \<Rightarrow> bool"
  ho_call :: "'h \<Rightarrow> 'h val list \<Rightarrow> 's \<Rightarrow> (stop, 'h val) result \<times> 's"
  ho_text :: "'h \<Rightarrow> 's \<Rightarrow> string"
  ho_equal :: "'h \<Rightarrow> 'h \<Rightarrow> bool option"
  ho_construct :: "string \<Rightarrow> 'h val list \<Rightarrow> 's \<Rightarrow> (stop, 'h val) result \<times> 's"
  ho_anonymous :: "(string \<times> 'h val) list \<Rightarrow> 's \<Rightarrow> (stop, 'h val) result \<times> 's"
  ho_as_jwt :: "string \<Rightarrow> 's \<Rightarrow> (stop, 'h val) result \<times> 's"
  ho_as_basic :: "string \<Rightarrow> 's \<Rightarrow> (stop, 'h val) result \<times> 's"

fun literal_value :: "literal \<Rightarrow> 'h val" where
  "literal_value LNull = NullV"
| "literal_value (LBool b) = BoolV b"
| "literal_value (LInt n) = IntV n"
| "literal_value (LDouble d) = DoubleV d"
| "literal_value (LString s) = StringV s"

fun as_bool :: "'h val \<Rightarrow> bool option" where
  "as_bool (BoolV b) = Some b"
| "as_bool _ = None"

fun as_number :: "'h val \<Rightarrow> double option" where
  "as_number (IntV n) = Some (of_int64 n)"
| "as_number (DoubleV d) = Some d"
| "as_number _ = None"

definition is_numeric :: "'h val \<Rightarrow> bool" where
  "is_numeric v \<longleftrightarrow> as_number v \<noteq> None"

definition format_int :: "int \<Rightarrow> string" where
  "format_int n = (if n < 0 then CHR ''-'' # itoa (nat (- n)) else itoa (nat n))"

text \<open>\<open>Value.String\<close>\<close>

fun text_of :: "('h, 's) host \<Rightarrow> 's \<Rightarrow> 'h val \<Rightarrow> string" where
  "text_of ho w NullV = []"
| "text_of ho w (BoolV b) = (if b then ''True'' else ''False'')"
| "text_of ho w (IntV n) = format_int n"
| "text_of ho w (DoubleV d) = format_double d"
| "text_of ho w (StringV s) = s"
| "text_of ho w (ObjectV (HostObject h)) = ho_text ho h w"
| "text_of ho w (ObjectV _) = []"

definition texting :: "('h, 's) host \<Rightarrow> 'h val \<Rightarrow> (string \<Rightarrow> ('h, 's, 'a) run) \<Rightarrow> ('h, 's, 'a) run" where
  "texting ho v f = (\<lambda>s. f (text_of ho (es_host s) v) s)"

text \<open>\<open>equal\<close>: two function values cannot be compared, and Go panics.\<close>

definition is_function :: "'h object \<Rightarrow> bool" where
  "is_function x = (case x of MethodObject _ _ \<Rightarrow> True | LambdaObject _ _ _ \<Rightarrow> True | _ \<Rightarrow> False)"

definition same_object :: "('h, 's) host \<Rightarrow> 'h object \<Rightarrow> 'h object \<Rightarrow> bool option" where
  "same_object ho x y =
     (case (x, y) of
        (ListObject a _ _, ListObject b _ _) \<Rightarrow> Some (a = b)
      | (HostObject g, HostObject h) \<Rightarrow> ho_equal ho g h
      | _ \<Rightarrow> if is_function x \<and> is_function y then None else Some False)"

definition equal_values :: "('h, 's) host \<Rightarrow> 'h val \<Rightarrow> 'h val \<Rightarrow> bool option" where
  "equal_values ho a b =
     (case (as_number a, as_number b) of
        (Some x, Some y) \<Rightarrow> Some (double_equal x y)
      | _ \<Rightarrow>
          (case (a, b) of
             (NullV, NullV) \<Rightarrow> Some True
           | (BoolV x, BoolV y) \<Rightarrow> Some (x = y)
           | (StringV x, StringV y) \<Rightarrow> Some (x = y)
           | (ObjectV x, ObjectV y) \<Rightarrow> same_object ho x y
           | _ \<Rightarrow> Some False))"

section \<open>Strings\<close>

text \<open>The runes of a string, each as its bytes.\<close>

function runes :: "string \<Rightarrow> string list" where
  "runes [] = []"
| "runes (c # cs) = (case decode_rune c cs of (r, w) \<Rightarrow> (c # take w cs) # runes (drop w cs))"
  by pat_completeness auto

termination by (relation "measure length") auto

declare runes.simps(2) [simp del]

text \<open>\<open>strings.Split\<close>\<close>

function split_nonempty :: "string \<Rightarrow> string \<Rightarrow> string \<Rightarrow> string list" where
  "split_nonempty sep piece [] = [piece]"
| "split_nonempty sep piece (c # cs) =
     (if sep \<noteq> [] \<and> has_prefix (c # cs) sep then piece # split_nonempty sep [] (drop (length sep) (c # cs))
      else split_nonempty sep (piece @ [c]) cs)"
  by pat_completeness auto

termination
  by (relation "measure (\<lambda>(_, _, s). length s)") (auto simp: neq_Nil_conv)

definition split_text :: "string \<Rightarrow> string \<Rightarrow> string list" where
  "split_text s sep = (if sep = [] then runes s else split_nonempty sep [] s)"

text \<open>\<open>strings.TrimLeft\<close> and \<open>TrimRight\<close>: runes of a set.\<close>

definition trim_text :: "bool \<Rightarrow> bool \<Rightarrow> string \<Rightarrow> string \<Rightarrow> string" where
  "trim_text left right cutset s =
     (let inside = (\<lambda>r. r \<in> set (runes cutset));
          rs = (if left then dropWhile inside (runes s) else runes s)
      in concat (if right then rev (dropWhile inside (rev rs)) else rs))"

definition replace_text :: "string \<Rightarrow> string \<Rightarrow> string \<Rightarrow> string" where
  "replace_text s old new = (if old = [] then concat (map (\<lambda>r. new @ r) (runes s)) @ new else replace_all s old new)"

text \<open>\<open>fnv.New32a\<close>, and the sum as a signed integer of 32 bits.\<close>

definition fnv32a :: "string \<Rightarrow> 32 word" where
  "fnv32a s = foldl (\<lambda>h c. (h XOR word_of_nat (of_char c)) * 16777619) 2166136261 s"

definition hash_code :: "string \<Rightarrow> int" where
  "hash_code s = sint (fnv32a s)"

text \<open>The slice of bytes from \<open>a\<close> to \<open>b\<close>; out of bounds it panics.\<close>

definition slice_text :: "string \<Rightarrow> int \<Rightarrow> int \<Rightarrow> (stop, string) result" where
  "slice_text s a b =
     (if 0 \<le> a \<and> a \<le> b \<and> b \<le> int (length s) then Ok (take (nat (b - a)) (drop (nat a) s)) else Err Panics)"

definition substring_at :: "string \<Rightarrow> 'h val list \<Rightarrow> (stop, string) result" where
  "substring_at s args =
     (if args = [] \<or> length args > 2 then Err (Fails (Arity ''Substring''))
      else case as_number (hd args) of
        None \<Rightarrow> Err (Fails (NumberExpected ''Substring''))
      | Some start \<Rightarrow>
          (let a = to_int64 start in
           if double_less start (Num 0) \<or> a > int (length s) then Err (Fails (SubstringRange a (length s)))
           else if length args = 1 then slice_text s a (int (length s))
           else case as_number (args ! 1) of
             None \<Rightarrow> Err (Fails (NumberExpected ''Substring''))
           | Some len \<Rightarrow>
               (let b = int64_wrap (a + to_int64 len) in
                if double_less len (Num 0) \<or> b > int (length s)
                then Err (Fails (SubstringRange (to_int64 len) (length s)))
                else slice_text s a b)))"

definition ignores_case :: "'h val \<Rightarrow> (stop, bool) result" where
  "ignores_case v =
     (case v of StringV s \<Rightarrow> Ok (contains (to_lower s) ''ignorecase'') | _ \<Rightarrow> Err (Fails (Argument ''StringComparison'')))"

definition match_text :: "string \<Rightarrow> string \<Rightarrow> 'h val list \<Rightarrow> (stop, bool) result" where
  "match_text name text' args =
     (case args of
        StringV needle # more_args \<Rightarrow>
          if length more_args > 1 then Err (Fails (Argument name))
          else bind_result (if more_args = [] then Ok False else ignores_case (hd more_args)) (\<lambda>insensitive.
            let s = (if insensitive then to_lower text' else text'); n = (if insensitive then to_lower needle else needle) in
            Ok (if name = ''StartsWith'' then has_prefix s n else if name = ''EndsWith'' then has_suffix s n else contains s n))
      | _ \<Rightarrow> Err (Fails (Argument name)))"

definition equals_text :: "('h, 's) host \<Rightarrow> 's \<Rightarrow> string \<Rightarrow> 'h val list \<Rightarrow> (stop, bool) result" where
  "equals_text ho w text' args =
     (if args = [] \<or> length args > 2 then Err (Fails (Arity ''Equals''))
      else if hd args = NullV then Ok False
      else bind_result (if length args = 1 then Ok False else ignores_case (args ! 1)) (\<lambda>insensitive.
        let other = text_of ho w (hd args) in Ok (if insensitive then equal_fold text' other else text' = other)))"

definition string_methods :: "string list" where
  "string_methods = [''AsJwt'', ''AsBasic'', ''Split'', ''Trim'', ''TrimStart'', ''TrimEnd'', ''ToLower'', ''ToUpper'',
     ''StartsWith'', ''EndsWith'', ''Contains'', ''Equals'', ''Replace'', ''Substring'', ''IndexOf'', ''GetHashCode'']"

definition new_list :: "'h val list \<Rightarrow> string \<Rightarrow> ('h, 's, 'h val) run" where
  "new_list items what = (\<lambda>s. (Ok (ObjectV (ListObject (es_lists s) items what)), s\<lparr>es_lists := Suc (es_lists s)\<rparr>))"

definition of_result :: "(stop, 'a) result \<Rightarrow> ('h, 's, 'a) run" where
  "of_result r = (case r of Inl e \<Rightarrow> stops e | Inr x \<Rightarrow> yields x)"

text \<open>A method of \<open>stringHost\<close> on its arguments.\<close>

definition string_method :: "('h, 's) host \<Rightarrow> string \<Rightarrow> string \<Rightarrow> 'h val list \<Rightarrow> ('h, 's, 'h val) run" where
  "string_method ho text' name args =
     (if name = ''AsJwt'' then (if args \<noteq> [] then failing (Arity name) else on_host (ho_as_jwt ho text'))
      else if name = ''AsBasic'' then (if args \<noteq> [] then failing (Arity name) else on_host (ho_as_basic ho text'))
      else if name = ''Split'' then
        (case args of
           [StringV sep] \<Rightarrow> new_list (map StringV (split_text text' sep)) ''parts''
         | _ \<Rightarrow> failing (Argument name))
      else if name \<in> set [''Trim'', ''TrimStart'', ''TrimEnd''] then
        (let cutset = (case args of
                         [] \<Rightarrow> Some [CHR '' '', CHR 0x09, CHR 0x0A, CHR 0x0D]
                       | [StringV cs] \<Rightarrow> Some cs | _ \<Rightarrow> None) in
         case cutset of
           None \<Rightarrow> failing (Argument name)
         | Some cs \<Rightarrow> yields (StringV (trim_text (name \<noteq> ''TrimEnd'') (name \<noteq> ''TrimStart'') cs text')))
      else if name \<in> set [''ToLower'', ''ToUpper''] then
        (if args \<noteq> [] then failing (Arity name)
         else yields (StringV (if name = ''ToLower'' then to_lower text' else to_upper text')))
      else if name \<in> set [''StartsWith'', ''EndsWith'', ''Contains''] then
        then_run (of_result (match_text name text' args)) (\<lambda>b. yields (BoolV b))
      else if name = ''Equals'' then
        then_run (\<lambda>s. of_result (equals_text ho (es_host s) text' args) s) (\<lambda>b. yields (BoolV b))
      else if name = ''Replace'' then
        (case args of
           [StringV old, StringV new] \<Rightarrow> yields (StringV (replace_text text' old new))
         | _ \<Rightarrow> failing (Argument name))
      else if name = ''Substring'' then
        then_run (of_result (substring_at text' args)) (\<lambda>t. yields (StringV t))
      else if name = ''IndexOf'' then
        (case args of
           [StringV sub] \<Rightarrow> yields (IntV (case index_of text' sub of Some i \<Rightarrow> int i | None \<Rightarrow> - 1))
         | _ \<Rightarrow> failing (Argument name))
      else (if args \<noteq> [] then failing (Arity name) else yields (IntV (hash_code text'))))"

section \<open>Members, indices and calls\<close>

text \<open>\<open>Value.member\<close>\<close>

definition member_value :: "('h, 's) host \<Rightarrow> 'h val \<Rightarrow> string \<Rightarrow> ('h, 's, 'h val) run" where
  "member_value ho v name =
     (case v of
        ObjectV (ListObject a items what) \<Rightarrow>
          if name = ''Count'' then yields (DoubleV (of_int64 (int (length items))))
          else if name = ''Any'' then yields (ObjectV (MethodObject v name))
          else failing (MemberUnknown name)
      | ObjectV (HostObject h) \<Rightarrow>
          if ho_has_member ho h then on_host (ho_member ho h name)
          else if name = ''ToString'' then yields (ObjectV (MethodObject v name))
          else failing (MemberUnknown name)
      | _ \<Rightarrow>
          if name = ''ToString'' then yields (ObjectV (MethodObject v name))
          else (case v of
                  NullV \<Rightarrow> failing MemberOfNull
                | StringV s \<Rightarrow>
                    if name = ''Length'' then yields (IntV (int (length s)))
                    else if name \<in> set string_methods then yields (ObjectV (MethodObject v name))
                    else failing (MemberUnknown name)
                | _ \<Rightarrow> failing (MemberUnknown name)))"

text \<open>\<open>genericMember\<close>, which only objects of the host have.\<close>

definition generic_member :: "('h, 's) host \<Rightarrow> 'h val \<Rightarrow> string \<Rightarrow> string \<Rightarrow> ('h, 's, 'h val) run" where
  "generic_member ho v name targ =
     (case v of
        ObjectV (HostObject h) \<Rightarrow>
          if ho_has_generic ho h then on_host (ho_generic ho h name targ) else failing (GenericUnknown name)
      | _ \<Rightarrow> failing (GenericUnknown name))"

fun collection_index :: "'h val \<Rightarrow> int option" where
  "collection_index (IntV n) = Some n"
| "collection_index (DoubleV d) = Some (to_int64 d)"
| "collection_index _ = None"

text \<open>\<open>Value.index\<close>\<close>

definition index_value :: "('h, 's) host \<Rightarrow> 'h val \<Rightarrow> 'h val \<Rightarrow> ('h, 's, 'h val) run" where
  "index_value ho v key =
     (case v of
        ObjectV (ListObject a items what) \<Rightarrow>
          (case collection_index key of
             None \<Rightarrow> failing (PositionExpected what)
           | Some i \<Rightarrow>
               if i < 0 \<or> i \<ge> int (length items) then failing (PositionOutside i (length items) what)
               else yields (items ! nat i))
      | ObjectV (HostObject h) \<Rightarrow> if ho_has_index ho h then on_host (ho_index ho h key) else failing NotIndexable
      | NullV \<Rightarrow> failing IndexOfNull
      | _ \<Rightarrow> failing NotIndexable)"

text \<open>Calls of values, as the operators of a list make them.\<close>

type_synonym ('h, 's) caller = "'h val \<Rightarrow> 'h val list \<Rightarrow> ('h, 's, 'h val) run"

fun list_any :: "('h, 's) caller \<Rightarrow> 'h val \<Rightarrow> 'h val list \<Rightarrow> ('h, 's, 'h val) run" where
  "list_any call f [] = yields (BoolV False)"
| "list_any call f (x # xs) =
     then_run (call f [x]) (\<lambda>got.
       case got of
         BoolV True \<Rightarrow> yields (BoolV True)
       | BoolV False \<Rightarrow> list_any call f xs
       | _ \<Rightarrow> failing PredicateBoolean)"

definition call_method :: "('h, 's) host \<Rightarrow> ('h, 's) caller \<Rightarrow> 'h val \<Rightarrow> string \<Rightarrow> 'h val list \<Rightarrow> ('h, 's, 'h val) run" where
  "call_method ho call recv name args =
     (if name = ''ToString'' then
        (if args \<noteq> [] then failing (Arity name) else texting ho recv (\<lambda>t. yields (StringV t)))
      else case recv of
        ObjectV (ListObject a items what) \<Rightarrow>
          if length args \<noteq> 1 then failing (Arity name) else list_any call (hd args) items
      | StringV s \<Rightarrow> string_method ho s name args
      | _ \<Rightarrow> failing NotCallable)"

end
