(* ===== verification/ExprEval.thy ===== *)
theory ExprEval
  imports ExprValue
begin

text \<open>
  Evaluation of policy expressions, the \<open>eval\<close> and \<open>exec\<close> methods of
  \<open>internal/expression/parse.go\<close>.  Evaluation is structural but for the calls of function values,
  which it makes through \<open>call\<close>; \<open>call_at\<close> ties the knot with a bound on how deep such calls nest.
  Go has no such bound but its stack, and a program that overflows it dies.
\<close>

section \<open>Operators\<close>

definition numeric_binary ::
  "'h val \<Rightarrow> 'h val \<Rightarrow> (int \<Rightarrow> int \<Rightarrow> (stop, 'h val) result) \<Rightarrow> (double \<Rightarrow> double \<Rightarrow> double) \<Rightarrow> (stop, 'h val) result" where
  "numeric_binary left right ints floats =
     (case (left, right) of
        (IntV a, IntV b) \<Rightarrow> ints a b
      | _ \<Rightarrow>
          (case (as_number left, as_number right) of
             (Some x, Some y) \<Rightarrow> Ok (DoubleV (floats x y))
           | _ \<Rightarrow> Err (Fails (NumberExpected ''operator''))))"

definition remainder :: "double \<Rightarrow> double \<Rightarrow> double" where
  "remainder left right =
     (if double_equal right (Num 0) then NaN
      else double_sub left (double_mul (of_int64 (to_int64 (double_div left right))) right))"

text \<open>\<open>strings.Compare\<close>\<close>

fun byte_compare :: "string \<Rightarrow> string \<Rightarrow> int" where
  "byte_compare [] [] = 0"
| "byte_compare [] t = - 1"
| "byte_compare s [] = 1"
| "byte_compare (a # s) (b # t) =
     (if (of_char a :: nat) < of_char b then - 1 else if (of_char b :: nat) < of_char a then 1 else byte_compare s t)"

definition compare_values :: "'h val \<Rightarrow> 'h val \<Rightarrow> (stop, int) result" where
  "compare_values left right =
     (case (as_number left, as_number right) of
        (Some x, Some y) \<Rightarrow> Ok (if double_less x y then - 1 else if double_less y x then 1 else 0)
      | _ \<Rightarrow>
          (case (left, right) of
             (StringV s, StringV t) \<Rightarrow> Ok (byte_compare s t)
           | _ \<Rightarrow> Err (Fails Incomparable)))"

definition add_values :: "('h, 's) host \<Rightarrow> 's \<Rightarrow> 'h val \<Rightarrow> 'h val \<Rightarrow> (stop, 'h val) result" where
  "add_values ho w left right =
     (case (left, right) of
        (StringV s, _) \<Rightarrow> Ok (StringV (s @ text_of ho w right))
      | (_, StringV t) \<Rightarrow> Ok (StringV (text_of ho w left @ t))
      | _ \<Rightarrow> numeric_binary left right (\<lambda>a b. Ok (IntV (int64_wrap (a + b)))) double_add)"

definition divided :: "(int \<Rightarrow> int \<Rightarrow> int) \<Rightarrow> int \<Rightarrow> int \<Rightarrow> (stop, 'h val) result" where
  "divided f a b = (if b = 0 then Err (Fails DivisionByZero) else Ok (IntV (int64_wrap (f a b))))"

definition holds_order :: "expr_kind \<Rightarrow> int \<Rightarrow> bool" where
  "holds_order op c =
     (if op = TokenLt then c < 0 else if op = TokenLe then c \<le> 0 else if op = TokenGt then c > 0 else c \<ge> 0)"

text \<open>The operators of \<open>binaryExpr.eval\<close> that evaluate both sides.\<close>

definition binary_values :: "('h, 's) host \<Rightarrow> 's \<Rightarrow> expr_kind \<Rightarrow> 'h val \<Rightarrow> 'h val \<Rightarrow> (stop, 'h val) result" where
  "binary_values ho w op left right =
     (if op = TokenPlus then add_values ho w left right
      else if op = TokenMinus then numeric_binary left right (\<lambda>a b. Ok (IntV (int64_wrap (a - b)))) double_sub
      else if op = TokenStar then numeric_binary left right (\<lambda>a b. Ok (IntV (int64_wrap (a * b)))) double_mul
      else if op = TokenSlash then numeric_binary left right (divided go_div) double_div
      else if op = TokenPercent then numeric_binary left right (divided go_mod) remainder
      else if op = TokenEq \<or> op = TokenNe then
        (case equal_values ho left right of
           None \<Rightarrow> Err Panics
         | Some b \<Rightarrow> Ok (BoolV (if op = TokenEq then b else \<not> b)))
      else map_sum (\<lambda>e. e) (\<lambda>c. BoolV (holds_order op c)) (compare_values left right))"

definition unary_value :: "expr_kind \<Rightarrow> 'h val \<Rightarrow> (stop, 'h val) result" where
  "unary_value op v =
     (if op = TokenNot then
        (case as_bool v of None \<Rightarrow> Err (Fails (BooleanExpected ''!'')) | Some b \<Rightarrow> Ok (BoolV (\<not> b)))
      else if \<not> is_numeric v then Err (Fails (NumberExpected ''unary''))
      else if op = TokenPlus then Ok v
      else (case v of DoubleV d \<Rightarrow> Ok (DoubleV (negate d)) | IntV n \<Rightarrow> Ok (IntV (int64_wrap (- n))) | _ \<Rightarrow> Ok v))"

text \<open>\<open>castNumber\<close> and \<open>castTo\<close>\<close>

definition cast_number :: "'h val \<Rightarrow> double option" where
  "cast_number v =
     (case as_number v of
        Some d \<Rightarrow> Some d
      | None \<Rightarrow> (case v of StringV s \<Rightarrow> parse_double (trim_space s) | _ \<Rightarrow> None))"

definition cast_to :: "('h, 's) host \<Rightarrow> 's \<Rightarrow> string \<Rightarrow> 'h val \<Rightarrow> (stop, 'h val) result" where
  "cast_to ho w typ v =
     (if typ = ''string'' then Ok (StringV (text_of ho w v))
      else if typ = ''int'' \<or> typ = ''long'' then
        (case cast_number v of None \<Rightarrow> Err (Fails (CastFailed typ)) | Some d \<Rightarrow> Ok (IntV (to_int64 d)))
      else if typ = ''double'' then
        (case cast_number v of None \<Rightarrow> Err (Fails (CastFailed typ)) | Some d \<Rightarrow> Ok (DoubleV d))
      else if typ = ''bool'' then
        (case v of
           BoolV b \<Rightarrow> Ok v
         | StringV s \<Rightarrow> (case parse_bool s of None \<Rightarrow> Err (Fails (CastFailed typ)) | Some b \<Rightarrow> Ok (BoolV b))
         | _ \<Rightarrow> Err (Fails (CastFailed typ)))
      else Ok v)"

section \<open>Scopes\<close>

definition bindings :: "'h scope \<Rightarrow> ('h, 's) estate \<Rightarrow> (string \<times> 'h val) list" where
  "bindings sc s =
     (case sc of
        FixedScope b \<Rightarrow> b
      | BlockScope i \<Rightarrow> if i < length (es_blocks s) then es_blocks s ! i else [])"

definition bind_local :: "nat \<Rightarrow> string \<Rightarrow> 'h val \<Rightarrow> ('h, 's) estate \<Rightarrow> ('h, 's) estate" where
  "bind_local i name v s = s\<lparr>es_blocks := (es_blocks s)[i := AList.update name v (es_blocks s ! i)]\<rparr>"

definition ident_value :: "'h scope \<Rightarrow> string \<Rightarrow> ('h, 's, 'h val) run" where
  "ident_value sc name =
     (\<lambda>s. case map_of (bindings sc s) name of Some v \<Rightarrow> (Ok v, s) | None \<Rightarrow> (Err (Fails (IdentifierUnbound name)), s))"

text \<open>A result that reads the state of the host.\<close>

definition reading_host :: "('s \<Rightarrow> (stop, 'a) result) \<Rightarrow> ('h, 's, 'a) run" where
  "reading_host f = (\<lambda>s. (f (es_host s), s))"

section \<open>Evaluation\<close>

fun eval :: "('h, 's) host \<Rightarrow> ('h, 's) caller \<Rightarrow> 'h scope \<Rightarrow> expr \<Rightarrow> ('h, 's, 'h val) run"
and eval_args :: "('h, 's) host \<Rightarrow> ('h, 's) caller \<Rightarrow> 'h scope \<Rightarrow> expr list \<Rightarrow> ('h, 's, 'h val list) run"
and eval_fields :: "('h, 's) host \<Rightarrow> ('h, 's) caller \<Rightarrow> 'h scope \<Rightarrow> (string \<times> expr) list \<Rightarrow> ('h, 's, (string \<times> 'h val) list) run"
and eval_segments :: "('h, 's) host \<Rightarrow> ('h, 's) caller \<Rightarrow> 'h scope \<Rightarrow> segment list \<Rightarrow> ('h, 's, string) run" where
  "eval ho call sc (LiteralExpr l) = yields (literal_value l)"
| "eval ho call sc (IdentExpr name) = ident_value sc name"
| "eval ho call sc (MemberExpr e name guarded targ) =
     then_run (eval ho call sc e) (\<lambda>v.
       if guarded \<and> v = NullV then yields NullV
       else if targ \<noteq> [] then generic_member ho v name targ
       else member_value ho v name)"
| "eval ho call sc (IndexExpr e k guarded) =
     then_run (eval ho call sc e) (\<lambda>v.
       if guarded \<and> v = NullV then yields NullV
       else then_run (eval ho call sc k) (index_value ho v))"
| "eval ho call sc (CallExpr e args names guarded) =
     then_run (eval ho call sc e) (\<lambda>v.
       if guarded \<and> v = NullV then yields NullV
       else (case check_argument_names names (length args) of
               Some err \<Rightarrow> failing (ArgumentNames err)
             | None \<Rightarrow> then_run (eval_args ho call sc args) (call v)))"
| "eval ho call sc (UnaryExpr op e) = then_run (eval ho call sc e) (\<lambda>v. of_result (unary_value op v))"
| "eval ho call sc (BinaryExpr op l r) =
     then_run (eval ho call sc l) (\<lambda>x.
       if op = TokenAnd \<or> op = TokenOr then
         (case as_bool x of
            None \<Rightarrow> failing (BooleanExpected ''logical'')
          | Some b \<Rightarrow>
              if b = (op = TokenOr) then yields (BoolV b)
              else then_run (eval ho call sc r) (\<lambda>y.
                     case as_bool y of None \<Rightarrow> failing (BooleanExpected ''logical'') | Some b \<Rightarrow> yields (BoolV b)))
       else then_run (eval ho call sc r) (\<lambda>y. reading_host (\<lambda>w. binary_values ho w op x y)))"
| "eval ho call sc (LambdaExpr p body) = yields (ObjectV (LambdaObject p body sc))"
| "eval ho call sc (InterpolationExpr segs) = then_run (eval_segments ho call sc segs) (\<lambda>t. yields (StringV t))"
| "eval ho call sc (NewExpr typ args) = then_run (eval_args ho call sc args) (\<lambda>vs. on_host (ho_construct ho typ vs))"
| "eval ho call sc (AnonymousExpr fs) = then_run (eval_fields ho call sc fs) (\<lambda>vs. on_host (ho_anonymous ho vs))"
| "eval ho call sc (TernaryExpr c yes no) =
     then_run (eval ho call sc c) (\<lambda>v.
       case as_bool v of
         None \<Rightarrow> failing (BooleanExpected ''conditional'')
       | Some b \<Rightarrow> if b then eval ho call sc yes else eval ho call sc no)"
| "eval ho call sc (CoalesceExpr l r) =
     then_run (eval ho call sc l) (\<lambda>v. if v \<noteq> NullV then yields v else eval ho call sc r)"
| "eval ho call sc (CastExpr typ e) =
     then_run (eval ho call sc e) (\<lambda>v. reading_host (\<lambda>w. cast_to ho w typ v))"
| "eval_args ho call sc [] = yields []"
| "eval_args ho call sc (e # es) =
     then_run (eval ho call sc e) (\<lambda>v. then_run (eval_args ho call sc es) (\<lambda>vs. yields (v # vs)))"
| "eval_fields ho call sc [] = yields []"
| "eval_fields ho call sc ((name, e) # fs) =
     then_run (eval ho call sc e) (\<lambda>v. then_run (eval_fields ho call sc fs) (\<lambda>vs. yields ((name, v) # vs)))"
| "eval_segments ho call sc [] = yields []"
| "eval_segments ho call sc (TextSegment t # segs) =
     then_run (eval_segments ho call sc segs) (\<lambda>rest. yields (t @ rest))"
| "eval_segments ho call sc (HoleSegment e # segs) =
     then_run (eval ho call sc e) (\<lambda>v. texting ho v (\<lambda>t.
       then_run (eval_segments ho call sc segs) (\<lambda>rest. yields (t @ rest))))"

text \<open>
  \<open>Value.call\<close>: a lambda runs its body on the bindings its scope has now, and its parameter.
\<close>

definition call_value :: "('h, 's) host \<Rightarrow> ('h, 's) caller \<Rightarrow> ('h, 's) caller" where
  "call_value ho call v args =
     (case v of
        ObjectV (LambdaObject p body sc) \<Rightarrow>
          (case args of
             [x] \<Rightarrow> (\<lambda>s. eval ho call (FixedScope (AList.update p x (bindings sc s))) body s)
           | _ \<Rightarrow> failing LambdaArity)
      | ObjectV (MethodObject recv name) \<Rightarrow> call_method ho call recv name args
      | ObjectV (HostObject h) \<Rightarrow> if ho_has_call ho h then on_host (ho_call ho h args) else failing NotCallable
      | _ \<Rightarrow> failing NotCallable)"

fun call_at :: "('h, 's) host \<Rightarrow> nat \<Rightarrow> ('h, 's) caller" where
  "call_at ho 0 v args = stops TooDeep"
| "call_at ho (Suc n) v args = call_value ho (call_at ho n) v args"

section \<open>Statements\<close>

text \<open>The names a list of statements declares, with what they were bound to before.\<close>

fun declared :: "stmt list \<Rightarrow> string list" where
  "declared [] = []"
| "declared (DeclStmt name e # ss) = name # declared ss"
| "declared (_ # ss) = declared ss"

definition restore_local :: "nat \<Rightarrow> (string \<times> 'h val option) \<Rightarrow> ('h, 's) estate \<Rightarrow> ('h, 's) estate" where
  "restore_local i saved s =
     (case saved of
        (name, Some v) \<Rightarrow> bind_local i name v s
      | (name, None) \<Rightarrow> s\<lparr>es_blocks := (es_blocks s)[i := AList.delete name (es_blocks s ! i)]\<rparr>)"

definition scoped :: "nat \<Rightarrow> string list \<Rightarrow> ('h, 's, 'a) run \<Rightarrow> ('h, 's, 'a) run" where
  "scoped i names m =
     (\<lambda>s. case m s of (r, s') \<Rightarrow>
        (r, foldr (restore_local i) (map (\<lambda>name. (name, map_of (bindings (BlockScope i) s) name)) (remdups names)) s'))"

text \<open>A statement yields the value it returned, if it did.\<close>

fun exec :: "('h, 's) host \<Rightarrow> ('h, 's) caller \<Rightarrow> nat \<Rightarrow> stmt \<Rightarrow> ('h, 's, 'h val option) run"
and exec_statements :: "('h, 's) host \<Rightarrow> ('h, 's) caller \<Rightarrow> nat \<Rightarrow> stmt list \<Rightarrow> ('h, 's, 'h val option) run" where
  "exec ho call i (DeclStmt name e) =
     then_run (eval ho call (BlockScope i) e) (\<lambda>v s. (Ok None, bind_local i name v s))"
| "exec ho call i (AssignStmt name e) =
     (\<lambda>s. if map_of (bindings (BlockScope i) s) name = None then (Err (Fails (NotDeclared name)), s)
          else then_run (eval ho call (BlockScope i) e) (\<lambda>v s. (Ok None, bind_local i name v s)) s)"
| "exec ho call i (ReturnStmt e) = then_run (eval ho call (BlockScope i) e) (\<lambda>v. yields (Some v))"
| "exec ho call i (IfStmt c yes no) =
     then_run (eval ho call (BlockScope i) c) (\<lambda>v.
       case as_bool v of
         None \<Rightarrow> failing (BooleanExpected ''if'')
       | Some b \<Rightarrow> if b then scoped i (declared yes) (exec_statements ho call i yes)
                    else scoped i (declared no) (exec_statements ho call i no))"
| "exec_statements ho call i [] = yields None"
| "exec_statements ho call i (st # ss) =
     then_run (exec ho call i st) (\<lambda>r. if r = None then exec_statements ho call i ss else yields r)"

text \<open>\<open>EvalEnv\<close> after parsing: the bindings of a block are a copy.\<close>

definition eval_program :: "('h, 's) host \<Rightarrow> nat \<Rightarrow> expr_program \<Rightarrow> (string \<times> 'h val) list \<Rightarrow> ('h, 's, 'h val) run" where
  "eval_program ho n p env =
     (case p of
        BareProgram e \<Rightarrow> eval ho (call_at ho n) (FixedScope env) e
      | BlockProgram body \<Rightarrow>
          (\<lambda>s. then_run (exec_statements ho (call_at ho n) (length (es_blocks s)) body)
                 (\<lambda>r. case r of None \<Rightarrow> failing BlockWithoutValue | Some v \<Rightarrow> yields v)
                 (s\<lparr>es_blocks := es_blocks s @ [env]\<rparr>)))"

datatype env_error = ParseError parse_error | EvalError stop

definition eval_env :: "unicode \<Rightarrow> ('h, 's) host \<Rightarrow> nat \<Rightarrow> string \<Rightarrow> (string \<times> 'h val) list
    \<Rightarrow> ('h, 's) estate \<Rightarrow> (env_error, 'h val) result \<times> ('h, 's) estate" where
  "eval_env uc ho n source env s =
     (case parse uc source of
        Inl e \<Rightarrow> (Err (ParseError e), s)
      | Inr p \<Rightarrow> (case eval_program ho n p env s of (r, s') \<Rightarrow> (map_sum EvalError (\<lambda>v. v) r, s')))"

end
