(* ===== verification/ExprParseTotal.thy ===== *)
theory ExprParseTotal
  imports ExprParse
begin

text \<open>
  The parser of policy expressions returns on every input: each of its functions leaves fewer bytes
  of tokens than it was given, so no bound on a recursion is reached.
\<close>

section \<open>Token streams\<close>

definition stream :: "tokens \<Rightarrow> bool" where
  "stream ts \<longleftrightarrow> (\<exists>us. ts = us @ [eof_token] \<and> list_all proper_token us)"

lemma stream_single [simp]: "stream [eof_token]"
  by (simp add: stream_def)

lemma stream_Cons: "stream (t # ts) \<longleftrightarrow> (t = eof_token \<and> ts = [] \<or> proper_token t \<and> stream ts)"
proof
  assume "stream (t # ts)"
  then obtain us where "t # ts = us @ [eof_token]" "list_all proper_token us" by (auto simp: stream_def)
  then show "t = eof_token \<and> ts = [] \<or> proper_token t \<and> stream ts" by (cases us) (auto simp: stream_def)
next
  show "t = eof_token \<and> ts = [] \<or> proper_token t \<and> stream ts \<Longrightarrow> stream (t # ts)"
    by (auto simp: stream_def intro: exI [where x = "_ # _"])
qed

lemma not_stream_Nil [simp]: "\<not> stream []"
  by (simp add: stream_def)

lemma scan_stream: "scan uc s = Ok ts \<Longrightarrow> stream ts \<and> token_weight ts \<le> length s"
  unfolding scan_def using scan_tokens_stream [of _ uc s ts] by (fastforce simp: stream_def eof_token_def)

lemma peek_Cons [simp]: "peek (t # ts) = xt_kind t" "lexeme (t # ts) = xt_lexeme t"
  by (simp_all add: peek_def lexeme_def)

lemma take_token_stream:
  assumes "stream ts" and "peek ts \<noteq> TokenEOF"
  shows "stream (take_token ts)" "token_weight (take_token ts) < token_weight ts"
    "length (lexeme ts) + token_weight (take_token ts) = token_weight ts"
  using assms by (cases ts; auto simp: stream_Cons take_token_def eof_token_def proper_token_def)+

lemma take_token_tl: "peek ts \<noteq> TokenEOF \<Longrightarrow> take_token ts = tl ts"
  by (simp add: take_token_def)

lemma take_token_le: "token_weight (take_token ts) \<le> token_weight ts"
  by (cases ts) (auto simp: take_token_def)

lemma take_token_keeps: "stream ts \<Longrightarrow> stream (take_token ts)"
  using take_token_stream(1) [of ts] by (cases "peek ts = TokenEOF") (simp_all add: take_token_def)

lemma peek_at_simps:
  "peek_at (Suc 0) ts = peek (tl ts)" "peek_at 2 ts = peek (tl (tl ts))" "peek_at 3 ts = peek (tl (tl (tl ts)))"
  by (simp_all add: peek_at_def drop_Suc numeral_2_eq_2 numeral_3_eq_3)

lemma drop_two:
  assumes "stream ts" and "peek ts \<noteq> TokenEOF" and "peek_at 1 ts \<noteq> TokenEOF"
  shows "stream (drop 2 ts)" "token_weight (drop 2 ts) < token_weight (take_token ts)"
proof -
  have "drop 2 ts = take_token (take_token ts)"
    using assms(2,3) by (simp add: peek_at_simps take_token_def drop_Suc numeral_2_eq_2)
  moreover have "peek (take_token ts) \<noteq> TokenEOF"
    using assms(2,3) by (simp add: peek_at_simps take_token_tl)
  ultimately show "stream (drop 2 ts)" "token_weight (drop 2 ts) < token_weight (take_token ts)"
    using take_token_stream [OF take_token_stream(1) [OF assms(1,2)]] by simp_all
qed

lemma qualified_name_stream:
  "stream ts \<Longrightarrow> stream (snd (qualified_name name ts)) \<and> token_weight (snd (qualified_name name ts)) \<le> token_weight ts"
  by (induction name ts rule: qualified_name.induct) (auto simp: stream_Cons eof_token_def proper_token_def)

lemma type_argument_stream:
  "stream ts \<Longrightarrow> stream (snd (type_argument ts)) \<and> token_weight (snd (type_argument ts)) \<le> token_weight ts"
  by (cases ts; cases "tl ts"; cases "tl (tl ts)")
    (auto simp: type_argument_def peek_at_simps stream_Cons eof_token_def proper_token_def)

section \<open>Progress\<close>

text \<open>A result whose rest weighs less than \<open>k\<close>, or an error that is not the bound.\<close>

definition own_error :: "parse_error \<Rightarrow> bool" where
  "own_error e \<longleftrightarrow> e \<noteq> ParseFuel \<and> e \<noteq> LexFailure LexFuel"

lemma own_error_simps [simp]: "own_error (LexFailure e) \<longleftrightarrow> e \<noteq> LexFuel" "\<not> own_error ParseFuel"
  by (simp_all add: own_error_def)

lemma own_error_other: "e \<noteq> ParseFuel \<Longrightarrow> (\<And>l. e \<noteq> LexFailure l) \<Longrightarrow> own_error e"
  by (simp add: own_error_def)

lemmas own_errors [simp] = own_error_other [of ExpressionExpected, simplified] own_error_other [of MemberExpected, simplified]
  own_error_other [of TypeNameExpected, simplified] own_error_other [of FieldNameExpected, simplified]
  own_error_other [of LocalNameExpected, simplified] own_error_other [of "PunctuationExpected s" for s, simplified]
  own_error_other [of "TokenUnexpected s" for s, simplified] own_error_other [of "HoleInput s" for s, simplified]
  own_error_other [of "TypeUnsupported s" for s, simplified] own_error_other [of "StatementUnsupported s" for s, simplified]
  own_error_other [of "ParameterUndocumented s" for s, simplified] own_error_other [of NamedArgumentAmong, simplified]
  own_error_other [of ReturnWithoutValue, simplified] own_error_other [of BlockWithoutReturn, simplified]

definition leaves :: "nat \<Rightarrow> 'a parsed \<Rightarrow> bool" where
  "leaves k r \<longleftrightarrow> (case r of Inl e \<Rightarrow> own_error e | Inr (x, ts) \<Rightarrow> stream ts \<and> token_weight ts < k)"

definition good :: "nat \<Rightarrow> expr_parser \<Rightarrow> bool" where
  "good n p \<longleftrightarrow> (\<forall>ts. stream ts \<longrightarrow> token_weight ts < n \<longrightarrow> leaves (token_weight ts) (p ts))"

lemma leaves_simps [simp]:
  "leaves k (Err e) \<longleftrightarrow> own_error e"
  "leaves k (Ok (x, ts)) \<longleftrightarrow> stream ts \<and> token_weight ts < k"
  by (simp_all add: leaves_def)

lemma goodD: "good n p \<Longrightarrow> stream ts \<Longrightarrow> token_weight ts < n \<Longrightarrow> leaves (token_weight ts) (p ts)"
  by (simp add: good_def)

lemma leaves_bind:
  assumes "leaves j r" and "\<And>x ts. stream ts \<Longrightarrow> token_weight ts < j \<Longrightarrow> leaves k (f (x, ts))"
  shows "leaves k (bind_result r f)"
  using assms by (cases r) (auto simp: leaves_def)

lemma leaves_expect:
  assumes "stream ts" and "k \<noteq> TokenEOF"
    and "\<And>ts'. stream ts' \<Longrightarrow> token_weight ts' < token_weight ts \<Longrightarrow> leaves j (f ts')"
  shows "leaves j (bind_result (expect k what ts) f)"
  using assms take_token_stream [OF assms(1)] by (auto simp: expect_def)

lemma leaves_mono: "leaves j r \<Longrightarrow> j \<le> k \<Longrightarrow> leaves k r"
  by (auto simp: leaves_def split: sum.splits)

lemma leaves_sub:
  assumes "good n sub" and "stream ts" and "token_weight ts < n"
    and "\<And>x ts'. stream ts' \<Longrightarrow> token_weight ts' < token_weight ts \<Longrightarrow> leaves k (f (x, ts'))"
  shows "leaves k (bind_result (sub ts) f)"
  using goodD [OF assms(1-3)] assms(4) by (rule leaves_bind)

section \<open>Expressions\<close>

lemma argument_loop_leaves:
  assumes "good n sub"
  shows "stream ts \<Longrightarrow> token_weight ts < n \<Longrightarrow> token_weight ts < m \<Longrightarrow> leaves (token_weight ts) (argument_loop sub m args names ts)"
proof (induction m arbitrary: args names ts)
  case (Suc m)
  let ?named = "peek ts = TokenIdent \<and> peek_at 1 ts = TokenColon"
  let ?start = "if ?named then drop 2 ts else ts"
  have start: "stream ?start" "token_weight ?start \<le> token_weight ts"
    using drop_two [of ts] take_token_le [of ts] Suc.prems(1) by auto
  have "leaves (token_weight ts) (argument_loop sub m a b (take_token ts1))"
    if "stream ts1" "token_weight ts1 < token_weight ?start" "peek ts1 = TokenComma" for a b ts1
    using take_token_stream [OF that(1)] that(2,3) start(2) Suc.prems(2,3)
    by (intro leaves_mono [OF Suc.IH]) auto
  then show ?case
    unfolding argument_loop.simps Let_def using start Suc.prems(2) take_token_stream
    by (intro leaves_sub [OF assms]) fastforce+
qed simp

lemma p_arguments_leaves:
  assumes "good n sub" and "stream ts" and "token_weight ts < n"
  shows "leaves (token_weight ts) (p_arguments sub ts)"
  using argument_loop_leaves [OF assms, of "Suc (token_weight ts)"] take_token_stream [OF assms(2)]
  by (auto simp: p_arguments_def)

lemma field_loop_leaves:
  assumes "good n sub"
  shows "stream ts \<Longrightarrow> token_weight ts < n \<Longrightarrow> token_weight ts < m \<Longrightarrow> leaves (Suc (token_weight ts)) (field_loop sub m ts)"
proof (induction m arbitrary: ts)
  case (Suc m)
  have "leaves (Suc (token_weight ts)) (bind_result (field_loop sub m (take_token ts2)) (\<lambda>(fs, ts3). Ok (f # fs, ts3)))"
    if "stream ts2" "token_weight ts2 < token_weight ts" "peek ts2 = TokenComma" for ts2 f
    using take_token_stream [OF that(1)] that(2,3) Suc.prems(2,3)
    by (intro leaves_bind [OF Suc.IH]) auto
  then show ?case
    unfolding field_loop.simps using Suc.prems take_token_stream [OF Suc.prems(1)]
    by (auto intro!: leaves_expect leaves_sub [OF assms])
qed simp

lemma anonymous_object_leaves:
  assumes "good n sub" and "stream ts" and "token_weight ts < n" and "peek ts \<noteq> TokenEOF"
  shows "leaves (token_weight ts) (anonymous_object sub ts)"
proof -
  note ts1 = take_token_stream [OF assms(2,4)]
  have "leaves (Suc (token_weight (take_token ts))) (field_loop sub (Suc (token_weight ts)) (take_token ts))"
    using assms ts1 by (intro field_loop_leaves [OF assms(1)]) auto
  then show ?thesis
    unfolding anonymous_object_def using ts1 by (rule_tac leaves_bind) (auto intro!: leaves_expect)
qed

lemma construction_leaves:
  assumes "good n sub" and "stream ts" and "token_weight ts < n"
  shows "leaves (token_weight ts) (construction sub ts)"
proof -
  have named: "leaves (token_weight ts)
      (bind_result (expect TokenLParen ''('' ts1) (\<lambda>ts2. bind_result (p_arguments sub ts2) (\<lambda>((args, names), ts3).
         case check_argument_names names (length args) of Some e \<Rightarrow> Err e | None \<Rightarrow> Ok (NewExpr name args, ts3))))"
    if "stream ts1" "token_weight ts1 \<le> token_weight ts" for name ts1
    using that assms(3)
    by (intro leaves_expect leaves_bind [OF p_arguments_leaves [OF assms(1)]])
      (auto simp: check_argument_names_def Let_def split: option.splits prod.splits)
  show ?thesis
    using assms anonymous_object_leaves [OF assms] named take_token_stream [OF assms(2)]
      qualified_name_stream [of "take_token ts" "lexeme ts"]
    by (fastforce simp: construction_def split: prod.splits)
qed

lemma hole_shorter: "split_interpolation n lit s = Ok (ps, rest) \<Longrightarrow> PartHole h \<in> set ps \<Longrightarrow> length h < length s"
proof (induction n arbitrary: lit s ps rest)
  case (Suc n)
  obtain c cs where s: "s = c # cs" using Suc.prems(1) by (auto simp: split_interpolation.simps split: list.splits)
  show ?case
  proof (cases rule: split_branches [where c = c and cs = cs])
    case hole
    then obtain mid us where mid: "matching_closer n (CHR ''{'') (CHR ''}'') 0 s = Ok mid"
      "split_interpolation n [] mid = Ok (us, rest)" "ps = flush lit (PartHole (butlast (consumed cs mid)) # us)"
      using Suc.prems(1) s by (auto simp: split_interpolation.simps split: sum.splits prod.splits)
    have "length mid < length s" using closer_shorter(1) [OF mid(1)] .
    moreover have "length (butlast (consumed cs mid)) < length s" by (simp add: consumed_def s)
    ultimately show ?thesis using mid(3) Suc.prems(2) Suc.IH [OF mid(2)] by (auto simp: flush_def split: if_splits)
  next
    case escape
    then obtain u w where "split_interpolation n (lit @ u) (drop w cs) = Ok (ps, rest)"
      using Suc.prems(1) s by (auto simp: split_interpolation.simps split: sum.splits if_splits)
    from Suc.IH [OF this Suc.prems(2)] show ?thesis by (simp add: s)
  qed (use Suc.prems s in \<open>auto simp: split_interpolation.simps flush_def split: if_splits dest!: Suc.IH\<close>)
qed simp

lemma interpolation_segments_error:
  assumes "good n sub" and "\<And>h. PartHole h \<in> set ps \<Longrightarrow> length h < n" and "interpolation_segments uc sub ps = Err e"
  shows "own_error e"
  using assms(2,3)
proof (induction ps)
  case (Cons p ps)
  have hole: "own_error e" if "p = PartHole h" "parse_hole uc sub h = Err e" for h
  proof (cases "scan uc h")
    case (Inr ts)
    then have "leaves (token_weight ts) (sub ts)"
      using scan_stream [OF Inr] Cons.prems(1) [of h] that(1) by (intro goodD [OF assms(1)]) auto
    then show ?thesis using Inr that(2) by (auto simp: parse_hole_def leaves_def bind_result_Inl_iff split: if_splits)
  qed (use that scan_error [of uc h] in \<open>auto simp: parse_hole_def\<close>)
  show ?case using hole Cons by (cases p) (auto simp: bind_result_Inl_iff)
qed simp

lemma interpolation_error:
  assumes "good n sub" and "length lit \<le> n" and "lit \<noteq> []" and "interpolation uc sub lit = Err e"
  shows "own_error e"
proof (cases "split_interpolation (2 * length lit) [] (drop 2 lit)")
  case (Inr r)
  obtain parts rest where r: "r = (parts, rest)" by (cases r)
  have "interpolation_segments uc sub parts = Err e"
    using assms(4) by (auto simp: interpolation_def Inr r bind_result_Inl_iff)
  moreover have "length h < n" if "PartHole h \<in> set parts" for h
    using hole_shorter [OF Inr [unfolded r] that] assms(2) by simp
  ultimately show ?thesis by (intro interpolation_segments_error [OF assms(1)])
next
  case (Inl l)
  then show ?thesis
    using assms(3,4) closer_fuel(2) [of "2 * length lit" "[]" "drop 2 lit"] by (cases lit; cases "tl lit") (auto simp: interpolation_def)
qed

lemma p_atom_leaves:
  assumes "good n sub" and "\<And>ts'. stream ts' \<Longrightarrow> token_weight ts' < token_weight ts \<Longrightarrow> leaves (token_weight ts') (usub ts')"
    and "stream ts" and "token_weight ts \<le> n"
  shows "leaves (token_weight ts) (p_atom uc sub usub ts)"
proof (cases "peek ts = TokenEOF")
  case True
  then show ?thesis by (simp add: p_atom_def literal_kinds_def)
next
  case False
  note ts1 = take_token_stream [OF assms(3) False]
  have text_le: "length (lexeme ts) \<le> n" "lexeme ts \<noteq> []" using ts1 assms(4) by auto
  have new: "leaves (token_weight ts) (construction sub (take_token ts))"
    using ts1 assms by (intro leaves_mono [OF construction_leaves [OF assms(1)]]) auto
  have cast: "leaves (token_weight ts) (bind_result (usub (drop 2 (take_token ts))) (\<lambda>(x, ts2). Ok (CastExpr t x, ts2)))"
    if "peek (take_token ts) = TokenIdent" "peek_at 1 (take_token ts) = TokenRParen" for t
    using drop_two [of "take_token ts"] take_token_le [of "take_token ts"] that ts1
    by (intro leaves_bind [OF assms(2)]) auto
  have nested: "leaves (token_weight ts) (bind_result (sub (take_token ts)) (\<lambda>(e, ts2).
      bind_result (expect TokenRParen '')'' ts2) (\<lambda>ts3. Ok (e, ts3))))"
    using ts1 assms(4) by (auto intro!: leaves_sub [OF assms(1)] leaves_expect)
  have interp: "leaves (token_weight ts) (bind_result (interpolation uc sub (lexeme ts)) (\<lambda>e. Ok (e, take_token ts)))"
    using interpolation_error [OF assms(1) text_le] ts1 by (cases "interpolation uc sub (lexeme ts)") auto
  show ?thesis
    unfolding p_atom_def Let_def using ts1 new cast nested interp False by simp
qed

lemma postfix_loop_leaves:
  assumes "good n sub"
  shows "stream ts \<Longrightarrow> token_weight ts \<le> n \<Longrightarrow> token_weight ts < m \<Longrightarrow> leaves (Suc (token_weight ts)) (postfix_loop sub m e g ts)"
proof (induction m arbitrary: e g ts)
  case (Suc m)
  note ts1 = take_token_stream [OF Suc.prems(1)]
  have IH: "leaves (Suc (token_weight ts)) (postfix_loop sub m e' g' ts')"
    if "stream ts'" "token_weight ts' < token_weight ts" for e' g' ts'
    using that Suc.prems(2,3) by (intro leaves_mono [OF Suc.IH]) auto
  have member: "leaves (Suc (token_weight ts))
      (if peek (take_token ts) \<noteq> TokenIdent then Err MemberExpected
       else case type_argument (take_token (take_token ts)) of (targ, ts2) \<Rightarrow> postfix_loop sub m (f targ) g' ts2)"
    if "peek ts \<noteq> TokenEOF" for f g'
    using ts1 [OF that] take_token_stream [of "take_token ts"] type_argument_stream [of "take_token (take_token ts)"]
    by (auto intro!: IH split: prod.splits)
  have index: "leaves (Suc (token_weight ts)) (bind_result (sub (take_token ts)) (\<lambda>(key, ts1).
      bind_result (expect TokenRBracket '']'' ts1) (\<lambda>ts2. postfix_loop sub m (f key) g' ts2)))"
    if "peek ts \<noteq> TokenEOF" for f g'
    using ts1 [OF that] Suc.prems(2) by (auto intro!: leaves_sub [OF assms] leaves_expect IH)
  have call: "leaves (Suc (token_weight ts)) (bind_result (p_arguments sub (take_token ts)) (\<lambda>((args, names), ts1).
      postfix_loop sub m (f args names) g' ts1))"
    if "peek ts \<noteq> TokenEOF" for f g'
    using ts1 [OF that] Suc.prems(2) by (auto intro!: leaves_bind [OF p_arguments_leaves [OF assms]] IH)
  show ?case
    unfolding postfix_loop.simps Let_def using member index call Suc.prems(1) by simp
qed simp

lemma unary_loop_leaves:
  assumes "good n sub"
  shows "stream ts \<Longrightarrow> token_weight ts \<le> n \<Longrightarrow> token_weight ts < m \<Longrightarrow> leaves (token_weight ts) (unary_loop uc sub m ts)"
proof (induction m arbitrary: ts)
  case (Suc m)
  note ts1 = take_token_stream [OF Suc.prems(1)]
  have "leaves (token_weight ts) (p_atom uc sub (unary_loop uc sub m) ts)"
    using Suc.prems by (intro p_atom_leaves [OF assms] Suc.IH) auto
  moreover have "leaves (token_weight ts) (postfix_loop sub (Suc (token_weight ts')) e False ts')"
    if "stream ts'" "token_weight ts' < token_weight ts" for e ts'
    using that Suc.prems(2) by (intro leaves_mono [OF postfix_loop_leaves [OF assms]]) auto
  ultimately have "leaves (token_weight ts) (bind_result (p_atom uc sub (unary_loop uc sub m) ts) (\<lambda>(e, ts1).
      postfix_loop sub (Suc (token_weight ts1)) e False ts1))"
    by (rule_tac leaves_bind) auto
  then show ?case
    unfolding unary_loop.simps using ts1 Suc.prems(2,3)
    by (auto intro!: leaves_bind [OF Suc.IH])
qed simp

lemma p_unary_good: "good n sub \<Longrightarrow> good (Suc n) (p_unary uc sub)"
  unfolding good_def [of "Suc n"] p_unary_def by (auto intro!: unary_loop_leaves)

lemma binary_loop_leaves:
  assumes "good n nxt" and "TokenEOF \<notin> set ops"
  shows "stream ts \<Longrightarrow> token_weight ts < n \<Longrightarrow> token_weight ts < m \<Longrightarrow> leaves (Suc (token_weight ts)) (binary_loop nxt ops m left ts)"
proof (induction m arbitrary: left ts)
  case (Suc m)
  have "leaves (Suc (token_weight ts)) (binary_loop nxt ops m l ts')" if "stream ts'" "token_weight ts' < token_weight ts" for l ts'
    using that Suc.prems(2,3) by (intro leaves_mono [OF Suc.IH]) auto
  then show ?case
    unfolding binary_loop.simps using Suc.prems take_token_stream [OF Suc.prems(1)] assms(2)
    by (cases "peek ts = TokenEOF") (auto intro!: leaves_sub [OF assms(1)])
qed simp

lemma p_binary_good:
  assumes "good n nxt" and "TokenEOF \<notin> set ops"
  shows "good n (p_binary nxt ops)"
  unfolding good_def p_binary_def
  by (auto intro!: leaves_sub [OF assms(1)] leaves_mono [OF binary_loop_leaves [OF assms]])

lemma p_or_good: "good n sub \<Longrightarrow> good (Suc n) (p_or uc sub)"
  unfolding p_or_def p_and_def p_equality_def p_comparison_def p_term_def p_factor_def
  by (intro p_binary_good p_unary_good) simp_all

lemma coalesce_loop_leaves:
  assumes "good n sub"
  shows "stream ts \<Longrightarrow> token_weight ts \<le> n \<Longrightarrow> token_weight ts < m \<Longrightarrow> leaves (token_weight ts) (coalesce_loop uc sub m ts)"
proof (induction m arbitrary: ts)
  case (Suc m)
  have "leaves (token_weight ts) (bind_result (coalesce_loop uc sub m (take_token ts')) (\<lambda>(r, ts2). Ok (f r, ts2)))"
    if "stream ts'" "token_weight ts' < token_weight ts" "peek ts' = TokenCoalesce" for f ts'
    using that take_token_stream [OF that(1)] Suc.prems(2,3) by (auto intro!: leaves_bind [OF Suc.IH])
  then show ?case
    unfolding coalesce_loop.simps using Suc.prems by (auto intro!: leaves_sub [OF p_or_good [OF assms]])
qed simp

lemma p_coalesce_good: "good n sub \<Longrightarrow> good (Suc n) (p_coalesce uc sub)"
  unfolding good_def [of "Suc n"] p_coalesce_def by (auto intro!: coalesce_loop_leaves)

lemma p_ternary_good: "good n (p_ternary uc n)"
proof (induction n)
  case (Suc n)
  have "leaves (token_weight ts) (p_ternary uc (Suc n) ts)" if ts: "stream ts" "token_weight ts < Suc n" for ts
  proof -
    have lambda: "leaves (token_weight ts) (bind_result (p_ternary uc n (drop 2 ts)) (\<lambda>(body, ts1). Ok (LambdaExpr x body, ts1)))"
      if "peek ts = TokenIdent" "peek_at 1 ts = TokenArrow" for x
      using drop_two [of ts] take_token_stream [of ts] that ts by (auto intro!: leaves_sub [OF Suc.IH])
    have cond: "leaves (token_weight ts) (bind_result (p_ternary uc n (take_token ts1)) (\<lambda>(yes, ts2).
          bind_result (expect TokenColon '':'' ts2) (\<lambda>ts3.
          bind_result (p_ternary uc n ts3) (\<lambda>(no, ts4). Ok (f yes no, ts4)))))"
      if "stream ts1" "token_weight ts1 < token_weight ts" "peek ts1 = TokenQuestion" for f ts1
      using that take_token_stream [OF that(1)] ts by (auto intro!: leaves_sub [OF Suc.IH] leaves_expect)
    show ?thesis
      unfolding p_ternary.simps using lambda cond ts
      by (auto intro!: leaves_sub [OF p_coalesce_good [OF Suc.IH]])
  qed
  then show ?case by (simp add: good_def)
qed (simp add: good_def)

lemma parse_expr_leaves: "stream ts \<Longrightarrow> leaves (token_weight ts) (parse_expr uc ts)"
  unfolding parse_expr_def by (rule goodD [OF p_ternary_good]) simp_all

section \<open>Statements\<close>

lemma finish_stmt_leaves: "stream ts \<Longrightarrow> leaves (token_weight ts) (finish_stmt uc f ts)"
  unfolding finish_stmt_def by (auto intro!: leaves_bind [OF parse_expr_leaves] leaves_expect)

lemma var_decl_leaves: "stream ts \<Longrightarrow> leaves (token_weight ts) (var_decl uc ts)"
  unfolding var_decl_def using take_token_stream [of ts]
  by (auto intro!: leaves_expect leaves_mono [OF finish_stmt_leaves])

lemma return_stmt_leaves: "stream ts \<Longrightarrow> leaves (token_weight ts) (return_stmt uc ts)"
  unfolding return_stmt_def by (auto intro!: finish_stmt_leaves)

lemma typed_local_stream:
  assumes "stream ts" and "typed_local ts = Some ts'"
  shows "stream ts' \<and> token_weight ts' < token_weight ts"
proof -
  have ident: "peek ts \<noteq> TokenEOF" using assms(2) by (auto simp: typed_local_def split: if_splits)
  let ?q = "snd (qualified_name [] (tl ts))"
  have q: "stream ?q" "token_weight ?q < token_weight ts"
    using take_token_stream [OF assms(1) ident] qualified_name_stream [of "tl ts" "[]"]
    by (auto simp: take_token_tl [OF ident])
  have "ts' = ?q \<or> ts' = drop 2 ?q \<and> peek ?q = TokenLBracket \<and> peek_at 1 ?q = TokenRBracket"
    using assms(2) by (auto simp: typed_local_def Let_def split: if_splits)
  then show ?thesis
    using q drop_two [of ?q] take_token_le [of ?q] by auto
qed

lemma statements_leave:
  "stream ts \<Longrightarrow> 4 * token_weight ts + 2 < n \<Longrightarrow> leaves (Suc (token_weight ts)) (p_statements uc n k ts)"
  "stream ts \<Longrightarrow> 4 * token_weight ts + 1 < n \<Longrightarrow> leaves (token_weight ts) (p_statement uc n ts)"
  "stream ts \<Longrightarrow> 4 * token_weight ts < n \<Longrightarrow> leaves (token_weight ts) (p_if uc n ts)"
  "stream ts \<Longrightarrow> 4 * token_weight ts < n \<Longrightarrow> leaves (token_weight ts) (p_braced uc n ts)"
proof (induction n arbitrary: k ts)
  case (Suc n)
  {
    case 1
    have "leaves (Suc (token_weight ts)) (bind_result (p_statements uc n k ts') (\<lambda>(ss, ts2). Ok (f ss, ts2)))"
      if "stream ts'" "token_weight ts' < token_weight ts" for f ts'
      using that 1 by (auto intro!: leaves_bind [OF Suc.IH(1)])
    then show ?case
      unfolding p_statements.simps using 1 by (auto intro!: leaves_bind [OF Suc.IH(2)])
  next
    case 2
    note ts1 = take_token_stream [OF 2(1)]
    have "leaves (token_weight ts) (var_decl uc ts')" if "typed_local ts = Some ts'" for ts'
      using typed_local_stream [OF 2(1) that] by (auto intro!: leaves_mono [OF var_decl_leaves])
    moreover have "leaves (token_weight ts) (finish_stmt uc f (drop 2 ts))" if "peek ts = TokenIdent" "peek_at 1 ts = TokenAssign" for f
      using drop_two [OF 2(1)] ts1 that by (auto intro!: leaves_mono [OF finish_stmt_leaves])
    moreover have "leaves (token_weight ts) (p_if uc n (take_token ts))" if "peek ts = TokenIf"
      using ts1 that 2(2) by (intro leaves_mono [OF Suc.IH(3)]) auto
    ultimately show ?case
      unfolding p_statement.simps using ts1
      by (auto intro!: leaves_mono [OF var_decl_leaves] leaves_mono [OF return_stmt_leaves] split: option.splits)
  next
    case 3
    have rest: "leaves (token_weight ts)
        (if peek ts4 \<noteq> TokenElse then Ok (f [], ts4)
         else let ts5 = take_token ts4 in
           if peek ts5 = TokenIf then bind_result (p_if uc n (take_token ts5)) (\<lambda>(nested, ts6). Ok (f [nested], ts6))
           else bind_result (p_braced uc n ts5) (\<lambda>(no, ts6). Ok (f no, ts6)))"
      if "stream ts4" "token_weight ts4 < token_weight ts" for f ts4
      using that 3(2) take_token_stream [of ts4] take_token_stream [of "take_token ts4"]
      by (auto simp: Let_def intro!: leaves_bind [OF Suc.IH(3)] leaves_bind [OF Suc.IH(4)])
    show ?case
      unfolding p_if.simps using 3
      by (auto simp del: Let_def intro!: leaves_expect leaves_bind [OF parse_expr_leaves] leaves_bind [OF Suc.IH(4)] rest)
  next
    case 4
    then show ?case
      unfolding p_braced.simps by (auto intro!: leaves_expect leaves_bind [OF Suc.IH(1)])
  }
qed simp_all

text \<open>
  C14. Compiling an expression always answers: every source gives a program or an error of the lexer
  or the grammar, never an exhausted bound.
\<close>

theorem expression_parser_total: "parse uc source \<noteq> Err ParseFuel \<and> parse uc source \<noteq> Err (LexFailure LexFuel)"
proof -
  have ts: "stream ts" if "lex uc source = Ok (ts, form)" for ts form
  proof -
    have "\<exists>inner. scan uc inner = Ok ts"
      using that by (auto simp: lex_def Let_def map_sum_def split: if_splits sum.splits)
    then show ?thesis using scan_stream by blast
  qed
  have "own_error e" if "parse uc source = Err e" for e
  proof (cases "lex uc source")
    case (Inl l)
    then show ?thesis using that expression_lexer_total [of uc source] by (auto simp: parse_def)
  next
    case (Inr r)
    obtain us form where r: "r = (us, form)" by (cases r)
    note us = ts [OF Inr [unfolded r]]
    show ?thesis
      using that statements_leave(1) [OF us, of "statement_fuel us" uc TokenEOF] parse_expr_leaves [OF us, of uc]
      by (auto simp: parse_def Inr r statement_fuel_def leaves_def bind_result_Inl_iff split: if_splits)
  qed
  then show ?thesis using own_error_simps by blast
qed

end
