(* ===== verification/ExprFacts.thy ===== *)
theory ExprFacts
  imports ExprEval ExprParseTotal
begin

text \<open>
  What evaluation guarantees: the bound on nested calls does not matter once it is enough, it is
  enough for expressions whose lambdas are only arguments, and statements scope their locals.
\<close>

section \<open>The bound on calls\<close>

text \<open>A run that does not stop for the bound is the same with the larger bound.\<close>

definition extends_run :: "('h, 's, 'a) run \<Rightarrow> ('h, 's, 'a) run \<Rightarrow> bool" where
  "extends_run m m' \<longleftrightarrow> (\<forall>s. fst (m s) \<noteq> Err TooDeep \<longrightarrow> m' s = m s)"

lemma extends_refl [simp, intro!]: "extends_run m m"
  by (simp add: extends_run_def)

lemma extends_then [intro!]:
  assumes "extends_run m m'" and "\<And>x. extends_run (f x) (f' x)"
  shows "extends_run (then_run m f) (then_run m' f')"
  unfolding extends_run_def
proof (intro allI impI)
  fix s
  assume *: "fst (then_run m f s) \<noteq> Err TooDeep"
  then have "m' s = m s" using assms(1) by (cases "m s") (auto simp: extends_run_def then_run_def split: sum.splits)
  then show "then_run m' f' s = then_run m f s"
    using * assms(2) by (auto simp: extends_run_def then_run_def split: prod.splits sum.splits)
qed

lemma extends_texting [intro!]: "(\<And>t. extends_run (f t) (f' t)) \<Longrightarrow> extends_run (texting ho v f) (texting ho v f')"
  by (simp add: extends_run_def texting_def)

definition extends_calls :: "('h, 's) caller \<Rightarrow> ('h, 's) caller \<Rightarrow> bool" where
  "extends_calls c c' \<longleftrightarrow> (\<forall>v args. extends_run (c v args) (c' v args))"

lemma extends_eval:
  "extends_calls call call' \<Longrightarrow> extends_run (eval ho call sc e) (eval ho call' sc e)"
  "extends_calls call call' \<Longrightarrow> extends_run (eval_args ho call sc es) (eval_args ho call' sc es)"
  "extends_calls call call' \<Longrightarrow> extends_run (eval_fields ho call sc fs) (eval_fields ho call' sc fs)"
  "extends_calls call call' \<Longrightarrow> extends_run (eval_segments ho call sc segs) (eval_segments ho call' sc segs)"
  by (induction ho call sc e and ho call sc es and ho call sc fs and ho call sc segs
      rule: eval_eval_args_eval_fields_eval_segments.induct)
    (auto simp: extends_calls_def split: option.splits, metis+)

lemma extends_any: "extends_calls call call' \<Longrightarrow> extends_run (list_any call f xs) (list_any call' f xs)"
  by (induction xs) (auto simp: extends_calls_def split: val.splits bool.splits)

lemma extends_call_value: "extends_calls call call' \<Longrightarrow> extends_calls (call_value ho call) (call_value ho call')"
  unfolding extends_calls_def [of "call_value ho call"]
  by (auto simp: call_value_def call_method_def extends_any split: val.splits object.splits list.splits)
    (auto simp: extends_run_def dest: extends_eval(1) [unfolded extends_run_def])

lemma extends_call_at: "extends_calls (call_at ho n) (call_at ho (n + k))"
proof (induction n)
  case 0
  then show ?case by (simp add: extends_calls_def extends_run_def stops_def)
next
  case (Suc n)
  from extends_call_value [OF this, of ho] show ?case by (simp add: extends_calls_def)
qed

lemma extends_exec:
  "extends_calls call call' \<Longrightarrow> extends_run (exec ho call i st) (exec ho call' i st)"
  "extends_calls call call' \<Longrightarrow> extends_run (exec_statements ho call i ss) (exec_statements ho call' i ss)"
proof (induction ho call i st and ho call i ss rule: exec_exec_statements.induct)
  case (2 ho call i name e)
  have "extends_run (then_run (eval ho call (BlockScope i) e) (\<lambda>v s. (Ok None, bind_local i name v s)))
      (then_run (eval ho call' (BlockScope i) e) (\<lambda>v s. (Ok None, bind_local i name v s)))"
    using 2 by (intro extends_then extends_eval) auto
  then show ?case by (auto simp: extends_run_def)
next
  case (4 ho call i c yes no)
  have scoped: "extends_run m m' \<Longrightarrow> extends_run (scoped i names m) (scoped i names m')" for names and m m' :: "('a, 'b, 'a val option) run"
    by (auto simp: extends_run_def scoped_def split: prod.splits)
  show ?case using 4 by (auto intro!: extends_eval scoped split: option.splits)
qed (auto intro!: extends_eval)

text \<open>
  The bound on nested calls is only a bound: a program that does not exhaust it has the same
  value, error and effects under every larger one.
\<close>

theorem call_bound_irrelevant:
  assumes "fst (eval_program ho n p env s) \<noteq> Err TooDeep" and "n \<le> m"
  shows "eval_program ho m p env s = eval_program ho n p env s"
proof -
  obtain k where m: "m = n + k" using assms(2) le_Suc_ex by blast
  note calls = extends_call_at [of ho n k]
  have "extends_run (eval_program ho n p env) (eval_program ho m p env)"
  proof (cases p)
    case (BareProgram e)
    then show ?thesis using calls by (simp add: eval_program_def m extends_eval)
  next
    case (BlockProgram body)
    have "extends_run (then_run (exec_statements ho (call_at ho n) i body) (\<lambda>r. case r of None \<Rightarrow> failing BlockWithoutValue | Some v \<Rightarrow> yields v))
        (then_run (exec_statements ho (call_at ho m) i body) (\<lambda>r. case r of None \<Rightarrow> failing BlockWithoutValue | Some v \<Rightarrow> yields v))" for i
      using calls by (intro extends_then extends_exec extends_refl) (simp add: m)
    then show ?thesis by (simp add: eval_program_def BlockProgram extends_run_def)
  qed
  then show ?thesis using assms(1) by (simp add: extends_run_def)
qed

section \<open>Blocks that return\<close>

lemma scoped_result: "scoped i names m s = (r, s') \<Longrightarrow> \<exists>t. m s = (r, t)"
  by (auto simp: scoped_def split: prod.splits)

lemma always_returns_sound:
  "always_returns ss \<Longrightarrow> exec_statements ho call i ss s = (Ok r, s') \<Longrightarrow> r \<noteq> None"
proof (induction ss arbitrary: s r s' rule: always_returns.induct)
  case (2 st ss)
  obtain q s1 where q: "exec ho call i st s = (Ok q, s1)"
    and rest: "q = None \<Longrightarrow> exec_statements ho call i ss s1 = (Ok r, s')" "q \<noteq> None \<Longrightarrow> r = q"
    using "2.prems"(2) by (auto simp: then_run_def yields_def split: prod.splits sum.splits if_splits)
  show ?case
  proof (cases q)
    case None
    have "\<not> (case st of ReturnStmt e \<Rightarrow> True | IfStmt c yes no \<Rightarrow> always_returns yes \<and> always_returns no | _ \<Rightarrow> False)"
    proof (cases st)
      case (ReturnStmt e)
      then show ?thesis using q None by (auto simp: then_run_def yields_def split: prod.splits sum.splits)
    next
      case (IfStmt c yes no)
      have "\<exists>t. scoped i (declared yes) (exec_statements ho call i yes) t = (Ok None, s1)
          \<or> scoped i (declared no) (exec_statements ho call i no) t = (Ok None, s1)"
        using q None IfStmt by (auto simp: then_run_def stops_def split: prod.splits sum.splits option.splits if_splits)
      then obtain t t' where "exec_statements ho call i yes t = (Ok None, t') \<or> exec_statements ho call i no t = (Ok None, t')"
        by (blast dest: scoped_result)
      then have "\<not> always_returns yes \<or> \<not> always_returns no"
        using "2.IH"(1) [OF IfStmt, of t None t'] "2.IH"(2) [OF IfStmt, of t None t'] by blast
      then show ?thesis using IfStmt by simp
    qed simp_all
    then show ?thesis using "2.prems" "2.IH"(3) None rest by auto
  qed (use rest in simp)
qed simp

text \<open>
  C16. What the parser accepts as a statement block returns a value on every path: its statements
  never run off the end, so the error for that is unreachable.
\<close>

theorem accepted_block_returns:
  assumes "parse uc source = Ok (BlockProgram body)" and "exec_statements ho call i body s = (Ok r, s')"
  shows "r \<noteq> None"
proof -
  have "always_returns body"
    using assms(1) by (auto simp: parse_def split: sum.splits prod.splits if_splits)
  then show ?thesis using assms(2) by (rule always_returns_sound)
qed

section \<open>A program without a bound\<close>

text \<open>\<open>(x => x(x))(x => x(x))\<close>\<close>

definition self_application :: expr where
  "self_application = LambdaExpr ''x'' (CallExpr (IdentExpr ''x'') [IdentExpr ''x''] [[]] False)"

definition endless :: expr where
  "endless = CallExpr self_application [self_application] [[]] False"

lemma endless_call:
  "fst (call_at ho n (ObjectV (LambdaObject ''x'' (CallExpr (IdentExpr ''x'') [IdentExpr ''x''] [[]] False) (FixedScope env)))
      [ObjectV (LambdaObject ''x'' (CallExpr (IdentExpr ''x'') [IdentExpr ''x''] [[]] False) (FixedScope env))] s) = Err TooDeep"
proof (induction n arbitrary: s)
  case 0
  then show ?case by (simp add: stops_def)
next
  case (Suc n)
  then show ?case
    by (auto simp: call_value_def then_run_def ident_value_def bindings_def update_conv' check_argument_names_def yields_def
        split: prod.splits)
qed

text \<open>
  C30. The program \<open>(x => x(x))(x => x(x))\<close>, which the parser accepts as it accepts any lambda that is
  called, exhausts every bound on nested calls: the evaluator recurses until Go's stack is gone.
\<close>

theorem self_application_never_returns:
  "fst (eval_program ho n (BareProgram endless) env s) = Err TooDeep"
  using endless_call [of ho n env s]
  by (simp add: eval_program_def endless_def self_application_def then_run_def check_argument_names_def yields_def)

section \<open>Locals\<close>

text \<open>Evaluating an expression binds nothing.\<close>

definition keeps_blocks :: "('h, 's, 'a) run \<Rightarrow> bool" where
  "keeps_blocks m \<longleftrightarrow> (\<forall>s. es_blocks (snd (m s)) = es_blocks s)"

lemma keeps_yields [simp, intro!]: "keeps_blocks (yields x)" "keeps_blocks (stops e)" "keeps_blocks (of_result r)"
  "keeps_blocks (reading_host f)" "keeps_blocks (new_list items what)" "keeps_blocks (ident_value sc name)"
  by (auto simp: keeps_blocks_def yields_def stops_def of_result_def reading_host_def new_list_def ident_value_def
      split: sum.splits option.splits)

lemma keeps_on_host [simp, intro!]: "keeps_blocks (on_host f)"
  by (auto simp: keeps_blocks_def on_host_def split: prod.splits)

lemma keeps_then [intro!]: "keeps_blocks m \<Longrightarrow> (\<And>x. keeps_blocks (f x)) \<Longrightarrow> keeps_blocks (then_run m f)"
  by (simp add: keeps_blocks_def then_run_def split: prod.splits sum.splits) (metis snd_conv)

lemma keeps_texting [intro!]: "(\<And>t. keeps_blocks (f t)) \<Longrightarrow> keeps_blocks (texting ho v f)"
  by (simp add: keeps_blocks_def texting_def)

lemma keeps_members [simp, intro!]: "keeps_blocks (member_value ho v name)" "keeps_blocks (generic_member ho v name targ)"
  "keeps_blocks (index_value ho v k)"
  by (auto simp: member_value_def generic_member_def index_value_def split: val.splits object.splits option.splits)

lemma keeps_eval:
  "(\<And>v args. keeps_blocks (call v args)) \<Longrightarrow> keeps_blocks (eval ho call sc e)"
  "(\<And>v args. keeps_blocks (call v args)) \<Longrightarrow> keeps_blocks (eval_args ho call sc es)"
  "(\<And>v args. keeps_blocks (call v args)) \<Longrightarrow> keeps_blocks (eval_fields ho call sc fs)"
  "(\<And>v args. keeps_blocks (call v args)) \<Longrightarrow> keeps_blocks (eval_segments ho call sc segs)"
  by (induction ho call sc e and ho call sc es and ho call sc fs and ho call sc segs
      rule: eval_eval_args_eval_fields_eval_segments.induct)
    (auto split: option.splits, metis+)

lemma keeps_string_method [simp, intro!]: "keeps_blocks (string_method ho t name args)"
proof -
  have equals: "keeps_blocks (\<lambda>s. of_result (equals_text ho (es_host s) t args) s)"
    by (auto simp: keeps_blocks_def of_result_def yields_def stops_def split: sum.splits)
  have cases: "(c \<Longrightarrow> keeps_blocks m) \<Longrightarrow> (\<not> c \<Longrightarrow> keeps_blocks m') \<Longrightarrow> keeps_blocks (if c then m else m')"
    for c and m m' :: "('a, 'b, 'c val) run"
    by simp
  show ?thesis
    unfolding string_method_def Let_def
    by (intro cases) (auto intro: equals split: list.splits val.splits option.splits)
qed

lemma keeps_any: "(\<And>v args. keeps_blocks (call v args)) \<Longrightarrow> keeps_blocks (list_any call f xs)"
  by (induction xs) (auto split: val.splits bool.splits)

lemma keeps_call_at: "keeps_blocks (call_at ho n v args)"
proof (induction n arbitrary: v args)
  case (Suc n)
  have "keeps_blocks (call_method ho (call_at ho n) recv name args)" for recv name
    using Suc by (auto simp: call_method_def intro!: keeps_any split: val.splits object.splits)
  moreover have "keeps_blocks (\<lambda>s. eval ho (call_at ho n) (f s) e s)" for f e
    using keeps_eval(1) [OF Suc] by (simp add: keeps_blocks_def)
  ultimately show ?case
    by (auto simp: call_value_def split: val.splits object.splits list.splits)
qed simp

definition locals :: "nat \<Rightarrow> ('h, 's) estate \<Rightarrow> string \<rightharpoonup> 'h val" where
  "locals i s = map_of (bindings (BlockScope i) s)"

definition has_block :: "nat \<Rightarrow> ('h, 's) estate \<Rightarrow> bool" where
  "has_block i s \<longleftrightarrow> i < length (es_blocks s)"

lemma locals_bind:
  "has_block i s \<Longrightarrow> has_block i (bind_local i name v s) \<and> locals i (bind_local i name v s) = (locals i s)(name \<mapsto> v)"
  by (simp add: has_block_def locals_def bind_local_def bindings_def update_conv')

lemma locals_restore:
  "has_block i s \<Longrightarrow>
   has_block i (restore_local i (name, old) s) \<and> locals i (restore_local i (name, old) s) = (locals i s)(name := old)"
proof (cases old)
  case None
  then show "has_block i s \<Longrightarrow> ?thesis"
    by (simp add: restore_local_def has_block_def locals_def bindings_def delete_conv')
next
  case (Some v)
  then show "has_block i s \<Longrightarrow> ?thesis" using locals_bind [of i s name v] by (simp add: restore_local_def)
qed

lemma locals_restore_all:
  assumes "has_block i s"
  shows "has_block i (foldr (restore_local i) (map (\<lambda>n. (n, f n)) ns) s)
    \<and> locals i (foldr (restore_local i) (map (\<lambda>n. (n, f n)) ns) s) = (\<lambda>n. if n \<in> set ns then f n else locals i s n)"
  by (induction ns) (use assms locals_restore in \<open>auto simp: fun_eq_iff\<close>)

lemma locals_same: "es_blocks s' = es_blocks s \<Longrightarrow> locals i s' = locals i s \<and> has_block i s' = has_block i s"
  by (simp add: locals_def has_block_def bindings_def)

lemma scoped_locals:
  assumes "scoped i names m s = (r, s')" and "m s = (r', s1)" and "has_block i s1"
  shows "has_block i s' \<and> locals i s' = (\<lambda>n. if n \<in> set names then locals i s n else locals i s1 n)"
  using assms locals_restore_all [OF assms(3), of "locals i s" "remdups names"]
  by (simp add: scoped_def locals_def fun_eq_iff)

text \<open>Statements bind the names they declare, and unbind none.\<close>

definition grows :: "nat \<Rightarrow> string list \<Rightarrow> ('h, 's) estate \<Rightarrow> ('h, 's) estate \<Rightarrow> bool" where
  "grows i names s s' \<longleftrightarrow>
     has_block i s' \<and> (\<forall>n. locals i s n \<noteq> None \<longrightarrow> locals i s' n \<noteq> None)
     \<and> (\<forall>n. locals i s' n \<noteq> None \<longrightarrow> locals i s n \<noteq> None \<or> n \<in> set names)"

lemma grows_trans: "grows i xs s t \<Longrightarrow> grows i ys t u \<Longrightarrow> grows i (xs @ ys) s u"
  unfolding grows_def set_append by blast

lemma grows_more: "grows i xs s t \<Longrightarrow> set xs \<subseteq> set ys \<Longrightarrow> grows i ys s t"
  unfolding grows_def by blast

lemma grows_bind: "has_block i s \<Longrightarrow> grows i [name] s (bind_local i name v s)"
  using locals_bind [of i s name v] by (simp add: grows_def)

definition binds :: "nat \<Rightarrow> string list \<Rightarrow> ('h, 's, 'a) run \<Rightarrow> bool" where
  "binds i names m \<longleftrightarrow> (\<forall>s. has_block i s \<longrightarrow> grows i names s (snd (m s)))"

lemma binds_keeps: "keeps_blocks m \<Longrightarrow> binds i [] m"
  unfolding binds_def grows_def keeps_blocks_def using locals_same by metis

lemma binds_more: "binds i xs m \<Longrightarrow> set xs \<subseteq> set ys \<Longrightarrow> binds i ys m"
  unfolding binds_def by (blast intro: grows_more)

lemma binds_then:
  fixes m :: "('h, 's, 'a) run"
  assumes "binds i xs m" and "\<And>x. binds i ys (f x)"
  shows "binds i (xs @ ys) (then_run m f)"
  unfolding binds_def
proof (intro allI impI)
  fix s :: "('h, 's) estate"
  assume s: "has_block i s"
  obtain r s1 where m: "m s = (r, s1)" by fastforce
  then have first: "grows i xs s s1" and "has_block i s1" using assms(1) s by (auto simp: binds_def grows_def)
  moreover have "grows i ys s1 (snd (f x s1))" for x
    using assms(2) \<open>has_block i s1\<close> by (simp add: binds_def)
  ultimately show "grows i (xs @ ys) s (snd (then_run m f s))"
    using grows_trans [OF first] grows_more [OF first, of "xs @ ys"] by (cases r) (auto simp: then_run_def m)
qed

lemma binds_scoped:
  fixes m :: "('h, 's, 'a) run"
  assumes "binds i names m"
  shows "binds i [] (scoped i names m)"
  unfolding binds_def
proof (intro allI impI)
  fix s :: "('h, 's) estate"
  assume s: "has_block i s"
  obtain r s1 where m: "m s = (r, s1)" by fastforce
  obtain r' s' where r': "scoped i names m s = (r', s')" by fastforce
  have "grows i names s s1" using assms s m by (auto simp: binds_def)
  with scoped_locals [OF r' m] show "grows i [] s (snd (scoped i names m s))"
    by (auto simp: grows_def r')
qed

lemma declared_cons: "declared (st # ss) = declared [st] @ declared ss"
  by (cases st) auto

lemma binds_bind_local: "binds i [name] (\<lambda>s. (Ok None, bind_local i name v s))"
  by (simp add: binds_def grows_bind)

lemma binds_exec:
  "(\<And>v args. keeps_blocks (call v args)) \<Longrightarrow> binds i (declared [st]) (exec ho call i st)"
  "(\<And>v args. keeps_blocks (call v args)) \<Longrightarrow> binds i (declared ss) (exec_statements ho call i ss)"
proof (induction ho call i st and ho call i ss rule: exec_exec_statements.induct)
  case (1 ho call i name e)
  from binds_then [OF binds_keeps [OF keeps_eval(1)] binds_bind_local, OF 1]
  show ?case by simp
next
  case (2 ho call i name e)
  have "binds i [name] (then_run (eval ho call (BlockScope i) e) (\<lambda>v s. (Ok (None :: 'a val option), bind_local i name v s)))"
    using binds_then [OF binds_keeps [OF keeps_eval(1)] binds_bind_local, OF 2] by simp
  then have bind: "has_block i s \<Longrightarrow> grows i [name] s
      (snd (then_run (eval ho call (BlockScope i) e) (\<lambda>v s. (Ok (None :: 'a val option), bind_local i name v s)) s))" for s :: "('a, 'b) estate"
    by (simp add: binds_def)
  have known: "grows i [name] s t \<Longrightarrow> locals i s name \<noteq> None \<Longrightarrow> grows i [] s t" for s t :: "('a, 'b) estate"
    unfolding grows_def by fastforce
  have same: "has_block i s \<Longrightarrow> grows i [] s s" for s :: "('a, 'b) estate"
    by (simp add: grows_def)
  show ?case
    unfolding binds_def
  proof (intro allI impI)
    fix s :: "('a, 'b) estate"
    assume s: "has_block i s"
    show "grows i (declared [AssignStmt name e]) s (snd (exec ho call i (AssignStmt name e) s))"
    proof (cases "locals i s name = None")
      case True
      then show ?thesis using same [OF s] by (simp add: locals_def)
    next
      case False
      then show ?thesis using known [OF bind [OF s] False] by (auto simp: locals_def)
    qed
  qed
next
  case (3 ho call i e)
  from binds_keeps [OF keeps_then [OF keeps_eval(1) keeps_yields(1)], OF 3] show ?case by simp
next
  case (4 ho call i c yes no)
  have "binds i [] (case as_bool v of None \<Rightarrow> failing (BooleanExpected ''if'')
      | Some b \<Rightarrow> if b then scoped i (declared yes) (exec_statements ho call i yes)
                 else scoped i (declared no) (exec_statements ho call i no))" for v :: "'a val"
  proof (cases "as_bool v")
    case None
    then show ?thesis by (simp add: binds_keeps)
  next
    case (Some b)
    then show ?thesis using 4(1,2) [of v] 4(3) by (cases b) (auto intro: binds_scoped)
  qed
  from binds_then [OF binds_keeps [OF keeps_eval(1)] this, OF 4(3)] show ?case by simp
next
  case (5 ho call i)
  then show ?case by (simp add: binds_keeps)
next
  case (6 ho call i st ss)
  have "binds i (declared ss) (if r = None then exec_statements ho call i ss else yields r)" for r
    using 6 by (auto intro: binds_more [OF binds_keeps])
  from binds_then [OF 6(1) this, OF 6(3)] show ?case by (simp add: declared_cons [of st ss])
qed

text \<open>
  C17. A branch is a scope: after an \<open>if\<close>, with whatever result and even after an error, exactly the
  locals are bound that were bound before, and those the branch declared have their values from before.
\<close>

theorem branch_is_a_scope:
  assumes "i < length (es_blocks s)"
    and "exec ho (call_at ho n) i (IfStmt c yes no) s = (r, s')"
    and "fst (eval ho (call_at ho n) (BlockScope i) c s) = Ok (BoolV b)"
  shows "dom (locals i s') = dom (locals i s)
    \<and> (\<forall>name \<in> set (declared (if b then yes else no)). locals i s' name = locals i s name)"
proof -
  obtain s0 where s0: "eval ho (call_at ho n) (BlockScope i) c s = (Ok (BoolV b), s0)"
    using assms(3) by (metis prod.collapse)
  have blocks: "es_blocks s0 = es_blocks s"
    using keeps_eval(1) [of "call_at ho n", OF keeps_call_at] s0 by (auto simp: keeps_blocks_def) (metis snd_conv)
  note same = locals_same [OF blocks, of i]
  have whole: "grows i [] s s'"
    using binds_exec(1) [of "call_at ho n" i "IfStmt c yes no" ho, OF keeps_call_at] assms(1,2)
    by (auto simp: binds_def has_block_def)
  then have names: "dom (locals i s') = dom (locals i s)"
    unfolding grows_def dom_def by (auto simp del: not_None_eq)
  let ?branch = "if b then yes else no"
  obtain r' s1 where s1: "exec_statements ho (call_at ho n) i ?branch s0 = (r', s1)" by fastforce
  have "scoped i (declared ?branch) (exec_statements ho (call_at ho n) i ?branch) s0 = (r, s')"
    using assms(2) s0 by (auto simp: then_run_def)
  moreover have "has_block i s1"
    using binds_exec(2) [of "call_at ho n" i ?branch ho, OF keeps_call_at] assms(1) same s1
    by (auto simp: binds_def grows_def has_block_def)
  ultimately have "locals i s' name = locals i s name" if "name \<in> set (declared ?branch)" for name
    using scoped_locals [of i "declared ?branch" _ s0 r s' r' s1] s1 same that by auto
  with names show ?thesis by blast
qed

section \<open>Examples\<close>

text \<open>A host without objects, and letters and digits that are ASCII.\<close>

definition bare_host :: "(unit, unit) host" where
  "bare_host = \<lparr>ho_has_member = (\<lambda>_. False), ho_member = (\<lambda>_ _ w. (Ok NullV, w)),
     ho_has_generic = (\<lambda>_. False), ho_generic = (\<lambda>_ _ _ w. (Ok NullV, w)),
     ho_has_index = (\<lambda>_. False), ho_index = (\<lambda>_ _ w. (Ok NullV, w)),
     ho_has_call = (\<lambda>_. False), ho_call = (\<lambda>_ _ w. (Ok NullV, w)),
     ho_text = (\<lambda>_ _. []), ho_equal = (\<lambda>_ _. Some True),
     ho_construct = (\<lambda>_ _ w. (Ok NullV, w)), ho_anonymous = (\<lambda>_ w. (Ok NullV, w)),
     ho_as_jwt = (\<lambda>_ w. (Ok NullV, w)), ho_as_basic = (\<lambda>_ w. (Ok NullV, w))\<rparr>"

definition bare_state :: "(unit, unit) estate" where
  "bare_state = \<lparr>es_blocks = [[(''x'', IntV 1)]], es_lists = 0, es_host = ()\<rparr>"

definition plain_unicode :: unicode where
  "plain_unicode = \<lparr>uc_letter = (\<lambda>_. False), uc_digit = (\<lambda>_. False)\<rparr>"

lemmas evaluation = then_run_def yields_def stops_def ident_value_def bindings_def update_conv' delete_conv'
  check_argument_names_def call_value_def

lemma identity_call:
  "eval_program bare_host (Suc n) (BareProgram (CallExpr (LambdaExpr ''x'' (IdentExpr ''x'')) [LiteralExpr (LInt 7)] [[]] False)) [] s
   = (Ok (IntV 7), s)"
  by (simp add: eval_program_def evaluation)

lemma call_bound_irrelevant_witness:
  "eval_program bare_host 9 (BareProgram (CallExpr (LambdaExpr ''x'' (IdentExpr ''x'')) [LiteralExpr (LInt 7)] [[]] False)) [] bare_state
   = (Ok (IntV 7), bare_state)"
  using call_bound_irrelevant [of bare_host 1
      "BareProgram (CallExpr (LambdaExpr ''x'' (IdentExpr ''x'')) [LiteralExpr (LInt 7)] [[]] False)" "[]" bare_state 9]
    identity_call [of 0 bare_state] by simp

text \<open>Parsing a block that returns \<open>null\<close>\<close>

lemma decode_ascii: "(of_char c :: nat) < 128 \<Longrightarrow> decode_rune c cs = (of_char c, 0)"
  by (simp add: decode_rune_def Let_def)

lemma plain_runes:
  "is_digit_rune plain_unicode r = (48 \<le> r \<and> r \<le> 57)"
  "is_letter_rune plain_unicode r = (65 \<le> r \<and> r \<le> 90 \<or> 97 \<le> r \<and> r \<le> 122)"
  by (auto simp: is_digit_rune_def is_letter_rune_def plain_unicode_def)

lemmas scanning = decode_ascii plain_runes is_space_rune_def next_token_def scan_ident_def symbol_def one_or_two_def
  keyword_kind_def scan_def eof_token_def Let_def skip_comment_def is_digit_def

lemmas parsing = parse_expr_def p_ternary.simps(2) p_coalesce_def coalesce_loop.simps(2) p_or_def p_and_def p_equality_def
  p_comparison_def p_term_def p_factor_def p_binary_def binary_loop.simps(2) p_unary_def unary_loop.simps(2) p_atom_def
  postfix_loop.simps(2) literal_kinds_def p_statements.simps(2) p_statement.simps(2) return_stmt_def finish_stmt_def
  typed_local_def expect_def eof_token_def Let_def take_token_def peek_def

abbreviation word_token :: "expr_kind \<Rightarrow> string \<Rightarrow> expr_token" where
  "word_token k lx \<equiv> \<lparr>xt_kind = k, xt_lexeme = lx, xt_literal = LNull\<rparr>"

lemma example_inner: "unwrap (CHR ''{'') (CHR ''}'') (CHR ''@'' # ''{return null;}'') = Ok ''return null;''"
  by (simp add: unwrap_def eval_nat_numeral matching_closer.simps(2) consumed_def trim_space_def)

lemma example_tokens:
  "scan plain_unicode ''return null;'' =
   Ok [word_token TokenReturn ''return'', word_token TokenNull ''null'', word_token TokenSemicolon '';'', eof_token]"
  by (simp add: scanning)

lemma example_value:
  "parse_expr uc [word_token TokenNull ''null'', word_token TokenSemicolon '';'', word_token TokenEOF []] =
   Ok (LiteralExpr LNull, [word_token TokenSemicolon '';'', word_token TokenEOF []])"
  by (simp add: parsing)

lemma example_statements:
  "p_statements uc (Suc (Suc (Suc n))) TokenEOF
     [word_token TokenReturn ''return'', word_token TokenNull ''null'', word_token TokenSemicolon '';'', word_token TokenEOF []] =
   Ok ([ReturnStmt (LiteralExpr LNull)], [word_token TokenEOF []])"
proof -
  note statement_parsing = p_statements.simps(2) p_statement.simps(2) return_stmt_def finish_stmt_def typed_local_def
    expect_def Let_def take_token_def peek_def
  show ?thesis by (simp add: example_value statement_parsing)
qed

lemma example_block: "parse plain_unicode (CHR ''@'' # ''{return null;}'') = Ok (BlockProgram [ReturnStmt (LiteralExpr LNull)])"
  using example_statements [of plain_unicode 45]
  by (simp add: parse_def lex_def trim_space_def example_inner example_tokens statement_fuel_def peek_def eof_token_def
      eval_nat_numeral)

lemma accepted_block_returns_witness:
  "\<exists>r s'. exec_statements bare_host (call_at bare_host 0) 0 [ReturnStmt (LiteralExpr LNull)] bare_state = (Ok r, s') \<and> r \<noteq> None"
proof -
  have "exec_statements bare_host (call_at bare_host 0) 0 [ReturnStmt (LiteralExpr LNull)] bare_state = (Ok (Some NullV), bare_state)"
    by (simp add: evaluation)
  with accepted_block_returns [OF example_block this] show ?thesis by blast
qed

lemma branch_is_a_scope_witness:
  "dom (locals 0 (snd (exec bare_host (call_at bare_host 0) 0
      (IfStmt (LiteralExpr (LBool True)) [DeclStmt ''x'' (LiteralExpr (LInt 2)), DeclStmt ''y'' (LiteralExpr (LInt 3))] []) bare_state)))
     = dom (locals 0 bare_state)"
  using branch_is_a_scope [of 0 bare_state bare_host 0 "LiteralExpr (LBool True)"
      "[DeclStmt ''x'' (LiteralExpr (LInt 2)), DeclStmt ''y'' (LiteralExpr (LInt 3))]" "[]" _ _ True]
  by (simp add: bare_state_def evaluation scoped_def restore_local_def bind_local_def locals_def)

end
