(* ===== verification/Sql.thy ===== *)
theory Sql
  imports ApimPrelude "HOL-Library.List_Lexorder" "HOL-Library.Char_ord"
begin

text \<open>
  The SQL statements that \<open>internal/store\<close> runs, as SQLite documents them, on tables that are lists of
  rows in the order of insertion: \<open>INSERT ... ON CONFLICT\<close>, \<open>UPDATE\<close>, \<open>DELETE\<close> with the actions of
  foreign keys, \<open>LIKE\<close>, \<open>lower\<close> and \<open>ORDER BY\<close>.  A foreign key refers to the column \<open>id\<close> of its
  parent, as all of them do.  The order in which SQLite runs the actions of several foreign keys is
  not documented, and is an argument.
\<close>

section \<open>Rows and tables\<close>

text \<open>A column with a marshalled document holds the decoded document.\<close>

datatype cell = NullC | TextC string | IntC int | RealC rat | DocC json

type_synonym row = "(string \<times> cell) list"
type_synonym db = "string \<Rightarrow> row list"

datatype sql_error = UniqueFailed | ForeignKeyFailed | CascadeTooDeep

definition col :: "string \<Rightarrow> row \<Rightarrow> cell" where
  "col c r = (case map_of r c of Some x \<Rightarrow> x | None \<Rightarrow> NullC)"

definition text_at :: "string \<Rightarrow> row \<Rightarrow> string" where
  "text_at c r = (case col c r of TextC s \<Rightarrow> s | _ \<Rightarrow> [])"

definition int_at :: "string \<Rightarrow> row \<Rightarrow> int" where
  "int_at c r = (case col c r of IntC n \<Rightarrow> n | _ \<Rightarrow> 0)"

definition bool_at :: "string \<Rightarrow> row \<Rightarrow> bool" where
  "bool_at c r \<longleftrightarrow> int_at c r \<noteq> 0"

definition real_at :: "string \<Rightarrow> row \<Rightarrow> rat" where
  "real_at c r = (case col c r of RealC x \<Rightarrow> x | _ \<Rightarrow> 0)"

definition doc_at :: "string \<Rightarrow> row \<Rightarrow> json" where
  "doc_at c r = (case col c r of DocC j \<Rightarrow> j | _ \<Rightarrow> JNull)"

abbreviation bool_cell :: "bool \<Rightarrow> cell" where
  "bool_cell b \<equiv> IntC (if b then 1 else 0)"

text \<open>\<open>lower(c) = lower(s)\<close>\<close>

definition names_row :: "string \<Rightarrow> string \<Rightarrow> row \<Rightarrow> bool" where
  "names_row c s r \<longleftrightarrow> to_lower (text_at c r) = to_lower s"

text \<open>\<open>LIKE\<close>: \<open>%\<close> stands for any text and \<open>_\<close> for any character.\<close>

fun sql_like :: "string \<Rightarrow> string \<Rightarrow> bool" where
  "sql_like [] s = (s = [])"
| "sql_like (p # ps) [] = (p = CHR ''%'' \<and> sql_like ps [])"
| "sql_like (p # ps) (c # s) =
     (if p = CHR ''%'' then sql_like ps (c # s) \<or> sql_like (p # ps) s
      else (p = CHR ''_'' \<or> lower_char p = lower_char c) \<and> sql_like ps s)"

section \<open>The schema\<close>

record foreign_key =
  fk_column :: string
  fk_parent :: string
  fk_cascades :: bool \<comment> \<open>\<open>ON DELETE CASCADE\<close>, otherwise \<open>RESTRICT\<close>\<close>

record sql_table =
  tb_name :: string
  tb_key :: "string list"
  tb_unique :: "(string \<times> bool) list list" \<comment> \<open>columns, and whether without case\<close>
  tb_refs :: "foreign_key list"

type_synonym schema = "sql_table list"

definition table_of :: "schema \<Rightarrow> string \<Rightarrow> sql_table" where
  "table_of sch t =
     (case find (\<lambda>tb. tb_name tb = t) sch of
        Some tb \<Rightarrow> tb
      | None \<Rightarrow> \<lparr>tb_name = t, tb_key = [''id''], tb_unique = [], tb_refs = []\<rparr>)"

definition key_of :: "sql_table \<Rightarrow> row \<Rightarrow> cell list" where
  "key_of tb r = map (\<lambda>c. col c r) (tb_key tb)"

definition without_case :: "cell \<Rightarrow> cell" where
  "without_case x = (case x of TextC s \<Rightarrow> TextC (to_lower s) | _ \<Rightarrow> x)"

definition unique_of :: "(string \<times> bool) list \<Rightarrow> row \<Rightarrow> cell list" where
  "unique_of u r = map (\<lambda>(c, nocase). if nocase then without_case (col c r) else col c r) u"

definition parent_exists :: "db \<Rightarrow> row \<Rightarrow> foreign_key \<Rightarrow> bool" where
  "parent_exists d r fk \<longleftrightarrow>
     col (fk_column fk) r = NullC \<or> list_ex (\<lambda>p. col ''id'' p = col (fk_column fk) r) (d (fk_parent fk))"

section \<open>Statements\<close>

datatype on_conflict = Fail | Ignore | Update "string list" \<comment> \<open>the columns set from the new row\<close>

definition write_columns :: "string list \<Rightarrow> row \<Rightarrow> row \<Rightarrow> row" where
  "write_columns cs new old = map (\<lambda>(c, x). if c \<in> set cs then (c, col c new) else (c, x)) old"

text \<open>A row may be stored next to the others: no unique index clashes, and its parents exist.\<close>

definition admissible :: "sql_table \<Rightarrow> db \<Rightarrow> row list \<Rightarrow> row \<Rightarrow> sql_error option" where
  "admissible tb d others r =
     (if list_ex (\<lambda>u. list_ex (\<lambda>q. unique_of u q = unique_of u r) others) (tb_unique tb) then Some UniqueFailed
      else if \<not> list_all (parent_exists d r) (tb_refs tb) then Some ForeignKeyFailed
      else None)"

definition insert_row :: "schema \<Rightarrow> string \<Rightarrow> row \<Rightarrow> on_conflict \<Rightarrow> db \<Rightarrow> (sql_error, db) result" where
  "insert_row sch t new oc d =
     (let tb = table_of sch t; same = (\<lambda>r. key_of tb r = key_of tb new) in
      case find same (d t) of
        None \<Rightarrow>
          (case admissible tb d (d t) new of Some e \<Rightarrow> Err e | None \<Rightarrow> Ok (d(t := d t @ [new])))
      | Some old \<Rightarrow>
          (case oc of
             Fail \<Rightarrow> Err UniqueFailed
           | Ignore \<Rightarrow> Ok d
           | Update cs \<Rightarrow>
               let changed = write_columns cs new old in
               (case admissible tb d (filter (\<lambda>r. \<not> same r) (d t)) changed of
                  Some e \<Rightarrow> Err e
                | None \<Rightarrow> Ok (d(t := map (\<lambda>r. if same r then changed else r) (d t))))))"

definition update_rows :: "string \<Rightarrow> (row \<Rightarrow> bool) \<Rightarrow> string list \<Rightarrow> (row \<Rightarrow> row) \<Rightarrow> db \<Rightarrow> db" where
  "update_rows t p cs f d = d(t := map (\<lambda>r. if p r then write_columns cs (f r) r else r) (d t))"

text \<open>The foreign keys that refer to a table, each with the table that has it.\<close>

definition children :: "schema \<Rightarrow> string \<Rightarrow> (string \<times> foreign_key) list" where
  "children sch t =
     concat (map (\<lambda>tb. map (Pair (tb_name tb)) (filter (\<lambda>fk. fk_parent fk = t) (tb_refs tb))) sch)"

type_synonym action_order = "(string \<times> foreign_key) list \<Rightarrow> (string \<times> foreign_key) list"

fun fold_result :: "('a \<Rightarrow> 'b \<Rightarrow> ('e, 'b) result) \<Rightarrow> 'a list \<Rightarrow> 'b \<Rightarrow> ('e, 'b) result" where
  "fold_result f [] b = Ok b"
| "fold_result f (x # xs) b = bind_result (f x b) (fold_result f xs)"

text \<open>A row refers to one of the rows that go.\<close>

definition hits :: "row list \<Rightarrow> foreign_key \<Rightarrow> row \<Rightarrow> bool" where
  "hits gone fk r \<longleftrightarrow> list_ex (\<lambda>g. col ''id'' g = col (fk_column fk) r \<and> col ''id'' g \<noteq> NullC) gone"

text \<open>The bound is on the length of the chains of foreign keys.\<close>

fun delete_rows :: "nat \<Rightarrow> schema \<Rightarrow> action_order \<Rightarrow> string \<Rightarrow> (row \<Rightarrow> bool) \<Rightarrow> db \<Rightarrow> (sql_error, db) result" where
  "delete_rows 0 sch order t p d = Err CascadeTooDeep"
| "delete_rows (Suc n) sch order t p d =
     (let gone = filter p (d t); d1 = d(t := filter (\<lambda>r. \<not> p r) (d t)) in
      if gone = [] then Ok d
      else fold_result (\<lambda>(child, fk) d2.
             if fk_cascades fk then delete_rows n sch order child (hits gone fk) d2
             else if list_ex (hits gone fk) (d2 child) then Err ForeignKeyFailed
             else Ok d2) (order (children sch t)) d1)"

definition delete_where :: "schema \<Rightarrow> action_order \<Rightarrow> string \<Rightarrow> (row \<Rightarrow> bool) \<Rightarrow> db \<Rightarrow> (sql_error, db) result" where
  "delete_where sch order t p d = delete_rows (Suc (length sch)) sch order t p d"

section \<open>Integrity\<close>

definition rows_ok :: "sql_table \<Rightarrow> row list \<Rightarrow> bool" where
  "rows_ok tb rows \<longleftrightarrow> distinct (map (key_of tb) rows) \<and> (\<forall>u \<in> set (tb_unique tb). distinct (map (unique_of u) rows))"

definition refs_ok :: "sql_table \<Rightarrow> db \<Rightarrow> bool" where
  "refs_ok tb d \<longleftrightarrow> (\<forall>r \<in> set (d (tb_name tb)). \<forall>fk \<in> set (tb_refs tb). parent_exists d r fk)"

definition db_ok :: "schema \<Rightarrow> db \<Rightarrow> bool" where
  "db_ok sch d \<longleftrightarrow> (\<forall>tb \<in> set sch. rows_ok tb (d (tb_name tb)) \<and> refs_ok tb d)"

definition schema_ok :: "schema \<Rightarrow> bool" where
  "schema_ok sch \<longleftrightarrow> distinct (map tb_name sch)"

lemma table_of_in: "schema_ok sch \<Longrightarrow> tb \<in> set sch \<Longrightarrow> table_of sch (tb_name tb) = tb"
proof (induction sch)
  case (Cons a sch)
  then show ?case by (auto simp: schema_ok_def table_of_def)
qed simp

lemma parent_exists_mono:
  "parent_exists d r fk \<Longrightarrow> (\<And>p. p \<in> set (d (fk_parent fk)) \<Longrightarrow> \<exists>q \<in> set (d' (fk_parent fk)). col ''id'' q = col ''id'' p)
   \<Longrightarrow> parent_exists d' r fk"
  unfolding parent_exists_def list_ex_iff by metis

lemma col_write: "c \<notin> set cs \<Longrightarrow> col c (write_columns cs new old) = col c old"
  by (induction old) (auto simp: write_columns_def col_def)

lemma key_write: "set cs \<inter> set (tb_key tb) = {} \<Longrightarrow> key_of tb (write_columns cs new old) = key_of tb old"
  unfolding key_of_def by (rule map_cong) (auto intro!: col_write)

lemma admissible_None:
  "admissible tb d others r = None \<longleftrightarrow>
     (\<forall>u \<in> set (tb_unique tb). unique_of u r \<notin> unique_of u ` set others) \<and> (\<forall>fk \<in> set (tb_refs tb). parent_exists d r fk)"
  by (auto simp: admissible_def list_ex_iff list_all_iff image_iff split: if_splits, metis+)

lemma rows_ok_append:
  "rows_ok tb rows \<Longrightarrow> key_of tb r \<notin> key_of tb ` set rows \<Longrightarrow>
   (\<forall>u \<in> set (tb_unique tb). unique_of u r \<notin> unique_of u ` set rows) \<Longrightarrow> rows_ok tb (rows @ [r])"
  by (auto simp: rows_ok_def)

lemma rows_ok_filter: "rows_ok tb rows \<Longrightarrow> rows_ok tb (filter p rows)"
  by (auto simp: rows_ok_def distinct_map_filter)

lemma distinct_replace:
  assumes "distinct (map f rows)" and "g old = k" and "distinct (map g rows)" and "old \<in> set rows"
    and "\<And>r. r \<in> set rows \<Longrightarrow> g r \<noteq> k \<Longrightarrow> f r \<noteq> f changed"
  shows "distinct (map f (map (\<lambda>r. if g r = k then changed else r) rows))"
  using assms
proof (induction rows)
  case (Cons a rows)
  show ?case
  proof (cases "g a = k")
    case True
    then have same: "map (\<lambda>r. if g r = k then changed else r) rows = rows"
      using Cons.prems(3) by (intro map_idI) (auto simp: image_iff)
    have "g r \<noteq> k" if "r \<in> set rows" for r using Cons.prems(3) True that by (auto simp: image_iff)
    then have "f changed \<notin> f ` set rows" using Cons.prems(5) by (metis image_iff list.set_intros(2))
    then show ?thesis using True same Cons.prems(1) by simp
  next
    case False
    then have old: "old \<in> set rows" using Cons.prems(2,4) by auto
    have "f a \<notin> f ` set (map (\<lambda>r. if g r = k then changed else r) rows)"
      using Cons.prems(1,5) False by (auto simp: image_iff)
    then show ?thesis using False Cons.IH [OF _ Cons.prems(2) _ old] Cons.prems(1,3,5) by auto
  qed
qed simp

lemma refs_ok_mono:
  assumes "refs_ok tb d" and "set (d' (tb_name tb)) \<subseteq> set (d (tb_name tb))"
    and "\<And>t p. p \<in> set (d t) \<Longrightarrow> \<exists>q \<in> set (d' t). col ''id'' q = col ''id'' p"
  shows "refs_ok tb d'"
  unfolding refs_ok_def
proof (intro ballI)
  fix r fk
  assume "r \<in> set (d' (tb_name tb))" "fk \<in> set (tb_refs tb)"
  then have "parent_exists d r fk" using assms(1,2) by (auto simp: refs_ok_def)
  then show "parent_exists d' r fk" by (rule parent_exists_mono) (rule assms(3))
qed

lemma same_row: "distinct (map f rows) \<Longrightarrow> a \<in> set rows \<Longrightarrow> b \<in> set rows \<Longrightarrow> f a = f b \<Longrightarrow> a = b"
  by (auto simp: distinct_map inj_on_def)

lemma insert_fresh_ok:
  assumes sch: "schema_ok sch" "tb \<in> set sch" "db_ok sch d"
    and key: "key_of tb new \<notin> key_of tb ` set (d (tb_name tb))" and adm: "admissible tb d (d (tb_name tb)) new = None"
  shows "db_ok sch (d(tb_name tb := d (tb_name tb) @ [new]))" (is "db_ok sch ?d")
  unfolding db_ok_def
proof (intro ballI conjI)
  fix tb'
  assume tb': "tb' \<in> set sch"
  have ids: "\<exists>q \<in> set (?d t). col ''id'' q = col ''id'' p" if "p \<in> set (d t)" for t p using that by auto
  have old: "rows_ok tb' (d (tb_name tb'))" "refs_ok tb' d" using sch(3) tb' by (auto simp: db_ok_def)
  show "rows_ok tb' (?d (tb_name tb'))"
  proof (cases "tb_name tb' = tb_name tb")
    case True
    then have "tb' = tb" using sch(1,2) tb' table_of_in by metis
    then show ?thesis using rows_ok_append [of tb "d (tb_name tb)" new] old(1) key adm by (simp add: admissible_None)
  qed (use old in simp)
  show "refs_ok tb' ?d"
    unfolding refs_ok_def
  proof (intro ballI)
    fix r fk
    assume r: "r \<in> set (?d (tb_name tb'))" and fk: "fk \<in> set (tb_refs tb')"
    have "parent_exists d r fk"
    proof (cases "r \<in> set (d (tb_name tb'))")
      case True
      then show ?thesis using old(2) fk by (simp add: refs_ok_def)
    next
      case False
      then have "tb_name tb' = tb_name tb" "r = new" using r by (auto split: if_splits)
      then have "tb' = tb" "r = new" using sch(1,2) tb' table_of_in by metis+
      then show ?thesis using adm fk by (simp add: admissible_None)
    qed
    then show "parent_exists ?d r fk" by (rule parent_exists_mono) (rule ids)
  qed
qed

lemma insert_update_ok:
  assumes sch: "schema_ok sch" "tb \<in> set sch" "db_ok sch d"
    and old: "old \<in> set (d (tb_name tb))" "key_of tb old = k"
    and changed: "key_of tb changed = k" "col ''id'' changed = col ''id'' old"
    and adm: "admissible tb d (filter (\<lambda>r. key_of tb r \<noteq> k) (d (tb_name tb))) changed = None"
  shows "db_ok sch (d(tb_name tb := map (\<lambda>r. if key_of tb r = k then changed else r) (d (tb_name tb))))" (is "db_ok sch ?d")
proof -
  have rows: "rows_ok tb (d (tb_name tb))" using sch by (simp add: db_ok_def)
  then have keys: "distinct (map (key_of tb) (d (tb_name tb)))" by (simp add: rows_ok_def)
  have ids: "\<exists>q \<in> set (?d t). col ''id'' q = col ''id'' p" if p: "p \<in> set (d t)" for t p
  proof (cases "t = tb_name tb \<and> key_of tb p = k")
    case True
    then have "p = old" using same_row [OF keys] old p by simp
    then show ?thesis using True changed(2) p by (auto simp: image_iff)
  next
    case False
    then have "p \<in> set (?d t)" using p by (auto simp: image_iff)
    then show ?thesis by blast
  qed
  show ?thesis
    unfolding db_ok_def
  proof (intro ballI conjI)
    fix tb'
    assume tb': "tb' \<in> set sch"
    have oldok: "rows_ok tb' (d (tb_name tb'))" "refs_ok tb' d" using sch(3) tb' by (auto simp: db_ok_def)
    show "rows_ok tb' (?d (tb_name tb'))"
    proof (cases "tb_name tb' = tb_name tb")
      case True
      then have "tb' = tb" using sch(1,2) tb' table_of_in by metis
      moreover have "distinct (map (key_of tb) (map (\<lambda>r. if key_of tb r = k then changed else r) (d (tb_name tb))))"
        using keys old changed(1) by (intro distinct_replace [where old = old]) auto
      moreover have "distinct (map (unique_of u) (map (\<lambda>r. if key_of tb r = k then changed else r) (d (tb_name tb))))"
        if u: "u \<in> set (tb_unique tb)" for u
      proof (rule distinct_replace [where old = old])
        show "distinct (map (unique_of u) (d (tb_name tb)))" using rows u by (simp add: rows_ok_def)
        fix r
        assume "r \<in> set (d (tb_name tb))" "key_of tb r \<noteq> k"
        then show "unique_of u r \<noteq> unique_of u changed" using adm u by (simp add: admissible_None image_iff) metis
      qed (use keys old in auto)
      ultimately show ?thesis by (simp add: rows_ok_def)
    qed (use oldok in simp)
    show "refs_ok tb' ?d"
      unfolding refs_ok_def
    proof (intro ballI)
      fix r fk
      assume r: "r \<in> set (?d (tb_name tb'))" and fk: "fk \<in> set (tb_refs tb')"
      have "parent_exists d r fk"
      proof (cases "r \<in> set (d (tb_name tb'))")
        case True
        then show ?thesis using oldok(2) fk by (simp add: refs_ok_def)
      next
        case False
        then have "tb_name tb' = tb_name tb" "r = changed" using r by (auto split: if_splits)
        then have "tb' = tb" "r = changed" using sch(1,2) tb' table_of_in by metis+
        then show ?thesis using adm fk by (simp add: admissible_None)
      qed
      then show "parent_exists ?d r fk" by (rule parent_exists_mono) (rule ids)
    qed
  qed
qed

lemma insert_ok:
  assumes sch: "schema_ok sch" "tb \<in> set sch" "db_ok sch d"
    and ins: "insert_row sch (tb_name tb) new oc d = Ok d'"
    and cols: "\<And>cs. oc = Update cs \<Longrightarrow> set cs \<inter> set (''id'' # tb_key tb) = {}"
  shows "db_ok sch d'"
proof (cases "find (\<lambda>r. key_of tb r = key_of tb new) (d (tb_name tb))")
  case None
  then have "admissible tb d (d (tb_name tb)) new = None" "d' = d(tb_name tb := d (tb_name tb) @ [new])"
    using ins table_of_in [OF sch(1,2)] by (simp_all add: insert_row_def split: option.splits)
  moreover have "key_of tb new \<notin> key_of tb ` set (d (tb_name tb))"
    using None unfolding find_None_iff by force
  ultimately show ?thesis using insert_fresh_ok [OF sch] by simp
next
  case (Some old)
  then have old: "old \<in> set (d (tb_name tb))" "key_of tb old = key_of tb new" by (auto simp: find_Some_iff)
  show ?thesis
  proof (cases oc)
    case (Update cs)
    then have "key_of tb (write_columns cs new old) = key_of tb new" "col ''id'' (write_columns cs new old) = col ''id'' old"
      using cols [OF Update] old(2) by (auto simp: key_write col_write)
    then show ?thesis
      using insert_update_ok [OF sch old] ins Some Update table_of_in [OF sch(1,2)]
      by (auto simp: insert_row_def Let_def split: option.splits)
  qed (use ins Some sch table_of_in [OF sch(1,2)] in \<open>auto simp: insert_row_def\<close>)
qed

text \<open>An update of columns that nothing constrains.\<close>

definition constrained :: "sql_table \<Rightarrow> string list" where
  "constrained tb = ''id'' # tb_key tb @ map fst (concat (tb_unique tb)) @ map fk_column (tb_refs tb)"

lemma update_ok:
  assumes sch: "schema_ok sch" "tb \<in> set sch" "db_ok sch d" and cs: "set cs \<inter> set (constrained tb) = {}"
  shows "db_ok sch (update_rows (tb_name tb) p cs f d)" (is "db_ok sch ?d")
proof -
  let ?g = "\<lambda>r. if p r then write_columns cs (f r) r else r"
  have same: "col c (?g r) = col c r" if "c \<in> set (constrained tb)" for c r
    using that cs by (auto intro: col_write)
  have key: "key_of tb (?g r) = key_of tb r" for r
    unfolding key_of_def by (rule map_cong [OF refl], rule same) (simp add: constrained_def)
  have uniq: "unique_of u (?g r) = unique_of u r" if "u \<in> set (tb_unique tb)" for u r
    unfolding unique_of_def
  proof (rule map_cong, goal_cases)
    case (2 x)
    then have "fst x \<in> set (constrained tb)" using that by (force simp: constrained_def)
    from same [OF this] show ?case by (simp add: case_prod_beta)
  qed simp
  have ids: "\<exists>q \<in> set (?d t). col ''id'' q = col ''id'' x" if "x \<in> set (d t)" for t x
  proof (cases "t = tb_name tb")
    case True
    then have "?g x \<in> set (?d t)" using that by (auto simp: update_rows_def)
    moreover have "col ''id'' (?g x) = col ''id'' x" by (rule same) (simp add: constrained_def)
    ultimately show ?thesis by blast
  next
    case False
    then show ?thesis using that by (auto simp: update_rows_def)
  qed
  show ?thesis
    unfolding db_ok_def
  proof (intro ballI conjI)
    fix tb'
    assume tb': "tb' \<in> set sch"
    have old: "rows_ok tb' (d (tb_name tb'))" "refs_ok tb' d" using sch(3) tb' by (auto simp: db_ok_def)
    show "rows_ok tb' (?d (tb_name tb'))"
    proof (cases "tb_name tb' = tb_name tb")
      case True
      then have tb: "tb' = tb" using sch(1,2) tb' table_of_in by metis
      have "key_of tb \<circ> ?g = key_of tb" using key by auto
      moreover have "unique_of u \<circ> ?g = unique_of u" if "u \<in> set (tb_unique tb)" for u
        using uniq [OF that] by auto
      ultimately show ?thesis using old(1) unfolding tb update_rows_def rows_ok_def by simp
    qed (use old in \<open>simp add: update_rows_def\<close>)
    show "refs_ok tb' ?d"
      unfolding refs_ok_def
    proof (intro ballI)
      fix r fk
      assume r: "r \<in> set (?d (tb_name tb'))" and fk: "fk \<in> set (tb_refs tb')"
      obtain x where x: "x \<in> set (d (tb_name tb'))" "col (fk_column fk) r = col (fk_column fk) x"
      proof (cases "tb_name tb' = tb_name tb")
        case True
        then have tb: "tb' = tb" using sch(1,2) tb' table_of_in by metis
        then obtain x where "x \<in> set (d (tb_name tb))" "r = ?g x" using r by (auto simp: update_rows_def)
        moreover have "col (fk_column fk) (?g x) = col (fk_column fk) x"
          using fk tb by (intro same) (auto simp: constrained_def)
        ultimately show ?thesis using that tb by simp
      next
        case False
        then show ?thesis using r that by (auto simp: update_rows_def)
      qed
      then have "parent_exists d r fk" using old(2) fk by (auto simp: refs_ok_def parent_exists_def)
      then show "parent_exists ?d r fk" by (rule parent_exists_mono) (rule ids)
    qed
  qed
qed

section \<open>Deletion\<close>

text \<open>Every reference has its parent, or refers to one of the removed ids of \<open>X\<close>.\<close>

definition refs_upto :: "schema \<Rightarrow> (string \<times> cell) set \<Rightarrow> db \<Rightarrow> bool" where
  "refs_upto sch X d \<longleftrightarrow>
     (\<forall>tb \<in> set sch. \<forall>r \<in> set (d (tb_name tb)). \<forall>fk \<in> set (tb_refs tb).
        parent_exists d r fk \<or> (fk_parent fk, col (fk_column fk) r) \<in> X)"

definition smaller :: "db \<Rightarrow> db \<Rightarrow> bool" where
  "smaller d' d \<longleftrightarrow> (\<forall>t. \<exists>q. d' t = filter q (d t))"

lemma smaller_refl [simp, intro!]: "smaller d d"
  by (auto simp: smaller_def intro!: exI [of _ "\<lambda>_. True"])

lemma smaller_trans [trans]: "smaller d'' d' \<Longrightarrow> smaller d' d \<Longrightarrow> smaller d'' d"
  unfolding smaller_def by (metis filter_filter)

lemma smaller_set: "smaller d' d \<Longrightarrow> set (d' t) \<subseteq> set (d t)"
  unfolding smaller_def by (metis filter_is_subset)

definition permutes :: "action_order \<Rightarrow> bool" where
  "permutes order \<longleftrightarrow> (\<forall>xs. set (order xs) = set xs)"

lemmas delete_rows_Suc = delete_rows.simps(2)

declare delete_rows.simps(2) [simp del]

lemma delete_upto:
  assumes "permutes order"
  shows "delete_rows n sch order t p d = Ok d' \<Longrightarrow> refs_upto sch X d \<Longrightarrow>
    refs_upto sch X d' \<and> smaller d' d \<and> (\<forall>r \<in> set (d' t). \<not> p r)"
proof (induction n arbitrary: t p d d' X)
  case (Suc n)
  let ?gone = "filter p (d t)"
  let ?d1 = "d(t := filter (\<lambda>r. \<not> p r) (d t))"
  let ?step = "\<lambda>(child, fk) d2.
      if fk_cascades fk then delete_rows n sch order child (hits ?gone fk) d2
      else if list_ex (hits ?gone fk) (d2 child) then Err ForeignKeyFailed else Ok d2"
  show ?case
  proof (cases "?gone = []")
    case True
    then have "d' = d" using Suc.prems(1) by (simp add: delete_rows_Suc Let_def)
    then show ?thesis using True Suc.prems(2) by (auto simp: filter_empty_conv)
  next
    case False
    let ?Y = "X \<union> (\<lambda>g. (t, col ''id'' g)) ` set ?gone"
    have run: "fold_result ?step (order (children sch t)) ?d1 = Ok d'"
      using Suc.prems(1) False by (simp add: delete_rows_Suc Let_def)
    have start: "refs_upto sch ?Y ?d1"
      unfolding refs_upto_def
    proof (intro ballI)
      fix tb r fk
      assume *: "tb \<in> set sch" "r \<in> set (?d1 (tb_name tb))" "fk \<in> set (tb_refs tb)"
      then have "r \<in> set (d (tb_name tb))" by (auto split: if_splits)
      then have "parent_exists d r fk \<or> (fk_parent fk, col (fk_column fk) r) \<in> X"
        using Suc.prems(2) * by (auto simp: refs_upto_def)
      moreover have "(fk_parent fk, col (fk_column fk) r) \<in> ?Y" if "parent_exists d r fk" "\<not> parent_exists ?d1 r fk"
      proof -
        have "list_ex (\<lambda>q. col ''id'' q = col (fk_column fk) r) (d (fk_parent fk))"
          using that by (simp add: parent_exists_def)
        then obtain q where q: "q \<in> set (d (fk_parent fk))" "col ''id'' q = col (fk_column fk) r"
          by (auto simp: list_ex_iff)
        have "q \<notin> set (?d1 (fk_parent fk))" using that(2) q(2) by (auto simp: parent_exists_def list_ex_iff)
        then have "fk_parent fk = t" "p q" using q(1) by (auto split: if_splits)
        then show ?thesis using q by force
      qed
      ultimately show "parent_exists ?d1 r fk \<or> (fk_parent fk, col (fk_column fk) r) \<in> ?Y" by blast
    qed
    have loop: "fold_result ?step cs e = Ok e' \<Longrightarrow> refs_upto sch ?Y e \<Longrightarrow>
        refs_upto sch ?Y e' \<and> smaller e' e \<and> (\<forall>(child, fk) \<in> set cs. \<forall>r \<in> set (e' child). \<not> hits ?gone fk r)" for cs e e'
    proof (induction cs arbitrary: e)
      case (Cons x cs)
      obtain child fk where x: "x = (child, fk)" by fastforce
      obtain e1 where e1: "?step x e = Ok e1" "fold_result ?step cs e1 = Ok e'"
        using Cons.prems(1) by (cases "?step x e") auto
      have one: "refs_upto sch ?Y e1 \<and> smaller e1 e \<and> (\<forall>r \<in> set (e1 child). \<not> hits ?gone fk r)"
      proof (cases "fk_cascades fk")
        case True
        then show ?thesis using Suc.IH [of child "hits ?gone fk" e e1 ?Y] e1(1) Cons.prems(2) by (simp add: x)
      next
        case False
        then show ?thesis using e1(1) Cons.prems(2) by (auto simp: x list_ex_iff split: if_splits)
      qed
      have rest: "refs_upto sch ?Y e' \<and> smaller e' e1 \<and> (\<forall>(child, fk) \<in> set cs. \<forall>r \<in> set (e' child). \<not> hits ?gone fk r)"
        using Cons.IH [OF e1(2)] one by blast
      moreover have "\<not> hits ?gone fk r" if "r \<in> set (e' child)" for r
        using that rest one smaller_set [of e' e1 child] by blast
      ultimately show ?case using one smaller_trans by (auto simp: x)
    qed simp
    from loop [OF run start] have upto: "refs_upto sch ?Y d'" and small: "smaller d' ?d1"
      and none: "\<And>child fk r. (child, fk) \<in> set (children sch t) \<Longrightarrow> r \<in> set (d' child) \<Longrightarrow> \<not> hits ?gone fk r"
      using assms by (auto simp: permutes_def)
    have "refs_upto sch X d'"
      unfolding refs_upto_def
    proof (intro ballI)
      fix tb r fk
      assume *: "tb \<in> set sch" "r \<in> set (d' (tb_name tb))" "fk \<in> set (tb_refs tb)"
      have "False" if out: "(fk_parent fk, col (fk_column fk) r) \<in> (\<lambda>g. (t, col ''id'' g)) ` set ?gone" "\<not> parent_exists d' r fk"
      proof -
        have "(tb_name tb, fk) \<in> set (children sch t)" using * out(1) by (force simp: children_def)
        moreover have "hits ?gone fk r" using out by (auto simp: hits_def list_ex_iff parent_exists_def)
        ultimately show False using none *(2) by blast
      qed
      then show "parent_exists d' r fk \<or> (fk_parent fk, col (fk_column fk) r) \<in> X"
        using upto * by (fastforce simp: refs_upto_def)
    qed
    moreover have "smaller ?d1 d"
      by (auto simp: smaller_def intro: exI [of _ "\<lambda>r. \<not> p r"] exI [of _ "\<lambda>_. True"])
    moreover have "\<not> p r" if "r \<in> set (d' t)" for r using that smaller_set [OF small, of t] by auto
    ultimately show ?thesis using smaller_trans [OF small] by blast
  qed
qed simp

lemma delete_ok:
  assumes "permutes order" and "db_ok sch d" and "delete_where sch order t p d = Ok d'"
  shows "db_ok sch d' \<and> smaller d' d \<and> (\<forall>r \<in> set (d' t). \<not> p r)"
proof -
  have "refs_upto sch {} d" using assms(2) by (simp add: refs_upto_def db_ok_def refs_ok_def)
  from delete_upto [OF assms(1) assms(3) [unfolded delete_where_def] this]
  have d': "refs_upto sch {} d'" "smaller d' d" "\<forall>r \<in> set (d' t). \<not> p r" by auto
  have "rows_ok tb (d' (tb_name tb))" if "tb \<in> set sch" for tb
  proof -
    obtain q where "d' (tb_name tb) = filter q (d (tb_name tb))" using d'(2) by (auto simp: smaller_def)
    then show ?thesis using assms(2) that by (simp add: db_ok_def rows_ok_filter)
  qed
  then show ?thesis using d' by (auto simp: db_ok_def refs_ok_def refs_upto_def)
qed

text \<open>With the parents of every table declared before it, the bound on chains is enough.\<close>

fun parents_first :: "string list \<Rightarrow> schema \<Rightarrow> bool" where
  "parents_first seen [] = True"
| "parents_first seen (tb # sch) =
     (list_all (\<lambda>fk. fk_parent fk \<in> set seen) (tb_refs tb) \<and> tb_name tb \<notin> set seen \<and> parents_first (tb_name tb # seen) sch)"

definition height :: "schema \<Rightarrow> string \<Rightarrow> nat" where
  "height sch t = length (dropWhile (\<lambda>tb. tb_name tb \<noteq> t) sch)"

lemma parents_first_fresh: "parents_first seen sch \<Longrightarrow> tb \<in> set sch \<Longrightarrow> tb_name tb \<notin> set seen"
  by (induction seen sch rule: parents_first.induct) auto

lemma height_child:
  "parents_first seen sch \<Longrightarrow> tb \<in> set sch \<Longrightarrow> fk \<in> set (tb_refs tb) \<Longrightarrow> fk_parent fk \<notin> set seen \<Longrightarrow>
   height sch (tb_name tb) < height sch (fk_parent fk)"
proof (induction seen sch rule: parents_first.induct)
  case (2 seen a sch)
  show ?case
  proof (cases "tb = a")
    case True
    then show ?thesis using 2(2,4,5) by (auto simp: list_all_iff)
  next
    case False
    then have tb: "tb \<in> set sch" using "2.prems"(2) by simp
    have "tb_name tb \<noteq> tb_name a" using parents_first_fresh [of "tb_name a # seen" sch tb] tb "2.prems"(1) by auto
    then show ?thesis
      using 2 tb le_imp_less_Suc [OF length_dropWhile_le [of "\<lambda>x. tb_name x \<noteq> tb_name tb" sch]]
      by (cases "fk_parent fk = tb_name a") (auto simp: height_def)
  qed
qed simp

lemma fold_result_ne:
  "(\<And>x b. x \<in> set xs \<Longrightarrow> f x b \<noteq> Err e) \<Longrightarrow> fold_result f xs b \<noteq> Err e"
proof (induction xs arbitrary: b)
  case (Cons x xs)
  then show ?case by (cases "f x b") auto
qed simp

lemma delete_rows_enough:
  assumes "parents_first [] sch" and "permutes order"
  shows "height sch t < n \<Longrightarrow> delete_rows n sch order t p d \<noteq> Err CascadeTooDeep"
proof (induction n arbitrary: t p d)
  case (Suc n)
  have "delete_rows n sch order child q e \<noteq> Err CascadeTooDeep" if "(child, fk) \<in> set (children sch t)" for child fk q e
  proof -
    obtain tb where "tb \<in> set sch" "child = tb_name tb" "fk \<in> set (tb_refs tb)" "fk_parent fk = t"
      using \<open>(child, fk) \<in> _\<close> by (auto simp: children_def)
    then have "height sch child < height sch t" using height_child [OF assms(1)] by fastforce
    then show ?thesis using Suc by simp
  qed
  then show ?case
    using assms(2) unfolding delete_rows_Suc Let_def permutes_def
    by (auto intro!: fold_result_ne split: if_splits)
qed simp

lemma delete_where_enough:
  "parents_first [] sch \<Longrightarrow> permutes order \<Longrightarrow> delete_where sch order t p d \<noteq> Err CascadeTooDeep"
  unfolding delete_where_def height_def
  by (rule delete_rows_enough) (simp_all add: height_def length_dropWhile_le le_imp_less_Suc)

end
