(* ===== verification/StoreSchema.thy ===== *)
theory StoreSchema
  imports Sql
begin

text \<open>
  The tables that \<open>migrate\<close> of \<open>internal/store/store.go\<close> declares, with their primary keys, unique
  indexes and foreign keys, and \<open>adoptScopes\<close>, which runs on every \<open>Open\<close> after it: each table whose
  parent is still \<open>services(id)\<close>, apart from \<open>scopes\<close> and \<open>resource_documents\<close>, is rebuilt with the
  parent \<open>scopes(id)\<close>.  Columns without a constraint are not listed.
\<close>

definition table :: "string \<Rightarrow> string list \<Rightarrow> (string \<times> bool) list list \<Rightarrow> foreign_key list \<Rightarrow> sql_table" where
  "table t key uniques refs = \<lparr>tb_name = t, tb_key = key, tb_unique = uniques, tb_refs = refs\<rparr>"

definition cascade :: "string \<Rightarrow> string \<Rightarrow> foreign_key" where
  "cascade c parent = \<lparr>fk_column = c, fk_parent = parent, fk_cascades = True\<rparr>"

definition restrict :: "string \<Rightarrow> string \<Rightarrow> foreign_key" where
  "restrict c parent = \<lparr>fk_column = c, fk_parent = parent, fk_cascades = False\<rparr>"

definition service_tables :: schema where
  "service_tables = [
    table ''services'' [''id''] [] [],
    table ''scopes'' [''id''] [] [cascade ''service_id'' ''services''],
    table ''resource_documents'' [''id''] [] [cascade ''id'' ''services''],
    table ''apis'' [''id''] [] [cascade ''service_id'' ''scopes''],
    table ''api_documents'' [''api_id''] [] [cascade ''api_id'' ''apis''],
    table ''api_revision_metadata'' [''api_id''] [] [cascade ''api_id'' ''apis''],
    table ''api_definitions'' [''api_id''] [] [cascade ''api_id'' ''apis'']]"

definition catalog_tables :: schema where
  "catalog_tables = [
    table ''api_version_sets'' [''id''] [] [cascade ''service_id'' ''scopes''],
    table ''api_version_set_documents'' [''version_set_id''] [] [cascade ''version_set_id'' ''api_version_sets''],
    table ''api_version_metadata'' [''api_id''] [] [cascade ''api_id'' ''apis'', restrict ''version_set_id'' ''api_version_sets''],
    table ''named_values'' [''id''] [[(''service_id'', False), (''display_name'', True)]] [cascade ''service_id'' ''scopes''],
    table ''named_value_documents'' [''named_value_id''] [] [cascade ''named_value_id'' ''named_values''],
    table ''backends'' [''id''] [] [cascade ''service_id'' ''scopes''],
    table ''certificates'' [''id''] [] [cascade ''service_id'' ''scopes''],
    table ''certificate_documents'' [''certificate_id''] [] [cascade ''certificate_id'' ''certificates''],
    table ''api_releases'' [''id''] [] [cascade ''api_id'' ''apis'', cascade ''target_api_id'' ''apis''],
    table ''api_release_documents'' [''release_id''] [] [cascade ''release_id'' ''api_releases''],
    table ''operations'' [''id''] [] [cascade ''api_id'' ''apis''],
    table ''operation_documents'' [''operation_id''] [] [cascade ''operation_id'' ''operations''],
    table ''api_schemas'' [''id''] [] [cascade ''api_id'' ''apis''],
    table ''api_schema_documents'' [''schema_id''] [] [cascade ''schema_id'' ''api_schemas''],
    table ''role_assignments'' [''id''] [] [],
    table ''workspaces'' [''id''] [] [cascade ''id'' ''scopes'', cascade ''service_id'' ''scopes''],
    table ''api_resolvers'' [''id''] [] [cascade ''api_id'' ''apis''],
    table ''authorization_providers'' [''id''] [] [cascade ''service_id'' ''services''],
    table ''authorizations'' [''id''] [] [cascade ''provider_id'' ''authorization_providers''],
    table ''authorization_access_policies'' [''id''] [] [cascade ''authorization_id'' ''authorizations'']]"

definition gateway_tables :: schema where
  "gateway_tables = [
    table ''gateways'' [''id''] [] [cascade ''service_id'' ''services''],
    table ''gateway_apis'' [''gateway_id'', ''api_id''] [] [cascade ''gateway_id'' ''gateways''],
    table ''gateway_hostname_configurations'' [''id''] [] [cascade ''gateway_id'' ''gateways''],
    table ''gateway_certificate_authorities'' [''id''] [] [cascade ''gateway_id'' ''gateways''],
    table ''private_endpoint_connections'' [''id''] [] [cascade ''service_id'' ''services''],
    table ''tags'' [''id''] [] [cascade ''service_id'' ''scopes''],
    table ''tag_documents'' [''tag_id''] [] [cascade ''tag_id'' ''tags''],
    table ''resource_tags'' [''resource_id'', ''tag_id''] [] [cascade ''tag_id'' ''tags''],
    table ''groups'' [''id''] [] [cascade ''service_id'' ''scopes''],
    table ''group_documents'' [''group_id''] [] [cascade ''group_id'' ''groups''],
    table ''users'' [''id''] [[(''service_id'', False), (''email'', True)]] [cascade ''service_id'' ''scopes''],
    table ''user_documents'' [''user_id''] [] [cascade ''user_id'' ''users''],
    table ''group_users'' [''group_id'', ''user_id''] [] [cascade ''group_id'' ''groups'', cascade ''user_id'' ''users''],
    table ''policy_fragments'' [''id''] [] [cascade ''service_id'' ''scopes''],
    table ''policy_fragment_documents'' [''fragment_id''] [] [cascade ''fragment_id'' ''policy_fragments'']]"

definition portal_tables :: schema where
  "portal_tables = [
    table ''documentations'' [''id''] [] [cascade ''service_id'' ''scopes''],
    table ''global_schemas'' [''id''] [] [cascade ''service_id'' ''scopes''],
    table ''policy_restrictions'' [''id''] [] [cascade ''service_id'' ''scopes''],
    table ''tenant_access'' [''id''] [] [cascade ''service_id'' ''scopes''],
    table ''authorization_servers'' [''id''] [] [cascade ''service_id'' ''scopes''],
    table ''openid_connect_providers'' [''id''] [] [cascade ''service_id'' ''scopes''],
    table ''identity_providers'' [''id''] [] [cascade ''service_id'' ''scopes''],
    table ''caches'' [''id''] [] [cascade ''service_id'' ''scopes''],
    table ''loggers'' [''id''] [] [cascade ''service_id'' ''scopes''],
    table ''diagnostics'' [''id''] [] [cascade ''service_id'' ''scopes''],
    table ''diagnostic_events'' [''id''] [] [cascade ''service_id'' ''scopes''],
    table ''products'' [''id''] [] [cascade ''service_id'' ''scopes''],
    table ''product_documents'' [''product_id''] [] [cascade ''product_id'' ''products''],
    table ''product_apis'' [''product_id'', ''api_id''] [] [cascade ''product_id'' ''products'', cascade ''api_id'' ''apis''],
    table ''product_groups'' [''product_id'', ''group_id''] [] [cascade ''product_id'' ''products'', cascade ''group_id'' ''groups''],
    table ''subscriptions'' [''id''] [] [cascade ''service_id'' ''scopes''],
    table ''subscription_documents'' [''subscription_id''] [] [cascade ''subscription_id'' ''subscriptions''],
    table ''policies'' [''scope_id''] [] []]"

definition migrated_schema :: schema where
  "migrated_schema = service_tables @ catalog_tables @ gateway_tables @ portal_tables"

section \<open>The adoption of scopes\<close>

definition scope_reference :: "foreign_key \<Rightarrow> foreign_key" where
  "scope_reference fk = (if fk_parent fk = ''services'' then fk\<lparr>fk_parent := ''scopes''\<rparr> else fk)"

definition adopt_table :: "sql_table \<Rightarrow> sql_table" where
  "adopt_table tb =
     (if tb_name tb \<in> {''scopes'', ''resource_documents''} then tb
      else tb\<lparr>tb_refs := map scope_reference (tb_refs tb)\<rparr>)"

text \<open>
  Every service without a scope gets one.  The rebuild copies the rows as they are, with foreign keys
  switched off.
\<close>

definition service_scope :: "row \<Rightarrow> row" where
  "service_scope r = [(''id'', col ''id'' r), (''service_id'', col ''id'' r)]"

definition adopt_scopes :: "schema \<Rightarrow> db \<Rightarrow> schema \<times> db" where
  "adopt_scopes sch d =
     (map adopt_table sch,
      d(''scopes'' := d ''scopes'' @
          map service_scope
            (filter (\<lambda>r. \<not> list_ex (\<lambda>q. col ''id'' q = col ''id'' r) (d ''scopes'')) (d ''services''))))"

definition store_schema :: schema where
  "store_schema = fst (adopt_scopes migrated_schema (\<lambda>_. []))"

section \<open>Facts about the schema\<close>

lemmas table_defs = table_def cascade_def restrict_def
lemmas schema_defs = service_tables_def catalog_tables_def gateway_tables_def portal_tables_def migrated_schema_def

lemma adopt_table_simps [simp]:
  "tb_name (adopt_table tb) = tb_name tb" "tb_key (adopt_table tb) = tb_key tb" "tb_unique (adopt_table tb) = tb_unique tb"
  "key_of (adopt_table tb) = key_of tb"
  by (simp_all add: adopt_table_def key_of_def [abs_def])

lemma store_schema_eq: "store_schema = map adopt_table migrated_schema"
  by (simp add: store_schema_def adopt_scopes_def)

lemma schema_names: "map tb_name store_schema = map tb_name migrated_schema"
  by (simp add: store_schema_eq)

lemma parents_first_distinct: "parents_first seen sch \<Longrightarrow> schema_ok sch"
  unfolding schema_ok_def
  by (induction seen sch rule: parents_first.induct) (auto dest: parents_first_fresh)

lemma migrated_parents_first: "parents_first [] migrated_schema"
  by code_simp

lemma migrated_schema_ok: "schema_ok migrated_schema"
  using migrated_parents_first by (rule parents_first_distinct)

lemma store_schema_ok: "schema_ok store_schema"
  using migrated_schema_ok by (simp add: schema_ok_def schema_names)

lemma store_parents_first: "parents_first [] store_schema"
  unfolding store_schema_eq by code_simp

lemma single_key: "rows_ok (table t [c] [] fks) rows \<longleftrightarrow> distinct (map (col c) rows)"
proof -
  have "distinct (map (\<lambda>r. [col c r]) rows) = distinct (map (col c) rows)" by (induction rows) auto
  then show ?thesis by (simp add: rows_ok_def table_def key_of_def [abs_def])
qed


text \<open>A database with a service and no scope yet.\<close>

definition legacy_db :: db where
  "legacy_db = (\<lambda>_. [])(''services'' := [[(''id'', TextC ''/s'')]], ''gateways'' := [[(''id'', TextC ''/g''), (''service_id'', TextC ''/s'')]])"


end
