(* ===== verification/StoreCore.thy ===== *)
theory StoreCore
  imports StoreSchema
begin

text \<open>
  What the operations of \<open>internal/store/store.go\<close> share: the state of a store, its transactions and
  statements, the values it draws, the lookups and the deletion of a resource, and the rules by which
  the files on the families show that every operation keeps the database sound.
\<close>

section \<open>State and errors\<close>

text \<open>
  The clock's time and what \<open>crypto/rand\<close> gives are parts of the state: the values drawn are those of
  the sequences \<open>st_opaque\<close> and \<open>st_access_key\<close> from \<open>st_drawn\<close> on.
\<close>

record store =
  st_db :: db
  st_now :: int
  st_drawn :: nat
  st_opaque :: "nat \<Rightarrow> string"
  st_access_key :: "nat \<Rightarrow> string"
  st_order :: action_order

datatype store_error = NotFound | Conflict | SqlFailed sql_error | UnsupportedTagScope string

type_synonym 'a op = "store \<Rightarrow> (store_error, 'a) result \<times> store"
type_synonym 'a lookup = "store \<Rightarrow> (store_error, 'a) result"

definition op_return :: "'a \<Rightarrow> 'a op" where
  "op_return a s = (Ok a, s)"

definition op_fail :: "store_error \<Rightarrow> 'a op" where
  "op_fail e s = (Err e, s)"

definition op_then :: "'a op \<Rightarrow> ('a \<Rightarrow> 'b op) \<Rightarrow> 'b op" where
  "op_then m f s = (case m s of (r, s') \<Rightarrow> (case r of Err e \<Rightarrow> (Err e, s') | Ok a \<Rightarrow> f a s'))"

definition op_seq :: "'a op \<Rightarrow> 'b op \<Rightarrow> 'b op" where
  "op_seq m n = op_then m (\<lambda>_. n)"

definition op_read :: "(store \<Rightarrow> 'a) \<Rightarrow> 'a op" where
  "op_read f s = (Ok (f s), s)"

definition op_lookup :: "'a lookup \<Rightarrow> 'a op" where
  "op_lookup f s = (f s, s)"

fun op_each :: "('a \<Rightarrow> unit op) \<Rightarrow> 'a list \<Rightarrow> unit op" where
  "op_each f [] = op_return ()"
| "op_each f (x # xs) = op_seq (f x) (op_each f xs)"

text \<open>\<open>tx.Rollback\<close> runs on every return; after \<open>tx.Commit\<close> it does nothing.\<close>

definition transaction :: "'a op \<Rightarrow> 'a op" where
  "transaction m s =
     (case m s of (r, s') \<Rightarrow> (case r of Err e \<Rightarrow> (Err e, s'\<lparr>st_db := st_db s\<rparr>) | Ok a \<Rightarrow> (Ok a, s')))"

section \<open>Random values and times\<close>

definition new_opaque_id :: "string op" where
  "new_opaque_id s = (Ok (st_opaque s (st_drawn s)), s\<lparr>st_drawn := Suc (st_drawn s)\<rparr>)"

definition new_access_key :: "string op" where
  "new_access_key s = (Ok (st_access_key s (st_drawn s)), s\<lparr>st_drawn := Suc (st_drawn s)\<rparr>)"

definition new_etag :: "string op" where
  "new_etag = op_then new_opaque_id (\<lambda>x. op_return (CHR 0x22 # x @ [CHR 0x22]))"

definition unix_time :: "time \<Rightarrow> int" where
  "unix_time t = (if t = zero_time then 0 else t div nanos_per_second)"

definition time_from_unix :: "int \<Rightarrow> time" where
  "time_from_unix n = (if n = 0 then zero_time else seconds n)"

lemma time_from_unix_time: "0 < t \<Longrightarrow> t mod nanos_per_second = 0 \<Longrightarrow> time_from_unix (unix_time t) = t"
  by (auto simp: time_from_unix_def unix_time_def seconds_def zero_time_def nanos_per_second_def)

section \<open>Statements\<close>

definition exec_insert :: "string \<Rightarrow> row \<Rightarrow> on_conflict \<Rightarrow> unit op" where
  "exec_insert t r oc s =
     (case insert_row store_schema t r oc (st_db s) of
        Err e \<Rightarrow> (Err (SqlFailed e), s)
      | Ok d \<Rightarrow> (Ok (), s\<lparr>st_db := d\<rparr>))"

text \<open>The count of \<open>RowsAffected\<close> is the result.\<close>

definition exec_update :: "string \<Rightarrow> (row \<Rightarrow> bool) \<Rightarrow> string list \<Rightarrow> (row \<Rightarrow> row) \<Rightarrow> nat op" where
  "exec_update t p cs f s =
     (Ok (length (filter p (st_db s t))), s\<lparr>st_db := update_rows t p cs f (st_db s)\<rparr>)"

definition exec_delete :: "string \<Rightarrow> (row \<Rightarrow> bool) \<Rightarrow> nat op" where
  "exec_delete t p s =
     (case delete_where store_schema (st_order s) t p (st_db s) of
        Err e \<Rightarrow> (Err (SqlFailed e), s)
      | Ok d \<Rightarrow> (Ok (length (filter p (st_db s t))), s\<lparr>st_db := d\<rparr>))"

section \<open>Lookups\<close>

text \<open>
  A query without \<open>ORDER BY\<close> visits the rows in the order in which they were inserted, and \<open>QueryRow\<close>
  takes the first.
\<close>

definition query_row :: "string \<Rightarrow> (row \<Rightarrow> bool) \<Rightarrow> (db \<Rightarrow> row \<Rightarrow> 'a) \<Rightarrow> 'a lookup" where
  "query_row t p f s = (case find p (st_db s t) of Some r \<Rightarrow> Ok (f (st_db s) r) | None \<Rightarrow> Err NotFound)"

definition query_sorted :: "string \<Rightarrow> (row \<Rightarrow> bool) \<Rightarrow> string \<Rightarrow> (db \<Rightarrow> row \<Rightarrow> 'a) \<Rightarrow> store \<Rightarrow> 'a list" where
  "query_sorted t p c f s = map (f (st_db s)) (sort_key (text_at c) (filter p (st_db s t)))"

definition get_by_id :: "string \<Rightarrow> (db \<Rightarrow> row \<Rightarrow> 'a) \<Rightarrow> string \<Rightarrow> 'a lookup" where
  "get_by_id t f i = query_row t (names_row ''id'' i) f"

definition list_by :: "string \<Rightarrow> string \<Rightarrow> (db \<Rightarrow> row \<Rightarrow> 'a) \<Rightarrow> string \<Rightarrow> store \<Rightarrow> 'a list" where
  "list_by t owner f i = query_sorted t (names_row owner i) ''id'' f"

text \<open>\<open>COALESCE((SELECT document_json FROM t WHERE lower(key)=lower(id)), '{}')\<close>\<close>

definition document_of :: "string \<Rightarrow> string \<Rightarrow> db \<Rightarrow> row \<Rightarrow> json" where
  "document_of t key d r =
     (case find (names_row key (text_at ''id'' r)) (d t) of
        Some q \<Rightarrow> doc_at ''document_json'' q
      | None \<Rightarrow> JObj [])"

definition document_row :: "string \<Rightarrow> string \<Rightarrow> json \<Rightarrow> row" where
  "document_row key i j = [(key, TextC i), (''document_json'', DocC j)]"

section \<open>Documents and lists in columns\<close>

definition delete_key :: "string \<Rightarrow> json \<Rightarrow> json" where
  "delete_key k j = (case j of JObj kvs \<Rightarrow> JObj (filter (\<lambda>(k', _). k' \<noteq> k) kvs) | _ \<Rightarrow> j)"

text \<open>\<open>properties, _ := document["properties"].(map[string]any); delete(properties, k)\<close>\<close>

definition delete_property :: "string \<Rightarrow> json \<Rightarrow> json" where
  "delete_property k j =
     (case j of
        JObj kvs \<Rightarrow> JObj (map (\<lambda>(k', v). (k', if k' = ''properties'' then delete_key k v else v)) kvs)
      | _ \<Rightarrow> j)"

definition strings_cell :: "string list \<Rightarrow> cell" where
  "strings_cell xs = DocC (JArr (map JStr xs))"

definition strings_at :: "string \<Rightarrow> row \<Rightarrow> string list" where
  "strings_at c r =
     (case doc_at c r of JArr js \<Rightarrow> map (\<lambda>j. case j of JStr s \<Rightarrow> s | _ \<Rightarrow> []) js | _ \<Rightarrow> [])"

definition string_map_cell :: "(string \<times> string) list \<Rightarrow> cell" where
  "string_map_cell kvs = DocC (JObj (map (\<lambda>(k, v). (k, JStr v)) kvs))"

definition string_map_at :: "string \<Rightarrow> row \<Rightarrow> (string \<times> string) list" where
  "string_map_at c r =
     (case doc_at c r of
        JObj kvs \<Rightarrow> map (\<lambda>(k, j). (k, case j of JStr s \<Rightarrow> s | _ \<Rightarrow> [])) kvs
      | _ \<Rightarrow> [])"

section \<open>Deletion of a resource\<close>

text \<open>\<open>lower(c)=lower(id) OR lower(c) LIKE lower(id/%)\<close>\<close>

definition at_or_below :: "string \<Rightarrow> string \<Rightarrow> row \<Rightarrow> bool" where
  "at_or_below c i r \<longleftrightarrow>
     names_row c i r \<or> col c r \<noteq> NullC \<and> sql_like (to_lower (i @ ''/%'')) (to_lower (text_at c r))"

definition delete_scoped_resource :: "string \<Rightarrow> string \<Rightarrow> unit op" where
  "delete_scoped_resource t i = transaction
     (op_seq (exec_delete ''policies'' (at_or_below ''scope_id'' i))
     (op_seq (exec_delete ''resource_tags'' (at_or_below ''resource_id'' i))
     (op_seq (exec_delete ''diagnostics'' (at_or_below ''scope_id'' i))
     (op_then (exec_delete t (names_row ''id'' i))
        (\<lambda>n. if n = 0 then op_fail NotFound else op_return ())))))"

text \<open>\<open>splitRevision\<close>: the name and the revision, cut at the last \<open>;rev=\<close>.\<close>

fun last_occurrence :: "string \<Rightarrow> string \<Rightarrow> nat option" where
  "last_occurrence [] sub = (if sub = [] then Some 0 else None)"
| "last_occurrence (c # s) sub =
     (case last_occurrence s sub of
        Some i \<Rightarrow> Some (Suc i)
      | None \<Rightarrow> if has_prefix (c # s) sub then Some 0 else None)"

definition split_revision :: "string \<Rightarrow> string \<times> string" where
  "split_revision s =
     (case last_occurrence (to_lower s) '';rev='' of
        None \<Rightarrow> (s, ''1'')
      | Some i \<Rightarrow> (take i s, drop (i + 5) s))"

section \<open>A sound store\<close>

text \<open>
  The secrets that are columns of their own are kept out of the documents: for each table with such
  documents, the keys its documents never have, neither at the top nor among the properties.
\<close>

definition secret_keys :: "(string \<times> string list) list" where
  "secret_keys = [
    (''named_value_documents'', [''value'']),
    (''certificate_documents'', [''data'', ''password'']),
    (''user_documents'', [''password'', ''primaryKey'', ''secondaryKey'']),
    (''subscription_documents'', [''primaryKey'', ''secondaryKey'']),
    (''authorization_servers'', [''clientSecret'']),
    (''openid_connect_providers'', [''clientSecret'']),
    (''identity_providers'', [''clientSecret'']),
    (''caches'', [''connectionString'']),
    (''loggers'', [''credentials''])]"

definition lacks_property :: "string \<Rightarrow> json \<Rightarrow> bool" where
  "lacks_property k j \<longleftrightarrow> (case jget ''properties'' j of None \<Rightarrow> True | Some v \<Rightarrow> jget k v = None)"

definition lacks :: "string \<Rightarrow> json \<Rightarrow> bool" where
  "lacks k j \<longleftrightarrow> jget k j = None \<and> lacks_property k j"

lemma jget_delete_key [simp]: "jget k (delete_key k' j) = (if k = k' then None else jget k j)"
proof (cases j)
  case (JObj kvs)
  have "map_of (filter (\<lambda>(x, _). x \<noteq> k') kvs) k = (if k = k' then None else map_of kvs k)"
    by (induction kvs) auto
  then show ?thesis using JObj by (simp add: jget_def delete_key_def)
qed (simp_all add: jget_def delete_key_def)

lemma jget_delete_property [simp]:
  "jget k (delete_property k' j) = (if k = ''properties'' then map_option (delete_key k') (jget k j) else jget k j)"
proof (cases j)
  case (JObj kvs)
  have "map_of (map (\<lambda>(x, v). (x, if x = ''properties'' then delete_key k' v else v)) kvs) k =
      (if k = ''properties'' then map_option (delete_key k') (map_of kvs k) else map_of kvs k)"
    by (induction kvs) auto
  then show ?thesis using JObj by (simp add: jget_def delete_property_def)
qed (simp_all add: jget_def delete_property_def)

lemma lacks_property_simps [simp]:
  "lacks_property k (delete_key k' j) = (k' = ''properties'' \<or> lacks_property k j)"
  "lacks_property k (delete_property k' j) = (k = k' \<or> lacks_property k j)"
  by (auto simp: lacks_property_def split: option.splits)

definition row_clean :: "string \<Rightarrow> row \<Rightarrow> bool" where
  "row_clean t r \<longleftrightarrow>
     (case map_of secret_keys t of
        None \<Rightarrow> True
      | Some ks \<Rightarrow> list_all (\<lambda>k. lacks k (doc_at ''document_json'' r)) ks)"

definition store_ok :: "store \<Rightarrow> bool" where
  "store_ok s \<longleftrightarrow> db_ok store_schema (st_db s) \<and> (\<forall>t. list_all (row_clean t) (st_db s t)) \<and> permutes (st_order s)"

definition sound_op :: "'a op \<Rightarrow> bool" where
  "sound_op m \<longleftrightarrow> (\<forall>s. st_order (snd (m s)) = st_order s \<and> (store_ok s \<longrightarrow> store_ok (snd (m s))))"

definition atomic :: "'a op \<Rightarrow> bool" where
  "atomic m \<longleftrightarrow> (\<forall>s e s'. m s = (Err e, s') \<longrightarrow> st_db s' = st_db s)"

definition readonly :: "'a op \<Rightarrow> bool" where
  "readonly m \<longleftrightarrow> (\<forall>s. st_db (snd (m s)) = st_db s \<and> st_order (snd (m s)) = st_order s)"

lemmas op_defs = op_return_def op_fail_def op_then_def op_seq_def op_read_def op_lookup_def

named_theorems store_keeps \<open>operations keep the store sound\<close>
named_theorems store_atomic \<open>operations that fail change nothing\<close>
named_theorems store_reads \<open>operations that only read\<close>

lemma readonly_intros [store_reads]:
  "readonly (op_return a)" "readonly (op_fail e)" "readonly (op_read f)" "readonly (op_lookup g)"
  "readonly new_opaque_id" "readonly new_access_key"
  by (simp_all add: readonly_def op_defs new_opaque_id_def new_access_key_def)

lemma op_then_eval:
  "op_then m f s = (case fst (m s) of Err e \<Rightarrow> (Err e, snd (m s)) | Ok a \<Rightarrow> f a (snd (m s)))"
  by (simp add: op_then_def case_prod_beta)

lemma transaction_eval:
  "transaction m s = (case fst (m s) of Err e \<Rightarrow> (Err e, (snd (m s))\<lparr>st_db := st_db s\<rparr>) | Ok a \<Rightarrow> (Ok a, snd (m s)))"
  by (simp add: transaction_def case_prod_beta)

lemma readonly_then [store_reads]: "readonly m \<Longrightarrow> (\<And>a. readonly (f a)) \<Longrightarrow> readonly (op_then m f)"
  by (auto simp: readonly_def op_then_eval split: sum.splits)

lemma readonly_seq [store_reads]: "readonly m \<Longrightarrow> readonly n \<Longrightarrow> readonly (op_seq m n)"
  unfolding op_seq_def by (rule readonly_then)

lemma readonly_if [store_reads]: "readonly m \<Longrightarrow> readonly n \<Longrightarrow> readonly (if b then m else n)"
  by simp

lemma readonly_etag [store_reads]: "readonly new_etag"
  unfolding new_etag_def by (intro store_reads)

lemma readonly_keeps: "readonly m \<Longrightarrow> sound_op m"
  by (simp add: readonly_def sound_op_def store_ok_def)

lemma sound_then [store_keeps]: "sound_op m \<Longrightarrow> (\<And>a. sound_op (f a)) \<Longrightarrow> sound_op (op_then m f)"
  by (auto simp: sound_op_def op_then_eval split: sum.splits)

lemma sound_seq [store_keeps]: "sound_op m \<Longrightarrow> sound_op n \<Longrightarrow> sound_op (op_seq m n)"
  unfolding op_seq_def by (rule sound_then)

lemma sound_reads [store_keeps]:
  "sound_op (op_return a)" "sound_op (op_fail e)" "sound_op (op_read f)" "sound_op (op_lookup g)"
  "sound_op new_opaque_id" "sound_op new_access_key" "sound_op new_etag"
  by (rule readonly_keeps, rule store_reads)+

lemma sound_if [store_keeps]: "sound_op m \<Longrightarrow> sound_op n \<Longrightarrow> sound_op (if b then m else n)"
  by simp

lemma sound_each [store_keeps]: "(\<And>x. sound_op (f x)) \<Longrightarrow> sound_op (op_each f xs)"
  by (induction xs) (auto intro: store_keeps)

lemma sound_transaction [store_keeps]: "sound_op m \<Longrightarrow> sound_op (transaction m)"
  by (auto simp: sound_op_def transaction_eval store_ok_def split: sum.splits)

lemma atomic_reads [store_atomic]: "readonly m \<Longrightarrow> atomic m"
  by (auto simp: readonly_def atomic_def) (metis snd_conv)

lemma atomic_transaction [store_atomic]: "atomic (transaction m)"
  by (auto simp: atomic_def transaction_def split: prod.splits sum.splits)

lemma atomic_then: "readonly m \<Longrightarrow> (\<And>a. atomic (f a)) \<Longrightarrow> atomic (op_then m f)"
  by (auto simp: readonly_def atomic_def op_then_eval split: sum.splits)

lemma atomic_seq_return: "atomic m \<Longrightarrow> atomic (op_seq m (op_return a))"
  by (auto simp: atomic_def op_defs split: prod.splits sum.splits)

lemma atomic_if [store_atomic]: "atomic m \<Longrightarrow> atomic n \<Longrightarrow> atomic (if b then m else n)"
  by simp

section \<open>Statements on a sound store\<close>

definition insertable :: "string \<Rightarrow> string list \<Rightarrow> bool" where
  "insertable t cs \<longleftrightarrow> (\<exists>tb \<in> set store_schema. tb_name tb = t \<and> set cs \<inter> set (''id'' # tb_key tb) = {})"

definition updatable :: "string \<Rightarrow> string list \<Rightarrow> bool" where
  "updatable t cs \<longleftrightarrow> (\<exists>tb \<in> set store_schema. tb_name tb = t \<and> set cs \<inter> set (constrained tb) = {})"

lemma write_columns_cases:
  "col c (write_columns cs new old) = col c old \<or> col c (write_columns cs new old) = col c new"
proof (cases "c \<in> set cs")
  case True
  then have "map_of (write_columns cs new old) c = (if c \<in> fst ` set old then Some (col c new) else None)"
  proof (induction old)
    case (Cons x old)
    then show ?case using True by (cases x) (auto simp: write_columns_def)
  qed (simp add: write_columns_def)
  moreover have "map_of old c = None" if "c \<notin> fst ` set old" using that by (simp add: map_of_eq_None_iff)
  ultimately show ?thesis by (auto simp: col_def)
next
  case False
  then show ?thesis by (simp add: col_write)
qed

lemma row_clean_write: "row_clean t new \<Longrightarrow> row_clean t old \<Longrightarrow> row_clean t (write_columns cs new old)"
  using write_columns_cases [of "''document_json''" cs new old]
  by (auto simp: row_clean_def doc_at_def split: option.splits)

lemma insert_row_cases:
  assumes "insert_row sch t r oc d = Ok d'"
  shows "d' = d \<or> d' = d(t := d t @ [r]) \<or>
    (\<exists>old cs. old \<in> set (d t) \<and> oc = Update cs \<and>
       d' = d(t := map (\<lambda>q. if key_of (table_of sch t) q = key_of (table_of sch t) r then write_columns cs r old else q) (d t)))"
proof (cases "find (\<lambda>q. key_of (table_of sch t) q = key_of (table_of sch t) r) (d t)")
  case None
  then show ?thesis using assms by (simp add: insert_row_def Let_def split: option.splits)
next
  case (Some old)
  then have "old \<in> set (d t)" by (auto simp: find_Some_iff)
  then show ?thesis using assms Some by (cases oc) (auto simp: insert_row_def Let_def split: option.splits)
qed

lemma insert_clean:
  assumes "insert_row sch t r oc d = Ok d'" and old: "\<forall>t. list_all (row_clean t) (d t)" and new: "row_clean t r"
  shows "\<forall>t. list_all (row_clean t) (d' t)"
proof -
  have "row_clean t (write_columns cs r q)" if "q \<in> set (d t)" for cs q
    using old new that by (intro row_clean_write) (auto simp: list_all_iff)
  then show ?thesis using insert_row_cases [OF assms(1)] old new by (auto simp: list_all_iff split: if_splits)
qed

lemma exec_insert_keeps:
  assumes cols: "insertable t (case oc of Update cs \<Rightarrow> cs | _ \<Rightarrow> [])" and clean: "row_clean t r"
  shows "sound_op (exec_insert t r oc)"
  unfolding sound_op_def
proof (intro allI conjI impI)
  fix s
  show "st_order (snd (exec_insert t r oc s)) = st_order s" by (simp add: exec_insert_def split: sum.splits)
  assume s: "store_ok s"
  obtain tb where tb: "tb \<in> set store_schema" "tb_name tb = t"
      and cs: "set (case oc of Update cs \<Rightarrow> cs | _ \<Rightarrow> []) \<inter> set (''id'' # tb_key tb) = {}"
    using cols by (auto simp: insertable_def)
  have "store_ok (s\<lparr>st_db := d\<rparr>)" if "insert_row store_schema t r oc (st_db s) = Ok d" for d
    using insert_ok [OF store_schema_ok tb(1), of "st_db s" r oc d] insert_clean [OF that] that s clean cs tb(2)
    by (auto simp: store_ok_def)
  then show "store_ok (snd (exec_insert t r oc s))" using s by (simp add: exec_insert_def split: sum.splits)
qed

lemmas insert_keeps [store_keeps] =
  exec_insert_keeps [where oc = "Update cs" for cs, unfolded on_conflict.case]
  exec_insert_keeps [where oc = Fail, unfolded on_conflict.case]
  exec_insert_keeps [where oc = Ignore, unfolded on_conflict.case]

lemmas row_clean_eval = row_clean_def secret_keys_def document_row_def doc_at_def col_def lacks_def

lemma row_clean_plain: "map_of secret_keys t = None \<Longrightarrow> row_clean t r"
  by (simp add: row_clean_def)

lemma exec_update_keeps [store_keeps]:
  assumes cols: "updatable t cs" and plain: "map_of secret_keys t = None"
  shows "sound_op (exec_update t p cs f)"
  unfolding sound_op_def
proof (intro allI conjI impI)
  fix s
  show "st_order (snd (exec_update t p cs f s)) = st_order s" by (simp add: exec_update_def)
  assume s: "store_ok s"
  obtain tb where tb: "tb \<in> set store_schema" "tb_name tb = t" "set cs \<inter> set (constrained tb) = {}"
    using cols by (auto simp: updatable_def)
  have "list_all (row_clean u) (update_rows t p cs f (st_db s) u)" for u
    using s plain by (auto simp: store_ok_def update_rows_def list_all_iff row_clean_plain)
  then show "store_ok (snd (exec_update t p cs f s))"
    using update_ok [OF store_schema_ok tb(1) _ tb(3), of "st_db s" p f] s tb(2) by (auto simp: exec_update_def store_ok_def)
qed

lemma exec_delete_ok:
  assumes "store_ok s" and "delete_where store_schema (st_order s) t p (st_db s) = Ok d"
  shows "store_ok (s\<lparr>st_db := d\<rparr>)" "smaller d (st_db s)" "\<forall>r \<in> set (d t). \<not> p r"
proof -
  have *: "db_ok store_schema d" "smaller d (st_db s)" "\<forall>r \<in> set (d t). \<not> p r"
    using delete_ok [OF _ _ assms(2)] assms(1) by (auto simp: store_ok_def)
  then show "smaller d (st_db s)" "\<forall>r \<in> set (d t). \<not> p r" by auto
  show "store_ok (s\<lparr>st_db := d\<rparr>)"
    using * assms(1) smaller_set [OF *(2)] by (fastforce simp: store_ok_def list_all_iff)
qed

lemma exec_delete_keeps [store_keeps]: "sound_op (exec_delete t p)"
  by (auto simp: sound_op_def exec_delete_def exec_delete_ok(1) split: sum.splits)

lemma exec_atomic [store_atomic]: "atomic (exec_insert t r oc)" "atomic (exec_update t p cs f)" "atomic (exec_delete t p)"
  by (auto simp: atomic_def exec_insert_def exec_update_def exec_delete_def split: sum.splits)

lemma update_or_not_found:
  "atomic (op_then (exec_update t p cs f) (\<lambda>n. if n = 0 then op_fail NotFound else op_return v))"
proof -
  have "update_rows t p cs f d = d" if "filter p (d t) = []" for d :: db
  proof -
    have "map (\<lambda>r. if p r then write_columns cs (f r) r else r) (d t) = d t"
      using that by (intro map_idI) (auto simp: filter_empty_conv)
    then show ?thesis by (simp add: update_rows_def)
  qed
  then show ?thesis
    by (auto simp: atomic_def op_then_eval exec_update_def op_fail_def op_return_def split: if_splits)
qed

text \<open>\<open>CASCADE\<close> always ends.\<close>

lemma exec_delete_ends: "permutes (st_order s) \<Longrightarrow> fst (exec_delete t p s) \<noteq> Err (SqlFailed CascadeTooDeep)"
  using delete_where_enough [OF store_parents_first, of "st_order s" t p "st_db s"]
  by (auto simp: exec_delete_def split: sum.splits)

section \<open>What a deletion removes\<close>

lemma delete_scoped_keeps [store_keeps]: "sound_op (delete_scoped_resource t i)"
  unfolding delete_scoped_resource_def by (intro store_keeps)

lemma delete_scoped_atomic [store_atomic]: "atomic (delete_scoped_resource t i)"
  unfolding delete_scoped_resource_def by (rule atomic_transaction)

lemma delete_or_not_found:
  "atomic (op_then (exec_delete t p) (\<lambda>n. if n = 0 then op_fail NotFound else op_return ()))"
proof -
  have "d' = d" if "delete_where store_schema order t p d = Ok d'" "filter p (d t) = []" for order and d d' :: db
    using that by (simp add: delete_where_def delete_rows_Suc)
  then show ?thesis
    by (auto simp: atomic_def op_then_eval exec_delete_def op_fail_def op_return_def split: if_splits sum.splits)
qed

lemma op_seq_Ok:
  "op_seq m n s = (Ok b, s'') \<longleftrightarrow> (\<exists>a s'. m s = (Ok a, s') \<and> n s' = (Ok b, s''))"
  by (auto simp: op_seq_def op_then_def split: prod.splits sum.splits)

lemma op_then_Ok:
  "op_then m f s = (Ok b, s'') \<longleftrightarrow> (\<exists>a s'. m s = (Ok a, s') \<and> f a s' = (Ok b, s''))"
  by (auto simp: op_then_def split: prod.splits sum.splits)

lemma transaction_Ok [simp]: "transaction m s = (Ok a, s') \<longleftrightarrow> m s = (Ok a, s')"
  by (auto simp: transaction_def split: prod.splits sum.splits)

lemma exec_delete_Ok:
  assumes "exec_delete t p s = (Ok n, s')" and "store_ok s"
  shows "store_ok s' \<and> smaller (st_db s') (st_db s) \<and> (\<forall>r \<in> set (st_db s' t). \<not> p r) \<and> n = length (filter p (st_db s t))"
proof -
  from assms(1) obtain d where d: "delete_where store_schema (st_order s) t p (st_db s) = Ok d"
      "s' = s\<lparr>st_db := d\<rparr>" "n = length (filter p (st_db s t))"
    by (auto simp: exec_delete_def split: sum.splits)
  then show ?thesis using exec_delete_ok [OF assms(2) d(1)] by simp
qed

lemma deleted_everywhere:
  assumes "store_ok s" and "delete_scoped_resource t i s = (Ok (), s')"
  shows "store_ok s' \<and> smaller (st_db s') (st_db s) \<and>
    (\<forall>r \<in> set (st_db s' t). \<not> names_row ''id'' i r) \<and>
    (\<forall>r \<in> set (st_db s' ''policies''). \<not> at_or_below ''scope_id'' i r) \<and>
    (\<forall>r \<in> set (st_db s' ''resource_tags''). \<not> at_or_below ''resource_id'' i r) \<and>
    (\<forall>r \<in> set (st_db s' ''diagnostics''). \<not> at_or_below ''scope_id'' i r) \<and>
    (\<exists>r \<in> set (st_db s t). names_row ''id'' i r)"
proof -
  from assms(2) obtain n1 s1 n2 s2 n3 s3 n where
      r1: "exec_delete ''policies'' (at_or_below ''scope_id'' i) s = (Ok n1, s1)" and
      r2: "exec_delete ''resource_tags'' (at_or_below ''resource_id'' i) s1 = (Ok n2, s2)" and
      r3: "exec_delete ''diagnostics'' (at_or_below ''scope_id'' i) s2 = (Ok n3, s3)" and
      r4: "exec_delete t (names_row ''id'' i) s3 = (Ok n, s')" and n: "n \<noteq> 0"
    by (auto simp: delete_scoped_resource_def op_seq_Ok op_then_Ok op_fail_def op_return_def split: if_splits)
  note d1 = exec_delete_Ok [OF r1 assms(1)]
  note d2 = exec_delete_Ok [OF r2 conjunct1 [OF d1]]
  note d3 = exec_delete_Ok [OF r3 conjunct1 [OF d2]]
  note d4 = exec_delete_Ok [OF r4 conjunct1 [OF d3]]
  have small: "smaller (st_db s') (st_db s3)" "smaller (st_db s3) (st_db s2)" "smaller (st_db s2) (st_db s1)"
      "smaller (st_db s1) (st_db s)" using d1 d2 d3 d4 by auto
  have sub: "set (st_db s' u) \<subseteq> set (st_db s3 u)" "set (st_db s3 u) \<subseteq> set (st_db s2 u)"
      "set (st_db s2 u) \<subseteq> set (st_db s1 u)" "set (st_db s1 u) \<subseteq> set (st_db s u)" for u
    using small smaller_set by auto
  have "\<exists>r \<in> set (st_db s3 t). names_row ''id'' i r" using d4 n by (auto simp: filter_empty_conv)
  moreover have "smaller (st_db s') (st_db s)" using small smaller_trans by blast
  ultimately show ?thesis using d1 d2 d3 d4 sub [of t] sub [of "''policies''"] sub [of "''resource_tags''"] sub [of "''diagnostics''"]
    by blast
qed

section \<open>What an upsert stores is what a lookup finds\<close>

lemmas column_defs = text_at_def int_at_def bool_at_def real_at_def doc_at_def strings_at_def strings_cell_def col_def

lemma find_only:
  assumes "x \<in> set xs" "P x" and only: "\<And>y. y \<in> set xs \<Longrightarrow> P y \<Longrightarrow> y = x"
  shows "find P xs = Some x"
proof (cases "find P xs")
  case None
  then show ?thesis using assms(1,2) by (metis find_None_iff)
next
  case (Some y)
  then have "y \<in> set xs" "P y" by (auto simp: find_Some_iff)
  then show ?thesis using only Some by metis
qed

lemma exec_insert_Ok:
  "exec_insert t r oc s = (Ok (), s') \<Longrightarrow> \<exists>d. insert_row store_schema t r oc (st_db s) = Ok d \<and> s' = s\<lparr>st_db := d\<rparr>"
  by (auto simp: exec_insert_def split: sum.splits)

lemma exec_insert_other:
  assumes "exec_insert t r oc s = (Ok (), s')" and "u \<noteq> t"
  shows "st_db s' u = st_db s u"
proof -
  obtain d where "insert_row store_schema t r oc (st_db s) = Ok d" "s' = s\<lparr>st_db := d\<rparr>"
    using exec_insert_Ok [OF assms(1)] by blast
  then show ?thesis using insert_row_cases assms(2) by fastforce
qed

text \<open>
  The rows of a table: how a value is written and read, its key, and the part of it (the parent and the
  name) that an update of the row leaves alone.
\<close>

locale stored_rows =
  fixes tbl :: string and idc :: string and cols :: "string list"
    and encode :: "'v \<Rightarrow> row" and decode :: "db \<Rightarrow> row \<Rightarrow> 'a"
    and ident :: "'v \<Rightarrow> string" and place :: "'v \<Rightarrow> string \<times> string"
  assumes keyed: "tb_key (table_of store_schema tbl) = [idc]"
    and encode_id: "col idc (encode v) = TextC (ident v)"
    and cols_id: "idc \<notin> set cols"
    and ident_place: "place v = place w \<Longrightarrow> ident v = ident w"
    and overwrite: "place v = place w \<Longrightarrow> decode d (write_columns cols (encode v) (encode w)) = decode d (encode v)"
begin

text \<open>The rows that a lookup of the value could meet are earlier forms of it.\<close>

definition unshadowed :: "'v \<Rightarrow> store \<Rightarrow> bool" where
  "unshadowed v s \<longleftrightarrow>
     (\<forall>r \<in> set (st_db s tbl). names_row idc (ident v) r \<longrightarrow> (\<exists>w. r = encode w \<and> place v = place w))"

lemma found_after_put:
  assumes put: "exec_insert tbl (encode v) (Update cols) s = (Ok (), s')" and rows: "unshadowed v s"
  shows "\<exists>r. find (names_row idc (ident v)) (st_db s' tbl) = Some r \<and> (\<forall>d. decode d r = decode d (encode v))"
proof -
  let ?same = "\<lambda>r. key_of (table_of store_schema tbl) r = key_of (table_of store_schema tbl) (encode v)"
  obtain d where ins: "insert_row store_schema tbl (encode v) (Update cols) (st_db s) = Ok d" and s': "st_db s' = d"
    using exec_insert_Ok [OF put] by auto
  have key: "key_of (table_of store_schema tbl) r = [col idc r]" for r by (simp add: key_of_def keyed)
  have same: "?same r" if r: "r \<in> set (st_db s tbl)" "names_row idc (ident v) r" for r
  proof -
    obtain w where "r = encode w" "place v = place w" using rows r unfolding unshadowed_def by blast
    then show ?thesis by (metis key encode_id ident_place)
  qed
  have names: "names_row idc (ident v) r" if "col idc r = TextC (ident v)" for r
    using that by (simp add: names_row_def text_at_def)
  show ?thesis
  proof (cases "find ?same (st_db s tbl)")
    case None
    then have "d tbl = st_db s tbl @ [encode v]" using ins by (auto simp: insert_row_def Let_def split: option.splits)
    moreover have "find (names_row idc (ident v)) (st_db s tbl @ [encode v]) = Some (encode v)"
      using None same names [OF encode_id] unfolding find_None_iff by (intro find_only) auto
    ultimately show ?thesis using s' by simp
  next
    case (Some old)
    then have old: "old \<in> set (st_db s tbl)" "col idc old = TextC (ident v)"
      by (auto simp: find_Some_iff key encode_id)
    then obtain w where w: "old = encode w" "place v = place w" using rows names unfolding unshadowed_def by blast
    let ?new = "write_columns cols (encode v) old"
    have d: "d tbl = map (\<lambda>r. if ?same r then ?new else r) (st_db s tbl)"
      using ins Some by (auto simp: insert_row_def Let_def split: option.splits)
    have "col idc ?new = TextC (ident v)" using old(2) cols_id by (simp add: col_write)
    then have "find (names_row idc (ident v)) (d tbl) = Some ?new"
      using old same names unfolding d by (intro find_only) (auto simp: key encode_id image_iff intro!: bexI [of _ old])
    moreover have "decode e ?new = decode e (encode v)" for e using w overwrite by simp
    ultimately show ?thesis using s' by blast
  qed
qed

lemma get_after_put:
  assumes "exec_insert tbl (encode v) (Update cols) s = (Ok (), s')" and "unshadowed v s" and "idc = ''id''"
  shows "get_by_id tbl decode (ident v) s' = Ok (decode (st_db s') (encode v))"
  using found_after_put [OF assms(1,2)] assms(3) by (auto simp: get_by_id_def query_row_def)

text \<open>
  The key is compared with its case and the lookup without: a row of another casing that comes first
  hides the value that was put.
\<close>

lemma put_beside:
  assumes put: "exec_insert tbl (encode v) (Update cols) s = (Ok (), s')"
    and first: "find (names_row idc (ident v)) (st_db s tbl) = Some r" and other: "text_at idc r \<noteq> ident v"
  shows "find (names_row idc (ident v)) (st_db s' tbl) = Some r"
proof -
  let ?same = "\<lambda>r. key_of (table_of store_schema tbl) r = key_of (table_of store_schema tbl) (encode v)"
  obtain d where ins: "insert_row store_schema tbl (encode v) (Update cols) (st_db s) = Ok d" and s': "st_db s' = d"
    using exec_insert_Ok [OF put] by auto
  have key: "key_of (table_of store_schema tbl) r = [col idc r]" for r by (simp add: key_of_def keyed)
  have keep: "find P (map (\<lambda>x. if ?same x then y else x) xs) = Some r"
    if "find P xs = Some r" "\<not> ?same r" "\<And>x. ?same x \<Longrightarrow> P x" for P y and xs :: "row list"
    using that by (induction xs) (auto split: if_splits)
  have "\<not> ?same r" using other by (auto simp: key encode_id text_at_def)
  moreover have "names_row idc (ident v) x" if "?same x" for x
    using that by (simp add: key encode_id names_row_def text_at_def)
  moreover have append: "find P (xs @ ys) = Some r" if "find P xs = Some r" for P and xs ys :: "row list"
    using that by (induction xs) auto
  ultimately show ?thesis
    using insert_row_cases [OF ins] first keep append s' by auto
qed

end

section \<open>The columns the statements write\<close>

text \<open>For each table, in the order of the schema: the columns an upsert sets and those an update sets.\<close>

definition written_columns :: "(string \<times> string list \<times> string list) list" where
  "written_columns = [
    (''services'', [''location'', ''sku_name'', ''sku_capacity'', ''publisher_name'', ''publisher_email'', ''provisioning_state'', ''etag''], []),
    (''scopes'', [], []),
    (''resource_documents'', [''document_json''], []),
    (''apis'', [''display_name'', ''path'', ''service_url'', ''protocols_json'', ''subscription_required'', ''etag''], []),
    (''api_documents'', [''document_json''], []),
    (''api_revision_metadata'', [''revision'', ''description'', ''is_current'', ''updated_at''], [''is_current'']),
    (''api_definitions'', [''format'', ''value'', ''source_url'', ''etag''], []),
    (''api_version_sets'', [''display_name'', ''versioning_scheme'', ''version_header_name'', ''version_query_name'', ''description'', ''etag''], []),
    (''api_version_set_documents'', [''document_json''], []),
    (''api_version_metadata'', [''version'', ''version_set_id''], []),
    (''named_values'', [''display_name'', ''value'', ''tags_json'', ''secret'', ''key_vault_secret_id'', ''key_vault_identity_id'', ''key_vault_status_code'', ''key_vault_status_message'', ''key_vault_status_time'', ''etag''], []),
    (''named_value_documents'', [''document_json''], []),
    (''backends'', [''title'', ''description'', ''url'', ''protocol'', ''resource_id'', ''document_json'', ''etag''], []),
    (''certificates'', [''subject'', ''thumbprint'', ''expiration'', ''data'', ''password'', ''key_vault_secret_id'', ''key_vault_identity_id'', ''key_vault_status_code'', ''key_vault_status_message'', ''key_vault_status_time'', ''etag''], []),
    (''certificate_documents'', [''document_json''], []),
    (''api_releases'', [''target_api_id'', ''notes'', ''updated_at'', ''etag''], []),
    (''api_release_documents'', [''document_json''], []),
    (''operations'', [''display_name'', ''method'', ''url_template'', ''etag''], []),
    (''operation_documents'', [''document_json''], []),
    (''api_schemas'', [''content_type'', ''document_json'', ''etag''], []),
    (''api_schema_documents'', [''document_json''], []),
    (''role_assignments'', [''principal_id'', ''principal_type'', ''role_definition_id'', ''document_json'', ''etag''], []),
    (''workspaces'', [''display_name'', ''description'', ''document_json'', ''etag''], []),
    (''api_resolvers'', [''display_name'', ''description'', ''type'', ''field'', ''document_json'', ''etag''], []),
    (''authorization_providers'', [''display_name'', ''identity_provider'', ''document_json'', ''etag''], []),
    (''authorizations'', [''authorization_type'', ''oauth2_grant_type'', ''status'', ''error_message'', ''document_json'', ''etag''], []),
    (''authorization_access_policies'', [''tenant_id'', ''object_id'', ''document_json'', ''etag''], []),
    (''gateways'', [''location_name'', ''description'', ''primary_key'', ''secondary_key'', ''document_json'', ''etag''], []),
    (''gateway_apis'', [], []),
    (''gateway_hostname_configurations'', [''hostname'', ''certificate_id'', ''negotiate_client_certificate'', ''tls10_enabled'', ''tls11_enabled'', ''http2_enabled'', ''document_json'', ''etag''], []),
    (''gateway_certificate_authorities'', [''is_trusted'', ''document_json'', ''etag''], []),
    (''private_endpoint_connections'', [''status'', ''description'', ''actions_required'', ''endpoint_id'', ''document_json'', ''etag''], []),
    (''tags'', [''display_name'', ''etag''], []),
    (''tag_documents'', [''document_json''], []),
    (''resource_tags'', [], [''link_name'']),
    (''groups'', [''display_name'', ''description'', ''type'', ''external_id'', ''built_in'', ''etag''], []),
    (''group_documents'', [''document_json''], []),
    (''users'', [''first_name'', ''last_name'', ''email'', ''state'', ''note'', ''identities_json'', ''password'', ''primary_key'', ''secondary_key'', ''etag''], []),
    (''user_documents'', [''document_json''], []),
    (''group_users'', [], []),
    (''policy_fragments'', [''description'', ''format'', ''value'', ''provisioning_state'', ''etag''], []),
    (''policy_fragment_documents'', [''document_json''], []),
    (''documentations'', [''title'', ''content'', ''document_json'', ''etag''], []),
    (''global_schemas'', [''schema_type'', ''description'', ''value'', ''schema_json'', ''document_json'', ''etag''], []),
    (''policy_restrictions'', [''scope'', ''require_base'', ''document_json'', ''etag''], []),
    (''tenant_access'', [], [''principal_id'', ''primary_key'', ''secondary_key'', ''enabled'', ''etag'']),
    (''authorization_servers'', [''display_name'', ''description'', ''authorization_endpoint'', ''client_registration_endpoint'', ''client_id'', ''client_secret'', ''token_endpoint'', ''default_scope'', ''resource_owner_username'', ''resource_owner_password'', ''support_state'', ''grant_types_json'', ''document_json'', ''etag''], []),
    (''openid_connect_providers'', [''display_name'', ''description'', ''metadata_endpoint'', ''client_id'', ''client_secret'', ''document_json'', ''etag''], []),
    (''identity_providers'', [''client_id'', ''client_secret'', ''authority'', ''signin_tenant'', ''signup_policy_name'', ''signin_policy_name'', ''profile_editing_policy_name'', ''password_reset_policy_name'', ''allowed_tenants_json'', ''document_json'', ''etag''], []),
    (''caches'', [''description'', ''connection_string'', ''use_from_location'', ''resource_id'', ''document_json'', ''etag''], []),
    (''loggers'', [''logger_type'', ''description'', ''is_buffered'', ''resource_id'', ''credentials_json'', ''document_json'', ''etag''], []),
    (''diagnostics'', [''logger_id'', ''always_log'', ''log_client_ip'', ''verbosity'', ''sampling_type'', ''sampling_percentage'', ''document_json'', ''etag''], []),
    (''diagnostic_events'', [], []),
    (''products'', [''display_name'', ''state'', ''approval_required'', ''etag''], []),
    (''product_documents'', [''document_json''], []),
    (''product_apis'', [], [''link_name'']),
    (''product_groups'', [], [''link_name'']),
    (''subscriptions'', [''display_name'', ''scope'', ''state'', ''primary_key'', ''secondary_key'', ''etag''], [''primary_key'', ''secondary_key'', ''etag'']),
    (''subscription_documents'', [''document_json''], []),
    (''policies'', [''format'', ''value'', ''etag''], [])]"

lemma written_columns_ok:
  "list_all (\<lambda>(tb, t, cs, us). tb_name tb = t \<and> list_all (\<lambda>c. c \<notin> set (''id'' # tb_key tb)) cs \<and>
       list_all (\<lambda>c. c \<notin> set (constrained tb)) us)
     (zip store_schema written_columns)"
  "length store_schema = length written_columns"
  unfolding store_schema_eq by code_simp+

lemma written_at:
  assumes "written_columns ! i = (t, cs, us)" and "i < length written_columns"
  shows "insertable t cs" "insertable t []" "updatable t us"
proof -
  have "(store_schema ! i, t, cs, us) \<in> set (zip store_schema written_columns)"
    using written_columns_ok(2) assms by (auto simp: set_zip)
  then have "tb_name (store_schema ! i) = t" "list_all (\<lambda>c. c \<notin> set (''id'' # tb_key (store_schema ! i))) cs"
      "list_all (\<lambda>c. c \<notin> set (constrained (store_schema ! i))) us"
    using written_columns_ok(1) by (auto simp: list_all_iff)
  moreover have "store_schema ! i \<in> set store_schema" using assms written_columns_ok(2) by simp
  ultimately show "insertable t cs" "insertable t []" "updatable t us"
    by (auto simp: insertable_def updatable_def list_all_iff intro!: bexI [of _ "store_schema ! i"])
qed

lemma written_in:
  assumes "(t, cs, us) \<in> set written_columns"
  shows "insertable t cs" "insertable t []" "updatable t us"
  using assms written_at unfolding in_set_conv_nth by metis+

lemma insertable_tables:
  "insertable ''services'' [''location'', ''sku_name'', ''sku_capacity'', ''publisher_name'', ''publisher_email'', ''provisioning_state'', ''etag'']"
  "insertable ''scopes'' []"
  "insertable ''resource_documents'' [''document_json'']"
  "insertable ''apis'' [''display_name'', ''path'', ''service_url'', ''protocols_json'', ''subscription_required'', ''etag'']"
  "insertable ''api_documents'' [''document_json'']"
  "insertable ''api_revision_metadata'' [''revision'', ''description'', ''is_current'', ''updated_at'']"
  "insertable ''api_definitions'' [''format'', ''value'', ''source_url'', ''etag'']"
  "insertable ''api_version_sets'' [''display_name'', ''versioning_scheme'', ''version_header_name'', ''version_query_name'', ''description'', ''etag'']"
  "insertable ''api_version_set_documents'' [''document_json'']"
  "insertable ''api_version_metadata'' [''version'', ''version_set_id'']"
  "insertable ''named_values'' [''display_name'', ''value'', ''tags_json'', ''secret'', ''key_vault_secret_id'', ''key_vault_identity_id'', ''key_vault_status_code'', ''key_vault_status_message'', ''key_vault_status_time'', ''etag'']"
  "insertable ''named_value_documents'' [''document_json'']"
  "insertable ''backends'' [''title'', ''description'', ''url'', ''protocol'', ''resource_id'', ''document_json'', ''etag'']"
  "insertable ''certificates'' [''subject'', ''thumbprint'', ''expiration'', ''data'', ''password'', ''key_vault_secret_id'', ''key_vault_identity_id'', ''key_vault_status_code'', ''key_vault_status_message'', ''key_vault_status_time'', ''etag'']"
  "insertable ''certificate_documents'' [''document_json'']"
  "insertable ''api_releases'' [''target_api_id'', ''notes'', ''updated_at'', ''etag'']"
  "insertable ''api_release_documents'' [''document_json'']"
  "insertable ''operations'' [''display_name'', ''method'', ''url_template'', ''etag'']"
  "insertable ''operation_documents'' [''document_json'']"
  "insertable ''api_schemas'' [''content_type'', ''document_json'', ''etag'']"
  "insertable ''api_schema_documents'' [''document_json'']"
  "insertable ''role_assignments'' [''principal_id'', ''principal_type'', ''role_definition_id'', ''document_json'', ''etag'']"
  "insertable ''workspaces'' [''display_name'', ''description'', ''document_json'', ''etag'']"
  "insertable ''api_resolvers'' [''display_name'', ''description'', ''type'', ''field'', ''document_json'', ''etag'']"
  "insertable ''authorization_providers'' [''display_name'', ''identity_provider'', ''document_json'', ''etag'']"
  "insertable ''authorizations'' [''authorization_type'', ''oauth2_grant_type'', ''status'', ''error_message'', ''document_json'', ''etag'']"
  "insertable ''authorization_access_policies'' [''tenant_id'', ''object_id'', ''document_json'', ''etag'']"
  "insertable ''gateways'' [''location_name'', ''description'', ''primary_key'', ''secondary_key'', ''document_json'', ''etag'']"
  "insertable ''gateway_apis'' []"
  "insertable ''gateway_hostname_configurations'' [''hostname'', ''certificate_id'', ''negotiate_client_certificate'', ''tls10_enabled'', ''tls11_enabled'', ''http2_enabled'', ''document_json'', ''etag'']"
  "insertable ''gateway_certificate_authorities'' [''is_trusted'', ''document_json'', ''etag'']"
  "insertable ''private_endpoint_connections'' [''status'', ''description'', ''actions_required'', ''endpoint_id'', ''document_json'', ''etag'']"
  "insertable ''tags'' [''display_name'', ''etag'']"
  "insertable ''tag_documents'' [''document_json'']"
  "insertable ''resource_tags'' []"
  "insertable ''groups'' [''display_name'', ''description'', ''type'', ''external_id'', ''built_in'', ''etag'']"
  "insertable ''group_documents'' [''document_json'']"
  "insertable ''users'' [''first_name'', ''last_name'', ''email'', ''state'', ''note'', ''identities_json'', ''password'', ''primary_key'', ''secondary_key'', ''etag'']"
  "insertable ''user_documents'' [''document_json'']"
  "insertable ''group_users'' []"
  "insertable ''policy_fragments'' [''description'', ''format'', ''value'', ''provisioning_state'', ''etag'']"
  "insertable ''policy_fragment_documents'' [''document_json'']"
  "insertable ''documentations'' [''title'', ''content'', ''document_json'', ''etag'']"
  "insertable ''global_schemas'' [''schema_type'', ''description'', ''value'', ''schema_json'', ''document_json'', ''etag'']"
  "insertable ''policy_restrictions'' [''scope'', ''require_base'', ''document_json'', ''etag'']"
  "insertable ''tenant_access'' []"
  "insertable ''authorization_servers'' [''display_name'', ''description'', ''authorization_endpoint'', ''client_registration_endpoint'', ''client_id'', ''client_secret'', ''token_endpoint'', ''default_scope'', ''resource_owner_username'', ''resource_owner_password'', ''support_state'', ''grant_types_json'', ''document_json'', ''etag'']"
  "insertable ''openid_connect_providers'' [''display_name'', ''description'', ''metadata_endpoint'', ''client_id'', ''client_secret'', ''document_json'', ''etag'']"
  "insertable ''identity_providers'' [''client_id'', ''client_secret'', ''authority'', ''signin_tenant'', ''signup_policy_name'', ''signin_policy_name'', ''profile_editing_policy_name'', ''password_reset_policy_name'', ''allowed_tenants_json'', ''document_json'', ''etag'']"
  "insertable ''caches'' [''description'', ''connection_string'', ''use_from_location'', ''resource_id'', ''document_json'', ''etag'']"
  "insertable ''loggers'' [''logger_type'', ''description'', ''is_buffered'', ''resource_id'', ''credentials_json'', ''document_json'', ''etag'']"
  "insertable ''diagnostics'' [''logger_id'', ''always_log'', ''log_client_ip'', ''verbosity'', ''sampling_type'', ''sampling_percentage'', ''document_json'', ''etag'']"
  "insertable ''diagnostic_events'' []"
  "insertable ''products'' [''display_name'', ''state'', ''approval_required'', ''etag'']"
  "insertable ''product_documents'' [''document_json'']"
  "insertable ''product_apis'' []"
  "insertable ''product_groups'' []"
  "insertable ''subscriptions'' [''display_name'', ''scope'', ''state'', ''primary_key'', ''secondary_key'', ''etag'']"
  "insertable ''subscription_documents'' [''document_json'']"
  "insertable ''policies'' [''format'', ''value'', ''etag'']"
  by (rule written_in(1); unfold written_columns_def; (rule list.set_intros(1) | rule list.set_intros(2))+)+

lemma insertable_plainly:
  "insertable ''services'' []"
  "insertable ''resource_documents'' []"
  "insertable ''apis'' []"
  "insertable ''api_documents'' []"
  "insertable ''api_revision_metadata'' []"
  "insertable ''api_definitions'' []"
  "insertable ''api_version_sets'' []"
  "insertable ''api_version_set_documents'' []"
  "insertable ''api_version_metadata'' []"
  "insertable ''named_values'' []"
  "insertable ''named_value_documents'' []"
  "insertable ''backends'' []"
  "insertable ''certificates'' []"
  "insertable ''certificate_documents'' []"
  "insertable ''api_releases'' []"
  "insertable ''api_release_documents'' []"
  "insertable ''operations'' []"
  "insertable ''operation_documents'' []"
  "insertable ''api_schemas'' []"
  "insertable ''api_schema_documents'' []"
  "insertable ''role_assignments'' []"
  "insertable ''workspaces'' []"
  "insertable ''api_resolvers'' []"
  "insertable ''authorization_providers'' []"
  "insertable ''authorizations'' []"
  "insertable ''authorization_access_policies'' []"
  "insertable ''gateways'' []"
  "insertable ''gateway_hostname_configurations'' []"
  "insertable ''gateway_certificate_authorities'' []"
  "insertable ''private_endpoint_connections'' []"
  "insertable ''tags'' []"
  "insertable ''tag_documents'' []"
  "insertable ''groups'' []"
  "insertable ''group_documents'' []"
  "insertable ''users'' []"
  "insertable ''user_documents'' []"
  "insertable ''policy_fragments'' []"
  "insertable ''policy_fragment_documents'' []"
  "insertable ''documentations'' []"
  "insertable ''global_schemas'' []"
  "insertable ''policy_restrictions'' []"
  "insertable ''authorization_servers'' []"
  "insertable ''openid_connect_providers'' []"
  "insertable ''identity_providers'' []"
  "insertable ''caches'' []"
  "insertable ''loggers'' []"
  "insertable ''diagnostics'' []"
  "insertable ''products'' []"
  "insertable ''product_documents'' []"
  "insertable ''subscriptions'' []"
  "insertable ''subscription_documents'' []"
  "insertable ''policies'' []"
  by (rule written_in(2); unfold written_columns_def; (rule list.set_intros(1) | rule list.set_intros(2))+)+

lemma updatable_tables:
  "updatable ''api_revision_metadata'' [''is_current'']"
  "updatable ''resource_tags'' [''link_name'']"
  "updatable ''tenant_access'' [''principal_id'', ''primary_key'', ''secondary_key'', ''enabled'', ''etag'']"
  "updatable ''product_apis'' [''link_name'']"
  "updatable ''product_groups'' [''link_name'']"
  "updatable ''subscriptions'' [''primary_key'', ''secondary_key'', ''etag'']"
  by (rule written_in(3); unfold written_columns_def; (rule list.set_intros(1) | rule list.set_intros(2))+)+

end
