(* ===== verification/StoreCatalog.thy ===== *)
theory StoreCatalog
  imports StoreCore
begin

text \<open>
  The families of \<open>internal/store/store.go\<close> that policies and APIs refer to: version sets, named
  values, backends, certificates, policy fragments, loggers, diagnostics and the events of the gateway.
\<close>

section \<open>Version sets\<close>

record api_version_set =
  api_version_set_service_id :: string
  api_version_set_name :: string
  api_version_set_display_name :: string
  api_version_set_versioning_scheme :: string
  api_version_set_version_header_name :: string
  api_version_set_version_query_name :: string
  api_version_set_description :: string
  api_version_set_etag :: string
  api_version_set_document :: json

definition api_version_set_arm_id :: "api_version_set \<Rightarrow> string" where
  "api_version_set_arm_id v = api_version_set_service_id v @ ''/apiVersionSets/'' @ api_version_set_name v"

definition encode_api_version_set :: "api_version_set \<Rightarrow> row" where
  "encode_api_version_set v = [
    (''id'', TextC (api_version_set_arm_id v)), (''service_id'', TextC (api_version_set_service_id v)),
    (''name'', TextC (api_version_set_name v)), (''display_name'', TextC (api_version_set_display_name v)),
    (''versioning_scheme'', TextC (api_version_set_versioning_scheme v)),
    (''version_header_name'', TextC (api_version_set_version_header_name v)),
    (''version_query_name'', TextC (api_version_set_version_query_name v)),
    (''description'', TextC (api_version_set_description v)), (''etag'', TextC (api_version_set_etag v))]"

definition upsert_api_version_set :: "api_version_set \<Rightarrow> api_version_set op" where
  "upsert_api_version_set w = op_then new_etag (\<lambda>e.
       let v = w\<lparr>api_version_set_etag := e\<rparr> in transaction
       (op_seq (exec_insert ''api_version_sets'' (encode_api_version_set v)
         (Update [''display_name'', ''versioning_scheme'', ''version_header_name'', ''version_query_name'',
        ''description'', ''etag'']))
       (op_seq (exec_insert ''api_version_set_documents'' (document_row ''version_set_id'' (api_version_set_arm_id v) (api_version_set_document v)) (Update [''document_json'']))
       (op_return v))))"

definition decode_api_version_set :: "db \<Rightarrow> row \<Rightarrow> api_version_set" where
  "decode_api_version_set d r = \<lparr>
    api_version_set_service_id = text_at ''service_id'' r, api_version_set_name = text_at ''name'' r,
    api_version_set_display_name = text_at ''display_name'' r,
    api_version_set_versioning_scheme = text_at ''versioning_scheme'' r,
    api_version_set_version_header_name = text_at ''version_header_name'' r,
    api_version_set_version_query_name = text_at ''version_query_name'' r,
    api_version_set_description = text_at ''description'' r, api_version_set_etag = text_at ''etag'' r,
    api_version_set_document = document_of ''api_version_set_documents'' ''version_set_id'' d r\<rparr>"

definition get_api_version_set :: "string \<Rightarrow> api_version_set lookup" where
  "get_api_version_set = get_by_id ''api_version_sets'' decode_api_version_set"

definition list_api_version_sets :: "string \<Rightarrow> store \<Rightarrow> api_version_set list" where
  "list_api_version_sets = list_by ''api_version_sets'' ''service_id'' decode_api_version_set"

definition delete_api_version_set :: "string \<Rightarrow> unit op" where
  "delete_api_version_set = delete_scoped_resource ''api_version_sets''"

lemma upsert_api_version_set_keeps [store_keeps]: "sound_op (upsert_api_version_set w)"
  unfolding upsert_api_version_set_def Let_def
  by (intro store_keeps insertable_tables) (simp_all add: row_clean_eval)

lemma upsert_api_version_set_atomic [store_atomic]: "atomic (upsert_api_version_set w)"
  unfolding upsert_api_version_set_def Let_def by (intro atomic_then atomic_seq_return store_atomic store_reads)

lemma delete_api_version_set_sound [store_keeps, store_atomic]: "sound_op (delete_api_version_set i)" "atomic (delete_api_version_set i)"
  unfolding delete_api_version_set_def by (rule delete_scoped_keeps delete_scoped_atomic)+

section \<open>Named values\<close>

record named_value =
  named_value_service_id :: string
  named_value_name :: string
  named_value_display_name :: string
  named_value_value :: string
  named_value_tags :: "string list"
  named_value_secret :: bool
  named_value_key_vault_secret_id :: string
  named_value_key_vault_identity_id :: string
  named_value_key_vault_status_code :: string
  named_value_key_vault_status_message :: string
  named_value_key_vault_status_time :: time
  named_value_etag :: string
  named_value_document :: json

definition named_value_arm_id :: "named_value \<Rightarrow> string" where
  "named_value_arm_id v = named_value_service_id v @ ''/namedValues/'' @ named_value_name v"

definition encode_named_value :: "named_value \<Rightarrow> row" where
  "encode_named_value v = [
    (''id'', TextC (named_value_arm_id v)), (''service_id'', TextC (named_value_service_id v)),
    (''name'', TextC (named_value_name v)), (''display_name'', TextC (named_value_display_name v)),
    (''value'', TextC (named_value_value v)), (''tags_json'', strings_cell (named_value_tags v)),
    (''secret'', bool_cell (named_value_secret v)),
    (''key_vault_secret_id'', TextC (named_value_key_vault_secret_id v)),
    (''key_vault_identity_id'', TextC (named_value_key_vault_identity_id v)),
    (''key_vault_status_code'', TextC (named_value_key_vault_status_code v)),
    (''key_vault_status_message'', TextC (named_value_key_vault_status_message v)),
    (''key_vault_status_time'', IntC (unix_time (named_value_key_vault_status_time v))),
    (''etag'', TextC (named_value_etag v))]"

definition sanitize_named_value_document :: "json \<Rightarrow> json" where
  "sanitize_named_value_document j =
     delete_property ''value'' (delete_key ''value'' j)"

definition upsert_named_value :: "named_value \<Rightarrow> named_value op" where
  "upsert_named_value w = op_then new_etag (\<lambda>e.
       let v = w\<lparr>named_value_document := sanitize_named_value_document (named_value_document w), named_value_etag := e\<rparr> in transaction
       (op_seq (exec_insert ''named_values'' (encode_named_value v)
         (Update [''display_name'', ''value'', ''tags_json'', ''secret'', ''key_vault_secret_id'',
        ''key_vault_identity_id'', ''key_vault_status_code'', ''key_vault_status_message'',
        ''key_vault_status_time'', ''etag'']))
       (op_seq (exec_insert ''named_value_documents'' (document_row ''named_value_id'' (named_value_arm_id v) (named_value_document v)) (Update [''document_json'']))
       (op_return v))))"

definition decode_named_value :: "db \<Rightarrow> row \<Rightarrow> named_value" where
  "decode_named_value d r = \<lparr>
    named_value_service_id = text_at ''service_id'' r, named_value_name = text_at ''name'' r,
    named_value_display_name = text_at ''display_name'' r, named_value_value = text_at ''value'' r,
    named_value_tags = strings_at ''tags_json'' r, named_value_secret = bool_at ''secret'' r,
    named_value_key_vault_secret_id = text_at ''key_vault_secret_id'' r,
    named_value_key_vault_identity_id = text_at ''key_vault_identity_id'' r,
    named_value_key_vault_status_code = text_at ''key_vault_status_code'' r,
    named_value_key_vault_status_message = text_at ''key_vault_status_message'' r,
    named_value_key_vault_status_time = time_from_unix (int_at ''key_vault_status_time'' r),
    named_value_etag = text_at ''etag'' r,
    named_value_document = document_of ''named_value_documents'' ''named_value_id'' d r\<rparr>"

definition get_named_value :: "string \<Rightarrow> named_value lookup" where
  "get_named_value = get_by_id ''named_values'' decode_named_value"

definition list_named_values :: "string \<Rightarrow> store \<Rightarrow> named_value list" where
  "list_named_values = list_by ''named_values'' ''service_id'' decode_named_value"

definition delete_named_value :: "string \<Rightarrow> unit op" where
  "delete_named_value = delete_scoped_resource ''named_values''"

lemma upsert_named_value_keeps [store_keeps]: "sound_op (upsert_named_value w)"
  unfolding upsert_named_value_def Let_def
  by (intro store_keeps insertable_tables) (simp_all add: row_clean_eval encode_named_value_def sanitize_named_value_document_def)

lemma upsert_named_value_atomic [store_atomic]: "atomic (upsert_named_value w)"
  unfolding upsert_named_value_def Let_def by (intro atomic_then atomic_seq_return store_atomic store_reads)

lemma delete_named_value_sound [store_keeps, store_atomic]: "sound_op (delete_named_value i)" "atomic (delete_named_value i)"
  unfolding delete_named_value_def by (rule delete_scoped_keeps delete_scoped_atomic)+

interpretation named_value_rows: stored_rows "''named_values''" "''id''" "[''display_name'', ''value'', ''tags_json'', ''secret'', ''key_vault_secret_id'',
    ''key_vault_identity_id'', ''key_vault_status_code'', ''key_vault_status_message'',
    ''key_vault_status_time'', ''etag'']"
    encode_named_value decode_named_value named_value_arm_id "\<lambda>v. (named_value_service_id v, named_value_name v)"
proof unfold_locales
  show "tb_key (table_of store_schema ''named_values'') = [''id'']" by code_simp
qed (simp_all add: encode_named_value_def decode_named_value_def named_value_arm_id_def write_columns_def column_defs document_of_def)

interpretation named_value_docs: stored_rows "''named_value_documents''" "''named_value_id''" "[''document_json'']"
    "\<lambda>(i, j). document_row ''named_value_id'' i j" "\<lambda>d. doc_at ''document_json''" fst "\<lambda>(i, j). (i, [])"
proof unfold_locales
  show "tb_key (table_of store_schema ''named_value_documents'') = [''named_value_id'']" by code_simp
qed (auto simp: document_row_def write_columns_def column_defs)

section \<open>Backends\<close>

record backend =
  backend_service_id :: string
  backend_name :: string
  backend_title :: string
  backend_description :: string
  backend_url :: string
  backend_protocol :: string
  backend_resource_id :: string
  backend_etag :: string
  backend_document :: json

definition backend_arm_id :: "backend \<Rightarrow> string" where
  "backend_arm_id v = backend_service_id v @ ''/backends/'' @ backend_name v"

definition encode_backend :: "backend \<Rightarrow> row" where
  "encode_backend v = [
    (''id'', TextC (backend_arm_id v)), (''service_id'', TextC (backend_service_id v)),
    (''name'', TextC (backend_name v)), (''title'', TextC (backend_title v)),
    (''description'', TextC (backend_description v)), (''url'', TextC (backend_url v)),
    (''protocol'', TextC (backend_protocol v)), (''resource_id'', TextC (backend_resource_id v)),
    (''document_json'', DocC (backend_document v)), (''etag'', TextC (backend_etag v))]"

definition upsert_backend :: "backend \<Rightarrow> backend op" where
  "upsert_backend w = op_then new_etag (\<lambda>e.
       let v = w\<lparr>backend_etag := e\<rparr> in
       op_seq (exec_insert ''backends'' (encode_backend v)
         (Update [''title'', ''description'', ''url'', ''protocol'', ''resource_id'', ''document_json'', ''etag'']))
       (op_return v))"

definition decode_backend :: "db \<Rightarrow> row \<Rightarrow> backend" where
  "decode_backend d r = \<lparr>
    backend_service_id = text_at ''service_id'' r, backend_name = text_at ''name'' r,
    backend_title = text_at ''title'' r, backend_description = text_at ''description'' r,
    backend_url = text_at ''url'' r, backend_protocol = text_at ''protocol'' r,
    backend_resource_id = text_at ''resource_id'' r, backend_etag = text_at ''etag'' r,
    backend_document = doc_at ''document_json'' r\<rparr>"

definition get_backend :: "string \<Rightarrow> backend lookup" where
  "get_backend = get_by_id ''backends'' decode_backend"

definition list_backends :: "string \<Rightarrow> store \<Rightarrow> backend list" where
  "list_backends = list_by ''backends'' ''service_id'' decode_backend"

definition delete_backend :: "string \<Rightarrow> unit op" where
  "delete_backend = delete_scoped_resource ''backends''"

lemma upsert_backend_keeps [store_keeps]: "sound_op (upsert_backend w)"
  unfolding upsert_backend_def Let_def
  by (intro store_keeps insertable_tables) (simp_all add: row_clean_eval)

lemma upsert_backend_atomic [store_atomic]: "atomic (upsert_backend w)"
  unfolding upsert_backend_def Let_def by (intro atomic_then atomic_seq_return store_atomic store_reads)

lemma delete_backend_sound [store_keeps, store_atomic]: "sound_op (delete_backend i)" "atomic (delete_backend i)"
  unfolding delete_backend_def by (rule delete_scoped_keeps delete_scoped_atomic)+

interpretation backend_rows: stored_rows "''backends''" "''id''" "[''title'', ''description'', ''url'', ''protocol'', ''resource_id'', ''document_json'', ''etag'']"
    encode_backend decode_backend backend_arm_id "\<lambda>v. (backend_service_id v, backend_name v)"
proof unfold_locales
  show "tb_key (table_of store_schema ''backends'') = [''id'']" by code_simp
qed (simp_all add: encode_backend_def decode_backend_def backend_arm_id_def write_columns_def column_defs document_of_def)

section \<open>Certificates\<close>

record certificate =
  certificate_service_id :: string
  certificate_name :: string
  certificate_subject :: string
  certificate_thumbprint :: string
  certificate_expiration :: time
  certificate_data :: string
  certificate_password :: string
  certificate_key_vault_secret_id :: string
  certificate_key_vault_identity_id :: string
  certificate_key_vault_status_code :: string
  certificate_key_vault_status_message :: string
  certificate_key_vault_status_time :: time
  certificate_etag :: string
  certificate_document :: json

definition certificate_arm_id :: "certificate \<Rightarrow> string" where
  "certificate_arm_id v = certificate_service_id v @ ''/certificates/'' @ certificate_name v"

definition encode_certificate :: "certificate \<Rightarrow> row" where
  "encode_certificate v = [
    (''id'', TextC (certificate_arm_id v)), (''service_id'', TextC (certificate_service_id v)),
    (''name'', TextC (certificate_name v)), (''subject'', TextC (certificate_subject v)),
    (''thumbprint'', TextC (certificate_thumbprint v)),
    (''expiration'', IntC (certificate_expiration v div nanos_per_second)),
    (''data'', TextC (certificate_data v)), (''password'', TextC (certificate_password v)),
    (''key_vault_secret_id'', TextC (certificate_key_vault_secret_id v)),
    (''key_vault_identity_id'', TextC (certificate_key_vault_identity_id v)),
    (''key_vault_status_code'', TextC (certificate_key_vault_status_code v)),
    (''key_vault_status_message'', TextC (certificate_key_vault_status_message v)),
    (''key_vault_status_time'', IntC (unix_time (certificate_key_vault_status_time v))),
    (''etag'', TextC (certificate_etag v))]"

definition sanitize_certificate_document :: "json \<Rightarrow> json" where
  "sanitize_certificate_document j =
     delete_property ''expirationDate'' (delete_property ''thumbprint'' (delete_property ''subject'' (delete_property ''password'' (delete_property ''data'' (delete_key ''password'' (delete_key ''data'' j))))))"

definition upsert_certificate :: "certificate \<Rightarrow> certificate op" where
  "upsert_certificate w = op_then new_etag (\<lambda>e.
       let v = w\<lparr>certificate_document := sanitize_certificate_document (certificate_document w), certificate_etag := e\<rparr> in transaction
       (op_seq (exec_insert ''certificates'' (encode_certificate v)
         (Update [''subject'', ''thumbprint'', ''expiration'', ''data'', ''password'', ''key_vault_secret_id'',
        ''key_vault_identity_id'', ''key_vault_status_code'', ''key_vault_status_message'',
        ''key_vault_status_time'', ''etag'']))
       (op_seq (exec_insert ''certificate_documents'' (document_row ''certificate_id'' (certificate_arm_id v) (certificate_document v)) (Update [''document_json'']))
       (op_return v))))"

definition decode_certificate :: "db \<Rightarrow> row \<Rightarrow> certificate" where
  "decode_certificate d r = \<lparr>
    certificate_service_id = text_at ''service_id'' r, certificate_name = text_at ''name'' r,
    certificate_subject = text_at ''subject'' r, certificate_thumbprint = text_at ''thumbprint'' r,
    certificate_expiration = time_from_unix (int_at ''expiration'' r),
    certificate_data = text_at ''data'' r, certificate_password = text_at ''password'' r,
    certificate_key_vault_secret_id = text_at ''key_vault_secret_id'' r,
    certificate_key_vault_identity_id = text_at ''key_vault_identity_id'' r,
    certificate_key_vault_status_code = text_at ''key_vault_status_code'' r,
    certificate_key_vault_status_message = text_at ''key_vault_status_message'' r,
    certificate_key_vault_status_time = time_from_unix (int_at ''key_vault_status_time'' r),
    certificate_etag = text_at ''etag'' r,
    certificate_document = document_of ''certificate_documents'' ''certificate_id'' d r\<rparr>"

definition get_certificate :: "string \<Rightarrow> certificate lookup" where
  "get_certificate = get_by_id ''certificates'' decode_certificate"

definition list_certificates :: "string \<Rightarrow> store \<Rightarrow> certificate list" where
  "list_certificates = list_by ''certificates'' ''service_id'' decode_certificate"

definition delete_certificate :: "string \<Rightarrow> unit op" where
  "delete_certificate = delete_scoped_resource ''certificates''"

lemma upsert_certificate_keeps [store_keeps]: "sound_op (upsert_certificate w)"
  unfolding upsert_certificate_def Let_def
  by (intro store_keeps insertable_tables) (simp_all add: row_clean_eval encode_certificate_def sanitize_certificate_document_def)

lemma upsert_certificate_atomic [store_atomic]: "atomic (upsert_certificate w)"
  unfolding upsert_certificate_def Let_def by (intro atomic_then atomic_seq_return store_atomic store_reads)

lemma delete_certificate_sound [store_keeps, store_atomic]: "sound_op (delete_certificate i)" "atomic (delete_certificate i)"
  unfolding delete_certificate_def by (rule delete_scoped_keeps delete_scoped_atomic)+

section \<open>Policies\<close>

record stored_policy =
  stored_policy_scope_id :: string
  stored_policy_format :: string
  stored_policy_value :: string
  stored_policy_etag :: string

definition encode_stored_policy :: "stored_policy \<Rightarrow> row" where
  "encode_stored_policy v = [
    (''scope_id'', TextC (stored_policy_scope_id v)), (''format'', TextC (stored_policy_format v)),
    (''value'', TextC (stored_policy_value v)), (''etag'', TextC (stored_policy_etag v))]"

definition upsert_stored_policy :: "stored_policy \<Rightarrow> stored_policy op" where
  "upsert_stored_policy w = op_then new_etag (\<lambda>e.
       let v = w\<lparr>stored_policy_etag := e\<rparr> in
       op_seq (exec_insert ''policies'' (encode_stored_policy v)
         (Update [''format'', ''value'', ''etag'']))
       (op_return v))"

definition decode_stored_policy :: "db \<Rightarrow> row \<Rightarrow> stored_policy" where
  "decode_stored_policy d r = \<lparr>
    stored_policy_scope_id = text_at ''scope_id'' r, stored_policy_format = text_at ''format'' r,
    stored_policy_value = text_at ''value'' r, stored_policy_etag = text_at ''etag'' r\<rparr>"

definition get_stored_policy :: "string \<Rightarrow> stored_policy lookup" where
  "get_stored_policy i = query_row ''policies'' (names_row ''scope_id'' i) decode_stored_policy"

definition scan_policies :: "store \<Rightarrow> stored_policy list" where
  "scan_policies = query_sorted ''policies'' (\<lambda>_. True) ''scope_id'' decode_stored_policy"

lemma upsert_stored_policy_keeps [store_keeps]: "sound_op (upsert_stored_policy w)"
  unfolding upsert_stored_policy_def Let_def
  by (intro store_keeps insertable_tables) (simp_all add: row_clean_eval)

lemma upsert_stored_policy_atomic [store_atomic]: "atomic (upsert_stored_policy w)"
  unfolding upsert_stored_policy_def Let_def by (intro atomic_then atomic_seq_return store_atomic store_reads)

section \<open>Policy fragments\<close>

record policy_fragment =
  policy_fragment_service_id :: string
  policy_fragment_name :: string
  policy_fragment_description :: string
  policy_fragment_format :: string
  policy_fragment_value :: string
  policy_fragment_provisioning_state :: string
  policy_fragment_etag :: string
  policy_fragment_document :: json

definition policy_fragment_arm_id :: "policy_fragment \<Rightarrow> string" where
  "policy_fragment_arm_id v = policy_fragment_service_id v @ ''/policyFragments/'' @ policy_fragment_name v"

definition encode_policy_fragment :: "policy_fragment \<Rightarrow> row" where
  "encode_policy_fragment v = [
    (''id'', TextC (policy_fragment_arm_id v)), (''service_id'', TextC (policy_fragment_service_id v)),
    (''name'', TextC (policy_fragment_name v)), (''description'', TextC (policy_fragment_description v)),
    (''format'', TextC (policy_fragment_format v)), (''value'', TextC (policy_fragment_value v)),
    (''provisioning_state'', TextC (policy_fragment_provisioning_state v)),
    (''etag'', TextC (policy_fragment_etag v))]"

definition upsert_policy_fragment :: "policy_fragment \<Rightarrow> policy_fragment op" where
  "upsert_policy_fragment w = op_then new_etag (\<lambda>e.
       let v = w\<lparr>policy_fragment_format := (if policy_fragment_format w = [] then ''xml'' else policy_fragment_format w),
             policy_fragment_provisioning_state :=
               (if policy_fragment_provisioning_state w = [] then ''Succeeded'' else policy_fragment_provisioning_state w),
             policy_fragment_etag := e\<rparr> in transaction
       (op_seq (exec_insert ''policy_fragments'' (encode_policy_fragment v)
         (Update [''description'', ''format'', ''value'', ''provisioning_state'', ''etag'']))
       (op_seq (exec_insert ''policy_fragment_documents'' (document_row ''fragment_id'' (policy_fragment_arm_id v) (policy_fragment_document v)) (Update [''document_json'']))
       (op_return v))))"

definition decode_policy_fragment :: "db \<Rightarrow> row \<Rightarrow> policy_fragment" where
  "decode_policy_fragment d r = \<lparr>
    policy_fragment_service_id = text_at ''service_id'' r, policy_fragment_name = text_at ''name'' r,
    policy_fragment_description = text_at ''description'' r, policy_fragment_format = text_at ''format'' r,
    policy_fragment_value = text_at ''value'' r,
    policy_fragment_provisioning_state = text_at ''provisioning_state'' r,
    policy_fragment_etag = text_at ''etag'' r,
    policy_fragment_document = document_of ''policy_fragment_documents'' ''fragment_id'' d r\<rparr>"

definition get_policy_fragment :: "string \<Rightarrow> policy_fragment lookup" where
  "get_policy_fragment = get_by_id ''policy_fragments'' decode_policy_fragment"

definition list_policy_fragments :: "string \<Rightarrow> store \<Rightarrow> policy_fragment list" where
  "list_policy_fragments = list_by ''policy_fragments'' ''service_id'' decode_policy_fragment"

definition delete_policy_fragment :: "string \<Rightarrow> unit op" where
  "delete_policy_fragment = delete_scoped_resource ''policy_fragments''"

text \<open>The policies of a service that name a fragment, found by the text of the attribute.\<close>

definition list_fragment_references :: "string \<Rightarrow> string \<Rightarrow> store \<Rightarrow> stored_policy list" where
  "list_fragment_references i name =
     query_sorted ''policies''
       (\<lambda>r. at_or_below ''scope_id'' i r \<and>
          (sql_like (to_lower (''%fragment-id='' @ [CHR 0x22] @ name @ [CHR 0x22] @ ''%'')) (to_lower (text_at ''value'' r)) \<or>
           sql_like (to_lower (''%fragment-id='' @ [CHR 0x27] @ name @ [CHR 0x27] @ ''%'')) (to_lower (text_at ''value'' r))))
       ''scope_id'' decode_stored_policy"

lemma upsert_policy_fragment_keeps [store_keeps]: "sound_op (upsert_policy_fragment w)"
  unfolding upsert_policy_fragment_def Let_def
  by (intro store_keeps insertable_tables) (simp_all add: row_clean_eval)

lemma upsert_policy_fragment_atomic [store_atomic]: "atomic (upsert_policy_fragment w)"
  unfolding upsert_policy_fragment_def Let_def by (intro atomic_then atomic_seq_return store_atomic store_reads)

lemma delete_policy_fragment_sound [store_keeps, store_atomic]: "sound_op (delete_policy_fragment i)" "atomic (delete_policy_fragment i)"
  unfolding delete_policy_fragment_def by (rule delete_scoped_keeps delete_scoped_atomic)+

section \<open>Loggers\<close>

record logger =
  logger_service_id :: string
  logger_name :: string
  logger_logger_type :: string
  logger_description :: string
  logger_is_buffered :: bool
  logger_resource_id :: string
  logger_credentials :: "(string \<times> string) list"
  logger_document :: json
  logger_etag :: string

definition logger_arm_id :: "logger \<Rightarrow> string" where
  "logger_arm_id v = logger_service_id v @ ''/loggers/'' @ logger_name v"

definition encode_logger :: "logger \<Rightarrow> row" where
  "encode_logger v = [
    (''id'', TextC (logger_arm_id v)), (''service_id'', TextC (logger_service_id v)),
    (''name'', TextC (logger_name v)), (''logger_type'', TextC (logger_logger_type v)),
    (''description'', TextC (logger_description v)), (''is_buffered'', bool_cell (logger_is_buffered v)),
    (''resource_id'', TextC (logger_resource_id v)),
    (''credentials_json'', string_map_cell (logger_credentials v)),
    (''document_json'', DocC (logger_document v)), (''etag'', TextC (logger_etag v))]"

definition sanitize_logger_document :: "json \<Rightarrow> json" where
  "sanitize_logger_document j =
     delete_property ''credentials'' (delete_key ''credentials'' j)"

definition upsert_logger :: "logger \<Rightarrow> logger op" where
  "upsert_logger w = op_then new_etag (\<lambda>e.
       let v = w\<lparr>logger_document := sanitize_logger_document (logger_document w), logger_etag := e\<rparr> in
       op_seq (exec_insert ''loggers'' (encode_logger v)
         (Update [''logger_type'', ''description'', ''is_buffered'', ''resource_id'', ''credentials_json'',
        ''document_json'', ''etag'']))
       (op_return v))"

definition decode_logger :: "db \<Rightarrow> row \<Rightarrow> logger" where
  "decode_logger d r = \<lparr>
    logger_service_id = text_at ''service_id'' r, logger_name = text_at ''name'' r,
    logger_logger_type = text_at ''logger_type'' r, logger_description = text_at ''description'' r,
    logger_is_buffered = bool_at ''is_buffered'' r, logger_resource_id = text_at ''resource_id'' r,
    logger_credentials = string_map_at ''credentials_json'' r, logger_document = doc_at ''document_json'' r,
    logger_etag = text_at ''etag'' r\<rparr>"

definition get_logger :: "string \<Rightarrow> logger lookup" where
  "get_logger = get_by_id ''loggers'' decode_logger"

definition list_loggers :: "string \<Rightarrow> store \<Rightarrow> logger list" where
  "list_loggers = list_by ''loggers'' ''service_id'' decode_logger"

text \<open>A logger that a diagnostic names is not deleted.\<close>

definition delete_logger :: "string \<Rightarrow> unit op" where
  "delete_logger i = op_then (op_read (\<lambda>s. length (filter (names_row ''logger_id'' i) (st_db s ''diagnostics''))))
     (\<lambda>n. if n \<noteq> 0 then op_fail Conflict else delete_scoped_resource ''loggers'' i)"

lemma upsert_logger_keeps [store_keeps]: "sound_op (upsert_logger w)"
  unfolding upsert_logger_def Let_def
  by (intro store_keeps insertable_tables) (simp_all add: row_clean_eval encode_logger_def sanitize_logger_document_def)

lemma upsert_logger_atomic [store_atomic]: "atomic (upsert_logger w)"
  unfolding upsert_logger_def Let_def by (intro atomic_then atomic_seq_return store_atomic store_reads)

lemma delete_logger_sound [store_keeps, store_atomic]: "sound_op (delete_logger i)" "atomic (delete_logger i)"
  unfolding delete_logger_def by (intro store_keeps, intro atomic_then store_atomic store_reads)

section \<open>Diagnostics\<close>

record diagnostic =
  diagnostic_service_id :: string
  diagnostic_scope_id :: string
  diagnostic_name :: string
  diagnostic_logger_id :: string
  diagnostic_always_log :: string
  diagnostic_log_client_ip :: bool
  diagnostic_verbosity :: string
  diagnostic_sampling_type :: string
  diagnostic_sampling_percentage :: rat
  diagnostic_document :: json
  diagnostic_etag :: string

definition diagnostic_arm_id :: "diagnostic \<Rightarrow> string" where
  "diagnostic_arm_id v = diagnostic_scope_id v @ ''/diagnostics/'' @ diagnostic_name v"

definition encode_diagnostic :: "diagnostic \<Rightarrow> row" where
  "encode_diagnostic v = [
    (''id'', TextC (diagnostic_arm_id v)), (''service_id'', TextC (diagnostic_service_id v)),
    (''scope_id'', TextC (diagnostic_scope_id v)), (''name'', TextC (diagnostic_name v)),
    (''logger_id'', TextC (diagnostic_logger_id v)), (''always_log'', TextC (diagnostic_always_log v)),
    (''log_client_ip'', bool_cell (diagnostic_log_client_ip v)),
    (''verbosity'', TextC (diagnostic_verbosity v)),
    (''sampling_type'', TextC (diagnostic_sampling_type v)),
    (''sampling_percentage'', RealC (diagnostic_sampling_percentage v)),
    (''document_json'', DocC (diagnostic_document v)), (''etag'', TextC (diagnostic_etag v))]"

definition upsert_diagnostic :: "diagnostic \<Rightarrow> diagnostic op" where
  "upsert_diagnostic w = op_then new_etag (\<lambda>e.
       let v = w\<lparr>diagnostic_etag := e\<rparr> in
       op_seq (exec_insert ''diagnostics'' (encode_diagnostic v)
         (Update [''logger_id'', ''always_log'', ''log_client_ip'', ''verbosity'', ''sampling_type'',
        ''sampling_percentage'', ''document_json'', ''etag'']))
       (op_return v))"

definition decode_diagnostic :: "db \<Rightarrow> row \<Rightarrow> diagnostic" where
  "decode_diagnostic d r = \<lparr>
    diagnostic_service_id = text_at ''service_id'' r, diagnostic_scope_id = text_at ''scope_id'' r,
    diagnostic_name = text_at ''name'' r, diagnostic_logger_id = text_at ''logger_id'' r,
    diagnostic_always_log = text_at ''always_log'' r,
    diagnostic_log_client_ip = bool_at ''log_client_ip'' r, diagnostic_verbosity = text_at ''verbosity'' r,
    diagnostic_sampling_type = text_at ''sampling_type'' r,
    diagnostic_sampling_percentage = real_at ''sampling_percentage'' r,
    diagnostic_document = doc_at ''document_json'' r, diagnostic_etag = text_at ''etag'' r\<rparr>"

definition get_diagnostic :: "string \<Rightarrow> diagnostic lookup" where
  "get_diagnostic = get_by_id ''diagnostics'' decode_diagnostic"

definition list_diagnostics :: "string \<Rightarrow> store \<Rightarrow> diagnostic list" where
  "list_diagnostics = list_by ''diagnostics'' ''scope_id'' decode_diagnostic"

definition delete_diagnostic :: "string \<Rightarrow> unit op" where
  "delete_diagnostic = delete_scoped_resource ''diagnostics''"

definition list_service_diagnostics :: "string \<Rightarrow> store \<Rightarrow> diagnostic list" where
  "list_service_diagnostics = list_by ''diagnostics'' ''service_id'' decode_diagnostic"

lemma upsert_diagnostic_keeps [store_keeps]: "sound_op (upsert_diagnostic w)"
  unfolding upsert_diagnostic_def Let_def
  by (intro store_keeps insertable_tables) (simp_all add: row_clean_eval)

lemma upsert_diagnostic_atomic [store_atomic]: "atomic (upsert_diagnostic w)"
  unfolding upsert_diagnostic_def Let_def by (intro atomic_then atomic_seq_return store_atomic store_reads)

lemma delete_diagnostic_sound [store_keeps, store_atomic]: "sound_op (delete_diagnostic i)" "atomic (delete_diagnostic i)"
  unfolding delete_diagnostic_def by (rule delete_scoped_keeps delete_scoped_atomic)+

section \<open>Events\<close>

record diagnostic_event =
  diagnostic_event_id :: string
  diagnostic_event_service_id :: string
  diagnostic_event_api_id :: string
  diagnostic_event_diagnostic_id :: string
  diagnostic_event_correlation_id :: string
  diagnostic_event_method :: string
  diagnostic_event_path :: string
  diagnostic_event_status_code :: int
  diagnostic_event_timestamp :: int
  diagnostic_event_duration_nanos :: int
  diagnostic_event_client_ip :: string
  diagnostic_event_metadata :: json

definition encode_diagnostic_event :: "diagnostic_event \<Rightarrow> row" where
  "encode_diagnostic_event v = [
    (''id'', TextC (diagnostic_event_id v)), (''service_id'', TextC (diagnostic_event_service_id v)),
    (''api_id'', TextC (diagnostic_event_api_id v)),
    (''diagnostic_id'', TextC (diagnostic_event_diagnostic_id v)),
    (''correlation_id'', TextC (diagnostic_event_correlation_id v)),
    (''method'', TextC (diagnostic_event_method v)), (''path'', TextC (diagnostic_event_path v)),
    (''status_code'', IntC (diagnostic_event_status_code v)),
    (''timestamp'', IntC (diagnostic_event_timestamp v)),
    (''duration_nanos'', IntC (diagnostic_event_duration_nanos v)),
    (''client_ip'', TextC (diagnostic_event_client_ip v)),
    (''metadata_json'', DocC (diagnostic_event_metadata v))]"

text \<open>
  The second attempt of \<open>AddDiagnosticEvent\<close> and of \<open>ListDiagnosticEvents\<close> is for a table without the
  column \<open>metadata_json\<close>, which \<open>migrate\<close> always adds.
\<close>

definition add_diagnostic_event :: "diagnostic_event \<Rightarrow> unit op" where
  "add_diagnostic_event v = exec_insert ''diagnostic_events'' (encode_diagnostic_event v) Fail"

definition decode_diagnostic_event :: "db \<Rightarrow> row \<Rightarrow> diagnostic_event" where
  "decode_diagnostic_event d r = \<lparr>
    diagnostic_event_id = text_at ''id'' r, diagnostic_event_service_id = text_at ''service_id'' r,
    diagnostic_event_api_id = text_at ''api_id'' r,
    diagnostic_event_diagnostic_id = text_at ''diagnostic_id'' r,
    diagnostic_event_correlation_id = text_at ''correlation_id'' r,
    diagnostic_event_method = text_at ''method'' r, diagnostic_event_path = text_at ''path'' r,
    diagnostic_event_status_code = int_at ''status_code'' r,
    diagnostic_event_timestamp = int_at ''timestamp'' r,
    diagnostic_event_duration_nanos = int_at ''duration_nanos'' r,
    diagnostic_event_client_ip = text_at ''client_ip'' r,
    diagnostic_event_metadata = doc_at ''metadata_json'' r\<rparr>"

definition list_diagnostic_events :: "string \<Rightarrow> store \<Rightarrow> diagnostic_event list" where
  "list_diagnostic_events i s =
     map (decode_diagnostic_event (st_db s))
       (sort_key (int_at ''timestamp'') (sort_key (text_at ''id'')
         (filter (names_row ''service_id'' i) (st_db s ''diagnostic_events''))))"

lemma add_diagnostic_event_sound [store_keeps, store_atomic]:
  "sound_op (add_diagnostic_event v)" "atomic (add_diagnostic_event v)"
  unfolding add_diagnostic_event_def
  by (intro store_keeps insertable_tables, simp add: row_clean_eval, rule exec_atomic)

end

