(* ===== verification/StoreApis.thy ===== *)
theory StoreApis
  imports StoreCatalog
begin

text \<open>
  APIs in \<open>internal/store/store.go\<close>: the row and the three rows beside it, import, revisions and their
  releases, operations, schemas, resolvers.
\<close>

section \<open>An API and the rows beside it\<close>


record api =
  api_service_id :: string
  api_name :: string
  api_display_name :: string
  api_path :: string
  api_service_url :: string
  api_protocols :: "string list"
  api_subscription_required :: bool
  api_revision :: string
  api_revision_description :: string
  api_is_current :: bool
  api_created_at :: int
  api_updated_at :: int
  api_version :: string
  api_version_set_id :: string
  api_etag :: string
  api_document :: json

definition api_arm_id :: "api \<Rightarrow> string" where
  "api_arm_id v = api_service_id v @ ''/apis/'' @ api_name v"

definition encode_api :: "api \<Rightarrow> row" where
  "encode_api v = [
    (''id'', TextC (api_arm_id v)), (''service_id'', TextC (api_service_id v)),
    (''name'', TextC (api_name v)), (''display_name'', TextC (api_display_name v)),
    (''path'', TextC (trim_char CHR ''/'' (api_path v))), (''service_url'', TextC (api_service_url v)),
    (''protocols_json'', strings_cell (api_protocols v)),
    (''subscription_required'', bool_cell (api_subscription_required v)), (''etag'', TextC (api_etag v))]"

text \<open>\<open>GetAPI\<close> finds the rows beside a row by \<open>lower(api_id)=lower(apis.id)\<close>, \<open>scanAPIs\<close> by equality.\<close>

definition side_row :: "bool \<Rightarrow> string \<Rightarrow> string \<Rightarrow> db \<Rightarrow> row \<Rightarrow> row option" where
  "side_row exact t key d r =
     find (\<lambda>q. if exact then text_at key q = text_at ''id'' r else names_row key (text_at ''id'' r) q) (d t)"

definition document_beside :: "bool \<Rightarrow> string \<Rightarrow> string \<Rightarrow> db \<Rightarrow> row \<Rightarrow> json" where
  "document_beside exact t key d r =
     (case side_row exact t key d r of Some q \<Rightarrow> doc_at ''document_json'' q | None \<Rightarrow> JObj [])"

definition coalesced :: "row option \<Rightarrow> (row \<Rightarrow> 'a) \<Rightarrow> 'a \<Rightarrow> 'a" where
  "coalesced q f x = (case q of Some r \<Rightarrow> f r | None \<Rightarrow> x)"

definition decode_api :: "bool \<Rightarrow> db \<Rightarrow> row \<Rightarrow> api" where
  "decode_api exact d r =
     (let rv = side_row exact ''api_revision_metadata'' ''api_id'' d r;
          vn = side_row exact ''api_version_metadata'' ''api_id'' d r in
      \<lparr>api_service_id = text_at ''service_id'' r, api_name = text_at ''name'' r,
       api_display_name = text_at ''display_name'' r, api_path = text_at ''path'' r,
       api_service_url = text_at ''service_url'' r, api_protocols = strings_at ''protocols_json'' r,
       api_subscription_required = bool_at ''subscription_required'' r,
       api_revision = coalesced rv (text_at ''revision'') ''1'',
       api_revision_description = coalesced rv (text_at ''description'') [],
       api_is_current = coalesced rv (bool_at ''is_current'') True,
       api_created_at = coalesced rv (int_at ''created_at'') 0, api_updated_at = coalesced rv (int_at ''updated_at'') 0,
       api_version = coalesced vn (text_at ''version'') [], api_version_set_id = coalesced vn (text_at ''version_set_id'') [],
       api_etag = text_at ''etag'' r, api_document = document_beside exact ''api_documents'' ''api_id'' d r\<rparr>)"

definition get_api :: "string \<Rightarrow> api lookup" where
  "get_api = get_by_id ''apis'' (decode_api False)"

definition scan_apis :: "store \<Rightarrow> api list" where
  "scan_apis = query_sorted ''apis'' (\<lambda>_. True) ''id'' (decode_api True)"

definition list_apis :: "string \<Rightarrow> store \<Rightarrow> api list" where
  "list_apis i s = filter (\<lambda>v. equal_fold (api_service_id v) i) (scan_apis s)"

definition list_api_revisions :: "string \<Rightarrow> string \<Rightarrow> store \<Rightarrow> api list" where
  "list_api_revisions i name s =
     filter (\<lambda>v. equal_fold (fst (split_revision (api_name v))) (fst (split_revision name))) (list_apis i s)"

definition delete_api :: "string \<Rightarrow> unit op" where
  "delete_api = delete_scoped_resource ''apis''"

section \<open>Writing an API\<close>

definition validate_api_version_set :: "api \<Rightarrow> unit op" where
  "validate_api_version_set v =
     (if api_version_set_id v = [] then op_return ()
      else op_then (op_lookup (get_api_version_set (api_version_set_id v)))
        (\<lambda>w. if equal_fold (api_version_set_service_id w) (api_service_id v) then op_return () else op_fail Conflict))"

definition default_revision :: "api \<Rightarrow> api" where
  "default_revision v =
     (if api_revision v \<noteq> [] then v
      else v\<lparr>api_revision := snd (split_revision (api_name v)),
             api_is_current := \<not> contains (to_lower (api_name v)) '';rev=''\<rparr>)"

text \<open>What \<open>UpsertAPI\<close> and \<open>ImportAPI\<close> fill in, and the four statements both run.\<close>

definition stamp_api :: "api \<Rightarrow> api op" where
  "stamp_api w =
     op_then new_etag (\<lambda>e.
     op_then (op_read st_now) (\<lambda>now.
       let v = default_revision (w\<lparr>api_etag := e\<rparr>) in
       op_return (v\<lparr>api_created_at := (if api_created_at v = 0 then now else api_created_at v), api_updated_at := now\<rparr>)))"

definition revision_row :: "api \<Rightarrow> row" where
  "revision_row v = [
    (''api_id'', TextC (api_arm_id v)), (''revision'', TextC (api_revision v)),
    (''description'', TextC (api_revision_description v)), (''is_current'', bool_cell (api_is_current v)),
    (''created_at'', IntC (api_created_at v)), (''updated_at'', IntC (api_updated_at v))]"

definition version_row :: "api \<Rightarrow> row" where
  "version_row v = [
    (''api_id'', TextC (api_arm_id v)), (''version'', TextC (api_version v)),
    (''version_set_id'', if api_version_set_id v = [] then NullC else TextC (api_version_set_id v))]"

definition write_api :: "api \<Rightarrow> unit op" where
  "write_api v =
     op_seq (exec_insert ''apis'' (encode_api v)
         (Update [''display_name'', ''path'', ''service_url'', ''protocols_json'', ''subscription_required'', ''etag'']))
     (op_seq (exec_insert ''api_documents'' (document_row ''api_id'' (api_arm_id v) (api_document v)) (Update [''document_json'']))
     (op_seq (exec_insert ''api_revision_metadata'' (revision_row v)
         (Update [''revision'', ''description'', ''is_current'', ''updated_at'']))
     (exec_insert ''api_version_metadata'' (version_row v) (Update [''version'', ''version_set_id'']))))"

definition upsert_api :: "api \<Rightarrow> api op" where
  "upsert_api w =
     op_seq (validate_api_version_set w)
     (op_then (stamp_api w) (\<lambda>v. transaction (op_seq (write_api v) (op_return v))))"

section \<open>Operations\<close>

record api_operation =
  api_operation_api_id :: string
  api_operation_name :: string
  api_operation_display_name :: string
  api_operation_method :: string
  api_operation_url_template :: string
  api_operation_etag :: string
  api_operation_document :: json

definition api_operation_arm_id :: "api_operation \<Rightarrow> string" where
  "api_operation_arm_id v = api_operation_api_id v @ ''/operations/'' @ api_operation_name v"

definition encode_api_operation :: "api_operation \<Rightarrow> row" where
  "encode_api_operation v = [
    (''id'', TextC (api_operation_arm_id v)), (''api_id'', TextC (api_operation_api_id v)),
    (''name'', TextC (api_operation_name v)), (''display_name'', TextC (api_operation_display_name v)),
    (''method'', TextC (to_upper (api_operation_method v))),
    (''url_template'', TextC (api_operation_url_template v)), (''etag'', TextC (api_operation_etag v))]"

definition upsert_api_operation :: "api_operation \<Rightarrow> api_operation op" where
  "upsert_api_operation w = op_then new_etag (\<lambda>e.
       let v = w\<lparr>api_operation_etag := e\<rparr> in transaction
       (op_seq (exec_insert ''operations'' (encode_api_operation v)
         (Update [''display_name'', ''method'', ''url_template'', ''etag'']))
       (op_seq (exec_insert ''operation_documents'' (document_row ''operation_id'' (api_operation_arm_id v) (api_operation_document v)) (Update [''document_json'']))
       (op_return v))))"

definition decode_api_operation :: "bool \<Rightarrow> db \<Rightarrow> row \<Rightarrow> api_operation" where
  "decode_api_operation exact d r = \<lparr>
    api_operation_api_id = text_at ''api_id'' r, api_operation_name = text_at ''name'' r,
    api_operation_display_name = text_at ''display_name'' r, api_operation_method = text_at ''method'' r,
    api_operation_url_template = text_at ''url_template'' r, api_operation_etag = text_at ''etag'' r,
    api_operation_document = document_beside exact ''operation_documents'' ''operation_id'' d r\<rparr>"

definition get_api_operation :: "string \<Rightarrow> api_operation lookup" where
  "get_api_operation = get_by_id ''operations'' (decode_api_operation False)"

definition scan_operations :: "store \<Rightarrow> api_operation list" where
  "scan_operations = query_sorted ''operations'' (\<lambda>_. True) ''id'' (decode_api_operation True)"

definition list_operations :: "string \<Rightarrow> store \<Rightarrow> api_operation list" where
  "list_operations i s = filter (\<lambda>v. equal_fold (api_operation_api_id v) i) (scan_operations s)"

definition delete_api_operation :: "string \<Rightarrow> unit op" where
  "delete_api_operation = delete_scoped_resource ''operations''"

section \<open>Schemas and resolvers\<close>

record api_schema =
  api_schema_api_id :: string
  api_schema_name :: string
  api_schema_content_type :: string
  api_schema_document :: json
  api_schema_arm_document :: json
  api_schema_etag :: string

definition api_schema_arm_id :: "api_schema \<Rightarrow> string" where
  "api_schema_arm_id v = api_schema_api_id v @ ''/schemas/'' @ api_schema_name v"

definition encode_api_schema :: "api_schema \<Rightarrow> row" where
  "encode_api_schema v = [
    (''id'', TextC (api_schema_arm_id v)), (''api_id'', TextC (api_schema_api_id v)),
    (''name'', TextC (api_schema_name v)), (''content_type'', TextC (api_schema_content_type v)),
    (''document_json'', DocC (api_schema_document v)), (''etag'', TextC (api_schema_etag v))]"

definition upsert_api_schema :: "api_schema \<Rightarrow> api_schema op" where
  "upsert_api_schema w = op_then new_etag (\<lambda>e.
       let v = w\<lparr>api_schema_etag := e\<rparr> in transaction
       (op_seq (exec_insert ''api_schemas'' (encode_api_schema v)
         (Update [''content_type'', ''document_json'', ''etag'']))
       (op_seq (exec_insert ''api_schema_documents'' (document_row ''schema_id'' (api_schema_arm_id v) (api_schema_arm_document v)) (Update [''document_json'']))
       (op_return v))))"

definition decode_api_schema :: "db \<Rightarrow> row \<Rightarrow> api_schema" where
  "decode_api_schema d r = \<lparr>
    api_schema_api_id = text_at ''api_id'' r, api_schema_name = text_at ''name'' r,
    api_schema_content_type = text_at ''content_type'' r, api_schema_document = doc_at ''document_json'' r,
    api_schema_arm_document = document_of ''api_schema_documents'' ''schema_id'' d r,
    api_schema_etag = text_at ''etag'' r\<rparr>"

definition get_api_schema :: "string \<Rightarrow> api_schema lookup" where
  "get_api_schema = get_by_id ''api_schemas'' decode_api_schema"

definition list_api_schemas :: "string \<Rightarrow> store \<Rightarrow> api_schema list" where
  "list_api_schemas = list_by ''api_schemas'' ''api_id'' decode_api_schema"

definition delete_api_schema :: "string \<Rightarrow> unit op" where
  "delete_api_schema = delete_scoped_resource ''api_schemas''"

record api_resolver =
  api_resolver_api_id :: string
  api_resolver_name :: string
  api_resolver_display_name :: string
  api_resolver_description :: string
  api_resolver_type :: string
  api_resolver_field :: string
  api_resolver_document :: json
  api_resolver_etag :: string

definition api_resolver_arm_id :: "api_resolver \<Rightarrow> string" where
  "api_resolver_arm_id v = api_resolver_api_id v @ ''/resolvers/'' @ api_resolver_name v"

definition encode_api_resolver :: "api_resolver \<Rightarrow> row" where
  "encode_api_resolver v = [
    (''id'', TextC (api_resolver_arm_id v)), (''api_id'', TextC (api_resolver_api_id v)),
    (''name'', TextC (api_resolver_name v)), (''display_name'', TextC (api_resolver_display_name v)),
    (''description'', TextC (api_resolver_description v)), (''type'', TextC (api_resolver_type v)),
    (''field'', TextC (api_resolver_field v)), (''document_json'', DocC (api_resolver_document v)),
    (''etag'', TextC (api_resolver_etag v))]"

definition upsert_api_resolver :: "api_resolver \<Rightarrow> api_resolver op" where
  "upsert_api_resolver w = op_then new_etag (\<lambda>e.
       let v = w\<lparr>api_resolver_etag := e\<rparr> in
       op_seq (exec_insert ''api_resolvers'' (encode_api_resolver v)
         (Update [''display_name'', ''description'', ''type'', ''field'', ''document_json'', ''etag'']))
       (op_return v))"

definition decode_api_resolver :: "db \<Rightarrow> row \<Rightarrow> api_resolver" where
  "decode_api_resolver d r = \<lparr>
    api_resolver_api_id = text_at ''api_id'' r, api_resolver_name = text_at ''name'' r,
    api_resolver_display_name = text_at ''display_name'' r,
    api_resolver_description = text_at ''description'' r, api_resolver_type = text_at ''type'' r,
    api_resolver_field = text_at ''field'' r, api_resolver_document = doc_at ''document_json'' r,
    api_resolver_etag = text_at ''etag'' r\<rparr>"

definition get_api_resolver :: "string \<Rightarrow> api_resolver lookup" where
  "get_api_resolver = get_by_id ''api_resolvers'' decode_api_resolver"

definition list_api_resolvers :: "string \<Rightarrow> store \<Rightarrow> api_resolver list" where
  "list_api_resolvers = list_by ''api_resolvers'' ''api_id'' decode_api_resolver"

definition delete_api_resolver :: "string \<Rightarrow> unit op" where
  "delete_api_resolver = delete_scoped_resource ''api_resolvers''"

section \<open>Import\<close>

record api_definition =
  api_definition_api_id :: string
  api_definition_format :: string
  api_definition_value :: string
  api_definition_source_url :: string
  api_definition_etag :: string

definition encode_api_definition :: "api_definition \<Rightarrow> row" where
  "encode_api_definition v = [
    (''api_id'', TextC (api_definition_api_id v)), (''format'', TextC (api_definition_format v)),
    (''value'', TextC (api_definition_value v)), (''source_url'', TextC (api_definition_source_url v)),
    (''etag'', TextC (api_definition_etag v))]"

definition decode_api_definition :: "db \<Rightarrow> row \<Rightarrow> api_definition" where
  "decode_api_definition d r = \<lparr>
    api_definition_api_id = text_at ''api_id'' r, api_definition_format = text_at ''format'' r,
    api_definition_value = text_at ''value'' r, api_definition_source_url = text_at ''source_url'' r,
    api_definition_etag = text_at ''etag'' r\<rparr>"

definition get_api_definition :: "string \<Rightarrow> api_definition lookup" where
  "get_api_definition i = query_row ''api_definitions'' (names_row ''api_id'' i) decode_api_definition"

text \<open>One operation of the import: an \<open>INSERT\<close> without \<open>ON CONFLICT\<close>, so a name given twice fails.\<close>

definition import_operation :: "string \<Rightarrow> api_operation \<Rightarrow> unit op" where
  "import_operation i w =
     op_then new_etag (\<lambda>e.
       let v = w\<lparr>api_operation_api_id := i, api_operation_etag := e\<rparr> in
       op_seq (exec_insert ''operations'' (encode_api_operation v) Fail)
         (exec_insert ''operation_documents''
           (document_row ''operation_id'' (api_operation_arm_id v) (api_operation_document v)) Fail))"

definition import_schema :: "string \<Rightarrow> api_schema \<Rightarrow> unit op" where
  "import_schema i w =
     op_then new_etag (\<lambda>e.
       let v = w\<lparr>api_schema_api_id := i, api_schema_name := ''openapi'', api_schema_etag := e\<rparr> in
       op_seq (exec_insert ''api_schemas'' (encode_api_schema v) Fail)
         (exec_insert ''api_schema_documents''
           (document_row ''schema_id'' (api_schema_arm_id v) (api_schema_arm_document v)) Fail))"

definition import_api :: "api \<Rightarrow> api_definition \<Rightarrow> api_operation list \<Rightarrow> api_schema option \<Rightarrow> api op" where
  "import_api w definition operations schema =
     op_seq (validate_api_version_set w)
     (op_then (stamp_api w) (\<lambda>v. transaction
       (op_seq (write_api v)
       (op_then new_etag (\<lambda>e.
        op_seq (exec_insert ''api_definitions''
          (encode_api_definition (definition\<lparr>api_definition_api_id := api_arm_id v, api_definition_etag := e\<rparr>))
          (Update [''format'', ''value'', ''source_url'', ''etag'']))
       (op_seq (exec_delete ''operations'' (names_row ''api_id'' (api_arm_id v)))
       (op_seq (op_each (import_operation (api_arm_id v)) operations)
       (op_seq (exec_delete ''api_schemas'' (names_row ''id'' (api_arm_id v @ ''/schemas/openapi'')))
       (op_seq (case schema of None \<Rightarrow> op_return () | Some x \<Rightarrow> import_schema (api_arm_id v) x)
       (op_return v))))))))))"

section \<open>Revisions\<close>

text \<open>\<open>INSERT INTO t ... SELECT ... FROM t WHERE\<close>\<close>

definition copy_rows :: "string \<Rightarrow> (row \<Rightarrow> bool) \<Rightarrow> (row \<Rightarrow> row) \<Rightarrow> unit op" where
  "copy_rows t p f =
     op_then (op_read (\<lambda>s. filter p (st_db s t))) (op_each (\<lambda>r. exec_insert t (f r) Fail))"

definition below_in :: "string \<Rightarrow> string \<Rightarrow> row \<Rightarrow> bool" where
  "below_in c pattern r \<longleftrightarrow> sql_like (to_lower pattern) (to_lower (text_at c r))"

definition moved :: "string \<Rightarrow> string \<Rightarrow> string \<Rightarrow> string" where
  "moved source target i = target @ drop (length source) i"

definition copy_children :: "string \<Rightarrow> string \<Rightarrow> unit op" where
  "copy_children source i =
     op_then new_etag (\<lambda>e.
     op_seq (copy_rows ''operations'' (names_row ''api_id'' source) (\<lambda>r.
       [(''id'', TextC (i @ ''/operations/'' @ text_at ''name'' r)), (''api_id'', TextC i),
       (''name'', col ''name'' r), (''display_name'', col ''display_name'' r), (''method'', col ''method'' r),
       (''url_template'', col ''url_template'' r), (''etag'', TextC e)]))
     (op_seq (copy_rows ''operation_documents'' (below_in ''operation_id'' (source @ ''/operations/%'')) (\<lambda>r.
       [(''operation_id'', TextC (moved source i (text_at ''operation_id'' r))), (''document_json'', col ''document_json'' r)]))
     (op_then new_etag (\<lambda>e.
     op_seq (copy_rows ''api_schemas'' (names_row ''api_id'' source) (\<lambda>r.
       [(''id'', TextC (i @ ''/schemas/'' @ text_at ''name'' r)), (''api_id'', TextC i),
       (''name'', col ''name'' r), (''content_type'', col ''content_type'' r),
       (''document_json'', col ''document_json'' r), (''etag'', TextC e)]))
     (op_seq (copy_rows ''api_schema_documents'' (below_in ''schema_id'' (source @ ''/schemas/%'')) (\<lambda>r.
       [(''schema_id'', TextC (moved source i (text_at ''schema_id'' r))), (''document_json'', col ''document_json'' r)]))
     (op_then new_etag (\<lambda>e.
     copy_rows ''api_definitions'' (names_row ''api_id'' source) (\<lambda>r.
       [(''api_id'', TextC i), (''format'', col ''format'' r), (''value'', col ''value'' r),
       (''source_url'', col ''source_url'' r), (''etag'', TextC e)]))))))))"

definition copy_attachments :: "string \<Rightarrow> string \<Rightarrow> unit op" where
  "copy_attachments source i =
     op_seq (copy_rows ''resource_tags''
       (\<lambda>r. names_row ''resource_id'' source r \<or> below_in ''resource_id'' (source @ ''/operations/%'') r) (\<lambda>r.
       [(''resource_id'', TextC (if names_row ''resource_id'' source r then i else moved source i (text_at ''resource_id'' r))),
        (''tag_id'', col ''tag_id'' r), (''link_name'', TextC [])]))
     (op_then new_etag (\<lambda>e.
     op_seq (copy_rows ''diagnostics'' (names_row ''scope_id'' source) (\<lambda>r.
       [(''id'', TextC (i @ ''/diagnostics/'' @ text_at ''name'' r)), (''service_id'', col ''service_id'' r),
       (''scope_id'', TextC i), (''name'', col ''name'' r), (''logger_id'', col ''logger_id'' r),
       (''always_log'', col ''always_log'' r), (''log_client_ip'', col ''log_client_ip'' r),
       (''verbosity'', col ''verbosity'' r), (''sampling_type'', col ''sampling_type'' r),
       (''sampling_percentage'', col ''sampling_percentage'' r), (''document_json'', col ''document_json'' r),
       (''etag'', TextC e)]))
     (op_then new_etag (\<lambda>e.
     copy_rows ''policies'' (names_row ''scope_id'' source) (\<lambda>r.
       [(''scope_id'', TextC i), (''format'', col ''format'' r), (''value'', col ''value'' r),
       (''etag'', TextC e)])))))"

definition clone_api_revision :: "string \<Rightarrow> api \<Rightarrow> api op" where
  "clone_api_revision source w =
     op_seq (validate_api_version_set w)
     (op_then new_etag (\<lambda>e.
      op_then (op_read st_now) (\<lambda>now.
       let v = w\<lparr>api_revision := (if api_revision w = [] then snd (split_revision (api_name w)) else api_revision w),
             api_is_current := False, api_etag := e, api_created_at := now, api_updated_at := now\<rparr> in transaction
       (op_seq (exec_insert ''apis'' (encode_api v) Fail)
       (op_seq (exec_insert ''api_documents'' (document_row ''api_id'' (api_arm_id v) (api_document v)) Fail)
       (op_seq (exec_insert ''api_revision_metadata'' (revision_row v) Fail)
       (op_seq (exec_insert ''api_version_metadata'' (version_row v) Fail)
       (op_seq (copy_children source (api_arm_id v))
       (op_seq (copy_attachments source (api_arm_id v))
       (op_return v))))))))))"

section \<open>Releases\<close>

record api_release =
  api_release_api_id :: string
  api_release_name :: string
  api_release_target_api_id :: string
  api_release_notes :: string
  api_release_created_at :: int
  api_release_updated_at :: int
  api_release_etag :: string
  api_release_document :: json

definition api_release_arm_id :: "api_release \<Rightarrow> string" where
  "api_release_arm_id v = api_release_api_id v @ ''/releases/'' @ api_release_name v"

definition encode_api_release :: "api_release \<Rightarrow> row" where
  "encode_api_release v = [
    (''id'', TextC (api_release_arm_id v)), (''api_id'', TextC (api_release_api_id v)),
    (''name'', TextC (api_release_name v)), (''target_api_id'', TextC (api_release_target_api_id v)),
    (''notes'', TextC (api_release_notes v)), (''created_at'', IntC (api_release_created_at v)),
    (''updated_at'', IntC (api_release_updated_at v)), (''etag'', TextC (api_release_etag v))]"

definition decode_api_release :: "db \<Rightarrow> row \<Rightarrow> api_release" where
  "decode_api_release d r = \<lparr>
    api_release_api_id = text_at ''api_id'' r, api_release_name = text_at ''name'' r,
    api_release_target_api_id = text_at ''target_api_id'' r, api_release_notes = text_at ''notes'' r,
    api_release_created_at = int_at ''created_at'' r, api_release_updated_at = int_at ''updated_at'' r,
    api_release_etag = text_at ''etag'' r,
    api_release_document = document_of ''api_release_documents'' ''release_id'' d r\<rparr>"

definition get_api_release :: "string \<Rightarrow> api_release lookup" where
  "get_api_release = get_by_id ''api_releases'' decode_api_release"

definition list_api_releases :: "string \<Rightarrow> store \<Rightarrow> api_release list" where
  "list_api_releases = list_by ''api_releases'' ''api_id'' decode_api_release"

definition delete_api_release :: "string \<Rightarrow> unit op" where
  "delete_api_release = delete_scoped_resource ''api_releases''"

text \<open>The rows of the revisions of one API: the name itself and every name \<open>LIKE base;rev=%\<close>.\<close>

definition revision_of :: "db \<Rightarrow> string \<Rightarrow> string \<Rightarrow> row \<Rightarrow> bool" where
  "revision_of d service base r \<longleftrightarrow>
     list_ex (\<lambda>a. col ''id'' a = col ''api_id'' r \<and> names_row ''service_id'' service a \<and>
         (names_row ''name'' base a \<or> below_in ''name'' (base @ '';rev=%'') a)) (d ''apis'')"

definition promote :: "string \<Rightarrow> string \<Rightarrow> string \<Rightarrow> nat op" where
  "promote target service base =
     op_then (op_read st_db) (\<lambda>d.
     exec_update ''api_revision_metadata'' (revision_of d service base) [''is_current'']
       (\<lambda>r. [(''is_current'', bool_cell (names_row ''api_id'' target r))]))"

definition upsert_api_release :: "api_release \<Rightarrow> api_release op" where
  "upsert_api_release w =
     op_then (op_lookup (get_api (api_release_target_api_id w))) (\<lambda>target.
     let parent_base = fst (split_revision (trim_prefix (api_release_api_id w) (api_service_id target @ ''/apis/'')));
         target_base = fst (split_revision (api_name target)) in
     if \<not> equal_fold parent_base target_base then op_fail Conflict
     else op_then (op_read (\<lambda>s. (st_now s, get_api_release (api_release_arm_id w) s))) (\<lambda>(now, found).
     op_then new_etag (\<lambda>e.
       let created = (case found of Ok x \<Rightarrow> api_release_created_at x | Err _ \<Rightarrow> api_release_created_at w);
           v = w\<lparr>api_release_created_at := (if created = 0 then now else created),
                 api_release_updated_at := now, api_release_etag := e\<rparr> in transaction
       (op_seq (exec_insert ''api_releases'' (encode_api_release v)
         (Update [''target_api_id'', ''notes'', ''updated_at'', ''etag'']))
       (op_seq (exec_insert ''api_release_documents''
         (document_row ''release_id'' (api_release_arm_id v) (api_release_document v)) (Update [''document_json'']))
       (op_then (promote (api_release_target_api_id v) (api_service_id target) target_base)
         (\<lambda>n. if n = 0 then op_fail NotFound else op_return v)))))))"

section \<open>Soundness of the operations\<close>

lemma validate_reads [store_reads]: "readonly (validate_api_version_set v)"
  unfolding validate_api_version_set_def by (intro store_reads)

lemma stamp_reads [store_reads]: "readonly (stamp_api v)"
  unfolding stamp_api_def Let_def by (intro store_reads)

lemmas reads_keep [store_keeps] = readonly_keeps [OF validate_reads] readonly_keeps [OF stamp_reads]

lemma write_api_keeps [store_keeps]: "sound_op (write_api v)"
  unfolding write_api_def by (intro store_keeps insertable_tables) (simp_all add: row_clean_eval)

lemma upsert_api_sound [store_keeps, store_atomic]: "sound_op (upsert_api w)" "atomic (upsert_api w)"
  unfolding upsert_api_def
  by (intro store_keeps, unfold op_seq_def, intro atomic_then store_atomic store_reads)


lemma upsert_api_operation_keeps [store_keeps]: "sound_op (upsert_api_operation w)"
  unfolding upsert_api_operation_def Let_def
  by (intro store_keeps insertable_tables) (simp_all add: row_clean_eval)

lemma upsert_api_operation_atomic [store_atomic]: "atomic (upsert_api_operation w)"
  unfolding upsert_api_operation_def Let_def by (intro atomic_then atomic_seq_return store_atomic store_reads)

lemma delete_api_sound [store_keeps, store_atomic]: "sound_op (delete_api i)" "atomic (delete_api i)"
    "sound_op (delete_api_operation i)" "atomic (delete_api_operation i)"
  unfolding delete_api_def delete_api_operation_def by (rule delete_scoped_keeps delete_scoped_atomic)+


lemma upsert_api_schema_keeps [store_keeps]: "sound_op (upsert_api_schema w)"
  unfolding upsert_api_schema_def Let_def
  by (intro store_keeps insertable_tables) (simp_all add: row_clean_eval)

lemma upsert_api_schema_atomic [store_atomic]: "atomic (upsert_api_schema w)"
  unfolding upsert_api_schema_def Let_def by (intro atomic_then atomic_seq_return store_atomic store_reads)

lemma delete_api_schema_sound [store_keeps, store_atomic]: "sound_op (delete_api_schema i)" "atomic (delete_api_schema i)"
  unfolding delete_api_schema_def by (rule delete_scoped_keeps delete_scoped_atomic)+

lemma upsert_api_resolver_keeps [store_keeps]: "sound_op (upsert_api_resolver w)"
  unfolding upsert_api_resolver_def Let_def
  by (intro store_keeps insertable_tables) (simp_all add: row_clean_eval)

lemma upsert_api_resolver_atomic [store_atomic]: "atomic (upsert_api_resolver w)"
  unfolding upsert_api_resolver_def Let_def by (intro atomic_then atomic_seq_return store_atomic store_reads)

lemma delete_api_resolver_sound [store_keeps, store_atomic]: "sound_op (delete_api_resolver i)" "atomic (delete_api_resolver i)"
  unfolding delete_api_resolver_def by (rule delete_scoped_keeps delete_scoped_atomic)+

lemma import_steps_keep [store_keeps]: "sound_op (import_operation i x)" "sound_op (import_schema i y)"
  unfolding import_operation_def import_schema_def Let_def
  by ((intro store_keeps insertable_plainly, simp_all add: row_clean_eval)+)

lemma sound_option [store_keeps]: "sound_op m \<Longrightarrow> (\<And>x. sound_op (f x)) \<Longrightarrow> sound_op (case z of None \<Rightarrow> m | Some x \<Rightarrow> f x)"
  by (cases z) auto

lemma import_api_sound [store_keeps, store_atomic]: "sound_op (import_api w def ops sch)" "atomic (import_api w def ops sch)"
  unfolding import_api_def
  by (intro store_keeps insertable_tables, simp add: row_clean_eval, unfold op_seq_def [of "validate_api_version_set w"],
      intro atomic_then store_atomic store_reads)

lemma copy_rows_keeps [store_keeps]:
  "insertable t [] \<Longrightarrow> (\<And>r. row_clean t (f r)) \<Longrightarrow> sound_op (copy_rows t p f)"
  unfolding copy_rows_def by (intro store_keeps)

lemma copies_keep [store_keeps]: "sound_op (copy_children source i)" "sound_op (copy_attachments source i)"
  unfolding copy_children_def copy_attachments_def
  by ((intro store_keeps insertable_plainly insertable_tables, simp_all add: row_clean_eval)+)

lemma clone_api_revision_sound [store_keeps, store_atomic]:
  "sound_op (clone_api_revision source w)" "atomic (clone_api_revision source w)"
proof -
  show "sound_op (clone_api_revision source w)"
    unfolding clone_api_revision_def Let_def
    by (intro store_keeps insertable_plainly) (simp_all add: row_clean_eval)
  show "atomic (clone_api_revision source w)"
    unfolding clone_api_revision_def Let_def op_seq_def [of "validate_api_version_set w"]
    by (intro atomic_then store_atomic store_reads)
qed

lemma promote_keeps [store_keeps]: "sound_op (promote target service base)"
  unfolding promote_def by (intro store_keeps updatable_tables) (simp add: secret_keys_def)

lemma sound_prod [store_keeps]: "(\<And>x y. sound_op (f x y)) \<Longrightarrow> sound_op (case z of (x, y) \<Rightarrow> f x y)"
  by (cases z) auto

lemma atomic_prod [store_atomic]: "(\<And>x y. atomic (f x y)) \<Longrightarrow> atomic (case z of (x, y) \<Rightarrow> f x y)"
  by (cases z) auto

lemma upsert_api_release_sound [store_keeps, store_atomic]:
  "sound_op (upsert_api_release w)" "atomic (upsert_api_release w)"
proof -
  show "sound_op (upsert_api_release w)"
    unfolding upsert_api_release_def Let_def
    by (intro store_keeps insertable_tables) (simp_all add: row_clean_eval)
  show "atomic (upsert_api_release w)"
    unfolding upsert_api_release_def Let_def by (intro atomic_then store_atomic store_reads)
qed

lemma delete_api_release_sound [store_keeps, store_atomic]: "sound_op (delete_api_release i)" "atomic (delete_api_release i)"
  unfolding delete_api_release_def by (rule delete_scoped_keeps delete_scoped_atomic)+

end

