(* ===== verification/StoreAccess.thy ===== *)
theory StoreAccess
  imports StoreCore
begin

text \<open>
  The stored credentials of \<open>internal/store/store.go\<close>, the self-hosted gateways of
  \<open>internal/store/gateways.go\<close> with the APIs they may serve, and the private endpoints of
  \<open>internal/store/networking.go\<close>.
\<close>

section \<open>Providers of the credential manager\<close>

record authorization_provider =
  authorization_provider_service_id :: string
  authorization_provider_name :: string
  authorization_provider_display_name :: string
  authorization_provider_identity_provider :: string
  authorization_provider_document :: json
  authorization_provider_etag :: string

definition authorization_provider_arm_id :: "authorization_provider \<Rightarrow> string" where
  "authorization_provider_arm_id v = authorization_provider_service_id v @ ''/authorizationProviders/'' @ authorization_provider_name v"

definition encode_authorization_provider :: "authorization_provider \<Rightarrow> row" where
  "encode_authorization_provider v = [
    (''id'', TextC (authorization_provider_arm_id v)),
    (''service_id'', TextC (authorization_provider_service_id v)),
    (''name'', TextC (authorization_provider_name v)),
    (''display_name'', TextC (authorization_provider_display_name v)),
    (''identity_provider'', TextC (authorization_provider_identity_provider v)),
    (''document_json'', DocC (authorization_provider_document v)),
    (''etag'', TextC (authorization_provider_etag v))]"

definition upsert_authorization_provider :: "authorization_provider \<Rightarrow> authorization_provider op" where
  "upsert_authorization_provider w = op_then new_etag (\<lambda>e.
       let v = w\<lparr>authorization_provider_etag := e\<rparr> in
       op_seq (exec_insert ''authorization_providers'' (encode_authorization_provider v)
         (Update [''display_name'', ''identity_provider'', ''document_json'', ''etag'']))
       (op_return v))"

definition decode_authorization_provider :: "db \<Rightarrow> row \<Rightarrow> authorization_provider" where
  "decode_authorization_provider d r = \<lparr>
    authorization_provider_service_id = text_at ''service_id'' r,
    authorization_provider_name = text_at ''name'' r,
    authorization_provider_display_name = text_at ''display_name'' r,
    authorization_provider_identity_provider = text_at ''identity_provider'' r,
    authorization_provider_document = doc_at ''document_json'' r,
    authorization_provider_etag = text_at ''etag'' r\<rparr>"

definition get_authorization_provider :: "string \<Rightarrow> authorization_provider lookup" where
  "get_authorization_provider = get_by_id ''authorization_providers'' decode_authorization_provider"

definition list_authorization_providers :: "string \<Rightarrow> store \<Rightarrow> authorization_provider list" where
  "list_authorization_providers = list_by ''authorization_providers'' ''service_id'' decode_authorization_provider"

definition delete_authorization_provider :: "string \<Rightarrow> unit op" where
  "delete_authorization_provider = delete_scoped_resource ''authorization_providers''"

lemma upsert_authorization_provider_keeps [store_keeps]: "sound_op (upsert_authorization_provider w)"
  unfolding upsert_authorization_provider_def Let_def
  by (intro store_keeps insertable_tables) (simp_all add: row_clean_eval)

lemma upsert_authorization_provider_atomic [store_atomic]: "atomic (upsert_authorization_provider w)"
  unfolding upsert_authorization_provider_def Let_def by (intro atomic_then atomic_seq_return store_atomic store_reads)

lemma delete_authorization_provider_sound [store_keeps, store_atomic]: "sound_op (delete_authorization_provider i)" "atomic (delete_authorization_provider i)"
  unfolding delete_authorization_provider_def by (rule delete_scoped_keeps delete_scoped_atomic)+

section \<open>Stored credentials\<close>

record authorization =
  authorization_provider_id :: string
  authorization_name :: string
  authorization_authorization_type :: string
  authorization_oauth2_grant_type :: string
  authorization_status :: string
  authorization_error_msg :: string
  authorization_document :: json
  authorization_etag :: string

definition authorization_arm_id :: "authorization \<Rightarrow> string" where
  "authorization_arm_id v = authorization_provider_id v @ ''/authorizations/'' @ authorization_name v"

definition encode_authorization :: "authorization \<Rightarrow> row" where
  "encode_authorization v = [
    (''id'', TextC (authorization_arm_id v)), (''provider_id'', TextC (authorization_provider_id v)),
    (''name'', TextC (authorization_name v)),
    (''authorization_type'', TextC (authorization_authorization_type v)),
    (''oauth2_grant_type'', TextC (authorization_oauth2_grant_type v)),
    (''status'', TextC (authorization_status v)), (''error_message'', TextC (authorization_error_msg v)),
    (''document_json'', DocC (authorization_document v)), (''etag'', TextC (authorization_etag v))]"

definition upsert_authorization :: "authorization \<Rightarrow> authorization op" where
  "upsert_authorization w = op_then new_etag (\<lambda>e.
       let v = w\<lparr>authorization_etag := e\<rparr> in
       op_seq (exec_insert ''authorizations'' (encode_authorization v)
         (Update [''authorization_type'', ''oauth2_grant_type'', ''status'', ''error_message'', ''document_json'', ''etag'']))
       (op_return v))"

definition decode_authorization :: "db \<Rightarrow> row \<Rightarrow> authorization" where
  "decode_authorization d r = \<lparr>
    authorization_provider_id = text_at ''provider_id'' r, authorization_name = text_at ''name'' r,
    authorization_authorization_type = text_at ''authorization_type'' r,
    authorization_oauth2_grant_type = text_at ''oauth2_grant_type'' r,
    authorization_status = text_at ''status'' r, authorization_error_msg = text_at ''error_message'' r,
    authorization_document = doc_at ''document_json'' r, authorization_etag = text_at ''etag'' r\<rparr>"

definition get_authorization :: "string \<Rightarrow> authorization lookup" where
  "get_authorization = get_by_id ''authorizations'' decode_authorization"

definition list_authorizations :: "string \<Rightarrow> store \<Rightarrow> authorization list" where
  "list_authorizations = list_by ''authorizations'' ''provider_id'' decode_authorization"

definition delete_authorization :: "string \<Rightarrow> unit op" where
  "delete_authorization = delete_scoped_resource ''authorizations''"

lemma upsert_authorization_keeps [store_keeps]: "sound_op (upsert_authorization w)"
  unfolding upsert_authorization_def Let_def
  by (intro store_keeps insertable_tables) (simp_all add: row_clean_eval)

lemma upsert_authorization_atomic [store_atomic]: "atomic (upsert_authorization w)"
  unfolding upsert_authorization_def Let_def by (intro atomic_then atomic_seq_return store_atomic store_reads)

lemma delete_authorization_sound [store_keeps, store_atomic]: "sound_op (delete_authorization i)" "atomic (delete_authorization i)"
  unfolding delete_authorization_def by (rule delete_scoped_keeps delete_scoped_atomic)+

section \<open>Access policies\<close>

record access_policy =
  access_policy_authorization_id :: string
  access_policy_name :: string
  access_policy_tenant_id :: string
  access_policy_object_id :: string
  access_policy_document :: json
  access_policy_etag :: string

definition access_policy_arm_id :: "access_policy \<Rightarrow> string" where
  "access_policy_arm_id v = access_policy_authorization_id v @ ''/accessPolicies/'' @ access_policy_name v"

definition encode_access_policy :: "access_policy \<Rightarrow> row" where
  "encode_access_policy v = [
    (''id'', TextC (access_policy_arm_id v)),
    (''authorization_id'', TextC (access_policy_authorization_id v)),
    (''name'', TextC (access_policy_name v)), (''tenant_id'', TextC (access_policy_tenant_id v)),
    (''object_id'', TextC (access_policy_object_id v)),
    (''document_json'', DocC (access_policy_document v)), (''etag'', TextC (access_policy_etag v))]"

definition upsert_access_policy :: "access_policy \<Rightarrow> access_policy op" where
  "upsert_access_policy w = op_then new_etag (\<lambda>e.
       let v = w\<lparr>access_policy_etag := e\<rparr> in
       op_seq (exec_insert ''authorization_access_policies'' (encode_access_policy v)
         (Update [''tenant_id'', ''object_id'', ''document_json'', ''etag'']))
       (op_return v))"

definition decode_access_policy :: "db \<Rightarrow> row \<Rightarrow> access_policy" where
  "decode_access_policy d r = \<lparr>
    access_policy_authorization_id = text_at ''authorization_id'' r,
    access_policy_name = text_at ''name'' r, access_policy_tenant_id = text_at ''tenant_id'' r,
    access_policy_object_id = text_at ''object_id'' r, access_policy_document = doc_at ''document_json'' r,
    access_policy_etag = text_at ''etag'' r\<rparr>"

definition get_access_policy :: "string \<Rightarrow> access_policy lookup" where
  "get_access_policy = get_by_id ''authorization_access_policies'' decode_access_policy"

definition list_access_policies :: "string \<Rightarrow> store \<Rightarrow> access_policy list" where
  "list_access_policies = list_by ''authorization_access_policies'' ''authorization_id'' decode_access_policy"

definition delete_access_policy :: "string \<Rightarrow> unit op" where
  "delete_access_policy = delete_scoped_resource ''authorization_access_policies''"

lemma upsert_access_policy_keeps [store_keeps]: "sound_op (upsert_access_policy w)"
  unfolding upsert_access_policy_def Let_def
  by (intro store_keeps insertable_tables) (simp_all add: row_clean_eval)

lemma upsert_access_policy_atomic [store_atomic]: "atomic (upsert_access_policy w)"
  unfolding upsert_access_policy_def Let_def by (intro atomic_then atomic_seq_return store_atomic store_reads)

lemma delete_access_policy_sound [store_keeps, store_atomic]: "sound_op (delete_access_policy i)" "atomic (delete_access_policy i)"
  unfolding delete_access_policy_def by (rule delete_scoped_keeps delete_scoped_atomic)+

section \<open>Self-hosted gateways\<close>

record self_hosted_gateway =
  self_hosted_gateway_service_id :: string
  self_hosted_gateway_name :: string
  self_hosted_gateway_location_name :: string
  self_hosted_gateway_description :: string
  self_hosted_gateway_primary_key :: string
  self_hosted_gateway_secondary_key :: string
  self_hosted_gateway_document :: json
  self_hosted_gateway_etag :: string

definition self_hosted_gateway_arm_id :: "self_hosted_gateway \<Rightarrow> string" where
  "self_hosted_gateway_arm_id v = self_hosted_gateway_service_id v @ ''/gateways/'' @ self_hosted_gateway_name v"

definition encode_self_hosted_gateway :: "self_hosted_gateway \<Rightarrow> row" where
  "encode_self_hosted_gateway v = [
    (''id'', TextC (self_hosted_gateway_arm_id v)),
    (''service_id'', TextC (self_hosted_gateway_service_id v)),
    (''name'', TextC (self_hosted_gateway_name v)),
    (''location_name'', TextC (self_hosted_gateway_location_name v)),
    (''description'', TextC (self_hosted_gateway_description v)),
    (''primary_key'', TextC (self_hosted_gateway_primary_key v)),
    (''secondary_key'', TextC (self_hosted_gateway_secondary_key v)),
    (''document_json'', DocC (self_hosted_gateway_document v)),
    (''etag'', TextC (self_hosted_gateway_etag v))]"

definition upsert_self_hosted_gateway :: "self_hosted_gateway \<Rightarrow> self_hosted_gateway op" where
  "upsert_self_hosted_gateway w = op_then new_etag (\<lambda>e.
       let v = w\<lparr>self_hosted_gateway_etag := e\<rparr> in
       op_seq (exec_insert ''gateways'' (encode_self_hosted_gateway v)
         (Update [''location_name'', ''description'', ''primary_key'', ''secondary_key'', ''document_json'', ''etag'']))
       (op_return v))"

definition decode_self_hosted_gateway :: "db \<Rightarrow> row \<Rightarrow> self_hosted_gateway" where
  "decode_self_hosted_gateway d r = \<lparr>
    self_hosted_gateway_service_id = text_at ''service_id'' r,
    self_hosted_gateway_name = text_at ''name'' r,
    self_hosted_gateway_location_name = text_at ''location_name'' r,
    self_hosted_gateway_description = text_at ''description'' r,
    self_hosted_gateway_primary_key = text_at ''primary_key'' r,
    self_hosted_gateway_secondary_key = text_at ''secondary_key'' r,
    self_hosted_gateway_document = doc_at ''document_json'' r, self_hosted_gateway_etag = text_at ''etag'' r\<rparr>"

definition get_self_hosted_gateway :: "string \<Rightarrow> self_hosted_gateway lookup" where
  "get_self_hosted_gateway = get_by_id ''gateways'' decode_self_hosted_gateway"

definition list_self_hosted_gateways :: "string \<Rightarrow> store \<Rightarrow> self_hosted_gateway list" where
  "list_self_hosted_gateways = list_by ''gateways'' ''service_id'' decode_self_hosted_gateway"

definition delete_self_hosted_gateway :: "string \<Rightarrow> unit op" where
  "delete_self_hosted_gateway = delete_scoped_resource ''gateways''"

lemma upsert_self_hosted_gateway_keeps [store_keeps]: "sound_op (upsert_self_hosted_gateway w)"
  unfolding upsert_self_hosted_gateway_def Let_def
  by (intro store_keeps insertable_tables) (simp_all add: row_clean_eval)

lemma upsert_self_hosted_gateway_atomic [store_atomic]: "atomic (upsert_self_hosted_gateway w)"
  unfolding upsert_self_hosted_gateway_def Let_def by (intro atomic_then atomic_seq_return store_atomic store_reads)

lemma delete_self_hosted_gateway_sound [store_keeps, store_atomic]: "sound_op (delete_self_hosted_gateway i)" "atomic (delete_self_hosted_gateway i)"
  unfolding delete_self_hosted_gateway_def by (rule delete_scoped_keeps delete_scoped_atomic)+

interpretation self_hosted_gateway_rows: stored_rows "''gateways''" "''id''" "[''location_name'', ''description'', ''primary_key'', ''secondary_key'', ''document_json'', ''etag'']"
    encode_self_hosted_gateway decode_self_hosted_gateway self_hosted_gateway_arm_id "\<lambda>v. (self_hosted_gateway_service_id v, self_hosted_gateway_name v)"
proof unfold_locales
  show "tb_key (table_of store_schema ''gateways'') = [''id'']" by code_simp
qed (simp_all add: encode_self_hosted_gateway_def decode_self_hosted_gateway_def self_hosted_gateway_arm_id_def write_columns_def column_defs document_of_def)

section \<open>Host names of a gateway\<close>

record hostname_configuration =
  hostname_configuration_gateway_id :: string
  hostname_configuration_name :: string
  hostname_configuration_hostname :: string
  hostname_configuration_certificate_id :: string
  hostname_configuration_negotiate_client_certificate :: bool
  hostname_configuration_tls10_enabled :: bool
  hostname_configuration_tls11_enabled :: bool
  hostname_configuration_http2_enabled :: bool
  hostname_configuration_document :: json
  hostname_configuration_etag :: string

definition hostname_configuration_arm_id :: "hostname_configuration \<Rightarrow> string" where
  "hostname_configuration_arm_id v = hostname_configuration_gateway_id v @ ''/hostnameConfigurations/'' @ hostname_configuration_name v"

definition encode_hostname_configuration :: "hostname_configuration \<Rightarrow> row" where
  "encode_hostname_configuration v = [
    (''id'', TextC (hostname_configuration_arm_id v)),
    (''gateway_id'', TextC (hostname_configuration_gateway_id v)),
    (''name'', TextC (hostname_configuration_name v)),
    (''hostname'', TextC (hostname_configuration_hostname v)),
    (''certificate_id'', TextC (hostname_configuration_certificate_id v)),
    (''negotiate_client_certificate'', bool_cell (hostname_configuration_negotiate_client_certificate v)),
    (''tls10_enabled'', bool_cell (hostname_configuration_tls10_enabled v)),
    (''tls11_enabled'', bool_cell (hostname_configuration_tls11_enabled v)),
    (''http2_enabled'', bool_cell (hostname_configuration_http2_enabled v)),
    (''document_json'', DocC (hostname_configuration_document v)),
    (''etag'', TextC (hostname_configuration_etag v))]"

definition upsert_hostname_configuration :: "hostname_configuration \<Rightarrow> hostname_configuration op" where
  "upsert_hostname_configuration w = op_then new_etag (\<lambda>e.
       let v = w\<lparr>hostname_configuration_etag := e\<rparr> in
       op_seq (exec_insert ''gateway_hostname_configurations'' (encode_hostname_configuration v)
         (Update [''hostname'', ''certificate_id'', ''negotiate_client_certificate'', ''tls10_enabled'',
        ''tls11_enabled'', ''http2_enabled'', ''document_json'', ''etag'']))
       (op_return v))"

definition decode_hostname_configuration :: "db \<Rightarrow> row \<Rightarrow> hostname_configuration" where
  "decode_hostname_configuration d r = \<lparr>
    hostname_configuration_gateway_id = text_at ''gateway_id'' r,
    hostname_configuration_name = text_at ''name'' r,
    hostname_configuration_hostname = text_at ''hostname'' r,
    hostname_configuration_certificate_id = text_at ''certificate_id'' r,
    hostname_configuration_negotiate_client_certificate = bool_at ''negotiate_client_certificate'' r,
    hostname_configuration_tls10_enabled = bool_at ''tls10_enabled'' r,
    hostname_configuration_tls11_enabled = bool_at ''tls11_enabled'' r,
    hostname_configuration_http2_enabled = bool_at ''http2_enabled'' r,
    hostname_configuration_document = doc_at ''document_json'' r,
    hostname_configuration_etag = text_at ''etag'' r\<rparr>"

definition get_hostname_configuration :: "string \<Rightarrow> hostname_configuration lookup" where
  "get_hostname_configuration = get_by_id ''gateway_hostname_configurations'' decode_hostname_configuration"

definition list_hostname_configurations :: "string \<Rightarrow> store \<Rightarrow> hostname_configuration list" where
  "list_hostname_configurations = list_by ''gateway_hostname_configurations'' ''gateway_id'' decode_hostname_configuration"

definition delete_hostname_configuration :: "string \<Rightarrow> unit op" where
  "delete_hostname_configuration = delete_scoped_resource ''gateway_hostname_configurations''"

lemma upsert_hostname_configuration_keeps [store_keeps]: "sound_op (upsert_hostname_configuration w)"
  unfolding upsert_hostname_configuration_def Let_def
  by (intro store_keeps insertable_tables) (simp_all add: row_clean_eval)

lemma upsert_hostname_configuration_atomic [store_atomic]: "atomic (upsert_hostname_configuration w)"
  unfolding upsert_hostname_configuration_def Let_def by (intro atomic_then atomic_seq_return store_atomic store_reads)

lemma delete_hostname_configuration_sound [store_keeps, store_atomic]: "sound_op (delete_hostname_configuration i)" "atomic (delete_hostname_configuration i)"
  unfolding delete_hostname_configuration_def by (rule delete_scoped_keeps delete_scoped_atomic)+

section \<open>Certificate authorities of a gateway\<close>

record certificate_authority =
  certificate_authority_gateway_id :: string
  certificate_authority_name :: string
  certificate_authority_is_trusted :: bool
  certificate_authority_document :: json
  certificate_authority_etag :: string

definition certificate_authority_arm_id :: "certificate_authority \<Rightarrow> string" where
  "certificate_authority_arm_id v = certificate_authority_gateway_id v @ ''/certificateAuthorities/'' @ certificate_authority_name v"

definition encode_certificate_authority :: "certificate_authority \<Rightarrow> row" where
  "encode_certificate_authority v = [
    (''id'', TextC (certificate_authority_arm_id v)),
    (''gateway_id'', TextC (certificate_authority_gateway_id v)),
    (''name'', TextC (certificate_authority_name v)),
    (''is_trusted'', bool_cell (certificate_authority_is_trusted v)),
    (''document_json'', DocC (certificate_authority_document v)),
    (''etag'', TextC (certificate_authority_etag v))]"

definition upsert_certificate_authority :: "certificate_authority \<Rightarrow> certificate_authority op" where
  "upsert_certificate_authority w = op_then new_etag (\<lambda>e.
       let v = w\<lparr>certificate_authority_etag := e\<rparr> in
       op_seq (exec_insert ''gateway_certificate_authorities'' (encode_certificate_authority v)
         (Update [''is_trusted'', ''document_json'', ''etag'']))
       (op_return v))"

definition decode_certificate_authority :: "db \<Rightarrow> row \<Rightarrow> certificate_authority" where
  "decode_certificate_authority d r = \<lparr>
    certificate_authority_gateway_id = text_at ''gateway_id'' r,
    certificate_authority_name = text_at ''name'' r,
    certificate_authority_is_trusted = bool_at ''is_trusted'' r,
    certificate_authority_document = doc_at ''document_json'' r,
    certificate_authority_etag = text_at ''etag'' r\<rparr>"

definition get_certificate_authority :: "string \<Rightarrow> certificate_authority lookup" where
  "get_certificate_authority = get_by_id ''gateway_certificate_authorities'' decode_certificate_authority"

definition list_certificate_authorities :: "string \<Rightarrow> store \<Rightarrow> certificate_authority list" where
  "list_certificate_authorities = list_by ''gateway_certificate_authorities'' ''gateway_id'' decode_certificate_authority"

definition delete_certificate_authority :: "string \<Rightarrow> unit op" where
  "delete_certificate_authority = delete_scoped_resource ''gateway_certificate_authorities''"

lemma upsert_certificate_authority_keeps [store_keeps]: "sound_op (upsert_certificate_authority w)"
  unfolding upsert_certificate_authority_def Let_def
  by (intro store_keeps insertable_tables) (simp_all add: row_clean_eval)

lemma upsert_certificate_authority_atomic [store_atomic]: "atomic (upsert_certificate_authority w)"
  unfolding upsert_certificate_authority_def Let_def by (intro atomic_then atomic_seq_return store_atomic store_reads)

lemma delete_certificate_authority_sound [store_keeps, store_atomic]: "sound_op (delete_certificate_authority i)" "atomic (delete_certificate_authority i)"
  unfolding delete_certificate_authority_def by (rule delete_scoped_keeps delete_scoped_atomic)+

section \<open>Private endpoint connections\<close>

record private_endpoint_connection =
  private_endpoint_connection_service_id :: string
  private_endpoint_connection_name :: string
  private_endpoint_connection_status :: string
  private_endpoint_connection_description :: string
  private_endpoint_connection_actions_required :: string
  private_endpoint_connection_endpoint_id :: string
  private_endpoint_connection_document :: json
  private_endpoint_connection_etag :: string

definition private_endpoint_connection_arm_id :: "private_endpoint_connection \<Rightarrow> string" where
  "private_endpoint_connection_arm_id v = private_endpoint_connection_service_id v @ ''/privateEndpointConnections/'' @ private_endpoint_connection_name v"

definition encode_private_endpoint_connection :: "private_endpoint_connection \<Rightarrow> row" where
  "encode_private_endpoint_connection v = [
    (''id'', TextC (private_endpoint_connection_arm_id v)),
    (''service_id'', TextC (private_endpoint_connection_service_id v)),
    (''name'', TextC (private_endpoint_connection_name v)),
    (''status'', TextC (private_endpoint_connection_status v)),
    (''description'', TextC (private_endpoint_connection_description v)),
    (''actions_required'', TextC (private_endpoint_connection_actions_required v)),
    (''endpoint_id'', TextC (private_endpoint_connection_endpoint_id v)),
    (''document_json'', DocC (private_endpoint_connection_document v)),
    (''etag'', TextC (private_endpoint_connection_etag v))]"

definition upsert_private_endpoint_connection :: "private_endpoint_connection \<Rightarrow> private_endpoint_connection op" where
  "upsert_private_endpoint_connection w = op_then new_etag (\<lambda>e.
       let v = w\<lparr>private_endpoint_connection_etag := e\<rparr> in
       op_seq (exec_insert ''private_endpoint_connections'' (encode_private_endpoint_connection v)
         (Update [''status'', ''description'', ''actions_required'', ''endpoint_id'', ''document_json'', ''etag'']))
       (op_return v))"

definition decode_private_endpoint_connection :: "db \<Rightarrow> row \<Rightarrow> private_endpoint_connection" where
  "decode_private_endpoint_connection d r = \<lparr>
    private_endpoint_connection_service_id = text_at ''service_id'' r,
    private_endpoint_connection_name = text_at ''name'' r,
    private_endpoint_connection_status = text_at ''status'' r,
    private_endpoint_connection_description = text_at ''description'' r,
    private_endpoint_connection_actions_required = text_at ''actions_required'' r,
    private_endpoint_connection_endpoint_id = text_at ''endpoint_id'' r,
    private_endpoint_connection_document = doc_at ''document_json'' r,
    private_endpoint_connection_etag = text_at ''etag'' r\<rparr>"

definition get_private_endpoint_connection :: "string \<Rightarrow> private_endpoint_connection lookup" where
  "get_private_endpoint_connection = get_by_id ''private_endpoint_connections'' decode_private_endpoint_connection"

definition list_private_endpoint_connections :: "string \<Rightarrow> store \<Rightarrow> private_endpoint_connection list" where
  "list_private_endpoint_connections = list_by ''private_endpoint_connections'' ''service_id'' decode_private_endpoint_connection"

definition delete_private_endpoint_connection :: "string \<Rightarrow> unit op" where
  "delete_private_endpoint_connection = delete_scoped_resource ''private_endpoint_connections''"

lemma upsert_private_endpoint_connection_keeps [store_keeps]: "sound_op (upsert_private_endpoint_connection w)"
  unfolding upsert_private_endpoint_connection_def Let_def
  by (intro store_keeps insertable_tables) (simp_all add: row_clean_eval)

lemma upsert_private_endpoint_connection_atomic [store_atomic]: "atomic (upsert_private_endpoint_connection w)"
  unfolding upsert_private_endpoint_connection_def Let_def by (intro atomic_then atomic_seq_return store_atomic store_reads)

lemma delete_private_endpoint_connection_sound [store_keeps, store_atomic]: "sound_op (delete_private_endpoint_connection i)" "atomic (delete_private_endpoint_connection i)"
  unfolding delete_private_endpoint_connection_def by (rule delete_scoped_keeps delete_scoped_atomic)+

section \<open>The APIs of a gateway\<close>

definition attach_gateway_api :: "string \<Rightarrow> string \<Rightarrow> unit op" where
  "attach_gateway_api gw api =
     exec_insert ''gateway_apis'' [(''gateway_id'', TextC gw), (''api_id'', TextC api)] Ignore"

definition links_pair :: "string \<Rightarrow> string \<Rightarrow> string \<Rightarrow> string \<Rightarrow> row \<Rightarrow> bool" where
  "links_pair a x b y r \<longleftrightarrow> names_row a x r \<and> names_row b y r"

definition detach_gateway_api :: "string \<Rightarrow> string \<Rightarrow> unit op" where
  "detach_gateway_api gw api =
     op_then (exec_delete ''gateway_apis'' (links_pair ''gateway_id'' gw ''api_id'' api))
       (\<lambda>n. if n = 0 then op_fail NotFound else op_return ())"

definition list_gateway_apis :: "string \<Rightarrow> store \<Rightarrow> string list" where
  "list_gateway_apis gw = query_sorted ''gateway_apis'' (names_row ''gateway_id'' gw) ''api_id'' (\<lambda>d. text_at ''api_id'')"

definition gateway_api_attached :: "string \<Rightarrow> string \<Rightarrow> store \<Rightarrow> bool" where
  "gateway_api_attached gw api s \<longleftrightarrow>
     length (filter (links_pair ''gateway_id'' gw ''api_id'' api) (st_db s ''gateway_apis'')) > 0"

definition gateway_name_reserved :: "string \<Rightarrow> bool" where
  "gateway_name_reserved s \<longleftrightarrow> equal_fold s ''managed''"

lemma attach_gateway_api_sound [store_keeps, store_atomic]: "sound_op (attach_gateway_api gw api)" "atomic (attach_gateway_api gw api)"
  unfolding attach_gateway_api_def
  by (intro store_keeps insertable_tables, simp add: row_clean_eval, rule exec_atomic)

lemma detach_gateway_api_sound [store_keeps, store_atomic]: "sound_op (detach_gateway_api gw api)" "atomic (detach_gateway_api gw api)"
  unfolding detach_gateway_api_def by (intro store_keeps) (rule delete_or_not_found)

lemma detached: "store_ok s \<Longrightarrow> detach_gateway_api gw api s = (Ok (), s') \<Longrightarrow> \<not> gateway_api_attached gw api s'"
  by (auto simp: detach_gateway_api_def op_then_Ok op_fail_def op_return_def gateway_api_attached_def filter_empty_conv
      dest: exec_delete_Ok split: if_splits)

end

