(* ===== verification/StorePeople.thy ===== *)
theory StorePeople
  imports StoreAccess
begin

text \<open>
  Tags, groups and users of \<open>internal/store/store.go\<close>, the associations between resources, and the names
  of links.  A join visits the rows of the first table in the order of the second column given to
  \<open>ORDER BY\<close>; an association whose tag, group or user is named twice in different casings gives the row
  twice, as the \<open>JOIN\<close> on \<open>lower\<close> does.
\<close>

definition joined :: "string \<Rightarrow> string \<Rightarrow> (row \<Rightarrow> bool) \<Rightarrow> string \<Rightarrow> (db \<Rightarrow> row \<Rightarrow> 'a) \<Rightarrow> store \<Rightarrow> 'a list" where
  "joined links c p t f s =
     map (f (st_db s))
       (concat (map (\<lambda>r. map (\<lambda>_. r) (filter (\<lambda>l. p l \<and> names_row c (text_at ''id'' r) l) (st_db s links)))
         (sort_key (text_at ''id'') (st_db s t))))"

section \<open>Tags\<close>

record tag =
  tag_service_id :: string
  tag_name :: string
  tag_display_name :: string
  tag_etag :: string
  tag_document :: json

definition tag_arm_id :: "tag \<Rightarrow> string" where
  "tag_arm_id v = tag_service_id v @ ''/tags/'' @ tag_name v"

definition encode_tag :: "tag \<Rightarrow> row" where
  "encode_tag v = [
    (''id'', TextC (tag_arm_id v)), (''service_id'', TextC (tag_service_id v)),
    (''name'', TextC (tag_name v)), (''display_name'', TextC (tag_display_name v)),
    (''etag'', TextC (tag_etag v))]"

definition upsert_tag :: "tag \<Rightarrow> tag op" where
  "upsert_tag w = op_then new_etag (\<lambda>e.
       let v = w\<lparr>tag_etag := e\<rparr> in transaction
       (op_seq (exec_insert ''tags'' (encode_tag v)
         (Update [''display_name'', ''etag'']))
       (op_seq (exec_insert ''tag_documents'' (document_row ''tag_id'' (tag_arm_id v) (tag_document v)) (Update [''document_json'']))
       (op_return v))))"

definition decode_tag :: "db \<Rightarrow> row \<Rightarrow> tag" where
  "decode_tag d r = \<lparr>
    tag_service_id = text_at ''service_id'' r, tag_name = text_at ''name'' r,
    tag_display_name = text_at ''display_name'' r, tag_etag = text_at ''etag'' r,
    tag_document = document_of ''tag_documents'' ''tag_id'' d r\<rparr>"

definition get_tag :: "string \<Rightarrow> tag lookup" where
  "get_tag = get_by_id ''tags'' decode_tag"

definition list_tags :: "string \<Rightarrow> store \<Rightarrow> tag list" where
  "list_tags = list_by ''tags'' ''service_id'' decode_tag"

definition delete_tag :: "string \<Rightarrow> unit op" where
  "delete_tag = delete_scoped_resource ''tags''"

definition assign_tag :: "string \<Rightarrow> string \<Rightarrow> unit op" where
  "assign_tag i tag = exec_insert ''resource_tags''
     [(''resource_id'', TextC i), (''tag_id'', TextC tag), (''link_name'', TextC [])] Ignore"

definition detach_tag :: "string \<Rightarrow> string \<Rightarrow> unit op" where
  "detach_tag i tag = op_seq (exec_delete ''resource_tags'' (links_pair ''resource_id'' i ''tag_id'' tag)) (op_return ())"

definition get_resource_tag :: "string \<Rightarrow> string \<Rightarrow> tag lookup" where
  "get_resource_tag i tag s =
     (case filter (names_row ''id'' tag) (st_db s ''tags'') of
        [] \<Rightarrow> Err NotFound
      | rows \<Rightarrow>
          (case filter (\<lambda>r. list_ex (\<lambda>l. names_row ''resource_id'' i l \<and> names_row ''tag_id'' (text_at ''id'' r) l)
                  (st_db s ''resource_tags'')) rows of
             [] \<Rightarrow> Err NotFound
           | r # _ \<Rightarrow> Ok (decode_tag (st_db s) r)))"

definition list_resource_tags :: "string \<Rightarrow> store \<Rightarrow> tag list" where
  "list_resource_tags i = joined ''resource_tags'' ''tag_id'' (names_row ''resource_id'' i) ''tags'' decode_tag"

definition list_tagged_resources :: "string \<Rightarrow> store \<Rightarrow> string list" where
  "list_tagged_resources tag =
     query_sorted ''resource_tags'' (names_row ''tag_id'' tag) ''resource_id'' (\<lambda>d. text_at ''resource_id'')"

definition like :: "string \<Rightarrow> row \<Rightarrow> bool" where
  "like p r \<longleftrightarrow> sql_like (to_lower p) (to_lower (text_at ''resource_id'' r))"

definition tagged_in_scope :: "string \<Rightarrow> string \<Rightarrow> (row \<Rightarrow> bool) option" where
  "tagged_in_scope i scope =
     (if scope = ''apis'' then
        Some (\<lambda>l. like (i @ ''/apis/%'') l \<and> \<not> like (i @ ''/apis/%/operations/%'') l)
      else if scope = ''operations'' then Some (like (i @ ''/apis/%/operations/%''))
      else if scope = ''products'' then Some (like (i @ ''/products/%''))
      else None)"

definition list_tags_by_scope :: "string \<Rightarrow> string \<Rightarrow> tag list lookup" where
  "list_tags_by_scope i scope s =
     (case tagged_in_scope i (to_lower scope) of
        None \<Rightarrow> Err (UnsupportedTagScope (to_lower scope))
      | Some p \<Rightarrow> Ok (remdups (map (decode_tag (st_db s))
          (sort_key (text_at ''id'')
            (filter (\<lambda>r. names_row ''service_id'' i r \<and>
                list_ex (\<lambda>l. names_row ''tag_id'' (text_at ''id'' r) l \<and> p l) (st_db s ''resource_tags''))
              (st_db s ''tags''))))))"

lemma upsert_tag_keeps [store_keeps]: "sound_op (upsert_tag w)"
  unfolding upsert_tag_def Let_def
  by (intro store_keeps insertable_tables) (simp_all add: row_clean_eval)

lemma upsert_tag_atomic [store_atomic]: "atomic (upsert_tag w)"
  unfolding upsert_tag_def Let_def by (intro atomic_then atomic_seq_return store_atomic store_reads)

lemma delete_tag_sound [store_keeps, store_atomic]: "sound_op (delete_tag i)" "atomic (delete_tag i)"
  unfolding delete_tag_def by (rule delete_scoped_keeps delete_scoped_atomic)+

lemma assign_tag_sound [store_keeps, store_atomic]: "sound_op (assign_tag i tag)" "atomic (assign_tag i tag)"
  unfolding assign_tag_def by (intro store_keeps insertable_tables, simp add: row_clean_eval, rule exec_atomic)

lemma detach_tag_sound [store_keeps, store_atomic]: "sound_op (detach_tag i tag)" "atomic (detach_tag i tag)"
  unfolding detach_tag_def by (intro store_keeps) (intro atomic_seq_return store_atomic)

section \<open>Groups\<close>

record user_group =
  user_group_service_id :: string
  user_group_name :: string
  user_group_display_name :: string
  user_group_description :: string
  user_group_type :: string
  user_group_external_id :: string
  user_group_built_in :: bool
  user_group_etag :: string
  user_group_document :: json

definition user_group_arm_id :: "user_group \<Rightarrow> string" where
  "user_group_arm_id v = user_group_service_id v @ ''/groups/'' @ user_group_name v"

definition encode_user_group :: "user_group \<Rightarrow> row" where
  "encode_user_group v = [
    (''id'', TextC (user_group_arm_id v)), (''service_id'', TextC (user_group_service_id v)),
    (''name'', TextC (user_group_name v)), (''display_name'', TextC (user_group_display_name v)),
    (''description'', TextC (user_group_description v)), (''type'', TextC (user_group_type v)),
    (''external_id'', TextC (user_group_external_id v)), (''built_in'', bool_cell (user_group_built_in v)),
    (''etag'', TextC (user_group_etag v))]"

definition upsert_user_group :: "user_group \<Rightarrow> user_group op" where
  "upsert_user_group w = op_then new_etag (\<lambda>e.
       let v = w\<lparr>user_group_etag := e\<rparr> in transaction
       (op_seq (exec_insert ''groups'' (encode_user_group v)
         (Update [''display_name'', ''description'', ''type'', ''external_id'', ''built_in'', ''etag'']))
       (op_seq (exec_insert ''group_documents'' (document_row ''group_id'' (user_group_arm_id v) (user_group_document v)) (Update [''document_json'']))
       (op_return v))))"

definition decode_user_group :: "db \<Rightarrow> row \<Rightarrow> user_group" where
  "decode_user_group d r = \<lparr>
    user_group_service_id = text_at ''service_id'' r, user_group_name = text_at ''name'' r,
    user_group_display_name = text_at ''display_name'' r,
    user_group_description = text_at ''description'' r, user_group_type = text_at ''type'' r,
    user_group_external_id = text_at ''external_id'' r, user_group_built_in = bool_at ''built_in'' r,
    user_group_etag = text_at ''etag'' r,
    user_group_document = document_of ''group_documents'' ''group_id'' d r\<rparr>"

definition get_user_group :: "string \<Rightarrow> user_group lookup" where
  "get_user_group = get_by_id ''groups'' decode_user_group"

definition list_groups :: "string \<Rightarrow> store \<Rightarrow> user_group list" where
  "list_groups = list_by ''groups'' ''service_id'' decode_user_group"

definition delete_user_group :: "string \<Rightarrow> unit op" where
  "delete_user_group = delete_scoped_resource ''groups''"

definition link_product_group :: "string \<Rightarrow> string \<Rightarrow> unit op" where
  "link_product_group product g = exec_insert ''product_groups''
     [(''product_id'', TextC product), (''group_id'', TextC g), (''link_name'', TextC [])] Ignore"

definition unlink_product_group :: "string \<Rightarrow> string \<Rightarrow> unit op" where
  "unlink_product_group product g =
     op_seq (exec_delete ''product_groups'' (links_pair ''product_id'' product ''group_id'' g)) (op_return ())"

definition has_product_group :: "string \<Rightarrow> string \<Rightarrow> store \<Rightarrow> bool" where
  "has_product_group product g s \<longleftrightarrow>
     list_ex (links_pair ''product_id'' product ''group_id'' g) (st_db s ''product_groups'')"

definition list_product_groups :: "string \<Rightarrow> store \<Rightarrow> user_group list" where
  "list_product_groups product =
     joined ''product_groups'' ''group_id'' (names_row ''product_id'' product) ''groups'' decode_user_group"

lemma upsert_user_group_keeps [store_keeps]: "sound_op (upsert_user_group w)"
  unfolding upsert_user_group_def Let_def
  by (intro store_keeps insertable_tables) (simp_all add: row_clean_eval)

lemma upsert_user_group_atomic [store_atomic]: "atomic (upsert_user_group w)"
  unfolding upsert_user_group_def Let_def by (intro atomic_then atomic_seq_return store_atomic store_reads)

lemma delete_user_group_sound [store_keeps, store_atomic]: "sound_op (delete_user_group i)" "atomic (delete_user_group i)"
  unfolding delete_user_group_def by (rule delete_scoped_keeps delete_scoped_atomic)+

lemma link_product_group_sound [store_keeps, store_atomic]:
  "sound_op (link_product_group p g)" "atomic (link_product_group p g)"
  "sound_op (unlink_product_group p g)" "atomic (unlink_product_group p g)"
  unfolding link_product_group_def unlink_product_group_def
  by (intro store_keeps insertable_tables, simp add: row_clean_eval, rule exec_atomic, intro store_keeps,
      intro atomic_seq_return store_atomic)

section \<open>Users\<close>

record user_identity =
  identity_provider_name :: string
  identity_id :: string

definition identities_cell :: "user_identity list \<Rightarrow> cell" where
  "identities_cell xs = DocC (JArr (map (\<lambda>x.
     JObj [(''provider'', JStr (identity_provider_name x)), (''id'', JStr (identity_id x))]) xs))"

definition string_member :: "string \<Rightarrow> json \<Rightarrow> string" where
  "string_member k j = (case jget k j of Some (JStr s) \<Rightarrow> s | _ \<Rightarrow> [])"

definition identities_at :: "string \<Rightarrow> row \<Rightarrow> user_identity list" where
  "identities_at c r =
     (case doc_at c r of
        JArr js \<Rightarrow> map (\<lambda>j. \<lparr>identity_provider_name = string_member ''provider'' j, identity_id = string_member ''id'' j\<rparr>) js
      | _ \<Rightarrow> [])"

record user =
  user_service_id :: string
  user_name :: string
  user_first_name :: string
  user_last_name :: string
  user_email :: string
  user_state :: string
  user_note :: string
  user_identities :: "user_identity list"
  user_registration_at :: int
  user_password :: string
  user_primary_key :: string
  user_secondary_key :: string
  user_etag :: string
  user_document :: json

definition user_arm_id :: "user \<Rightarrow> string" where
  "user_arm_id v = user_service_id v @ ''/users/'' @ user_name v"

definition encode_user :: "user \<Rightarrow> row" where
  "encode_user v = [
    (''id'', TextC (user_arm_id v)), (''service_id'', TextC (user_service_id v)),
    (''name'', TextC (user_name v)), (''first_name'', TextC (user_first_name v)),
    (''last_name'', TextC (user_last_name v)), (''email'', TextC (user_email v)),
    (''state'', TextC (user_state v)), (''note'', TextC (user_note v)),
    (''identities_json'', identities_cell (user_identities v)),
    (''registration_at'', IntC (user_registration_at v)), (''password'', TextC (user_password v)),
    (''primary_key'', TextC (user_primary_key v)), (''secondary_key'', TextC (user_secondary_key v)),
    (''etag'', TextC (user_etag v))]"

definition sanitize_user_document :: "json \<Rightarrow> json" where
  "sanitize_user_document j =
     delete_property ''secondaryKey'' (delete_property ''primaryKey'' (delete_property ''password'' (delete_key ''secondaryKey'' (delete_key ''primaryKey'' (delete_key ''password'' j)))))"

definition upsert_user :: "user \<Rightarrow> user op" where
  "upsert_user w =
     op_then (op_read st_now) (\<lambda>now.
     op_then (if user_password w = [] then new_opaque_id else op_return (user_password w)) (\<lambda>password.
     op_then (if user_primary_key w = [] then new_opaque_id else op_return (user_primary_key w)) (\<lambda>primary.
     op_then (if user_secondary_key w = [] then new_opaque_id else op_return (user_secondary_key w)) (\<lambda>secondary.
     op_then new_etag (\<lambda>e.
       let v = w\<lparr>user_document := sanitize_user_document (user_document w),
             user_registration_at := (if user_registration_at w = 0 then now else user_registration_at w),
             user_password := password, user_primary_key := primary, user_secondary_key := secondary, user_etag := e\<rparr> in transaction
       (op_seq (exec_insert ''users'' (encode_user v)
         (Update [''first_name'', ''last_name'', ''email'', ''state'', ''note'', ''identities_json'', ''password'',
        ''primary_key'', ''secondary_key'', ''etag'']))
       (op_seq (exec_insert ''user_documents'' (document_row ''user_id'' (user_arm_id v) (user_document v)) (Update [''document_json'']))
       (op_return v))))))))"

definition decode_user :: "db \<Rightarrow> row \<Rightarrow> user" where
  "decode_user d r = \<lparr>
    user_service_id = text_at ''service_id'' r, user_name = text_at ''name'' r,
    user_first_name = text_at ''first_name'' r, user_last_name = text_at ''last_name'' r,
    user_email = text_at ''email'' r, user_state = text_at ''state'' r, user_note = text_at ''note'' r,
    user_identities = identities_at ''identities_json'' r,
    user_registration_at = int_at ''registration_at'' r, user_password = text_at ''password'' r,
    user_primary_key = text_at ''primary_key'' r, user_secondary_key = text_at ''secondary_key'' r,
    user_etag = text_at ''etag'' r, user_document = document_of ''user_documents'' ''user_id'' d r\<rparr>"

definition get_user :: "string \<Rightarrow> user lookup" where
  "get_user = get_by_id ''users'' decode_user"

definition list_users :: "string \<Rightarrow> store \<Rightarrow> user list" where
  "list_users = list_by ''users'' ''service_id'' decode_user"

definition delete_user :: "string \<Rightarrow> unit op" where
  "delete_user = delete_scoped_resource ''users''"

definition link_group_user :: "string \<Rightarrow> string \<Rightarrow> unit op" where
  "link_group_user g u = exec_insert ''group_users'' [(''group_id'', TextC g), (''user_id'', TextC u)] Ignore"

definition unlink_group_user :: "string \<Rightarrow> string \<Rightarrow> unit op" where
  "unlink_group_user g u =
     op_seq (exec_delete ''group_users'' (links_pair ''group_id'' g ''user_id'' u)) (op_return ())"

definition has_group_user :: "string \<Rightarrow> string \<Rightarrow> store \<Rightarrow> bool" where
  "has_group_user g u s \<longleftrightarrow> list_ex (links_pair ''group_id'' g ''user_id'' u) (st_db s ''group_users'')"

definition list_group_users :: "string \<Rightarrow> store \<Rightarrow> user list" where
  "list_group_users g = joined ''group_users'' ''user_id'' (names_row ''group_id'' g) ''users'' decode_user"

definition list_user_groups :: "string \<Rightarrow> store \<Rightarrow> user_group list" where
  "list_user_groups u = joined ''group_users'' ''group_id'' (names_row ''user_id'' u) ''groups'' decode_user_group"

lemma upsert_user_keeps [store_keeps]: "sound_op (upsert_user w)"
  unfolding upsert_user_def Let_def
  by (intro store_keeps insertable_tables) (simp_all add: row_clean_eval encode_user_def sanitize_user_document_def)

lemma upsert_user_atomic [store_atomic]: "atomic (upsert_user w)"
  unfolding upsert_user_def Let_def by (intro atomic_then atomic_seq_return store_atomic store_reads)

lemma delete_user_sound [store_keeps, store_atomic]: "sound_op (delete_user i)" "atomic (delete_user i)"
  unfolding delete_user_def by (rule delete_scoped_keeps delete_scoped_atomic)+

lemma link_group_user_sound [store_keeps, store_atomic]:
  "sound_op (link_group_user g u)" "atomic (link_group_user g u)"
  "sound_op (unlink_group_user g u)" "atomic (unlink_group_user g u)"
  unfolding link_group_user_def unlink_group_user_def
  by (intro store_keeps insertable_tables, simp add: row_clean_eval, rule exec_atomic, intro store_keeps,
      intro atomic_seq_return store_atomic)

section \<open>Names of links\<close>

datatype link_kind = LinkProductApi | LinkProductGroup | LinkResourceTag

text \<open>The table of the association, the column of its owner and the column of its target.\<close>

fun link_table :: "link_kind \<Rightarrow> string \<times> string \<times> string" where
  "link_table LinkProductApi = (''product_apis'', ''product_id'', ''api_id'')"
| "link_table LinkProductGroup = (''product_groups'', ''product_id'', ''group_id'')"
| "link_table LinkResourceTag = (''resource_tags'', ''tag_id'', ''resource_id'')"

definition set_link_name :: "link_kind \<Rightarrow> string \<Rightarrow> string \<Rightarrow> string \<Rightarrow> unit op" where
  "set_link_name kind i target name =
     (case link_table kind of (t, ow, tg) \<Rightarrow>
        op_then (exec_update t (links_pair ow i tg target) [''link_name''] (\<lambda>_. [(''link_name'', TextC name)]))
          (\<lambda>n. if n = 0 then op_fail NotFound else op_return ()))"

definition link_names :: "link_kind \<Rightarrow> string \<Rightarrow> store \<Rightarrow> (string \<rightharpoonup> string)" where
  "link_names kind i s =
     (case link_table kind of (t, ow, tg) \<Rightarrow>
        map_of (rev (map (\<lambda>r. (text_at tg r, text_at ''link_name'' r))
          (sort_key (text_at tg) (filter (names_row ow i) (st_db s t))))))"

lemma set_link_name_sound [store_keeps, store_atomic]: "sound_op (set_link_name kind i target name)"
    "atomic (set_link_name kind i target name)"
  by (cases kind; simp add: set_link_name_def; (intro store_keeps updatable_tables update_or_not_found)?; simp add: secret_keys_def)+

end

