(* ===== verification/StoreConfig.thy ===== *)
theory StoreConfig
  imports StoreCore
begin

text \<open>
  The families of \<open>internal/store/store.go\<close> that configure the developer portal and the service, one
  group of definitions each: the struct of \<open>internal/model/model.go\<close>, its ARM id, the row of its
  \<open>INSERT\<close>, \<open>Upsert\<close>, the row read back, \<open>Get\<close>, \<open>List\<close> and \<open>Delete\<close>.  The map that a sanitizer changes
  in place is here the document of the value returned.
\<close>

section \<open>Articles of documentation\<close>

record documentation =
  documentation_service_id :: string
  documentation_name :: string
  documentation_title :: string
  documentation_content :: string
  documentation_etag :: string
  documentation_document :: json

definition documentation_arm_id :: "documentation \<Rightarrow> string" where
  "documentation_arm_id v = documentation_service_id v @ ''/documentations/'' @ documentation_name v"

definition encode_documentation :: "documentation \<Rightarrow> row" where
  "encode_documentation v = [
    (''id'', TextC (documentation_arm_id v)), (''service_id'', TextC (documentation_service_id v)),
    (''name'', TextC (documentation_name v)), (''title'', TextC (documentation_title v)),
    (''content'', TextC (documentation_content v)), (''document_json'', DocC (documentation_document v)),
    (''etag'', TextC (documentation_etag v))]"

definition upsert_documentation :: "documentation \<Rightarrow> documentation op" where
  "upsert_documentation w = op_then new_etag (\<lambda>e.
       let v = w\<lparr>documentation_etag := e\<rparr> in
       op_seq (exec_insert ''documentations'' (encode_documentation v)
         (Update [''title'', ''content'', ''document_json'', ''etag'']))
       (op_return v))"

definition decode_documentation :: "db \<Rightarrow> row \<Rightarrow> documentation" where
  "decode_documentation d r = \<lparr>
    documentation_service_id = text_at ''service_id'' r, documentation_name = text_at ''name'' r,
    documentation_title = text_at ''title'' r, documentation_content = text_at ''content'' r,
    documentation_etag = text_at ''etag'' r, documentation_document = doc_at ''document_json'' r\<rparr>"

definition get_documentation :: "string \<Rightarrow> documentation lookup" where
  "get_documentation = get_by_id ''documentations'' decode_documentation"

definition list_documentations :: "string \<Rightarrow> store \<Rightarrow> documentation list" where
  "list_documentations = list_by ''documentations'' ''service_id'' decode_documentation"

definition delete_documentation :: "string \<Rightarrow> unit op" where
  "delete_documentation = delete_scoped_resource ''documentations''"

lemma upsert_documentation_keeps [store_keeps]: "sound_op (upsert_documentation w)"
  unfolding upsert_documentation_def Let_def
  by (intro store_keeps insertable_tables) (simp_all add: row_clean_eval)

lemma upsert_documentation_atomic [store_atomic]: "atomic (upsert_documentation w)"
  unfolding upsert_documentation_def Let_def by (intro atomic_then atomic_seq_return store_atomic store_reads)

lemma delete_documentation_sound [store_keeps, store_atomic]: "sound_op (delete_documentation i)" "atomic (delete_documentation i)"
  unfolding delete_documentation_def by (rule delete_scoped_keeps delete_scoped_atomic)+

section \<open>Global schemas\<close>

record global_schema =
  global_schema_service_id :: string
  global_schema_name :: string
  global_schema_schema_type :: string
  global_schema_description :: string
  global_schema_value :: string
  global_schema_schema :: json
  global_schema_document :: json
  global_schema_etag :: string

definition global_schema_arm_id :: "global_schema \<Rightarrow> string" where
  "global_schema_arm_id v = global_schema_service_id v @ ''/schemas/'' @ global_schema_name v"

definition encode_global_schema :: "global_schema \<Rightarrow> row" where
  "encode_global_schema v = [
    (''id'', TextC (global_schema_arm_id v)), (''service_id'', TextC (global_schema_service_id v)),
    (''name'', TextC (global_schema_name v)), (''schema_type'', TextC (global_schema_schema_type v)),
    (''description'', TextC (global_schema_description v)), (''value'', TextC (global_schema_value v)),
    (''schema_json'', DocC (global_schema_schema v)), (''document_json'', DocC (global_schema_document v)),
    (''etag'', TextC (global_schema_etag v))]"

definition upsert_global_schema :: "global_schema \<Rightarrow> global_schema op" where
  "upsert_global_schema w = op_then new_etag (\<lambda>e.
       let v = w\<lparr>global_schema_etag := e\<rparr> in
       op_seq (exec_insert ''global_schemas'' (encode_global_schema v)
         (Update [''schema_type'', ''description'', ''value'', ''schema_json'', ''document_json'', ''etag'']))
       (op_return v))"

definition decode_global_schema :: "db \<Rightarrow> row \<Rightarrow> global_schema" where
  "decode_global_schema d r = \<lparr>
    global_schema_service_id = text_at ''service_id'' r, global_schema_name = text_at ''name'' r,
    global_schema_schema_type = text_at ''schema_type'' r,
    global_schema_description = text_at ''description'' r, global_schema_value = text_at ''value'' r,
    global_schema_schema = doc_at ''schema_json'' r, global_schema_document = doc_at ''document_json'' r,
    global_schema_etag = text_at ''etag'' r\<rparr>"

definition get_global_schema :: "string \<Rightarrow> global_schema lookup" where
  "get_global_schema = get_by_id ''global_schemas'' decode_global_schema"

definition list_global_schemas :: "string \<Rightarrow> store \<Rightarrow> global_schema list" where
  "list_global_schemas = list_by ''global_schemas'' ''service_id'' decode_global_schema"

definition delete_global_schema :: "string \<Rightarrow> unit op" where
  "delete_global_schema = delete_scoped_resource ''global_schemas''"

lemma upsert_global_schema_keeps [store_keeps]: "sound_op (upsert_global_schema w)"
  unfolding upsert_global_schema_def Let_def
  by (intro store_keeps insertable_tables) (simp_all add: row_clean_eval)

lemma upsert_global_schema_atomic [store_atomic]: "atomic (upsert_global_schema w)"
  unfolding upsert_global_schema_def Let_def by (intro atomic_then atomic_seq_return store_atomic store_reads)

lemma delete_global_schema_sound [store_keeps, store_atomic]: "sound_op (delete_global_schema i)" "atomic (delete_global_schema i)"
  unfolding delete_global_schema_def by (rule delete_scoped_keeps delete_scoped_atomic)+

section \<open>Policy restrictions\<close>

record policy_restriction =
  policy_restriction_service_id :: string
  policy_restriction_name :: string
  policy_restriction_scope :: string
  policy_restriction_require_base :: string
  policy_restriction_document :: json
  policy_restriction_etag :: string

definition policy_restriction_arm_id :: "policy_restriction \<Rightarrow> string" where
  "policy_restriction_arm_id v = policy_restriction_service_id v @ ''/policyRestrictions/'' @ policy_restriction_name v"

definition encode_policy_restriction :: "policy_restriction \<Rightarrow> row" where
  "encode_policy_restriction v = [
    (''id'', TextC (policy_restriction_arm_id v)),
    (''service_id'', TextC (policy_restriction_service_id v)),
    (''name'', TextC (policy_restriction_name v)), (''scope'', TextC (policy_restriction_scope v)),
    (''require_base'', TextC (policy_restriction_require_base v)),
    (''document_json'', DocC (policy_restriction_document v)), (''etag'', TextC (policy_restriction_etag v))]"

definition upsert_policy_restriction :: "policy_restriction \<Rightarrow> policy_restriction op" where
  "upsert_policy_restriction w = op_then new_etag (\<lambda>e.
       let v = w\<lparr>policy_restriction_etag := e\<rparr> in
       op_seq (exec_insert ''policy_restrictions'' (encode_policy_restriction v)
         (Update [''scope'', ''require_base'', ''document_json'', ''etag'']))
       (op_return v))"

definition decode_policy_restriction :: "db \<Rightarrow> row \<Rightarrow> policy_restriction" where
  "decode_policy_restriction d r = \<lparr>
    policy_restriction_service_id = text_at ''service_id'' r, policy_restriction_name = text_at ''name'' r,
    policy_restriction_scope = text_at ''scope'' r,
    policy_restriction_require_base = text_at ''require_base'' r,
    policy_restriction_document = doc_at ''document_json'' r, policy_restriction_etag = text_at ''etag'' r\<rparr>"

definition get_policy_restriction :: "string \<Rightarrow> policy_restriction lookup" where
  "get_policy_restriction = get_by_id ''policy_restrictions'' decode_policy_restriction"

definition list_policy_restrictions :: "string \<Rightarrow> store \<Rightarrow> policy_restriction list" where
  "list_policy_restrictions = list_by ''policy_restrictions'' ''service_id'' decode_policy_restriction"

definition delete_policy_restriction :: "string \<Rightarrow> unit op" where
  "delete_policy_restriction = delete_scoped_resource ''policy_restrictions''"

lemma upsert_policy_restriction_keeps [store_keeps]: "sound_op (upsert_policy_restriction w)"
  unfolding upsert_policy_restriction_def Let_def
  by (intro store_keeps insertable_tables) (simp_all add: row_clean_eval)

lemma upsert_policy_restriction_atomic [store_atomic]: "atomic (upsert_policy_restriction w)"
  unfolding upsert_policy_restriction_def Let_def by (intro atomic_then atomic_seq_return store_atomic store_reads)

lemma delete_policy_restriction_sound [store_keeps, store_atomic]: "sound_op (delete_policy_restriction i)" "atomic (delete_policy_restriction i)"
  unfolding delete_policy_restriction_def by (rule delete_scoped_keeps delete_scoped_atomic)+

section \<open>Authorization servers\<close>

record authorization_server =
  authorization_server_service_id :: string
  authorization_server_name :: string
  authorization_server_display_name :: string
  authorization_server_description :: string
  authorization_server_authorization_endpoint :: string
  authorization_server_client_registration_endpoint :: string
  authorization_server_client_id :: string
  authorization_server_client_secret :: string
  authorization_server_token_endpoint :: string
  authorization_server_default_scope :: string
  authorization_server_resource_owner_username :: string
  authorization_server_resource_owner_password :: string
  authorization_server_support_state :: bool
  authorization_server_grant_types :: "string list"
  authorization_server_etag :: string
  authorization_server_document :: json

definition authorization_server_arm_id :: "authorization_server \<Rightarrow> string" where
  "authorization_server_arm_id v = authorization_server_service_id v @ ''/authorizationServers/'' @ authorization_server_name v"

definition encode_authorization_server :: "authorization_server \<Rightarrow> row" where
  "encode_authorization_server v = [
    (''id'', TextC (authorization_server_arm_id v)),
    (''service_id'', TextC (authorization_server_service_id v)),
    (''name'', TextC (authorization_server_name v)),
    (''display_name'', TextC (authorization_server_display_name v)),
    (''description'', TextC (authorization_server_description v)),
    (''authorization_endpoint'', TextC (authorization_server_authorization_endpoint v)),
    (''client_registration_endpoint'', TextC (authorization_server_client_registration_endpoint v)),
    (''client_id'', TextC (authorization_server_client_id v)),
    (''client_secret'', TextC (authorization_server_client_secret v)),
    (''token_endpoint'', TextC (authorization_server_token_endpoint v)),
    (''default_scope'', TextC (authorization_server_default_scope v)),
    (''resource_owner_username'', TextC (authorization_server_resource_owner_username v)),
    (''resource_owner_password'', TextC (authorization_server_resource_owner_password v)),
    (''support_state'', bool_cell (authorization_server_support_state v)),
    (''grant_types_json'', strings_cell (authorization_server_grant_types v)),
    (''document_json'', DocC (authorization_server_document v)),
    (''etag'', TextC (authorization_server_etag v))]"

definition sanitize_authorization_server_document :: "json \<Rightarrow> json" where
  "sanitize_authorization_server_document j =
     delete_property ''clientSecret'' (delete_key ''clientSecret'' j)"

definition upsert_authorization_server :: "authorization_server \<Rightarrow> authorization_server op" where
  "upsert_authorization_server w = op_then new_etag (\<lambda>e.
       let v = w\<lparr>authorization_server_document := sanitize_authorization_server_document (authorization_server_document w), authorization_server_etag := e\<rparr> in
       op_seq (exec_insert ''authorization_servers'' (encode_authorization_server v)
         (Update [''display_name'', ''description'', ''authorization_endpoint'', ''client_registration_endpoint'',
        ''client_id'', ''client_secret'', ''token_endpoint'', ''default_scope'', ''resource_owner_username'',
        ''resource_owner_password'', ''support_state'', ''grant_types_json'', ''document_json'', ''etag'']))
       (op_return v))"

definition decode_authorization_server :: "db \<Rightarrow> row \<Rightarrow> authorization_server" where
  "decode_authorization_server d r = \<lparr>
    authorization_server_service_id = text_at ''service_id'' r,
    authorization_server_name = text_at ''name'' r,
    authorization_server_display_name = text_at ''display_name'' r,
    authorization_server_description = text_at ''description'' r,
    authorization_server_authorization_endpoint = text_at ''authorization_endpoint'' r,
    authorization_server_client_registration_endpoint = text_at ''client_registration_endpoint'' r,
    authorization_server_client_id = text_at ''client_id'' r,
    authorization_server_client_secret = text_at ''client_secret'' r,
    authorization_server_token_endpoint = text_at ''token_endpoint'' r,
    authorization_server_default_scope = text_at ''default_scope'' r,
    authorization_server_resource_owner_username = text_at ''resource_owner_username'' r,
    authorization_server_resource_owner_password = text_at ''resource_owner_password'' r,
    authorization_server_support_state = bool_at ''support_state'' r,
    authorization_server_grant_types = strings_at ''grant_types_json'' r,
    authorization_server_etag = text_at ''etag'' r,
    authorization_server_document = doc_at ''document_json'' r\<rparr>"

definition get_authorization_server :: "string \<Rightarrow> authorization_server lookup" where
  "get_authorization_server = get_by_id ''authorization_servers'' decode_authorization_server"

definition list_authorization_servers :: "string \<Rightarrow> store \<Rightarrow> authorization_server list" where
  "list_authorization_servers = list_by ''authorization_servers'' ''service_id'' decode_authorization_server"

definition delete_authorization_server :: "string \<Rightarrow> unit op" where
  "delete_authorization_server = delete_scoped_resource ''authorization_servers''"

lemma upsert_authorization_server_keeps [store_keeps]: "sound_op (upsert_authorization_server w)"
  unfolding upsert_authorization_server_def Let_def
  by (intro store_keeps insertable_tables) (simp_all add: row_clean_eval encode_authorization_server_def sanitize_authorization_server_document_def)

lemma upsert_authorization_server_atomic [store_atomic]: "atomic (upsert_authorization_server w)"
  unfolding upsert_authorization_server_def Let_def by (intro atomic_then atomic_seq_return store_atomic store_reads)

lemma delete_authorization_server_sound [store_keeps, store_atomic]: "sound_op (delete_authorization_server i)" "atomic (delete_authorization_server i)"
  unfolding delete_authorization_server_def by (rule delete_scoped_keeps delete_scoped_atomic)+

section \<open>OpenID Connect providers\<close>

record openid_connect_provider =
  openid_connect_provider_service_id :: string
  openid_connect_provider_name :: string
  openid_connect_provider_display_name :: string
  openid_connect_provider_description :: string
  openid_connect_provider_metadata_endpoint :: string
  openid_connect_provider_client_id :: string
  openid_connect_provider_client_secret :: string
  openid_connect_provider_etag :: string
  openid_connect_provider_document :: json

definition openid_connect_provider_arm_id :: "openid_connect_provider \<Rightarrow> string" where
  "openid_connect_provider_arm_id v = openid_connect_provider_service_id v @ ''/openidConnectProviders/'' @ openid_connect_provider_name v"

definition encode_openid_connect_provider :: "openid_connect_provider \<Rightarrow> row" where
  "encode_openid_connect_provider v = [
    (''id'', TextC (openid_connect_provider_arm_id v)),
    (''service_id'', TextC (openid_connect_provider_service_id v)),
    (''name'', TextC (openid_connect_provider_name v)),
    (''display_name'', TextC (openid_connect_provider_display_name v)),
    (''description'', TextC (openid_connect_provider_description v)),
    (''metadata_endpoint'', TextC (openid_connect_provider_metadata_endpoint v)),
    (''client_id'', TextC (openid_connect_provider_client_id v)),
    (''client_secret'', TextC (openid_connect_provider_client_secret v)),
    (''document_json'', DocC (openid_connect_provider_document v)),
    (''etag'', TextC (openid_connect_provider_etag v))]"

definition sanitize_openid_connect_provider_document :: "json \<Rightarrow> json" where
  "sanitize_openid_connect_provider_document j =
     delete_property ''clientSecret'' (delete_key ''clientSecret'' j)"

definition upsert_openid_connect_provider :: "openid_connect_provider \<Rightarrow> openid_connect_provider op" where
  "upsert_openid_connect_provider w = op_then new_etag (\<lambda>e.
       let v = w\<lparr>openid_connect_provider_document := sanitize_openid_connect_provider_document (openid_connect_provider_document w), openid_connect_provider_etag := e\<rparr> in
       op_seq (exec_insert ''openid_connect_providers'' (encode_openid_connect_provider v)
         (Update [''display_name'', ''description'', ''metadata_endpoint'', ''client_id'', ''client_secret'',
        ''document_json'', ''etag'']))
       (op_return v))"

definition decode_openid_connect_provider :: "db \<Rightarrow> row \<Rightarrow> openid_connect_provider" where
  "decode_openid_connect_provider d r = \<lparr>
    openid_connect_provider_service_id = text_at ''service_id'' r,
    openid_connect_provider_name = text_at ''name'' r,
    openid_connect_provider_display_name = text_at ''display_name'' r,
    openid_connect_provider_description = text_at ''description'' r,
    openid_connect_provider_metadata_endpoint = text_at ''metadata_endpoint'' r,
    openid_connect_provider_client_id = text_at ''client_id'' r,
    openid_connect_provider_client_secret = text_at ''client_secret'' r,
    openid_connect_provider_etag = text_at ''etag'' r,
    openid_connect_provider_document = doc_at ''document_json'' r\<rparr>"

definition get_openid_connect_provider :: "string \<Rightarrow> openid_connect_provider lookup" where
  "get_openid_connect_provider = get_by_id ''openid_connect_providers'' decode_openid_connect_provider"

definition list_openid_connect_providers :: "string \<Rightarrow> store \<Rightarrow> openid_connect_provider list" where
  "list_openid_connect_providers = list_by ''openid_connect_providers'' ''service_id'' decode_openid_connect_provider"

definition delete_openid_connect_provider :: "string \<Rightarrow> unit op" where
  "delete_openid_connect_provider = delete_scoped_resource ''openid_connect_providers''"

lemma upsert_openid_connect_provider_keeps [store_keeps]: "sound_op (upsert_openid_connect_provider w)"
  unfolding upsert_openid_connect_provider_def Let_def
  by (intro store_keeps insertable_tables) (simp_all add: row_clean_eval encode_openid_connect_provider_def sanitize_openid_connect_provider_document_def)

lemma upsert_openid_connect_provider_atomic [store_atomic]: "atomic (upsert_openid_connect_provider w)"
  unfolding upsert_openid_connect_provider_def Let_def by (intro atomic_then atomic_seq_return store_atomic store_reads)

lemma delete_openid_connect_provider_sound [store_keeps, store_atomic]: "sound_op (delete_openid_connect_provider i)" "atomic (delete_openid_connect_provider i)"
  unfolding delete_openid_connect_provider_def by (rule delete_scoped_keeps delete_scoped_atomic)+

section \<open>Identity providers\<close>

record identity_provider =
  identity_provider_service_id :: string
  identity_provider_name :: string
  identity_provider_client_id :: string
  identity_provider_client_secret :: string
  identity_provider_authority :: string
  identity_provider_signin_tenant :: string
  identity_provider_signup_policy_name :: string
  identity_provider_signin_policy_name :: string
  identity_provider_profile_editing_policy_name :: string
  identity_provider_password_reset_policy_name :: string
  identity_provider_allowed_tenants :: "string list"
  identity_provider_etag :: string
  identity_provider_document :: json

definition identity_provider_arm_id :: "identity_provider \<Rightarrow> string" where
  "identity_provider_arm_id v = identity_provider_service_id v @ ''/identityProviders/'' @ identity_provider_name v"

definition encode_identity_provider :: "identity_provider \<Rightarrow> row" where
  "encode_identity_provider v = [
    (''id'', TextC (identity_provider_arm_id v)), (''service_id'', TextC (identity_provider_service_id v)),
    (''name'', TextC (identity_provider_name v)), (''client_id'', TextC (identity_provider_client_id v)),
    (''client_secret'', TextC (identity_provider_client_secret v)),
    (''authority'', TextC (identity_provider_authority v)),
    (''signin_tenant'', TextC (identity_provider_signin_tenant v)),
    (''signup_policy_name'', TextC (identity_provider_signup_policy_name v)),
    (''signin_policy_name'', TextC (identity_provider_signin_policy_name v)),
    (''profile_editing_policy_name'', TextC (identity_provider_profile_editing_policy_name v)),
    (''password_reset_policy_name'', TextC (identity_provider_password_reset_policy_name v)),
    (''allowed_tenants_json'', strings_cell (identity_provider_allowed_tenants v)),
    (''document_json'', DocC (identity_provider_document v)), (''etag'', TextC (identity_provider_etag v))]"

definition sanitize_identity_provider_document :: "json \<Rightarrow> json" where
  "sanitize_identity_provider_document j =
     delete_property ''clientSecret'' (delete_key ''clientSecret'' j)"

definition upsert_identity_provider :: "identity_provider \<Rightarrow> identity_provider op" where
  "upsert_identity_provider w = op_then new_etag (\<lambda>e.
       let v = w\<lparr>identity_provider_document := sanitize_identity_provider_document (identity_provider_document w), identity_provider_etag := e\<rparr> in
       op_seq (exec_insert ''identity_providers'' (encode_identity_provider v)
         (Update [''client_id'', ''client_secret'', ''authority'', ''signin_tenant'', ''signup_policy_name'',
        ''signin_policy_name'', ''profile_editing_policy_name'', ''password_reset_policy_name'',
        ''allowed_tenants_json'', ''document_json'', ''etag'']))
       (op_return v))"

definition decode_identity_provider :: "db \<Rightarrow> row \<Rightarrow> identity_provider" where
  "decode_identity_provider d r = \<lparr>
    identity_provider_service_id = text_at ''service_id'' r, identity_provider_name = text_at ''name'' r,
    identity_provider_client_id = text_at ''client_id'' r,
    identity_provider_client_secret = text_at ''client_secret'' r,
    identity_provider_authority = text_at ''authority'' r,
    identity_provider_signin_tenant = text_at ''signin_tenant'' r,
    identity_provider_signup_policy_name = text_at ''signup_policy_name'' r,
    identity_provider_signin_policy_name = text_at ''signin_policy_name'' r,
    identity_provider_profile_editing_policy_name = text_at ''profile_editing_policy_name'' r,
    identity_provider_password_reset_policy_name = text_at ''password_reset_policy_name'' r,
    identity_provider_allowed_tenants = strings_at ''allowed_tenants_json'' r,
    identity_provider_etag = text_at ''etag'' r, identity_provider_document = doc_at ''document_json'' r\<rparr>"

definition get_identity_provider :: "string \<Rightarrow> identity_provider lookup" where
  "get_identity_provider = get_by_id ''identity_providers'' decode_identity_provider"

definition list_identity_providers :: "string \<Rightarrow> store \<Rightarrow> identity_provider list" where
  "list_identity_providers = list_by ''identity_providers'' ''service_id'' decode_identity_provider"

definition delete_identity_provider :: "string \<Rightarrow> unit op" where
  "delete_identity_provider = delete_scoped_resource ''identity_providers''"

lemma upsert_identity_provider_keeps [store_keeps]: "sound_op (upsert_identity_provider w)"
  unfolding upsert_identity_provider_def Let_def
  by (intro store_keeps insertable_tables) (simp_all add: row_clean_eval encode_identity_provider_def sanitize_identity_provider_document_def)

lemma upsert_identity_provider_atomic [store_atomic]: "atomic (upsert_identity_provider w)"
  unfolding upsert_identity_provider_def Let_def by (intro atomic_then atomic_seq_return store_atomic store_reads)

lemma delete_identity_provider_sound [store_keeps, store_atomic]: "sound_op (delete_identity_provider i)" "atomic (delete_identity_provider i)"
  unfolding delete_identity_provider_def by (rule delete_scoped_keeps delete_scoped_atomic)+

interpretation identity_provider_rows: stored_rows "''identity_providers''" "''id''" "[''client_id'', ''client_secret'', ''authority'', ''signin_tenant'', ''signup_policy_name'',
    ''signin_policy_name'', ''profile_editing_policy_name'', ''password_reset_policy_name'',
    ''allowed_tenants_json'', ''document_json'', ''etag'']"
    encode_identity_provider decode_identity_provider identity_provider_arm_id "\<lambda>v. (identity_provider_service_id v, identity_provider_name v)"
proof unfold_locales
  show "tb_key (table_of store_schema ''identity_providers'') = [''id'']" by code_simp
qed (simp_all add: encode_identity_provider_def decode_identity_provider_def identity_provider_arm_id_def write_columns_def column_defs document_of_def)

section \<open>Caches\<close>

record cache =
  cache_service_id :: string
  cache_name :: string
  cache_description :: string
  cache_connection_string :: string
  cache_use_from_location :: string
  cache_resource_id :: string
  cache_etag :: string
  cache_document :: json

definition cache_arm_id :: "cache \<Rightarrow> string" where
  "cache_arm_id v = cache_service_id v @ ''/caches/'' @ cache_name v"

definition encode_cache :: "cache \<Rightarrow> row" where
  "encode_cache v = [
    (''id'', TextC (cache_arm_id v)), (''service_id'', TextC (cache_service_id v)),
    (''name'', TextC (cache_name v)), (''description'', TextC (cache_description v)),
    (''connection_string'', TextC (cache_connection_string v)),
    (''use_from_location'', TextC (cache_use_from_location v)),
    (''resource_id'', TextC (cache_resource_id v)), (''document_json'', DocC (cache_document v)),
    (''etag'', TextC (cache_etag v))]"

definition sanitize_cache_document :: "json \<Rightarrow> json" where
  "sanitize_cache_document j =
     delete_property ''connectionString'' (delete_key ''connectionString'' j)"

definition upsert_cache :: "cache \<Rightarrow> cache op" where
  "upsert_cache w = op_then new_etag (\<lambda>e.
       let v = w\<lparr>cache_document := sanitize_cache_document (cache_document w), cache_etag := e\<rparr> in
       op_seq (exec_insert ''caches'' (encode_cache v)
         (Update [''description'', ''connection_string'', ''use_from_location'', ''resource_id'', ''document_json'',
        ''etag'']))
       (op_return v))"

definition decode_cache :: "db \<Rightarrow> row \<Rightarrow> cache" where
  "decode_cache d r = \<lparr>
    cache_service_id = text_at ''service_id'' r, cache_name = text_at ''name'' r,
    cache_description = text_at ''description'' r,
    cache_connection_string = text_at ''connection_string'' r,
    cache_use_from_location = text_at ''use_from_location'' r,
    cache_resource_id = text_at ''resource_id'' r, cache_etag = text_at ''etag'' r,
    cache_document = doc_at ''document_json'' r\<rparr>"

definition get_cache :: "string \<Rightarrow> cache lookup" where
  "get_cache = get_by_id ''caches'' decode_cache"

definition list_caches :: "string \<Rightarrow> store \<Rightarrow> cache list" where
  "list_caches = list_by ''caches'' ''service_id'' decode_cache"

definition delete_cache :: "string \<Rightarrow> unit op" where
  "delete_cache = delete_scoped_resource ''caches''"

lemma upsert_cache_keeps [store_keeps]: "sound_op (upsert_cache w)"
  unfolding upsert_cache_def Let_def
  by (intro store_keeps insertable_tables) (simp_all add: row_clean_eval encode_cache_def sanitize_cache_document_def)

lemma upsert_cache_atomic [store_atomic]: "atomic (upsert_cache w)"
  unfolding upsert_cache_def Let_def by (intro atomic_then atomic_seq_return store_atomic store_reads)

lemma delete_cache_sound [store_keeps, store_atomic]: "sound_op (delete_cache i)" "atomic (delete_cache i)"
  unfolding delete_cache_def by (rule delete_scoped_keeps delete_scoped_atomic)+

interpretation cache_rows: stored_rows "''caches''" "''id''" "[''description'', ''connection_string'', ''use_from_location'', ''resource_id'', ''document_json'',
    ''etag'']"
    encode_cache decode_cache cache_arm_id "\<lambda>v. (cache_service_id v, cache_name v)"
proof unfold_locales
  show "tb_key (table_of store_schema ''caches'') = [''id'']" by code_simp
qed (simp_all add: encode_cache_def decode_cache_def cache_arm_id_def write_columns_def column_defs document_of_def)

section \<open>Tenant access\<close>

text \<open>The two rows of a service exist from its creation; there is no insert and no delete.\<close>

record tenant_access =
  tenant_access_service_id :: string
  tenant_access_name :: string
  tenant_access_principal_id :: string
  tenant_access_primary_key :: string
  tenant_access_secondary_key :: string
  tenant_access_enabled :: bool
  tenant_access_etag :: string

definition tenant_access_arm_id :: "tenant_access \<Rightarrow> string" where
  "tenant_access_arm_id v = tenant_access_service_id v @ ''/tenant/'' @ tenant_access_name v"

definition encode_tenant_access :: "tenant_access \<Rightarrow> row" where
  "encode_tenant_access v = [
    (''principal_id'', TextC (tenant_access_principal_id v)),
    (''primary_key'', TextC (tenant_access_primary_key v)),
    (''secondary_key'', TextC (tenant_access_secondary_key v)),
    (''enabled'', bool_cell (tenant_access_enabled v)), (''etag'', TextC (tenant_access_etag v))]"

definition upsert_tenant_access :: "tenant_access \<Rightarrow> tenant_access op" where
  "upsert_tenant_access w = op_then new_etag (\<lambda>e.
       let v = w\<lparr>tenant_access_etag := e\<rparr> in
       op_then (exec_update ''tenant_access'' (names_row ''id'' (tenant_access_arm_id v))
         [''principal_id'', ''primary_key'', ''secondary_key'', ''enabled'', ''etag''] (\<lambda>_. encode_tenant_access v))
       (\<lambda>n. if n = 0 then op_fail NotFound else op_return v))"

definition decode_tenant_access :: "db \<Rightarrow> row \<Rightarrow> tenant_access" where
  "decode_tenant_access d r = \<lparr>
    tenant_access_service_id = text_at ''service_id'' r, tenant_access_name = text_at ''name'' r,
    tenant_access_principal_id = text_at ''principal_id'' r,
    tenant_access_primary_key = text_at ''primary_key'' r,
    tenant_access_secondary_key = text_at ''secondary_key'' r,
    tenant_access_enabled = bool_at ''enabled'' r, tenant_access_etag = text_at ''etag'' r\<rparr>"

definition get_tenant_access :: "string \<Rightarrow> tenant_access lookup" where
  "get_tenant_access = get_by_id ''tenant_access'' decode_tenant_access"

definition list_tenant_access :: "string \<Rightarrow> store \<Rightarrow> tenant_access list" where
  "list_tenant_access = list_by ''tenant_access'' ''service_id'' decode_tenant_access"

lemma upsert_tenant_access_keeps [store_keeps]: "sound_op (upsert_tenant_access w)"
  unfolding upsert_tenant_access_def Let_def
  by (intro store_keeps updatable_tables) (simp add: secret_keys_def)

lemma upsert_tenant_access_atomic [store_atomic]: "atomic (upsert_tenant_access w)"
  unfolding upsert_tenant_access_def Let_def
  by (intro atomic_then store_reads update_or_not_found)

end
