(* ===== verification/StoreServices.thy ===== *)
theory StoreServices
  imports StoreApis StorePeople StoreConfig GatewayTokens
begin

text \<open>
  Services with what \<open>UpsertService\<close> seeds, workspaces, products with their APIs, subscriptions, and
  \<open>RuntimeData\<close>, in \<open>internal/store/store.go\<close>.
\<close>

section \<open>Services\<close>

record apim_service =
  apim_service_subscription_id :: string
  apim_service_resource_group :: string
  apim_service_name :: string
  apim_service_location :: string
  apim_service_sku_name :: string
  apim_service_sku_capacity :: int
  apim_service_publisher_name :: string
  apim_service_publisher_email :: string
  apim_service_provisioning_state :: string
  apim_service_etag :: string
  apim_service_document :: json

definition apim_service_arm_id :: "apim_service \<Rightarrow> string" where
  "apim_service_arm_id v = ''/subscriptions/'' @ apim_service_subscription_id v @ ''/resourceGroups/'' @ apim_service_resource_group v @ ''/providers/Microsoft.ApiManagement/service/'' @ apim_service_name v"

definition encode_apim_service :: "apim_service \<Rightarrow> row" where
  "encode_apim_service v = [
    (''id'', TextC (apim_service_arm_id v)), (''subscription_id'', TextC (apim_service_subscription_id v)),
    (''resource_group'', TextC (apim_service_resource_group v)), (''name'', TextC (apim_service_name v)),
    (''location'', TextC (apim_service_location v)), (''sku_name'', TextC (apim_service_sku_name v)),
    (''sku_capacity'', IntC (apim_service_sku_capacity v)),
    (''publisher_name'', TextC (apim_service_publisher_name v)),
    (''publisher_email'', TextC (apim_service_publisher_email v)),
    (''provisioning_state'', TextC (apim_service_provisioning_state v)),
    (''etag'', TextC (apim_service_etag v))]"

definition decode_apim_service :: "bool \<Rightarrow> db \<Rightarrow> row \<Rightarrow> apim_service" where
  "decode_apim_service exact d r = \<lparr>
    apim_service_subscription_id = text_at ''subscription_id'' r,
    apim_service_resource_group = text_at ''resource_group'' r, apim_service_name = text_at ''name'' r,
    apim_service_location = text_at ''location'' r, apim_service_sku_name = text_at ''sku_name'' r,
    apim_service_sku_capacity = int_at ''sku_capacity'' r,
    apim_service_publisher_name = text_at ''publisher_name'' r,
    apim_service_publisher_email = text_at ''publisher_email'' r,
    apim_service_provisioning_state = text_at ''provisioning_state'' r,
    apim_service_etag = text_at ''etag'' r,
    apim_service_document = (case side_row exact ''resource_documents'' ''id'' d r of
      Some q \<Rightarrow> doc_at ''document_json'' q | None \<Rightarrow> JNull)\<rparr>"

definition seed_group :: "string \<Rightarrow> string \<times> string \<Rightarrow> unit op" where
  "seed_group i g = (case g of (name, title) \<Rightarrow>
     op_then new_etag (\<lambda>e. exec_insert ''groups'' [
       (''id'', TextC (i @ ''/groups/'' @ name)), (''service_id'', TextC i), (''name'', TextC name),
       (''display_name'', TextC title), (''description'', TextC []), (''type'', TextC ''system''),
       (''external_id'', TextC []), (''built_in'', IntC 1), (''etag'', TextC e)] Ignore))"

definition seed_access :: "string \<Rightarrow> string \<times> string \<Rightarrow> unit op" where
  "seed_access i a = (case a of (name, owner) \<Rightarrow>
     op_then new_access_key (\<lambda>k1. op_then new_access_key (\<lambda>k2. op_then new_etag (\<lambda>e.
     exec_insert ''tenant_access'' [
       (''id'', TextC (i @ ''/tenant/'' @ name)), (''service_id'', TextC i), (''name'', TextC name),
       (''principal_id'', TextC owner), (''primary_key'', TextC k1), (''secondary_key'', TextC k2),
       (''enabled'', IntC 0), (''etag'', TextC e)] Ignore))))"

definition upsert_service :: "apim_service \<Rightarrow> apim_service op" where
  "upsert_service w = op_then new_etag (\<lambda>e.
       let v = w\<lparr>apim_service_etag := e,
             apim_service_provisioning_state :=
               (if apim_service_provisioning_state w = [] then ''Succeeded'' else apim_service_provisioning_state w)\<rparr>;
           i = apim_service_arm_id v in transaction
       (op_seq (exec_insert ''services'' (encode_apim_service v)
         (Update [''location'', ''sku_name'', ''sku_capacity'', ''publisher_name'', ''publisher_email'',
        ''provisioning_state'', ''etag'']))
       (op_seq (exec_insert ''scopes'' [(''id'', TextC i), (''service_id'', TextC i)] Ignore)
       (op_seq (op_each (seed_group i)
          [(''administrators'', ''Administrators''), (''developers'', ''Developers''), (''guests'', ''Guests'')])
       (op_seq (op_each (seed_access i) [(''access'', []), (''gitAccess'', ''git'')])
       (op_seq (if apim_service_document v = JNull then op_return ()
          else exec_insert ''resource_documents'' (document_row ''id'' i (apim_service_document v)) (Update [''document_json'']))
       (op_return v)))))))"

definition get_service :: "string \<Rightarrow> apim_service lookup" where
  "get_service = get_by_id ''services'' (decode_apim_service False)"

definition list_services :: "store \<Rightarrow> apim_service list" where
  "list_services = query_sorted ''services'' (\<lambda>_. True) ''id'' (decode_apim_service True)"

definition delete_service :: "string \<Rightarrow> unit op" where
  "delete_service = delete_scoped_resource ''services''"

section \<open>Workspaces\<close>

record workspace =
  workspace_service_id :: string
  workspace_name :: string
  workspace_display_name :: string
  workspace_description :: string
  workspace_document :: json
  workspace_etag :: string

definition workspace_arm_id :: "workspace \<Rightarrow> string" where
  "workspace_arm_id v = workspace_service_id v @ ''/workspaces/'' @ workspace_name v"

definition encode_workspace :: "workspace \<Rightarrow> row" where
  "encode_workspace v = [
    (''id'', TextC (workspace_arm_id v)), (''service_id'', TextC (workspace_service_id v)),
    (''name'', TextC (workspace_name v)), (''display_name'', TextC (workspace_display_name v)),
    (''description'', TextC (workspace_description v)), (''document_json'', DocC (workspace_document v)),
    (''etag'', TextC (workspace_etag v))]"

text \<open>The scope of a workspace comes first, and its deletion takes what hangs off it.\<close>

definition upsert_workspace :: "workspace \<Rightarrow> workspace op" where
  "upsert_workspace w = op_then new_etag (\<lambda>e.
       let v = w\<lparr>workspace_etag := e\<rparr> in transaction
       (op_seq (exec_insert ''scopes'' [(''id'', TextC (workspace_arm_id v)), (''service_id'', TextC (workspace_service_id v))] Ignore)
       (op_seq (exec_insert ''workspaces'' (encode_workspace v)
         (Update [''display_name'', ''description'', ''document_json'', ''etag'']))
       (op_return v))))"

definition decode_workspace :: "db \<Rightarrow> row \<Rightarrow> workspace" where
  "decode_workspace d r = \<lparr>
    workspace_service_id = text_at ''service_id'' r, workspace_name = text_at ''name'' r,
    workspace_display_name = text_at ''display_name'' r, workspace_description = text_at ''description'' r,
    workspace_document = doc_at ''document_json'' r, workspace_etag = text_at ''etag'' r\<rparr>"

definition get_workspace :: "string \<Rightarrow> workspace lookup" where
  "get_workspace = get_by_id ''workspaces'' decode_workspace"

definition list_workspaces :: "string \<Rightarrow> store \<Rightarrow> workspace list" where
  "list_workspaces = list_by ''workspaces'' ''service_id'' decode_workspace"

definition delete_workspace :: "string \<Rightarrow> unit op" where
  "delete_workspace = delete_scoped_resource ''scopes''"

section \<open>Products\<close>

record product =
  product_service_id :: string
  product_name :: string
  product_display_name :: string
  product_state :: string
  product_approval_required :: bool
  product_etag :: string
  product_document :: json

definition product_arm_id :: "product \<Rightarrow> string" where
  "product_arm_id v = product_service_id v @ ''/products/'' @ product_name v"

definition encode_product :: "product \<Rightarrow> row" where
  "encode_product v = [
    (''id'', TextC (product_arm_id v)), (''service_id'', TextC (product_service_id v)),
    (''name'', TextC (product_name v)), (''display_name'', TextC (product_display_name v)),
    (''state'', TextC (product_state v)), (''approval_required'', bool_cell (product_approval_required v)),
    (''etag'', TextC (product_etag v))]"

definition upsert_product :: "product \<Rightarrow> product op" where
  "upsert_product w = op_then new_etag (\<lambda>e.
       let v = w\<lparr>product_etag := e\<rparr> in transaction
       (op_seq (exec_insert ''products'' (encode_product v)
         (Update [''display_name'', ''state'', ''approval_required'', ''etag'']))
       (op_seq (exec_insert ''product_documents'' (document_row ''product_id'' (product_arm_id v) (product_document v)) (Update [''document_json'']))
       (op_return v))))"

definition decode_product :: "bool \<Rightarrow> db \<Rightarrow> row \<Rightarrow> product" where
  "decode_product exact d r = \<lparr>
    product_service_id = text_at ''service_id'' r, product_name = text_at ''name'' r,
    product_display_name = text_at ''display_name'' r, product_state = text_at ''state'' r,
    product_approval_required = bool_at ''approval_required'' r, product_etag = text_at ''etag'' r,
    product_document = document_beside exact ''product_documents'' ''product_id'' d r\<rparr>"

definition get_product :: "string \<Rightarrow> product lookup" where
  "get_product = get_by_id ''products'' (decode_product False)"

definition scan_products :: "store \<Rightarrow> product list" where
  "scan_products = query_sorted ''products'' (\<lambda>_. True) ''id'' (decode_product True)"

definition list_products :: "string \<Rightarrow> store \<Rightarrow> product list" where
  "list_products i s = filter (\<lambda>v. equal_fold (product_service_id v) i) (scan_products s)"

definition delete_product :: "string \<Rightarrow> unit op" where
  "delete_product = delete_scoped_resource ''products''"

definition link_product_api :: "string \<Rightarrow> string \<Rightarrow> unit op" where
  "link_product_api p a = exec_insert ''product_apis''
     [(''product_id'', TextC p), (''api_id'', TextC a), (''link_name'', TextC [])] Ignore"

definition unlink_product_api :: "string \<Rightarrow> string \<Rightarrow> unit op" where
  "unlink_product_api p a =
     op_then (exec_delete ''product_apis'' (links_pair ''product_id'' p ''api_id'' a))
       (\<lambda>n. if n = 0 then op_fail NotFound else op_return ())"

text \<open>A Go map from a product to its APIs; the order in which a loop visits its keys is an argument.\<close>

definition scan_links :: "store \<Rightarrow> (string \<times> string list) list" where
  "scan_links s =
     (let rows = sort_key (text_at ''product_id'') (sort_key (text_at ''api_id'') (st_db s ''product_apis'')) in
      map (\<lambda>p. (p, map (text_at ''api_id'') (filter (\<lambda>r. text_at ''product_id'' r = p) rows)))
        (remdups (map (text_at ''product_id'') rows)))"

definition list_product_apis ::
  "((string \<times> string list) list \<Rightarrow> (string \<times> string list) list) \<Rightarrow> string \<Rightarrow> store \<Rightarrow> string list" where
  "list_product_apis visit p s =
     (case find (\<lambda>(i, _). equal_fold i p) (visit (scan_links s)) of Some (_, as) \<Rightarrow> as | None \<Rightarrow> [])"

section \<open>Subscriptions\<close>

record subscription =
  subscription_service_id :: string
  subscription_name :: string
  subscription_display_name :: string
  subscription_scope :: string
  subscription_state :: string
  subscription_primary_key :: string
  subscription_secondary_key :: string
  subscription_etag :: string
  subscription_document :: json

definition subscription_arm_id :: "subscription \<Rightarrow> string" where
  "subscription_arm_id v = subscription_service_id v @ ''/subscriptions/'' @ subscription_name v"

definition encode_subscription :: "subscription \<Rightarrow> row" where
  "encode_subscription v = [
    (''id'', TextC (subscription_arm_id v)), (''service_id'', TextC (subscription_service_id v)),
    (''name'', TextC (subscription_name v)), (''display_name'', TextC (subscription_display_name v)),
    (''scope'', TextC (subscription_scope v)), (''state'', TextC (subscription_state v)),
    (''primary_key'', TextC (subscription_primary_key v)),
    (''secondary_key'', TextC (subscription_secondary_key v)), (''etag'', TextC (subscription_etag v))]"

definition sanitize_subscription_document :: "json \<Rightarrow> json" where
  "sanitize_subscription_document j =
     delete_property ''secondaryKey'' (delete_property ''primaryKey'' (delete_key ''secondaryKey'' (delete_key ''primaryKey'' j)))"

definition decode_subscription :: "bool \<Rightarrow> db \<Rightarrow> row \<Rightarrow> subscription" where
  "decode_subscription exact d r = \<lparr>
    subscription_service_id = text_at ''service_id'' r, subscription_name = text_at ''name'' r,
    subscription_display_name = text_at ''display_name'' r, subscription_scope = text_at ''scope'' r,
    subscription_state = text_at ''state'' r, subscription_primary_key = text_at ''primary_key'' r,
    subscription_secondary_key = text_at ''secondary_key'' r, subscription_etag = text_at ''etag'' r,
    subscription_document = document_beside exact ''subscription_documents'' ''subscription_id'' d r\<rparr>"

definition get_subscription :: "string \<Rightarrow> subscription lookup" where
  "get_subscription = get_by_id ''subscriptions'' (\<lambda>d r.
     let v = decode_subscription False d r in
     if subscription_document v = JNull then v\<lparr>subscription_document := JObj []\<rparr> else v)"

definition scan_subscriptions :: "store \<Rightarrow> subscription list" where
  "scan_subscriptions = query_sorted ''subscriptions'' (\<lambda>_. True) ''id'' (decode_subscription True)"

definition list_subscriptions :: "string \<Rightarrow> store \<Rightarrow> subscription list" where
  "list_subscriptions i s = filter (\<lambda>v. equal_fold (subscription_service_id v) i) (scan_subscriptions s)"

definition delete_subscription :: "string \<Rightarrow> unit op" where
  "delete_subscription = delete_scoped_resource ''subscriptions''"

text \<open>A date given is kept, then one stored, and otherwise it is now.\<close>

definition text_entry :: "(string \<times> json) list \<Rightarrow> string \<Rightarrow> string option" where
  "text_entry kvs k = (case map_of kvs k of Some (JStr x) \<Rightarrow> (if x \<noteq> [] then Some x else None) | _ \<Rightarrow> None)"

definition object_entries :: "json option \<Rightarrow> (string \<times> json) list" where
  "object_entries j = (case j of Some (JObj kvs) \<Rightarrow> kvs | _ \<Rightarrow> [])"

definition stamp_date :: "string \<Rightarrow> (string \<times> json) list \<Rightarrow> string \<Rightarrow> (string \<times> json) list \<Rightarrow> (string \<times> json) list" where
  "stamp_date now carried k ps =
     (case text_entry ps k of
        Some _ \<Rightarrow> ps
      | None \<Rightarrow> jset k (JStr (case text_entry carried k of Some x \<Rightarrow> x | None \<Rightarrow> now)) ps)"

definition stamp_subscription_dates :: "json \<Rightarrow> string \<Rightarrow> store \<Rightarrow> json" where
  "stamp_subscription_dates document i s =
     (let kvs = object_entries (Some document);
          stored = (case get_subscription i s of Ok v \<Rightarrow> subscription_document v | Err _ \<Rightarrow> JNull);
          carried = object_entries (jget ''properties'' stored);
          now = rfc3339_text (seconds (st_now s));
          ps = stamp_date now carried ''startDate''
            (stamp_date now carried ''createdDate'' (object_entries (map_of kvs ''properties''))) in
      JObj (jset ''properties'' (JObj ps) kvs))"

definition upsert_subscription :: "subscription \<Rightarrow> subscription op" where
  "upsert_subscription w =
     op_then (op_read (stamp_subscription_dates (sanitize_subscription_document (subscription_document w)) (subscription_arm_id w)))
       (\<lambda>document.
     op_then (if subscription_primary_key w = [] then new_opaque_id else op_return (subscription_primary_key w)) (\<lambda>primary.
     op_then (if subscription_secondary_key w = [] then new_opaque_id else op_return (subscription_secondary_key w)) (\<lambda>secondary.
     op_then new_etag (\<lambda>e.
       let v = w\<lparr>subscription_document := document, subscription_primary_key := primary,
             subscription_secondary_key := secondary,
             subscription_state := (if subscription_state w = [] then ''active'' else subscription_state w),
             subscription_etag := e\<rparr> in transaction
       (op_seq (exec_insert ''subscriptions'' (encode_subscription v)
         (Update [''display_name'', ''scope'', ''state'', ''primary_key'', ''secondary_key'', ''etag'']))
       (op_seq (exec_insert ''subscription_documents'' (document_row ''subscription_id'' (subscription_arm_id v) (subscription_document v)) (Update [''document_json'']))
       (op_return v)))))))"

definition regenerate_subscription_key :: "string \<Rightarrow> bool \<Rightarrow> subscription op" where
  "regenerate_subscription_key i primary =
     op_then new_opaque_id (\<lambda>k. op_then new_etag (\<lambda>e.
     op_then (exec_update ''subscriptions'' (names_row ''id'' i)
         (if primary then [''primary_key'', ''etag''] else [''secondary_key'', ''etag''])
         (\<lambda>_. [(''primary_key'', TextC k), (''secondary_key'', TextC k), (''etag'', TextC e)]))
       (\<lambda>n. if n = 0 then op_fail NotFound else op_lookup (get_subscription i))))"

section \<open>What the gateway loads\<close>

definition runtime_rows ::
  "store \<Rightarrow> apim_service list \<times> api list \<times> api_operation list \<times> product list \<times> (string \<times> string list) list \<times>
     subscription list \<times> stored_policy list" where
  "runtime_rows s = (list_services s, scan_apis s, scan_operations s, scan_products s, scan_links s,
     scan_subscriptions s, scan_policies s)"

section \<open>Soundness of the operations\<close>

lemma seeds_keep [store_keeps]: "sound_op (seed_group i g)" "sound_op (seed_access i a)"
  unfolding seed_group_def seed_access_def
  by ((intro store_keeps sound_prod insertable_plainly insertable_tables, simp_all add: row_clean_eval)+)

lemma upsert_service_sound [store_keeps, store_atomic]: "sound_op (upsert_service w)" "atomic (upsert_service w)"
proof -
  show "sound_op (upsert_service w)"
    unfolding upsert_service_def Let_def
    by (intro store_keeps insertable_tables) (simp_all add: row_clean_eval)
  show "atomic (upsert_service w)"
    unfolding upsert_service_def Let_def by (intro atomic_then store_atomic store_reads)
qed

lemma upsert_workspace_sound [store_keeps, store_atomic]: "sound_op (upsert_workspace w)" "atomic (upsert_workspace w)"
proof -
  show "sound_op (upsert_workspace w)"
    unfolding upsert_workspace_def Let_def
    by (intro store_keeps insertable_tables) (simp_all add: row_clean_eval)
  show "atomic (upsert_workspace w)"
    unfolding upsert_workspace_def Let_def by (intro atomic_then store_atomic store_reads)
qed

lemma delete_scopes_sound [store_keeps, store_atomic]: "sound_op (delete_service i)" "atomic (delete_service i)"
    "sound_op (delete_workspace i)" "atomic (delete_workspace i)"
  unfolding delete_service_def delete_workspace_def by (rule delete_scoped_keeps delete_scoped_atomic)+


lemma upsert_product_keeps [store_keeps]: "sound_op (upsert_product w)"
  unfolding upsert_product_def Let_def
  by (intro store_keeps insertable_tables) (simp_all add: row_clean_eval)

lemma upsert_product_atomic [store_atomic]: "atomic (upsert_product w)"
  unfolding upsert_product_def Let_def by (intro atomic_then atomic_seq_return store_atomic store_reads)

lemma delete_product_sound [store_keeps, store_atomic]: "sound_op (delete_product i)" "atomic (delete_product i)"
  unfolding delete_product_def by (rule delete_scoped_keeps delete_scoped_atomic)+

lemma product_api_sound [store_keeps, store_atomic]:
  "sound_op (link_product_api p a)" "atomic (link_product_api p a)"
  "sound_op (unlink_product_api p a)" "atomic (unlink_product_api p a)"
  unfolding link_product_api_def unlink_product_api_def
  by (intro store_keeps insertable_tables, simp add: row_clean_eval, rule exec_atomic, intro store_keeps,
      rule delete_or_not_found)

text \<open>Stamping the dates brings no key back.\<close>

lemma map_of_stamp [simp]:
  "k \<noteq> c \<Longrightarrow> map_of (stamp_date now carried c ps) k = map_of ps k"
  by (simp add: stamp_date_def split: option.splits)

lemma lacks_stamped:
  assumes "lacks k j" and "k \<notin> {''properties'', ''createdDate'', ''startDate''}"
  shows "lacks k (stamp_subscription_dates j i s)"
proof -
  have "map_of (object_entries (Some j)) k = None"
    using assms(1) by (auto simp: lacks_def object_entries_def jget_def split: json.splits)
  moreover have "map_of (object_entries (map_of (object_entries (Some j)) ''properties'')) k = None"
    using assms(1)
    by (auto simp: lacks_def lacks_property_def object_entries_def jget_def split: json.splits option.splits)
  ultimately show ?thesis
    using assms(2) by (simp add: stamp_subscription_dates_def Let_def lacks_def lacks_property_def jget_def)
qed

lemma sound_read_then: "(\<And>s. sound_op (f (g s))) \<Longrightarrow> sound_op (op_then (op_read g) f)"
  by (simp add: sound_op_def op_then_eval op_read_def)

lemma upsert_subscription_keeps [store_keeps]: "sound_op (upsert_subscription w)"
  unfolding upsert_subscription_def Let_def
  by (rule sound_read_then, intro store_keeps insertable_tables)
    (simp_all add: row_clean_def secret_keys_def document_row_def doc_at_def col_def lacks_stamped
      sanitize_subscription_document_def lacks_def [of _ "delete_property _ _"])

lemma upsert_subscription_atomic [store_atomic]: "atomic (upsert_subscription w)"
  unfolding upsert_subscription_def Let_def by (intro atomic_then atomic_seq_return store_atomic store_reads)

lemma delete_subscription_sound [store_keeps, store_atomic]: "sound_op (delete_subscription i)" "atomic (delete_subscription i)"
  unfolding delete_subscription_def by (rule delete_scoped_keeps delete_scoped_atomic)+

lemma updatable_mono: "updatable t us \<Longrightarrow> set cs \<subseteq> set us \<Longrightarrow> updatable t cs"
  unfolding updatable_def by blast

lemma regenerate_keeps [store_keeps]: "sound_op (regenerate_subscription_key i primary)"
  unfolding regenerate_subscription_key_def
  by (intro store_keeps updatable_mono [OF updatable_tables(6)]) (auto simp: secret_keys_def)

lemma regenerate_atomic [store_atomic]: "atomic (regenerate_subscription_key i primary)"
proof -
  have found: "\<exists>v. get_subscription i (s\<lparr>st_db := update_rows ''subscriptions'' (names_row ''id'' i) cs f (st_db s)\<rparr>) = Ok v"
    if some: "filter (names_row ''id'' i) (st_db s ''subscriptions'') \<noteq> []" and cs: "''id'' \<notin> set cs" for s :: store and cs f
  proof -
    let ?g = "\<lambda>r. if names_row ''id'' i r then write_columns cs (f r) r else r"
    obtain r where r: "r \<in> set (st_db s ''subscriptions'')" "names_row ''id'' i r" using some by (auto simp: filter_empty_conv)
    then have "names_row ''id'' i (?g r)" using cs by (simp add: names_row_def text_at_def col_write)
    then have "find (names_row ''id'' i) (map ?g (st_db s ''subscriptions'')) \<noteq> None"
      using r(1) unfolding find_None_iff by (metis (no_types, lifting) image_eqI list.set_map)
    then show ?thesis by (auto simp: get_subscription_def get_by_id_def query_row_def update_rows_def split: option.splits)
  qed
  have unchanged: "update_rows t p cs f d = d" if "filter p (d t) = []" for t p cs f and d :: db
  proof -
    have "map (\<lambda>r. if p r then write_columns cs (f r) r else r) (d t) = d t"
      using that by (intro map_idI) (auto simp: filter_empty_conv)
    then show ?thesis by (simp add: update_rows_def)
  qed
  show ?thesis
    unfolding regenerate_subscription_key_def
  proof (rule atomic_then [OF readonly_intros(5)], rule atomic_then [OF readonly_etag])
    fix k e
    show "atomic (op_then (exec_update ''subscriptions'' (names_row ''id'' i)
         (if primary then [''primary_key'', ''etag''] else [''secondary_key'', ''etag''])
         (\<lambda>_. [(''primary_key'', TextC k), (''secondary_key'', TextC k), (''etag'', TextC e)]))
       (\<lambda>n. if n = 0 then op_fail NotFound else op_lookup (get_subscription i)))" (is "atomic ?m")
      unfolding atomic_def
    proof (intro allI impI)
      fix s x s'
      assume run: "?m s = (Err x, s')"
      show "st_db s' = st_db s"
      proof (cases "filter (names_row ''id'' i) (st_db s ''subscriptions'') = []")
        case True
        then show ?thesis using run by (auto simp: op_then_eval exec_update_def op_fail_def unchanged)
      next
        case False
        have "''id'' \<notin> set (if primary then [''primary_key'', ''etag''] else [''secondary_key'', ''etag''])" by simp
        from found [OF False this, of "\<lambda>_. [(''primary_key'', TextC k), (''secondary_key'', TextC k), (''etag'', TextC e)]"]
        obtain v where "get_subscription i (snd (exec_update ''subscriptions'' (names_row ''id'' i)
            (if primary then [''primary_key'', ''etag''] else [''secondary_key'', ''etag''])
            (\<lambda>_. [(''primary_key'', TextC k), (''secondary_key'', TextC k), (''etag'', TextC e)]) s)) = Ok v"
          unfolding exec_update_def snd_conv by blast
        then have "fst (?m s) = Ok v"
          using False by (cases primary) (simp_all add: op_then_eval exec_update_def op_lookup_def)
        then show ?thesis using run by simp
      qed
    qed
  qed
qed

end

