(* ===== verification/StorePromises.thy ===== *)
theory StorePromises
  imports StoreFacts
begin

text \<open>
  The properties of the store: what every run of its calls keeps, what a failed call leaves, what
  lookups find after an upsert, and what deletions and releases reach.
\<close>

section \<open>Runs\<close>

text \<open>An empty store, with draws that count and SQLite's actions in the order of the schema.\<close>

definition demo_store :: store where
  "demo_store = \<lparr>st_db = (\<lambda>_. []), st_now = 0, st_drawn = 0, st_opaque = (\<lambda>n. replicate n (CHR ''a'')),
     st_access_key = (\<lambda>n. replicate n (CHR ''b'')), st_order = (\<lambda>xs. xs)\<rparr>"

definition demo_policy :: stored_policy where
  "demo_policy = \<lparr>stored_policy_scope_id = ''/s'', stored_policy_format = ''xml'', stored_policy_value = ''<policies/>'',
     stored_policy_etag = []\<rparr>"

text \<open>A store with one service.\<close>

definition demo_scoped :: store where
  "demo_scoped = demo_store\<lparr>st_db := (\<lambda>_. [])
     (''services'' := [[(''id'', TextC ''/s'')]],
      ''scopes'' := [[(''id'', TextC ''/s''), (''service_id'', TextC ''/s'')]])\<rparr>"

lemma demo_tables:
  "table_of store_schema ''services'' = table ''services'' [''id''] [] []"
  "table_of store_schema ''scopes'' = table ''scopes'' [''id''] [] [cascade ''service_id'' ''services'']"
  by code_simp+

lemma demo_scoped_ok: "store_ok demo_scoped"
proof -
  have "rows_ok tb (st_db demo_scoped (tb_name tb)) \<and> refs_ok tb (st_db demo_scoped)" if tb: "tb \<in> set store_schema" for tb
  proof -
    consider "tb = table ''services'' [''id''] [] []" | "tb = table ''scopes'' [''id''] [] [cascade ''service_id'' ''services'']"
      | "tb_name tb \<notin> {''services'', ''scopes''}"
      using table_of_in [OF store_schema_ok tb] demo_tables by force
    then show ?thesis
      by cases (auto simp: rows_ok_def refs_ok_def demo_scoped_def demo_store_def table_def cascade_def parent_exists_def col_def)
  qed
  moreover have "row_clean t r" if "r \<in> set (st_db demo_scoped t)" for t r
    using that by (auto simp: demo_scoped_def row_clean_def secret_keys_def split: if_splits)
  ultimately show ?thesis
    by (simp add: store_ok_def db_ok_def list_all_iff) (simp add: demo_scoped_def demo_store_def permutes_def)
qed

lemma demo_store_empty: "empty_store demo_store"
  by (simp add: empty_store_def demo_store_def permutes_def)



text \<open>
  C7. A call that fails leaves the database as it was, whichever of its statements failed: the calls with
  several statements are transactions.
\<close>

theorem failed_call_changes_nothing:
  assumes "store_call (Some e) s s'"
  shows "st_db s' = st_db s"
  using call_atomic [OF assms] by simp

lemma demo_delete: "delete_backend i demo_store = (Err NotFound, demo_store)"
  by (simp add: delete_backend_def delete_scoped_resource_def transaction_eval op_seq_def op_then_eval exec_delete_def
      delete_where_def delete_rows_Suc demo_store_def op_fail_def)

lemma failed_call_changes_nothing_witness:
  "fst (delete_backend ''/b'' demo_store) = Err NotFound \<and> st_db (snd (delete_backend ''/b'' demo_store)) = st_db demo_store"
proof -
  from demo_delete [of "''/b''"] have "store_call (failure (Err NotFound :: (store_error, unit) result)) demo_store demo_store"
    by (rule call_delete_backend)
  then have "store_call (Some NotFound) demo_store demo_store" by (simp add: failure_def)
  from failed_call_changes_nothing [OF this] show ?thesis by (simp add: demo_delete)
qed

section \<open>Secrets\<close>

lemma found_clean:
  assumes "store_ok s" and "map_of secret_keys t = Some ks" and "k \<in> set ks" and "find p (st_db s t) = Some r"
  shows "lacks k (doc_at ''document_json'' r)"
proof -
  have "r \<in> set (st_db s t)" using assms(4) by (auto simp: find_Some_iff)
  then have "row_clean t r" using assms(1) by (auto simp: store_ok_def list_all_iff)
  then show ?thesis using assms(2,3) by (auto simp: row_clean_def list_all_iff)
qed

lemma lacks_empty [simp]: "lacks k (JObj [])" "lacks k JNull"
  by (simp_all add: lacks_def lacks_property_def jget_def)

lemma document_clean:
  assumes "store_ok s" and "map_of secret_keys t = Some ks" and "k \<in> set ks"
  shows "lacks k (document_of t key (st_db s) r)" "lacks k (document_beside exact t key (st_db s) r)"
  using found_clean [OF assms]
  by (auto simp: document_of_def document_beside_def side_row_def split: option.splits)

lemma fetched_clean:
  assumes "store_ok s" and "map_of secret_keys t = Some ks" and "k \<in> set ks" and "get_by_id t f i s = Ok v"
    and "\<And>r. P (f (st_db s) r) \<longleftrightarrow> lacks k (doc_at ''document_json'' r)"
  shows "P v"
  using assms(4,5) found_clean [OF assms(1-3)] by (auto simp: get_by_id_def query_row_def split: option.splits)

lemma secret_tables:
  "map_of secret_keys ''named_value_documents'' = Some [''value'']"
  "map_of secret_keys ''certificate_documents'' = Some [''data'', ''password'']"
  "map_of secret_keys ''user_documents'' = Some [''password'', ''primaryKey'', ''secondaryKey'']"
  "map_of secret_keys ''subscription_documents'' = Some [''primaryKey'', ''secondaryKey'']"
  "map_of secret_keys ''authorization_servers'' = Some [''clientSecret'']"
  "map_of secret_keys ''openid_connect_providers'' = Some [''clientSecret'']"
  "map_of secret_keys ''identity_providers'' = Some [''clientSecret'']"
  "map_of secret_keys ''caches'' = Some [''connectionString'']"
  "map_of secret_keys ''loggers'' = Some [''credentials'']"
  by (simp_all add: secret_keys_def)

lemma documents_beside_clean:
  assumes "store_ok s"
  shows "get_named_value i s = Ok nv \<Longrightarrow> lacks ''value'' (named_value_document nv)"
    and "get_certificate i s = Ok ce \<Longrightarrow> lacks ''data'' (certificate_document ce) \<and> lacks ''password'' (certificate_document ce)"
    and "get_user i s = Ok us \<Longrightarrow> lacks ''password'' (user_document us) \<and> lacks ''primaryKey'' (user_document us)
      \<and> lacks ''secondaryKey'' (user_document us)"
    and "get_subscription i s = Ok su \<Longrightarrow> lacks ''primaryKey'' (subscription_document su)
      \<and> lacks ''secondaryKey'' (subscription_document su)"
  using assms
  by (auto simp: get_named_value_def get_certificate_def get_user_def get_subscription_def get_by_id_def query_row_def
      decode_named_value_def decode_certificate_def decode_user_def decode_subscription_def
      document_clean [OF _ secret_tables(1)] document_clean [OF _ secret_tables(2)] document_clean [OF _ secret_tables(3)]
      document_clean [OF _ secret_tables(4)] Let_def split: option.splits if_splits)

lemma documents_within_clean:
  assumes "store_ok s"
  shows "get_authorization_server i s = Ok as \<Longrightarrow> lacks ''clientSecret'' (authorization_server_document as)"
    and "get_openid_connect_provider i s = Ok op \<Longrightarrow> lacks ''clientSecret'' (openid_connect_provider_document op)"
    and "get_identity_provider i s = Ok ip \<Longrightarrow> lacks ''clientSecret'' (identity_provider_document ip)"
    and "get_cache i s = Ok ca \<Longrightarrow> lacks ''connectionString'' (cache_document ca)"
    and "get_logger i s = Ok lo \<Longrightarrow> lacks ''credentials'' (logger_document lo)"
  using found_clean [OF assms secret_tables(5)] found_clean [OF assms secret_tables(6)] found_clean [OF assms secret_tables(7)]
    found_clean [OF assms secret_tables(8)] found_clean [OF assms secret_tables(9)]
  by (auto simp: get_authorization_server_def get_openid_connect_provider_def get_identity_provider_def get_cache_def
      get_logger_def get_by_id_def query_row_def decode_authorization_server_def decode_openid_connect_provider_def
      decode_identity_provider_def decode_cache_def decode_logger_def split: option.splits)


text \<open>A stored value whose document came with its secret.\<close>

definition demo_user :: user where
  "demo_user = \<lparr>user_service_id = ''/s'', user_name = ''u'', user_first_name = [], user_last_name = [], user_email = ''e'',
     user_state = ''active'', user_note = [], user_identities = [], user_registration_at = 1, user_password = ''p'',
     user_primary_key = ''1'', user_secondary_key = ''2'', user_etag = [],
     user_document = JObj [(''password'', JStr ''p''), (''properties'', JObj [(''primaryKey'', JStr ''1'')])]\<rparr>"

lemma user_tables:
  "table_of store_schema ''users'' = table ''users'' [''id''] [[(''service_id'', False), (''email'', True)]] [cascade ''service_id'' ''scopes'']"
  "table_of store_schema ''user_documents'' = table ''user_documents'' [''user_id''] [] [cascade ''user_id'' ''users'']"
  by code_simp+


end
