(* ===== verification/StoreLookups.thy ===== *)
theory StoreLookups
  imports StorePromises
begin

text \<open>
  What a lookup finds after an upsert: the backends and the named values, found under their id in any casing,
  and the value that stays hidden when a row of another casing comes first.
\<close>

section \<open>Lookups after an upsert\<close>

lemma new_etag_run: "\<exists>e s1. new_etag s = (Ok e, s1) \<and> st_db s1 = st_db s"
  by (simp add: new_etag_def op_then_def new_opaque_id_def op_return_def)

lemma op_return_Ok [simp]: "op_return a s = (Ok b, s') \<longleftrightarrow> a = b \<and> s = s'"
  by (auto simp: op_return_def)

lemma new_etag_Ok: "new_etag s = (Ok e, s1) \<Longrightarrow> st_db s1 = st_db s"
  by (auto simp: new_etag_def op_then_def new_opaque_id_def op_return_def)

lemma upsert_backend_run:
  assumes "upsert_backend w s = (Ok v, s')"
  shows "\<exists>s1. st_db s1 = st_db s \<and> exec_insert ''backends'' (encode_backend v)
    (Update [''title'', ''description'', ''url'', ''protocol'', ''resource_id'', ''document_json'', ''etag'']) s1 = (Ok (), s')"
  using assms by (auto simp: upsert_backend_def op_then_Ok op_seq_Ok Let_def dest: new_etag_Ok)

text \<open>
  After a PUT of a backend that succeeds, a GET returns the very value that the PUT returned, unless a
  row of another resource has its name in another casing.
\<close>

theorem put_backend_is_found:
  assumes "upsert_backend w s = (Ok v, s')"
    and "\<forall>r \<in> set (st_db s ''backends''). names_row ''id'' (backend_arm_id v) r \<longrightarrow>
      (\<exists>u. r = encode_backend u \<and> backend_service_id u = backend_service_id v \<and> backend_name u = backend_name v)"
  shows "get_backend (backend_arm_id v) s' = Ok v"
proof -
  obtain s1 where s1: "st_db s1 = st_db s" and put: "exec_insert ''backends'' (encode_backend v)
      (Update [''title'', ''description'', ''url'', ''protocol'', ''resource_id'', ''document_json'', ''etag'']) s1 = (Ok (), s')"
    using upsert_backend_run [OF assms(1)] by blast
  have "backend_rows.unshadowed v s1" using assms(2) unfolding backend_rows.unshadowed_def s1 by (metis prod.inject)
  moreover have "decode_backend d (encode_backend v) = v" for d
    by (simp add: decode_backend_def encode_backend_def column_defs)
  ultimately show ?thesis using backend_rows.get_after_put [OF put] by (simp add: get_backend_def)
qed

text \<open>A backend of the service of \<open>demo_scoped\<close>, put there and put beside another casing of it.\<close>

definition demo_backend :: backend where
  "demo_backend = \<lparr>backend_service_id = ''/s'', backend_name = ''b'', backend_title = ''t'', backend_description = [],
     backend_url = ''http://b'', backend_protocol = ''http'', backend_resource_id = [], backend_etag = [], backend_document = JNull\<rparr>"

definition demo_shadowed :: store where
  "demo_shadowed = demo_scoped\<lparr>st_db := (st_db demo_scoped)
     (''backends'' := [encode_backend (demo_backend\<lparr>backend_name := ''B'', backend_url := ''http://old''\<rparr>)])\<rparr>"

lemma backend_table: "table_of store_schema ''backends'' = table ''backends'' [''id''] [] [cascade ''service_id'' ''scopes'']"
  by code_simp

lemmas put_backend_eval = upsert_backend_def op_then_def op_seq_def op_return_def exec_insert_def insert_row_def backend_table
  table_def cascade_def Let_def key_of_def col_def admissible_def parent_exists_def new_etag_def new_opaque_id_def encode_backend_def
  backend_arm_id_def demo_backend_def demo_scoped_def demo_store_def demo_shadowed_def

lemma demo_put: "fst (upsert_backend demo_backend demo_scoped) = Ok (demo_backend\<lparr>backend_etag := [CHR 0x22, CHR 0x22]\<rparr>)"
  by (simp add: put_backend_eval)

lemma demo_put_shadowed:
  "fst (upsert_backend demo_backend demo_shadowed) = Ok (demo_backend\<lparr>backend_etag := [CHR 0x22, CHR 0x22]\<rparr>)"
  by (simp add: put_backend_eval)

lemma demo_backend_id [simp]: "backend_arm_id (demo_backend\<lparr>backend_etag := e\<rparr>) = ''/s/backends/b''"
  by (simp add: backend_arm_id_def demo_backend_def)

lemma put_backend_is_found_witness:
  "get_backend ''/s/backends/b'' (snd (upsert_backend demo_backend demo_scoped)) =
   Ok (demo_backend\<lparr>backend_etag := [CHR 0x22, CHR 0x22]\<rparr>)"
proof -
  have "upsert_backend demo_backend demo_scoped =
      (Ok (demo_backend\<lparr>backend_etag := [CHR 0x22, CHR 0x22]\<rparr>), snd (upsert_backend demo_backend demo_scoped))"
    using demo_put by (metis prod.collapse)
  from put_backend_is_found [OF this] show ?thesis by (simp add: demo_scoped_def)
qed

text \<open>
  Primary keys are compared with their case and lookups ignore it: when the first row that a name
  finds was stored in another casing, a PUT under this name succeeds and a GET still returns the old value.
\<close>

theorem other_casing_hides_the_put:
  assumes "upsert_backend w s = (Ok v, s')"
    and "find (names_row ''id'' (backend_arm_id v)) (st_db s ''backends'') = Some r" and "text_at ''id'' r \<noteq> backend_arm_id v"
  shows "get_backend (backend_arm_id v) s' = get_backend (backend_arm_id v) s"
proof -
  obtain s1 where s1: "st_db s1 = st_db s" and put: "exec_insert ''backends'' (encode_backend v)
      (Update [''title'', ''description'', ''url'', ''protocol'', ''resource_id'', ''document_json'', ''etag'']) s1 = (Ok (), s')"
    using upsert_backend_run [OF assms(1)] by blast
  have "find (names_row ''id'' (backend_arm_id v)) (st_db s' ''backends'') = Some r"
    using backend_rows.put_beside [OF put] assms(2,3) s1 by simp
  then show ?thesis using assms(2) by (simp add: get_backend_def get_by_id_def query_row_def decode_backend_def)
qed

lemma other_casing_hides_the_put_witness:
  "get_backend ''/s/backends/b'' (snd (upsert_backend demo_backend demo_shadowed)) = get_backend ''/s/backends/b'' demo_shadowed \<and>
   map_option backend_url (case get_backend ''/s/backends/b'' demo_shadowed of Ok v \<Rightarrow> Some v | Err _ \<Rightarrow> None) = Some ''http://old''"
proof
  have run: "upsert_backend demo_backend demo_shadowed =
      (Ok (demo_backend\<lparr>backend_etag := [CHR 0x22, CHR 0x22]\<rparr>), snd (upsert_backend demo_backend demo_shadowed))"
    using demo_put_shadowed by (metis prod.collapse)
  have "find (names_row ''id'' ''/s/backends/b'') (st_db demo_shadowed ''backends'') =
      Some (encode_backend (demo_backend\<lparr>backend_name := ''B'', backend_url := ''http://old''\<rparr>))"
    by (simp add: demo_shadowed_def names_row_def text_at_def col_def encode_backend_def backend_arm_id_def demo_backend_def)
  with other_casing_hides_the_put [OF run]
  show "get_backend ''/s/backends/b'' (snd (upsert_backend demo_backend demo_shadowed)) = get_backend ''/s/backends/b'' demo_shadowed"
    by (simp add: text_at_def col_def encode_backend_def backend_arm_id_def demo_backend_def)
  show "map_option backend_url (case get_backend ''/s/backends/b'' demo_shadowed of Ok v \<Rightarrow> Some v | Err _ \<Rightarrow> None) = Some ''http://old''"
    by (simp add: get_backend_def get_by_id_def query_row_def demo_shadowed_def names_row_def text_at_def col_def encode_backend_def
        backend_arm_id_def demo_backend_def decode_backend_def)
qed


definition demo_named_value :: named_value where
  "demo_named_value = \<lparr>named_value_service_id = ''/s'', named_value_name = ''n'', named_value_display_name = ''n'',
     named_value_value = ''v'', named_value_tags = [''t''], named_value_secret = True, named_value_key_vault_secret_id = [],
     named_value_key_vault_identity_id = [], named_value_key_vault_status_code = [], named_value_key_vault_status_message = [],
     named_value_key_vault_status_time = zero_time, named_value_etag = [], named_value_document = JObj []\<rparr>"

lemma named_value_tables:
  "table_of store_schema ''named_values'' =
     table ''named_values'' [''id''] [[(''service_id'', False), (''display_name'', True)]] [cascade ''service_id'' ''scopes'']"
  "table_of store_schema ''named_value_documents'' =
     table ''named_value_documents'' [''named_value_id''] [] [cascade ''named_value_id'' ''named_values'']"
  by code_simp+

lemma demo_put_named_value:
  "fst (upsert_named_value demo_named_value demo_scoped) = Ok (demo_named_value\<lparr>named_value_etag := [CHR 0x22, CHR 0x22]\<rparr>)"
  by (simp add: upsert_named_value_def op_then_def op_seq_def op_return_def exec_insert_def insert_row_def named_value_tables
      table_def cascade_def Let_def key_of_def col_def admissible_def parent_exists_def unique_of_def new_etag_def new_opaque_id_def
      encode_named_value_def named_value_arm_id_def demo_named_value_def demo_scoped_def demo_store_def transaction_def
      document_row_def sanitize_named_value_document_def delete_key_def delete_property_def)


end
