(* ===== verification/StoreDeletions.thy ===== *)
theory StoreDeletions
  imports StorePromises
begin

text \<open>
  What \<open>deleteScopedResource\<close> removes, what its pattern reaches beside it, how a deletion can end and which
  deletion a foreign key refuses.
\<close>

section \<open>Deletions\<close>

lemma sql_like_percent: "sql_like p s \<Longrightarrow> sql_like (CHR ''%'' # p) s"
  by (cases s) auto

lemma sql_like_append: "sql_like p s \<Longrightarrow> sql_like (a @ p) (a @ s)"
  by (induction a) (auto intro: sql_like_percent)

lemma sql_like_all: "sql_like ''%'' s"
  by (induction s) auto

text \<open>
  C10. Deleting a resource removes its rows in every casing and every policy, tag association and
  diagnostic at or below it; the database stays sound, so nothing that refers to a removed row is left.
\<close>

theorem deletion_leaves_nothing_below:
  assumes "store_ok s" and "delete_scoped_resource t i s = (Ok (), s')"
  shows "db_ok store_schema (st_db s') \<and>
    (\<forall>r \<in> set (st_db s' t). \<not> names_row ''id'' i r) \<and>
    (\<forall>r \<in> set (st_db s' ''policies''). \<not> at_or_below ''scope_id'' i r) \<and>
    (\<forall>r \<in> set (st_db s' ''resource_tags''). \<not> at_or_below ''resource_id'' i r) \<and>
    (\<forall>r \<in> set (st_db s' ''diagnostics''). \<not> at_or_below ''scope_id'' i r)"
  using deleted_everywhere [OF assms] by (auto simp: store_ok_def)

text \<open>A store with a documentation article \<open>my_d\<close> and a policy below \<open>myXd\<close>.\<close>

definition demo_pages :: store where
  "demo_pages = demo_store\<lparr>st_db := (\<lambda>_. [])
     (''services'' := [[(''id'', TextC ''/s'')]],
      ''scopes'' := [[(''id'', TextC ''/s''), (''service_id'', TextC ''/s'')]],
      ''documentations'' := [[(''id'', TextC ''/d/my_d''), (''service_id'', TextC ''/s'')]],
      ''policies'' := [[(''scope_id'', TextC ''/d/myXd/p'')]])\<rparr>"

lemma page_tables:
  "table_of store_schema ''documentations'' = table ''documentations'' [''id''] [] [cascade ''service_id'' ''scopes'']"
  "table_of store_schema ''policies'' = table ''policies'' [''scope_id''] [] []"
  by code_simp+

lemma demo_pages_ok: "store_ok demo_pages"
proof -
  have "rows_ok tb (st_db demo_pages (tb_name tb)) \<and> refs_ok tb (st_db demo_pages)" if tb: "tb \<in> set store_schema" for tb
  proof -
    consider "tb = table ''services'' [''id''] [] []" | "tb = table ''scopes'' [''id''] [] [cascade ''service_id'' ''services'']"
      | "tb = table ''documentations'' [''id''] [] [cascade ''service_id'' ''scopes'']" | "tb = table ''policies'' [''scope_id''] [] []"
      | "tb_name tb \<notin> {''services'', ''scopes'', ''documentations'', ''policies''}"
      using table_of_in [OF store_schema_ok tb] demo_tables page_tables by force
    then show ?thesis
      by cases (auto simp: rows_ok_def refs_ok_def demo_pages_def demo_store_def table_def cascade_def parent_exists_def col_def)
  qed
  moreover have "row_clean t r" if "r \<in> set (st_db demo_pages t)" for t r
    using that by (auto simp: demo_pages_def row_clean_def secret_keys_def split: if_splits)
  ultimately show ?thesis
    by (simp add: store_ok_def db_ok_def list_all_iff) (simp add: demo_pages_def demo_store_def permutes_def)
qed

lemma leaf_tables:
  "children store_schema ''policies'' = []" "children store_schema ''resource_tags'' = []"
  "children store_schema ''diagnostics'' = []" "children store_schema ''api_version_set_documents'' = []"
  "children store_schema ''documentations'' = []"
  by code_simp+

lemma demo_delete_page: "fst (delete_scoped_resource ''documentations'' ''/d/my_d'' demo_pages) = Ok ()"
  by (simp add: delete_scoped_resource_def transaction_def op_seq_def op_then_def exec_delete_def delete_where_def delete_rows_Suc
      leaf_tables demo_pages_def demo_store_def names_row_def at_or_below_def text_at_def col_def op_return_def Let_def)

lemma demo_page_run: "delete_scoped_resource ''documentations'' ''/d/my_d'' demo_pages =
    (Ok (), snd (delete_scoped_resource ''documentations'' ''/d/my_d'' demo_pages))"
  using demo_delete_page by (metis prod.collapse)

lemma deletion_leaves_nothing_below_witness:
  "db_ok store_schema (st_db (snd (delete_scoped_resource ''documentations'' ''/d/my_d'' demo_pages))) \<and>
   \<not> (\<exists>r \<in> set (st_db (snd (delete_scoped_resource ''documentations'' ''/d/my_d'' demo_pages)) ''documentations'').
      names_row ''id'' ''/d/my_d'' r)"
  using deletion_leaves_nothing_below [OF demo_pages_ok demo_page_run] by blast

text \<open>
  The pattern that finds what is below a resource takes an underscore of its id for any character:
  deleting \<open>my_api\<close> also removes the policies below \<open>myXapi\<close>.
\<close>

theorem deletion_reaches_a_neighbour:
  assumes "store_ok s" and "delete_scoped_resource t (a @ ''_'' @ b) s = (Ok (), s')"
    and "r \<in> set (st_db s' ''policies'')"
  shows "text_at ''scope_id'' r \<noteq> a @ [c] @ b @ ''/'' @ x"
proof
  assume r: "text_at ''scope_id'' r = a @ [c] @ b @ ''/'' @ x"
  then have "col ''scope_id'' r \<noteq> NullC" by (auto simp: text_at_def)
  moreover have "sql_like ('''' @ ''_'' @ to_lower b @ ''/%'') ([lower_char c] @ to_lower b @ ''/'' @ to_lower x)"
    using sql_like_append [OF sql_like_append [OF sql_like_all], of "to_lower b" "''/''" "to_lower x"] by simp
  then have "sql_like (to_lower a @ ''_'' @ to_lower b @ ''/%'') (to_lower a @ [lower_char c] @ to_lower b @ ''/'' @ to_lower x)"
    using sql_like_append by auto
  ultimately have "at_or_below ''scope_id'' (a @ ''_'' @ b) r" using r by (simp add: at_or_below_def)
  then show False using deleted_everywhere [OF assms(1,2)] assms(3) by blast
qed

lemma deletion_reaches_a_neighbour_witness:
  "map (text_at ''scope_id'') (st_db demo_pages ''policies'') = [''/d/myXd/p''] \<and>
   ''/d/myXd/p'' \<notin> text_at ''scope_id'' ` set (st_db (snd (delete_scoped_resource ''documentations'' ''/d/my_d'' demo_pages)) ''policies'')"
proof
  show "map (text_at ''scope_id'') (st_db demo_pages ''policies'') = [''/d/myXd/p'']"
    by (simp add: demo_pages_def text_at_def col_def)
  have "delete_scoped_resource ''documentations'' (''/d/my'' @ ''_'' @ ''d'') demo_pages =
      (Ok (), snd (delete_scoped_resource ''documentations'' ''/d/my_d'' demo_pages))"
    using demo_page_run by simp
  note reached = deletion_reaches_a_neighbour [OF demo_pages_ok this, of _ "CHR ''X''" "''p''"]
  show "''/d/myXd/p'' \<notin> text_at ''scope_id'' ` set (st_db (snd (delete_scoped_resource ''documentations'' ''/d/my_d'' demo_pages)) ''policies'')"
  proof
    assume "''/d/myXd/p'' \<in> text_at ''scope_id'' ` set (st_db (snd (delete_scoped_resource ''documentations'' ''/d/my_d'' demo_pages)) ''policies'')"
    then obtain r where r: "''/d/myXd/p'' = text_at ''scope_id'' r"
        "r \<in> set (st_db (snd (delete_scoped_resource ''documentations'' ''/d/my_d'' demo_pages)) ''policies'')"
      by (rule imageE)
    from reached [OF r(2)] show False unfolding r(1) [symmetric] by simp
  qed
qed

lemma delete_rows_errors: "delete_rows n sch order t p d \<noteq> Err UniqueFailed"
proof (induction n arbitrary: t p d)
  case (Suc n)
  then show ?case unfolding delete_rows_Suc Let_def by (auto intro!: fold_result_ne split: if_splits)
qed simp

lemma exec_delete_result:
  assumes "permutes (st_order s)" and "exec_delete t p s = (Err e, s')"
  shows "e = SqlFailed ForeignKeyFailed"
proof -
  obtain x where x: "delete_where store_schema (st_order s) t p (st_db s) = Err x" "e = SqlFailed x"
    using assms(2) by (auto simp: exec_delete_def split: sum.splits)
  then have "x \<noteq> UniqueFailed" "x \<noteq> CascadeTooDeep"
    using delete_rows_errors delete_where_enough [OF store_parents_first assms(1)] unfolding delete_where_def by metis+
  then show ?thesis using x(2) by (cases x) auto
qed

lemma exec_delete_order: "st_order (snd (exec_delete t p s)) = st_order s"
  by (simp add: exec_delete_def split: sum.splits)

text \<open>
  C25. A deletion always comes to an end, with success, \<open>not found\<close> or a violated foreign key: no chain
  of cascades outgrows the schema and nothing is inserted on the way.
\<close>

theorem deletion_always_answers:
  assumes "permutes (st_order s)"
  shows "fst (delete_scoped_resource t i s) \<in> {Ok (), Err NotFound, Err (SqlFailed ForeignKeyFailed)}"
proof -
  have step: "fst (op_then (exec_delete u p) f s1) \<in> A"
    if "permutes (st_order s1)" "Err (SqlFailed ForeignKeyFailed) \<in> A"
      "\<And>n s2. permutes (st_order s2) \<Longrightarrow> fst (f n s2) \<in> A" for u p s1 A and f :: "nat \<Rightarrow> unit op"
  proof (cases "fst (exec_delete u p s1)")
    case (Inl e)
    then have "e = SqlFailed ForeignKeyFailed" using exec_delete_result [OF that(1)] by (metis prod.collapse)
    then show ?thesis using Inl that(2) by (simp add: op_then_eval)
  next
    case (Inr n)
    then show ?thesis using that exec_delete_order [of u p s1] by (simp add: op_then_eval)
  qed
  have "fst (transaction m s) = fst (m s)" for m :: "unit op" by (simp add: transaction_eval split: sum.splits)
  then show ?thesis
    unfolding delete_scoped_resource_def op_seq_def
    by (simp only:) (intro step assms; simp add: op_fail_def op_return_def)
qed

lemma deletion_always_answers_witness:
  "fst (delete_scoped_resource ''documentations'' ''/d/none'' demo_pages) \<in> {Ok (), Err NotFound, Err (SqlFailed ForeignKeyFailed)}"
  by (rule deletion_always_answers) (simp add: demo_pages_def demo_store_def permutes_def)

lemma fold_result_err:
  assumes "x \<in> set xs" and err: "\<And>b. I b \<Longrightarrow> \<exists>e. f x b = Err e"
    and inv: "\<And>y b b'. y \<in> set xs \<Longrightarrow> I b \<Longrightarrow> f y b = Ok b' \<Longrightarrow> I b'" and "I b"
  shows "\<exists>e. fold_result f xs b = Err e"
  using assms(1) inv \<open>I b\<close>
proof (induction xs arbitrary: b)
  case (Cons a xs)
  show ?case
  proof (cases "f a b")
    case (Inl e)
    then show ?thesis by simp
  next
    case (Inr b')
    then have "x \<noteq> a" using err [OF Cons.prems(3)] by auto
    then have x: "x \<in> set xs" using Cons.prems(1) by simp
    have b': "I b'" using Cons.prems(2) [of a b b'] Cons.prems(3) Inr by simp
    have "\<exists>e. fold_result f xs b' = Err e"
    proof (rule Cons.IH [OF x _ b'])
      fix y c c'
      assume "y \<in> set xs" "I c" "f y c = Ok c'"
      then show "I c'" using Cons.prems(2) [of y c c'] by simp
    qed
    then show ?thesis using Inr by simp
  qed
qed simp

lemma list_not_Nil: "x \<in> set xs \<Longrightarrow> xs \<noteq> []"
  by auto

lemma version_set_children:
  "children store_schema ''api_version_sets'' =
     [(''api_version_set_documents'', cascade ''version_set_id'' ''api_version_sets''),
      (''api_version_metadata'', restrict ''version_set_id'' ''api_version_sets'')]"
  by code_simp

lemma permutes_Nil: "permutes order \<Longrightarrow> order [] = []"
  by (metis permutes_def set_empty)

lemma delete_leaf:
  assumes "permutes order" and "children sch t = []"
  shows "delete_rows (Suc n) sch order t p d = Ok (if filter p (d t) = [] then d else d(t := filter (\<lambda>r. \<not> p r) (d t)))"
  using assms by (simp add: delete_rows_Suc Let_def permutes_Nil)

lemma exec_delete_leaf:
  assumes "permutes (st_order s)" and "children store_schema t = []"
  obtains n s' where "exec_delete t p s = (Ok n, s')" "st_order s' = st_order s" "\<And>u. u \<noteq> t \<Longrightarrow> st_db s' u = st_db s u"
proof -
  let ?d = "if filter p (st_db s t) = [] then st_db s else (st_db s)(t := filter (\<lambda>r. \<not> p r) (st_db s t))"
  have "exec_delete t p s = (Ok (length (filter p (st_db s t))), s\<lparr>st_db := ?d\<rparr>)"
    using delete_leaf [OF assms] by (simp add: exec_delete_def delete_where_def)
  then show ?thesis by (rule that) auto
qed

text \<open>
  C27. A version set that an API names is not deleted: the deletion fails on the foreign key and changes
  nothing.
\<close>

theorem used_version_set_stays:
  assumes "permutes (st_order s)"
    and "v \<in> set (st_db s ''api_version_sets'')" and "names_row ''id'' i v" and "col ''id'' v = TextC j"
    and "m \<in> set (st_db s ''api_version_metadata'')" and "col ''version_set_id'' m = TextC j"
  shows "fst (delete_api_version_set i s) = Err (SqlFailed ForeignKeyFailed)"
proof -
  have refused: "\<exists>e s'. exec_delete ''api_version_sets'' (names_row ''id'' i) s3 = (Err e, s')"
    if order: "permutes (st_order s3)" and db: "st_db s3 ''api_version_sets'' = st_db s ''api_version_sets''"
      "st_db s3 ''api_version_metadata'' = st_db s ''api_version_metadata''" for s3
  proof -
    let ?gone = "filter (names_row ''id'' i) (st_db s3 ''api_version_sets'')"
    have v: "v \<in> set ?gone" using assms(2,3) db by simp
    have "hits ?gone (restrict ''version_set_id'' ''api_version_sets'') m"
      using v assms(4,6) by (auto simp: hits_def list_ex_iff restrict_def intro!: bexI [of _ v])
    then have hit: "list_ex (hits ?gone (restrict ''version_set_id'' ''api_version_sets'')) (d ''api_version_metadata'')"
      if "d ''api_version_metadata'' = st_db s ''api_version_metadata''" for d
      using assms(5) that by (auto simp: list_ex_iff)
    let ?I = "\<lambda>d :: db. d ''api_version_metadata'' = st_db s ''api_version_metadata''"
    let ?step = "\<lambda>(child, fk) d2.
        if fk_cascades fk then delete_rows (length store_schema) store_schema (st_order s3) child (hits ?gone fk) d2
        else if list_ex (hits ?gone fk) (d2 child) then Err ForeignKeyFailed else Ok d2"
    have "store_schema \<noteq> []" by (simp add: store_schema_eq migrated_schema_def service_tables_def)
    then obtain k where long: "length store_schema = Suc k" by (metis length_0_conv not0_implies_Suc)
    have "set (st_order s3 (children store_schema ''api_version_sets'')) = set (children store_schema ''api_version_sets'')"
      using order by (simp add: permutes_def)
    also have "\<dots> = {(''api_version_set_documents'', cascade ''version_set_id'' ''api_version_sets''),
        (''api_version_metadata'', restrict ''version_set_id'' ''api_version_sets'')}"
      unfolding version_set_children by simp
    finally have children: "set (st_order s3 (children store_schema ''api_version_sets'')) =
        {(''api_version_set_documents'', cascade ''version_set_id'' ''api_version_sets''),
         (''api_version_metadata'', restrict ''version_set_id'' ''api_version_sets'')}" .
    have "\<exists>e. fold_result ?step (st_order s3 (children store_schema ''api_version_sets''))
        ((st_db s3)(''api_version_sets'' := filter (\<lambda>r. \<not> names_row ''id'' i r) (st_db s3 ''api_version_sets''))) = Err e"
    proof (rule fold_result_err [where I = ?I and x = "(''api_version_metadata'', restrict ''version_set_id'' ''api_version_sets'')"])
      fix y b b'
      assume "y \<in> set (st_order s3 (children store_schema ''api_version_sets''))" "?I b" "?step y b = Ok b'"
      note y = this
      have "y = (''api_version_set_documents'', cascade ''version_set_id'' ''api_version_sets'') \<or>
          y = (''api_version_metadata'', restrict ''version_set_id'' ''api_version_sets'')"
        using y(1) unfolding children by simp
      then show "?I b'"
      proof
        assume "y = (''api_version_set_documents'', cascade ''version_set_id'' ''api_version_sets'')"
        then show "?I b'"
          using y(2,3) by (auto simp: cascade_def long delete_leaf [OF order leaf_tables(4)] split: if_splits)
      next
        assume "y = (''api_version_metadata'', restrict ''version_set_id'' ''api_version_sets'')"
        then show "?I b'" using y(2,3) hit [of b, OF y(2)] by (simp add: restrict_def)
      qed
    next
      show "(''api_version_metadata'', restrict ''version_set_id'' ''api_version_sets'')
          \<in> set (st_order s3 (children store_schema ''api_version_sets''))"
        unfolding children by simp
    next
      fix b
      assume "?I b"
      from hit [of b, OF this] show "\<exists>e. ?step (''api_version_metadata'', restrict ''version_set_id'' ''api_version_sets'') b = Err e"
        by (simp add: restrict_def)
    next
      show "?I ((st_db s3)(''api_version_sets'' := filter (\<lambda>r. \<not> names_row ''id'' i r) (st_db s3 ''api_version_sets'')))"
        using db(2) by simp
    qed
    moreover have "?gone \<noteq> []" using v by (rule list_not_Nil)
    ultimately show ?thesis
      by (auto simp: exec_delete_def delete_where_def delete_rows_Suc Let_def split: sum.splits)
  qed
  obtain n1 s1 where s1: "exec_delete ''policies'' (at_or_below ''scope_id'' i) s = (Ok n1, s1)" "st_order s1 = st_order s"
      "\<And>u. u \<noteq> ''policies'' \<Longrightarrow> st_db s1 u = st_db s u"
    by (rule exec_delete_leaf [OF assms(1) leaf_tables(1), of "at_or_below ''scope_id'' i"]) (rule that)
  obtain n2 s2 where s2: "exec_delete ''resource_tags'' (at_or_below ''resource_id'' i) s1 = (Ok n2, s2)" "st_order s2 = st_order s1"
      "\<And>u. u \<noteq> ''resource_tags'' \<Longrightarrow> st_db s2 u = st_db s1 u"
    by (rule exec_delete_leaf [OF _ leaf_tables(2), of s1 "at_or_below ''resource_id'' i"]) (use s1(2) assms(1) in simp, rule that)
  obtain n3 s3 where s3: "exec_delete ''diagnostics'' (at_or_below ''scope_id'' i) s2 = (Ok n3, s3)" "st_order s3 = st_order s2"
      "\<And>u. u \<noteq> ''diagnostics'' \<Longrightarrow> st_db s3 u = st_db s2 u"
    by (rule exec_delete_leaf [OF _ leaf_tables(3), of s2 "at_or_below ''scope_id'' i"]) (use s1(2) s2(2) assms(1) in simp, rule that)
  obtain e s' where s': "exec_delete ''api_version_sets'' (names_row ''id'' i) s3 = (Err e, s')"
  proof -
    have "permutes (st_order s3)" "st_db s3 ''api_version_sets'' = st_db s ''api_version_sets''"
        "st_db s3 ''api_version_metadata'' = st_db s ''api_version_metadata''"
      using s1(2,3) s2(2,3) s3(2,3) assms(1) by simp_all
    then show ?thesis using refused [of s3] that by blast
  qed
  moreover have "permutes (st_order s3)" using s1(2) s2(2) s3(2) assms(1) by simp
  ultimately have "e = SqlFailed ForeignKeyFailed" using exec_delete_result by blast
  then show ?thesis
    using s1(1) s2(1) s3(1) s' by (simp add: delete_api_version_set_def delete_scoped_resource_def transaction_eval op_seq_def op_then_eval)
qed

definition demo_version_sets :: store where
  "demo_version_sets = demo_store\<lparr>st_db := (\<lambda>_. [])
     (''api_version_sets'' := [[(''id'', TextC ''/v'')]],
      ''api_version_metadata'' := [[(''api_id'', TextC ''/a''), (''version_set_id'', TextC ''/v'')]])\<rparr>"

lemma used_version_set_stays_witness:
  "fst (delete_api_version_set ''/V'' demo_version_sets) = Err (SqlFailed ForeignKeyFailed)"
  by (rule used_version_set_stays
      [of _ "[(''id'', TextC ''/v'')]" _ "''/v''" "[(''api_id'', TextC ''/a''), (''version_set_id'', TextC ''/v'')]"])
    (simp_all add: demo_version_sets_def demo_store_def permutes_def names_row_def text_at_def col_def)

end
