(* ===== verification/StoreRevisions.thy ===== *)
theory StoreRevisions
  imports StoreLookups
begin

text \<open>
  Releases, the dates of subscriptions and the cloning of revisions.
\<close>

section \<open>Releases\<close>

lemma op_fail_Ok [simp]: "op_fail e s \<noteq> (Ok b, s')"
  by (simp add: op_fail_def)

lemma op_read_Ok [simp]: "op_read f s = (Ok b, s') \<longleftrightarrow> b = f s \<and> s' = s"
  by (auto simp: op_read_def)

lemma op_lookup_Ok [simp]: "op_lookup f s = (Ok b, s') \<longleftrightarrow> f s = Ok b \<and> s' = s"
  by (auto simp: op_lookup_def)

lemma exec_update_Ok [simp]:
  "exec_update t p cs f s = (Ok n, s') \<longleftrightarrow>
     n = length (filter p (st_db s t)) \<and> s' = s\<lparr>st_db := update_rows t p cs f (st_db s)\<rparr>"
  by (auto simp: exec_update_def)

lemma col_written: "map_of old c \<noteq> None \<Longrightarrow> c \<in> set cs \<Longrightarrow> col c (write_columns cs new old) = col c new"
proof (induction old)
  case (Cons x old)
  then show ?case by (cases x) (auto simp: write_columns_def col_def)
qed simp

lemma revision_of_cong:
  "d ''apis'' = d' ''apis'' \<Longrightarrow> col ''api_id'' r = col ''api_id'' r' \<Longrightarrow> revision_of d service base r = revision_of d' service base r'"
  by (simp add: revision_of_def)

lemma release_run:
  assumes "upsert_api_release w s = (Ok v, s')" and "get_api (api_release_target_api_id w) s = Ok target"
  shows "\<exists>d. d ''apis'' = st_db s ''apis'' \<and> d ''api_revision_metadata'' = st_db s ''api_revision_metadata'' \<and>
    st_db s' = update_rows ''api_revision_metadata''
      (revision_of d (api_service_id target) (fst (split_revision (api_name target)))) [''is_current'']
      (\<lambda>r. [(''is_current'', bool_cell (names_row ''api_id'' (api_release_target_api_id w) r))]) d"
proof -
  from assms obtain s1 s2 s3 r1 r2 oc1 oc2 where
      s1: "st_db s1 = st_db s" and i1: "exec_insert ''api_releases'' r1 oc1 s1 = (Ok (), s2)"
      and i2: "exec_insert ''api_release_documents'' r2 oc2 s2 = (Ok (), s3)"
      and s': "st_db s' = update_rows ''api_revision_metadata''
        (revision_of (st_db s3) (api_service_id target) (fst (split_revision (api_name target)))) [''is_current'']
        (\<lambda>r. [(''is_current'', bool_cell (names_row ''api_id'' (api_release_target_api_id w) r))]) (st_db s3)"
    unfolding upsert_api_release_def promote_def Let_def
    by (auto simp: op_then_Ok op_seq_Ok split: if_splits dest!: new_etag_Ok)
  show ?thesis
    using s' s1 exec_insert_other [OF i1] exec_insert_other [OF i2] by (intro exI [of _ "st_db s3"]) simp
qed


section \<open>Subscriptions\<close>

lemma text_entry_stamp_other: "k \<noteq> c \<Longrightarrow> text_entry (stamp_date now carried c ps) k = text_entry ps k"
  by (simp add: text_entry_def)

lemma text_entry_stamp:
  "text_entry ps k = None \<Longrightarrow> text_entry carried k = Some x \<Longrightarrow> x \<noteq> [] \<Longrightarrow> text_entry (stamp_date now carried k ps) k = Some x"
  by (simp add: text_entry_def stamp_date_def)

lemma text_entry_nonempty: "text_entry kvs k = Some x \<Longrightarrow> x \<noteq> []"
  by (auto simp: text_entry_def split: option.splits json.splits if_splits)

lemma object_entries_delete:
  "k \<noteq> c \<Longrightarrow> map_of (object_entries (map_option (delete_key c) j)) k = map_of (object_entries j) k"
proof (cases j)
  case (Some x)
  assume "k \<noteq> c"
  then have "map_of (filter (\<lambda>(k', _). k' \<noteq> c) kvs) k = map_of kvs k" for kvs :: "(string \<times> json) list"
    by (induction kvs) auto
  then show ?thesis using Some by (cases x) (simp_all add: object_entries_def delete_key_def)
qed (simp add: object_entries_def)

lemma map_of_object_entries: "map_of (object_entries (Some j)) k = jget k j"
  by (simp add: object_entries_def jget_def split: json.splits)

lemma sanitized_dates:
  assumes "k \<in> {''createdDate'', ''startDate''}"
  shows "text_entry (object_entries (jget ''properties'' (sanitize_subscription_document j))) k =
    text_entry (object_entries (jget ''properties'' j)) k"
  using assms by (auto simp: sanitize_subscription_document_def text_entry_def object_entries_delete)

text \<open>
  C21. Replacing a subscription does not restart it: when the document of the PUT gives no start date (or
  no creation date), the one that is stored is in the document that the PUT stores.
\<close>

theorem stored_dates_survive:
  assumes run: "upsert_subscription w s = (Ok v, s')" and stored: "get_subscription (subscription_arm_id w) s = Ok old"
    and k: "k \<in> {''createdDate'', ''startDate''}"
    and date: "text_entry (object_entries (jget ''properties'' (subscription_document old))) k = Some x"
    and given: "text_entry (object_entries (jget ''properties'' (subscription_document w))) k = None"
  shows "text_entry (object_entries (jget ''properties'' (subscription_document v))) k = Some x"
proof -
  have doc: "subscription_document v =
      stamp_subscription_dates (sanitize_subscription_document (subscription_document w)) (subscription_arm_id w) s"
    using run by (auto simp: upsert_subscription_def op_then_Ok op_seq_Ok Let_def)
  have "text_entry (object_entries (map_of (object_entries (Some (sanitize_subscription_document (subscription_document w))))
      ''properties'')) k = None"
    using sanitized_dates [OF k] given by (simp add: map_of_object_entries)
  then show ?thesis
    using date k stored text_entry_nonempty [OF date]
    by (auto simp: doc stamp_subscription_dates_def Let_def jget_def object_entries_def [of "Some (JObj _)"]
        text_entry_stamp text_entry_stamp_other)
qed

section \<open>Revisions\<close>

lemma insert_fail_Ok:
  assumes "exec_insert t r Fail s = (Ok (), s')"
  shows "st_db s' t = st_db s t @ [r] \<and> (\<forall>u. u \<noteq> t \<longrightarrow> st_db s' u = st_db s u)"
proof -
  obtain d where "insert_row store_schema t r Fail (st_db s) = Ok d" "s' = s\<lparr>st_db := d\<rparr>"
    using exec_insert_Ok [OF assms] by blast
  then show ?thesis by (auto simp: insert_row_def Let_def split: option.splits)
qed

lemma each_insert_Ok:
  "op_each (\<lambda>r. exec_insert t (f r) Fail) rs s = (Ok (), s') \<Longrightarrow>
   st_db s' t = st_db s t @ map f rs \<and> (\<forall>u. u \<noteq> t \<longrightarrow> st_db s' u = st_db s u)"
proof (induction rs arbitrary: s)
  case (Cons r rs)
  then obtain s1 where s1: "exec_insert t (f r) Fail s = (Ok (), s1)"
      "op_each (\<lambda>r. exec_insert t (f r) Fail) rs s1 = (Ok (), s')"
    by (auto simp: op_seq_Ok)
  show ?case using insert_fail_Ok [OF s1(1)] Cons.IH [OF s1(2)] by simp
qed simp

lemma copy_rows_Ok:
  assumes "copy_rows t p f s = (Ok (), s')"
  shows "st_db s' t = st_db s t @ map f (filter p (st_db s t))" and "u \<noteq> t \<Longrightarrow> st_db s' u = st_db s u"
proof -
  have "op_each (\<lambda>r. exec_insert t (f r) Fail) (filter p (st_db s t)) s = (Ok (), s')"
    using assms by (auto simp: copy_rows_def op_then_Ok)
  from each_insert_Ok [OF this] show "st_db s' t = st_db s t @ map f (filter p (st_db s t))" "u \<noteq> t \<Longrightarrow> st_db s' u = st_db s u"
    by auto
qed

lemma copied_operations:
  assumes "copy_children source i s = (Ok (), s')" and "r \<in> set (st_db s ''operations'')" and "names_row ''api_id'' source r"
  shows "\<exists>q \<in> set (st_db s' ''operations''). col ''api_id'' q = TextC i \<and>
    (\<forall>c \<in> {''name'', ''display_name'', ''method'', ''url_template''}. col c q = col c r)"
proof -
  from assms(1) obtain e s1 s2 s3 s4 s5 s6 e2 e3 s7 where
      e: "new_etag s = (Ok e, s1)" and
      ops: "copy_rows ''operations'' (names_row ''api_id'' source) (\<lambda>r. [
        (''id'', TextC (i @ ''/operations/'' @ text_at ''name'' r)), (''api_id'', TextC i), (''name'', col ''name'' r),
        (''display_name'', col ''display_name'' r), (''method'', col ''method'' r), (''url_template'', col ''url_template'' r),
        (''etag'', TextC e)]) s1 = (Ok (), s2)" and
      rest: "copy_rows ''operation_documents'' (below_in ''operation_id'' (source @ ''/operations/%'')) (\<lambda>r.
        [(''operation_id'', TextC (moved source i (text_at ''operation_id'' r))), (''document_json'', col ''document_json'' r)])
        s2 = (Ok (), s3)" and e2: "new_etag s3 = (Ok e2, s4)" and
      schemas: "copy_rows ''api_schemas'' (names_row ''api_id'' source) (\<lambda>r. [
        (''id'', TextC (i @ ''/schemas/'' @ text_at ''name'' r)), (''api_id'', TextC i), (''name'', col ''name'' r),
        (''content_type'', col ''content_type'' r), (''document_json'', col ''document_json'' r), (''etag'', TextC e2)])
        s4 = (Ok (), s5)" and
      docs: "copy_rows ''api_schema_documents'' (below_in ''schema_id'' (source @ ''/schemas/%'')) (\<lambda>r.
        [(''schema_id'', TextC (moved source i (text_at ''schema_id'' r))), (''document_json'', col ''document_json'' r)])
        s5 = (Ok (), s6)" and e3: "new_etag s6 = (Ok e3, s7)" and
      defs: "copy_rows ''api_definitions'' (names_row ''api_id'' source) (\<lambda>r. [
        (''api_id'', TextC i), (''format'', col ''format'' r), (''value'', col ''value'' r), (''source_url'', col ''source_url'' r),
        (''etag'', TextC e3)]) s7 = (Ok (), s')"
    unfolding copy_children_def by (auto simp: op_then_Ok op_seq_Ok)
  have "st_db s' ''operations'' = st_db s2 ''operations''"
    using copy_rows_Ok(2) [OF rest] new_etag_Ok [OF e2] copy_rows_Ok(2) [OF schemas] copy_rows_Ok(2) [OF docs]
      new_etag_Ok [OF e3] copy_rows_Ok(2) [OF defs] by simp
  then show ?thesis
    using copy_rows_Ok(1) [OF ops] new_etag_Ok [OF e] assms(2,3)
    by (auto simp: col_def intro!: bexI [of _ "(\<lambda>r. [
        (''id'', TextC (i @ ''/operations/'' @ text_at ''name'' r)), (''api_id'', TextC i), (''name'', col ''name'' r),
        (''display_name'', col ''display_name'' r), (''method'', col ''method'' r), (''url_template'', col ''url_template'' r),
        (''etag'', TextC e)]) r"])
qed

lemma attachments_elsewhere:
  assumes "copy_attachments source i s = (Ok (), s')" and "u \<notin> {''resource_tags'', ''diagnostics'', ''policies''}"
  shows "st_db s' u = st_db s u"
proof -
  from assms(1) obtain p1 f1 s1 e s2 p2 f2 s3 e2 s4 p3 f3 where
      "copy_rows ''resource_tags'' p1 f1 s = (Ok (), s1)" "new_etag s1 = (Ok e, s2)"
      "copy_rows ''diagnostics'' p2 f2 s2 = (Ok (), s3)" "new_etag s3 = (Ok e2, s4)"
      "copy_rows ''policies'' p3 f3 s4 = (Ok (), s')"
    unfolding copy_attachments_def by (auto simp: op_then_Ok op_seq_Ok)
  then show ?thesis using assms(2) copy_rows_Ok(2) new_etag_Ok by simp
qed

lemma validate_Ok: "validate_api_version_set w s = (Ok x, s') \<Longrightarrow> s' = s"
  by (auto simp: validate_api_version_set_def op_then_Ok split: if_splits)

text \<open>
  C23. Cloning a revision gives the new revision every operation of its source, with the same name,
  title, method and template.
\<close>

theorem clone_has_every_operation:
  assumes "clone_api_revision source w s = (Ok v, s')"
    and "r \<in> set (st_db s ''operations'')" and "names_row ''api_id'' source r"
  shows "\<exists>q \<in> set (st_db s' ''operations''). col ''api_id'' q = TextC (api_arm_id v) \<and>
    (\<forall>c \<in> {''name'', ''display_name'', ''method'', ''url_template''}. col c q = col c r)"
proof -
  from assms(1) obtain s0 e s1 s2 s3 s4 s5 s6 r1 r2 r3 r4 where
      v: "validate_api_version_set w s = (Ok (), s0)" "new_etag s0 = (Ok e, s1)" and
      ins: "exec_insert ''apis'' r1 Fail s1 = (Ok (), s2)" "exec_insert ''api_documents'' r2 Fail s2 = (Ok (), s3)"
        "exec_insert ''api_revision_metadata'' r3 Fail s3 = (Ok (), s4)"
        "exec_insert ''api_version_metadata'' r4 Fail s4 = (Ok (), s5)" and
      copy: "copy_children source (api_arm_id v) s5 = (Ok (), s6)" "copy_attachments source (api_arm_id v) s6 = (Ok (), s')"
    unfolding clone_api_revision_def Let_def by (auto simp: op_then_Ok op_seq_Ok)
  have "st_db s5 ''operations'' = st_db s ''operations''"
    using validate_Ok [OF v(1)] new_etag_Ok [OF v(2)] exec_insert_other [OF ins(1)] exec_insert_other [OF ins(2)]
      exec_insert_other [OF ins(3)] exec_insert_other [OF ins(4)] by simp
  moreover have "st_db s' ''operations'' = st_db s6 ''operations''"
    using attachments_elsewhere [OF copy(2)] by simp
  ultimately show ?thesis using copied_operations [OF copy(1)] assms(2,3) by simp
qed

section \<open>Examples\<close>

text \<open>An API with two revisions, of which the first is current.\<close>

definition demo_api :: api where
  "demo_api = \<lparr>api_service_id = ''/s'', api_name = ''a'', api_display_name = ''a'', api_path = ''a'', api_service_url = [],
     api_protocols = [], api_subscription_required = True, api_revision = ''1'', api_revision_description = [],
     api_is_current = True, api_created_at = 1, api_updated_at = 1, api_version = [], api_version_set_id = [], api_etag = [],
     api_document = JNull\<rparr>"

definition demo_api_2 :: api where
  "demo_api_2 = demo_api\<lparr>api_name := ''a;rev=2'', api_revision := ''2'', api_is_current := False\<rparr>"

definition demo_revisions :: store where
  "demo_revisions = demo_scoped\<lparr>st_db := (st_db demo_scoped)
     (''apis'' := [encode_api demo_api, encode_api demo_api_2],
      ''api_revision_metadata'' := [revision_row demo_api, revision_row demo_api_2],
      ''operations'' := [[(''id'', TextC ''/s/apis/a/operations/o''), (''api_id'', TextC ''/s/apis/a''), (''name'', TextC ''o''),
        (''display_name'', TextC ''O''), (''method'', TextC ''GET''), (''url_template'', TextC ''/x''), (''etag'', TextC [])]])\<rparr>"

definition demo_release :: api_release where
  "demo_release = \<lparr>api_release_api_id = ''/s/apis/a'', api_release_name = ''r'', api_release_target_api_id = ''/s/apis/a;rev=2'',
     api_release_notes = [], api_release_created_at = 0, api_release_updated_at = 0, api_release_etag = [],
     api_release_document = JNull\<rparr>"

lemma release_tables:
  "table_of store_schema ''api_releases'' =
     table ''api_releases'' [''id''] [] [cascade ''api_id'' ''apis'', cascade ''target_api_id'' ''apis'']"
  "table_of store_schema ''api_release_documents'' =
     table ''api_release_documents'' [''release_id''] [] [cascade ''release_id'' ''api_releases'']"
  by code_simp+

lemmas put_eval = op_then_def op_seq_def op_return_def op_fail_def op_read_def op_lookup_def transaction_def exec_insert_def
  insert_row_def table_def cascade_def restrict_def Let_def key_of_def col_def admissible_def parent_exists_def new_etag_def
  new_opaque_id_def document_row_def get_by_id_def query_row_def names_row_def text_at_def demo_scoped_def demo_store_def

lemmas demo_api_eval = demo_revisions_def demo_api_def demo_api_2_def encode_api_def api_arm_id_def revision_row_def

lemma demo_target: "\<exists>t. get_api ''/s/apis/a;rev=2'' demo_revisions = Ok t \<and> api_name t = ''a;rev=2'' \<and> api_service_id t = ''/s''"
  by (simp add: get_api_def put_eval demo_api_eval decode_api_def)

lemma demo_split: "split_revision ''a;rev=2'' = (''a'', ''2'')" "split_revision ''a'' = (''a'', ''1'')"
  by code_simp+

lemma demo_released: "\<exists>v. fst (upsert_api_release demo_release demo_revisions) = Ok v \<and> api_release_target_api_id v = ''/s/apis/a;rev=2''"
proof -
  obtain t where t: "get_api ''/s/apis/a;rev=2'' demo_revisions = Ok t" "api_name t = ''a;rev=2''" "api_service_id t = ''/s''"
    using demo_target by blast
  show ?thesis
    by (simp add: upsert_api_release_def op_then_def [of "op_lookup (get_api _)"] op_lookup_def demo_release_def t demo_split,
      simp add: put_eval demo_api_eval release_tables get_api_release_def t demo_split trim_prefix_def
        encode_api_release_def api_release_arm_id_def promote_def exec_update_def revision_of_def below_in_def)
qed



definition demo_subscription :: subscription where
  "demo_subscription = \<lparr>subscription_service_id = ''/s'', subscription_name = ''u'', subscription_display_name = ''u'',
     subscription_scope = ''/apis'', subscription_state = [], subscription_primary_key = ''1'',
     subscription_secondary_key = ''2'', subscription_etag = [], subscription_document = JObj []\<rparr>"

definition demo_subscribed :: store where
  "demo_subscribed = demo_scoped\<lparr>st_db := (st_db demo_scoped)
     (''subscriptions'' := [encode_subscription demo_subscription],
      ''subscription_documents'' := [document_row ''subscription_id'' ''/s/subscriptions/u''
        (JObj [(''properties'', JObj [(''startDate'', JStr ''2020'')])])])\<rparr>"

lemma subscription_tables:
  "table_of store_schema ''subscriptions'' = table ''subscriptions'' [''id''] [] [cascade ''service_id'' ''scopes'']"
  "table_of store_schema ''subscription_documents'' =
     table ''subscription_documents'' [''subscription_id''] [] [cascade ''subscription_id'' ''subscriptions'']"
  by code_simp+

lemmas demo_subscription_eval = demo_subscribed_def demo_subscription_def encode_subscription_def subscription_arm_id_def

lemma demo_resubscribed: "\<exists>v. fst (upsert_subscription demo_subscription demo_subscribed) = Ok v"
  by (simp add: upsert_subscription_def op_then_def [of "op_read _"] op_read_def;
      simp add: put_eval demo_subscription_eval subscription_tables write_columns_def)

lemma stored_dates_survive_witness:
  "\<exists>v. fst (upsert_subscription demo_subscription demo_subscribed) = Ok v \<and>
     text_entry (object_entries (jget ''properties'' (subscription_document v))) ''startDate'' = Some ''2020''"
proof -
  obtain v where v: "upsert_subscription demo_subscription demo_subscribed =
      (Ok v, snd (upsert_subscription demo_subscription demo_subscribed))"
    using demo_resubscribed by (metis prod.collapse)
  obtain old where old: "get_subscription (subscription_arm_id demo_subscription) demo_subscribed = Ok old"
      "text_entry (object_entries (jget ''properties'' (subscription_document old))) ''startDate'' = Some ''2020''"
    by (simp add: get_subscription_def put_eval demo_subscription_eval decode_subscription_def document_beside_def side_row_def
        doc_at_def jget_def object_entries_def text_entry_def)
  have "text_entry (object_entries (jget ''properties'' (subscription_document demo_subscription))) ''startDate'' = None"
    by (simp add: demo_subscription_def jget_def object_entries_def text_entry_def)
  from stored_dates_survive [OF v old(1) _ old(2) this] show ?thesis using v by (metis fst_conv insertI1 insertI2)
qed

lemma clone_tables:
  "table_of store_schema ''apis'' = table ''apis'' [''id''] [] [cascade ''service_id'' ''scopes'']"
  "table_of store_schema ''api_documents'' = table ''api_documents'' [''api_id''] [] [cascade ''api_id'' ''apis'']"
  "table_of store_schema ''api_revision_metadata'' = table ''api_revision_metadata'' [''api_id''] [] [cascade ''api_id'' ''apis'']"
  "table_of store_schema ''api_version_metadata'' =
     table ''api_version_metadata'' [''api_id''] [] [cascade ''api_id'' ''apis'', restrict ''version_set_id'' ''api_version_sets'']"
  "table_of store_schema ''operations'' = table ''operations'' [''id''] [] [cascade ''api_id'' ''apis'']"
  by code_simp+

lemma demo_cloned: "\<exists>v. fst (clone_api_revision ''/s/apis/a'' (demo_api\<lparr>api_name := ''a;rev=3''\<rparr>) demo_revisions) = Ok v \<and>
    api_arm_id v = ''/s/apis/a;rev=3''"
  by (simp add: clone_api_revision_def validate_api_version_set_def put_eval demo_api_eval clone_tables copy_children_def
      copy_attachments_def copy_rows_def version_row_def)

lemma clone_has_every_operation_witness:
  "\<exists>q \<in> set (st_db (snd (clone_api_revision ''/s/apis/a'' (demo_api\<lparr>api_name := ''a;rev=3''\<rparr>) demo_revisions)) ''operations'').
     col ''api_id'' q = TextC ''/s/apis/a;rev=3'' \<and> col ''method'' q = TextC ''GET''"
proof -
  obtain v where v: "clone_api_revision ''/s/apis/a'' (demo_api\<lparr>api_name := ''a;rev=3''\<rparr>) demo_revisions =
      (Ok v, snd (clone_api_revision ''/s/apis/a'' (demo_api\<lparr>api_name := ''a;rev=3''\<rparr>) demo_revisions))"
      "api_arm_id v = ''/s/apis/a;rev=3''"
    using demo_cloned by (metis prod.collapse)
  let ?r = "hd (st_db demo_revisions ''operations'')"
  have r: "?r \<in> set (st_db demo_revisions ''operations'')" "names_row ''api_id'' ''/s/apis/a'' ?r" "col ''method'' ?r = TextC ''GET''"
    by (simp_all add: demo_revisions_def names_row_def text_at_def col_def)
  from clone_has_every_operation [OF v(1) r(1,2)] v(2) r(3) show ?thesis by auto
qed

end
