(* ===== verification/Spec2Isabelle.thy ===== *)
theory Spec2Isabelle
  imports Clock RbacArm Conditional Collections GatewayFlow GatewayCircuit GatewayAccess ExprFacts StoreLookups StoreDeletions StoreRevisions
begin

text \<open>
  A model of the Azure API Management emulator (the Go module under \<open>src/\<close>) and the theorems that
  make it correct.

  The program has two halves.  The management plane (\<open>internal/arm\<close>) serves ARM requests over
  resources kept in SQLite (\<open>internal/store\<close>): it authorizes them (\<open>internal/rbac\<close>), enforces
  conditional headers, and answers collections with OData options.  The gateway
  (\<open>internal/gateway\<close>) compiles the policy documents of the resources (\<open>internal/policy\<close>) into
  plans and runs them around calls to a backend, on a virtual clock (\<open>internal/clock\<close>).

  Theories, in the order of the dependencies:

  \<^item> \<open>ApimPrelude\<close>: results with errors, the Go string functions the program uses, decoded JSON,
    times and durations of 64 bits, and their lemmas.
  \<^item> \<open>Clock\<close> (\<open>clock.go\<close>): the virtual clock as a state with \<open>Advance\<close>, \<open>SetOffset\<close>, \<open>Freeze\<close> and
    \<open>Unfreeze\<close>; it refines an abstract clock.
  \<^item> \<open>Rbac\<close> (\<open>rbac.go\<close>): matching of actions and scopes, and \<open>Authorize\<close>; both matchers against
    declarative relations.  \<open>RbacRoles\<close> (\<open>builtin.go\<close>): the built-in roles and \<open>ActionFor\<close>.
  \<^item> \<open>RbacArm\<close> (\<open>authorize.go\<close>, \<open>authorization.go\<close>, the role assignment table of \<open>store.go\<close>, the
    first branch of \<open>ServeHTTP\<close>): enforcement and the endpoints that write assignments.
  \<^item> \<open>Conditional\<close> (\<open>conditional.go\<close>): entity tags, \<open>If-Match\<close> and \<open>If-None-Match\<close>.
  \<^item> \<open>FilterLex\<close>, \<open>ODataFilter\<close>, \<open>Collections\<close> (\<open>collection.go\<close>): the lexer, parser, audit and
    evaluation of \<open>$filter\<close>; selectors, ordering and paging.
  \<^item> \<open>GoParse\<close>: the \<open>strconv\<close>, \<open>fmt\<close> and \<open>time\<close> parsers the compiler calls.
  \<^item> \<open>PolicyTree\<close>, \<open>PolicyAction\<close>, \<open>PolicyCompile\<close> (\<open>policy.go\<close>, \<open>lasterror.go\<close>,
    \<open>policy_sections.go\<close>, \<open>limit_attributes.go\<close>, \<open>llm.go\<close>): the element tree of a document and the
    expansion of fragments, compiled actions and plans, and the compiler.
  \<^item> \<open>Http\<close>: headers, query values, requests and responses of \<open>net/http\<close> as far as they are used.
  \<^item> \<open>PolicyState\<close>, \<open>PolicyTokens\<close>, \<open>PolicyHandlers\<close>, \<open>PolicyReplies\<close>, \<open>PolicyLimits\<close>
    (\<open>policy.go\<close>, \<open>llm.go\<close>): the state policies run on, and a handler per policy.  \<open>PolicyFrame\<close>
    proves what no handler touches (locale \<open>quiet_services\<close>); \<open>PolicyRun\<close> is \<open>Execute\<close> with the
    policies that hold others, the location of errors and the bookkeeping of slots (locale
    \<open>token_services\<close>).
  \<^item> \<open>LlmUsage\<close> (\<open>internal/llm\<close>): token estimates and the usage a model reports.  \<open>Calendar\<close>: years,
    months and weekdays of \<open>time.Time\<close>.
  \<^item> \<open>GatewayRuntime\<close> (\<open>gateway.go\<close>): the mutable state of the gateway.  \<open>GatewayLimits\<close> (locale
    \<open>sliding_budget\<close>, interpreted for calls and for bytes), \<open>GatewayTokens\<close> (\<open>gateway/llm.go\<close>),
    \<open>GatewayConcurrency\<close> (an inductive relation for the interleavings of requests) and
    \<open>GatewayCircuit\<close>: what its counters, quotas, semaphores and breakers guarantee over any run.
  \<^item> \<open>GatewayFlow\<close> (\<open>ServeHTTP\<close>): one exchange, from the inbound section to the deferred releases, on
    the environment the gateway binds (interpretation \<open>gw\<close> of \<open>token_services\<close>).
  \<^item> \<open>GatewayPlans\<close> (\<open>gateway.go\<close>): composition of plans at \<open><base/>\<close>, named values, backends.
    \<open>GatewayActivate\<close> (\<open>activate\<close>, rows of \<open>internal/model\<close>): the snapshot the runtime serves from the
    rows of the store.  \<open>GatewayRoute\<close> (\<open>ServeHTTP\<close> up to the inbound section): hosts, routes,
    operations, subscription keys.  \<open>GatewayAccess\<close>: what activation and admission give together.

  \<^item> \<open>GoFloat\<close>: \<open>float64\<close> as exact rationals that every operation rounds, and its text.  \<open>ExprLex\<close>
    (\<open>expression/lex.go\<close>) and \<open>ExprScan\<close>: the lexer of policy expressions, its totality, quoted and
    interpolated strings.  \<open>ExprParse\<close> (\<open>parse.go\<close>) and \<open>ExprParseTotal\<close>: the grammar, and that parsing
    always answers.
  \<^item> \<open>ExprValue\<close> (\<open>value.go\<close>, \<open>stringmembers.go\<close>, \<open>collections.go\<close>): values and the members of strings
    and lists.  \<open>ExprEval\<close> (\<open>parse.go\<close>): operators, calls, statements.  \<open>ExprFacts\<close>: the bound on
    calls, blocks that return, locals.

  \<^item> \<open>Sql\<close>: rows, keys and foreign keys, \<open>INSERT ... ON CONFLICT\<close>, \<open>UPDATE\<close>, \<open>DELETE\<close> with its
    cascades, \<open>LIKE\<close>, and what they keep of a sound database.  \<open>StoreSchema\<close> (\<open>migrate\<close>, \<open>adoptScopes\<close>
    of \<open>store.go\<close>): the sixty tables and the adoption of scopes.  \<open>StoreCore\<close>: the state of a store,
    transactions, random values, lookups, \<open>deleteScopedResource\<close>; the locale \<open>stored_rows\<close> says what a
    lookup finds after an upsert and is interpreted on six tables.
  \<^item> \<open>StoreConfig\<close>, \<open>StoreAccess\<close>, \<open>StoreCatalog\<close>, \<open>StorePeople\<close>, \<open>StoreApis\<close>, \<open>StoreServices\<close>
    (\<open>store.go\<close>, \<open>gateways.go\<close>, \<open>networking.go\<close>, the structs of \<open>model.go\<close>): for every kind of
    resource its record, its row, and the functions \<open>Upsert\<close>, \<open>Get\<close>, \<open>List\<close> and \<open>Delete\<close> under
    these names; links, import, revisions and releases.  Each operation is shown to keep the store
    sound (\<open>sound_op\<close>) and to change nothing when it fails (\<open>atomic\<close>).
  \<^item> \<open>StoreFacts\<close>: one call as an inductive relation with a rule per operation, runs by rule
    induction.  \<open>StorePromises\<close>, \<open>StoreLookups\<close>, \<open>StoreDeletions\<close>, \<open>StoreRevisions\<close>: the properties.

  The values of \<open>crypto/rand\<close>, the clock and the order in which SQLite runs the actions of foreign
  keys are parts of the state of a store, and the theorems hold for all of them.  A query without
  \<open>ORDER BY\<close> visits rows in the order of their insertion.  Documents are kept as decoded JSON, so the
  encoding to text and back is not a step; that \<open>Upsert\<close> deletes secrets from the document of the
  caller itself, not only from what it stores, is not modelled.  The cascades of a deletion recurse
  with a bound of one more than the number of tables, which \<open>delete_where_enough\<close> shows to suffice,
  since the schema lists parents before children.

  Strings are byte strings as in Go; case folding is that of ASCII.  A Go map that the code only
  looks up in is a partial function or an association list; where the code iterates over one, the
  model iterates over the list in the order given, and a theorem about it holds for every order.
  Errors are values of sum types, and an out-of-range access of the filter parser is the error
  \<open>FPanic\<close>, which \<open>filter_parser_total\<close> shows never to occur.  Bounds: the filter parser nests at
  most once per token, and the chains of \<open>and\<close> and \<open>or\<close> consume a token per round, so the number of
  tokens bounds both; the parsers of the standard library and of XML are arguments or are written out
  in \<open>GoParse\<close>.

  The execution of a plan recurses on the plan itself, with an explicit measure, so no fuel is
  needed.  Calls of function values in expressions are bounded by a number, which
  \<open>call_bound_irrelevant\<close> shows to change nothing once it is enough; for some programs none is.  The
  lexer and the parser of expressions recurse with bounds in the bytes that remain, which
  \<open>expression_parser_total\<close> shows to suffice.  In the execution of policies the evaluator of
  expressions is a parameter; it, the decoders of JSON, XML and JWT, the backend and the
  credential services are functions of the environments \<open>policy_env\<close> and \<open>outside\<close>; the hypotheses on
  them say only which part of the state they leave alone, and the environments that the gateway binds
  satisfy them by construction.

  Not modelled: the remaining resource handlers of \<open>internal/arm\<close>, which translate between ARM
  documents and the records of the store; faults of the disk and of the driver of SQLite; the objects
  behind \<open>context\<close> in expressions (the record \<open>host\<close>); the protocols (GraphQL, gRPC, MCP, SOAP,
  WebSocket); certificates and the HTTP server.
\<close>

end
